(* ===== verification/Prelude.thy ===== *)
theory Prelude
  imports Main "HOL-Library.AList" "HOL-Library.Char_ord" "HOL-Library.List_Lexorder"
    "HOL-Library.Sublist"
begin

text \<open>
  What every component shares: hash maps as association lists whose order is the iteration
  order of the map, the saturating arithmetic of 64-bit time stamps, and the interface of a
  state machine with an invariant (\<open>guarded_machine\<close>), which the stateful components interpret.
\<close>

section \<open>Hash maps\<close>

text \<open>
  A \<open>HashMap<K, V>\<close> is an association list. Rust leaves the iteration order of a map
  unspecified; here it is the order of the list, and the lemmas hold for every order because
  they quantify over every list with distinct keys. \<open>hm_modify\<close> is what the code does through
  \<open>get_mut\<close>: it changes the value of a key that is present and nothing else.
\<close>

type_synonym ('k, 'v) hmap = "('k \<times> 'v) list"

abbreviation hm_get :: "('k, 'v) hmap \<Rightarrow> 'k \<Rightarrow> 'v option" where
  "hm_get m k \<equiv> map_of m k"

abbreviation hm_insert :: "'k \<Rightarrow> 'v \<Rightarrow> ('k, 'v) hmap \<Rightarrow> ('k, 'v) hmap" where
  "hm_insert k v m \<equiv> AList.update k v m"

abbreviation hm_remove :: "'k \<Rightarrow> ('k, 'v) hmap \<Rightarrow> ('k, 'v) hmap" where
  "hm_remove k m \<equiv> AList.delete k m"

abbreviation hm_keys :: "('k, 'v) hmap \<Rightarrow> 'k list" where
  "hm_keys m \<equiv> map fst m"

abbreviation hm_values :: "('k, 'v) hmap \<Rightarrow> 'v list" where
  "hm_values m \<equiv> map snd m"

abbreviation hm_wf :: "('k, 'v) hmap \<Rightarrow> bool" where
  "hm_wf m \<equiv> distinct (map fst m)"

definition hm_has :: "('k, 'v) hmap \<Rightarrow> 'k \<Rightarrow> bool" where
  "hm_has m k = (map_of m k \<noteq> None)"

definition hm_modify :: "'k \<Rightarrow> ('v \<Rightarrow> 'v) \<Rightarrow> ('k, 'v) hmap \<Rightarrow> ('k, 'v) hmap" where
  "hm_modify k f m = map (\<lambda>(k', v). if k' = k then (k', f v) else (k', v)) m"

definition hm_map_values :: "('v \<Rightarrow> 'v) \<Rightarrow> ('k, 'v) hmap \<Rightarrow> ('k, 'v) hmap" where
  "hm_map_values f m = map (\<lambda>(k, v). (k, f v)) m"

named_theorems hm_simps \<open>how the map operations act on lookups and keys\<close>

lemma hm_get_insert [hm_simps]: "hm_get (hm_insert k v m) = (map_of m)(k \<mapsto> v)"
  by (simp add: update_conv' fun_upd_def)

lemma hm_get_remove [hm_simps]: "hm_get (hm_remove k m) = (map_of m)(k := None)"
  by (simp add: delete_conv' fun_upd_def)

lemma hm_keys_modify [simp, hm_simps]: "map fst (hm_modify k f m) = map fst m"
  by (induction m) (auto simp: hm_modify_def)

lemma hm_get_modify [hm_simps]:
  "hm_get (hm_modify k f m) = (map_of m)(k := map_option f (map_of m k))"
  by (induction m) (auto simp: hm_modify_def fun_eq_iff split: if_splits)

lemma hm_keys_map_values [simp, hm_simps]: "map fst (hm_map_values f m) = map fst m"
  by (induction m) (auto simp: hm_map_values_def)

lemma hm_get_map_values [hm_simps]:
  "hm_get (hm_map_values f m) = map_option f \<circ> map_of m"
  by (induction m) (auto simp: hm_map_values_def fun_eq_iff split: if_splits)

lemma hm_length_map_values [simp]: "length (hm_map_values f m) = length m"
  by (simp add: hm_map_values_def)

lemma hm_map_values_Nil_iff [simp]: "hm_map_values f m = [] \<longleftrightarrow> m = []"
  by (simp add: hm_map_values_def)

lemma hm_has_iff: "hm_has m k \<longleftrightarrow> k \<in> set (map fst m)"
  by (simp add: hm_has_def map_of_eq_None_iff image_iff)

lemma hm_wf_insert [simp]: "hm_wf m \<Longrightarrow> hm_wf (hm_insert k v m)"
  by (rule distinct_update)

lemma hm_wf_remove [simp]: "hm_wf m \<Longrightarrow> hm_wf (hm_remove k m)"
  by (rule distinct_delete)

lemma hm_set_insert: "hm_wf m \<Longrightarrow> set (hm_insert k v m) = insert (k, v) {p \<in> set m. fst p \<noteq> k}"
  by (induction m) (auto simp: image_iff)

lemma hm_set_remove: "set (hm_remove k m) = {p \<in> set m. fst p \<noteq> k}"
  by (auto simp: AList.delete_eq)

lemma hm_get_Some_mem: "hm_get m k = Some v \<Longrightarrow> (k, v) \<in> set m"
  by (rule map_of_SomeD)

lemma hm_mem_get: "hm_wf m \<Longrightarrow> (k, v) \<in> set m \<Longrightarrow> hm_get m k = Some v"
  by (rule map_of_is_SomeI)

lemma hm_remove_absent [simp]: "hm_get m k = None \<Longrightarrow> hm_remove k m = m"
  by (simp add: AList.delete_notin_dom image_iff map_of_eq_None_iff)

lemma hm_remove_insert: "hm_get m k = None \<Longrightarrow> hm_remove k (hm_insert k v m) = m"
  by (induction m) (auto split: if_splits)

lemma hm_remove_eq_filter: "hm_remove k m = filter (\<lambda>p. fst p \<noteq> k) m"
  by (auto simp: AList.delete_eq intro!: filter_cong)

text \<open>Sums over the values of a map, the shape of every counter the components report.\<close>

definition hm_sum :: "('v \<Rightarrow> nat) \<Rightarrow> ('k, 'v) hmap \<Rightarrow> nat" where
  "hm_sum f m = sum_list (map (f \<circ> snd) m)"

lemma hm_sum_Nil [simp]: "hm_sum f [] = 0"
  by (simp add: hm_sum_def)

lemma hm_sum_Cons [simp]: "hm_sum f ((k, v) # m) = f v + hm_sum f m"
  by (simp add: hm_sum_def)

lemma hm_sum_remove:
  "hm_wf m \<Longrightarrow> hm_sum f (hm_remove k m) + (case hm_get m k of None \<Rightarrow> 0 | Some v \<Rightarrow> f v) = hm_sum f m"
proof (induction m)
  case (Cons p m)
  then show ?case
    by (cases p) (auto simp: AList.delete_notin_dom split: option.splits)
qed simp

lemma hm_sum_insert:
  "hm_wf m \<Longrightarrow>
    hm_sum f (hm_insert k v m) + (case hm_get m k of None \<Rightarrow> 0 | Some v \<Rightarrow> f v) = f v + hm_sum f m"
proof (induction m)
  case (Cons p m)
  then show ?case
    by (cases p; cases "map_of m k") auto
qed simp

lemma hm_sum_0_iff: "hm_sum f m = 0 \<longleftrightarrow> (\<forall>p \<in> set m. f (snd p) = 0)"
  by (auto simp: hm_sum_def)

lemma hm_length_sum: "length m = hm_sum (\<lambda>_. 1) m"
  by (induction m) auto

section \<open>Time stamps\<close>

text \<open>
  \<open>TimestampMs\<close> is an \<open>i64\<close>. \<open>saturating_sub\<close> clamps at the bounds of the type, so its
  value needs no further wrap-around.
\<close>

type_synonym timestamp_ms = int

definition i64_min :: int where "i64_min = - (2 ^ 63)"
definition i64_max :: int where "i64_max = 2 ^ 63 - 1"

definition saturating_sub :: "int \<Rightarrow> int \<Rightarrow> int" where
  "saturating_sub a b = max i64_min (min i64_max (a - b))"

lemma saturating_sub_range: "i64_min \<le> saturating_sub a b \<and> saturating_sub a b \<le> i64_max"
  by (simp add: saturating_sub_def i64_min_def i64_max_def)

lemma saturating_sub_exact:
  "i64_min \<le> a - b \<Longrightarrow> a - b \<le> i64_max \<Longrightarrow> saturating_sub a b = a - b"
  by (simp add: saturating_sub_def)

section \<open>Lists\<close>

text \<open>Removing adjacent duplicates from a sorted list leaves each element once.\<close>

lemma sort_dedup_set [simp]: "set (remdups_adj (sort xs)) = set xs"
  by simp

lemma sorted_remdups_adj_distinct: "sorted xs \<Longrightarrow> distinct (remdups_adj xs)"
  by (induction xs rule: remdups_adj.induct) (auto simp: le_less)

lemma sort_dedup_distinct: "distinct (remdups_adj (sort xs))"
  by (rule sorted_remdups_adj_distinct) simp

lemma sum_list_filter_le_nat: "sum_list (map f (filter P xs)) \<le> (sum_list (map f xs) :: nat)"
  by (induction xs) auto

section \<open>Strings\<close>

text \<open>Rust's \<open>join\<close> and \<open>split\<close> on a character, and their round trip.\<close>

fun join_with :: "string \<Rightarrow> string list \<Rightarrow> string" where
  "join_with sep [] = []"
| "join_with sep [x] = x"
| "join_with sep (x # y # xs) = x @ sep @ join_with sep (y # xs)"

fun split_on :: "char \<Rightarrow> string \<Rightarrow> string list" where
  "split_on c [] = [[]]"
| "split_on c (x # xs) =
    (if x = c then [] # split_on c xs
     else case split_on c xs of s # ss \<Rightarrow> (x # s) # ss | [] \<Rightarrow> [[x]])"

lemma split_on_not_Nil [simp]: "split_on c xs \<noteq> []"
  by (induction xs) (auto split: list.split)

lemma split_on_plain: "c \<notin> set xs \<Longrightarrow> split_on c xs = [xs]"
  by (induction xs) auto

lemma split_on_append: "c \<notin> set xs \<Longrightarrow> split_on c (xs @ c # ys) = xs # split_on c ys"
  by (induction xs) auto

lemma split_on_append2: "split_on c (xs @ c # ys) = split_on c xs @ split_on c ys"
  by (induction xs) (auto split: list.split)

lemma split_on_join:
  "xs \<noteq> [] \<Longrightarrow> \<forall>x \<in> set xs. c \<notin> set x \<Longrightarrow> split_on c (join_with [c] xs) = xs"
  by (induction "[c]" xs rule: join_with.induct) (auto simp: split_on_append split_on_plain)

lemma split_on_parts: "s \<in> set (split_on c xs) \<Longrightarrow> c \<notin> set s \<and> set s \<subseteq> set xs"
  by (induction xs arbitrary: s) (auto split: if_splits list.splits, blast+)

text \<open>
  Text is the list of its UTF-8 bytes. \<open>strip_prefix\<close>, \<open>find\<close> and \<open>trim\<close>; which bytes are white space is
  a parameter. \<open>trim\<close> of the code also takes white space of several bytes (such as U+00A0) off the
  ends of a text, which no predicate on bytes describes: the model is that of texts whose ends have
  none.
\<close>

definition newline :: char where
  "newline = CHR 0x0A"

definition em_dash :: string where
  "em_dash = [char_of (0xE2 :: nat), char_of (0x80 :: nat), char_of (0x94 :: nat)]"

definition strip_prefix :: "string \<Rightarrow> string \<Rightarrow> string option" where
  "strip_prefix p s = (if prefix p s then Some (drop (length p) s) else None)"

definition trim_start :: "(char \<Rightarrow> bool) \<Rightarrow> string \<Rightarrow> string" where
  "trim_start ws s = dropWhile ws s"

definition str_trim :: "(char \<Rightarrow> bool) \<Rightarrow> string \<Rightarrow> string" where
  "str_trim ws s = rev (trim_start ws (rev (trim_start ws s)))"

fun find_text :: "string \<Rightarrow> string \<Rightarrow> (string \<times> string) option" where
  "find_text p [] = (if p = [] then Some ([], []) else None)"
| "find_text p (c # cs) =
    (if prefix p (c # cs) then Some ([], c # cs)
     else map_option (\<lambda>(before, rest). (c # before, rest)) (find_text p cs))"

lemma find_text_append: "find_text p s = Some (before, rest) \<Longrightarrow> s = before @ rest"
  by (induction p s arbitrary: before rest rule: find_text.induct) (auto split: if_splits)

lemma find_text_prefix: "find_text p s = Some (before, rest) \<Longrightarrow> prefix p rest"
  by (induction p s arbitrary: before rest rule: find_text.induct) (auto split: if_splits)

section \<open>State machines with an invariant\<close>

text \<open>
  The interface every stateful component offers: a step function over its operations, a start
  predicate, and an invariant each step keeps. What is proved here once is that the invariant
  holds after any sequence of operations.
\<close>

locale guarded_machine =
  fixes step :: "'op \<Rightarrow> 's \<Rightarrow> 's"
    and admissible :: "'op \<Rightarrow> 's \<Rightarrow> bool"
    and start :: "'s \<Rightarrow> bool"
    and inv :: "'s \<Rightarrow> bool"
  assumes start_inv: "start s \<Longrightarrow> inv s"
    and step_inv: "inv s \<Longrightarrow> admissible op s \<Longrightarrow> inv (step op s)"
begin

text \<open>A run whose every operation is admissible in the state it meets.\<close>

fun admissible_run :: "'op list \<Rightarrow> 's \<Rightarrow> bool" where
  "admissible_run [] s \<longleftrightarrow> True"
| "admissible_run (op # ops) s \<longleftrightarrow> admissible op s \<and> admissible_run ops (step op s)"

lemma run_inv: "inv s \<Longrightarrow> admissible_run ops s \<Longrightarrow> inv (fold step ops s)"
  by (induction ops arbitrary: s) (auto intro: step_inv)

lemma run_from_start: "start s \<Longrightarrow> admissible_run ops s \<Longrightarrow> inv (fold step ops s)"
  by (rule run_inv [OF start_inv])

lemma admissible_run_append:
  "admissible_run (xs @ ys) s \<longleftrightarrow> admissible_run xs s \<and> admissible_run ys (fold step xs s)"
  by (induction xs arbitrary: s) auto

lemma run_stays:
  assumes "\<And>op s. inv s \<Longrightarrow> Q s \<Longrightarrow> admissible op s \<Longrightarrow> P op \<Longrightarrow> Q (step op s)"
    and "inv s" and "Q s" and "admissible_run ops s" and "\<forall>op \<in> set ops. P op"
  shows "Q (fold step ops s)"
  using assms(2-) by (induction ops arbitrary: s) (auto intro: assms(1) step_inv)

end

end
