(* ===== verification/TeamWake.thy ===== *)
theory TeamWake
  imports Prelude
begin

text \<open>
  The sources of a team wake and their classes (\<open>veryagent-team/src/wake.rs\<close>), with the role of
  a slot in a run (\<open>TeamRunTargetRole\<close> of \<open>veryagent-api-types/src/team.rs\<close>). Every policy of a
  team run, and the pause gate, decides by the class of the source.
\<close>

datatype target_role = Lead | Teammate

datatype wake_source =
    UserMessage
  | UserIntervention
  | McpSendMessage
  | McpShutdownRequest
  | SpawnWelcome
  | SpawnAttachFailure
  | IdleNotification
  | InterruptedNotification
  | CrashNotification
  | InactivityTimeout
  | ShutdownRejected
  | RecoveryDrain

datatype wake_class = Foreground | Background | SystemRecovery | Lifecycle

fun wake_as_str :: "wake_source \<Rightarrow> string" where
  "wake_as_str UserMessage = ''user_message''"
| "wake_as_str UserIntervention = ''user_intervention''"
| "wake_as_str McpSendMessage = ''mcp_send_message''"
| "wake_as_str McpShutdownRequest = ''mcp_shutdown_request''"
| "wake_as_str SpawnWelcome = ''spawn_welcome''"
| "wake_as_str SpawnAttachFailure = ''spawn_attach_failure''"
| "wake_as_str IdleNotification = ''idle_notification''"
| "wake_as_str InterruptedNotification = ''interrupted_notification''"
| "wake_as_str CrashNotification = ''crash_notification''"
| "wake_as_str InactivityTimeout = ''inactivity_timeout''"
| "wake_as_str ShutdownRejected = ''shutdown_rejected''"
| "wake_as_str RecoveryDrain = ''recovery_drain''"

fun wake_class_of :: "wake_source \<Rightarrow> wake_class" where
  "wake_class_of UserMessage = Foreground"
| "wake_class_of UserIntervention = Foreground"
| "wake_class_of McpSendMessage = Background"
| "wake_class_of IdleNotification = Background"
| "wake_class_of InterruptedNotification = Background"
| "wake_class_of CrashNotification = SystemRecovery"
| "wake_class_of InactivityTimeout = SystemRecovery"
| "wake_class_of SpawnAttachFailure = SystemRecovery"
| "wake_class_of ShutdownRejected = SystemRecovery"
| "wake_class_of RecoveryDrain = SystemRecovery"
| "wake_class_of SpawnWelcome = Lifecycle"
| "wake_class_of McpShutdownRequest = Lifecycle"

definition bypasses_pause :: "wake_source \<Rightarrow> bool" where
  "bypasses_pause s = (wake_class_of s \<in> {Foreground, Lifecycle})"

definition resumes_paused_slot :: "wake_source \<Rightarrow> bool" where
  "resumes_paused_slot s = (s \<in> {UserMessage, UserIntervention})"

lemma resumes_iff_foreground: "resumes_paused_slot s \<longleftrightarrow> wake_class_of s = Foreground"
  by (cases s) (simp_all add: resumes_paused_slot_def)

lemma resumes_bypasses: "resumes_paused_slot s \<Longrightarrow> bypasses_pause s"
  by (simp add: resumes_iff_foreground bypasses_pause_def)

lemma bypasses_iff: "\<not> bypasses_pause s \<longleftrightarrow> wake_class_of s \<in> {Background, SystemRecovery}"
  by (cases s) (simp_all add: bypasses_pause_def)

text \<open>The names written to the log identify the source.\<close>

lemma wake_as_str_inj: "wake_as_str s = wake_as_str t \<longleftrightarrow> s = t"
  by (cases s; cases t) simp_all

end
