(* ===== verification/SlotWakeGate.thy ===== *)
theory SlotWakeGate
  imports TeamWake
begin

text \<open>
  The pause gate of a team run (\<open>veryagent-team/src/slot_wake_gate.rs\<close>): for every slot a user
  has paused, whether it still is, and how many wakes were held back meanwhile. The locale
  \<open>wake_gate\<close> is the contract the run relies on; the code's gate interprets it.
\<close>

section \<open>The gate of the code\<close>

datatype wake_gate_decision = Record bool | Suppress

record slot_wake_snapshot =
  snap_paused :: bool
  snap_suppressed_wake_count :: nat

record paused_slot_state =
  ps_paused :: bool
  ps_paused_at :: timestamp_ms
  ps_role_hint :: target_role
  ps_reason :: string
  ps_suppressed_wake_count :: nat
  ps_last_suppressed_source :: "wake_source option"

type_synonym slot_wake_gate = "(string, paused_slot_state) hmap"

definition gate_clear :: "slot_wake_gate \<Rightarrow> slot_wake_gate" where
  "gate_clear g = []"

definition gate_pause ::
  "timestamp_ms \<Rightarrow> string \<Rightarrow> target_role \<Rightarrow> string \<Rightarrow> slot_wake_gate \<Rightarrow> slot_wake_gate" where
  "gate_pause now slot_id role reason g =
     (let entry = (case hm_get g slot_id of
                     None \<Rightarrow> \<lparr>ps_paused = True, ps_paused_at = now, ps_role_hint = role,
                              ps_reason = reason, ps_suppressed_wake_count = 0,
                              ps_last_suppressed_source = None\<rparr>
                   | Some e \<Rightarrow> e)
      in hm_insert slot_id
           (entry\<lparr>ps_paused := True, ps_role_hint := role, ps_paused_at := now,
                  ps_reason := reason\<rparr>) g)"

definition gate_before_wake ::
  "string \<Rightarrow> wake_source \<Rightarrow> slot_wake_gate \<Rightarrow> wake_gate_decision \<times> slot_wake_gate" where
  "gate_before_wake slot_id source g =
     (if resumes_paused_slot source then
        (case hm_get g slot_id of
           Some entry \<Rightarrow>
             (Record (ps_paused entry),
              hm_modify slot_id
                (\<lambda>e. e\<lparr>ps_paused := False, ps_reason := ''resumed_by_user''\<rparr>) g)
         | None \<Rightarrow> (Record False, g))
      else
        (case hm_get g slot_id of
           None \<Rightarrow> (Record False, g)
         | Some entry \<Rightarrow>
             if bypasses_pause source then (Record False, g)
             else (case wake_class_of source of
                     Background \<Rightarrow>
                       (Suppress, hm_modify slot_id
                          (\<lambda>e. e\<lparr>ps_suppressed_wake_count := ps_suppressed_wake_count e + 1,
                                 ps_last_suppressed_source := Some source\<rparr>) g)
                   | SystemRecovery \<Rightarrow>
                       (Suppress, hm_modify slot_id
                          (\<lambda>e. e\<lparr>ps_suppressed_wake_count := ps_suppressed_wake_count e + 1,
                                 ps_last_suppressed_source := Some source\<rparr>) g)
                   | Foreground \<Rightarrow> (Record False, g)
                   | Lifecycle \<Rightarrow> (Record False, g))))"

definition snapshot_for_slot :: "slot_wake_gate \<Rightarrow> string \<Rightarrow> slot_wake_snapshot" where
  "snapshot_for_slot g slot_id =
     (case hm_get g slot_id of
        Some e \<Rightarrow> \<lparr>snap_paused = ps_paused e,
                   snap_suppressed_wake_count = ps_suppressed_wake_count e\<rparr>
      | None \<Rightarrow> \<lparr>snap_paused = False, snap_suppressed_wake_count = 0\<rparr>)"

definition gate_role_hint :: "slot_wake_gate \<Rightarrow> string \<Rightarrow> target_role option" where
  "gate_role_hint g slot_id = map_option ps_role_hint (hm_get g slot_id)"

definition gate_slot_ids :: "slot_wake_gate \<Rightarrow> string list" where
  "gate_slot_ids g = hm_keys g"

definition has_retained_work :: "slot_wake_gate \<Rightarrow> bool" where
  "has_retained_work g =
     list_ex (\<lambda>e. ps_paused e \<or> ps_suppressed_wake_count e > 0) (hm_values g)"

definition gate_add_suppressed :: "string \<Rightarrow> nat \<Rightarrow> slot_wake_gate \<Rightarrow> slot_wake_gate" where
  "gate_add_suppressed slot_id count g =
     (if count = 0 then g
      else hm_modify slot_id
             (\<lambda>e. e\<lparr>ps_suppressed_wake_count := ps_suppressed_wake_count e + count,
                    ps_last_suppressed_source :=
                      (case ps_last_suppressed_source e of
                         None \<Rightarrow> Some McpSendMessage | Some s \<Rightarrow> Some s)\<rparr>) g)"

definition should_prune :: "paused_slot_state \<Rightarrow> bool" where
  "should_prune e \<longleftrightarrow> \<not> ps_paused e \<and> ps_suppressed_wake_count e = 0"

definition release_suppressed_if_resumed ::
  "string \<Rightarrow> slot_wake_gate \<Rightarrow> wake_source option \<times> slot_wake_gate" where
  "release_suppressed_if_resumed slot_id g =
     (case hm_get g slot_id of
        None \<Rightarrow> (None, g)
      | Some entry \<Rightarrow>
          if ps_paused entry \<or> ps_suppressed_wake_count entry = 0 then (None, g)
          else
            let source = (case ps_last_suppressed_source entry of
                            None \<Rightarrow> McpSendMessage | Some s \<Rightarrow> s);
                g1 = hm_modify slot_id (\<lambda>e. e\<lparr>ps_suppressed_wake_count := 0\<rparr>) g;
                g2 = (case hm_get g1 slot_id of
                        None \<Rightarrow> g1
                      | Some e \<Rightarrow> if should_prune e then hm_remove slot_id g1 else g1)
            in (Some source, g2))"

section \<open>How the operations act on one slot\<close>

abbreviation paused_in :: "slot_wake_gate \<Rightarrow> string \<Rightarrow> bool" where
  "paused_in g s \<equiv> snap_paused (snapshot_for_slot g s)"

abbreviation held_in :: "slot_wake_gate \<Rightarrow> string \<Rightarrow> nat" where
  "held_in g s \<equiv> snap_suppressed_wake_count (snapshot_for_slot g s)"

abbreviation wake_recorded :: "wake_gate_decision \<times> slot_wake_gate \<Rightarrow> bool" where
  "wake_recorded r \<equiv> fst r \<noteq> Suppress"

named_theorems gate_simps \<open>the effect of a gate operation on every slot\<close>

lemma before_wake_cases:
  "gate_before_wake s src g =
     (case hm_get g s of
        None \<Rightarrow> (Record False, g)
      | Some e \<Rightarrow>
          if resumes_paused_slot src then
            (Record (ps_paused e),
             hm_modify s (\<lambda>e. e\<lparr>ps_paused := False, ps_reason := ''resumed_by_user''\<rparr>) g)
          else if bypasses_pause src then (Record False, g)
          else (Suppress, hm_modify s
                 (\<lambda>e. e\<lparr>ps_suppressed_wake_count := ps_suppressed_wake_count e + 1,
                        ps_last_suppressed_source := Some src\<rparr>) g))"
  by (cases src)
    (simp_all add: gate_before_wake_def resumes_paused_slot_def bypasses_pause_def
      split: option.splits)

lemma gate_wf_pause [simp]: "hm_wf g \<Longrightarrow> hm_wf (gate_pause now s r why g)"
  by (simp add: gate_pause_def Let_def)

lemma gate_wf_before_wake [simp]: "hm_wf g \<Longrightarrow> hm_wf (snd (gate_before_wake s src g))"
  by (simp add: before_wake_cases split: option.splits)

lemma gate_wf_add_suppressed [simp]: "hm_wf g \<Longrightarrow> hm_wf (gate_add_suppressed s n g)"
  by (simp add: gate_add_suppressed_def)

lemma gate_wf_release [simp]: "hm_wf g \<Longrightarrow> hm_wf (snd (release_suppressed_if_resumed s g))"
  by (simp add: release_suppressed_if_resumed_def Let_def split: option.splits)

lemma paused_pause [gate_simps]:
  "paused_in (gate_pause now s r why g) t \<longleftrightarrow> t = s \<or> paused_in g t"
  by (simp add: snapshot_for_slot_def gate_pause_def Let_def hm_simps split: option.splits)

lemma held_pause [gate_simps]: "held_in (gate_pause now s r why g) t = held_in g t"
  by (simp add: snapshot_for_slot_def gate_pause_def Let_def hm_simps split: option.splits)

lemma has_pause [gate_simps]: "hm_has (gate_pause now s r why g) t \<longleftrightarrow> t = s \<or> hm_has g t"
  by (simp add: hm_has_def gate_pause_def Let_def hm_simps)

lemma paused_before_wake [gate_simps]:
  "paused_in (snd (gate_before_wake s src g)) t \<longleftrightarrow>
     paused_in g t \<and> \<not> (t = s \<and> resumes_paused_slot src)"
  by (auto simp: snapshot_for_slot_def before_wake_cases hm_simps split: option.splits)

lemma held_before_wake [gate_simps]:
  "held_in (snd (gate_before_wake s src g)) t =
     held_in g t + (if t = s \<and> hm_has g s \<and> \<not> bypasses_pause src then 1 else 0)"
  by (auto simp: snapshot_for_slot_def before_wake_cases hm_simps hm_has_def
      dest: resumes_bypasses split: option.splits)

lemma has_before_wake [gate_simps]:
  "hm_has (snd (gate_before_wake s src g)) t \<longleftrightarrow> hm_has g t"
  by (auto simp: hm_has_def before_wake_cases hm_simps split: option.splits)

lemma recorded_before_wake [gate_simps]:
  "wake_recorded (gate_before_wake s src g) \<longleftrightarrow> \<not> hm_has g s \<or> bypasses_pause src"
  by (auto simp: hm_has_def before_wake_cases dest: resumes_bypasses split: option.splits)

lemma held_add_suppressed [gate_simps]:
  "held_in (gate_add_suppressed s n g) t =
     held_in g t + (if t = s \<and> hm_has g s then n else 0)"
  by (auto simp: snapshot_for_slot_def gate_add_suppressed_def hm_simps hm_has_def
      split: option.splits)

lemma paused_add_suppressed [gate_simps]:
  "paused_in (gate_add_suppressed s n g) t \<longleftrightarrow> paused_in g t"
  by (simp add: snapshot_for_slot_def gate_add_suppressed_def hm_simps split: option.splits)

lemma has_add_suppressed [gate_simps]:
  "hm_has (gate_add_suppressed s n g) t \<longleftrightarrow> hm_has g t"
  by (simp add: hm_has_def gate_add_suppressed_def hm_simps)

lemma release_cases:
  "release_suppressed_if_resumed s g =
     (case hm_get g s of
        None \<Rightarrow> (None, g)
      | Some e \<Rightarrow>
          if ps_paused e \<or> ps_suppressed_wake_count e = 0 then (None, g)
          else (Some (case ps_last_suppressed_source e of None \<Rightarrow> McpSendMessage | Some x \<Rightarrow> x),
                hm_remove s (hm_modify s (\<lambda>e. e\<lparr>ps_suppressed_wake_count := 0\<rparr>) g)))"
  by (simp add: release_suppressed_if_resumed_def should_prune_def Let_def hm_simps
      split: option.splits)

lemma released_iff [gate_simps]:
  "fst (release_suppressed_if_resumed s g) \<noteq> None \<longleftrightarrow> \<not> paused_in g s \<and> 0 < held_in g s"
  by (simp add: release_cases snapshot_for_slot_def split: option.splits)

lemma paused_release [gate_simps]:
  "paused_in (snd (release_suppressed_if_resumed s g)) t \<longleftrightarrow> paused_in g t"
  by (auto simp: release_cases snapshot_for_slot_def hm_simps split: option.splits)

lemma held_release [gate_simps]:
  "held_in (snd (release_suppressed_if_resumed s g)) t =
     (if t = s \<and> \<not> paused_in g s then 0 else held_in g t)"
  by (auto simp: release_cases snapshot_for_slot_def hm_simps split: option.splits)

lemma has_release [gate_simps]:
  "hm_has (snd (release_suppressed_if_resumed s g)) t \<longleftrightarrow>
     hm_has g t \<and> \<not> (t = s \<and> \<not> paused_in g s \<and> 0 < held_in g s)"
  by (auto simp: release_cases hm_has_def snapshot_for_slot_def hm_simps split: option.splits)

lemma clear_gate [gate_simps]:
  "\<not> paused_in (gate_clear g) t" "held_in (gate_clear g) t = 0" "\<not> hm_has (gate_clear g) t"
  by (simp_all add: gate_clear_def snapshot_for_slot_def hm_has_def)

lemma retained_iff:
  "hm_wf g \<Longrightarrow> has_retained_work g \<longleftrightarrow> (\<exists>s. paused_in g s \<or> 0 < held_in g s)"
proof
  assume "hm_wf g" and "has_retained_work g"
  then obtain s e where "(s, e) \<in> set g" and e: "ps_paused e \<or> ps_suppressed_wake_count e > 0"
    by (auto simp: has_retained_work_def list_ex_iff)
  with \<open>hm_wf g\<close> have "hm_get g s = Some e" by (simp add: hm_mem_get)
  with e show "\<exists>s. paused_in g s \<or> 0 < held_in g s"
    by (auto simp: snapshot_for_slot_def intro!: exI [of _ s])
next
  assume "\<exists>s. paused_in g s \<or> 0 < held_in g s"
  then obtain s e where "hm_get g s = Some e" and "ps_paused e \<or> ps_suppressed_wake_count e > 0"
    by (auto simp: snapshot_for_slot_def split: option.splits)
  then show "has_retained_work g"
    by (force simp: has_retained_work_def list_ex_iff dest: hm_get_Some_mem)
qed

abbreviation last_held :: "slot_wake_gate \<Rightarrow> string \<Rightarrow> wake_source option" where
  "last_held g s \<equiv> Option.bind (hm_get g s) ps_last_suppressed_source"

lemma last_before_wake [gate_simps]:
  "last_held (snd (gate_before_wake s src g)) t =
     (if t = s \<and> hm_has g s \<and> \<not> bypasses_pause src then Some src else last_held g t)"
  by (auto simp: before_wake_cases hm_simps hm_has_def dest: resumes_bypasses
      split: option.splits)

lemma release_value [gate_simps]:
  "\<not> paused_in g s \<Longrightarrow> 0 < held_in g s \<Longrightarrow>
     fst (release_suppressed_if_resumed s g) =
       Some (case last_held g s of None \<Rightarrow> McpSendMessage | Some x \<Rightarrow> x)"
  by (auto simp: release_cases snapshot_for_slot_def split: option.splits)

section \<open>The contract of a wake gate\<close>

text \<open>
  What a team run relies on. \<open>known\<close> says that the gate keeps an entry for a slot, \<open>held\<close> how
  many wakes it holds back for it and \<open>last_src\<close> the source of the latest of them. A slot is
  known from its first pause until a release drops it, whether or not it is paused.
\<close>

locale wake_gate =
  fixes pause :: "timestamp_ms \<Rightarrow> string \<Rightarrow> target_role \<Rightarrow> string \<Rightarrow> 'g \<Rightarrow> 'g"
    and before :: "string \<Rightarrow> wake_source \<Rightarrow> 'g \<Rightarrow> wake_gate_decision \<times> 'g"
    and release :: "string \<Rightarrow> 'g \<Rightarrow> wake_source option \<times> 'g"
    and paused :: "'g \<Rightarrow> string \<Rightarrow> bool"
    and held :: "'g \<Rightarrow> string \<Rightarrow> nat"
    and known :: "'g \<Rightarrow> string \<Rightarrow> bool"
    and last_src :: "'g \<Rightarrow> string \<Rightarrow> wake_source option"
  assumes pause_paused: "paused (pause now s r why g) t \<longleftrightarrow> t = s \<or> paused g t"
    and pause_held: "held (pause now s r why g) t = held g t"
    and pause_known: "known (pause now s r why g) t \<longleftrightarrow> t = s \<or> known g t"
    and before_recorded: "fst (before s src g) \<noteq> Suppress \<longleftrightarrow> \<not> known g s \<or> bypasses_pause src"
    and before_paused:
      "paused (snd (before s src g)) t \<longleftrightarrow> paused g t \<and> \<not> (t = s \<and> resumes_paused_slot src)"
    and before_held:
      "held (snd (before s src g)) t =
         held g t + (if t = s \<and> known g s \<and> \<not> bypasses_pause src then 1 else 0)"
    and before_known: "known (snd (before s src g)) t \<longleftrightarrow> known g t"
    and before_last:
      "last_src (snd (before s src g)) t =
         (if t = s \<and> known g s \<and> \<not> bypasses_pause src then Some src else last_src g t)"
    and release_some: "fst (release s g) \<noteq> None \<longleftrightarrow> \<not> paused g s \<and> 0 < held g s"
    and release_val:
      "\<not> paused g s \<Longrightarrow> 0 < held g s \<Longrightarrow>
         fst (release s g) = Some (case last_src g s of None \<Rightarrow> McpSendMessage | Some x \<Rightarrow> x)"
    and release_held:
      "held (snd (release s g)) t = (if t = s \<and> \<not> paused g s then 0 else held g t)"
begin

text \<open>The wakes a run offers to one slot, one after the other.\<close>

definition offer :: "string \<Rightarrow> wake_source list \<Rightarrow> 'g \<Rightarrow> 'g" where
  "offer s srcs g = fold (\<lambda>src g. snd (before s src g)) srcs g"

lemma offer_simps [simp]:
  "offer s [] g = g" "offer s (src # srcs) g = offer s srcs (snd (before s src g))"
  by (simp_all add: offer_def)

lemma offer_known: "known (offer s srcs g) t \<longleftrightarrow> known g t"
  by (induction srcs arbitrary: g) (simp_all add: before_known)

lemma offer_paused:
  "paused (offer s srcs g) t \<longleftrightarrow> paused g t \<and> (t = s \<longrightarrow> \<not> list_ex resumes_paused_slot srcs)"
  by (induction srcs arbitrary: g) (auto simp: before_paused)

lemma offer_held:
  "known g s \<Longrightarrow>
     held (offer s srcs g) s = held g s + length (filter (\<lambda>src. \<not> bypasses_pause src) srcs)"
  by (induction srcs arbitrary: g) (auto simp: before_held before_known)

lemma offer_last:
  "known g s \<Longrightarrow>
     last_src (offer s srcs g) s =
       (case filter (\<lambda>src. \<not> bypasses_pause src) srcs of
          [] \<Rightarrow> last_src g s | x # xs \<Rightarrow> Some (last (x # xs)))"
  by (induction srcs arbitrary: g) (auto simp: before_last before_known split: list.splits)

text \<open>
  Pausing a slot and then offering wakes: the slot resumes exactly when a user wake was among
  them, every other wake that does not bypass the pause is counted, and the release that
  follows a resume hands back one wake for all of them, with the source of the latest.
\<close>

lemma pause_then_offer:
  fixes now :: timestamp_ms and r :: target_role and why s :: string and g :: 'g
  assumes "held g s = 0"
  defines "bg \<equiv> filter (\<lambda>src. \<not> bypasses_pause src)"
  defines "g' srcs \<equiv> offer s srcs (pause now s r why g)"
  shows "paused (g' srcs) s \<longleftrightarrow> \<not> list_ex resumes_paused_slot srcs"
    and "held (g' srcs) s = length (bg srcs)"
    and "fst (release s (g' srcs)) =
           (if list_ex resumes_paused_slot srcs \<and> bg srcs \<noteq> [] then Some (last (bg srcs))
            else None)"
    and "list_ex resumes_paused_slot srcs \<Longrightarrow> held (snd (release s (g' srcs))) s = 0"
proof -
  have k: "known (pause now s r why g) s" by (simp add: pause_known)
  show p: "paused (g' srcs) s \<longleftrightarrow> \<not> list_ex resumes_paused_slot srcs"
    by (simp add: g'_def offer_paused pause_paused)
  show h: "held (g' srcs) s = length (bg srcs)"
    using assms(1) by (simp add: g'_def bg_def offer_held [OF k] pause_held)
  have l: "bg srcs \<noteq> [] \<Longrightarrow> last_src (g' srcs) s = Some (last (bg srcs))"
    by (auto simp: g'_def bg_def offer_last [OF k] split: list.splits)
  show "fst (release s (g' srcs)) =
      (if list_ex resumes_paused_slot srcs \<and> bg srcs \<noteq> [] then Some (last (bg srcs)) else None)"
  proof (cases "list_ex resumes_paused_slot srcs \<and> bg srcs \<noteq> []")
    case True
    with p h l release_val [of "g' srcs" s] show ?thesis by simp
  next
    case False
    with p h release_some [of s "g' srcs"] show ?thesis by auto
  qed
  show "list_ex resumes_paused_slot srcs \<Longrightarrow> held (snd (release s (g' srcs))) s = 0"
    using p by (simp add: release_held)
qed

end

interpretation slot_gate: wake_gate gate_pause gate_before_wake release_suppressed_if_resumed
    paused_in held_in hm_has last_held
  by unfold_locales (rule gate_simps; assumption)+

section \<open>What the gate does for a paused slot\<close>

text \<open>
  C9. A slot with nothing held back is paused and then offered any sequence of wakes: it stays
  paused exactly until a user message or user intervention is among them, every background and
  system-recovery wake is counted and none is lost, and the release after a user wake hands
  back a single wake that carries the source of the latest wake held back and leaves nothing
  held.
\<close>

theorem pause_protocol:
  assumes "held_in g s = 0"
  shows "let g' = fold (\<lambda>src g. snd (gate_before_wake s src g)) srcs (gate_pause now s r why g);
             bg = filter (\<lambda>src. wake_class_of src \<in> {Background, SystemRecovery}) srcs;
             user = list_ex resumes_paused_slot srcs;
             (released, g'') = release_suppressed_if_resumed s g'
         in (paused_in g' s \<longleftrightarrow> \<not> user) \<and> held_in g' s = length bg \<and>
            released = (if user \<and> bg \<noteq> [] then Some (last bg) else None) \<and>
            (user \<longrightarrow> held_in g'' s = 0)"
  using slot_gate.pause_then_offer [OF assms, of srcs now r why]
  by (simp add: slot_gate.offer_def bypasses_iff Let_def case_prod_unfold)

theorem pause_protocol_witness:
  "let g' = fold (\<lambda>src g. snd (gate_before_wake ''lead'' src g))
              [McpSendMessage, SpawnWelcome, IdleNotification, UserMessage]
              (gate_pause 7 ''lead'' Lead ''user_stop'' []);
       (released, g'') = release_suppressed_if_resumed ''lead'' g'
   in held_in g' ''lead'' = 2 \<and> released = Some IdleNotification \<and> held_in g'' ''lead'' = 0"
  using pause_protocol [of "[]" "''lead''"
      "[McpSendMessage, SpawnWelcome, IdleNotification, UserMessage]" 7 Lead "''user_stop''"]
  by (simp add: snapshot_for_slot_def resumes_paused_slot_def Let_def case_prod_unfold
      del: fold_simps)

end
