(* ===== verification/TeamError.thy ===== *)
theory TeamError
  imports Prelude "HOL-Library.Sublist"
begin

text \<open>
  The errors of the team crate (\<open>veryagent-team/src/error.rs\<close>), their messages and the public
  code a client sees for a message. A database or JSON error carries its own text.
\<close>

datatype team_error =
    TeamNotFound string
  | AgentNotFound string
  | TaskNotFound string
  | InvalidRequest string
  | SlotBusy string
  | LeaderOnly string
  | Forbidden string
  | SessionNotFound string
  | BlockedTaskNotFound string
  | BackendNotAllowed string
  | DuplicateAgentName string
  | WorkspacePathUnavailable string
  | WorkspacePathRuntimeUnavailable string
  | DatabaseError string
  | JsonError string

fun team_error_display :: "team_error \<Rightarrow> string" where
  "team_error_display (TeamNotFound s) = ''Team not found: '' @ s"
| "team_error_display (AgentNotFound s) = ''Agent not found: '' @ s"
| "team_error_display (TaskNotFound s) = ''Task not found: '' @ s"
| "team_error_display (InvalidRequest s) = ''Invalid request: '' @ s"
| "team_error_display (SlotBusy s) = ''Team slot is busy: '' @ s"
| "team_error_display (LeaderOnly s) = ''Leader-only action: '' @ s"
| "team_error_display (Forbidden s) = ''Forbidden: '' @ s"
| "team_error_display (SessionNotFound s) = ''Session not found: '' @ s"
| "team_error_display (BlockedTaskNotFound s) = ''Blocked task not found: '' @ s"
| "team_error_display (BackendNotAllowed s) = ''Backend not allowed: '' @ s"
| "team_error_display (DuplicateAgentName s) = ''Agent name already taken: '' @ s"
| "team_error_display (WorkspacePathUnavailable s) = ''Workspace path is unavailable: '' @ s"
| "team_error_display (WorkspacePathRuntimeUnavailable s) =
     ''Workspace path is unavailable during execution: '' @ s"
| "team_error_display (DatabaseError s) = s"
| "team_error_display (JsonError s) = ''JSON error: '' @ s"

text \<open>\<open>details\<close> is a JSON object of string values, here its list of fields.\<close>

record team_public_error =
  pe_code :: string
  pe_details :: "(string \<times> string) list option"

definition unsupported_fields :: "string list" where
  "unsupported_fields = [''backend'', ''agent_type'', ''custom_agent_id'']"

definition classify_public_error :: "string \<Rightarrow> team_public_error option" where
  "classify_public_error message =
     (if message \<in> {''Missing required field: assistant_id'',
                    ''spawn_agent.assistant_id is required'',
                    ''assistant_id is required when the caller conversation is not assistant-backed''}
      then Some \<lparr>pe_code = ''TEAM_ASSISTANT_ID_REQUIRED'',
                 pe_details = Some [(''field'', ''assistant_id'')]\<rparr>
      else case strip_prefix ''Preset assistant not found: '' message of
        Some assistant_id \<Rightarrow>
          Some \<lparr>pe_code = ''TEAM_ASSISTANT_NOT_FOUND'',
                pe_details = Some [(''assistant_id'', assistant_id)]\<rparr>
      | None \<Rightarrow>
          (case find (\<lambda>field. message = field @ '' is no longer accepted; use assistant_id'')
                  unsupported_fields of
             Some field \<Rightarrow>
               Some \<lparr>pe_code = ''TEAM_ASSISTANT_FIELD_UNSUPPORTED'',
                     pe_details = Some [(''field'', field), (''required_field'', ''assistant_id'')]\<rparr>
           | None \<Rightarrow>
               if message = ''team_list_assistants does not accept arguments''
               then Some \<lparr>pe_code = ''TEAM_TOOL_ARGUMENTS_NOT_ALLOWED'',
                          pe_details = Some [(''tool'', ''team_list_assistants'')]\<rparr>
               else if message = ''Team service not available''
               then Some \<lparr>pe_code = ''TEAM_SERVICE_UNAVAILABLE'', pe_details = None\<rparr>
               else None))"

lemma classify_not_found_id:
  "classify_public_error (''Preset assistant not found: '' @ s) =
     Some \<lparr>pe_code = ''TEAM_ASSISTANT_NOT_FOUND'', pe_details = Some [(''assistant_id'', s)]\<rparr>"
  by (simp add: classify_public_error_def strip_prefix_def)

end
