(* ===== verification/TeamRunState.thy ===== *)
theory TeamRunState
  imports SlotWakeGate TeamError
begin

text \<open>
  The state of a team run and the functions that read it (\<open>veryagent-team/src/team_run.rs\<close>,
  with the payload types of \<open>veryagent-api-types/src/team.rs\<close>). The field prefixes are those of
  the structs: \<open>ac\<close> for \<open>ActiveChildTurn\<close>, \<open>sr\<close> for \<open>StartingChildReservation\<close>, \<open>pw\<close> for
  \<open>PendingWake\<close>, \<open>ol\<close> for \<open>TeamRunOperationLease\<close>, \<open>run\<close> for \<open>TeamRunRecord\<close>, \<open>sw\<close> for
  \<open>TeamSlotWorkPayload\<close>, \<open>rp\<close> for \<open>TeamRunPayload\<close>, \<open>ack\<close> for \<open>TeamRunAckResponse\<close> and \<open>ct\<close> for
  \<open>TeamChildTurnPayload\<close>. The clock is an argument \<open>now\<close>, read once per operation.
\<close>

section \<open>Data\<close>

datatype run_source = SrcUserMessage | SrcRecoveryDrain

datatype run_status =
    RunAccepted | RunRunning | RunCancelling | RunCompleted | RunCancelled | RunFailed

datatype runtime_health = Disconnected | Unhealthy

definition ACTIVE_CHILD_SLOW_THRESHOLD_MS :: nat where
  "ACTIVE_CHILD_SLOW_THRESHOLD_MS = 10 * 60 * 1000"

definition ACTIVE_CHILD_SLOW_REPEAT_MS :: nat where
  "ACTIVE_CHILD_SLOW_REPEAT_MS = 10 * 60 * 1000"

record active_child_turn =
  ac_team_run_id :: string
  ac_slot_id :: string
  ac_role :: target_role
  ac_conversation_id :: string
  ac_turn_id :: string
  ac_started_at_ms :: timestamp_ms
  ac_last_slow_notified_at_ms :: "timestamp_ms option"

datatype reservation_state = ResStarting | ResCancelling

record starting_reservation =
  sr_reservation_id :: string
  sr_team_run_id :: string
  sr_slot_id :: string
  sr_role :: target_role
  sr_conversation_id :: string
  sr_wake_source :: wake_source
  sr_message_id :: "string option"
  sr_state :: reservation_state

record pending_wake =
  pw_slot_id :: string
  pw_role :: target_role
  pw_source :: wake_source
  pw_message_id :: "string option"

datatype child_start_decision =
    StartAccepted | CancelImmediately active_child_turn | StartIgnored

datatype child_cancel_target = CancelActive active_child_turn | CancelStarting starting_reservation

datatype wake_record_decision = Recorded | Suppressed

record operation_lease =
  ol_lease_id :: string
  ol_team_run_id :: string
  ol_slot_id :: string
  ol_role :: target_role
  ol_wake_source :: wake_source
  ol_accepted_as_new_run :: bool

datatype wake_acquire_outcome = LeaseAccepted operation_lease | WakeSuppressed

datatype slot_state = StBusy | StPending | StPaused | StIdle

datatype acquire_policy_decision =
    PolicyAccept | PolicySuppress string | RejectSlotBusy | RejectInvalid string

datatype wake_intent = ExternalRequest | SchedulerWakeTarget

record slot_work =
  sw_slot_id :: string
  sw_role :: target_role
  sw_pending_wake_count :: nat
  sw_starting_child_count :: nat
  sw_paused :: bool
  sw_suppressed_wake_count :: nat
  sw_active_turn_id :: "string option"
  sw_active_turn_started_at_ms :: "timestamp_ms option"
  sw_active_turn_elapsed_ms :: "nat option"
  sw_active_turn_slow :: "bool option"
  sw_active_turn_slow_threshold_ms :: "nat option"
  sw_runtime_health :: "runtime_health option"

record run_payload =
  rp_team_id :: string
  rp_team_run_id :: string
  rp_source :: run_source
  rp_has_user_intervention :: bool
  rp_target_slot_id :: string
  rp_target_role :: target_role
  rp_status :: run_status
  rp_active_child_count :: nat
  rp_pending_wake_count :: nat
  rp_starting_child_count :: nat
  rp_slot_work :: "slot_work list"

record run_ack =
  ack_team_run_id :: string
  ack_team_id :: string
  ack_source :: run_source
  ack_has_user_intervention :: bool
  ack_target_slot_id :: string
  ack_target_role :: target_role
  ack_accepted_slot_id :: string
  ack_accepted_role :: target_role
  ack_status :: run_status
  ack_message_id :: "string option"

record child_turn_payload =
  ct_team_id :: string
  ct_team_run_id :: string
  ct_slot_id :: string
  ct_role :: target_role
  ct_conversation_id :: string
  ct_turn_id :: string
  ct_status :: run_status

record pause_slot_outcome =
  po_team_run_id :: string
  po_cancel_target :: "child_cancel_target option"
  po_payload :: run_payload

record pending_wake_view =
  pv_source :: wake_source
  pv_message_id :: "string option"

record recovery_candidate =
  rc_slot_id :: string
  rc_role :: target_role
  rc_unread_count :: nat

record recovery_result =
  rr_team_run_id :: string
  rr_source :: run_source
  rr_recorded_wakes :: "string list"
  rr_pending_wake_count :: nat

record team_run =
  run_team_run_id :: string
  run_team_id :: string
  run_source :: run_source
  run_has_user_intervention :: bool
  run_target_slot_id :: string
  run_target_role :: target_role
  run_status :: run_status
  run_started_at :: "timestamp_ms option"
  run_completed_at :: "timestamp_ms option"
  run_cancelled_at :: "timestamp_ms option"
  run_cancel_reason :: "string option"
  run_active_child_turns :: "(string, active_child_turn) hmap"
  run_starting_reservations :: "(string, starting_reservation) hmap"
  run_pending_wakes :: "(string, pending_wake list) hmap"
  run_slot_runtime_health :: "(string, runtime_health) hmap"
  run_slot_wake_gate :: slot_wake_gate
  run_active_operation_leases :: "(string, operation_lease) hmap"

section \<open>Reading a run\<close>

definition pending_wake_count :: "team_run \<Rightarrow> nat" where
  "pending_wake_count r = hm_sum length (run_pending_wakes r)"

definition pending_wake_count_for_slot :: "team_run \<Rightarrow> string \<Rightarrow> nat" where
  "pending_wake_count_for_slot r s =
     (case hm_get (run_pending_wakes r) s of None \<Rightarrow> 0 | Some q \<Rightarrow> length q)"

definition starting_child_count_for_slot :: "team_run \<Rightarrow> string \<Rightarrow> nat" where
  "starting_child_count_for_slot r s =
     length (filter (\<lambda>res. sr_slot_id res = s) (hm_values (run_starting_reservations r)))"

definition active_operation_lease_count :: "team_run \<Rightarrow> nat" where
  "active_operation_lease_count r = length (run_active_operation_leases r)"

definition slot_run_state :: "team_run \<Rightarrow> string \<Rightarrow> slot_state" where
  "slot_run_state r s =
     (if hm_has (run_active_child_turns r) s \<or> starting_child_count_for_slot r s > 0 then StBusy
      else if pending_wake_count_for_slot r s > 0 then StPending
      else if snap_paused (snapshot_for_slot (run_slot_wake_gate r) s) then StPaused
      else StIdle)"

definition has_spawn_welcome_for_slot :: "team_run \<Rightarrow> string \<Rightarrow> bool" where
  "has_spawn_welcome_for_slot r s \<longleftrightarrow>
     (case hm_get (run_pending_wakes r) s of
        None \<Rightarrow> False
      | Some wakes \<Rightarrow> list_ex (\<lambda>w. pw_source w = SpawnWelcome) wakes) \<or>
     list_ex (\<lambda>l. ol_slot_id l = s \<and> ol_wake_source l = SpawnWelcome)
       (hm_values (run_active_operation_leases r))"

definition or_else :: "'a option \<Rightarrow> 'a option \<Rightarrow> 'a option" where
  "or_else x y = (case x of Some v \<Rightarrow> Some v | None \<Rightarrow> y)"

definition role_for_slot :: "team_run \<Rightarrow> string \<Rightarrow> target_role option" where
  "role_for_slot r s =
     or_else (map_option ac_role (hm_get (run_active_child_turns r) s))
    (or_else (map_option sr_role
                (find (\<lambda>res. sr_slot_id res = s) (hm_values (run_starting_reservations r))))
    (or_else (Option.bind (hm_get (run_pending_wakes r) s)
                (\<lambda>wakes. case wakes of [] \<Rightarrow> None | w # _ \<Rightarrow> Some (pw_role w)))
    (or_else (gate_role_hint (run_slot_wake_gate r) s)
             (if run_target_slot_id r = s then Some (run_target_role r) else None))))"

definition slot_ids_with_work :: "team_run \<Rightarrow> string list" where
  "slot_ids_with_work r =
     remdups_adj (sort
       (hm_keys (run_pending_wakes r)
        @ map sr_slot_id (hm_values (run_starting_reservations r))
        @ hm_keys (run_active_child_turns r)
        @ hm_keys (run_slot_runtime_health r)
        @ gate_slot_ids (run_slot_wake_gate r)))"

definition slot_work_entry :: "timestamp_ms \<Rightarrow> team_run \<Rightarrow> string \<Rightarrow> slot_work option" where
  "slot_work_entry now r s =
     (case role_for_slot r s of
        None \<Rightarrow> None
      | Some role \<Rightarrow>
          let gate = snapshot_for_slot (run_slot_wake_gate r) s;
              active_child = hm_get (run_active_child_turns r) s;
              active_elapsed_ms =
                map_option (\<lambda>child.
                  nat (max 0 (saturating_sub
                    (case ac_last_slow_notified_at_ms child of None \<Rightarrow> now | Some t \<Rightarrow> t)
                    (ac_started_at_ms child)))) active_child
          in Some
            \<lparr>sw_slot_id = s,
             sw_role = role,
             sw_pending_wake_count = pending_wake_count_for_slot r s,
             sw_starting_child_count = starting_child_count_for_slot r s,
             sw_paused = snap_paused gate,
             sw_suppressed_wake_count = snap_suppressed_wake_count gate,
             sw_active_turn_id = map_option ac_turn_id active_child,
             sw_active_turn_started_at_ms = map_option ac_started_at_ms active_child,
             sw_active_turn_elapsed_ms = active_elapsed_ms,
             sw_active_turn_slow =
               map_option (\<lambda>elapsed. elapsed \<ge> ACTIVE_CHILD_SLOW_THRESHOLD_MS) active_elapsed_ms,
             sw_active_turn_slow_threshold_ms =
               map_option (\<lambda>_. ACTIVE_CHILD_SLOW_THRESHOLD_MS) active_child,
             sw_runtime_health = hm_get (run_slot_runtime_health r) s\<rparr>)"

definition slot_work_of :: "timestamp_ms \<Rightarrow> team_run \<Rightarrow> slot_work list" where
  "slot_work_of now r = List.map_filter (slot_work_entry now r) (slot_ids_with_work r)"

definition slot_is_busy :: "team_run \<Rightarrow> string \<Rightarrow> bool" where
  "slot_is_busy r s \<longleftrightarrow>
     pending_wake_count_for_slot r s > 0 \<or>
     starting_child_count_for_slot r s > 0 \<or>
     hm_has (run_active_child_turns r) s"

definition has_retained_wake_gate_work :: "team_run \<Rightarrow> bool" where
  "has_retained_wake_gate_work r = has_retained_work (run_slot_wake_gate r)"

definition payload_of :: "timestamp_ms \<Rightarrow> team_run \<Rightarrow> run_payload" where
  "payload_of now r =
     \<lparr>rp_team_id = run_team_id r,
      rp_team_run_id = run_team_run_id r,
      rp_source = run_source r,
      rp_has_user_intervention = run_has_user_intervention r,
      rp_target_slot_id = run_target_slot_id r,
      rp_target_role = run_target_role r,
      rp_status = run_status r,
      rp_active_child_count = length (run_active_child_turns r),
      rp_pending_wake_count = pending_wake_count r,
      rp_starting_child_count = length (run_starting_reservations r),
      rp_slot_work = slot_work_of now r\<rparr>"

definition ack_of :: "team_run \<Rightarrow> string \<Rightarrow> target_role \<Rightarrow> string option \<Rightarrow> run_ack" where
  "ack_of r accepted_slot_id accepted_role message_id =
     \<lparr>ack_team_run_id = run_team_run_id r,
      ack_team_id = run_team_id r,
      ack_source = run_source r,
      ack_has_user_intervention = run_has_user_intervention r,
      ack_target_slot_id = run_target_slot_id r,
      ack_target_role = run_target_role r,
      ack_accepted_slot_id = accepted_slot_id,
      ack_accepted_role = accepted_role,
      ack_status = run_status r,
      ack_message_id = message_id\<rparr>"

definition is_active :: "team_run \<Rightarrow> bool" where
  "is_active r \<longleftrightarrow> run_status r \<in> {RunAccepted, RunRunning}"

definition child_payload :: "string \<Rightarrow> active_child_turn \<Rightarrow> run_status \<Rightarrow> child_turn_payload" where
  "child_payload team_id child status =
     \<lparr>ct_team_id = team_id,
      ct_team_run_id = ac_team_run_id child,
      ct_slot_id = ac_slot_id child,
      ct_role = ac_role child,
      ct_conversation_id = ac_conversation_id child,
      ct_turn_id = ac_turn_id child,
      ct_status = status\<rparr>"

end
