(* ===== verification/TeamRun.thy ===== *)
theory TeamRun
  imports TeamRunState
begin

text \<open>
  The operations of the team run manager (\<open>TeamRunManager\<close> of \<open>veryagent-team/src/team_run.rs\<close>).
  The code takes the mutex once per operation and holds it until the state is written, so an
  operation is one atomic step: it takes the manager and returns its result, the manager after
  it and the events it broadcasts, in order. Identifiers drawn by \<open>generate_id\<close> (\<open>fresh\<close>) and
  the clock (\<open>now\<close>) are arguments.
\<close>

section \<open>Policies and local steps\<close>

datatype run_event_name = EvAccepted | EvStarted | EvUpdated | EvCompleted | EvCancelled | EvFailed

datatype child_event_name = EvChildStarted | EvChildCompleted | EvChildCancelled

datatype team_event =
    RunEvent run_event_name run_payload
  | ChildEvent child_event_name child_turn_payload

definition new_operation_lease ::
  "string \<Rightarrow> string \<Rightarrow> target_role \<Rightarrow> wake_source \<Rightarrow> bool \<Rightarrow> team_run \<Rightarrow> operation_lease \<times> team_run" where
  "new_operation_lease fresh slot_id role source as_new r =
     (let lease = \<lparr>ol_lease_id = fresh, ol_team_run_id = run_team_run_id r, ol_slot_id = slot_id,
                   ol_role = role, ol_wake_source = source, ol_accepted_as_new_run = as_new\<rparr>
      in (lease, r\<lparr>run_active_operation_leases :=
                     hm_insert fresh lease (run_active_operation_leases r)\<rparr>))"

definition new_team_run_record ::
  "string \<Rightarrow> string \<Rightarrow> string \<Rightarrow> target_role \<Rightarrow> run_source \<Rightarrow> bool \<Rightarrow> team_run" where
  "new_team_run_record fresh team_id target_slot_id target_role source user =
     \<lparr>run_team_run_id = fresh,
      run_team_id = team_id,
      run_source = source,
      run_has_user_intervention = user,
      run_target_slot_id = target_slot_id,
      run_target_role = target_role,
      run_status = RunAccepted,
      run_started_at = None,
      run_completed_at = None,
      run_cancelled_at = None,
      run_cancel_reason = None,
      run_active_child_turns = [],
      run_starting_reservations = [],
      run_pending_wakes = [],
      run_slot_runtime_health = [],
      run_slot_wake_gate = [],
      run_active_operation_leases = []\<rparr>"

definition is_foreground_wake :: "wake_source \<Rightarrow> bool" where
  "is_foreground_wake s = (s \<in> {UserMessage, UserIntervention})"

text \<open>
  A foreground wake goes before the first wake that is not one (at the end when there is
  none), every other wake to the back.
\<close>

definition enqueue_wake :: "pending_wake \<Rightarrow> pending_wake list \<Rightarrow> pending_wake list" where
  "enqueue_wake wake queue =
     (if is_foreground_wake (pw_source wake) then
        let insert_at = length (takeWhile (\<lambda>p. is_foreground_wake (pw_source p)) queue)
        in take insert_at queue @ wake # drop insert_at queue
      else queue @ [wake])"

definition push_pending_wake ::
  "string \<Rightarrow> target_role \<Rightarrow> wake_source \<Rightarrow> string option \<Rightarrow> team_run \<Rightarrow> team_run" where
  "push_pending_wake slot_id role source message_id r =
     (let wake = \<lparr>pw_slot_id = slot_id, pw_role = role, pw_source = source,
                  pw_message_id = message_id\<rparr>;
          queue = (case hm_get (run_pending_wakes r) slot_id of None \<Rightarrow> [] | Some q \<Rightarrow> q)
      in r\<lparr>run_pending_wakes :=
             hm_insert slot_id (enqueue_wake wake queue) (run_pending_wakes r)\<rparr>)"

definition acquire_policy ::
  "wake_source \<Rightarrow> slot_state \<Rightarrow> bool \<Rightarrow> wake_intent \<Rightarrow> acquire_policy_decision" where
  "acquire_policy source st has_spawn_welcome intent =
     (if source \<in> {UserMessage, UserIntervention} then
        (case st of StBusy \<Rightarrow> RejectSlotBusy | _ \<Rightarrow> PolicyAccept)
      else if source = McpSendMessage then
        (case st of StPaused \<Rightarrow> PolicySuppress ''paused_slot_background_wake''
                  | _ \<Rightarrow> PolicyAccept)
      else if source = SpawnWelcome then
        (if has_spawn_welcome then PolicySuppress ''duplicate_spawn_welcome''
         else case st of
                StBusy \<Rightarrow> RejectInvalid ''spawn welcome target is already busy''
              | StPending \<Rightarrow> PolicySuppress ''spawn_welcome_already_pending''
              | _ \<Rightarrow> PolicyAccept)
      else if source = McpShutdownRequest then PolicyAccept
      else if source \<in> {IdleNotification, InterruptedNotification} then
        (case st of
           StIdle \<Rightarrow> (if intent = SchedulerWakeTarget then PolicyAccept
                     else PolicySuppress ''background_notification_without_wake_target'')
         | _ \<Rightarrow> PolicySuppress ''background_notification_deduped'')
      else
        (case st of StPaused \<Rightarrow> PolicySuppress ''paused_slot_recovery_wake''
                  | _ \<Rightarrow> PolicyAccept))"

definition no_work_left :: "team_run \<Rightarrow> bool" where
  "no_work_left r \<longleftrightarrow>
     \<not> (pending_wake_count r > 0
        \<or> run_starting_reservations r \<noteq> []
        \<or> run_active_child_turns r \<noteq> []
        \<or> active_operation_lease_count r > 0
        \<or> has_retained_wake_gate_work r)"

definition maybe_complete_locked ::
  "timestamp_ms \<Rightarrow> team_run \<Rightarrow> run_payload option \<times> team_run \<times> team_event list" where
  "maybe_complete_locked now r =
     (if \<not> no_work_left r then (None, r, [RunEvent EvUpdated (payload_of now r)])
      else if run_status r \<notin> {RunRunning, RunAccepted} then (None, r, [])
      else
        let r' = r\<lparr>run_status := RunCompleted, run_completed_at := Some now\<rparr>;
            payload = payload_of now r'
        in (Some payload, r', [RunEvent EvCompleted payload]))"

definition maybe_cancelled_locked ::
  "timestamp_ms \<Rightarrow> team_run \<Rightarrow> run_payload option \<times> team_run \<times> team_event list" where
  "maybe_cancelled_locked now r =
     (if run_status r \<noteq> RunCancelling then (None, r, [])
      else if \<not> no_work_left r then (None, r, [RunEvent EvUpdated (payload_of now r)])
      else
        let r' = r\<lparr>run_status := RunCancelled, run_cancelled_at := Some now\<rparr>;
            payload = payload_of now r'
        in (Some payload, r', [RunEvent EvCancelled payload]))"

definition find_reservation :: "team_run \<Rightarrow> string \<Rightarrow> (string \<times> starting_reservation) option" where
  "find_reservation r s =
     find (\<lambda>(_, res). sr_slot_id res = s) (run_starting_reservations r)"

definition take_starting_cancel_target ::
  "string \<Rightarrow> team_run \<Rightarrow> child_cancel_target option \<times> team_run" where
  "take_starting_cancel_target s r =
     (case find_reservation r s of
        None \<Rightarrow> (None, r)
      | Some (reservation_id, _) \<Rightarrow>
          (map_option CancelStarting (hm_get (run_starting_reservations r) reservation_id),
           r\<lparr>run_starting_reservations :=
               hm_remove reservation_id (run_starting_reservations r)\<rparr>))"

definition pop_pending :: "string \<Rightarrow> team_run \<Rightarrow> pending_wake option \<times> team_run" where
  "pop_pending s r =
     (case hm_get (run_pending_wakes r) s of
        None \<Rightarrow> (None, r)
      | Some [] \<Rightarrow> (None, r)
      | Some (p # rest) \<Rightarrow>
          (Some p, r\<lparr>run_pending_wakes :=
                       (if rest = [] then hm_remove s (run_pending_wakes r)
                        else hm_insert s rest (run_pending_wakes r))\<rparr>))"

section \<open>The manager\<close>

record run_manager =
  mgr_team_id :: string
  mgr_state :: "team_run option"

definition new_run_manager :: "string \<Rightarrow> run_manager" where
  "new_run_manager team_id = \<lparr>mgr_team_id = team_id, mgr_state = None\<rparr>"

text \<open>\<open>guard.as_mut().filter(|r| r.is_active())\<close>\<close>

definition active_run :: "run_manager \<Rightarrow> team_run option" where
  "active_run m =
     (case mgr_state m of None \<Rightarrow> None | Some r \<Rightarrow> if is_active r then Some r else None)"

definition put_run :: "team_run \<Rightarrow> run_manager \<Rightarrow> run_manager" where
  "put_run r m = m\<lparr>mgr_state := Some r\<rparr>"

definition clear_run :: "run_manager \<Rightarrow> run_manager" where
  "clear_run m = m\<lparr>mgr_state := None\<rparr>"

type_synonym 'r op_result = "'r \<times> run_manager \<times> team_event list"

definition cancelling_error :: "team_run \<Rightarrow> team_error" where
  "cancelling_error r =
     InvalidRequest (''team run '' @ run_team_run_id r @ '' is cancelling'')"

definition lease_missing :: "string \<Rightarrow> team_error" where
  "lease_missing lease_id = InvalidRequest (''team run operation lease missing: '' @ lease_id)"

definition cancelling_run :: "run_manager \<Rightarrow> team_run option" where
  "cancelling_run m =
     (case mgr_state m of
        None \<Rightarrow> None | Some r \<Rightarrow> if run_status r = RunCancelling then Some r else None)"

definition accept_user_message ::
  "timestamp_ms \<Rightarrow> string \<Rightarrow> string \<Rightarrow> target_role \<Rightarrow> bool \<Rightarrow> string option \<Rightarrow> run_manager
   \<Rightarrow> (team_error + run_ack) op_result" where
  "accept_user_message now fresh target_slot_id target_role allow_intervention message_id m =
     (case active_run m of
        Some active \<Rightarrow>
          if allow_intervention then
            if slot_is_busy active target_slot_id then (Inl (SlotBusy target_slot_id), m, [])
            else
              let active' = active\<lparr>run_has_user_intervention := True\<rparr>
              in (Inr (ack_of active' target_slot_id target_role message_id),
                  put_run active' m, [])
          else (Inl (InvalidRequest ''team run is already active''), m, [])
      | None \<Rightarrow>
          (case cancelling_run m of
             Some cancelling \<Rightarrow> (Inl (cancelling_error cancelling), m, [])
           | None \<Rightarrow>
               let record = new_team_run_record fresh (mgr_team_id m) target_slot_id target_role
                              SrcUserMessage True
               in (Inr (ack_of record target_slot_id target_role message_id),
                   put_run record m, [RunEvent EvAccepted (payload_of now record)])))"

definition acquire_user_message_wake ::
  "timestamp_ms \<Rightarrow> string \<Rightarrow> string \<Rightarrow> string \<Rightarrow> target_role \<Rightarrow> run_manager
   \<Rightarrow> (team_error + run_ack \<times> operation_lease) op_result" where
  "acquire_user_message_wake now fresh_run fresh_lease slot_id role m =
     (case active_run m of
        Some r \<Rightarrow>
          if slot_run_state r slot_id = StBusy then (Inl (SlotBusy slot_id), m, [])
          else
            let r1 = r\<lparr>run_slot_wake_gate :=
                         snd (gate_before_wake slot_id UserIntervention (run_slot_wake_gate r)),
                       run_has_user_intervention := True\<rparr>;
                (lease, r2) = new_operation_lease fresh_lease slot_id role UserIntervention False r1
            in (Inr (ack_of r2 slot_id role None, lease), put_run r2 m, [])
      | None \<Rightarrow>
          (case cancelling_run m of
             Some cancelling \<Rightarrow> (Inl (cancelling_error cancelling), m, [])
           | None \<Rightarrow>
               let record = new_team_run_record fresh_run (mgr_team_id m) slot_id role
                              SrcUserMessage True;
                   (lease, record') = new_operation_lease fresh_lease slot_id role UserMessage True
                                        record
               in (Inr (ack_of record' slot_id role None, lease), put_run record' m,
                   [RunEvent EvAccepted (payload_of now record')])))"

definition push_candidate :: "recovery_candidate \<Rightarrow> team_run \<Rightarrow> team_run" where
  "push_candidate c r = push_pending_wake (rc_slot_id c) (rc_role c) RecoveryDrain None r"

text \<open>The loop over the candidates of a run that is already active.\<close>

fun attach_candidates :: "recovery_candidate list \<Rightarrow> team_run \<Rightarrow> string list \<times> team_run" where
  "attach_candidates [] r = ([], r)"
| "attach_candidates (c # cs) r =
     (if slot_run_state r (rc_slot_id c) \<noteq> StIdle then attach_candidates cs r
      else let (rest, r') = attach_candidates cs (push_candidate c r)
           in (rc_slot_id c # rest, r'))"

definition recovery_result_of :: "timestamp_ms \<Rightarrow> team_run \<Rightarrow> string list \<Rightarrow> recovery_result" where
  "recovery_result_of now r recorded =
     \<lparr>rr_team_run_id = run_team_run_id r, rr_source = run_source r,
      rr_recorded_wakes = recorded,
      rr_pending_wake_count = rp_pending_wake_count (payload_of now r)\<rparr>"

definition recover_mailbox_backlog ::
  "timestamp_ms \<Rightarrow> string \<Rightarrow> recovery_candidate list \<Rightarrow> run_manager
   \<Rightarrow> recovery_result option op_result" where
  "recover_mailbox_backlog now fresh candidates m =
     (case candidates of
        [] \<Rightarrow> (None, m, [])
      | first # _ \<Rightarrow>
          (case cancelling_run m of
             Some _ \<Rightarrow> (None, m, [])
           | None \<Rightarrow>
               (case active_run m of
                  None \<Rightarrow>
                    let r = fold push_candidate candidates
                              (new_team_run_record fresh (mgr_team_id m) (rc_slot_id first)
                                 (rc_role first) SrcRecoveryDrain False)
                    in (Some (recovery_result_of now r (map rc_slot_id candidates)), put_run r m,
                        [RunEvent EvAccepted (payload_of now r)])
                | Some r \<Rightarrow>
                    let (recorded, r') = attach_candidates candidates r
                    in if recorded = [] then (None, put_run r' m, [])
                       else (Some (recovery_result_of now r' recorded), put_run r' m,
                             [RunEvent EvUpdated (payload_of now r')]))))"

definition commit_operation_lease ::
  "timestamp_ms \<Rightarrow> string \<Rightarrow> string option \<Rightarrow> run_manager \<Rightarrow> (team_error + unit) op_result" where
  "commit_operation_lease now lease_id trigger_message_id m =
     (case active_run m of
        None \<Rightarrow> (Inl (lease_missing lease_id), m, [])
      | Some r \<Rightarrow>
          (case hm_get (run_active_operation_leases r) lease_id of
             None \<Rightarrow> (Inl (lease_missing lease_id), m, [])
           | Some lease \<Rightarrow>
               let r1 = r\<lparr>run_active_operation_leases :=
                            hm_remove lease_id (run_active_operation_leases r)\<rparr>;
                   r2 = push_pending_wake (ol_slot_id lease) (ol_role lease) (ol_wake_source lease)
                          trigger_message_id r1
               in (Inr (), put_run r2 m, [RunEvent EvUpdated (payload_of now r2)])))"

definition abort_operation_lease ::
  "timestamp_ms \<Rightarrow> string \<Rightarrow> run_manager \<Rightarrow> (team_error + unit) op_result" where
  "abort_operation_lease now lease_id m =
     (case active_run m of
        None \<Rightarrow> (Inl (lease_missing lease_id), m, [])
      | Some r \<Rightarrow>
          (case hm_get (run_active_operation_leases r) lease_id of
             None \<Rightarrow> (Inl (lease_missing lease_id), m, [])
           | Some _ \<Rightarrow>
               let r1 = r\<lparr>run_active_operation_leases :=
                            hm_remove lease_id (run_active_operation_leases r)\<rparr>
               in (Inr (), put_run r1 m, [RunEvent EvUpdated (payload_of now r1)])))"

section \<open>Run-scoped wakes\<close>

definition no_active_run_error :: team_error where
  "no_active_run_error = InvalidRequest ''no active team run for run-scoped wake''"

definition acquire_run_scoped_wake_with_intent ::
  "timestamp_ms \<Rightarrow> string \<Rightarrow> string \<Rightarrow> target_role \<Rightarrow> wake_source \<Rightarrow> wake_intent \<Rightarrow> run_manager
   \<Rightarrow> (team_error + wake_acquire_outcome) op_result" where
  "acquire_run_scoped_wake_with_intent now fresh slot_id role source intent m =
     (case active_run m of
        None \<Rightarrow> (Inl no_active_run_error, m, [])
      | Some r \<Rightarrow>
          (case acquire_policy source (slot_run_state r slot_id)
                  (has_spawn_welcome_for_slot r slot_id) intent of
             RejectSlotBusy \<Rightarrow> (Inl (SlotBusy slot_id), m, [])
           | RejectInvalid message \<Rightarrow> (Inl (InvalidRequest message), m, [])
           | PolicySuppress _ \<Rightarrow>
               let r1 = r\<lparr>run_slot_wake_gate :=
                            snd (gate_before_wake slot_id source (run_slot_wake_gate r))\<rparr>
               in (Inr WakeSuppressed, put_run r1 m, [RunEvent EvUpdated (payload_of now r1)])
           | PolicyAccept \<Rightarrow>
               let r1 = r\<lparr>run_slot_wake_gate :=
                            snd (gate_before_wake slot_id source (run_slot_wake_gate r))\<rparr>;
                   (lease, r2) = new_operation_lease fresh slot_id role source False r1
               in (Inr (LeaseAccepted lease), put_run r2 m, [])))"

definition acquire_run_scoped_wake ::
  "timestamp_ms \<Rightarrow> string \<Rightarrow> string \<Rightarrow> target_role \<Rightarrow> wake_source \<Rightarrow> run_manager
   \<Rightarrow> (team_error + wake_acquire_outcome) op_result" where
  "acquire_run_scoped_wake now fresh slot_id role source m =
     acquire_run_scoped_wake_with_intent now fresh slot_id role source ExternalRequest m"

definition acquire_scheduler_wake ::
  "timestamp_ms \<Rightarrow> string \<Rightarrow> string \<Rightarrow> target_role \<Rightarrow> wake_source \<Rightarrow> run_manager
   \<Rightarrow> (team_error + wake_acquire_outcome) op_result" where
  "acquire_scheduler_wake now fresh slot_id role source m =
     acquire_run_scoped_wake_with_intent now fresh slot_id role source SchedulerWakeTarget m"

definition record_or_suppress_wake ::
  "timestamp_ms \<Rightarrow> string \<Rightarrow> target_role \<Rightarrow> wake_source \<Rightarrow> string option \<Rightarrow> run_manager
   \<Rightarrow> (team_error + wake_record_decision) op_result" where
  "record_or_suppress_wake now slot_id target_role source trigger_message_id m =
     (case active_run m of
        None \<Rightarrow> (Inl no_active_run_error, m, [])
      | Some r \<Rightarrow>
          let (decision, gate) = gate_before_wake slot_id source (run_slot_wake_gate r);
              r1 = r\<lparr>run_slot_wake_gate := gate\<rparr>
          in (case decision of
                Suppress \<Rightarrow>
                  (Inr Suppressed, put_run r1 m, [RunEvent EvUpdated (payload_of now r1)])
              | Record _ \<Rightarrow>
                  let r2 = push_pending_wake slot_id target_role source trigger_message_id r1
                  in (Inr Recorded, put_run r2 m, [RunEvent EvUpdated (payload_of now r2)])))"

definition release_suppressed_wake_if_resumed ::
  "timestamp_ms \<Rightarrow> string \<Rightarrow> target_role \<Rightarrow> run_manager \<Rightarrow> wake_source option op_result" where
  "release_suppressed_wake_if_resumed now slot_id role m =
     (case active_run m of
        None \<Rightarrow> (None, m, [])
      | Some r \<Rightarrow>
          (case release_suppressed_if_resumed slot_id (run_slot_wake_gate r) of
             (None, gate) \<Rightarrow> (None, put_run (r\<lparr>run_slot_wake_gate := gate\<rparr>) m, [])
           | (Some source, gate) \<Rightarrow>
               let r1 = push_pending_wake slot_id role source None (r\<lparr>run_slot_wake_gate := gate\<rparr>)
               in (Some source, put_run r1 m, [RunEvent EvUpdated (payload_of now r1)])))"

section \<open>Queries\<close>

definition active_run_id :: "run_manager \<Rightarrow> string option" where
  "active_run_id m = map_option run_team_run_id (active_run m)"

definition current_run_id :: "run_manager \<Rightarrow> string option" where
  "current_run_id m = map_option run_team_run_id (mgr_state m)"

definition active_child_turns :: "run_manager \<Rightarrow> active_child_turn list" where
  "active_child_turns m =
     (case mgr_state m of None \<Rightarrow> [] | Some r \<Rightarrow> hm_values (run_active_child_turns r))"

definition current_payload :: "timestamp_ms \<Rightarrow> run_manager \<Rightarrow> run_payload option" where
  "current_payload now m = map_option (payload_of now) (active_run m)"

definition slot_work_for_slot ::
  "timestamp_ms \<Rightarrow> string \<Rightarrow> run_manager \<Rightarrow> (string \<times> slot_work) option" where
  "slot_work_for_slot now slot_id m =
     (case active_run m of
        None \<Rightarrow> None
      | Some r \<Rightarrow>
          let payload = payload_of now r
          in map_option (\<lambda>work. (rp_team_run_id payload, work))
               (find (\<lambda>work. sw_slot_id work = slot_id) (rp_slot_work payload)))"

definition peek_next_pending_wake :: "string \<Rightarrow> run_manager \<Rightarrow> pending_wake_view option" where
  "peek_next_pending_wake slot_id m =
     (case active_run m of
        None \<Rightarrow> None
      | Some r \<Rightarrow>
          (case hm_get (run_pending_wakes r) slot_id of
             Some (w # _) \<Rightarrow> Some \<lparr>pv_source = pw_source w, pv_message_id = pw_message_id w\<rparr>
           | _ \<Rightarrow> None))"

section \<open>Health, slow turns and pausing\<close>

definition mark_slot_runtime_health ::
  "timestamp_ms \<Rightarrow> string \<Rightarrow> runtime_health \<Rightarrow> run_manager \<Rightarrow> run_payload option op_result" where
  "mark_slot_runtime_health now slot_id health m =
     (case active_run m of
        None \<Rightarrow> (None, m, [])
      | Some r \<Rightarrow>
          let r1 = r\<lparr>run_slot_runtime_health :=
                       hm_insert slot_id health (run_slot_runtime_health r)\<rparr>;
              payload = payload_of now r1
          in (Some payload, put_run r1 m, [RunEvent EvUpdated payload]))"

definition slow_notice_due :: "timestamp_ms \<Rightarrow> active_child_turn \<Rightarrow> bool" where
  "slow_notice_due now child \<longleftrightarrow>
     nat (max 0 (saturating_sub now (ac_started_at_ms child))) \<ge> ACTIVE_CHILD_SLOW_THRESHOLD_MS \<and>
     (case ac_last_slow_notified_at_ms child of
        None \<Rightarrow> True
      | Some t \<Rightarrow> nat (max 0 (saturating_sub now t)) \<ge> ACTIVE_CHILD_SLOW_REPEAT_MS)"

definition observe_slow_child_turns ::
  "timestamp_ms \<Rightarrow> run_manager \<Rightarrow> run_payload option op_result" where
  "observe_slow_child_turns now m =
     (case active_run m of
        None \<Rightarrow> (None, m, [])
      | Some r \<Rightarrow>
          let observed = list_ex (slow_notice_due now) (hm_values (run_active_child_turns r));
              r1 = r\<lparr>run_active_child_turns :=
                       hm_map_values
                         (\<lambda>c. if slow_notice_due now c
                              then c\<lparr>ac_last_slow_notified_at_ms := Some now\<rparr> else c)
                         (run_active_child_turns r)\<rparr>
          in if \<not> observed then (None, put_run r1 m, [])
             else (Some (payload_of now r1), put_run r1 m, [RunEvent EvUpdated (payload_of now r1)]))"

definition or_user_stop :: "string option \<Rightarrow> string" where
  "or_user_stop reason = (case reason of None \<Rightarrow> ''user_stop'' | Some s \<Rightarrow> s)"

definition pause_slot_work ::
  "timestamp_ms \<Rightarrow> string \<Rightarrow> string option \<Rightarrow> run_manager
   \<Rightarrow> (team_error + pause_slot_outcome) op_result" where
  "pause_slot_work now slot_id reason m =
     (case active_run m of
        None \<Rightarrow> (Inl (InvalidRequest ''no active team run to pause''), m, [])
      | Some r \<Rightarrow>
          (case role_for_slot r slot_id of
             None \<Rightarrow> (Inl (AgentNotFound slot_id), m, [])
           | Some role \<Rightarrow>
               (case hm_get (run_active_child_turns r) slot_id of
                  Some child \<Rightarrow>
                    (Inr \<lparr>po_team_run_id = run_team_run_id r,
                          po_cancel_target = Some (CancelActive child),
                          po_payload = payload_of now r\<rparr>, m, [])
                | None \<Rightarrow>
                    let pending_count = pending_wake_count_for_slot r slot_id;
                        gate1 = gate_pause now slot_id role (or_user_stop reason)
                                  (run_slot_wake_gate r);
                        gate2 = gate_add_suppressed slot_id pending_count gate1;
                        r1 = r\<lparr>run_pending_wakes := hm_remove slot_id (run_pending_wakes r),
                               run_slot_wake_gate := gate2\<rparr>;
                        (cancel_target, r2) = take_starting_cancel_target slot_id r1;
                        payload = payload_of now r2
                    in (Inr \<lparr>po_team_run_id = run_team_run_id r2,
                             po_cancel_target = cancel_target, po_payload = payload\<rparr>,
                        put_run r2 m, [RunEvent EvUpdated payload]))))"

section \<open>The life of a child turn\<close>

definition claim_wake_for_turn ::
  "timestamp_ms \<Rightarrow> string \<Rightarrow> string \<Rightarrow> target_role \<Rightarrow> string \<Rightarrow> run_manager
   \<Rightarrow> starting_reservation option op_result" where
  "claim_wake_for_turn now fresh slot_id role conversation_id m =
     (case active_run m of
        None \<Rightarrow> (None, m, [])
      | Some r \<Rightarrow>
          (case pop_pending slot_id r of
             (None, _) \<Rightarrow> (None, m, [])
           | (Some pending, r1) \<Rightarrow>
               let reservation =
                     \<lparr>sr_reservation_id = fresh, sr_team_run_id = run_team_run_id r,
                      sr_slot_id = pw_slot_id pending, sr_role = role,
                      sr_conversation_id = conversation_id, sr_wake_source = pw_source pending,
                      sr_message_id = pw_message_id pending, sr_state = ResStarting\<rparr>;
                   r2 = r1\<lparr>run_slot_runtime_health := hm_remove slot_id (run_slot_runtime_health r1),
                           run_starting_reservations :=
                             hm_insert fresh reservation (run_starting_reservations r1)\<rparr>
               in (Some reservation, put_run r2 m, [RunEvent EvUpdated (payload_of now r2)])))"

definition retry_child_start_later ::
  "timestamp_ms \<Rightarrow> string \<Rightarrow> run_manager \<Rightarrow> run_payload option op_result" where
  "retry_child_start_later now reservation_id m =
     (case active_run m of
        None \<Rightarrow> (None, m, [])
      | Some r \<Rightarrow>
          (case hm_get (run_starting_reservations r) reservation_id of
             None \<Rightarrow> (None, m, [])
           | Some reservation \<Rightarrow>
               let pending = \<lparr>pw_slot_id = sr_slot_id reservation, pw_role = sr_role reservation,
                              pw_source = sr_wake_source reservation,
                              pw_message_id = sr_message_id reservation\<rparr>;
                   queue = (case hm_get (run_pending_wakes r) (sr_slot_id reservation) of
                              None \<Rightarrow> [] | Some q \<Rightarrow> q);
                   r1 = r\<lparr>run_starting_reservations :=
                            hm_remove reservation_id (run_starting_reservations r),
                          run_pending_wakes :=
                            hm_insert (sr_slot_id reservation) (pending # queue)
                              (run_pending_wakes r)\<rparr>;
                   payload = payload_of now r1
               in (Some payload, put_run r1 m, [RunEvent EvUpdated payload])))"

text \<open>The steps that may end a run drop it when they return a final payload.\<close>

definition settle_run ::
  "run_payload option \<times> team_run \<times> team_event list \<Rightarrow> run_manager \<Rightarrow> run_payload option op_result" where
  "settle_run res m =
     (case res of (payload, r, evs) \<Rightarrow>
        (payload, if payload = None then put_run r m else clear_run m, evs))"

definition record_empty_wake_observed ::
  "timestamp_ms \<Rightarrow> string \<Rightarrow> run_manager \<Rightarrow> run_payload option op_result" where
  "record_empty_wake_observed now slot_id m =
     (case mgr_state m of
        None \<Rightarrow> (None, m, [])
      | Some r \<Rightarrow> settle_run (maybe_complete_locked now (snd (pop_pending slot_id r))) m)"

definition record_child_started ::
  "timestamp_ms \<Rightarrow> string \<Rightarrow> active_child_turn \<Rightarrow> run_manager \<Rightarrow> child_start_decision op_result" where
  "record_child_started now reservation_id child m =
     (case mgr_state m of
        None \<Rightarrow> (StartIgnored, m, [])
      | Some r \<Rightarrow>
          (case hm_get (run_starting_reservations r) reservation_id of
             None \<Rightarrow> (StartIgnored, m, [])
           | Some reservation \<Rightarrow>
               let r1 = r\<lparr>run_starting_reservations :=
                            hm_remove reservation_id (run_starting_reservations r)\<rparr>
               in if run_team_run_id r1 \<noteq> ac_team_run_id child then
                    (StartIgnored, put_run r1 m, [])
                  else
                    let should_cancel =
                          run_status r1 = RunCancelling \<or> sr_state reservation = ResCancelling;
                        first_child_for_run = (run_started_at r1 = None);
                        r2 = (if first_child_for_run then r1\<lparr>run_started_at := Some now\<rparr> else r1);
                        r3 = (if should_cancel then r2 else r2\<lparr>run_status := RunRunning\<rparr>);
                        r4 = r3\<lparr>run_active_child_turns :=
                                  hm_insert (ac_slot_id child) child (run_active_child_turns r3)\<rparr>;
                        payload = payload_of now r4;
                        name = (if first_child_for_run \<and> \<not> should_cancel then EvStarted
                                else EvUpdated)
                    in ((if should_cancel then CancelImmediately child else StartAccepted),
                        put_run r4 m,
                        [RunEvent name payload,
                         ChildEvent EvChildStarted
                           (child_payload (run_team_id r4) child RunRunning)])))"

definition fail_run :: "timestamp_ms \<Rightarrow> team_run \<Rightarrow> team_run" where
  "fail_run now r = r\<lparr>run_status := RunFailed, run_completed_at := Some now\<rparr>"

definition record_child_start_failed ::
  "timestamp_ms \<Rightarrow> string \<Rightarrow> run_manager \<Rightarrow> run_payload option op_result" where
  "record_child_start_failed now reservation_id m =
     (case mgr_state m of
        None \<Rightarrow> (None, m, [])
      | Some r \<Rightarrow>
          (case hm_get (run_starting_reservations r) reservation_id of
             None \<Rightarrow> (None, m, [])
           | Some reservation \<Rightarrow>
               let r1 = r\<lparr>run_starting_reservations :=
                            hm_remove reservation_id (run_starting_reservations r)\<rparr>
               in if run_status r1 = RunCancelling \<or> sr_state reservation = ResCancelling then
                    settle_run (maybe_cancelled_locked now r1) m
                  else
                    let payload = payload_of now (fail_run now r1)
                    in (Some payload, clear_run m, [RunEvent EvFailed payload])))"

definition record_child_completed ::
  "timestamp_ms \<Rightarrow> string \<Rightarrow> string \<Rightarrow> run_status \<Rightarrow> run_manager \<Rightarrow> run_payload option op_result" where
  "record_child_completed now slot_id turn_id status m =
     (case mgr_state m of
        None \<Rightarrow> (None, m, [])
      | Some r \<Rightarrow>
          (case hm_get (run_active_child_turns r) slot_id of
             None \<Rightarrow> (None, m, [])
           | Some child \<Rightarrow>
               let rest = hm_remove slot_id (run_active_child_turns r)
               in if ac_turn_id child \<noteq> turn_id then
                    (None, put_run (r\<lparr>run_active_child_turns := hm_insert slot_id child rest\<rparr>) m, [])
                  else
                    let r1 = r\<lparr>run_active_child_turns := rest\<rparr>;
                        child_event = ChildEvent EvChildCompleted
                                        (child_payload (run_team_id r1) child status)
                    in if status = RunFailed then
                         let payload = payload_of now (fail_run now r1)
                         in (Some payload, clear_run m, [child_event, RunEvent EvFailed payload])
                       else
                         (case settle_run (maybe_complete_locked now r1) m of
                            (payload, m', evs) \<Rightarrow> (payload, m', child_event # evs))))"

definition maybe_complete :: "timestamp_ms \<Rightarrow> run_manager \<Rightarrow> run_payload option op_result" where
  "maybe_complete now m =
     (case mgr_state m of
        None \<Rightarrow> (None, m, []) | Some r \<Rightarrow> settle_run (maybe_complete_locked now r) m)"

section \<open>Cancelling\<close>

definition begin_cancel ::
  "timestamp_ms \<Rightarrow> string option \<Rightarrow> string option \<Rightarrow> run_manager \<Rightarrow> (team_error + unit) op_result" where
  "begin_cancel now target_slot_id reason m =
     (case active_run m of
        None \<Rightarrow> (Inl (InvalidRequest ''no active team run to cancel''), m, [])
      | Some r \<Rightarrow>
          let cancel_run =
                (let r1 = r\<lparr>run_status := RunCancelling,
                            run_cancel_reason := reason,
                            run_pending_wakes := [],
                            run_slot_wake_gate := gate_clear (run_slot_wake_gate r),
                            run_starting_reservations :=
                              hm_map_values (\<lambda>res. res\<lparr>sr_state := ResCancelling\<rparr>)
                                (run_starting_reservations r)\<rparr>
                 in (Inr (), put_run r1 m, [RunEvent EvUpdated (payload_of now r1)]))
          in (case target_slot_id of
                None \<Rightarrow> cancel_run
              | Some target \<Rightarrow>
                  if target \<noteq> run_target_slot_id r \<and>
                     \<not> hm_has (run_active_child_turns r) target \<and>
                     \<not> list_ex (\<lambda>res. sr_slot_id res = target)
                         (hm_values (run_starting_reservations r))
                  then (Inl (AgentNotFound target), m, [])
                  else cancel_run))"

definition try_complete_cancelled :: "timestamp_ms \<Rightarrow> run_manager \<Rightarrow> run_payload option op_result" where
  "try_complete_cancelled now m =
     (case mgr_state m of
        None \<Rightarrow> (None, m, []) | Some r \<Rightarrow> settle_run (maybe_cancelled_locked now r) m)"

definition complete_failed :: "timestamp_ms \<Rightarrow> run_manager \<Rightarrow> string option op_result" where
  "complete_failed now m =
     (case mgr_state m of
        None \<Rightarrow> (None, m, [])
      | Some r \<Rightarrow>
          (Some (run_team_run_id r), clear_run m,
           [RunEvent EvFailed (payload_of now (fail_run now r))]))"

definition begin_cancel_child ::
  "string \<Rightarrow> run_manager \<Rightarrow> (team_error + child_cancel_target) op_result" where
  "begin_cancel_child slot_id m =
     (case active_run m of
        None \<Rightarrow> (Inl (InvalidRequest ''no active team run''), m, [])
      | Some r \<Rightarrow>
          (case hm_get (run_active_child_turns r) slot_id of
             Some child \<Rightarrow> (Inr (CancelActive child), m, [])
           | None \<Rightarrow>
               (case find_reservation r slot_id of
                  Some (reservation_id, reservation) \<Rightarrow>
                    let cancelling = reservation\<lparr>sr_state := ResCancelling\<rparr>
                    in (Inr (CancelStarting cancelling),
                        put_run (r\<lparr>run_starting_reservations :=
                                     hm_modify reservation_id (\<lambda>_. cancelling)
                                       (run_starting_reservations r)\<rparr>) m, [])
                | None \<Rightarrow>
                    (Inl (InvalidRequest
                       (''agent '' @ slot_id @ '' has no active or starting child turn'')), m, []))))"

definition record_child_cancelled ::
  "timestamp_ms \<Rightarrow> active_child_turn \<Rightarrow> run_manager \<Rightarrow> unit op_result" where
  "record_child_cancelled now child m =
     (case mgr_state m of
        None \<Rightarrow> ((), m, [])
      | Some r \<Rightarrow>
          let r1 = r\<lparr>run_active_child_turns :=
                       hm_remove (ac_slot_id child) (run_active_child_turns r)\<rparr>;
              payload = child_payload (run_team_id r1) child RunCancelled;
              child_event = ChildEvent EvChildCancelled payload
          in if run_status r1 = RunCancelling then
               (case settle_run (maybe_cancelled_locked now r1) m of
                  (_, m', evs) \<Rightarrow> ((), m', evs @ [child_event]))
             else ((), put_run r1 m, [child_event]))"

definition complete_pause_after_child_cancelled ::
  "timestamp_ms \<Rightarrow> active_child_turn \<Rightarrow> string option \<Rightarrow> run_manager
   \<Rightarrow> run_payload option op_result" where
  "complete_pause_after_child_cancelled now child reason m =
     (case mgr_state m of
        None \<Rightarrow> (None, m, [])
      | Some r \<Rightarrow>
          let slot_id = ac_slot_id child;
              pending_count = pending_wake_count_for_slot r slot_id;
              gate1 = gate_pause now slot_id (ac_role child) (or_user_stop reason)
                        (run_slot_wake_gate r);
              gate2 = gate_add_suppressed slot_id pending_count gate1;
              r1 = r\<lparr>run_pending_wakes := hm_remove slot_id (run_pending_wakes r),
                     run_slot_wake_gate := gate2,
                     run_active_child_turns := hm_remove slot_id (run_active_child_turns r)\<rparr>;
              payload = payload_of now r1
          in (Some payload, put_run r1 m,
              [ChildEvent EvChildCancelled (child_payload (run_team_id r1) child RunCancelled),
               RunEvent EvUpdated payload]))"

section \<open>What is sent under the lock\<close>

text \<open>
  An operation that settles the run (\<open>maybe_complete_locked\<close>, \<open>maybe_cancelled_locked\<close>) sends while it
  holds the lock, every other one drops the guard before it sends. These are how many of its events,
  from the first, an operation sends under the lock.
\<close>

type_synonym held = "team_event list \<Rightarrow> nat"

definition held_none :: held where
  "held_none evs = 0"

definition held_all :: held where
  "held_all evs = length evs"

fun is_failure :: "team_event \<Rightarrow> bool" where
  "is_failure (RunEvent name _) \<longleftrightarrow> name = EvFailed"
| "is_failure _ \<longleftrightarrow> False"

text \<open>A failed child or start drops the guard, any other outcome settles the run.\<close>

definition held_unless_failed :: held where
  "held_unless_failed evs = (if list_ex is_failure evs then 0 else length evs)"

text \<open>\<open>record_child_cancelled\<close> settles the run and then sends the event of the child.\<close>

definition held_but_last :: held where
  "held_but_last evs = length evs - 1"

end
