(* ===== verification/TeamRunInv.thy ===== *)
theory TeamRunInv
  imports TeamRun "HOL-Library.Multiset"
begin

text \<open>
  The manager as a machine over its operations, and what every reachable state satisfies:
  the keys of each map agree with the entries, no queue is empty, a run that is kept is
  accepted, running or cancelling, and a cancelling run has nothing pending and every
  reservation marked.
\<close>

section \<open>The operations as one step function\<close>

datatype run_op =
    OpAcceptUserMessage timestamp_ms string string target_role bool "string option"
  | OpAcquireUserMessageWake timestamp_ms string string string target_role
  | OpRecoverMailboxBacklog timestamp_ms string "recovery_candidate list"
  | OpCommitLease timestamp_ms string "string option"
  | OpAbortLease timestamp_ms string
  | OpAcquireRunScopedWake timestamp_ms string string target_role wake_source
  | OpAcquireSchedulerWake timestamp_ms string string target_role wake_source
  | OpMarkSlotRuntimeHealth timestamp_ms string runtime_health
  | OpObserveSlowChildTurns timestamp_ms
  | OpPauseSlotWork timestamp_ms string "string option"
  | OpRecordOrSuppressWake timestamp_ms string target_role wake_source "string option"
  | OpClaimWakeForTurn timestamp_ms string string target_role string
  | OpRetryChildStartLater timestamp_ms string
  | OpRecordEmptyWakeObserved timestamp_ms string
  | OpRecordChildStarted timestamp_ms string active_child_turn
  | OpRecordChildStartFailed timestamp_ms string
  | OpRecordChildCompleted timestamp_ms string string run_status
  | OpMaybeComplete timestamp_ms
  | OpBeginCancel timestamp_ms "string option" "string option"
  | OpTryCompleteCancelled timestamp_ms
  | OpCompleteFailed timestamp_ms
  | OpBeginCancelChild string
  | OpRecordChildCancelled timestamp_ms active_child_turn
  | OpCompletePause timestamp_ms active_child_turn "string option"
  | OpReleaseSuppressedWake timestamp_ms string target_role

abbreviation after :: "'r op_result \<Rightarrow> run_manager \<times> team_event list" where
  "after res \<equiv> snd res"

fun exec_op :: "run_op \<Rightarrow> run_manager \<Rightarrow> run_manager \<times> team_event list" where
  "exec_op (OpAcceptUserMessage now f s r a i) m = after (accept_user_message now f s r a i m)"
| "exec_op (OpAcquireUserMessageWake now f l s r) m = after (acquire_user_message_wake now f l s r m)"
| "exec_op (OpRecoverMailboxBacklog now f cs) m = after (recover_mailbox_backlog now f cs m)"
| "exec_op (OpCommitLease now l i) m = after (commit_operation_lease now l i m)"
| "exec_op (OpAbortLease now l) m = after (abort_operation_lease now l m)"
| "exec_op (OpAcquireRunScopedWake now f s r src) m = after (acquire_run_scoped_wake now f s r src m)"
| "exec_op (OpAcquireSchedulerWake now f s r src) m = after (acquire_scheduler_wake now f s r src m)"
| "exec_op (OpMarkSlotRuntimeHealth now s h) m = after (mark_slot_runtime_health now s h m)"
| "exec_op (OpObserveSlowChildTurns now) m = after (observe_slow_child_turns now m)"
| "exec_op (OpPauseSlotWork now s why) m = after (pause_slot_work now s why m)"
| "exec_op (OpRecordOrSuppressWake now s r src i) m = after (record_or_suppress_wake now s r src i m)"
| "exec_op (OpClaimWakeForTurn now f s r c) m = after (claim_wake_for_turn now f s r c m)"
| "exec_op (OpRetryChildStartLater now i) m = after (retry_child_start_later now i m)"
| "exec_op (OpRecordEmptyWakeObserved now s) m = after (record_empty_wake_observed now s m)"
| "exec_op (OpRecordChildStarted now i c) m = after (record_child_started now i c m)"
| "exec_op (OpRecordChildStartFailed now i) m = after (record_child_start_failed now i m)"
| "exec_op (OpRecordChildCompleted now s t st) m = after (record_child_completed now s t st m)"
| "exec_op (OpMaybeComplete now) m = after (maybe_complete now m)"
| "exec_op (OpBeginCancel now t why) m = after (begin_cancel now t why m)"
| "exec_op (OpTryCompleteCancelled now) m = after (try_complete_cancelled now m)"
| "exec_op (OpCompleteFailed now) m = after (complete_failed now m)"
| "exec_op (OpBeginCancelChild s) m = after (begin_cancel_child s m)"
| "exec_op (OpRecordChildCancelled now c) m = after (record_child_cancelled now c m)"
| "exec_op (OpCompletePause now c why) m = after (complete_pause_after_child_cancelled now c why m)"
| "exec_op (OpReleaseSuppressedWake now s r) m =
     after (release_suppressed_wake_if_resumed now s r m)"

definition run_step :: "run_op \<Rightarrow> run_manager \<Rightarrow> run_manager" where
  "run_step op m = fst (exec_op op m)"

definition run_events :: "run_op \<Rightarrow> run_manager \<Rightarrow> team_event list" where
  "run_events op m = snd (exec_op op m)"

section \<open>Well-formed maps\<close>

definition wf_active :: "string \<Rightarrow> (string, active_child_turn) hmap \<Rightarrow> bool" where
  "wf_active i m \<longleftrightarrow>
     hm_wf m \<and> (\<forall>(s, c) \<in> set m. ac_slot_id c = s \<and> ac_team_run_id c = i)"

definition wf_starting :: "string \<Rightarrow> (string, starting_reservation) hmap \<Rightarrow> bool" where
  "wf_starting i m \<longleftrightarrow>
     hm_wf m \<and> (\<forall>(k, res) \<in> set m. sr_reservation_id res = k \<and> sr_team_run_id res = i)"

definition wf_pending :: "(string, pending_wake list) hmap \<Rightarrow> bool" where
  "wf_pending m \<longleftrightarrow>
     hm_wf m \<and> (\<forall>(s, q) \<in> set m. q \<noteq> [] \<and> (\<forall>w \<in> set q. pw_slot_id w = s))"

definition wf_leases :: "string \<Rightarrow> (string, operation_lease) hmap \<Rightarrow> bool" where
  "wf_leases i m \<longleftrightarrow>
     hm_wf m \<and> (\<forall>(k, l) \<in> set m. ol_lease_id l = k \<and> ol_team_run_id l = i)"

definition all_cancelling :: "(string, starting_reservation) hmap \<Rightarrow> bool" where
  "all_cancelling m \<longleftrightarrow> (\<forall>(k, res) \<in> set m. sr_state res = ResCancelling)"

named_theorems wf_maps \<open>the map operations keep the maps of a run well formed\<close>

lemma wf_Nil [wf_maps]:
  "wf_active i []" "wf_starting i []" "wf_pending []" "wf_leases i []" "all_cancelling []"
  by (simp_all add: wf_active_def wf_starting_def wf_pending_def wf_leases_def all_cancelling_def)

lemma wf_remove [wf_maps]:
  "wf_active i am \<Longrightarrow> wf_active i (hm_remove k am)"
  "wf_starting i sm \<Longrightarrow> wf_starting i (hm_remove k sm)"
  "wf_pending pm \<Longrightarrow> wf_pending (hm_remove k pm)"
  "wf_leases i lm \<Longrightarrow> wf_leases i (hm_remove k lm)"
  "all_cancelling sm \<Longrightarrow> all_cancelling (hm_remove k sm)"
  by (auto simp: wf_active_def wf_starting_def wf_pending_def wf_leases_def all_cancelling_def
      hm_set_remove)

lemma wf_insert [wf_maps]:
  "wf_active i am \<Longrightarrow> ac_slot_id c = k \<Longrightarrow> ac_team_run_id c = i \<Longrightarrow> wf_active i (hm_insert k c am)"
  "wf_starting i sm \<Longrightarrow> sr_reservation_id res = k \<Longrightarrow> sr_team_run_id res = i \<Longrightarrow>
     wf_starting i (hm_insert k res sm)"
  "wf_pending pm \<Longrightarrow> q \<noteq> [] \<Longrightarrow> \<forall>w \<in> set q. pw_slot_id w = k \<Longrightarrow> wf_pending (hm_insert k q pm)"
  "wf_leases i lm \<Longrightarrow> ol_lease_id l = k \<Longrightarrow> ol_team_run_id l = i \<Longrightarrow> wf_leases i (hm_insert k l lm)"
  by (auto simp: wf_active_def wf_starting_def wf_pending_def wf_leases_def hm_set_insert)

lemma wf_map_values [wf_maps]:
  "wf_active i am \<Longrightarrow> (\<And>c. ac_slot_id (f c) = ac_slot_id c \<and> ac_team_run_id (f c) = ac_team_run_id c)
     \<Longrightarrow> wf_active i (hm_map_values f am)"
  "wf_starting i sm \<Longrightarrow>
     (\<And>c. sr_reservation_id (g c) = sr_reservation_id c \<and> sr_team_run_id (g c) = sr_team_run_id c)
     \<Longrightarrow> wf_starting i (hm_map_values g sm)"
  by (auto simp: wf_active_def wf_starting_def) (auto simp: hm_map_values_def)

lemma all_cancelling_mark [wf_maps]:
  "all_cancelling (hm_map_values (\<lambda>res. res\<lparr>sr_state := ResCancelling\<rparr>) m)"
  by (auto simp: all_cancelling_def hm_map_values_def)

lemma wf_starting_modify [wf_maps]:
  "wf_starting i m \<Longrightarrow> sr_reservation_id res = k \<Longrightarrow> sr_team_run_id res = i \<Longrightarrow>
     wf_starting i (hm_modify k (\<lambda>_. res) m)"
  by (auto simp: wf_starting_def) (auto simp: hm_modify_def split: if_splits)

lemma wf_active_get: "wf_active i m \<Longrightarrow> hm_get m s = Some c \<Longrightarrow> ac_slot_id c = s \<and> ac_team_run_id c = i"
  by (auto simp: wf_active_def dest!: hm_get_Some_mem)

lemma wf_starting_get:
  "wf_starting i m \<Longrightarrow> hm_get m k = Some res \<Longrightarrow> sr_reservation_id res = k \<and> sr_team_run_id res = i"
  by (auto simp: wf_starting_def dest!: hm_get_Some_mem)

lemma wf_pending_get:
  "wf_pending m \<Longrightarrow> hm_get m s = Some q \<Longrightarrow> q \<noteq> [] \<and> (\<forall>w \<in> set q. pw_slot_id w = s)"
  by (auto simp: wf_pending_def dest!: hm_get_Some_mem)

lemma wf_leases_get:
  "wf_leases i m \<Longrightarrow> hm_get m k = Some l \<Longrightarrow> ol_lease_id l = k \<and> ol_team_run_id l = i"
  by (auto simp: wf_leases_def dest!: hm_get_Some_mem)

lemma find_reservation_mem:
  "find_reservation r s = Some (k, res) \<Longrightarrow>
     (k, res) \<in> set (run_starting_reservations r) \<and> sr_slot_id res = s"
  by (auto simp: find_reservation_def find_Some_iff in_set_conv_nth)

lemma enqueue_split:
  "enqueue_wake w q =
     (if is_foreground_wake (pw_source w)
      then takeWhile (\<lambda>p. is_foreground_wake (pw_source p)) q
           @ w # dropWhile (\<lambda>p. is_foreground_wake (pw_source p)) q
      else q @ [w])"
  by (simp add: enqueue_wake_def Let_def takeWhile_eq_take [symmetric] dropWhile_eq_drop [symmetric])

lemma mset_enqueue: "mset (enqueue_wake w q) = add_mset w (mset q)"
proof -
  have "mset (takeWhile P q) + mset (dropWhile P q) = mset q" for P
    by (metis mset_append takeWhile_dropWhile_id)
  then show ?thesis by (simp add: enqueue_split)
qed

lemma set_enqueue: "set (enqueue_wake w q) = insert w (set q)"
  using arg_cong [OF mset_enqueue, of set_mset w q] by simp

lemma length_enqueue: "length (enqueue_wake w q) = Suc (length q)"
  using arg_cong [OF mset_enqueue, of size w q] by simp

lemma enqueue_nonempty: "enqueue_wake w q \<noteq> []"
  using length_enqueue [of w q] by auto

section \<open>Well-formed runs\<close>

definition wf_run :: "team_run \<Rightarrow> bool" where
  "wf_run r \<longleftrightarrow>
     wf_active (run_team_run_id r) (run_active_child_turns r) \<and>
     wf_starting (run_team_run_id r) (run_starting_reservations r) \<and>
     wf_pending (run_pending_wakes r) \<and>
     wf_leases (run_team_run_id r) (run_active_operation_leases r) \<and>
     hm_wf (run_slot_wake_gate r) \<and>
     hm_wf (run_slot_runtime_health r) \<and>
     (run_status r = RunRunning \<longrightarrow> run_started_at r \<noteq> None) \<and>
     (run_status r = RunCancelling \<longrightarrow>
        run_pending_wakes r = [] \<and> all_cancelling (run_starting_reservations r))"

definition wf_manager :: "run_manager \<Rightarrow> bool" where
  "wf_manager m \<longleftrightarrow>
     (case mgr_state m of
        None \<Rightarrow> True
      | Some r \<Rightarrow> wf_run r \<and> run_team_id r = mgr_team_id m \<and>
                  run_status r \<in> {RunAccepted, RunRunning, RunCancelling})"

lemma wf_managerI:
  "mgr_state m = Some r \<Longrightarrow> wf_run r \<Longrightarrow> run_team_id r = mgr_team_id m \<Longrightarrow>
     run_status r \<in> {RunAccepted, RunRunning, RunCancelling} \<Longrightarrow> wf_manager m"
  by (simp add: wf_manager_def)

lemma wf_manager_put [simp]:
  "wf_manager (put_run r m) \<longleftrightarrow>
     wf_run r \<and> run_team_id r = mgr_team_id m \<and>
     run_status r \<in> {RunAccepted, RunRunning, RunCancelling}"
  by (simp add: wf_manager_def put_run_def)

lemma wf_manager_clear [simp]: "wf_manager (clear_run m)"
  by (simp add: wf_manager_def clear_run_def)

lemma wf_manager_state:
  "wf_manager m \<Longrightarrow> mgr_state m = Some r \<Longrightarrow>
     wf_run r \<and> run_team_id r = mgr_team_id m \<and>
     run_status r \<in> {RunAccepted, RunRunning, RunCancelling}"
  by (simp add: wf_manager_def)

lemma active_runD:
  "active_run m = Some r \<Longrightarrow> mgr_state m = Some r \<and> run_status r \<in> {RunAccepted, RunRunning}"
  by (simp add: active_run_def is_active_def split: option.splits if_splits)

lemma wf_manager_active:
  "wf_manager m \<Longrightarrow> active_run m = Some r \<Longrightarrow>
     wf_run r \<and> run_team_id r = mgr_team_id m \<and> run_status r \<in> {RunAccepted, RunRunning}"
  using active_runD wf_manager_state by blast

section \<open>Every operation keeps a well-formed run\<close>

named_theorems run_frames \<open>the fields a local step leaves alone\<close>

lemma push_frames [run_frames, simp]:
  "run_team_run_id (push_pending_wake s ro src i r) = run_team_run_id r"
  "run_team_id (push_pending_wake s ro src i r) = run_team_id r"
  "run_status (push_pending_wake s ro src i r) = run_status r"
  "run_started_at (push_pending_wake s ro src i r) = run_started_at r"
  "run_active_child_turns (push_pending_wake s ro src i r) = run_active_child_turns r"
  "run_starting_reservations (push_pending_wake s ro src i r) = run_starting_reservations r"
  "run_active_operation_leases (push_pending_wake s ro src i r) = run_active_operation_leases r"
  "run_slot_wake_gate (push_pending_wake s ro src i r) = run_slot_wake_gate r"
  "run_slot_runtime_health (push_pending_wake s ro src i r) = run_slot_runtime_health r"
  "run_target_slot_id (push_pending_wake s ro src i r) = run_target_slot_id r"
  by (simp_all add: push_pending_wake_def Let_def)

lemma pop_frames [run_frames, simp]:
  "run_team_run_id (snd (pop_pending s r)) = run_team_run_id r"
  "run_team_id (snd (pop_pending s r)) = run_team_id r"
  "run_status (snd (pop_pending s r)) = run_status r"
  "run_started_at (snd (pop_pending s r)) = run_started_at r"
  "run_active_child_turns (snd (pop_pending s r)) = run_active_child_turns r"
  "run_starting_reservations (snd (pop_pending s r)) = run_starting_reservations r"
  "run_active_operation_leases (snd (pop_pending s r)) = run_active_operation_leases r"
  "run_slot_wake_gate (snd (pop_pending s r)) = run_slot_wake_gate r"
  "run_slot_runtime_health (snd (pop_pending s r)) = run_slot_runtime_health r"
  by (simp_all add: pop_pending_def split: option.splits list.splits)

lemma take_starting_frames [run_frames, simp]:
  "run_team_run_id (snd (take_starting_cancel_target s r)) = run_team_run_id r"
  "run_team_id (snd (take_starting_cancel_target s r)) = run_team_id r"
  "run_status (snd (take_starting_cancel_target s r)) = run_status r"
  "run_started_at (snd (take_starting_cancel_target s r)) = run_started_at r"
  "run_active_child_turns (snd (take_starting_cancel_target s r)) = run_active_child_turns r"
  "run_pending_wakes (snd (take_starting_cancel_target s r)) = run_pending_wakes r"
  "run_active_operation_leases (snd (take_starting_cancel_target s r)) =
     run_active_operation_leases r"
  "run_slot_wake_gate (snd (take_starting_cancel_target s r)) = run_slot_wake_gate r"
  "run_slot_runtime_health (snd (take_starting_cancel_target s r)) = run_slot_runtime_health r"
  by (simp_all add: take_starting_cancel_target_def split: option.splits)

lemma wf_pending_push:
  assumes "wf_pending m" and "pw_slot_id w = s"
  shows "wf_pending (hm_insert s (enqueue_wake w (case hm_get m s of None \<Rightarrow> [] | Some q \<Rightarrow> q)) m)"
    and "wf_pending (hm_insert s (w # (case hm_get m s of None \<Rightarrow> [] | Some q \<Rightarrow> q)) m)"
  using assms wf_pending_get [OF assms(1), of s]
  by (auto intro!: wf_insert simp: set_enqueue enqueue_nonempty split: option.splits)

lemma wf_pending_pop:
  assumes "wf_pending m" and "hm_get m s = Some (p # rest)" and "rest \<noteq> []"
  shows "wf_pending (hm_insert s rest m)"
  using assms wf_pending_get [OF assms(1,2)] by (auto intro!: wf_insert)

lemma wf_run_push:
  "wf_run r \<Longrightarrow> run_status r \<noteq> RunCancelling \<Longrightarrow> wf_run (push_pending_wake s ro src i r)"
  by (auto simp: wf_run_def push_pending_wake_def Let_def intro!: wf_pending_push)

lemma wf_run_pop: "wf_run r \<Longrightarrow> wf_run (snd (pop_pending s r))"
  by (auto simp: wf_run_def pop_pending_def intro: wf_maps wf_pending_pop
      split: option.splits list.splits)

lemma wf_run_take_starting: "wf_run r \<Longrightarrow> wf_run (snd (take_starting_cancel_target s r))"
  by (auto simp: wf_run_def take_starting_cancel_target_def intro!: wf_maps split: option.splits)

lemma wf_run_gate: "wf_run r \<Longrightarrow> hm_wf g \<Longrightarrow> wf_run (r\<lparr>run_slot_wake_gate := g\<rparr>)"
  by (simp add: wf_run_def)

lemma wf_run_lease:
  "wf_run r \<Longrightarrow> wf_run (snd (new_operation_lease f s ro src b r))"
  by (auto simp: wf_run_def new_operation_lease_def Let_def intro!: wf_maps)

lemma new_lease_frames [run_frames, simp]:
  "run_team_id (snd (new_operation_lease f s ro src b r)) = run_team_id r"
  "run_status (snd (new_operation_lease f s ro src b r)) = run_status r"
  by (simp_all add: new_operation_lease_def Let_def)

lemma wf_new_run: "wf_run (new_team_run_record f t s ro src u)"
  by (simp add: wf_run_def new_team_run_record_def wf_maps)

lemma new_run_frames [simp]:
  "run_team_run_id (new_team_run_record f t s ro src u) = f"
  "run_team_id (new_team_run_record f t s ro src u) = t"
  "run_status (new_team_run_record f t s ro src u) = RunAccepted"
  by (simp_all add: new_team_run_record_def)

lemma push_candidate_wf:
  "wf_run r \<Longrightarrow> run_status r \<noteq> RunCancelling \<Longrightarrow> wf_run (fold push_candidate cs r)"
  by (induction cs arbitrary: r) (simp_all add: push_candidate_def wf_run_push)

lemma push_candidates_frames [simp]:
  "run_team_id (fold push_candidate cs r) = run_team_id r"
  "run_status (fold push_candidate cs r) = run_status r"
  "run_team_run_id (fold push_candidate cs r) = run_team_run_id r"
  by (induction cs arbitrary: r) (simp_all add: push_candidate_def)

lemma attach_frames [simp]:
  "run_team_id (snd (attach_candidates cs r)) = run_team_id r"
  "run_status (snd (attach_candidates cs r)) = run_status r"
  "run_team_run_id (snd (attach_candidates cs r)) = run_team_run_id r"
  by (induction cs r rule: attach_candidates.induct)
    (simp_all add: push_candidate_def case_prod_unfold Let_def)

lemma attach_wf:
  "wf_run r \<Longrightarrow> run_status r \<noteq> RunCancelling \<Longrightarrow> wf_run (snd (attach_candidates cs r))"
  by (induction cs r rule: attach_candidates.induct)
    (simp_all add: push_candidate_def case_prod_unfold Let_def wf_run_push)

text \<open>What \<open>maybe_complete_locked\<close> and \<open>maybe_cancelled_locked\<close> leave: the run they were given,
  or a final payload.\<close>

lemma maybe_complete_locked_None:
  "fst (maybe_complete_locked now r) = None \<Longrightarrow> fst (snd (maybe_complete_locked now r)) = r"
  by (simp add: maybe_complete_locked_def Let_def split: if_splits)

lemma maybe_cancelled_locked_None:
  "fst (maybe_cancelled_locked now r) = None \<Longrightarrow> fst (snd (maybe_cancelled_locked now r)) = r"
  by (simp add: maybe_cancelled_locked_def Let_def split: if_splits)

lemma settle_complete_state:
  "fst (snd (settle_run (maybe_complete_locked now r) m)) =
     (if no_work_left r \<and> is_active r then clear_run m else put_run r m)"
  by (auto simp: settle_run_def maybe_complete_locked_def Let_def is_active_def)

lemma settle_cancelled_state:
  "fst (snd (settle_run (maybe_cancelled_locked now r) m)) =
     (if no_work_left r \<and> run_status r = RunCancelling then clear_run m else put_run r m)"
  by (auto simp: settle_run_def maybe_cancelled_locked_def Let_def)

text \<open>
  A local step that keeps the run well formed, its team and its status in the kept range keeps
  the manager well formed; with \<open>wf_manager_put\<close> and \<open>wf_manager_clear\<close> the operations follow.
\<close>

lemma wf_settle_complete:
  "wf_manager m \<Longrightarrow> wf_run r \<Longrightarrow> run_team_id r = mgr_team_id m \<Longrightarrow>
     run_status r \<in> {RunAccepted, RunRunning, RunCancelling} \<Longrightarrow>
     wf_manager (fst (snd (settle_run (maybe_complete_locked now r) m)))"
  by (simp add: settle_complete_state)

lemma wf_settle_cancelled:
  "wf_manager m \<Longrightarrow> wf_run r \<Longrightarrow> run_team_id r = mgr_team_id m \<Longrightarrow>
     run_status r \<in> {RunAccepted, RunRunning, RunCancelling} \<Longrightarrow>
     wf_manager (fst (snd (settle_run (maybe_cancelled_locked now r) m)))"
  by (simp add: settle_cancelled_state)

lemma with_active:
  assumes "wf_manager m"
    and "active_run m = None \<Longrightarrow> P"
    and "\<And>r. active_run m = Some r \<Longrightarrow> wf_run r \<Longrightarrow> run_team_id r = mgr_team_id m \<Longrightarrow>
           run_status r \<in> {RunAccepted, RunRunning} \<Longrightarrow> run_status r \<noteq> RunCancelling \<Longrightarrow> P"
  shows P
  using assms wf_manager_active [of m] by (cases "active_run m") auto

lemma with_state:
  assumes "wf_manager m"
    and "mgr_state m = None \<Longrightarrow> P"
    and "\<And>r. mgr_state m = Some r \<Longrightarrow> wf_run r \<Longrightarrow> run_team_id r = mgr_team_id m \<Longrightarrow>
           run_status r \<in> {RunAccepted, RunRunning, RunCancelling} \<Longrightarrow> P"
  shows P
  using assms wf_manager_state [of m] by (cases "mgr_state m") auto

lemma wf_run_updates [simp]:
  "wf_run (r\<lparr>run_has_user_intervention := u\<rparr>) = wf_run r"
  "wf_run r \<Longrightarrow> hm_wf g \<Longrightarrow> wf_run (r\<lparr>run_slot_wake_gate := g\<rparr>)"
  "wf_run r \<Longrightarrow> hm_wf h \<Longrightarrow> wf_run (r\<lparr>run_slot_runtime_health := h\<rparr>)"
  "wf_run r \<Longrightarrow> wf_run (r\<lparr>run_active_operation_leases := hm_remove l (run_active_operation_leases r)\<rparr>)"
  "wf_run r \<Longrightarrow> wf_run (r\<lparr>run_starting_reservations := hm_remove k (run_starting_reservations r)\<rparr>)"
  "wf_run r \<Longrightarrow> wf_run (r\<lparr>run_active_child_turns := hm_remove s (run_active_child_turns r)\<rparr>)"
  "wf_run r \<Longrightarrow> wf_run (r\<lparr>run_pending_wakes := hm_remove s (run_pending_wakes r)\<rparr>)"
  by (auto simp: wf_run_def wf_maps)

lemma wf_run_gate_ops [simp]:
  "wf_run r \<Longrightarrow> hm_wf (run_slot_wake_gate r)"
  "wf_run r \<Longrightarrow> hm_wf (run_slot_runtime_health r)"
  "wf_run r \<Longrightarrow> wf_pending (run_pending_wakes r)"
  by (simp_all add: wf_run_def)

lemma wf_accept_user_message:
  assumes "wf_manager m"
  shows "wf_manager (fst (snd (accept_user_message now f s ro a i m)))"
  using assms
  by (rule with_active)
    (auto simp: accept_user_message_def Let_def wf_new_run assms split: option.splits)

lemma wf_acquire_user_message_wake:
  assumes "wf_manager m"
  shows "wf_manager (fst (snd (acquire_user_message_wake now f l s ro m)))"
  using assms
  by (rule with_active)
    (auto simp: acquire_user_message_wake_def Let_def case_prod_unfold wf_run_lease wf_new_run assms
      split: option.splits)

lemma wf_recover_mailbox_backlog:
  assumes "wf_manager m"
  shows "wf_manager (fst (snd (recover_mailbox_backlog now f cs m)))"
  using assms
  by (rule with_active)
    (auto simp: recover_mailbox_backlog_def Let_def case_prod_unfold push_candidate_wf wf_new_run
      attach_wf assms simp del: fold_simps split: option.splits list.splits)

lemma wf_commit_operation_lease:
  assumes "wf_manager m"
  shows "wf_manager (fst (snd (commit_operation_lease now l i m)))"
  using assms
  by (rule with_active)
    (auto simp: commit_operation_lease_def Let_def wf_run_push assms split: option.splits)

lemma wf_abort_operation_lease:
  assumes "wf_manager m"
  shows "wf_manager (fst (snd (abort_operation_lease now l m)))"
  using assms
  by (rule with_active) (auto simp: abort_operation_lease_def Let_def assms split: option.splits)

lemma wf_acquire_run_scoped:
  assumes "wf_manager m"
  shows "wf_manager (fst (snd (acquire_run_scoped_wake_with_intent now f s ro src intent m)))"
  using assms
  by (rule with_active)
    (auto simp: acquire_run_scoped_wake_with_intent_def Let_def case_prod_unfold wf_run_lease assms
      split: acquire_policy_decision.splits)

lemma wf_mark_slot_runtime_health:
  assumes "wf_manager m"
  shows "wf_manager (fst (snd (mark_slot_runtime_health now s h m)))"
  using assms by (rule with_active) (auto simp: mark_slot_runtime_health_def Let_def assms)

lemma wf_run_slow_mark [simp]:
  "wf_run r \<Longrightarrow>
     wf_run (r\<lparr>run_active_child_turns :=
       hm_map_values (\<lambda>c. if slow_notice_due now c then c\<lparr>ac_last_slow_notified_at_ms := Some now\<rparr>
                          else c) (run_active_child_turns r)\<rparr>)"
  unfolding wf_run_def by (simp add: wf_map_values)

lemma wf_observe_slow_child_turns:
  assumes "wf_manager m"
  shows "wf_manager (fst (snd (observe_slow_child_turns now m)))"
  using assms
  by (rule with_active) (simp_all add: observe_slow_child_turns_def Let_def assms)

lemma wf_pause_slot_work:
  assumes "wf_manager m"
  shows "wf_manager (fst (snd (pause_slot_work now s why m)))"
  using assms
proof (rule with_active)
  fix r
  assume "active_run m = Some r" and r: "wf_run r" "run_team_id r = mgr_team_id m"
    "run_status r \<in> {RunAccepted, RunRunning}"
  moreover from r have "wf_run (r\<lparr>run_pending_wakes := hm_remove s (run_pending_wakes r),
      run_slot_wake_gate := gate_add_suppressed s n (gate_pause now s ro y (run_slot_wake_gate r))\<rparr>)"
    for n ro y
    using wf_run_updates(2) [OF wf_run_updates(7) [OF r(1), of s]] by simp
  ultimately show ?thesis
    by (auto simp: pause_slot_work_def Let_def case_prod_unfold wf_run_take_starting assms
        split: option.splits)
qed (simp add: pause_slot_work_def assms)

lemma wf_record_or_suppress_wake:
  assumes "wf_manager m"
  shows "wf_manager (fst (snd (record_or_suppress_wake now s ro src i m)))"
  using assms
  by (rule with_active)
    (auto simp: record_or_suppress_wake_def Let_def case_prod_unfold wf_run_push assms
      split: wake_gate_decision.splits)

lemma wf_release_suppressed_wake:
  assumes "wf_manager m"
  shows "wf_manager (fst (snd (release_suppressed_wake_if_resumed now s ro m)))"
  using assms
  by (rule with_active)
    (auto simp: release_suppressed_wake_if_resumed_def Let_def wf_run_push assms
      split: option.splits prod.splits
      dest: arg_cong [where f = "\<lambda>x. hm_wf (snd x)"])

lemma wf_run_reserve:
  "wf_run r \<Longrightarrow> run_status r \<noteq> RunCancelling \<Longrightarrow>
     sr_reservation_id res = k \<Longrightarrow> sr_team_run_id res = run_team_run_id r \<Longrightarrow>
     wf_run (r\<lparr>run_slot_runtime_health := hm_remove s (run_slot_runtime_health r),
              run_starting_reservations := hm_insert k res (run_starting_reservations r)\<rparr>)"
  unfolding wf_run_def by (simp add: wf_insert)

lemma wf_claim_wake_for_turn:
  assumes "wf_manager m"
  shows "wf_manager (fst (snd (claim_wake_for_turn now f s ro c m)))"
  using assms
proof (rule with_active)
  fix r
  assume r: "active_run m = Some r" "wf_run r" "run_team_id r = mgr_team_id m"
    "run_status r \<in> {RunAccepted, RunRunning}" "run_status r \<noteq> RunCancelling"
  obtain p r1 where p: "pop_pending s r = (p, r1)" by fastforce
  then have "r1 = snd (pop_pending s r)" by simp
  with r have "wf_run r1" "run_team_id r1 = mgr_team_id m"
    "run_status r1 = run_status r" "run_team_run_id r1 = run_team_run_id r"
    by (simp_all add: wf_run_pop)
  with r p assms show ?thesis
    by (simp add: claim_wake_for_turn_def Let_def wf_run_reserve split: option.splits)
qed (simp add: claim_wake_for_turn_def assms)

lemma wf_run_requeue:
  "wf_run r \<Longrightarrow> run_status r \<noteq> RunCancelling \<Longrightarrow> pw_slot_id w = s \<Longrightarrow>
     wf_run (r\<lparr>run_starting_reservations := hm_remove k (run_starting_reservations r),
              run_pending_wakes :=
                hm_insert s (w # (case hm_get (run_pending_wakes r) s of None \<Rightarrow> [] | Some q \<Rightarrow> q))
                  (run_pending_wakes r)\<rparr>)"
  unfolding wf_run_def by (simp add: wf_remove wf_pending_push)

lemma wf_retry_child_start_later:
  assumes "wf_manager m"
  shows "wf_manager (fst (snd (retry_child_start_later now i m)))"
  using assms
proof (rule with_active)
  fix r
  assume "active_run m = Some r" "wf_run r" "run_team_id r = mgr_team_id m"
    "run_status r \<in> {RunAccepted, RunRunning}" "run_status r \<noteq> RunCancelling"
  with assms show ?thesis
    by (cases "hm_get (run_starting_reservations r) i")
      (simp_all add: retry_child_start_later_def Let_def wf_run_requeue)
qed (simp add: retry_child_start_later_def assms)

lemma wf_record_empty_wake_observed:
  assumes "wf_manager m"
  shows "wf_manager (fst (snd (record_empty_wake_observed now s m)))"
  using assms
  by (rule with_state)
    (auto simp: record_empty_wake_observed_def settle_complete_state wf_run_pop assms)

lemma wf_run_start_child:
  "wf_run r \<Longrightarrow> ac_slot_id c = s \<Longrightarrow> ac_team_run_id c = run_team_run_id r \<Longrightarrow>
     run_started_at r' = Some t \<Longrightarrow> run_team_run_id r' = run_team_run_id r \<Longrightarrow>
     run_active_child_turns r' = run_active_child_turns r \<Longrightarrow>
     run_starting_reservations r' = run_starting_reservations r \<Longrightarrow>
     run_pending_wakes r' = run_pending_wakes r \<Longrightarrow>
     run_active_operation_leases r' = run_active_operation_leases r \<Longrightarrow>
     run_slot_wake_gate r' = run_slot_wake_gate r \<Longrightarrow>
     run_slot_runtime_health r' = run_slot_runtime_health r \<Longrightarrow>
     (run_status r' = RunCancelling \<Longrightarrow> run_status r = RunCancelling) \<Longrightarrow>
     wf_run (r'\<lparr>run_active_child_turns := hm_insert s c (run_active_child_turns r)\<rparr>)"
  unfolding wf_run_def by (simp add: wf_insert)

lemma wf_record_child_started:
  assumes "wf_manager m"
  shows "wf_manager (fst (snd (record_child_started now i c m)))"
  using assms
proof (rule with_state)
  fix r
  assume r: "mgr_state m = Some r" "wf_run r" "run_team_id r = mgr_team_id m"
    "run_status r \<in> {RunAccepted, RunRunning, RunCancelling}"
  let ?r = "r\<lparr>run_starting_reservations := hm_remove i (run_starting_reservations r)\<rparr>"
  have w: "wf_run ?r" using r by simp
  show ?thesis
  proof (cases "hm_get (run_starting_reservations r) i")
    case (Some res)
    with r w show ?thesis
      by (cases "run_started_at r")
        (auto simp: record_child_started_def Let_def intro!: wf_run_start_child [OF w, simplified])
  qed (simp add: record_child_started_def r assms)
qed (simp add: record_child_started_def assms)

lemma wf_record_child_start_failed:
  assumes "wf_manager m"
  shows "wf_manager (fst (snd (record_child_start_failed now i m)))"
  using assms
  by (rule with_state)
    (simp_all add: record_child_start_failed_def Let_def settle_cancelled_state assms
      split: option.split)

lemma wf_run_reinsert:
  assumes "wf_run r" and c: "hm_get (run_active_child_turns r) s = Some c"
  shows "wf_run (r\<lparr>run_active_child_turns :=
    hm_insert s c (hm_remove s (run_active_child_turns r))\<rparr>)"
proof -
  have a: "wf_active (run_team_run_id r) (run_active_child_turns r)"
    using assms(1) unfolding wf_run_def by simp
  then have "wf_active (run_team_run_id r) (hm_insert s c (hm_remove s (run_active_child_turns r)))"
    using wf_active_get [OF a c] by (simp add: wf_insert wf_remove)
  with assms(1) show ?thesis unfolding wf_run_def by simp
qed

lemma wf_record_child_completed:
  assumes "wf_manager m"
  shows "wf_manager (fst (snd (record_child_completed now s t st m)))"
  using assms
  by (rule with_state)
    (simp_all add: record_child_completed_def Let_def case_prod_unfold settle_complete_state
      wf_run_reinsert assms split: option.split)

lemma wf_maybe_complete:
  assumes "wf_manager m"
  shows "wf_manager (fst (snd (maybe_complete now m)))"
  using assms
  by (rule with_state) (simp_all add: maybe_complete_def settle_complete_state assms)

lemma wf_run_cancel:
  "wf_run r \<Longrightarrow>
     wf_run (r\<lparr>run_status := RunCancelling, run_cancel_reason := why, run_pending_wakes := [],
       run_slot_wake_gate := gate_clear g,
       run_starting_reservations :=
         hm_map_values (\<lambda>res. res\<lparr>sr_state := ResCancelling\<rparr>) (run_starting_reservations r)\<rparr>)"
  unfolding wf_run_def
  by (simp add: wf_Nil all_cancelling_mark gate_clear_def wf_map_values)

lemma wf_begin_cancel:
  assumes "wf_manager m"
  shows "wf_manager (fst (snd (begin_cancel now t why m)))"
  using assms
  by (rule with_active)
    (simp_all add: begin_cancel_def Let_def wf_run_cancel assms split: option.split)

lemma wf_try_complete_cancelled:
  assumes "wf_manager m"
  shows "wf_manager (fst (snd (try_complete_cancelled now m)))"
  using assms
  by (rule with_state) (simp_all add: try_complete_cancelled_def settle_cancelled_state assms)

lemma wf_complete_failed:
  assumes "wf_manager m"
  shows "wf_manager (fst (snd (complete_failed now m)))"
  using assms by (rule with_state) (simp_all add: complete_failed_def assms)

lemma wf_run_mark_reservation:
  assumes "wf_run r" "run_status r \<noteq> RunCancelling" "find_reservation r s = Some (k, res)"
  shows "wf_run (r\<lparr>run_starting_reservations :=
    hm_modify k (\<lambda>_. res\<lparr>sr_state := ResCancelling\<rparr>) (run_starting_reservations r)\<rparr>)"
proof -
  have "sr_reservation_id res = k \<and> sr_team_run_id res = run_team_run_id r"
    using assms(1) find_reservation_mem [OF assms(3)]
    unfolding wf_run_def wf_starting_def by auto
  then show ?thesis using assms(1,2) unfolding wf_run_def by (simp add: wf_starting_modify)
qed

lemma wf_begin_cancel_child:
  assumes "wf_manager m"
  shows "wf_manager (fst (snd (begin_cancel_child s m)))"
  using assms
  by (rule with_active)
    (simp_all add: begin_cancel_child_def Let_def case_prod_unfold wf_run_mark_reservation assms
      split: option.split)

lemma wf_record_child_cancelled:
  assumes "wf_manager m"
  shows "wf_manager (fst (snd (record_child_cancelled now c m)))"
  using assms
  by (rule with_state)
    (auto simp: record_child_cancelled_def Let_def case_prod_unfold settle_cancelled_state assms)

lemma wf_run_pause_done:
  "wf_run r \<Longrightarrow> hm_wf g \<Longrightarrow>
     wf_run (r\<lparr>run_pending_wakes := hm_remove s (run_pending_wakes r), run_slot_wake_gate := g,
              run_active_child_turns := hm_remove s (run_active_child_turns r)\<rparr>)"
  unfolding wf_run_def by (simp add: wf_remove)

lemma wf_complete_pause:
  assumes "wf_manager m"
  shows "wf_manager (fst (snd (complete_pause_after_child_cancelled now c why m)))"
  using assms
  by (rule with_state)
    (simp_all add: complete_pause_after_child_cancelled_def Let_def wf_run_pause_done assms)

lemmas wf_operations =
  wf_accept_user_message wf_acquire_user_message_wake wf_recover_mailbox_backlog
  wf_commit_operation_lease wf_abort_operation_lease wf_acquire_run_scoped
  wf_mark_slot_runtime_health wf_observe_slow_child_turns wf_pause_slot_work
  wf_record_or_suppress_wake wf_release_suppressed_wake wf_claim_wake_for_turn
  wf_retry_child_start_later wf_record_empty_wake_observed wf_record_child_started
  wf_record_child_start_failed wf_record_child_completed wf_maybe_complete wf_begin_cancel
  wf_try_complete_cancelled wf_complete_failed wf_begin_cancel_child wf_record_child_cancelled
  wf_complete_pause

lemma wf_run_step: "wf_manager m \<Longrightarrow> wf_manager (run_step op m)"
  by (cases op)
    (simp_all add: run_step_def acquire_run_scoped_wake_def acquire_scheduler_wake_def wf_operations)

lemma wf_new_manager: "wf_manager (new_run_manager t)"
  by (simp add: wf_manager_def new_run_manager_def)

interpretation team_run: guarded_machine run_step "\<lambda>_ _. True" "\<lambda>m. \<exists>t. m = new_run_manager t"
    wf_manager
  by unfold_locales (auto simp: wf_new_manager wf_run_step)

lemma team_run_admissible [simp]: "team_run.admissible_run ops m"
  by (induction ops arbitrary: m) simp_all

end
