(* ===== verification/TeamRunLifecycle.thy ===== *)
theory TeamRunLifecycle
  imports TeamRunInv
begin

text \<open>
  The abstract life of a team run and the proof that every operation of the manager implements
  it: a run is accepted once, may turn to cancelling, and leaves with exactly one final
  notification. \<open>notices\<close> keeps of the broadcast events those that open or close a run.
\<close>

section \<open>The abstract machine\<close>

datatype run_phase = NoRun | ActiveRun string | CancellingRun string

type_synonym notice = "run_event_name \<times> string"

inductive lifecycle_step :: "run_phase \<Rightarrow> notice list \<Rightarrow> run_phase \<Rightarrow> bool" where
  stay: "lifecycle_step p [] p"
| accept: "lifecycle_step NoRun [(EvAccepted, i)] (ActiveRun i)"
| cancel: "lifecycle_step (ActiveRun i) [] (CancellingRun i)"
| complete: "lifecycle_step (ActiveRun i) [(EvCompleted, i)] NoRun"
| cancelled: "lifecycle_step (CancellingRun i) [(EvCancelled, i)] NoRun"
| fail_active: "lifecycle_step (ActiveRun i) [(EvFailed, i)] NoRun"
| fail_cancelling: "lifecycle_step (CancellingRun i) [(EvFailed, i)] NoRun"

inductive_cases lifecycle_from_NoRun: "lifecycle_step NoRun ns q"
inductive_cases lifecycle_from_ActiveRun: "lifecycle_step (ActiveRun i) ns q"
inductive_cases lifecycle_from_CancellingRun: "lifecycle_step (CancellingRun i) ns q"

definition phase_of :: "run_manager \<Rightarrow> run_phase" where
  "phase_of m =
     (case mgr_state m of
        None \<Rightarrow> NoRun
      | Some r \<Rightarrow> if run_status r = RunCancelling then CancellingRun (run_team_run_id r)
                  else ActiveRun (run_team_run_id r))"

fun notice_of :: "team_event \<Rightarrow> notice option" where
  "notice_of (RunEvent name p) =
     (if name \<in> {EvUpdated, EvStarted} then None else Some (name, rp_team_run_id p))"
| "notice_of (ChildEvent name p) = None"

definition notices :: "team_event list \<Rightarrow> notice list" where
  "notices evs = List.map_filter notice_of evs"

lemma notices_simps [simp]:
  "notices [] = []"
  "notices (RunEvent EvUpdated p # evs) = notices evs"
  "notices (RunEvent EvStarted p # evs) = notices evs"
  "notices (ChildEvent cn c # evs) = notices evs"
  "n \<notin> {EvUpdated, EvStarted} \<Longrightarrow>
     notices (RunEvent n p # evs) = (n, rp_team_run_id p) # notices evs"
  by (simp_all add: notices_def List.map_filter_def)

lemma notices_append [simp]: "notices (xs @ ys) = notices xs @ notices ys"
  by (simp add: notices_def List.map_filter_def)

lemma payload_run_id [simp]: "rp_team_run_id (payload_of now r) = run_team_run_id r"
  by (simp add: payload_of_def)

lemma phase_put [simp]:
  "phase_of (put_run r m) =
     (if run_status r = RunCancelling then CancellingRun (run_team_run_id r)
      else ActiveRun (run_team_run_id r))"
  by (simp add: phase_of_def put_run_def)

lemma phase_clear [simp]: "phase_of (clear_run m) = NoRun"
  by (simp add: phase_of_def clear_run_def)

lemma phase_active:
  "active_run m = Some r \<Longrightarrow> phase_of m = ActiveRun (run_team_run_id r)"
  by (auto dest!: active_runD simp: phase_of_def)

lemma no_run_phase:
  "wf_manager m \<Longrightarrow> active_run m = None \<Longrightarrow> cancelling_run m = None \<Longrightarrow> phase_of m = NoRun"
  by (auto simp: phase_of_def wf_manager_def active_run_def cancelling_run_def is_active_def
      split: option.splits if_splits)

abbreviation simulates :: "run_manager \<Rightarrow> 'r op_result \<Rightarrow> bool" where
  "simulates m res \<equiv>
     lifecycle_step (phase_of m) (notices (snd (snd res))) (phase_of (fst (snd res)))"

lemma simulates_same [simp]: "simulates m (x, m, [])"
  by (simp add: lifecycle_step.stay)

section \<open>Each operation\<close>

lemma fail_run_frames [simp]:
  "run_team_run_id (fail_run now r) = run_team_run_id r"
  by (simp add: fail_run_def)

text \<open>\<open>same_phase m r\<close>: \<open>r\<close> is the kept run of \<open>m\<close> up to fields the phase does not read.\<close>

definition same_phase :: "run_manager \<Rightarrow> team_run \<Rightarrow> bool" where
  "same_phase m r \<longleftrightarrow>
     (\<exists>r0. mgr_state m = Some r0 \<and> run_team_run_id r = run_team_run_id r0 \<and>
           run_status r = run_status r0) \<and>
     run_status r \<in> {RunAccepted, RunRunning, RunCancelling}"

lemma simulates_settle:
  assumes "same_phase m r"
  shows "simulates m (settle_run (maybe_complete_locked now r) m)"
    and "simulates m (settle_run (maybe_cancelled_locked now r) m)"
proof -
  from assms have "phase_of m = phase_of (put_run r m)"
    and "run_status r \<in> {RunAccepted, RunRunning, RunCancelling}"
    by (auto simp: same_phase_def phase_of_def put_run_def)
  then show "simulates m (settle_run (maybe_complete_locked now r) m)"
    and "simulates m (settle_run (maybe_cancelled_locked now r) m)"
    by (auto simp: settle_run_def maybe_complete_locked_def maybe_cancelled_locked_def Let_def
        intro: lifecycle_step.intros split: if_splits)
qed

lemma new_lease_run_id [simp]:
  "run_team_run_id (snd (new_operation_lease f s ro src b r)) = run_team_run_id r"
  by (simp add: new_operation_lease_def Let_def)

lemma sim_accept:
  assumes "wf_manager m"
  shows "simulates m (accept_user_message now f s ro a i m)"
    and "simulates m (acquire_user_message_wake now f l s ro m)"
  using assms no_run_phase [OF assms]
  by (auto simp: accept_user_message_def acquire_user_message_wake_def Let_def case_prod_unfold
      phase_active intro: lifecycle_step.intros dest: active_runD split: option.splits)

lemma sim_recover:
  assumes "wf_manager m"
  shows "simulates m (recover_mailbox_backlog now f cs m)"
  using assms no_run_phase [OF assms]
  by (auto simp: recover_mailbox_backlog_def Let_def case_prod_unfold phase_active
      intro: lifecycle_step.intros dest: active_runD simp del: fold_simps
      split: option.splits list.splits)

lemma sim_active_ops:
  "simulates m (commit_operation_lease now l i m)"
  "simulates m (abort_operation_lease now l m)"
  "simulates m (acquire_run_scoped_wake_with_intent now f s ro src intent m)"
  "simulates m (mark_slot_runtime_health now s h m)"
  "simulates m (observe_slow_child_turns now m)"
  "simulates m (pause_slot_work now s why m)"
  "simulates m (record_or_suppress_wake now s ro src i m)"
  "simulates m (retry_child_start_later now k m)"
  "simulates m (begin_cancel_child s m)"
  by (auto simp: commit_operation_lease_def abort_operation_lease_def
      acquire_run_scoped_wake_with_intent_def mark_slot_runtime_health_def
      observe_slow_child_turns_def pause_slot_work_def record_or_suppress_wake_def
      retry_child_start_later_def begin_cancel_child_def Let_def case_prod_unfold phase_active
      intro: lifecycle_step.intros dest: active_runD
      split: option.splits acquire_policy_decision.splits wake_gate_decision.splits)

lemma sim_claim: "simulates m (claim_wake_for_turn now f s ro c m)"
proof (cases "active_run m")
  case (Some r)
  obtain p r1 where p: "pop_pending s r = (p, r1)" by fastforce
  have "run_status r1 = run_status r" "run_team_run_id r1 = run_team_run_id r"
    using p pop_frames(1,3) [of s r] by simp_all
  with Some p show ?thesis
    by (auto simp: claim_wake_for_turn_def Let_def phase_active intro: lifecycle_step.stay
        dest: active_runD split: option.splits)
qed (simp add: claim_wake_for_turn_def lifecycle_step.stay)

lemma sim_release: "simulates m (release_suppressed_wake_if_resumed now s ro m)"
proof (cases "active_run m")
  case (Some r)
  obtain src g where "release_suppressed_if_resumed s (run_slot_wake_gate r) = (src, g)"
    by fastforce
  with Some show ?thesis
    by (cases src)
      (auto simp: release_suppressed_wake_if_resumed_def Let_def phase_active
        intro: lifecycle_step.stay dest: active_runD)
qed (simp add: release_suppressed_wake_if_resumed_def lifecycle_step.stay)

lemma sim_begin_cancel: "simulates m (begin_cancel now t why m)"
  by (auto simp: begin_cancel_def Let_def phase_active intro: lifecycle_step.intros
      split: option.splits)

lemma same_phase_updates [simp]:
  assumes "mgr_state m = Some r" and "run_status r \<in> {RunAccepted, RunRunning, RunCancelling}"
  shows "same_phase m r"
    and "same_phase m (snd (pop_pending s r))"
    and "same_phase m (r\<lparr>run_starting_reservations := x\<rparr>)"
    and "same_phase m (r\<lparr>run_active_child_turns := y\<rparr>)"
  using assms by (simp_all add: same_phase_def)

lemma sim_settling:
  assumes "wf_manager m"
  shows "simulates m (record_empty_wake_observed now s m)"
    and "simulates m (maybe_complete now m)"
    and "simulates m (try_complete_cancelled now m)"
  using wf_manager_state [OF assms]
  by (cases "mgr_state m";
      simp add: record_empty_wake_observed_def maybe_complete_def try_complete_cancelled_def
        lifecycle_step.stay simulates_settle)+

lemma sim_child_started:
  assumes "wf_manager m"
  shows "simulates m (record_child_started now i c m)"
  using assms
  by (rule with_state)
    (auto simp: record_child_started_def Let_def phase_of_def put_run_def
      intro: lifecycle_step.stay split: option.splits)

lemma sim_child_start_failed:
  assumes "wf_manager m"
  shows "simulates m (record_child_start_failed now i m)"
  using assms
proof (rule with_state)
  fix r
  assume r: "mgr_state m = Some r" "run_status r \<in> {RunAccepted, RunRunning, RunCancelling}"
  show ?thesis
  proof (cases "hm_get (run_starting_reservations r) i")
    case (Some res)
    have "simulates m (settle_run (maybe_cancelled_locked now
        (r\<lparr>run_starting_reservations := hm_remove i (run_starting_reservations r)\<rparr>)) m)"
      using r by (intro simulates_settle) simp
    with r Some show ?thesis
      by (simp add: record_child_start_failed_def Let_def)
        (auto simp: phase_of_def intro: lifecycle_step.intros)
  qed (simp add: record_child_start_failed_def r lifecycle_step.stay)
qed (simp add: record_child_start_failed_def lifecycle_step.stay)

lemma sim_child_completed:
  assumes "wf_manager m"
  shows "simulates m (record_child_completed now s t st m)"
  using assms
proof (rule with_state)
  fix r
  assume r: "mgr_state m = Some r" "run_status r \<in> {RunAccepted, RunRunning, RunCancelling}"
  show ?thesis
  proof (cases "hm_get (run_active_child_turns r) s")
    case (Some c)
    have "simulates m (settle_run (maybe_complete_locked now
        (r\<lparr>run_active_child_turns := hm_remove s (run_active_child_turns r)\<rparr>)) m)"
      using r by (intro simulates_settle) simp
    with r Some show ?thesis
      by (simp add: record_child_completed_def Let_def case_prod_unfold)
        (auto simp: phase_of_def intro: lifecycle_step.intros)
  qed (simp add: record_child_completed_def r lifecycle_step.stay)
qed (simp add: record_child_completed_def lifecycle_step.stay)

lemma sim_complete_failed:
  assumes "wf_manager m"
  shows "simulates m (complete_failed now m)"
  using assms
  by (rule with_state)
    (auto simp: complete_failed_def phase_of_def clear_run_def intro: lifecycle_step.intros)

lemma sim_child_cancelled:
  assumes "wf_manager m"
  shows "simulates m (record_child_cancelled now c m)"
  using assms
proof (rule with_state)
  fix r
  assume r: "mgr_state m = Some r" "run_status r \<in> {RunAccepted, RunRunning, RunCancelling}"
  have "simulates m (settle_run (maybe_cancelled_locked now
      (r\<lparr>run_active_child_turns := hm_remove (ac_slot_id c) (run_active_child_turns r)\<rparr>)) m)"
    using r by (intro simulates_settle) simp
  with r show ?thesis
    by (simp add: record_child_cancelled_def Let_def case_prod_unfold)
      (auto simp: phase_of_def intro: lifecycle_step.intros)
qed (simp add: record_child_cancelled_def lifecycle_step.stay)

lemma sim_complete_pause: "simulates m (complete_pause_after_child_cancelled now c why m)"
  by (cases "mgr_state m")
    (auto simp: complete_pause_after_child_cancelled_def Let_def phase_of_def put_run_def
      intro: lifecycle_step.stay)

lemma step_simulates:
  assumes "wf_manager m"
  shows "lifecycle_step (phase_of m) (notices (run_events op m)) (phase_of (run_step op m))"
  using sim_accept [OF assms] sim_recover [OF assms] sim_active_ops sim_claim sim_release
    sim_begin_cancel sim_settling [OF assms] sim_child_started [OF assms]
    sim_child_start_failed [OF assms] sim_child_completed [OF assms] sim_complete_failed [OF assms]
    sim_child_cancelled [OF assms] sim_complete_pause
  by (cases op)
    (simp_all only: run_step_def run_events_def exec_op.simps acquire_run_scoped_wake_def
      acquire_scheduler_wake_def)

section \<open>Runs\<close>

fun trace_events :: "run_op list \<Rightarrow> run_manager \<Rightarrow> team_event list" where
  "trace_events [] m = []"
| "trace_events (op # ops) m = run_events op m @ trace_events ops (run_step op m)"

text \<open>
  Notices come in pairs: an acceptance, then one closing notice of the same run before the
  next acceptance.
\<close>

fun well_paired :: "string option \<Rightarrow> notice list \<Rightarrow> bool" where
  "well_paired open_run [] \<longleftrightarrow> True"
| "well_paired None ((name, i) # ns) \<longleftrightarrow> name = EvAccepted \<and> well_paired (Some i) ns"
| "well_paired (Some j) ((name, i) # ns) \<longleftrightarrow>
     i = j \<and> name \<in> {EvCompleted, EvCancelled, EvFailed} \<and> well_paired None ns"

fun open_run_of :: "run_phase \<Rightarrow> string option" where
  "open_run_of NoRun = None"
| "open_run_of (ActiveRun i) = Some i"
| "open_run_of (CancellingRun i) = Some i"

lemma lifecycle_well_paired:
  "lifecycle_step p ns q \<Longrightarrow> well_paired (open_run_of q) ms \<Longrightarrow> well_paired (open_run_of p) (ns @ ms)"
  by (cases rule: lifecycle_step.cases) auto

lemma trace_well_paired:
  "wf_manager m \<Longrightarrow> well_paired (open_run_of (phase_of m)) (notices (trace_events ops m))"
proof (induction ops arbitrary: m)
  case (Cons op ops)
  then have "well_paired (open_run_of (phase_of (run_step op m)))
      (notices (trace_events ops (run_step op m)))"
    by (simp add: wf_run_step)
  from lifecycle_well_paired [OF step_simulates [OF Cons.prems] this]
  show ?case by simp
qed simp

end
