(* ===== verification/TeamRunProps.thy ===== *)
theory TeamRunProps
  imports TeamRunLifecycle
begin

text \<open>
  The properties of the team run: well-formedness of every reachable state, completion,
  conservation of work, the order of its queues, the report it sends, cancellation and the notices
  about slow turns.
\<close>

section \<open>Reachable states\<close>

text \<open>
  C10. After any sequence of operations on a new manager the kept run is accepted, running or
  cancelling, belongs to the manager's team, its maps are keyed by the identifiers of their
  entries, which name this run, no wake queue is empty or holds a wake of another slot, a
  running run has a start time, and a cancelling run has no pending wake and only reservations
  marked as cancelling.
\<close>

theorem reachable_runs_well_formed:
  "wf_manager (fold run_step ops (new_run_manager team))"
  by (rule team_run.run_from_start) auto

text \<open>
  C11. Every operation on a well-formed manager implements a step of the abstract life of a run:
  nothing visible, an acceptance when there is no run, a turn to cancelling, or the end of the
  run with the one notification that its state allows (completed only when active, cancelled
  only when cancelling).
\<close>

theorem operations_refine_lifecycle:
  "wf_manager m \<Longrightarrow>
     lifecycle_step (phase_of m) (notices (run_events op m)) (phase_of (run_step op m))"
  by (rule step_simulates)

theorem operations_refine_lifecycle_witness:
  "wf_manager (new_run_manager ''t'') \<and>
   lifecycle_step NoRun [(EvAccepted, ''r1'')]
     (phase_of (run_step (OpAcquireUserMessageWake 5 ''r1'' ''l1'' ''lead'' Lead)
        (new_run_manager ''t'')))"
  using operations_refine_lifecycle [OF wf_new_manager,
      of "''t''" "OpAcquireUserMessageWake 5 ''r1'' ''l1'' ''lead'' Lead"]
  by (intro conjI wf_new_manager)
    (simp add: run_events_def acquire_user_message_wake_def new_run_manager_def
      active_run_def cancelling_run_def phase_of_def new_operation_lease_def Let_def)

section \<open>Completion\<close>

lemma pending_count_0: "wf_pending m \<Longrightarrow> hm_sum length m = 0 \<longleftrightarrow> m = []"
  by (cases m) (auto simp: wf_pending_def)

lemma no_work_left_iff:
  "wf_run r \<Longrightarrow>
     no_work_left r \<longleftrightarrow>
       run_pending_wakes r = [] \<and> run_starting_reservations r = [] \<and>
       run_active_child_turns r = [] \<and> run_active_operation_leases r = [] \<and>
       (\<forall>s. \<not> paused_in (run_slot_wake_gate r) s \<and> held_in (run_slot_wake_gate r) s = 0)"
  using pending_count_0 [of "run_pending_wakes r"]
  by (auto simp: no_work_left_def pending_wake_count_def active_operation_lease_count_def
      has_retained_wake_gate_work_def retained_iff)

text \<open>
  C13. \<open>maybe_complete\<close> ends a run exactly when the run is accepted or running and nothing is
  left: no pending wake, no starting or active child, no operation lease, no paused slot and no
  held wake. It then drops the run, and the payload it broadcasts reports a completed run with
  all counters at zero.
\<close>

theorem completes_iff_no_work:
  assumes "wf_manager m"
  shows "case maybe_complete now m of (result, m', evs) \<Rightarrow>
           (result \<noteq> None \<longleftrightarrow>
              (\<exists>r. active_run m = Some r \<and> run_pending_wakes r = [] \<and>
                   run_starting_reservations r = [] \<and> run_active_child_turns r = [] \<and>
                   run_active_operation_leases r = [] \<and>
                   (\<forall>s. \<not> paused_in (run_slot_wake_gate r) s \<and>
                        held_in (run_slot_wake_gate r) s = 0))) \<and>
           (\<forall>p. result = Some p \<longrightarrow>
              mgr_state m' = None \<and> evs = [RunEvent EvCompleted p] \<and> rp_status p = RunCompleted \<and>
              rp_pending_wake_count p = 0 \<and> rp_starting_child_count p = 0 \<and>
              rp_active_child_count p = 0)"
  using assms
proof (rule with_state)
  fix r
  assume r: "mgr_state m = Some r" "wf_run r"
  show ?thesis
  proof (cases "no_work_left r \<and> is_active r")
    case True
    with r show ?thesis
      by (auto simp: maybe_complete_def settle_run_def maybe_complete_locked_def Let_def
          active_run_def is_active_def no_work_left_iff clear_run_def payload_of_def
          pending_wake_count_def)
  next
    case False
    then have "fst (maybe_complete_locked now r) = None"
      by (auto simp: maybe_complete_locked_def is_active_def)
    with False r show ?thesis
      by (simp add: maybe_complete_def settle_run_def case_prod_unfold active_run_def
          no_work_left_iff) blast
  qed
qed (simp add: maybe_complete_def active_run_def)

theorem completes_iff_no_work_witness:
  "let m = run_step (OpAbortLease 6 ''l1'')
             (run_step (OpAcquireUserMessageWake 5 ''r1'' ''l1'' ''lead'' Lead) (new_run_manager ''t''))
   in fst (maybe_complete 9 m) \<noteq> None"
proof -
  let ?m = "run_step (OpAbortLease 6 ''l1'')
      (run_step (OpAcquireUserMessageWake 5 ''r1'' ''l1'' ''lead'' Lead) (new_run_manager ''t''))"
  have w: "wf_manager ?m" by (intro wf_run_step wf_new_manager)
  have "active_run ?m = Some (new_team_run_record ''r1'' ''t'' ''lead'' Lead SrcUserMessage True)"
    by (simp add: run_step_def acquire_user_message_wake_def new_run_manager_def active_run_def
        cancelling_run_def new_operation_lease_def abort_operation_lease_def Let_def put_run_def
        is_active_def new_team_run_record_def)
  then show ?thesis
    using completes_iff_no_work [OF w, of 9]
    by (simp add: case_prod_unfold Let_def new_team_run_record_def snapshot_for_slot_def)
qed

section \<open>No work is lost\<close>

definition work_units :: "run_manager \<Rightarrow> nat" where
  "work_units m =
     (case mgr_state m of
        None \<Rightarrow> 0
      | Some r \<Rightarrow> pending_wake_count r + length (run_starting_reservations r)
                  + length (run_active_child_turns r) + active_operation_lease_count r)"

text \<open>
  The operations that move a unit of work along: a lease becomes a pending wake, a pending wake
  a reservation, a reservation a child turn, and a reservation whose start was refused a pending
  wake again. An identifier drawn for a reservation is not in use, and a child that starts
  belongs to the run and to a slot with no other child.
\<close>

fun moves_work :: "run_op \<Rightarrow> run_manager \<Rightarrow> bool" where
  "moves_work (OpCommitLease now l i) m \<longleftrightarrow> True"
| "moves_work (OpClaimWakeForTurn now f s ro c) m \<longleftrightarrow>
     (\<forall>r. mgr_state m = Some r \<longrightarrow> \<not> hm_has (run_starting_reservations r) f)"
| "moves_work (OpRetryChildStartLater now k) m \<longleftrightarrow> True"
| "moves_work (OpRecordChildStarted now k c) m \<longleftrightarrow>
     (\<forall>r. mgr_state m = Some r \<longrightarrow> \<not> hm_has (run_active_child_turns r) (ac_slot_id c) \<and>
                                run_team_run_id r = ac_team_run_id c)"
| "moves_work _ m \<longleftrightarrow> False"

lemma length_remove:
  "hm_wf m \<Longrightarrow> hm_get m k = Some v \<Longrightarrow> Suc (length (hm_remove k m)) = length m"
  using hm_sum_remove [of m "\<lambda>_. 1" k] by (simp add: hm_length_sum)

lemma length_insert: "hm_wf m \<Longrightarrow> hm_get m k = None \<Longrightarrow> length (hm_insert k v m) = Suc (length m)"
  using hm_sum_insert [of m "\<lambda>_. 1" k v] by (simp add: hm_length_sum)

lemma wf_run_maps:
  "wf_run r \<Longrightarrow> hm_wf (run_pending_wakes r)"
  "wf_run r \<Longrightarrow> hm_wf (run_starting_reservations r)"
  "wf_run r \<Longrightarrow> hm_wf (run_active_child_turns r)"
  "wf_run r \<Longrightarrow> hm_wf (run_active_operation_leases r)"
  unfolding wf_run_def wf_pending_def wf_starting_def wf_active_def wf_leases_def by simp_all

lemma pending_count_insert:
  assumes "hm_wf (run_pending_wakes r)"
    and "length q = Suc (length (case hm_get (run_pending_wakes r) s of None \<Rightarrow> [] | Some q \<Rightarrow> q))"
  shows "hm_sum length (hm_insert s q (run_pending_wakes r)) = Suc (pending_wake_count r)"
  using assms(2) hm_sum_insert [OF assms(1), of length s q]
  by (cases "hm_get (run_pending_wakes r) s") (simp_all add: pending_wake_count_def)

lemma pending_count_update [simp]:
  "pending_wake_count (r\<lparr>run_pending_wakes := x\<rparr>) = hm_sum length x"
  by (simp add: pending_wake_count_def)

lemma pending_count_push:
  "hm_wf (run_pending_wakes r) \<Longrightarrow>
     pending_wake_count (push_pending_wake s ro src i r) = Suc (pending_wake_count r)"
  by (simp add: push_pending_wake_def Let_def pending_count_insert length_enqueue)

lemma pending_count_pop:
  assumes "hm_wf (run_pending_wakes r)" and "pop_pending s r = (Some p, r1)"
  shows "Suc (pending_wake_count r1) = pending_wake_count r"
proof -
  from assms(2) obtain rest where q: "hm_get (run_pending_wakes r) s = Some (p # rest)"
    and r1: "r1 = r\<lparr>run_pending_wakes := (if rest = [] then hm_remove s (run_pending_wakes r)
                                         else hm_insert s rest (run_pending_wakes r))\<rparr>"
    by (auto simp: pop_pending_def split: option.splits list.splits)
  show ?thesis
    using q hm_sum_remove [OF assms(1), of length s] hm_sum_insert [OF assms(1), of length s rest]
    by (cases "rest = []") (simp_all add: r1 pending_wake_count_def)
qed

lemma work_put [simp]:
  "work_units (put_run r m) =
     pending_wake_count r + length (run_starting_reservations r)
     + length (run_active_child_turns r) + active_operation_lease_count r"
  by (simp add: work_units_def put_run_def)

lemma commit_keeps_work:
  assumes "wf_manager m"
  shows "work_units (fst (snd (commit_operation_lease now l i m))) = work_units m"
  using assms
proof (rule with_active)
  fix r
  assume r: "active_run m = Some r" "wf_run r"
  show ?thesis
  proof (cases "hm_get (run_active_operation_leases r) l")
    case (Some lease)
    have "pending_wake_count (r\<lparr>run_active_operation_leases := x\<rparr>) = pending_wake_count r" for x
      by (simp add: pending_wake_count_def)
    with r Some length_remove [OF wf_run_maps(4) [OF r(2)] Some] show ?thesis
      by (simp add: commit_operation_lease_def Let_def pending_count_push wf_run_maps
          active_operation_lease_count_def work_units_def [of m] active_runD)
  qed (simp add: commit_operation_lease_def r)
qed (simp add: commit_operation_lease_def)

lemma claim_keeps_work:
  assumes "wf_manager m" and "moves_work (OpClaimWakeForTurn now f s ro c) m"
  shows "work_units (fst (snd (claim_wake_for_turn now f s ro c m))) = work_units m"
  using assms(1)
proof (rule with_active)
  fix r
  assume r: "active_run m = Some r" "wf_run r"
  obtain p r1 where p: "pop_pending s r = (p, r1)" by fastforce
  have fr: "hm_get (run_starting_reservations r) f = None"
    using assms(2) active_runD [OF r(1)] by (simp add: hm_has_def)
  have eq: "run_starting_reservations r1 = run_starting_reservations r"
    "run_active_child_turns r1 = run_active_child_turns r"
    "run_active_operation_leases r1 = run_active_operation_leases r"
    using p pop_frames [of s r] by simp_all
  have cnt: "p = Some w \<Longrightarrow> Suc (pending_wake_count r1) = pending_wake_count r" for w
    using p by (simp add: pending_count_pop [OF wf_run_maps(1) [OF r(2)]])
  have upd: "pending_wake_count (r1\<lparr>run_slot_runtime_health := h, run_starting_reservations := x\<rparr>)
      = pending_wake_count r1" for h x
    by (simp add: pending_wake_count_def)
  from r p fr eq cnt upd show ?thesis
    by (cases p) (simp_all add: claim_wake_for_turn_def Let_def length_insert wf_run_maps
        active_operation_lease_count_def work_units_def [of m] active_runD)
qed (simp add: claim_wake_for_turn_def)

lemma retry_keeps_work:
  assumes "wf_manager m"
  shows "work_units (fst (snd (retry_child_start_later now k m))) = work_units m"
  using assms
proof (rule with_active)
  fix r
  assume r: "active_run m = Some r" "wf_run r"
  show ?thesis
  proof (cases "hm_get (run_starting_reservations r) k")
    case (Some res)
    with r length_remove [OF wf_run_maps(2) [OF r(2)] Some] show ?thesis
      by (simp add: retry_child_start_later_def Let_def
          pending_count_insert wf_run_maps active_operation_lease_count_def
          work_units_def [of m] active_runD)
  qed (simp add: retry_child_start_later_def r)
qed (simp add: retry_child_start_later_def)

lemma started_keeps_work:
  assumes "wf_manager m" and "moves_work (OpRecordChildStarted now k c) m"
  shows "work_units (fst (snd (record_child_started now k c m))) = work_units m"
  using assms(1)
proof (rule with_state)
  fix r
  assume r: "mgr_state m = Some r" "wf_run r"
  show ?thesis
  proof (cases "hm_get (run_starting_reservations r) k")
    case (Some res)
    have "hm_get (run_active_child_turns r) (ac_slot_id c) = None"
      and "run_team_run_id r = ac_team_run_id c"
      using assms(2) r(1) by (simp_all add: hm_has_def)
    with r Some length_remove [OF wf_run_maps(2) [OF r(2)] Some] show ?thesis
      by (simp add: record_child_started_def Let_def length_insert wf_run_maps
          active_operation_lease_count_def work_units_def [of m] pending_wake_count_def)
  qed (simp add: record_child_started_def r)
qed (simp add: record_child_started_def)

text \<open>
  C14. Moving work along loses none and invents none: committing a lease, claiming a wake,
  handing a reservation back for a later retry and recording the start of a child each leave
  the number of leases, pending wakes, reservations and active children together unchanged.
\<close>

theorem moving_work_conserves_it:
  assumes "wf_manager m" and "moves_work op m"
  shows "work_units (run_step op m) = work_units m"
  using assms
  by (cases op)
    (simp_all add: run_step_def commit_keeps_work claim_keeps_work retry_keeps_work
      started_keeps_work del: moves_work.simps, simp_all)

theorem moving_work_conserves_it_witness:
  "let m = run_step (OpAcquireUserMessageWake 5 ''r1'' ''l1'' ''lead'' Lead) (new_run_manager ''t'')
   in work_units (run_step (OpCommitLease 6 ''l1'' None) m) = work_units m"
  using moving_work_conserves_it [OF wf_run_step [OF wf_new_manager],
      of "OpCommitLease 6 ''l1'' None" "OpAcquireUserMessageWake 5 ''r1'' ''l1'' ''lead'' Lead" "''t''"]
  by (simp add: Let_def)

section \<open>The order of a queue\<close>

definition user_wake :: "pending_wake \<Rightarrow> bool" where
  "user_wake w \<longleftrightarrow> is_foreground_wake (pw_source w)"

lemma user_wake_fun: "user_wake = (\<lambda>w. is_foreground_wake (pw_source w))"
  by (simp add: user_wake_def fun_eq_iff)

lemma enqueue_discipline:
  "(\<forall>w \<in> set us. user_wake w) \<Longrightarrow> (\<forall>w \<in> set bs. \<not> user_wake w) \<Longrightarrow>
     enqueue_wake w (us @ bs) = (if user_wake w then us @ w # bs else us @ bs @ [w])"
proof -
  assume us: "\<forall>w \<in> set us. user_wake w" and bs: "\<forall>w \<in> set bs. \<not> user_wake w"
  have "takeWhile (\<lambda>p. is_foreground_wake (pw_source p)) (us @ bs) = us"
    "dropWhile (\<lambda>p. is_foreground_wake (pw_source p)) (us @ bs) = bs"
    using us bs by (cases bs; simp add: user_wake_def)+
  then show ?thesis by (simp add: enqueue_split user_wake_def)
qed

lemma fold_enqueue:
  "(\<forall>w \<in> set us. user_wake w) \<Longrightarrow> (\<forall>w \<in> set bs. \<not> user_wake w) \<Longrightarrow>
     fold enqueue_wake ws (us @ bs) =
       us @ filter user_wake ws @ bs @ filter (\<lambda>w. \<not> user_wake w) ws"
proof (induction ws arbitrary: us bs)
  case (Cons w ws)
  show ?case
  proof (cases "user_wake w")
    case True
    with Cons.prems Cons.IH [of "us @ [w]" bs] show ?thesis by (simp add: enqueue_discipline)
  next
    case False
    with Cons.prems Cons.IH [of us "bs @ [w]"] show ?thesis by (simp add: enqueue_discipline)
  qed
qed simp

text \<open>
  C15. The queue of a slot that only receives wakes is the user wakes in the order they came,
  followed by all others in the order they came: user wakes overtake the rest and never each
  other.
\<close>

theorem queue_is_user_wakes_then_rest:
  "fold enqueue_wake ws [] = filter user_wake ws @ filter (\<lambda>w. \<not> user_wake w) ws"
  using fold_enqueue [of "[]" "[]" ws] by simp

definition retry_trace :: "run_op list" where
  "retry_trace =
     [OpAcquireUserMessageWake 1 ''run'' ''l0'' ''lead'' Lead,
      OpAcquireRunScopedWake 2 ''lb'' ''w1'' Teammate McpSendMessage,
      OpCommitLease 3 ''lb'' (Some ''bg''),
      OpAcquireUserMessageWake 4 ''x'' ''l1'' ''w1'' Teammate,
      OpClaimWakeForTurn 5 ''res'' ''w1'' Teammate ''conv'',
      OpCommitLease 6 ''l1'' (Some ''m1''),
      OpRetryChildStartLater 7 ''res'',
      OpAcquireUserMessageWake 8 ''y'' ''l2'' ''w1'' Teammate,
      OpCommitLease 9 ''l2'' (Some ''m2'')]"

lemmas op_defs =
  accept_user_message_def acquire_user_message_wake_def recover_mailbox_backlog_def
  commit_operation_lease_def abort_operation_lease_def acquire_run_scoped_wake_def
  acquire_scheduler_wake_def acquire_run_scoped_wake_with_intent_def
  mark_slot_runtime_health_def observe_slow_child_turns_def pause_slot_work_def
  record_or_suppress_wake_def release_suppressed_wake_if_resumed_def claim_wake_for_turn_def
  retry_child_start_later_def record_empty_wake_observed_def record_child_started_def
  record_child_start_failed_def record_child_completed_def maybe_complete_def begin_cancel_def
  try_complete_cancelled_def complete_failed_def begin_cancel_child_def
  record_child_cancelled_def complete_pause_after_child_cancelled_def settle_run_def
  maybe_complete_locked_def maybe_cancelled_locked_def

lemmas state_defs =
  new_run_manager_def active_run_def cancelling_run_def put_run_def clear_run_def is_active_def
  new_operation_lease_def new_team_run_record_def push_pending_wake_def pop_pending_def
  enqueue_wake_def is_foreground_wake_def acquire_policy_def slot_run_state_def
  starting_child_count_for_slot_def pending_wake_count_for_slot_def hm_has_def
  snapshot_for_slot_def has_spawn_welcome_for_slot_def gate_before_wake_def
  resumes_paused_slot_def bypasses_pause_def fail_run_def

text \<open>
  A start that is refused puts its wake back at the front whatever its source, so the queue order
  of user wakes first does not survive a retry: in this run of the operations two user messages arrive in the
  order \<open>m1\<close>, \<open>m2\<close> while a background wake is started, refused and put back, and \<open>m2\<close> is
  queued before \<open>m1\<close>.
\<close>

theorem retry_inverts_user_messages:
  "map_option (\<lambda>r. map_option (map pw_message_id) (hm_get (run_pending_wakes r) ''w1''))
     (mgr_state (fold run_step retry_trace (new_run_manager ''team''))) =
   Some (Some [Some ''m2'', Some ''bg'', Some ''m1''])"
  by (simp add: retry_trace_def run_step_def op_defs state_defs Let_def)

section \<open>Which wakes are accepted\<close>

text \<open>
  The policy in terms of classes: a busy slot rejects exactly the user wakes and a second
  welcome is suppressed in every state; a paused slot lets through exactly the wakes that bypass
  a pause, so that the policy and the gate agree there; a busy or pending slot accepts every
  recovery wake; and an idle or interrupted notification is accepted only for an idle slot the
  scheduler chose, so no external request ever wakes with one.
\<close>

theorem acquire_policy_by_class:
  "(acquire_policy src st dup intent = RejectSlotBusy \<longleftrightarrow>
      st = StBusy \<and> wake_class_of src = Foreground) \<and>
   (acquire_policy src StPaused dup intent = PolicyAccept \<longleftrightarrow>
      bypasses_pause src \<and> \<not> (src = SpawnWelcome \<and> dup)) \<and>
   (\<exists>why. acquire_policy SpawnWelcome st True intent = PolicySuppress why) \<and>
   (wake_class_of src = SystemRecovery \<and> st \<noteq> StPaused \<longrightarrow>
      acquire_policy src st dup intent = PolicyAccept) \<and>
   (src \<in> {IdleNotification, InterruptedNotification} \<longrightarrow>
      (acquire_policy src st dup intent = PolicyAccept \<longleftrightarrow>
         st = StIdle \<and> intent = SchedulerWakeTarget))"
  by (cases src; cases st; cases intent)
    (simp_all add: acquire_policy_def bypasses_pause_def)

theorem acquire_policy_by_class_witness:
  "acquire_policy CrashNotification StBusy False ExternalRequest = PolicyAccept \<and>
   acquire_policy InterruptedNotification StIdle False ExternalRequest \<noteq> PolicyAccept"
  using acquire_policy_by_class [of CrashNotification StBusy False ExternalRequest]
    acquire_policy_by_class [of InterruptedNotification StIdle False ExternalRequest]
  by simp

text \<open>What is pending for a slot after its next user message was acquired and committed.\<close>

definition pending_of :: "run_manager \<Rightarrow> string \<Rightarrow> pending_wake list" where
  "pending_of m s =
     (case mgr_state m of
        None \<Rightarrow> []
      | Some r \<Rightarrow> (case hm_get (run_pending_wakes r) s of None \<Rightarrow> [] | Some q \<Rightarrow> q))"

definition paused_slot :: "run_manager \<Rightarrow> string \<Rightarrow> bool" where
  "paused_slot m s \<longleftrightarrow>
     (case mgr_state m of None \<Rightarrow> False | Some r \<Rightarrow> paused_in (run_slot_wake_gate r) s)"

lemma pending_of_push:
  "pending_of (put_run (push_pending_wake s ro src i r) m) s =
     enqueue_wake \<lparr>pw_slot_id = s, pw_role = ro, pw_source = src, pw_message_id = i\<rparr>
       (case hm_get (run_pending_wakes r) s of None \<Rightarrow> [] | Some q \<Rightarrow> q)"
  by (simp add: pending_of_def put_run_def push_pending_wake_def Let_def hm_simps)

text \<open>
  C16. A user message to a slot of an active run with no child starting or running is never
  turned away and never waits for background work: acquiring its wake and committing it leaves
  the slot not paused, and queues the message directly behind the user wakes that head the
  queue and ahead of everything else.
\<close>

theorem user_message_is_queued_first:
  assumes "active_run m = Some r" and "slot_run_state r s \<noteq> StBusy"
    and "hm_get (run_active_operation_leases r) l = None"
  shows "let (result, m1, evs1) = acquire_user_message_wake now f l s ro m;
             (_, m2, evs2) = commit_operation_lease now' l (Some msg) m1;
             users = takeWhile user_wake (pending_of m s)
         in isl result = False \<and> \<not> paused_slot m2 s \<and>
            pending_of m2 s =
              users @ \<lparr>pw_slot_id = s, pw_role = ro, pw_source = UserIntervention,
                       pw_message_id = Some msg\<rparr>
                # drop (length users) (pending_of m s)"
proof -
  let ?lease = "\<lparr>ol_lease_id = l, ol_team_run_id = run_team_run_id r, ol_slot_id = s, ol_role = ro,
      ol_wake_source = UserIntervention, ol_accepted_as_new_run = False\<rparr>"
  let ?g = "snd (gate_before_wake s UserIntervention (run_slot_wake_gate r))"
  have st: "mgr_state m = Some r" and act: "is_active r"
    using active_runD [OF assms(1)] by (auto simp: is_active_def)
  define r1 where "r1 = r\<lparr>run_slot_wake_gate := ?g, run_has_user_intervention := True,
      run_active_operation_leases := hm_insert l ?lease (run_active_operation_leases r)\<rparr>"
  have a1: "acquire_user_message_wake now f l s ro m =
      (Inr (ack_of r1 s ro None, ?lease), put_run r1 m, [])"
    using assms by (simp add: acquire_user_message_wake_def new_operation_lease_def Let_def r1_def)
  have act1: "active_run (put_run r1 m) = Some r1"
    using act by (simp add: active_run_def put_run_def is_active_def r1_def)
  define r2 where "r2 = r1\<lparr>run_active_operation_leases :=
      hm_remove l (run_active_operation_leases r1)\<rparr>"
  have a2: "fst (snd (commit_operation_lease now' l (Some msg) (put_run r1 m))) =
      put_run (push_pending_wake s ro UserIntervention (Some msg) r2) m"
    using act1 by (simp add: commit_operation_lease_def Let_def r1_def r2_def hm_simps put_run_def)
  have q: "run_pending_wakes r2 = run_pending_wakes r" "run_slot_wake_gate r2 = ?g"
    by (simp_all add: r1_def r2_def)
  have "\<not> paused_slot (put_run (push_pending_wake s ro UserIntervention (Some msg) r2) m) s"
    by (simp add: paused_slot_def put_run_def q gate_simps resumes_paused_slot_def)
  then show ?thesis
    using a1 a2 q
    by (simp add: case_prod_unfold Let_def pending_of_push enqueue_split is_foreground_wake_def
        user_wake_fun dropWhile_eq_drop pending_of_def [of m] st)
qed

theorem user_message_is_queued_first_witness:
  "let m = fold run_step [OpAcquireUserMessageWake 1 ''run'' ''l0'' ''lead'' Lead,
                          OpAcquireRunScopedWake 2 ''lb'' ''lead'' Lead McpSendMessage,
                          OpCommitLease 3 ''lb'' (Some ''bg'')] (new_run_manager ''team'');
       m2 = fold run_step [OpAcquireUserMessageWake 4 ''x'' ''l1'' ''lead'' Lead,
                           OpCommitLease 5 ''l1'' (Some ''m1'')] m
   in map pw_message_id (pending_of m2 ''lead'') = [Some ''m1'', Some ''bg'']"
proof -
  let ?m = "fold run_step [OpAcquireUserMessageWake 1 ''run'' ''l0'' ''lead'' Lead,
                          OpAcquireRunScopedWake 2 ''lb'' ''lead'' Lead McpSendMessage,
                          OpCommitLease 3 ''lb'' (Some ''bg'')] (new_run_manager ''team'')"
  obtain r where r: "active_run ?m = Some r" "slot_run_state r ''lead'' \<noteq> StBusy"
    "hm_get (run_active_operation_leases r) ''l1'' = None"
    and q: "hm_get (run_pending_wakes r) ''lead'' =
      Some [\<lparr>pw_slot_id = ''lead'', pw_role = Lead, pw_source = McpSendMessage,
             pw_message_id = Some ''bg''\<rparr>]"
    by (simp add: run_step_def op_defs state_defs Let_def)
  have p: "pending_of ?m ''lead'' =
      [\<lparr>pw_slot_id = ''lead'', pw_role = Lead, pw_source = McpSendMessage,
        pw_message_id = Some ''bg''\<rparr>]"
    using active_runD [OF r(1)] q by (simp add: pending_of_def)
  show ?thesis
    using user_message_is_queued_first [OF r, of 4 "''x''" Lead 5 "''m1''"] p
    by (simp add: run_step_def case_prod_unfold Let_def user_wake_def is_foreground_wake_def)
qed

end
