(* ===== verification/TeamRunReport.thy ===== *)
theory TeamRunReport
  imports TeamRunProps
begin

text \<open>
  The report of a run (\<open>TeamRunRecord::payload\<close> and \<open>slot_work\<close>) accounts for all of its work,
  slot by slot.
\<close>

section \<open>Counting per slot\<close>

lemma sum_map_filter:
  "sum_list (map g (List.map_filter h xs)) =
     (sum_list (map (\<lambda>x. case h x of None \<Rightarrow> 0 | Some e \<Rightarrow> g e) xs) :: nat)"
  by (induction xs) (simp_all add: List.map_filter_def split: option.split)

lemma sum_over_keys:
  assumes "hm_wf m" and "distinct ids" and "set (map fst m) \<subseteq> set ids"
  shows "sum_list (map (\<lambda>s. case hm_get m s of None \<Rightarrow> 0 | Some v \<Rightarrow> f v) ids) = hm_sum f m"
  using assms(1,3)
proof (induction m)
  case Nil
  show ?case by (simp add: sum_list_0)
next
  case (Cons p m)
  obtain k v where p: "p = (k, v)" by fastforce
  let ?c = "\<lambda>m s. case hm_get m s of None \<Rightarrow> 0 | Some v \<Rightarrow> f v"
  have k: "hm_get m k = None" "k \<in> set ids" using Cons.prems p by (auto simp: map_of_eq_None_iff)
  have "sum_list (map (?c (p # m)) ids) = sum_list (map (\<lambda>s. ?c m s + (if s = k then f v else 0)) ids)"
    using k p by (intro arg_cong [where f = sum_list] map_cong) auto
  also have "\<dots> = sum_list (map (?c m) ids) + sum_list (map (\<lambda>s. if s = k then f v else 0) ids)"
    by (simp add: sum_list_addf)
  also have "sum_list (map (\<lambda>s. if s = k then f v else 0) ids) = f v"
    using assms(2) k(2) by (simp add: sum_list_distinct_conv_sum_set)
  finally show ?case using Cons p by simp
qed

lemma sum_over_classes:
  assumes "distinct ids" and "f ` set vs \<subseteq> set ids"
  shows "sum_list (map (\<lambda>s. length (filter (\<lambda>v. f v = s) vs)) ids) = length vs"
  using assms(2)
proof (induction vs)
  case (Cons v vs)
  have "sum_list (map (\<lambda>s. length (filter (\<lambda>v. f v = s) (v # vs))) ids) =
      sum_list (map (\<lambda>s. length (filter (\<lambda>v. f v = s) vs) + (if s = f v then 1 else 0)) ids)"
    by (intro arg_cong [where f = sum_list] map_cong) auto
  also have "\<dots> = length vs + sum_list (map (\<lambda>s. if s = f v then 1 else 0) ids)"
    using Cons by (simp add: sum_list_addf)
  also have "sum_list (map (\<lambda>s. if s = f v then 1 else 0) ids) = (1::nat)"
    using assms(1) Cons.prems by (simp add: sum_list_distinct_conv_sum_set)
  finally show ?case by simp
qed (simp add: sum_list_0)

section \<open>The entries\<close>

lemma slot_entry_fields:
  "slot_work_entry now r s = Some e \<Longrightarrow>
     sw_slot_id e = s \<and> sw_pending_wake_count e = pending_wake_count_for_slot r s \<and>
     sw_starting_child_count e = starting_child_count_for_slot r s \<and>
     sw_active_turn_id e = map_option ac_turn_id (hm_get (run_active_child_turns r) s)"
  by (auto simp: slot_work_entry_def Let_def split: option.splits)

lemma slot_entry_None: "slot_work_entry now r s = None \<longleftrightarrow> role_for_slot r s = None"
  by (simp add: slot_work_entry_def Let_def split: option.splits)

lemma role_of_busy_slot:
  assumes "wf_run r" and "role_for_slot r s = None"
  shows "pending_wake_count_for_slot r s = 0" and "starting_child_count_for_slot r s = 0"
    and "hm_get (run_active_child_turns r) s = None"
proof -
  from assms(2) have none: "hm_get (run_active_child_turns r) s = None"
    "find (\<lambda>res. sr_slot_id res = s) (hm_values (run_starting_reservations r)) = None"
    "Option.bind (hm_get (run_pending_wakes r) s)
       (\<lambda>ws. case ws of [] \<Rightarrow> None | w # _ \<Rightarrow> Some (pw_role w)) = None"
    by (simp_all add: role_for_slot_def or_else_def split: option.splits)
  show "hm_get (run_active_child_turns r) s = None" by (fact none)
  show "starting_child_count_for_slot r s = 0"
    using none(2) by (auto simp: starting_child_count_for_slot_def find_None_iff filter_empty_conv)
  show "pending_wake_count_for_slot r s = 0"
    using none(3) by (cases "hm_get (run_pending_wakes r) s")
      (simp_all add: pending_wake_count_for_slot_def split: list.splits)
qed

lemma slot_ids: "map sw_slot_id (slot_work_of now r) =
    filter (\<lambda>s. role_for_slot r s \<noteq> None) (slot_ids_with_work r)"
proof -
  have "map sw_slot_id (List.map_filter (slot_work_entry now r) ids) =
      filter (\<lambda>s. role_for_slot r s \<noteq> None) ids" for ids
  proof (induction ids)
    case (Cons a ids)
    then show ?case
      using slot_entry_None [of now r a] slot_entry_fields [of now r a]
      by (cases "slot_work_entry now r a") (simp_all add: List.map_filter_def)
  qed (simp add: List.map_filter_def)
  then show ?thesis by (simp add: slot_work_of_def)
qed

lemma slot_ids_cover:
  "set (map fst (run_pending_wakes r)) \<subseteq> set (slot_ids_with_work r)"
  "sr_slot_id ` set (hm_values (run_starting_reservations r)) \<subseteq> set (slot_ids_with_work r)"
  "set (map fst (run_active_child_turns r)) \<subseteq> set (slot_ids_with_work r)"
  by (auto simp: slot_ids_with_work_def)

lemma slot_ids_distinct: "distinct (slot_ids_with_work r)" "sorted (slot_ids_with_work r)"
  by (simp_all add: slot_ids_with_work_def sorted_remdups_adj_distinct)

lemma sum_entries:
  assumes "\<And>s e. slot_work_entry now r s = Some e \<Longrightarrow> g e = h s"
    and "\<And>s. role_for_slot r s = None \<Longrightarrow> h s = 0"
  shows "sum_list (map g (slot_work_of now r)) = (sum_list (map h (slot_ids_with_work r)) :: nat)"
proof -
  have "(case slot_work_entry now r s of None \<Rightarrow> 0 | Some e \<Rightarrow> g e) = h s" for s
    using assms slot_entry_None [of now r s] by (auto split: option.splits)
  then show ?thesis by (simp add: slot_work_of_def sum_map_filter)
qed

text \<open>
  C17. The report of a run lists its slots once each in increasing order, and its entries add
  up: the pending wakes of the slots to the run's pending wakes, their starting children to its
  reservations, and the slots that show an active turn to its active children. No unit of work
  is missing from the report or shown twice.
\<close>

theorem report_accounts_for_all_work:
  assumes "wf_run r"
  shows "sorted (map sw_slot_id (rp_slot_work (payload_of now r))) \<and>
         distinct (map sw_slot_id (rp_slot_work (payload_of now r))) \<and>
         sum_list (map sw_pending_wake_count (rp_slot_work (payload_of now r))) =
           rp_pending_wake_count (payload_of now r) \<and>
         sum_list (map sw_starting_child_count (rp_slot_work (payload_of now r))) =
           rp_starting_child_count (payload_of now r) \<and>
         length (filter (\<lambda>e. sw_active_turn_id e \<noteq> None) (rp_slot_work (payload_of now r))) =
           rp_active_child_count (payload_of now r)"
proof -
  let ?ids = "slot_ids_with_work r"
  note role = role_of_busy_slot [OF assms]
  have "sum_list (map sw_pending_wake_count (slot_work_of now r)) =
      sum_list (map (pending_wake_count_for_slot r) ?ids)"
    by (rule sum_entries) (auto dest: slot_entry_fields role)
  also have "\<dots> = pending_wake_count r"
    unfolding pending_wake_count_for_slot_def pending_wake_count_def
    by (rule sum_over_keys [OF wf_run_maps(1) [OF assms] slot_ids_distinct(1) slot_ids_cover(1)])
  finally have p: "sum_list (map sw_pending_wake_count (slot_work_of now r)) = pending_wake_count r" .
  have "sum_list (map sw_starting_child_count (slot_work_of now r)) =
      sum_list (map (starting_child_count_for_slot r) ?ids)"
    by (rule sum_entries) (auto dest: slot_entry_fields role)
  also have "\<dots> = length (run_starting_reservations r)"
    using sum_over_classes [OF slot_ids_distinct(1) slot_ids_cover(2), of r]
    by (simp add: starting_child_count_for_slot_def [abs_def])
  finally have s: "sum_list (map sw_starting_child_count (slot_work_of now r)) =
      length (run_starting_reservations r)" .
  have "length (filter (\<lambda>e. sw_active_turn_id e \<noteq> None) es) =
      sum_list (map (\<lambda>e. if sw_active_turn_id e \<noteq> None then 1 else 0) es)" for es :: "slot_work list"
    by (induction es) auto
  then have "length (filter (\<lambda>e. sw_active_turn_id e \<noteq> None) (slot_work_of now r)) =
      sum_list (map (\<lambda>e. if sw_active_turn_id e \<noteq> None then 1 else 0) (slot_work_of now r))"
    by simp
  also have "\<dots> = sum_list (map (\<lambda>s. case hm_get (run_active_child_turns r) s of
      None \<Rightarrow> 0 | Some _ \<Rightarrow> 1) ?ids)"
    by (rule sum_entries) (auto dest: slot_entry_fields role split: option.splits)
  also have "\<dots> = length (run_active_child_turns r)"
    using sum_over_keys [OF wf_run_maps(3) [OF assms] slot_ids_distinct(1) slot_ids_cover(3),
        of "\<lambda>_. 1"] by (simp add: hm_length_sum)
  finally show ?thesis
    using p s slot_ids [of now r] slot_ids_distinct [of r]
    by (simp add: payload_of_def sorted_wrt_filter)
qed

theorem report_accounts_for_all_work_witness:
  "case mgr_state (fold run_step [OpAcquireUserMessageWake 1 ''run'' ''l0'' ''lead'' Lead,
                                  OpCommitLease 2 ''l0'' (Some ''m'')] (new_run_manager ''team'')) of
     None \<Rightarrow> False
   | Some r \<Rightarrow> sum_list (map sw_pending_wake_count (rp_slot_work (payload_of 3 r))) = 1"
proof -
  let ?m = "fold run_step [OpAcquireUserMessageWake 1 ''run'' ''l0'' ''lead'' Lead,
      OpCommitLease 2 ''l0'' (Some ''m'')] (new_run_manager ''team'')"
  obtain r where r: "mgr_state ?m = Some r" "rp_pending_wake_count (payload_of 3 r) = 1"
    by (simp add: run_step_def op_defs state_defs Let_def payload_of_def pending_wake_count_def)
  have w: "wf_manager ?m" by (rule team_run.run_from_start) auto
  have "wf_run r" using wf_manager_state [OF w r(1)] by simp
  from report_accounts_for_all_work [OF this, of 3] r show ?thesis by simp
qed

end
