(* ===== verification/TeamRunCancel.thy ===== *)
theory TeamRunCancel
  imports TeamRunProps
begin

text \<open>
  Cancelling a run: that it ends once its children are gone, and when it does not. Then the
  notices about slow child turns, and two behaviours of the notifications and the gate.
\<close>

section \<open>A cancelled run that holds a lease\<close>

text \<open>
  \<open>begin_cancel\<close> keeps the operation leases, only \<open>commit\<close> and \<open>abort\<close> remove one, and both
  refuse a run that is not active. The two operations that drop a run without looking at its
  work are \<open>complete_failed\<close> and a child that completes as failed.
\<close>

fun drops_run_unconditionally :: "run_op \<Rightarrow> bool" where
  "drops_run_unconditionally (OpCompleteFailed now) \<longleftrightarrow> True"
| "drops_run_unconditionally (OpRecordChildCompleted now s t st) \<longleftrightarrow> st = RunFailed"
| "drops_run_unconditionally _ \<longleftrightarrow> False"

definition cancelling_with :: "string \<Rightarrow> (string, operation_lease) hmap \<Rightarrow> run_manager \<Rightarrow> bool" where
  "cancelling_with i leases m \<longleftrightarrow>
     (case mgr_state m of
        None \<Rightarrow> False
      | Some r \<Rightarrow> run_status r = RunCancelling \<and> run_team_run_id r = i \<and>
                  run_active_operation_leases r = leases)"

lemma cancelling_with_put [simp]:
  "cancelling_with i leases (put_run r m) \<longleftrightarrow>
     run_status r = RunCancelling \<and> run_team_run_id r = i \<and> run_active_operation_leases r = leases"
  by (simp add: cancelling_with_def put_run_def)

lemma lease_blocks:
  "run_active_operation_leases r \<noteq> [] \<Longrightarrow> \<not> no_work_left r"
  by (simp add: no_work_left_def active_operation_lease_count_def)

lemma cancelling_with_lease_step:
  assumes "cancelling_with i leases m" and "leases \<noteq> []" and "\<not> drops_run_unconditionally op"
  shows "cancelling_with i leases (run_step op m)"
proof -
  from assms(1) obtain r where r: "mgr_state m = Some r" "run_status r = RunCancelling"
    "run_team_run_id r = i" "run_active_operation_leases r = leases"
    by (auto simp: cancelling_with_def split: option.splits)
  have inact: "active_run m = None" and canc: "cancelling_run m = Some r"
    using r by (simp_all add: active_run_def cancelling_run_def is_active_def)
  have block: "\<not> no_work_left r'" if "run_active_operation_leases r' = leases" for r'
    using that assms(2) by (simp add: lease_blocks)
  show ?thesis
  proof (cases op)
    case (OpRecordEmptyWakeObserved now s)
    with r show ?thesis
      by (simp add: run_step_def record_empty_wake_observed_def settle_complete_state block)
  next
    case (OpRecordChildStarted now k c)
    with r assms(1) show ?thesis
      by (simp add: run_step_def record_child_started_def Let_def split: option.split)
  next
    case (OpRecordChildStartFailed now k)
    with r assms(1) show ?thesis
      by (simp add: run_step_def record_child_start_failed_def Let_def settle_cancelled_state block
          split: option.split)
  next
    case (OpRecordChildCompleted now s t st)
    with r assms(1,3) show ?thesis
      by (simp add: run_step_def record_child_completed_def Let_def case_prod_unfold
          settle_complete_state block split: option.split)
  next
    case (OpMaybeComplete now)
    with r show ?thesis by (simp add: run_step_def maybe_complete_def settle_complete_state block)
  next
    case (OpTryCompleteCancelled now)
    with r show ?thesis
      by (simp add: run_step_def try_complete_cancelled_def settle_cancelled_state block)
  next
    case (OpRecordChildCancelled now c)
    with r show ?thesis
      by (simp add: run_step_def record_child_cancelled_def Let_def case_prod_unfold
          settle_cancelled_state block)
  next
    case (OpCompletePause now c why)
    with r show ?thesis
      by (simp add: run_step_def complete_pause_after_child_cancelled_def Let_def)
  qed (use inact canc assms(1,3) in \<open>simp_all add: run_step_def op_defs(1-16)
      release_suppressed_wake_if_resumed_def begin_cancel_def begin_cancel_child_def
      split: list.split\<close>)
qed

lemma cancelling_with_leases_run:
  assumes "cancelling_with i leases m" and "leases \<noteq> []"
    and "\<forall>op \<in> set ops. \<not> drops_run_unconditionally op"
  shows "cancelling_with i leases (fold run_step ops m)"
  using assms
  by (induction ops arbitrary: m) (simp_all add: cancelling_with_lease_step)

text \<open>
  C18. A run that is cancelled while an operation holds a lease never ends by itself: whatever
  sequence of operations follows, short of the whole run failing, the run is still cancelling,
  under the same identifier and with exactly the leases it had. In particular every later user
  message is refused, because a cancelling run accepts none.
\<close>

theorem cancelled_run_with_lease_is_stuck:
  assumes "cancelling_with i leases m" and "leases \<noteq> []"
    and "\<forall>op \<in> set ops. \<not> drops_run_unconditionally op"
  shows "cancelling_with i leases (fold run_step ops m) \<and>
         fst (acquire_user_message_wake now f l s r (fold run_step ops m)) =
           Inl (InvalidRequest (''team run '' @ i @ '' is cancelling''))"
proof -
  have c: "cancelling_with i leases (fold run_step ops m)"
    using cancelling_with_leases_run [OF assms] .
  then obtain r where "mgr_state (fold run_step ops m) = Some r" "run_status r = RunCancelling"
    "run_team_run_id r = i"
    by (auto simp: cancelling_with_def split: option.splits)
  with c show ?thesis
    by (simp add: acquire_user_message_wake_def active_run_def is_active_def cancelling_run_def
        cancelling_error_def)
qed

theorem cancelled_run_with_lease_is_stuck_witness:
  "let m = fold run_step [OpAcquireUserMessageWake 1 ''run'' ''l0'' ''lead'' Lead,
                          OpBeginCancel 2 None None] (new_run_manager ''team'')
   in fst (acquire_user_message_wake 5 ''f'' ''l'' ''lead'' Lead
        (fold run_step [OpCommitLease 3 ''l0'' (Some ''m''), OpAbortLease 4 ''l0'',
                        OpTryCompleteCancelled 5] m)) =
      Inl (InvalidRequest ''team run run is cancelling'')"
proof -
  let ?m = "fold run_step [OpAcquireUserMessageWake 1 ''run'' ''l0'' ''lead'' Lead,
                           OpBeginCancel 2 None None] (new_run_manager ''team'')"
  obtain leases where c: "cancelling_with ''run'' leases ?m" "leases \<noteq> []"
    by (simp add: run_step_def op_defs state_defs Let_def cancelling_with_def)
  show ?thesis
    using cancelled_run_with_lease_is_stuck [OF c,
        of "[OpCommitLease 3 ''l0'' (Some ''m''), OpAbortLease 4 ''l0'', OpTryCompleteCancelled 5]"
        5 "''f''" "''l''" "''lead''" Lead]
    by (simp add: Let_def del: fold_simps)
qed

section \<open>A cancelled run without a lease\<close>

text \<open>The operations by which the session drains a cancelled run, and what each takes away.\<close>

fun drain_op :: "run_op \<Rightarrow> bool" where
  "drain_op (OpRecordChildCancelled now c) \<longleftrightarrow> True"
| "drain_op (OpRecordChildStartFailed now k) \<longleftrightarrow> True"
| "drain_op (OpTryCompleteCancelled now) \<longleftrightarrow> True"
| "drain_op _ \<longleftrightarrow> False"

fun drained_child :: "run_op \<Rightarrow> string set" where
  "drained_child (OpRecordChildCancelled now c) = {ac_slot_id c}"
| "drained_child _ = {}"

fun drained_start :: "run_op \<Rightarrow> string set" where
  "drained_start (OpRecordChildStartFailed now k) = {k}"
| "drained_start _ = {}"

definition drainable :: "team_run \<Rightarrow> bool" where
  "drainable r \<longleftrightarrow> run_status r = RunCancelling \<and> run_pending_wakes r = [] \<and>
     run_active_operation_leases r = [] \<and> \<not> has_retained_work (run_slot_wake_gate r)"

lemma drainable_no_work:
  "drainable r \<Longrightarrow>
     no_work_left r \<longleftrightarrow> run_starting_reservations r = [] \<and> run_active_child_turns r = []"
  by (simp add: drainable_def no_work_left_def pending_wake_count_def active_operation_lease_count_def
      has_retained_wake_gate_work_def)

lemma drainable_update [simp]:
  "drainable (r\<lparr>run_active_child_turns := am\<rparr>) = drainable r"
  "drainable (r\<lparr>run_starting_reservations := sm\<rparr>) = drainable r"
  by (simp_all add: drainable_def)

lemma settle_drainable:
  assumes "drainable r"
  shows "settle_run (maybe_cancelled_locked now r) m =
     (if run_starting_reservations r = [] \<and> run_active_child_turns r = []
      then (Some (payload_of now (r\<lparr>run_status := RunCancelled, run_cancelled_at := Some now\<rparr>)),
            clear_run m,
            [RunEvent EvCancelled
               (payload_of now (r\<lparr>run_status := RunCancelled, run_cancelled_at := Some now\<rparr>))])
      else (None, put_run r m, [RunEvent EvUpdated (payload_of now r)]))"
  using assms drainable_no_work [OF assms]
  by (simp add: settle_run_def maybe_cancelled_locked_def Let_def drainable_def)

definition closes_cancelled :: "team_event list \<Rightarrow> bool" where
  "closes_cancelled evs \<longleftrightarrow> list_ex (\<lambda>e. case e of RunEvent EvCancelled _ \<Rightarrow> True | _ \<Rightarrow> False) evs"

lemma closes_append [simp]:
  "closes_cancelled (xs @ ys) \<longleftrightarrow> closes_cancelled xs \<or> closes_cancelled ys"
  by (simp add: closes_cancelled_def)

text \<open>One draining operation either ends the run with its notice or takes away what it names.\<close>

definition drains_to :: "team_run \<Rightarrow> string set \<Rightarrow> string set \<Rightarrow> run_manager \<times> team_event list \<Rightarrow> bool"
where
  "drains_to r cs ks res \<longleftrightarrow>
     mgr_state (fst res) = None \<and> closes_cancelled (snd res) \<or>
     (\<exists>r'. mgr_state (fst res) = Some r' \<and> drainable r' \<and>
        (run_starting_reservations r' \<noteq> [] \<or> run_active_child_turns r' \<noteq> []) \<and>
        set (hm_keys (run_active_child_turns r')) = set (hm_keys (run_active_child_turns r)) - cs \<and>
        set (hm_keys (run_starting_reservations r')) =
          set (hm_keys (run_starting_reservations r)) - ks)"

lemma keys_remove: "set (map fst (hm_remove k m)) = set (map fst m) - {k}"
  by (induction m) auto

lemma drain_step:
  assumes "mgr_state m = Some r" and "drainable r" and "drain_op op"
    and "run_starting_reservations r \<noteq> [] \<or> run_active_child_turns r \<noteq> []"
  shows "drains_to r (drained_child op) (drained_start op) (exec_op op m)"
proof (cases op)
  case (OpRecordChildCancelled now c)
  have "run_status r = RunCancelling" using assms(2) by (simp add: drainable_def)
  with OpRecordChildCancelled assms show ?thesis
    by (auto simp: drains_to_def record_child_cancelled_def Let_def settle_drainable keys_remove
        closes_cancelled_def clear_run_def put_run_def simp del: set_map)
next
  case (OpRecordChildStartFailed now k)
  have st: "run_status r = RunCancelling" using assms(2) by (simp add: drainable_def)
  show ?thesis
  proof (cases "hm_get (run_starting_reservations r) k")
    case None
    then have "k \<notin> set (map fst (run_starting_reservations r))" by (simp add: map_of_eq_None_iff)
    with None OpRecordChildStartFailed assms show ?thesis
      by (simp add: drains_to_def record_child_start_failed_def)
  next
    case (Some res)
    with OpRecordChildStartFailed assms st show ?thesis
      by (auto simp: drains_to_def record_child_start_failed_def Let_def settle_drainable keys_remove
          closes_cancelled_def clear_run_def put_run_def simp del: set_map)
  qed
next
  case (OpTryCompleteCancelled now)
  with assms show ?thesis
    by (auto simp: drains_to_def try_complete_cancelled_def settle_drainable put_run_def)
qed (use assms(3) in simp_all)

lemma idle_manager_drain: "mgr_state m = None \<Longrightarrow> drain_op op \<Longrightarrow> run_step op m = m"
  by (cases op) (simp_all add: run_step_def record_child_cancelled_def record_child_start_failed_def
      try_complete_cancelled_def)

lemma idle_manager_drains: "mgr_state m = None \<Longrightarrow> \<forall>op \<in> set ops. drain_op op \<Longrightarrow> fold run_step ops m = m"
  by (induction ops) (simp_all add: idle_manager_drain)

lemma drain_run:
  assumes "mgr_state m = Some r" and "drainable r" and "\<forall>op \<in> set ops. drain_op op"
    and "run_starting_reservations r \<noteq> [] \<or> run_active_child_turns r \<noteq> []"
  shows "drains_to r (\<Union>(drained_child ` set ops)) (\<Union>(drained_start ` set ops))
           (fold run_step ops m, trace_events ops m)"
  using assms
proof (induction ops arbitrary: m r)
  case Nil
  then show ?case by (auto simp: drains_to_def)
next
  case (Cons op ops)
  have step: "drains_to r (drained_child op) (drained_start op) (run_step op m, run_events op m)"
    using drain_step [of m r op] Cons.prems by (simp add: run_step_def run_events_def)
  show ?case
  proof (cases "mgr_state (run_step op m)")
    case None
    with step Cons.prems idle_manager_drains [of "run_step op m" ops] show ?thesis
      by (auto simp: drains_to_def)
  next
    case (Some r')
    with step have r': "drainable r'"
      "run_starting_reservations r' \<noteq> [] \<or> run_active_child_turns r' \<noteq> []"
      "set (hm_keys (run_active_child_turns r')) =
         set (hm_keys (run_active_child_turns r)) - drained_child op"
      "set (hm_keys (run_starting_reservations r')) =
         set (hm_keys (run_starting_reservations r)) - drained_start op"
      by (simp_all add: drains_to_def)
    from Cons.IH [OF Some r'(1) _ r'(2)] Cons.prems(3) show ?thesis
      unfolding drains_to_def fst_conv snd_conv r'(3) r'(4)
      by (auto simp del: set_map)
  qed
qed

text \<open>
  C19. Without a lease a cancelled run does end: once the session has reported every active
  child as cancelled and every reserved start as failed, in whatever order and with whatever
  other draining calls between them, no run is left and its cancellation has been announced.
\<close>

theorem cancelled_run_without_lease_ends:
  assumes "mgr_state m = Some r" and "drainable r"
    and "run_starting_reservations r \<noteq> [] \<or> run_active_child_turns r \<noteq> []"
    and "\<forall>op \<in> set ops. drain_op op"
    and "set (hm_keys (run_active_child_turns r)) \<subseteq> \<Union>(drained_child ` set ops)"
    and "set (hm_keys (run_starting_reservations r)) \<subseteq> \<Union>(drained_start ` set ops)"
  shows "mgr_state (fold run_step ops m) = None \<and> closes_cancelled (trace_events ops m)"
proof -
  have "set (map fst (run_active_child_turns r)) - \<Union>(drained_child ` set ops) = {}"
    and "set (map fst (run_starting_reservations r)) - \<Union>(drained_start ` set ops) = {}"
    using assms(5,6) by blast+
  with drain_run [OF assms(1,2,4,3)] show ?thesis
    unfolding drains_to_def fst_conv snd_conv
    by (metis Diff_eq_empty_iff empty_subsetI list.set(1) map_is_Nil_conv set_empty subset_antisym)
qed

definition cancel_trace :: "run_op list" where
  "cancel_trace =
     [OpAcquireUserMessageWake 1 ''run'' ''l0'' ''lead'' Lead,
      OpCommitLease 2 ''l0'' (Some ''m''),
      OpClaimWakeForTurn 3 ''res'' ''lead'' Lead ''conv'',
      OpBeginCancel 4 None None]"

theorem cancelled_run_without_lease_ends_witness:
  "let m = fold run_step cancel_trace (new_run_manager ''team'')
   in mgr_state m \<noteq> None \<and>
      mgr_state (fold run_step [OpTryCompleteCancelled 5, OpRecordChildStartFailed 6 ''res''] m) = None"
proof -
  let ?m = "fold run_step cancel_trace (new_run_manager ''team'')"
  obtain r where r: "mgr_state ?m = Some r" "drainable r" "run_starting_reservations r \<noteq> []"
    "run_active_child_turns r = []" "map fst (run_starting_reservations r) = [''res'']"
    by (simp add: cancel_trace_def run_step_def op_defs state_defs Let_def drainable_def
        has_retained_work_def gate_clear_def hm_map_values_def)
  show ?thesis
    using cancelled_run_without_lease_ends [OF r(1,2),
        of "[OpTryCompleteCancelled 5, OpRecordChildStartFailed 6 ''res'']"] r
    by (simp add: Let_def r(5) del: fold_simps set_map list.set_map)
qed

section \<open>Notices about slow child turns\<close>

lemma slow_again:
  assumes "now \<le> now'" and "now' - now < int ACTIVE_CHILD_SLOW_REPEAT_MS"
  shows "\<not> slow_notice_due now' (c\<lparr>ac_last_slow_notified_at_ms := Some now\<rparr>)"
  using assms
  by (auto simp: slow_notice_due_def saturating_sub_def i64_min_def i64_max_def
      ACTIVE_CHILD_SLOW_REPEAT_MS_def)

text \<open>
  A slow child turn is reported once per repeat interval: when the slow turns are observed
  at \<open>now\<close> and again within ten minutes, the second observation reports something exactly when
  some child was not due the first time and has become due since. A child that was reported the
  first time contributes nothing to it.
\<close>

theorem slow_turn_notified_once_per_interval:
  assumes "active_run m = Some r" and "now \<le> now'"
    and "now' - now < int ACTIVE_CHILD_SLOW_REPEAT_MS"
  shows "snd (snd (observe_slow_child_turns now' (fst (snd (observe_slow_child_turns now m))))) \<noteq> []
     \<longleftrightarrow> (\<exists>c \<in> set (hm_values (run_active_child_turns r)).
            \<not> slow_notice_due now c \<and> slow_notice_due now' c)"
proof -
  let ?f = "\<lambda>c. if slow_notice_due now c then c\<lparr>ac_last_slow_notified_at_ms := Some now\<rparr> else c"
  define r1 where "r1 = r\<lparr>run_active_child_turns := hm_map_values ?f (run_active_child_turns r)\<rparr>"
  have m1: "fst (snd (observe_slow_child_turns now m)) = put_run r1 m"
    using assms(1) by (simp add: observe_slow_child_turns_def Let_def r1_def)
  have act: "active_run (put_run r1 m) = Some r1"
    using active_runD [OF assms(1)] by (auto simp: active_run_def put_run_def is_active_def r1_def)
  have vals: "hm_values (run_active_child_turns r1) = map ?f (hm_values (run_active_child_turns r))"
    by (simp add: r1_def hm_map_values_def case_prod_unfold)
  have due: "slow_notice_due now' (?f c) \<longleftrightarrow> \<not> slow_notice_due now c \<and> slow_notice_due now' c" for c
    using slow_again [OF assms(2,3), of c] by simp
  have "snd (snd (observe_slow_child_turns now' (put_run r1 m))) \<noteq> [] \<longleftrightarrow>
      list_ex (slow_notice_due now') (hm_values (run_active_child_turns r1))"
    using act by (simp add: observe_slow_child_turns_def Let_def)
  also have "\<dots> \<longleftrightarrow> (\<exists>c \<in> set (hm_values (run_active_child_turns r)). slow_notice_due now' (?f c))"
    unfolding vals by (simp only: list_ex_iff set_map bex_simps)
  finally show ?thesis using m1 due by simp
qed

definition slow_child :: active_child_turn where
  "slow_child = \<lparr>ac_team_run_id = ''run'', ac_slot_id = ''lead'', ac_role = Lead,
                 ac_conversation_id = ''conv'', ac_turn_id = ''t1'', ac_started_at_ms = 4,
                 ac_last_slow_notified_at_ms = None\<rparr>"

definition start_trace :: "run_op list" where
  "start_trace =
     [OpAcquireUserMessageWake 1 ''run'' ''l0'' ''lead'' Lead,
      OpCommitLease 2 ''l0'' (Some ''m''),
      OpClaimWakeForTurn 3 ''res'' ''lead'' Lead ''conv'',
      OpRecordChildStarted 4 ''res'' slow_child]"

theorem slow_turn_notified_once_per_interval_witness:
  "let m = fold run_step start_trace (new_run_manager ''team'')
   in snd (snd (observe_slow_child_turns 600004 m)) \<noteq> [] \<and>
      snd (snd (observe_slow_child_turns 1200003
        (fst (snd (observe_slow_child_turns 600004 m))))) = []"
proof -
  let ?m = "fold run_step start_trace (new_run_manager ''team'')"
  obtain r where r: "active_run ?m = Some r"
    "hm_values (run_active_child_turns r) = [slow_child]"
    by (simp add: start_trace_def run_step_def op_defs state_defs Let_def slow_child_def)
  have due: "slow_notice_due 600004 slow_child" and "\<not> slow_notice_due 600003 slow_child"
    by (simp_all add: slow_notice_due_def slow_child_def saturating_sub_def i64_min_def i64_max_def
        ACTIVE_CHILD_SLOW_THRESHOLD_MS_def)
  have "snd (snd (observe_slow_child_turns 600004 ?m)) \<noteq> []"
    using r due by (simp add: observe_slow_child_turns_def Let_def del: fold_simps)
  moreover have "snd (snd (observe_slow_child_turns 1200003
      (fst (snd (observe_slow_child_turns 600004 ?m))))) = []"
    using slow_turn_notified_once_per_interval [OF r(1), of 600004 1200003] r(2) due
    by (simp add: ACTIVE_CHILD_SLOW_REPEAT_MS_def del: fold_simps)
  ultimately show ?thesis by (simp add: Let_def del: fold_simps)
qed

section \<open>Two traces\<close>

definition lost_start_trace :: "run_op list" where
  "lost_start_trace =
     [OpAcquireUserMessageWake 1 ''run'' ''l0'' ''lead'' Lead,
      OpCommitLease 2 ''l0'' (Some ''m1''),
      OpClaimWakeForTurn 3 ''res1'' ''lead'' Lead ''conv'',
      OpBeginCancelChild ''lead'',
      OpRecordChildStarted 4 ''res1'' slow_child,
      OpRecordChildCancelled 5 slow_child,
      OpAcquireUserMessageWake 6 ''x'' ''l1'' ''lead'' Lead,
      OpCommitLease 7 ''l1'' (Some ''m2''),
      OpClaimWakeForTurn 8 ''res2'' ''lead'' Lead ''conv'',
      OpRecordChildStarted 9 ''res2'' (slow_child\<lparr>ac_turn_id := ''t2''\<rparr>)]"

definition run_notices :: "team_event list \<Rightarrow> run_event_name list" where
  "run_notices evs =
     List.map_filter (\<lambda>e. case e of RunEvent n _ \<Rightarrow> Some n | ChildEvent _ _ \<Rightarrow> None) evs"

lemma run_notices_simps [simp]:
  "run_notices [] = []"
  "run_notices (RunEvent n p # es) = n # run_notices es"
  "run_notices (ChildEvent c q # es) = run_notices es"
  by (simp_all add: run_notices_def List.map_filter_def)

text \<open>
  The notice that a run has started can be lost: \<open>started_at\<close> is set by the first child even
  when its reservation is being cancelled, and the notice is sent only by the child that sets
  it. In this trace the reservation of the first child is cancelled before it starts and a
  second child runs; the run ends up running, two children have started, and no start of the
  run was ever announced.
\<close>

theorem start_notice_can_be_lost:
  "map_option run_status (mgr_state (fold run_step lost_start_trace (new_run_manager ''team''))) =
     Some RunRunning \<and>
   list_ex ((=) EvStarted)
     (run_notices (trace_events lost_start_trace (new_run_manager ''team''))) = False"
  by (simp add: lost_start_trace_def run_step_def run_events_def op_defs state_defs Let_def
      slow_child_def find_reservation_def hm_modify_def)

definition lingering_gate_trace :: "run_op list" where
  "lingering_gate_trace =
     start_trace @
     [OpAcquireUserMessageWake 5 ''x'' ''l1'' ''w1'' Teammate,
      OpCommitLease 6 ''l1'' (Some ''m2''),
      OpClaimWakeForTurn 7 ''res1'' ''w1'' Teammate ''conv1'',
      OpRecordChildStarted 8 ''res1''
        (slow_child\<lparr>ac_slot_id := ''w1'', ac_role := Teammate, ac_turn_id := ''tw''\<rparr>),
      OpCompletePause 9 slow_child None,
      OpAcquireUserMessageWake 10 ''x'' ''l2'' ''lead'' Lead,
      OpCommitLease 11 ''l2'' (Some ''m3''),
      OpClaimWakeForTurn 12 ''res2'' ''lead'' Lead ''conv'',
      OpRecordChildStarted 13 ''res2'' (slow_child\<lparr>ac_turn_id := ''t2''\<rparr>),
      OpRecordChildCompleted 14 ''lead'' ''t2'' RunCompleted,
      OpMaybeComplete 15,
      OpReleaseSuppressedWake 16 ''lead'' Lead,
      OpAcquireRunScopedWake 17 ''l3'' ''lead'' Lead McpSendMessage,
      OpCommitLease 18 ''l3'' (Some ''m4''),
      OpRecordChildCompleted 19 ''w1'' ''tw'' RunCompleted,
      OpMaybeComplete 20,
      OpClaimWakeForTurn 21 ''res3'' ''lead'' Lead ''conv'',
      OpRecordChildStarted 22 ''res3'' (slow_child\<lparr>ac_turn_id := ''t3''\<rparr>),
      OpRecordChildCompleted 23 ''lead'' ''t3'' RunCompleted,
      OpMaybeComplete 24]"

text \<open>
  A slot that was paused and resumed can keep a run alive with nothing left to do. The
  resuming user message leaves the entry of the slot in the gate (not paused, nothing held), the
  release after its turn does not prune it, and the next message of a teammate is then both
  accepted and counted as held back. In this trace every wake has been turned into a child turn
  and every turn has completed, and still the run is running and does not complete.
\<close>

theorem resumed_slot_keeps_run_open:
  "case mgr_state (fold run_step lingering_gate_trace (new_run_manager ''team'')) of
     None \<Rightarrow> False
   | Some r \<Rightarrow> run_status r = RunRunning \<and> run_pending_wakes r = [] \<and>
       run_starting_reservations r = [] \<and> run_active_child_turns r = [] \<and>
       run_active_operation_leases r = [] \<and> \<not> paused_in (run_slot_wake_gate r) ''lead'' \<and>
       held_in (run_slot_wake_gate r) ''lead'' = 1"
  by (simp add: lingering_gate_trace_def start_trace_def run_step_def op_defs state_defs Let_def
      slow_child_def gate_pause_def gate_add_suppressed_def or_user_stop_def hm_modify_def
      release_suppressed_if_resumed_def no_work_left_def pending_wake_count_def
      active_operation_lease_count_def has_retained_wake_gate_work_def has_retained_work_def)

end
