(* ===== verification/ConvRuntime.thy ===== *)
theory ConvRuntime
  imports Prelude
begin

text \<open>
  Which turn owns a conversation (\<open>veryagent-conversation/src/runtime_state.rs\<close>): the state behind
  the mutex, every operation on it, the claim a turn holds, and the waiters of
  \<open>wait_until_unclaimed\<close>. The mutex may be poisoned (\<open>cr_poisoned\<close>), which is the error branch
  of every operation.
\<close>

section \<open>State and operations\<close>

record conv_state =
  cr_active_turns :: "(string, string) hmap"
  cr_deleting :: "string set"
  cr_cancelling :: "string set"
  cr_shutting_down :: bool
  cr_poisoned :: bool

record turn_claim =
  tc_conversation_id :: string
  tc_turn_id :: string
  tc_released :: bool

datatype lifecycle_state = LifeActive | LifeDeleting | LifeCancelling | LifeShuttingDown

datatype conversation_error = Busy string | Internal string

datatype runtime_state_kind = KIdle | KStarting | KRunning | KCancelling | KWaitingConfirmation

datatype conversation_status = CsPending | CsRunning | CsFinished

record runtime_summary =
  rs_state :: runtime_state_kind
  rs_can_send_message :: bool
  rs_has_task :: bool
  rs_task_status :: "conversation_status option"
  rs_is_processing :: bool
  rs_pending_confirmations :: nat
  rs_turn_id :: "string option"

definition new_conv_state :: conv_state where
  "new_conv_state =
     \<lparr>cr_active_turns = [], cr_deleting = {}, cr_cancelling = {}, cr_shutting_down = False,
      cr_poisoned = False\<rparr>"

definition try_claim_turn ::
  "string \<Rightarrow> string \<Rightarrow> conv_state \<Rightarrow> (conversation_error + turn_claim) \<times> conv_state" where
  "try_claim_turn c t st =
     (if cr_poisoned st then (Inl (Internal ''conversation runtime state lock poisoned''), st)
      else if cr_shutting_down st then
        (Inl (Busy ''conversation runtime is shutting down''), st)
      else if c \<in> cr_deleting st then
        (Inl (Busy (''conversation '' @ c @ '' is being deleted'')), st)
      else if hm_has (cr_active_turns st) c then
        (Inl (Busy (''conversation '' @ c @ '' is already running'')), st)
      else
        (Inr \<lparr>tc_conversation_id = c, tc_turn_id = t, tc_released = False\<rparr>,
         st\<lparr>cr_active_turns := hm_insert c t (cr_active_turns st)\<rparr>))"

definition is_claimed :: "string \<Rightarrow> conv_state \<Rightarrow> bool" where
  "is_claimed c st = (if cr_poisoned st then False else hm_has (cr_active_turns st) c)"

definition active_turn_id_for :: "string \<Rightarrow> conv_state \<Rightarrow> string option" where
  "active_turn_id_for c st = (if cr_poisoned st then None else hm_get (cr_active_turns st) c)"

definition mark_deleting :: "string \<Rightarrow> conv_state \<Rightarrow> bool \<times> conv_state" where
  "mark_deleting c st =
     (if cr_poisoned st then (False, st)
      else (hm_has (cr_active_turns st) c, st\<lparr>cr_deleting := insert c (cr_deleting st)\<rparr>))"

definition clear_deleting :: "string \<Rightarrow> conv_state \<Rightarrow> conv_state" where
  "clear_deleting c st =
     (if cr_poisoned st then st else st\<lparr>cr_deleting := cr_deleting st - {c}\<rparr>)"

definition is_deleting :: "string \<Rightarrow> conv_state \<Rightarrow> bool" where
  "is_deleting c st = (if cr_poisoned st then False else c \<in> cr_deleting st)"

definition mark_cancelling :: "string \<Rightarrow> conv_state \<Rightarrow> conv_state" where
  "mark_cancelling c st =
     (if cr_poisoned st then st else st\<lparr>cr_cancelling := insert c (cr_cancelling st)\<rparr>)"

definition clear_cancelling :: "string \<Rightarrow> conv_state \<Rightarrow> conv_state" where
  "clear_cancelling c st =
     (if cr_poisoned st then st else st\<lparr>cr_cancelling := cr_cancelling st - {c}\<rparr>)"

definition is_cancelling :: "string \<Rightarrow> conv_state \<Rightarrow> bool" where
  "is_cancelling c st = (if cr_poisoned st then False else c \<in> cr_cancelling st)"

definition mark_shutting_down :: "conv_state \<Rightarrow> nat \<times> conv_state" where
  "mark_shutting_down st =
     (if cr_poisoned st then (0, st)
      else (length (cr_active_turns st), st\<lparr>cr_shutting_down := True\<rparr>))"

definition is_shutting_down :: "conv_state \<Rightarrow> bool" where
  "is_shutting_down st = (if cr_poisoned st then True else cr_shutting_down st)"

definition lifecycle_for :: "string \<Rightarrow> conv_state \<Rightarrow> lifecycle_state" where
  "lifecycle_for c st =
     (if cr_poisoned st then LifeShuttingDown
      else if cr_shutting_down st then LifeShuttingDown
      else if c \<in> cr_deleting st then LifeDeleting
      else if c \<in> cr_cancelling st then LifeCancelling
      else LifeActive)"

definition summary_from_parts ::
  "string \<Rightarrow> conversation_status option \<Rightarrow> bool \<Rightarrow> nat \<Rightarrow> conv_state \<Rightarrow> runtime_summary" where
  "summary_from_parts c task_status has_task pending_confirmations st =
     (let (active_turn_id, cancelling) =
            (if cr_poisoned st then (None, False)
             else (hm_get (cr_active_turns st) c, c \<in> cr_cancelling st));
          claimed = (active_turn_id \<noteq> None);
          state = (if pending_confirmations > 0 then KWaitingConfirmation
                   else if cancelling then KCancelling
                   else if claimed \<and> task_status \<noteq> Some CsRunning then KStarting
                   else if claimed \<or> task_status = Some CsRunning then KRunning
                   else KIdle);
          is_processing = (state \<noteq> KIdle)
      in \<lparr>rs_state = state,
          rs_can_send_message = (\<not> is_processing),
          rs_has_task = has_task,
          rs_task_status = task_status,
          rs_is_processing = is_processing,
          rs_pending_confirmations = pending_confirmations,
          rs_turn_id = active_turn_id\<rparr>)"

text \<open>
  \<open>release\<close> returns whether the conversation was being deleted, and whether it goes on to call
  \<open>notify_waiters\<close>. The call comes after the lock has been dropped and is a step of its own.
\<close>

definition release_turn :: "string \<Rightarrow> string \<Rightarrow> conv_state \<Rightarrow> bool \<times> bool \<times> conv_state" where
  "release_turn c t st =
     (if cr_poisoned st then (False, False, st)
      else (case hm_get (cr_active_turns st) c of
              None \<Rightarrow> (False, False, st)
            | Some active \<Rightarrow>
                if active = t then
                  (c \<in> cr_deleting st, True,
                   st\<lparr>cr_active_turns := hm_remove c (cr_active_turns st),
                      cr_deleting := cr_deleting st - {c},
                      cr_cancelling := cr_cancelling st - {c}\<rparr>)
                else (False, False, st)))"

text \<open>The claim holds a weak reference to the service: \<open>None\<close> when the service is gone.\<close>

definition release_inner ::
  "turn_claim \<Rightarrow> conv_state option \<Rightarrow> (bool \<times> bool) \<times> turn_claim \<times> conv_state option" where
  "release_inner cl service =
     (if tc_released cl then ((False, False), cl, service)
      else (case service of
              None \<Rightarrow> ((False, False), cl\<lparr>tc_released := True\<rparr>, None)
            | Some st \<Rightarrow>
                (case release_turn (tc_conversation_id cl) (tc_turn_id cl) st of
                   (was_deleting, notifies, st') \<Rightarrow>
                     ((was_deleting, notifies), cl\<lparr>tc_released := True\<rparr>, Some st'))))"

definition release_for_turn ::
  "string \<Rightarrow> turn_claim \<Rightarrow> conv_state option \<Rightarrow> (bool \<times> bool) \<times> turn_claim \<times> conv_state option"
where
  "release_for_turn t cl service =
     (if tc_turn_id cl \<noteq> t then ((False, False), cl, service) else release_inner cl service)"

section \<open>Turns and waiters together\<close>

text \<open>
  Every interleaving of the callers: the claims handed out so far, the number of calls of
  \<open>notify_waiters\<close>, those still owed by a release that has dropped the lock, and the tasks in
  \<open>wait_until_unclaimed\<close>. A waiter first takes the \<open>notified\<close> future, which remembers how many
  calls have been made, then checks the claim, and sleeps until there has been another call.
\<close>

datatype waiter = Armed nat | Sleeping nat | Returned

record conv_world =
  w_state :: conv_state
  w_claims :: "turn_claim list"
  w_notified :: nat
  w_owed :: nat
  w_waiters :: "(string \<times> waiter) list"

definition new_conv_world :: conv_world where
  "new_conv_world =
     \<lparr>w_state = new_conv_state, w_claims = [], w_notified = 0, w_owed = 0, w_waiters = []\<rparr>"

text \<open>One round of the loop of \<open>wait_until_unclaimed\<close>: the check, and the wake-up.\<close>

definition waiter_check :: "string \<Rightarrow> conv_state \<Rightarrow> waiter \<Rightarrow> waiter" where
  "waiter_check c st w =
     (case w of
        Armed e \<Rightarrow> if \<not> is_claimed c st then Returned else Sleeping e
      | _ \<Rightarrow> w)"

definition waiter_wake :: "nat \<Rightarrow> waiter \<Rightarrow> waiter" where
  "waiter_wake notified w =
     (case w of Sleeping e \<Rightarrow> if e \<noteq> notified then Armed notified else w | _ \<Rightarrow> w)"

datatype conv_op =
    OpClaim string string
  | OpRelease nat
  | OpNotify
  | OpMarkDeleting string
  | OpClearDeleting string
  | OpMarkCancelling string
  | OpClearCancelling string
  | OpShutDown
  | OpWait string
  | OpCheck nat
  | OpWake nat

fun conv_step :: "conv_op \<Rightarrow> conv_world \<Rightarrow> conv_world" where
  "conv_step (OpClaim c t) w =
     (case try_claim_turn c t (w_state w) of
        (Inl _, st) \<Rightarrow> w\<lparr>w_state := st\<rparr>
      | (Inr cl, st) \<Rightarrow> w\<lparr>w_state := st, w_claims := w_claims w @ [cl]\<rparr>)"
| "conv_step (OpRelease i) w =
     (if i < length (w_claims w) then
        (case release_inner (w_claims w ! i) (Some (w_state w)) of
           ((_, notifies), cl, st) \<Rightarrow>
             w\<lparr>w_state := (case st of None \<Rightarrow> w_state w | Some s \<Rightarrow> s),
               w_claims := (w_claims w)[i := cl],
               w_owed := (if notifies then Suc (w_owed w) else w_owed w)\<rparr>)
      else w)"
| "conv_step OpNotify w =
     (if w_owed w = 0 then w
      else w\<lparr>w_owed := w_owed w - 1, w_notified := Suc (w_notified w)\<rparr>)"
| "conv_step (OpMarkDeleting c) w = w\<lparr>w_state := snd (mark_deleting c (w_state w))\<rparr>"
| "conv_step (OpClearDeleting c) w = w\<lparr>w_state := clear_deleting c (w_state w)\<rparr>"
| "conv_step (OpMarkCancelling c) w = w\<lparr>w_state := mark_cancelling c (w_state w)\<rparr>"
| "conv_step (OpClearCancelling c) w = w\<lparr>w_state := clear_cancelling c (w_state w)\<rparr>"
| "conv_step OpShutDown w = w\<lparr>w_state := snd (mark_shutting_down (w_state w))\<rparr>"
| "conv_step (OpWait c) w = w\<lparr>w_waiters := w_waiters w @ [(c, Armed (w_notified w))]\<rparr>"
| "conv_step (OpCheck j) w =
     (if j < length (w_waiters w) then
        (case w_waiters w ! j of
           (c, x) \<Rightarrow> w\<lparr>w_waiters := (w_waiters w)[j := (c, waiter_check c (w_state w) x)]\<rparr>)
      else w)"
| "conv_step (OpWake j) w =
     (if j < length (w_waiters w) then
        (case w_waiters w ! j of
           (c, x) \<Rightarrow> w\<lparr>w_waiters := (w_waiters w)[j := (c, waiter_wake (w_notified w) x)]\<rparr>)
      else w)"

section \<open>The invariant\<close>

text \<open>The claims of a conversation that have not been released.\<close>

definition open_claims :: "string \<Rightarrow> turn_claim list \<Rightarrow> turn_claim list" where
  "open_claims c cls = filter (\<lambda>cl. tc_conversation_id cl = c \<and> \<not> tc_released cl) cls"

definition owner_claims :: "string \<Rightarrow> conv_state \<Rightarrow> turn_claim list" where
  "owner_claims c st =
     (case hm_get (cr_active_turns st) c of
        None \<Rightarrow> []
      | Some t \<Rightarrow> [\<lparr>tc_conversation_id = c, tc_turn_id = t, tc_released = False\<rparr>])"

definition waiter_ok :: "conv_world \<Rightarrow> string \<times> waiter \<Rightarrow> bool" where
  "waiter_ok w cx \<longleftrightarrow>
     (case snd cx of
        Armed e \<Rightarrow> e \<le> w_notified w
      | Sleeping e \<Rightarrow>
          e \<le> w_notified w \<and>
          (e = w_notified w \<longrightarrow> is_claimed (fst cx) (w_state w) \<or> w_owed w > 0)
      | Returned \<Rightarrow> True)"

definition conv_inv :: "conv_world \<Rightarrow> bool" where
  "conv_inv w \<longleftrightarrow>
     \<not> cr_poisoned (w_state w) \<and> hm_wf (cr_active_turns (w_state w)) \<and>
     (\<forall>c. open_claims c (w_claims w) = owner_claims c (w_state w)) \<and>
     list_all (waiter_ok w) (w_waiters w)"

lemma open_claims_append [simp]:
  "open_claims c (cls @ [cl]) =
     open_claims c cls @ (if tc_conversation_id cl = c \<and> \<not> tc_released cl then [cl] else [])"
  by (simp add: open_claims_def)

lemma open_claims_release_other:
  "i < length cls \<Longrightarrow> tc_conversation_id (cls ! i) \<noteq> c \<Longrightarrow>
     open_claims c (cls[i := (cls ! i)\<lparr>tc_released := True\<rparr>]) = open_claims c cls"
proof (induction cls arbitrary: i)
  case (Cons a cls)
  then show ?case by (cases i) (auto simp: open_claims_def)
qed simp

lemma open_claims_release_only:
  "i < length cls \<Longrightarrow> open_claims (tc_conversation_id (cls ! i)) cls = [cl] \<Longrightarrow>
     \<not> tc_released (cls ! i) \<Longrightarrow>
     open_claims (tc_conversation_id (cls ! i)) (cls[i := (cls ! i)\<lparr>tc_released := True\<rparr>]) = []"
proof -
  assume i: "i < length cls" and one: "open_claims (tc_conversation_id (cls ! i)) cls = [cl]"
    and fresh: "\<not> tc_released (cls ! i)"
  let ?c = "tc_conversation_id (cls ! i)"
  have "open_claims ?c (take i cls @ cls ! i # drop (Suc i) cls) = [cl]"
    using one id_take_nth_drop [OF i] by simp
  then have "open_claims ?c (take i cls) = []" "open_claims ?c (drop (Suc i) cls) = []"
    using fresh by (auto simp: open_claims_def append_eq_Cons_conv)
  then show ?thesis
    using i by (simp add: upd_conv_take_nth_drop open_claims_def)
qed

lemma open_claim_mem:
  "i < length cls \<Longrightarrow> \<not> tc_released (cls ! i) \<Longrightarrow>
     cls ! i \<in> set (open_claims (tc_conversation_id (cls ! i)) cls)"
  by (simp add: open_claims_def)

text \<open>An open claim of the invariant owns its conversation, so the release finds its own turn.\<close>

lemma open_claim_owns:
  assumes "conv_inv w" and "i < length (w_claims w)" and "\<not> tc_released (w_claims w ! i)"
  shows "hm_get (cr_active_turns (w_state w)) (tc_conversation_id (w_claims w ! i)) =
           Some (tc_turn_id (w_claims w ! i))"
    and "open_claims (tc_conversation_id (w_claims w ! i)) (w_claims w) = [w_claims w ! i]"
proof -
  let ?c = "tc_conversation_id (w_claims w ! i)"
  have "w_claims w ! i \<in> set (owner_claims ?c (w_state w))"
    using open_claim_mem [OF assms(2,3)] assms(1) by (simp add: conv_inv_def)
  moreover have "open_claims ?c (w_claims w) = owner_claims ?c (w_state w)"
    using assms(1) by (simp add: conv_inv_def)
  ultimately show "hm_get (cr_active_turns (w_state w)) ?c = Some (tc_turn_id (w_claims w ! i))"
    and "open_claims ?c (w_claims w) = [w_claims w ! i]"
    by (auto simp: owner_claims_def split: option.splits) (metis turn_claim.select_convs(2))
qed

lemma conv_inv_new: "conv_inv new_conv_world"
  by (simp add: conv_inv_def new_conv_world_def new_conv_state_def open_claims_def owner_claims_def)

lemma owner_claims_simps [simp]:
  "owner_claims c (st\<lparr>cr_deleting := d\<rparr>) = owner_claims c st"
  "owner_claims c (st\<lparr>cr_cancelling := d\<rparr>) = owner_claims c st"
  "owner_claims c (st\<lparr>cr_shutting_down := b\<rparr>) = owner_claims c st"
  "owner_claims c (st\<lparr>cr_active_turns := hm_insert c' t a\<rparr>) =
     (if c = c' then [\<lparr>tc_conversation_id = c, tc_turn_id = t, tc_released = False\<rparr>]
      else owner_claims c (st\<lparr>cr_active_turns := a\<rparr>))"
  "owner_claims c (st\<lparr>cr_active_turns := hm_remove c' a\<rparr>) =
     (if c = c' then [] else owner_claims c (st\<lparr>cr_active_turns := a\<rparr>))"
  by (simp_all add: owner_claims_def hm_simps)

lemma is_claimed_simps [simp]:
  "is_claimed c (st\<lparr>cr_deleting := d\<rparr>) = is_claimed c st"
  "is_claimed c (st\<lparr>cr_cancelling := d\<rparr>) = is_claimed c st"
  "is_claimed c (st\<lparr>cr_shutting_down := b\<rparr>) = is_claimed c st"
  by (simp_all add: is_claimed_def)

lemma waiters_ok_mono:
  assumes "list_all (waiter_ok w) xs" and "w_notified w' = w_notified w"
    and "w_owed w > 0 \<Longrightarrow> w_owed w' > 0"
    and "\<And>c. is_claimed c (w_state w) \<Longrightarrow> is_claimed c (w_state w') \<or> w_owed w' > 0"
  shows "list_all (waiter_ok w') xs"
  unfolding list_all_iff
proof
  fix cx
  assume "cx \<in> set xs"
  with assms(1) have "waiter_ok w cx" by (simp add: list_all_iff)
  with assms(2-4) show "waiter_ok w' cx"
    by (fastforce simp: waiter_ok_def split: waiter.splits)
qed

lemma conv_inv_flags:
  assumes "conv_inv w" and "cr_active_turns st = cr_active_turns (w_state w)"
    and "\<not> cr_poisoned st"
  shows "conv_inv (w\<lparr>w_state := st\<rparr>)"
proof -
  have claimed: "is_claimed c st = is_claimed c (w_state w)" for c
    using assms by (simp add: is_claimed_def conv_inv_def)
  have "owner_claims c st = owner_claims c (w_state w)" for c
    using assms(2) by (simp add: owner_claims_def)
  then show ?thesis
    using assms claimed waiters_ok_mono [of w "w_waiters w" "w\<lparr>w_state := st\<rparr>"]
    by (simp add: conv_inv_def)
qed

lemma conv_inv_claim:
  assumes "conv_inv w"
  shows "conv_inv (conv_step (OpClaim c t) w)"
proof -
  let ?st = "(w_state w)\<lparr>cr_active_turns := hm_insert c t (cr_active_turns (w_state w))\<rparr>"
  let ?w = "w\<lparr>w_state := ?st,
      w_claims := w_claims w @ [\<lparr>tc_conversation_id = c, tc_turn_id = t, tc_released = False\<rparr>]\<rparr>"
  show ?thesis
  proof (cases "fst (try_claim_turn c t (w_state w))")
    case (Inl e)
    then have "snd (try_claim_turn c t (w_state w)) = w_state w"
      by (auto simp: try_claim_turn_def split: if_splits)
    with Inl assms show ?thesis by (simp add: case_prod_unfold)
  next
    case (Inr cl)
    then have free: "hm_get (cr_active_turns (w_state w)) c = None"
      and eq: "conv_step (OpClaim c t) w = ?w"
      by (auto simp: try_claim_turn_def hm_has_def case_prod_unfold split: if_splits)
    have "open_claims c' (w_claims ?w) = owner_claims c' ?st" for c'
      using assms free by (auto simp: conv_inv_def owner_claims_def hm_simps)
    moreover have "is_claimed c' (w_state w) \<Longrightarrow> is_claimed c' ?st" for c'
      using assms by (simp add: is_claimed_def hm_has_def hm_simps conv_inv_def)
    then have "list_all (waiter_ok ?w) (w_waiters w)"
      using assms waiters_ok_mono [of w "w_waiters w" ?w] by (simp add: conv_inv_def)
    ultimately show ?thesis
      unfolding eq using assms by (simp add: conv_inv_def del: owner_claims_simps)
  qed
qed

lemma conv_inv_release:
  assumes "conv_inv w"
  shows "conv_inv (conv_step (OpRelease i) w)"
proof (cases "i < length (w_claims w) \<and> \<not> tc_released (w_claims w ! i)")
  case False
  have "w_claims w = (w_claims w)[i := w_claims w ! i]" by simp
  with False assms show ?thesis by (auto simp: release_inner_def)
next
  case True
  let ?cl = "w_claims w ! i"
  let ?c = "tc_conversation_id ?cl"
  let ?st = "(w_state w)\<lparr>cr_active_turns := hm_remove ?c (cr_active_turns (w_state w)),
      cr_deleting := cr_deleting (w_state w) - {?c},
      cr_cancelling := cr_cancelling (w_state w) - {?c}\<rparr>"
  let ?w = "w\<lparr>w_state := ?st, w_claims := (w_claims w)[i := ?cl\<lparr>tc_released := True\<rparr>],
      w_owed := Suc (w_owed w)\<rparr>"
  note own = open_claim_owns [OF assms, of i]
  have eq: "conv_step (OpRelease i) w = ?w"
    using True own(1) assms by (simp add: release_inner_def release_turn_def conv_inv_def)
  have "open_claims c' (w_claims ?w) = owner_claims c' ?st" for c'
  proof (cases "c' = ?c")
    case True
    with \<open>i < length _ \<and> _\<close> own(2) show ?thesis by (simp add: open_claims_release_only)
  next
    case False
    with \<open>i < length _ \<and> _\<close> assms show ?thesis
      by (simp add: open_claims_release_other conv_inv_def)
  qed
  moreover have "list_all (waiter_ok ?w) (w_waiters w)"
    using assms waiters_ok_mono [of w "w_waiters w" ?w] by (simp add: conv_inv_def)
  ultimately show ?thesis
    unfolding eq using assms by (simp add: conv_inv_def del: owner_claims_simps)
qed

lemma conv_inv_notify: "conv_inv w \<Longrightarrow> conv_inv (conv_step OpNotify w)"
  by (fastforce simp: conv_inv_def list_all_iff waiter_ok_def split: waiter.splits)

lemma conv_inv_waiter:
  assumes "conv_inv w" and "list_all (waiter_ok w) xs"
  shows "conv_inv (w\<lparr>w_waiters := xs\<rparr>)"
proof -
  have "waiter_ok (w\<lparr>w_waiters := xs\<rparr>) = waiter_ok w" 
    by (rule ext) (simp add: waiter_ok_def split: waiter.split)
  with assms show ?thesis by (simp add: conv_inv_def)
qed

lemma waiter_ok_update:
  "list_all P xs \<Longrightarrow> P y \<Longrightarrow> list_all P (xs[j := y])"
  by (cases "j < length xs") (auto simp: list_all_iff dest: in_set_conv_nth [THEN iffD1]
      intro: set_update_subsetI [THEN subsetD] dest!: set_update_subset_insert [THEN subsetD])

lemma conv_inv_step: "conv_inv w \<Longrightarrow> conv_inv (conv_step op w)"
proof (cases op)
  case (OpClaim c t)
  then show "conv_inv w \<Longrightarrow> ?thesis" by (simp add: conv_inv_claim del: conv_step.simps)
next
  case (OpRelease i)
  then show "conv_inv w \<Longrightarrow> ?thesis" by (simp add: conv_inv_release del: conv_step.simps)
next
  case OpNotify
  then show "conv_inv w \<Longrightarrow> ?thesis" by (simp add: conv_inv_notify del: conv_step.simps)
next
  case (OpWait c)
  then show "conv_inv w \<Longrightarrow> ?thesis"
    using conv_inv_waiter [of w "w_waiters w @ [(c, Armed (w_notified w))]"]
    by (simp add: conv_inv_def waiter_ok_def)
next
  case (OpCheck j)
  assume inv: "conv_inv w"
  obtain c x where cx: "w_waiters w ! j = (c, x)" by fastforce
  have "waiter_ok w (c, waiter_check c (w_state w) x)" if "j < length (w_waiters w)"
  proof -
    have "waiter_ok w (c, x)"
      using inv that cx by (metis conv_inv_def list_all_length)
    then show ?thesis by (auto simp: waiter_ok_def waiter_check_def split: waiter.splits)
  qed
  with OpCheck inv cx show ?thesis
    by (simp add: conv_inv_waiter waiter_ok_update conv_inv_def [of w])
next
  case (OpWake j)
  assume inv: "conv_inv w"
  obtain c x where cx: "w_waiters w ! j = (c, x)" by fastforce
  have "waiter_ok w (c, waiter_wake (w_notified w) x)" if "j < length (w_waiters w)"
  proof -
    have "waiter_ok w (c, x)"
      using inv that cx by (metis conv_inv_def list_all_length)
    then show ?thesis by (auto simp: waiter_ok_def waiter_wake_def split: waiter.splits)
  qed
  with OpWake inv cx show ?thesis
    by (simp add: conv_inv_waiter waiter_ok_update conv_inv_def [of w])
qed (auto simp: mark_deleting_def clear_deleting_def mark_cancelling_def clear_cancelling_def
    mark_shutting_down_def conv_inv_flags)

interpretation conv_runtime: guarded_machine conv_step "\<lambda>_ _. True" "\<lambda>w. w = new_conv_world" conv_inv
  by unfold_locales (auto simp: conv_inv_new conv_inv_step)

lemma conv_admissible: "conv_runtime.admissible_run ops w"
  by (induction ops arbitrary: w) auto

lemma conv_inv_reachable: "conv_inv (fold conv_step ops new_conv_world)"
  by (rule conv_runtime.run_from_start [OF refl conv_admissible])

section \<open>Properties\<close>

text \<open>
  C20. Whatever the callers do, in any interleaving, a conversation has an unreleased claim
  exactly when it has an active turn, and then a single one, for that turn: two turns never own
  a conversation at once, and no turn stays active once its claim is released.
\<close>

theorem one_open_claim_per_conversation:
  "let w = fold conv_step ops new_conv_world
   in open_claims c (w_claims w) = owner_claims c (w_state w)"
  using conv_inv_reachable [of ops] by (simp add: conv_inv_def Let_def)

text \<open>
  C21. No wake-up of \<open>wait_until_unclaimed\<close> is lost: in every state the callers can reach in which
  the conversation is not claimed and no release still owes its notification, one more round of
  the loop makes the waiter return, even when the release happened between its check and its
  sleep.
\<close>

theorem no_lost_wakeup:
  assumes "w = fold conv_step ops new_conv_world"
    and "j < length (w_waiters w)" and "\<not> is_claimed (fst (w_waiters w ! j)) (w_state w)"
    and "w_owed w = 0"
  shows "snd (w_waiters (fold conv_step [OpWake j, OpCheck j] w) ! j) = Returned"
proof -
  have "conv_inv w"
    unfolding assms(1) by (rule conv_inv_reachable)
  then have "waiter_ok w (w_waiters w ! j)"
    using assms(2) by (simp add: conv_inv_def list_all_length)
  with assms(2-4) show ?thesis
    by (cases "w_waiters w ! j"; cases "snd (w_waiters w ! j)")
      (auto simp: waiter_ok_def waiter_wake_def waiter_check_def)
qed

theorem no_lost_wakeup_witness:
  "let w = fold conv_step [OpClaim ''c'' ''t'', OpWait ''c'', OpCheck 0, OpRelease 0, OpNotify]
             new_conv_world
   in snd (w_waiters w ! 0) = Sleeping 0 \<and>
      snd (w_waiters (fold conv_step [OpWake 0, OpCheck 0] w) ! 0) = Returned"
proof -
  let ?ops = "[OpClaim ''c'' ''t'', OpWait ''c'', OpCheck 0, OpRelease 0, OpNotify]"
  define w where "w = fold conv_step ?ops new_conv_world"
  have w: "w_waiters w = [(''c'', Sleeping 0)]" "w_owed w = 0" "\<not> is_claimed ''c'' (w_state w)"
    by (simp_all add: w_def new_conv_world_def new_conv_state_def try_claim_turn_def hm_has_def
        waiter_check_def is_claimed_def release_inner_def release_turn_def)
  have "snd (w_waiters (fold conv_step [OpWake 0, OpCheck 0] w) ! 0) = Returned"
    by (rule no_lost_wakeup [OF w_def]) (simp_all add: w)
  with w(1) show ?thesis
    by (simp only: Let_def w_def [symmetric]) simp
qed

text \<open>
  C22. Claiming and releasing a turn is a round trip. For a conversation that can take a message
  and is not being deleted or shut down, the claim succeeds; while it is held the summary shows
  the turn and takes no message, and every other claim is refused as busy; and releasing it
  restores the state exactly, with nothing reported as deleted.
\<close>

theorem claim_release_round_trip:
  assumes "\<not> cr_poisoned st" and "lifecycle_for c st = LifeActive"
    and "rs_can_send_message (summary_from_parts c ts has_task n st)"
  shows "case try_claim_turn c t st of
           (Inl _, _) \<Rightarrow> False
         | (Inr cl, st') \<Rightarrow>
             rs_turn_id (summary_from_parts c ts' has_task' n' st') = Some t \<and>
             \<not> rs_can_send_message (summary_from_parts c ts' has_task' n' st') \<and>
             fst (try_claim_turn c t' st') =
               Inl (Busy (''conversation '' @ c @ '' is already running'')) \<and>
             release_inner cl (Some st') = ((False, True), cl\<lparr>tc_released := True\<rparr>, Some st)"
proof -
  have free: "hm_get (cr_active_turns st) c = None" and flags: "c \<notin> cr_deleting st"
    "c \<notin> cr_cancelling st" "\<not> cr_shutting_down st"
    using assms by (auto simp: lifecycle_for_def summary_from_parts_def Let_def split: if_splits)
  then show ?thesis
    using assms(1) flags
    by (simp add: hm_remove_insert try_claim_turn_def summary_from_parts_def hm_has_def hm_simps Let_def
        release_inner_def release_turn_def)
qed

theorem claim_release_round_trip_witness:
  "case try_claim_turn ''c'' ''t'' new_conv_state of
     (Inl _, _) \<Rightarrow> False
   | (Inr cl, st') \<Rightarrow>
       release_inner cl (Some st') = ((False, True), cl\<lparr>tc_released := True\<rparr>, Some new_conv_state)"
  using claim_release_round_trip [where st = new_conv_state and c = "''c''" and t = "''t''"
      and ts = None and has_task = False and n = 0]
  by (auto simp: new_conv_state_def lifecycle_for_def summary_from_parts_def Let_def
      split: prod.splits sum.splits)

text \<open>
  A cancel mark that comes after its turn was released is not tied to any turn. \<open>cancel\<close> of the
  conversation service checks the active turn and marks the conversation in two steps; when the
  turn is released between them, the conversation reports cancelling without a turn and takes no
  message, although a claim would succeed, and the next turn that is claimed starts out as
  cancelling.
\<close>

theorem late_cancel_mark_outlives_turn:
  "let w = fold conv_step [OpClaim ''c'' ''t1'', OpRelease 0, OpNotify, OpMarkCancelling ''c'']
             new_conv_world;
       sum = summary_from_parts ''c'' (Some CsFinished) True 0 (w_state w);
       w' = conv_step (OpClaim ''c'' ''t2'') w
   in rs_state sum = KCancelling \<and> rs_turn_id sum = None \<and> rs_can_send_message sum = False \<and>
      active_turn_id_for ''c'' (w_state w') = Some ''t2'' \<and> is_cancelling ''c'' (w_state w')"
  by (simp add: new_conv_world_def new_conv_state_def try_claim_turn_def hm_has_def
      release_inner_def release_turn_def mark_cancelling_def summary_from_parts_def Let_def
      is_cancelling_def active_turn_id_for_def)

end
