(* ===== verification/TeamTypes.thy ===== *)
theory TeamTypes
  imports TeamError
begin

text \<open>
  The domain types of the team crate with their text forms and the conversion from database rows
  (\<open>veryagent-team/src/types.rs\<close>, rows of \<open>veryagent-db/src/models/team.rs\<close>). JSON columns hold
  text; \<open>serde_json\<close> is a parameter (\<open>json_codec\<close>).
\<close>

section \<open>Roles, statuses and message types\<close>

datatype teammate_role = LeadRole | TeammateRole

fun role_to_string :: "teammate_role \<Rightarrow> string" where
  "role_to_string LeadRole = ''lead''"
| "role_to_string TeammateRole = ''teammate''"

definition role_parse :: "string \<Rightarrow> teammate_role option" where
  "role_parse s =
     (if s = ''lead'' \<or> s = ''leader'' then Some LeadRole
      else if s = ''teammate'' then Some TeammateRole
      else None)"

datatype teammate_status = SIdle | SWorking | SThinking | SToolUse | SCompleted | SError

fun status_to_string :: "teammate_status \<Rightarrow> string" where
  "status_to_string SIdle = ''idle''"
| "status_to_string SWorking = ''working''"
| "status_to_string SThinking = ''thinking''"
| "status_to_string SToolUse = ''tool_use''"
| "status_to_string SCompleted = ''completed''"
| "status_to_string SError = ''error''"

definition status_parse :: "string \<Rightarrow> teammate_status option" where
  "status_parse s =
     (if s = ''idle'' \<or> s = ''pending'' then Some SIdle
      else if s = ''working'' \<or> s = ''active'' then Some SWorking
      else if s = ''thinking'' then Some SThinking
      else if s = ''tool_use'' then Some SToolUse
      else if s = ''completed'' then Some SCompleted
      else if s = ''error'' \<or> s = ''failed'' then Some SError
      else None)"

datatype mailbox_message_type = MtMessage | MtIdleNotification | MtShutdownRequest

fun msg_type_to_string :: "mailbox_message_type \<Rightarrow> string" where
  "msg_type_to_string MtMessage = ''message''"
| "msg_type_to_string MtIdleNotification = ''idle_notification''"
| "msg_type_to_string MtShutdownRequest = ''shutdown_request''"

definition msg_type_parse :: "string \<Rightarrow> mailbox_message_type option" where
  "msg_type_parse s =
     (if s = ''message'' then Some MtMessage
      else if s = ''idle_notification'' then Some MtIdleNotification
      else if s = ''shutdown_request'' then Some MtShutdownRequest
      else None)"

datatype task_status = TsPending | TsInProgress | TsCompleted | TsDeleted

fun task_status_to_string :: "task_status \<Rightarrow> string" where
  "task_status_to_string TsPending = ''pending''"
| "task_status_to_string TsInProgress = ''in_progress''"
| "task_status_to_string TsCompleted = ''completed''"
| "task_status_to_string TsDeleted = ''deleted''"

definition task_status_parse :: "string \<Rightarrow> task_status option" where
  "task_status_parse s =
     (if s = ''pending'' then Some TsPending
      else if s = ''in_progress'' then Some TsInProgress
      else if s = ''completed'' then Some TsCompleted
      else if s = ''deleted'' then Some TsDeleted
      else None)"

text \<open>
  The contract of the four text forms: what \<open>Display\<close> writes, \<open>parse\<close> reads back. The locale is
  interpreted for each of them below.
\<close>

locale text_form =
  fixes show_text :: "'a \<Rightarrow> string" and parse_text :: "string \<Rightarrow> 'a option"
  assumes parse_show: "parse_text (show_text x) = Some x"
begin

lemma show_inject: "show_text x = show_text y \<longleftrightarrow> x = y"
  by (metis option.inject parse_show)

lemma parse_image: "range show_text \<subseteq> {s. parse_text s \<noteq> None}"
  using parse_show by auto

end

interpretation role_form: text_form role_to_string role_parse
proof
  show "role_parse (role_to_string x) = Some x" for x by (cases x) (simp_all add: role_parse_def)
qed

interpretation status_form: text_form status_to_string status_parse
proof
  show "status_parse (status_to_string x) = Some x" for x
    by (cases x) (simp_all add: status_parse_def)
qed

interpretation msg_type_form: text_form msg_type_to_string msg_type_parse
proof
  show "msg_type_parse (msg_type_to_string x) = Some x" for x
    by (cases x) (simp_all add: msg_type_parse_def)
qed

interpretation task_status_form: text_form task_status_to_string task_status_parse
proof
  show "task_status_parse (task_status_to_string x) = Some x" for x
    by (cases x) (simp_all add: task_status_parse_def)
qed

section \<open>Agents, messages and tasks\<close>

record team_agent =
  ta_slot_id :: string
  ta_name :: string
  ta_role :: teammate_role
  ta_conversation_id :: string
  ta_backend :: string
  ta_model :: string
  ta_assistant_id :: "string option"
  ta_status :: "teammate_status option"
  ta_conversation_type :: "string option"
  ta_cli_path :: "string option"

record mailbox_message =
  mm_id :: string
  mm_team_id :: string
  mm_to_agent_id :: string
  mm_from_agent_id :: string
  mm_msg_type :: mailbox_message_type
  mm_content :: string
  mm_summary :: "string option"
  mm_files :: "string list option"
  mm_read :: bool
  mm_created_at :: timestamp_ms

record 'v team_task =
  tt_id :: string
  tt_team_id :: string
  tt_subject :: string
  tt_description :: "string option"
  tt_status :: task_status
  tt_owner :: "string option"
  tt_blocked_by :: "string list"
  tt_blocks :: "string list"
  tt_metadata :: "'v option"
  tt_created_at :: timestamp_ms
  tt_updated_at :: timestamp_ms

text \<open>The rows of the tables \<open>mailbox\<close> and \<open>team_tasks\<close>.\<close>

record mailbox_row =
  mr_id :: string
  mr_team_id :: string
  mr_to_agent_id :: string
  mr_from_agent_id :: string
  mr_msg_type :: string
  mr_content :: string
  mr_summary :: "string option"
  mr_files :: "string option"
  mr_read :: bool
  mr_created_at :: timestamp_ms

record task_row =
  tr_id :: string
  tr_team_id :: string
  tr_subject :: string
  tr_description :: "string option"
  tr_status :: string
  tr_owner :: "string option"
  tr_blocked_by :: string
  tr_blocks :: string
  tr_metadata :: "string option"
  tr_created_at :: timestamp_ms
  tr_updated_at :: timestamp_ms

section \<open>JSON columns\<close>

text \<open>
  \<open>serde_json\<close> for the two types the columns hold, lists of strings and values, each fallible in
  both directions. \<open>json_ok\<close> is what its documentation promises: serializing a list of strings or
  a value succeeds and parsing gives it back.
\<close>

record 'v json_codec =
  js_list_to_string :: "string list \<Rightarrow> string option"
  js_list_from_str :: "string \<Rightarrow> string list option"
  js_value_to_string :: "'v \<Rightarrow> string option"
  js_value_from_str :: "string \<Rightarrow> 'v option"

definition json_ok :: "'v json_codec \<Rightarrow> bool" where
  "json_ok J \<longleftrightarrow>
     (\<forall>xs. Option.bind (js_list_to_string J xs) (js_list_from_str J) = Some xs) \<and>
     (\<forall>v. Option.bind (js_value_to_string J v) (js_value_from_str J) = Some v) \<and>
     js_list_from_str J ''[]'' = Some []"

lemma json_list:
  assumes "json_ok J"
  obtains s where "js_list_to_string J xs = Some s" and "js_list_from_str J s = Some xs"
proof -
  have "Option.bind (js_list_to_string J xs) (js_list_from_str J) = Some xs"
    using assms by (simp add: json_ok_def)
  then show thesis
    using that by (auto simp: bind_eq_Some_conv)
qed

definition message_from_row :: "'v json_codec \<Rightarrow> mailbox_row \<Rightarrow> mailbox_message option" where
  "message_from_row J row =
     (case msg_type_parse (mr_msg_type row) of
        None \<Rightarrow> None
      | Some msg_type \<Rightarrow>
          let parsed = Option.bind (mr_files row) (js_list_from_str J);
              files = (case parsed of Some [] \<Rightarrow> None | _ \<Rightarrow> parsed)
          in Some \<lparr>mm_id = mr_id row, mm_team_id = mr_team_id row,
                   mm_to_agent_id = mr_to_agent_id row, mm_from_agent_id = mr_from_agent_id row,
                   mm_msg_type = msg_type, mm_content = mr_content row,
                   mm_summary = mr_summary row, mm_files = files, mm_read = mr_read row,
                   mm_created_at = mr_created_at row\<rparr>)"

text \<open>The text of a \<open>serde_json::Error\<close> is not modelled; it is the empty string here.\<close>

definition task_from_row :: "'v json_codec \<Rightarrow> task_row \<Rightarrow> team_error + 'v team_task" where
  "task_from_row J row =
     (let status = (case task_status_parse (tr_status row) of None \<Rightarrow> TsPending | Some s \<Rightarrow> s)
      in case js_list_from_str J (tr_blocked_by row) of
           None \<Rightarrow> Inl (JsonError '''')
         | Some blocked_by \<Rightarrow>
             (case js_list_from_str J (tr_blocks row) of
                None \<Rightarrow> Inl (JsonError '''')
              | Some blocks \<Rightarrow>
                  (case (case tr_metadata row of
                           None \<Rightarrow> Some None
                         | Some s \<Rightarrow> map_option Some (js_value_from_str J s)) of
                     None \<Rightarrow> Inl (JsonError '''')
                   | Some metadata \<Rightarrow>
                       Inr \<lparr>tt_id = tr_id row, tt_team_id = tr_team_id row,
                            tt_subject = tr_subject row, tt_description = tr_description row,
                            tt_status = status, tt_owner = tr_owner row,
                            tt_blocked_by = blocked_by, tt_blocks = blocks,
                            tt_metadata = metadata, tt_created_at = tr_created_at row,
                            tt_updated_at = tr_updated_at row\<rparr>)))"

text \<open>
  A concrete codec for the witnesses: each character of an element is preceded by a one, each
  element is closed by a zero; a value is a string and stands for itself.
\<close>

fun pairs_encode :: "string list \<Rightarrow> string" where
  "pairs_encode [] = ''[]''"
| "pairs_encode ([] # xs) = CHR ''0'' # pairs_encode xs"
| "pairs_encode ((c # s) # xs) = CHR ''1'' # c # pairs_encode (s # xs)"

fun pairs_decode :: "string \<Rightarrow> string list" where
  "pairs_decode [] = []"
| "pairs_decode (b # s) =
     (if b = CHR ''0'' then [] # pairs_decode s
      else if b = CHR ''1'' then
        (case s of
           [] \<Rightarrow> []
         | c # s' \<Rightarrow> (case pairs_decode s' of [] \<Rightarrow> [] | x # xs \<Rightarrow> (c # x) # xs))
      else [])"

lemma pairs_decode_encode [simp]: "pairs_decode (pairs_encode xs) = xs"
  by (induction xs rule: pairs_encode.induct) simp_all

definition pairs_codec :: "string json_codec" where
  "pairs_codec =
     \<lparr>js_list_to_string = Some \<circ> pairs_encode, js_list_from_str = Some \<circ> pairs_decode,
      js_value_to_string = Some, js_value_from_str = Some\<rparr>"

lemma pairs_codec_ok: "json_ok pairs_codec"
  by (simp add: json_ok_def pairs_codec_def)

end
