(* ===== verification/TeamStore.thy ===== *)
theory TeamStore
  imports TeamTypes "HOL-Library.Multiset"
begin

text \<open>
  The tables \<open>mailbox\<close> and \<open>team_tasks\<close> and the statements on them
  (\<open>veryagent-db/src/repository/sqlite_team.rs\<close>, schema of \<open>migrations/001_initial_schema.sql\<close>). A
  table is the list of its rows in order of insertion; each SQL statement is the list function
  it denotes, with the primary key and check constraints of the schema as the ways an insertion
  fails. A transaction is one step. The statements order rows by \<open>created_at\<close> alone, and SQLite does
  not say in which order rows of the same millisecond come: \<open>db_tie\<close> decides it, and nothing is
  assumed of it.
\<close>

section \<open>Statements\<close>

datatype db_error = DbQuery string | DbNotFound string

fun db_error_display :: "db_error \<Rightarrow> string" where
  "db_error_display (DbQuery s) = ''Database query failed: '' @ s"
| "db_error_display (DbNotFound s) = ''Record not found: '' @ s"

definition db_err :: "db_error \<Rightarrow> team_error" where
  "db_err e = DatabaseError (db_error_display e)"

record team_db =
  db_mailbox :: "mailbox_row list"
  db_tasks :: "task_row list"
  db_tie :: "string \<Rightarrow> nat"

definition new_db :: "(string \<Rightarrow> nat) \<Rightarrow> team_db" where
  "new_db tie = \<lparr>db_mailbox = [], db_tasks = [], db_tie = tie\<rparr>"

definition empty_db :: team_db where
  "empty_db = new_db (\<lambda>_. 0)"

text \<open>\<open>ORDER BY created_at ASC\<close>\<close>

definition order_by :: "('a \<Rightarrow> timestamp_ms) \<Rightarrow> ('a \<Rightarrow> nat) \<Rightarrow> 'a list \<Rightarrow> 'a list" where
  "order_by created_at tie rows = sort_key created_at (sort_key tie rows)"

lemma order_by_simps [simp]:
  "mset (order_by created_at tie rows) = mset rows"
  "set (order_by created_at tie rows) = set rows"
  "length (order_by created_at tie rows) = length rows"
  "sorted (map created_at (order_by created_at tie rows))"
  "order_by created_at tie [] = []"
  "order_by created_at tie rows = [] \<longleftrightarrow> rows = []"
  "order_by created_at tie [row] = [row]"
proof -
  show "mset (order_by created_at tie rows) = mset rows"
    by (simp add: order_by_def)
  then show "order_by created_at tie rows = [] \<longleftrightarrow> rows = []"
    by (metis mset_zero_iff)
qed (simp_all add: order_by_def)

definition write_message :: "mailbox_row \<Rightarrow> team_db \<Rightarrow> (db_error + unit) \<times> team_db" where
  "write_message row db =
     (if mr_id row \<in> set (map mr_id (db_mailbox db)) then
        (Inl (DbQuery ''UNIQUE constraint failed: mailbox.id''), db)
      else if mr_msg_type row \<notin> {''message'', ''idle_notification'', ''shutdown_request''} then
        (Inl (DbQuery ''CHECK constraint failed: type''), db)
      else (Inr (), db\<lparr>db_mailbox := db_mailbox db @ [row]\<rparr>))"

definition mailbox_order :: "team_db \<Rightarrow> mailbox_row list \<Rightarrow> mailbox_row list" where
  "mailbox_order db = order_by mr_created_at (\<lambda>row. db_tie db (mr_id row))"

lemma mailbox_order_simps [simp]:
  "mset (mailbox_order db rows) = mset rows" "set (mailbox_order db rows) = set rows"
  "mailbox_order db [] = []"
  by (simp_all add: mailbox_order_def)

definition unread_for :: "string \<Rightarrow> string \<Rightarrow> mailbox_row \<Rightarrow> bool" where
  "unread_for team_id agent_id row \<longleftrightarrow>
     mr_team_id row = team_id \<and> mr_to_agent_id row = agent_id \<and> \<not> mr_read row"

definition peek_unread_rows :: "string \<Rightarrow> string \<Rightarrow> team_db \<Rightarrow> mailbox_row list" where
  "peek_unread_rows team_id agent_id db =
     mailbox_order db (filter (unread_for team_id agent_id) (db_mailbox db))"

definition read_unread_and_mark ::
  "string \<Rightarrow> string \<Rightarrow> team_db \<Rightarrow> mailbox_row list \<times> team_db" where
  "read_unread_and_mark team_id agent_id db =
     (let rows = mailbox_order db (filter (unread_for team_id agent_id) (db_mailbox db))
      in (rows,
          if rows = [] then db
          else db\<lparr>db_mailbox :=
                    map (\<lambda>row. if unread_for team_id agent_id row then row\<lparr>mr_read := True\<rparr> else row)
                      (db_mailbox db)\<rparr>))"

text \<open>\<open>ids.chunks(500)\<close>\<close>

function list_chunks :: "nat \<Rightarrow> 'a list \<Rightarrow> 'a list list" where
  "list_chunks n xs =
     (if xs = [] \<or> n = 0 then [] else take n xs # list_chunks n (drop n xs))"
  by pat_completeness auto
termination by (relation "measure (\<lambda>(n, xs). length xs)") auto

declare list_chunks.simps [simp del]

definition mark_chunk :: "string list \<Rightarrow> mailbox_row list \<Rightarrow> mailbox_row list" where
  "mark_chunk ids rows =
     map (\<lambda>row. if mr_id row \<in> set ids then row\<lparr>mr_read := True\<rparr> else row) rows"

definition mark_read_batch :: "string list \<Rightarrow> team_db \<Rightarrow> team_db" where
  "mark_read_batch ids db =
     (if ids = [] then db
      else db\<lparr>db_mailbox := fold mark_chunk (list_chunks 500 ids) (db_mailbox db)\<rparr>)"

text \<open>A negative \<open>LIMIT\<close> is no limit.\<close>

definition get_history_rows :: "string \<Rightarrow> string \<Rightarrow> int option \<Rightarrow> team_db \<Rightarrow> mailbox_row list" where
  "get_history_rows team_id agent_id limit db =
     (let rows = mailbox_order db
                   (filter (\<lambda>row. mr_team_id row = team_id \<and> mr_to_agent_id row = agent_id)
                      (db_mailbox db))
      in case limit of
           None \<Rightarrow> rows
         | Some n \<Rightarrow> if n < 0 then rows else take (nat n) rows)"

definition delete_mailbox_by_team :: "string \<Rightarrow> team_db \<Rightarrow> team_db" where
  "delete_mailbox_by_team team_id db =
     db\<lparr>db_mailbox := filter (\<lambda>row. mr_team_id row \<noteq> team_id) (db_mailbox db)\<rparr>"

definition create_task_row :: "task_row \<Rightarrow> team_db \<Rightarrow> (db_error + unit) \<times> team_db" where
  "create_task_row row db =
     (if tr_id row \<in> set (map tr_id (db_tasks db)) then
        (Inl (DbQuery ''UNIQUE constraint failed: team_tasks.id''), db)
      else if tr_status row \<notin> {''pending'', ''in_progress'', ''completed'', ''deleted''} then
        (Inl (DbQuery ''CHECK constraint failed: status''), db)
      else (Inr (), db\<lparr>db_tasks := db_tasks db @ [row]\<rparr>))"

definition find_task_by_id :: "string \<Rightarrow> string \<Rightarrow> team_db \<Rightarrow> task_row option" where
  "find_task_by_id team_id task_id db =
     find (\<lambda>row. tr_team_id row = team_id \<and> tr_id row = task_id) (db_tasks db)"

record update_task_params =
  up_status :: "string option"
  up_description :: "string option"
  up_owner :: "string option"
  up_blocked_by :: "string option"
  up_metadata :: "string option"

definition set_columns :: "timestamp_ms \<Rightarrow> update_task_params \<Rightarrow> task_row \<Rightarrow> task_row" where
  "set_columns now params row =
     row\<lparr>tr_status := (case up_status params of None \<Rightarrow> tr_status row | Some s \<Rightarrow> s),
         tr_description :=
           (case up_description params of None \<Rightarrow> tr_description row | Some s \<Rightarrow> Some s),
         tr_owner := (case up_owner params of None \<Rightarrow> tr_owner row | Some s \<Rightarrow> Some s),
         tr_blocked_by := (case up_blocked_by params of None \<Rightarrow> tr_blocked_by row | Some s \<Rightarrow> s),
         tr_metadata := (case up_metadata params of None \<Rightarrow> tr_metadata row | Some s \<Rightarrow> Some s),
         tr_updated_at := now\<rparr>"

definition update_where_id :: "string \<Rightarrow> (task_row \<Rightarrow> task_row) \<Rightarrow> team_db \<Rightarrow> team_db" where
  "update_where_id task_id f db =
     db\<lparr>db_tasks := map (\<lambda>row. if tr_id row = task_id then f row else row) (db_tasks db)\<rparr>"

definition update_task_row ::
  "timestamp_ms \<Rightarrow> string \<Rightarrow> update_task_params \<Rightarrow> team_db \<Rightarrow> (db_error + unit) \<times> team_db" where
  "update_task_row now task_id params db =
     (if up_status params = None \<and> up_description params = None \<and> up_owner params = None \<and>
         up_blocked_by params = None \<and> up_metadata params = None
      then (Inr (), db)
      else if (case up_status params of
                 None \<Rightarrow> False
               | Some s \<Rightarrow> s \<notin> {''pending'', ''in_progress'', ''completed'', ''deleted''}) \<and>
              task_id \<in> set (map tr_id (db_tasks db))
      then (Inl (DbQuery ''CHECK constraint failed: status''), db)
      else if task_id \<notin> set (map tr_id (db_tasks db))
      then (Inl (DbNotFound (''task '' @ task_id)), db)
      else (Inr (), update_where_id task_id (set_columns now params) db))"

definition list_task_rows :: "string \<Rightarrow> team_db \<Rightarrow> task_row list" where
  "list_task_rows team_id db =
     order_by tr_created_at (\<lambda>row. db_tie db (tr_id row))
       (filter (\<lambda>row. tr_team_id row = team_id) (db_tasks db))"

definition list_or_default :: "'v json_codec \<Rightarrow> string \<Rightarrow> string list" where
  "list_or_default J s = (case js_list_from_str J s of None \<Rightarrow> [] | Some xs \<Rightarrow> xs)"

definition text_or_brackets :: "'v json_codec \<Rightarrow> string list \<Rightarrow> string" where
  "text_or_brackets J xs = (case js_list_to_string J xs of None \<Rightarrow> ''[]'' | Some s \<Rightarrow> s)"

definition append_to_blocks ::
  "'v json_codec \<Rightarrow> timestamp_ms \<Rightarrow> string \<Rightarrow> string \<Rightarrow> team_db \<Rightarrow> (db_error + unit) \<times> team_db" where
  "append_to_blocks J now task_id blocked_task_id db =
     (case find (\<lambda>row. tr_id row = task_id) (db_tasks db) of
        None \<Rightarrow> (Inl (DbNotFound (''task '' @ task_id)), db)
      | Some row \<Rightarrow>
          let blocks = list_or_default J (tr_blocks row);
              blocks' = (if blocked_task_id \<in> set blocks then blocks
                         else blocks @ [blocked_task_id])
          in (Inr (), update_where_id task_id
                        (\<lambda>r. r\<lparr>tr_blocks := text_or_brackets J blocks', tr_updated_at := now\<rparr>) db))"

definition remove_from_blocked_by ::
  "'v json_codec \<Rightarrow> timestamp_ms \<Rightarrow> string \<Rightarrow> string \<Rightarrow> team_db \<Rightarrow> (db_error + unit) \<times> team_db" where
  "remove_from_blocked_by J now task_id unblocked_task_id db =
     (case find (\<lambda>row. tr_id row = task_id) (db_tasks db) of
        None \<Rightarrow> (Inl (DbNotFound (''task '' @ task_id)), db)
      | Some row \<Rightarrow>
          let blocked_by = filter (\<lambda>i. i \<noteq> unblocked_task_id)
                             (list_or_default J (tr_blocked_by row))
          in (Inr (), update_where_id task_id
                        (\<lambda>r. r\<lparr>tr_blocked_by := text_or_brackets J blocked_by,
                               tr_updated_at := now\<rparr>) db))"

definition delete_tasks_by_team :: "string \<Rightarrow> team_db \<Rightarrow> team_db" where
  "delete_tasks_by_team team_id db =
     db\<lparr>db_tasks := filter (\<lambda>row. tr_team_id row \<noteq> team_id) (db_tasks db)\<rparr>"

section \<open>Reading back\<close>

lemma concat_chunks: "n > 0 \<Longrightarrow> concat (list_chunks n xs) = xs"
  by (induction n xs rule: list_chunks.induct) (subst list_chunks.simps, simp)

lemma chunk_sizes: "list_all (\<lambda>c. c \<noteq> [] \<and> length c \<le> n) (list_chunks n xs)"
proof (induction n xs rule: list_chunks.induct)
  case (1 n xs)
  then show ?case by (subst list_chunks.simps) simp
qed

lemma fold_mark_chunk: "fold mark_chunk css rows = mark_chunk (concat css) rows"
proof (induction css arbitrary: rows)
  case (Cons c css)
  have "mark_chunk (concat css) (mark_chunk c rows) = mark_chunk (c @ concat css) rows"
    by (simp add: mark_chunk_def)
  with Cons show ?case by simp
qed (simp add: mark_chunk_def map_idI)

text \<open>The batches make no difference: a message is read afterwards when it was or is named.\<close>

lemma mark_read_batch_rows:
  "db_mailbox (mark_read_batch ids db) = mark_chunk ids (db_mailbox db)"
  by (simp add: mark_read_batch_def fold_mark_chunk concat_chunks) (simp add: mark_chunk_def map_idI)

definition ids_distinct :: "team_db \<Rightarrow> bool" where
  "ids_distinct db \<longleftrightarrow> distinct (map mr_id (db_mailbox db)) \<and> distinct (map tr_id (db_tasks db))"

lemma update_where_ids [simp]:
  "(\<And>r. tr_id (f r) = tr_id r) \<Longrightarrow>
     map tr_id (db_tasks (update_where_id i f db)) = map tr_id (db_tasks db)"
  by (simp add: update_where_id_def)

end
