(* ===== verification/Mailbox.thy ===== *)
theory Mailbox
  imports TeamStore
begin

text \<open>
  The mailbox of a team (\<open>veryagent-team/src/mailbox.rs\<close>) over the \<open>mailbox\<close> table. Every operation
  takes the database and returns its result with the database after it.
\<close>

section \<open>Operations\<close>

type_synonym 'r db_result = "(team_error + 'r) \<times> team_db"

definition write_with_files ::
  "'v json_codec \<Rightarrow> string \<Rightarrow> timestamp_ms \<Rightarrow> string \<Rightarrow> string \<Rightarrow> string \<Rightarrow> mailbox_message_type
   \<Rightarrow> string \<Rightarrow> string option \<Rightarrow> string list option \<Rightarrow> team_db \<Rightarrow> mailbox_message db_result" where
  "write_with_files J fresh now team_id to_agent_id from_agent_id msg_type content summary files db =
     (let files_json =
            (case files of
               None \<Rightarrow> None
             | Some f \<Rightarrow>
                 if f = [] then None
                 else Some (case js_list_to_string J f of None \<Rightarrow> '''' | Some s \<Rightarrow> s));
          row = \<lparr>mr_id = fresh, mr_team_id = team_id, mr_to_agent_id = to_agent_id,
                 mr_from_agent_id = from_agent_id, mr_msg_type = msg_type_to_string msg_type,
                 mr_content = content, mr_summary = summary, mr_files = files_json,
                 mr_read = False, mr_created_at = now\<rparr>
      in case write_message row db of
           (Inl e, db') \<Rightarrow> (Inl (db_err e), db')
         | (Inr _, db') \<Rightarrow>
             (case message_from_row J row of
                None \<Rightarrow>
                  (Inl (InvalidRequest (''invalid message type: '' @ msg_type_to_string msg_type)), db')
              | Some m \<Rightarrow> (Inr m, db')))"

definition mailbox_write ::
  "'v json_codec \<Rightarrow> string \<Rightarrow> timestamp_ms \<Rightarrow> string \<Rightarrow> string \<Rightarrow> string \<Rightarrow> mailbox_message_type
   \<Rightarrow> string \<Rightarrow> string option \<Rightarrow> team_db \<Rightarrow> mailbox_message db_result" where
  "mailbox_write J fresh now team_id to_agent_id from_agent_id msg_type content summary db =
     write_with_files J fresh now team_id to_agent_id from_agent_id msg_type content summary None db"

definition read_unread ::
  "'v json_codec \<Rightarrow> string \<Rightarrow> string \<Rightarrow> team_db \<Rightarrow> mailbox_message list \<times> team_db" where
  "read_unread J team_id agent_id db =
     (case read_unread_and_mark team_id agent_id db of
        (rows, db') \<Rightarrow> (List.map_filter (message_from_row J) rows, db'))"

definition peek_unread ::
  "'v json_codec \<Rightarrow> string \<Rightarrow> string \<Rightarrow> team_db \<Rightarrow> mailbox_message list" where
  "peek_unread J team_id agent_id db =
     List.map_filter (message_from_row J) (peek_unread_rows team_id agent_id db)"

definition mark_all_unread_for_agents_read ::
  "'v json_codec \<Rightarrow> string \<Rightarrow> string list \<Rightarrow> team_db \<Rightarrow> nat \<times> team_db" where
  "mark_all_unread_for_agents_read J team_id agent_ids db =
     (let ids = concat (map (\<lambda>agent_id. map mm_id (peek_unread J team_id agent_id db)) agent_ids)
      in (length ids, if ids \<noteq> [] then mark_read_batch ids db else db))"

definition get_history ::
  "'v json_codec \<Rightarrow> string \<Rightarrow> string \<Rightarrow> int option \<Rightarrow> team_db \<Rightarrow> mailbox_message list" where
  "get_history J team_id agent_id limit db =
     List.map_filter (message_from_row J) (get_history_rows team_id agent_id limit db)"

definition has_unread :: "string \<Rightarrow> string \<Rightarrow> team_db \<Rightarrow> bool" where
  "has_unread team_id agent_id db =
     list_ex (\<lambda>r. \<not> mr_read r) (get_history_rows team_id agent_id None db)"

section \<open>What a row reads back as\<close>

definition row_message ::
  "string \<Rightarrow> timestamp_ms \<Rightarrow> string \<Rightarrow> string \<Rightarrow> string \<Rightarrow> mailbox_message_type \<Rightarrow> string
   \<Rightarrow> string option \<Rightarrow> string list option \<Rightarrow> mailbox_message" where
  "row_message fresh now team_id to from ty content summary files =
     \<lparr>mm_id = fresh, mm_team_id = team_id, mm_to_agent_id = to, mm_from_agent_id = from,
      mm_msg_type = ty, mm_content = content, mm_summary = summary,
      mm_files = (if files = Some [] then None else files), mm_read = False,
      mm_created_at = now\<rparr>"

lemma msg_type_checked [simp]:
  "msg_type_to_string ty \<in> {''message'', ''idle_notification'', ''shutdown_request''}"
  by (cases ty) simp_all

lemma write_with_files_fresh:
  assumes "json_ok J" and "fresh \<notin> set (map mr_id (db_mailbox db))"
  shows "\<exists>row. write_with_files J fresh now team to from ty content summary files db =
             (Inr (row_message fresh now team to from ty content summary files),
              db\<lparr>db_mailbox := db_mailbox db @ [row]\<rparr>) \<and>
           message_from_row J row =
             Some (row_message fresh now team to from ty content summary files) \<and>
           mr_id row = fresh \<and> mr_team_id row = team \<and> mr_to_agent_id row = to \<and>
           mr_created_at row = now \<and> \<not> mr_read row"
proof -
  obtain t where t: "files = Some f \<Longrightarrow> js_list_to_string J f = Some (t f)"
      "files = Some f \<Longrightarrow> js_list_from_str J (t f) = Some f" for f
    using assms(1) by (metis json_list)
  let ?fj = "case files of None \<Rightarrow> None
     | Some f \<Rightarrow> if f = [] then None
               else Some (case js_list_to_string J f of None \<Rightarrow> '''' | Some s \<Rightarrow> s)"
  let ?row = "\<lparr>mr_id = fresh, mr_team_id = team, mr_to_agent_id = to, mr_from_agent_id = from,
      mr_msg_type = msg_type_to_string ty, mr_content = content, mr_summary = summary,
      mr_files = ?fj, mr_read = False, mr_created_at = now\<rparr>"
  have m: "message_from_row J ?row = Some (row_message fresh now team to from ty content summary files)"
    using t by (cases files) (auto simp: message_from_row_def row_message_def
        msg_type_form.parse_show neq_Nil_conv split: list.splits)
  have "write_message ?row db = (Inr (), db\<lparr>db_mailbox := db_mailbox db @ [?row]\<rparr>)"
    using assms(2) msg_type_checked [of ty] by (simp add: write_message_def)
  with m show ?thesis
    by (intro exI [of _ ?row]) (simp add: write_with_files_def Let_def)
qed

section \<open>Delivery over a sequence of operations\<close>

datatype mailbox_op =
    MbWrite string timestamp_ms string string mailbox_message_type string "string option"
      "string list option"
  | MbRead string

text \<open>The reads of a sequence of operations, each with the agent that read, and the final database.\<close>

fun run_mailbox ::
  "'v json_codec \<Rightarrow> string \<Rightarrow> mailbox_op list \<Rightarrow> team_db
   \<Rightarrow> (string \<times> mailbox_message list) list \<times> team_db" where
  "run_mailbox J team [] db = ([], db)"
| "run_mailbox J team (MbWrite fresh now to from ty content summary files # ops) db =
     run_mailbox J team ops
       (snd (write_with_files J fresh now team to from ty content summary files db))"
| "run_mailbox J team (MbRead a # ops) db =
     (let (ms, db1) = read_unread J team a db;
          (ds, db2) = run_mailbox J team ops db1
      in ((a, ms) # ds, db2))"

definition delivered :: "string \<Rightarrow> (string \<times> mailbox_message list) list \<Rightarrow> mailbox_message list" where
  "delivered a ds = concat (map snd (filter (\<lambda>d. fst d = a) ds))"

fun written :: "string \<Rightarrow> string \<Rightarrow> mailbox_op list \<Rightarrow> mailbox_message list" where
  "written team a [] = []"
| "written team a (MbWrite fresh now to from ty content summary files # ops) =
     (if to = a then [row_message fresh now team to from ty content summary files] else [])
     @ written team a ops"
| "written team a (MbRead b # ops) = written team a ops"

fun write_ids :: "mailbox_op list \<Rightarrow> string list" where
  "write_ids [] = []"
| "write_ids (MbWrite fresh _ _ _ _ _ _ _ # ops) = fresh # write_ids ops"
| "write_ids (MbRead _ # ops) = write_ids ops"

fun write_times :: "mailbox_op list \<Rightarrow> timestamp_ms list" where
  "write_times [] = []"
| "write_times (MbWrite _ now _ _ _ _ _ _ # ops) = now # write_times ops"
| "write_times (MbRead _ # ops) = write_times ops"

lemma map_filter_append:
  "List.map_filter f (xs @ ys) = List.map_filter f xs @ List.map_filter f ys"
  by (simp add: List.map_filter_def)

lemma mset_map_filter_cong:
  "mset xs = mset ys \<Longrightarrow> mset (List.map_filter f xs) = mset (List.map_filter f ys)"
  by (simp add: List.map_filter_def)

text \<open>What an agent would read, whatever its order.\<close>

lemma mset_peek:
  "mset (peek_unread J team a db) =
     mset (List.map_filter (message_from_row J) (filter (unread_for team a) (db_mailbox db)))"
  unfolding peek_unread_def peek_unread_rows_def mailbox_order_def by (rule mset_map_filter_cong) simp

lemma set_peek:
  "set (peek_unread J team a db) =
     set (List.map_filter (message_from_row J) (filter (unread_for team a) (db_mailbox db)))"
  using mset_peek by (rule mset_eq_setD)

lemma message_time: "message_from_row J row = Some m \<Longrightarrow> mm_created_at m = mr_created_at row"
  by (auto simp: message_from_row_def Let_def split: option.splits list.splits)

lemma found_message_time:
  "message_from_row J row \<noteq> None \<Longrightarrow> mm_created_at (the (message_from_row J row)) = mr_created_at row"
  using message_time by fastforce

lemma sorted_peek: "sorted (map mm_created_at (peek_unread J team a db))"
proof -
  have "sorted (map mm_created_at (List.map_filter (message_from_row J) rows))"
    if "sorted (map mr_created_at rows)" for rows
    using that
  proof (induction rows)
    case (Cons row rows)
    then show ?case
      by (auto simp: List.map_filter_def found_message_time)
  qed (simp add: List.map_filter_def)
  then show ?thesis
    by (simp add: peek_unread_def peek_unread_rows_def mailbox_order_def)
qed

lemma peek_time:
  "m \<in> set (peek_unread J team a db) \<Longrightarrow> \<exists>row \<in> set (db_mailbox db). mm_created_at m = mr_created_at row"
  by (auto simp: set_peek List.map_filter_def) (metis message_time)

lemma read_unread_val:
  "read_unread J team a db = (peek_unread J team a db,
     db\<lparr>db_mailbox := map (\<lambda>row. if unread_for team a row then row\<lparr>mr_read := True\<rparr> else row)
                         (db_mailbox db)\<rparr>)"
proof -
  have none: "db\<lparr>db_mailbox := map (\<lambda>row. if unread_for team a row then row\<lparr>mr_read := True\<rparr> else row)
      (db_mailbox db)\<rparr> = db" if "filter (unread_for team a) (db_mailbox db) = []"
  proof -
    have "map (\<lambda>row. if unread_for team a row then row\<lparr>mr_read := True\<rparr> else row) (db_mailbox db)
        = db_mailbox db"
      using that by (intro map_idI) (auto simp: filter_empty_conv)
    then show ?thesis by simp
  qed
  from none show ?thesis
    by (auto simp: read_unread_def read_unread_and_mark_def peek_unread_def peek_unread_rows_def
        mailbox_order_def Let_def)
qed

lemma unread_after_mark:
  "filter (unread_for team a)
     (map (\<lambda>row. if unread_for team b row then row\<lparr>mr_read := True\<rparr> else row) rows) =
   (if a = b then [] else filter (unread_for team a) rows)"
proof -
  have "unread_for team a (if unread_for team b row then row\<lparr>mr_read := True\<rparr> else row) \<longleftrightarrow>
      a \<noteq> b \<and> unread_for team a row" for row
    by (cases "a = b") (auto simp: unread_for_def)
  then have "filter (unread_for team a)
      (map (\<lambda>row. if unread_for team b row then row\<lparr>mr_read := True\<rparr> else row) rows) =
    map (\<lambda>row. if unread_for team b row then row\<lparr>mr_read := True\<rparr> else row)
      (filter (\<lambda>row. a \<noteq> b \<and> unread_for team a row) rows)"
    by (simp only: filter_map o_def)
  also have "\<dots> = filter (\<lambda>row. a \<noteq> b \<and> unread_for team a row) rows"
    by (rule map_idI) (auto simp: unread_for_def)
  finally show ?thesis
    by simp
qed

lemma delivered_Cons [simp]:
  "delivered a [] = []"
  "delivered a ((b, ms) # ds) = (if b = a then ms else []) @ delivered a ds"
  by (simp_all add: delivered_def)

lemma peek_after_mark:
  "mset (peek_unread J team a (db\<lparr>db_mailbox := map (\<lambda>row. if unread_for team b row then row\<lparr>mr_read := True\<rparr> else row)
      (db_mailbox db)\<rparr>)) = (if a = b then {#} else mset (peek_unread J team a db))"
proof -
  let ?rows = "map (\<lambda>row. if unread_for team b row then row\<lparr>mr_read := True\<rparr> else row) (db_mailbox db)"
  have "mset (peek_unread J team a (db\<lparr>db_mailbox := ?rows\<rparr>)) =
      mset (List.map_filter (message_from_row J) (filter (unread_for team a) ?rows))"
    unfolding mset_peek by (rule arg_cong [where f = "\<lambda>rows. mset (List.map_filter (message_from_row J)
      (filter (unread_for team a) rows))"]) simp
  also have "filter (unread_for team a) ?rows = (if a = b then [] else filter (unread_for team a) (db_mailbox db))"
    by (rule unread_after_mark)
  finally show ?thesis
    by (cases "a = b") (simp_all add: mset_peek List.map_filter_def)
qed

text \<open>One write to a mailbox whose identifiers differ from the new one.\<close>

lemma peek_after_write:
  assumes "json_ok J" and "fresh \<notin> set (map mr_id (db_mailbox db))"
  obtains row where "snd (write_with_files J fresh now team to frm ty content summary files db) =
      db\<lparr>db_mailbox := db_mailbox db @ [row]\<rparr>" and "mr_id row = fresh" and "mr_created_at row = now"
    and "mset (peek_unread J team a (db\<lparr>db_mailbox := db_mailbox db @ [row]\<rparr>)) =
      mset (peek_unread J team a db) +
      mset (if to = a then [row_message fresh now team to frm ty content summary files] else [])"
proof -
  let ?m = "row_message fresh now team to frm ty content summary files"
  obtain row where row: "write_with_files J fresh now team to frm ty content summary files db =
        (Inr ?m, db\<lparr>db_mailbox := db_mailbox db @ [row]\<rparr>)" "message_from_row J row = Some ?m"
      "mr_id row = fresh" "mr_team_id row = team" "mr_to_agent_id row = to" "mr_created_at row = now"
      "\<not> mr_read row"
    using write_with_files_fresh [OF assms] by blast
  show thesis
    by (rule that [of row])
      (use row in \<open>simp_all add: mset_peek map_filter_append unread_for_def List.map_filter_def\<close>)
qed

definition no_later :: "team_db \<Rightarrow> timestamp_ms list \<Rightarrow> bool" where
  "no_later db ts \<longleftrightarrow> (\<forall>t \<in> set ts. \<forall>row \<in> set (db_mailbox db). mr_created_at row \<le> t)"

text \<open>Each message once, and in the order of time.\<close>

lemma delivery:
  assumes "json_ok J" and "distinct (write_ids ops)"
    and "set (write_ids ops) \<inter> set (map mr_id (db_mailbox db)) = {}"
    and "sorted (write_times ops)" and "no_later db (write_times ops)"
  shows "mset (delivered a (fst (run_mailbox J team ops db))
           @ peek_unread J team a (snd (run_mailbox J team ops db))) =
         mset (peek_unread J team a db) + mset (written team a ops) \<and>
    sorted (map mm_created_at (delivered a (fst (run_mailbox J team ops db))
           @ peek_unread J team a (snd (run_mailbox J team ops db))))"
  using assms
proof (induction J team ops db rule: run_mailbox.induct)
  case (1 J team db)
  then show ?case by (simp add: delivered_def sorted_peek)
next
  case (2 J team fresh now to frm ty content summary files ops db)
  have new: "fresh \<notin> set (map mr_id (db_mailbox db))" using 2(4) by simp
  obtain row where row: "snd (write_with_files J fresh now team to frm ty content summary files db) =
      db\<lparr>db_mailbox := db_mailbox db @ [row]\<rparr>" "mr_id row = fresh" "mr_created_at row = now"
      "mset (peek_unread J team a (db\<lparr>db_mailbox := db_mailbox db @ [row]\<rparr>)) =
      mset (peek_unread J team a db) +
      mset (if to = a then [row_message fresh now team to frm ty content summary files] else [])"
    by (rule peek_after_write [OF 2(2) new])
  have "no_later (db\<lparr>db_mailbox := db_mailbox db @ [row]\<rparr>) (write_times ops)"
    using 2(5,6) row(3) by (auto simp: no_later_def)
  then show ?case
    using 2 row by (simp add: ac_simps)
next
  case (3 J team b ops db)
  let ?db = "db\<lparr>db_mailbox := map (\<lambda>row. if unread_for team b row then row\<lparr>mr_read := True\<rparr> else row)
      (db_mailbox db)\<rparr>"
  let ?later = "delivered a (fst (run_mailbox J team ops ?db)) @ peek_unread J team a (snd (run_mailbox J team ops ?db))"
  have ids: "map mr_id (db_mailbox ?db) = map mr_id (db_mailbox db)"
    by (simp add: if_distrib [of mr_id] cong: if_cong)
  have le: "no_later ?db (write_times ops)"
    using 3(6) by (auto simp: no_later_def)
  have IH: "mset ?later = mset (peek_unread J team a ?db) + mset (written team a ops)"
      "sorted (map mm_created_at ?later)"
    using 3(1) [OF refl read_unread_val [symmetric] 3(2) _ _ _ le] 3(3-5) ids
    by (simp_all only: write_ids.simps write_times.simps ids)
  show ?case
  proof (cases "a = b")
    case True
    have "mset ?later = mset (written team a ops)"
      using IH(1) True by (simp add: peek_after_mark)
    then have "set ?later = set (written team a ops)"
      by (rule mset_eq_setD)
    moreover have "mm_created_at m \<in> set (write_times ops)" if "m \<in> set (written team a ops)" for m
      using that by (induction ops rule: write_times.induct) (auto simp: row_message_def split: if_splits)
    ultimately have later_times: "mm_created_at m \<in> set (write_times ops)" if "m \<in> set ?later" for m
      using that by blast
    have "mm_created_at n \<le> mm_created_at m"
      if "n \<in> set (peek_unread J team a db)" "m \<in> set ?later" for n m
    proof -
      from peek_time [OF that(1)] obtain row where "row \<in> set (db_mailbox db)" "mm_created_at n = mr_created_at row"
        by blast
      moreover have "mm_created_at m \<in> set (write_times ops)"
        by (rule later_times [OF that(2)])
      ultimately show ?thesis
        using 3(6) by (simp add: no_later_def)
    qed
    then have "sorted (map mm_created_at (peek_unread J team a db @ ?later))"
      unfolding map_append [of _ "peek_unread J team a db"] sorted_append
      using IH(2) sorted_peek [of J team a db] by auto
    moreover have "delivered a (fst (run_mailbox J team (MbRead b # ops) db)) @
        peek_unread J team a (snd (run_mailbox J team (MbRead b # ops) db)) = peek_unread J team a db @ ?later"
      by (simp add: read_unread_val case_prod_unfold Let_def True)
    ultimately show ?thesis
      using \<open>mset ?later = mset (written team a ops)\<close>
      by (simp only: written.simps mset_append [of "peek_unread J team a db"])
  next
    case False
    have "delivered a (fst (run_mailbox J team (MbRead b # ops) db)) @
        peek_unread J team a (snd (run_mailbox J team (MbRead b # ops) db)) = ?later"
      using False by (simp add: read_unread_val case_prod_unfold Let_def)
    moreover have "mset ?later = mset (peek_unread J team a db) + mset (written team a ops)"
      using IH(1) False by (simp only: peek_after_mark if_False)
    ultimately show ?thesis
      using IH(2) by (simp only: written.simps)
  qed
qed

lemma order_of_times:
  assumes "mset xs = mset ys" and "sorted (map f xs)" and "sorted (map f ys)" and "distinct (map f ys)"
  shows "xs = ys"
proof -
  have "inj_on f (set xs)"
    using assms(4) mset_eq_setD [OF assms(1)] by (simp add: distinct_map)
  then have "sort_key f xs = ys"
    by (rule sort_key_inj_key_eq [OF assms(1) _ assms(3)])
  then show ?thesis
    using sort_key_id_if_sorted [OF assms(2)] by simp
qed

text \<open>
  C23. The mailbox delivers every message once and in the order of time: over any sequence of writes
  and reads on an empty database, with distinct identifiers and a clock that does not go back, what
  the reads of an agent returned followed by what is still unread for it is what was written to it,
  each message once, by the time it was written; the order of the writes, when no two of them share a
  millisecond. Messages of the same millisecond may come in any order: the statements have no second
  key, and nothing is assumed of the order SQLite gives them (\<open>tie\<close>).
\<close>

theorem delivered_once_in_order:
  assumes "json_ok J" and "distinct (write_ids ops)" and "sorted (write_times ops)"
  shows "let (reads, db) = run_mailbox J team ops (new_db tie);
      seen = delivered a reads @ peek_unread J team a db in
    mset seen = mset (written team a ops) \<and> sorted (map mm_created_at seen) \<and>
    (distinct (map mm_created_at (written team a ops)) \<longrightarrow> seen = written team a ops)"
proof -
  let ?run = "run_mailbox J team ops (new_db tie)"
  let ?seen = "delivered a (fst ?run) @ peek_unread J team a (snd ?run)"
  have seen: "mset ?seen = mset (written team a ops)" "sorted (map mm_created_at ?seen)"
    using delivery [of J ops "new_db tie" a team] assms
    by (simp_all add: no_later_def new_db_def peek_unread_def peek_unread_rows_def mailbox_order_def
        List.map_filter_def)
  have "sorted (map mm_created_at (written team a ops)) \<and>
      set (map mm_created_at (written team a ops)) \<subseteq> set (write_times ops)"
    using assms(3)
  proof (induction ops rule: write_times.induct)
    case (2 fresh now to frm ty content summary files ops)
    then show ?case
      by (auto simp: row_message_def)
  qed auto
  with seen order_of_times [OF seen] show ?thesis
    by (simp add: case_prod_unfold Let_def)
qed

text \<open>Two messages to the lead in one millisecond, and ties broken against the order of the writes.\<close>

theorem delivered_once_in_order_witness:
  "let ops = [MbWrite ''m1'' 1 ''lead'' ''w1'' MtMessage ''hi'' None (Some [''f'']),
              MbWrite ''m2'' 1 ''lead'' ''w1'' MtMessage ''more'' None None,
              MbRead ''lead'',
              MbWrite ''m3'' 2 ''lead'' ''w1'' MtIdleNotification ''idle'' (Some ''s'') (Some [])];
       (reads, db) = run_mailbox pairs_codec ''team'' ops (new_db (\<lambda>i. if i = ''m1'' then 1 else 0));
       seen = delivered ''lead'' reads @ peek_unread pairs_codec ''team'' ''lead'' db
   in mset (map mm_id seen) = {#''m1'', ''m2'', ''m3''#} \<and> sorted (map mm_created_at seen) \<and>
      map mm_id seen = [''m2'', ''m1'', ''m3'']"
proof -
  let ?ops = "[MbWrite ''m1'' 1 ''lead'' ''w1'' MtMessage ''hi'' None (Some [''f'']),
      MbWrite ''m2'' 1 ''lead'' ''w1'' MtMessage ''more'' None None,
      MbRead ''lead'',
      MbWrite ''m3'' 2 ''lead'' ''w1'' MtIdleNotification ''idle'' (Some ''s'') (Some [])]"
  let ?tie = "\<lambda>i. if i = ''m1'' then 1 else 0 :: nat"
  let ?run = "run_mailbox pairs_codec ''team'' ?ops (new_db ?tie)"
  let ?seen = "delivered ''lead'' (fst ?run) @ peek_unread pairs_codec ''team'' ''lead'' (snd ?run)"
  have "mset ?seen = mset (written ''team'' ''lead'' ?ops)" "sorted (map mm_created_at ?seen)"
    using delivered_once_in_order [OF pairs_codec_ok, of ?ops "''team''" ?tie "''lead''"]
    by (simp_all add: Let_def case_prod_unfold del: run_mailbox.simps map_append)
  then have "mset (map mm_id ?seen) = {#''m1'', ''m2'', ''m3''#}" "sorted (map mm_created_at ?seen)"
    by (simp_all only: mset_map) (simp add: row_message_def)
  moreover have "map mm_id ?seen = [''m2'', ''m1'', ''m3'']"
    by (simp add: write_with_files_def write_message_def new_db_def message_from_row_def
        msg_type_parse_def peek_unread_def peek_unread_rows_def unread_for_def read_unread_def
        read_unread_and_mark_def mailbox_order_def order_by_def
        List.map_filter_def Let_def)
  ultimately show ?thesis
    by (simp only: Let_def case_prod_unfold)
qed

section \<open>Discarding what is unread\<close>

definition rows_valid :: "team_db \<Rightarrow> bool" where
  "rows_valid db \<longleftrightarrow>
     distinct (map mr_id (db_mailbox db)) \<and>
     (\<forall>row \<in> set (db_mailbox db). msg_type_parse (mr_msg_type row) \<noteq> None)"

lemma message_of_valid:
  "msg_type_parse (mr_msg_type row) \<noteq> None \<Longrightarrow>
     \<exists>m. message_from_row J row = Some m \<and> mm_id m = mr_id row"
  by (auto simp: message_from_row_def Let_def split: option.splits list.splits)

lemma peek_ids:
  assumes "rows_valid db"
  shows "map mm_id (peek_unread J team a db) = map mr_id (peek_unread_rows team a db)"
proof -
  have "map mm_id (List.map_filter (message_from_row J) rows) = map mr_id rows"
    if "\<forall>row \<in> set rows. msg_type_parse (mr_msg_type row) \<noteq> None" for rows
    using that
  proof (induction rows)
    case (Cons row rows)
    then show ?case using message_of_valid [of row J] by (auto simp: List.map_filter_def)
  qed (simp add: List.map_filter_def)
  then show ?thesis
    using assms by (simp add: peek_unread_def peek_unread_rows_def mailbox_order_def rows_valid_def)
qed

lemma filter_mark_chunk:
  "filter (unread_for team a) (mark_chunk ids rows) =
     filter (\<lambda>row. unread_for team a row \<and> mr_id row \<notin> set ids) rows"
  by (induction rows) (auto simp: mark_chunk_def unread_for_def)

lemma mark_read_batch_tie: "db_tie (mark_read_batch ids db) = db_tie db"
  by (simp add: mark_read_batch_def)

lemma same_id_same_row:
  "distinct (map f xs) \<Longrightarrow> x \<in> set xs \<Longrightarrow> y \<in> set xs \<Longrightarrow> f x = f y \<Longrightarrow> x = y"
  by (simp add: distinct_map inj_on_def)

text \<open>
  Discarding the unread messages of a cancelled run touches exactly the agents named: their
  unread messages are gone, those of every other agent and of every other team are as before,
  and the count is the sum of what each named agent had.
\<close>

theorem discard_is_exact:
  assumes "rows_valid db"
  shows "case mark_all_unread_for_agents_read J team agents db of (n, db') \<Rightarrow>
           n = sum_list (map (\<lambda>a. length (peek_unread J team a db)) agents) \<and>
           peek_unread J team' a db' =
             (if team' = team \<and> a \<in> set agents then [] else peek_unread J team' a db)"
proof -
  let ?ids = "concat (map (\<lambda>a. map mm_id (peek_unread J team a db)) agents)"
  let ?db = "mark_read_batch ?ids db"
  have ids: "set ?ids = {mr_id row |row. row \<in> set (db_mailbox db) \<and> (\<exists>a \<in> set agents. unread_for team a row)}"
    using assms by (auto simp: peek_ids peek_unread_rows_def mailbox_order_def)
  have "mr_id row \<in> set ?ids \<longleftrightarrow> team' = team \<and> a \<in> set agents"
    if "row \<in> set (db_mailbox db)" "unread_for team' a row" for row
    using that assms ids by (auto simp: rows_valid_def unread_for_def dest: same_id_same_row)
  then have "filter (\<lambda>row. unread_for team' a row \<and> mr_id row \<notin> set ?ids) (db_mailbox db) =
      (if team' = team \<and> a \<in> set agents then [] else filter (unread_for team' a) (db_mailbox db))"
    by (auto simp: filter_empty_conv intro!: filter_cong)
  then have "peek_unread_rows team' a ?db =
      (if team' = team \<and> a \<in> set agents then [] else peek_unread_rows team' a db)"
    by (simp add: peek_unread_rows_def mailbox_order_def mark_read_batch_rows mark_read_batch_tie filter_mark_chunk)
  moreover have "mark_all_unread_for_agents_read J team agents db = (length ?ids, ?db)"
    by (auto simp: mark_all_unread_for_agents_read_def Let_def mark_read_batch_def)
  ultimately show ?thesis
    by (simp add: peek_unread_def List.map_filter_def length_concat o_def)
qed

theorem discard_is_exact_witness:
  "case mark_all_unread_for_agents_read pairs_codec ''team'' [''lead'']
          (snd (run_mailbox pairs_codec ''team''
             [MbWrite ''m1'' 1 ''lead'' ''w1'' MtMessage ''hi'' None None,
              MbWrite ''m2'' 2 ''w1'' ''lead'' MtMessage ''do'' None None] empty_db)) of
     (n, db) \<Rightarrow> n = 1 \<and> peek_unread pairs_codec ''team'' ''lead'' db = []"
proof -
  let ?db = "snd (run_mailbox pairs_codec ''team''
      [MbWrite ''m1'' 1 ''lead'' ''w1'' MtMessage ''hi'' None None,
       MbWrite ''m2'' 2 ''w1'' ''lead'' MtMessage ''do'' None None] empty_db)"
  have v: "rows_valid ?db" and one: "length (peek_unread pairs_codec ''team'' ''lead'' ?db) = 1"
    by (simp_all add: write_with_files_def write_message_def empty_db_def new_db_def mailbox_order_def message_from_row_def
        msg_type_parse_def rows_valid_def peek_unread_def peek_unread_rows_def unread_for_def
        List.map_filter_def Let_def)
  show ?thesis
    using discard_is_exact [OF v, where J = pairs_codec and team = "''team''" and agents = "[''lead'']"
        and team' = "''team''" and a = "''lead''"] one
    by (simp add: case_prod_unfold del: run_mailbox.simps)
qed

end
