(* ===== verification/TaskBoard.thy ===== *)
theory TaskBoard
  imports Mailbox
begin

text \<open>
  The task board of a team (\<open>veryagent-team/src/task_board.rs\<close>) over the \<open>team_tasks\<close> table: tasks
  with links to the tasks that block them and to those they block.
\<close>

section \<open>Operations\<close>

record 'v task_update =
  tu_status :: "task_status option"
  tu_description :: "string option"
  tu_owner :: "string option"
  tu_blocked_by :: "string list option"
  tu_metadata :: "'v option"

definition no_task_update :: "'v task_update" where
  "no_task_update =
     \<lparr>tu_status = None, tu_description = None, tu_owner = None, tu_blocked_by = None,
      tu_metadata = None\<rparr>"

text \<open>The first dependency that is not a task of the team.\<close>

definition missing_dependency :: "string \<Rightarrow> string list \<Rightarrow> team_db \<Rightarrow> string option" where
  "missing_dependency team_id blocked_by db =
     find (\<lambda>dep. find_task_by_id team_id dep db = None) blocked_by"

text \<open>The two loops over statements stop at the first that fails and keep what was done before.\<close>

fun append_all ::
  "'v json_codec \<Rightarrow> timestamp_ms \<Rightarrow> string \<Rightarrow> string list \<Rightarrow> team_db \<Rightarrow> unit db_result" where
  "append_all J now task_id [] db = (Inr (), db)"
| "append_all J now task_id (dep # deps) db =
     (case append_to_blocks J now dep task_id db of
        (Inl e, db') \<Rightarrow> (Inl (db_err e), db')
      | (Inr _, db') \<Rightarrow> append_all J now task_id deps db')"

fun remove_all ::
  "'v json_codec \<Rightarrow> timestamp_ms \<Rightarrow> string \<Rightarrow> string list \<Rightarrow> team_db \<Rightarrow> unit db_result" where
  "remove_all J now completed [] db = (Inr (), db)"
| "remove_all J now completed (downstream # rest) db =
     (case remove_from_blocked_by J now downstream completed db of
        (Inl e, db') \<Rightarrow> (Inl (db_err e), db')
      | (Inr _, db') \<Rightarrow> remove_all J now completed rest db')"

definition new_task_row ::
  "string \<Rightarrow> timestamp_ms \<Rightarrow> string \<Rightarrow> string \<Rightarrow> string option \<Rightarrow> string option \<Rightarrow> string \<Rightarrow> task_row"
where
  "new_task_row fresh now team_id subject description owner blocked_by_json =
     \<lparr>tr_id = fresh, tr_team_id = team_id, tr_subject = subject, tr_description = description,
      tr_status = task_status_to_string TsPending, tr_owner = owner,
      tr_blocked_by = blocked_by_json, tr_blocks = ''[]'', tr_metadata = None,
      tr_created_at = now, tr_updated_at = now\<rparr>"

definition create_task ::
  "'v json_codec \<Rightarrow> string \<Rightarrow> timestamp_ms \<Rightarrow> string \<Rightarrow> string \<Rightarrow> string option \<Rightarrow> string option
   \<Rightarrow> string list \<Rightarrow> team_db \<Rightarrow> 'v team_task db_result" where
  "create_task J fresh now team_id subject description owner blocked_by db =
     (case missing_dependency team_id blocked_by db of
        Some dep \<Rightarrow> (Inl (BlockedTaskNotFound dep), db)
      | None \<Rightarrow>
          (case js_list_to_string J blocked_by of
             None \<Rightarrow> (Inl (JsonError ''''), db)
           | Some blocked_by_json \<Rightarrow>
               let row = new_task_row fresh now team_id subject description owner blocked_by_json
               in (case create_task_row row db of
                     (Inl e, db1) \<Rightarrow> (Inl (db_err e), db1)
                   | (Inr _, db1) \<Rightarrow>
                       (case append_all J now fresh blocked_by db1 of
                          (Inl e, db2) \<Rightarrow> (Inl e, db2)
                        | (Inr _, db2) \<Rightarrow> (task_from_row J row, db2)))))"

definition check_unblocks ::
  "'v json_codec \<Rightarrow> timestamp_ms \<Rightarrow> string \<Rightarrow> task_row \<Rightarrow> team_db \<Rightarrow> unit db_result" where
  "check_unblocks J now completed_task_id completed_row db =
     (case js_list_from_str J (tr_blocks completed_row) of
        None \<Rightarrow> (Inl (JsonError ''''), db)
      | Some blocks \<Rightarrow> remove_all J now completed_task_id blocks db)"

text \<open>\<open>Option::map(to_string).transpose()\<close>: \<open>None\<close> is the failure of the serializer.\<close>

definition transpose_map :: "('a \<Rightarrow> string option) \<Rightarrow> 'a option \<Rightarrow> string option option" where
  "transpose_map f x = (case x of None \<Rightarrow> Some None | Some v \<Rightarrow> map_option Some (f v))"

definition update_task ::
  "'v json_codec \<Rightarrow> timestamp_ms \<Rightarrow> string \<Rightarrow> string \<Rightarrow> 'v task_update \<Rightarrow> team_db
   \<Rightarrow> 'v team_task db_result" where
  "update_task J now team_id task_id update db =
     (case find_task_by_id team_id task_id db of
        None \<Rightarrow> (Inl (TaskNotFound task_id), db)
      | Some existing \<Rightarrow>
          (case (transpose_map (js_list_to_string J) (tu_blocked_by update),
                 transpose_map (js_value_to_string J) (tu_metadata update)) of
             (None, _) \<Rightarrow> (Inl (JsonError ''''), db)
           | (_, None) \<Rightarrow> (Inl (JsonError ''''), db)
           | (Some blocked_by, Some metadata) \<Rightarrow>
               let params = \<lparr>up_status = map_option task_status_to_string (tu_status update),
                             up_description = tu_description update,
                             up_owner = tu_owner update,
                             up_blocked_by = blocked_by,
                             up_metadata = metadata\<rparr>
               in (case update_task_row now task_id params db of
                     (Inl e, db1) \<Rightarrow> (Inl (db_err e), db1)
                   | (Inr _, db1) \<Rightarrow>
                       (case (if tu_status update = Some TsCompleted
                              then check_unblocks J now task_id existing db1
                              else (Inr (), db1)) of
                          (Inl e, db2) \<Rightarrow> (Inl e, db2)
                        | (Inr _, db2) \<Rightarrow>
                            (case find_task_by_id team_id task_id db2 of
                               None \<Rightarrow> (Inl (TaskNotFound task_id), db2)
                             | Some updated \<Rightarrow> (task_from_row J updated, db2))))))"

definition list_tasks :: "'v json_codec \<Rightarrow> string \<Rightarrow> team_db \<Rightarrow> 'v team_task list" where
  "list_tasks J team_id db =
     List.map_filter (\<lambda>r. case task_from_row J r of Inl _ \<Rightarrow> None | Inr t \<Rightarrow> Some t)
       (list_task_rows team_id db)"

section \<open>The links\<close>

definition row_of :: "team_db \<Rightarrow> string \<Rightarrow> task_row option" where
  "row_of db i = find (\<lambda>row. tr_id row = i) (db_tasks db)"

definition blocked_by_of :: "'v json_codec \<Rightarrow> team_db \<Rightarrow> string \<Rightarrow> string list" where
  "blocked_by_of J db i =
     (case row_of db i of None \<Rightarrow> [] | Some row \<Rightarrow> list_or_default J (tr_blocked_by row))"

definition blocks_of :: "'v json_codec \<Rightarrow> team_db \<Rightarrow> string \<Rightarrow> string list" where
  "blocks_of J db i =
     (case row_of db i of None \<Rightarrow> [] | Some row \<Rightarrow> list_or_default J (tr_blocks row))"

definition columns_ok :: "'v json_codec \<Rightarrow> team_db \<Rightarrow> bool" where
  "columns_ok J db \<longleftrightarrow>
     (\<forall>row \<in> set (db_tasks db). js_list_from_str J (tr_blocked_by row) \<noteq> None \<and>
        js_list_from_str J (tr_blocks row) \<noteq> None)"

text \<open>
  Every JSON column of a task parses, a task names only existing tasks as blocked by it, and it
  names every task that says it is blocked by it.
\<close>

definition links_ok :: "'v json_codec \<Rightarrow> team_db \<Rightarrow> bool" where
  "links_ok J db \<longleftrightarrow>
     distinct (map tr_id (db_tasks db)) \<and>
     columns_ok J db \<and>
     (\<forall>i. \<forall>x \<in> set (blocks_of J db i). row_of db x \<noteq> None) \<and>
     (\<forall>i. \<forall>y \<in> set (blocked_by_of J db i). i \<in> set (blocks_of J db y))"

lemma find_row: "row_of db i = Some row \<Longrightarrow> row \<in> set (db_tasks db) \<and> tr_id row = i"
  by (auto simp: row_of_def find_Some_iff)

lemma row_of_update:
  "(\<And>r. tr_id (f r) = tr_id r) \<Longrightarrow>
     row_of (update_where_id j f db) i = (if i = j then map_option f (row_of db i) else row_of db i)"
proof -
  assume f: "\<And>r. tr_id (f r) = tr_id r"
  have "find (\<lambda>row. tr_id row = i) (map (\<lambda>row. if tr_id row = j then f row else row) rows) =
      (if i = j then map_option f (find (\<lambda>row. tr_id row = i) rows)
       else find (\<lambda>row. tr_id row = i) rows)" for rows
    by (induction rows) (auto simp: f)
  then show ?thesis by (simp add: row_of_def update_where_id_def)
qed

lemma find_in_team:
  "distinct (map tr_id (db_tasks db)) \<Longrightarrow>
     find_task_by_id team i db = (case row_of db i of
        None \<Rightarrow> None | Some row \<Rightarrow> if tr_team_id row = team then Some row else None)"
proof -
  assume d: "distinct (map tr_id (db_tasks db))"
  have "find (\<lambda>row. tr_team_id row = team \<and> tr_id row = i) rows =
      (case find (\<lambda>row. tr_id row = i) rows of
         None \<Rightarrow> None | Some row \<Rightarrow> if tr_team_id row = team then Some row else None)"
    if "distinct (map tr_id rows)" for rows
    using that
  proof (induction rows)
    case (Cons r rows)
    have "\<forall>x \<in> set rows. tr_id x \<noteq> i" if "tr_id r = i"
      using that Cons.prems by (metis distinct.simps(2) image_eqI list.set_map list.simps(9))
    then have "tr_id r = i \<Longrightarrow> find (\<lambda>row. tr_id row = i) rows = None"
      and "tr_id r = i \<Longrightarrow> find (\<lambda>row. tr_team_id row = team \<and> tr_id row = i) rows = None"
      by (simp_all add: find_None_iff)
    with Cons show ?case by auto
  qed simp
  with d show ?thesis by (simp add: find_task_by_id_def row_of_def)
qed

lemma text_round:
  "json_ok J \<Longrightarrow> list_or_default J (text_or_brackets J xs) = xs"
  "json_ok J \<Longrightarrow> js_list_from_str J (text_or_brackets J xs) \<noteq> None"
proof -
  assume J: "json_ok J"
  obtain t where "js_list_to_string J xs = Some t" "js_list_from_str J t = Some xs"
    using json_list [OF J] .
  then show "list_or_default J (text_or_brackets J xs) = xs"
    and "js_list_from_str J (text_or_brackets J xs) \<noteq> None"
    by (simp_all add: list_or_default_def text_or_brackets_def)
qed

definition same_tasks :: "team_db \<Rightarrow> team_db \<Rightarrow> bool" where
  "same_tasks db db' \<longleftrightarrow>
     map (\<lambda>r. (tr_id r, tr_team_id r)) (db_tasks db') = map (\<lambda>r. (tr_id r, tr_team_id r)) (db_tasks db)"

lemma same_tasks_refl [simp]: "same_tasks db db"
  by (simp add: same_tasks_def)

lemma same_tasks_trans: "same_tasks a b \<Longrightarrow> same_tasks b c \<Longrightarrow> same_tasks a c"
  by (simp add: same_tasks_def)

lemma same_tasks_ids: "same_tasks db db' \<Longrightarrow> map tr_id (db_tasks db') = map tr_id (db_tasks db)"
  unfolding same_tasks_def by (drule arg_cong [where f = "map fst"]) (simp add: o_def)

lemma row_of_None: "row_of db i = None \<longleftrightarrow> i \<notin> set (map tr_id (db_tasks db))"
  by (auto simp: row_of_def find_None_iff)

lemma same_tasks_row: "same_tasks db db' \<Longrightarrow> row_of db' i = None \<longleftrightarrow> row_of db i = None"
  unfolding row_of_None by (simp only: same_tasks_ids)

lemma update_same_tasks:
  "(\<And>r. tr_id (f r) = tr_id r \<and> tr_team_id (f r) = tr_team_id r) \<Longrightarrow>
     same_tasks db (update_where_id i f db)"
  by (simp add: same_tasks_def update_where_id_def)

lemma update_columns:
  "columns_ok J db \<Longrightarrow>
     (\<And>r. js_list_from_str J (tr_blocked_by r) \<noteq> None \<Longrightarrow> js_list_from_str J (tr_blocks r) \<noteq> None \<Longrightarrow>
        js_list_from_str J (tr_blocked_by (f r)) \<noteq> None \<and> js_list_from_str J (tr_blocks (f r)) \<noteq> None) \<Longrightarrow>
     columns_ok J (update_where_id i f db)"
  by (auto simp: columns_ok_def update_where_id_def)

text \<open>What one statement does to the links.\<close>

definition links_to ::
  "'v json_codec \<Rightarrow> team_db \<Rightarrow> team_db \<Rightarrow> (string \<Rightarrow> string list) \<Rightarrow> (string \<Rightarrow> string list) \<Rightarrow> bool" where
  "links_to J db db' blocked blocks \<longleftrightarrow>
     same_tasks db db' \<and> (columns_ok J db \<longrightarrow> columns_ok J db') \<and>
     blocked_by_of J db' = blocked \<and> blocks_of J db' = blocks"

definition add_last :: "'a \<Rightarrow> 'a list \<Rightarrow> 'a list" where
  "add_last x xs = (if x \<in> set xs then xs else xs @ [x])"

lemma append_links:
  assumes "json_ok J" and "row_of db dep \<noteq> None"
  obtains db' where "append_to_blocks J now dep x db = (Inr (), db')"
    and "links_to J db db' (blocked_by_of J db)
           ((blocks_of J db)(dep := add_last x (blocks_of J db dep)))"
proof -
  obtain row where row: "row_of db dep = Some row" using assms(2) by auto
  let ?f = "\<lambda>r. r\<lparr>tr_blocks := text_or_brackets J (add_last x (list_or_default J (tr_blocks row))),
      tr_updated_at := now\<rparr>"
  let ?db = "update_where_id dep ?f db"
  have "append_to_blocks J now dep x db = (Inr (), ?db)"
    using row by (simp add: append_to_blocks_def row_of_def add_last_def Let_def)
  moreover have "links_to J db ?db (blocked_by_of J db)
      ((blocks_of J db)(dep := add_last x (blocks_of J db dep)))"
    unfolding links_to_def
  proof (intro conjI impI)
    show "same_tasks db ?db" by (rule update_same_tasks) simp
    show "columns_ok J ?db" if "columns_ok J db"
      by (rule update_columns [OF that]) (simp add: text_round [OF assms(1)])
    show "blocked_by_of J ?db = blocked_by_of J db"
      by (rule ext) (simp add: blocked_by_of_def row_of_update split: option.split)
    show "blocks_of J ?db = (blocks_of J db)(dep := add_last x (blocks_of J db dep))"
      using row by (auto simp: blocks_of_def row_of_update text_round [OF assms(1)] split: option.split)
  qed
  ultimately show ?thesis by (rule that)
qed

lemma remove_links:
  assumes "json_ok J" and "row_of db x \<noteq> None"
  obtains db' where "remove_from_blocked_by J now x y db = (Inr (), db')"
    and "links_to J db db'
           ((blocked_by_of J db)(x := filter (\<lambda>i. i \<noteq> y) (blocked_by_of J db x))) (blocks_of J db)"
proof -
  obtain row where row: "row_of db x = Some row" using assms(2) by auto
  let ?f = "\<lambda>r. r\<lparr>tr_blocked_by :=
      text_or_brackets J (filter (\<lambda>i. i \<noteq> y) (list_or_default J (tr_blocked_by row))), tr_updated_at := now\<rparr>"
  let ?db = "update_where_id x ?f db"
  have "remove_from_blocked_by J now x y db = (Inr (), ?db)"
    using row by (simp add: remove_from_blocked_by_def row_of_def Let_def)
  moreover have "links_to J db ?db
      ((blocked_by_of J db)(x := filter (\<lambda>i. i \<noteq> y) (blocked_by_of J db x))) (blocks_of J db)"
    unfolding links_to_def
  proof (intro conjI impI)
    show "same_tasks db ?db" by (rule update_same_tasks) simp
    show "columns_ok J ?db" if "columns_ok J db"
      by (rule update_columns [OF that]) (simp add: text_round [OF assms(1)])
    show "blocks_of J ?db = blocks_of J db"
      by (rule ext) (simp add: blocks_of_def row_of_update split: option.split)
    show "blocked_by_of J ?db =
        (blocked_by_of J db)(x := filter (\<lambda>i. i \<noteq> y) (blocked_by_of J db x))"
      using row
      by (auto simp: blocked_by_of_def row_of_update text_round [OF assms(1)] split: option.split)
  qed
  ultimately show ?thesis by (rule that)
qed

lemma links_to_trans:
  "links_to J a b blocked blocks \<Longrightarrow> links_to J b c blocked' blocks' \<Longrightarrow> links_to J a c blocked' blocks'"
  by (auto simp: links_to_def intro: same_tasks_trans)

lemma append_all_links:
  assumes "json_ok J" and "\<forall>dep \<in> set deps. row_of db dep \<noteq> None"
  shows "\<exists>db'. append_all J now x deps db = (Inr (), db') \<and>
           links_to J db db' (blocked_by_of J db)
             (\<lambda>i. if i \<in> set deps then add_last x (blocks_of J db i) else blocks_of J db i)"
  using assms(2)
proof (induction deps arbitrary: db)
  case Nil
  then show ?case by (simp add: links_to_def)
next
  case (Cons dep deps)
  obtain db1 where db1: "append_to_blocks J now dep x db = (Inr (), db1)"
    "links_to J db db1 (blocked_by_of J db) ((blocks_of J db)(dep := add_last x (blocks_of J db dep)))"
    using append_links [OF assms(1), of db dep now x] Cons.prems by auto
  have "\<forall>d \<in> set deps. row_of db1 d \<noteq> None"
    using Cons.prems db1(2) same_tasks_row [of db db1] by (simp add: links_to_def)
  from Cons.IH [OF this] obtain db2 where db2: "append_all J now x deps db1 = (Inr (), db2)"
    "links_to J db1 db2 (blocked_by_of J db1)
       (\<lambda>i. if i \<in> set deps then add_last x (blocks_of J db1 i) else blocks_of J db1 i)" by blast
  have "add_last x (add_last x xs) = add_last x xs" for xs by (simp add: add_last_def)
  then have "(\<lambda>i. if i \<in> set deps then add_last x (blocks_of J db1 i) else blocks_of J db1 i) =
      (\<lambda>i. if i \<in> set (dep # deps) then add_last x (blocks_of J db i) else blocks_of J db i)"
    using db1(2) by (auto simp: links_to_def)
  with links_to_trans [OF db1(2) db2(2)] db1 db2 show ?case by (simp add: links_to_def)
qed

lemma remove_all_links:
  assumes "json_ok J" and "\<forall>x \<in> set xs. row_of db x \<noteq> None"
  shows "\<exists>db'. remove_all J now y xs db = (Inr (), db') \<and>
           links_to J db db'
             (\<lambda>i. if i \<in> set xs then filter (\<lambda>j. j \<noteq> y) (blocked_by_of J db i) else blocked_by_of J db i)
             (blocks_of J db)"
  using assms(2)
proof (induction xs arbitrary: db)
  case Nil
  then show ?case by (simp add: links_to_def)
next
  case (Cons x xs)
  obtain db1 where db1: "remove_from_blocked_by J now x y db = (Inr (), db1)"
    "links_to J db db1 ((blocked_by_of J db)(x := filter (\<lambda>i. i \<noteq> y) (blocked_by_of J db x)))
       (blocks_of J db)"
    using remove_links [OF assms(1), of db x now y] Cons.prems by auto
  have "\<forall>d \<in> set xs. row_of db1 d \<noteq> None"
    using Cons.prems db1(2) same_tasks_row [of db db1] by (simp add: links_to_def)
  from Cons.IH [OF this] obtain db2 where db2: "remove_all J now y xs db1 = (Inr (), db2)"
    "links_to J db1 db2
       (\<lambda>i. if i \<in> set xs then filter (\<lambda>j. j \<noteq> y) (blocked_by_of J db1 i) else blocked_by_of J db1 i)
       (blocks_of J db1)" by blast
  have "(\<lambda>i. if i \<in> set xs then filter (\<lambda>j. j \<noteq> y) (blocked_by_of J db1 i) else blocked_by_of J db1 i) =
      (\<lambda>i. if i \<in> set (x # xs) then filter (\<lambda>j. j \<noteq> y) (blocked_by_of J db i)
           else blocked_by_of J db i)"
    using db1(2) by (auto simp: links_to_def)
  with links_to_trans [OF db1(2) db2(2)] db1 db2 show ?case by (simp add: links_to_def)
qed

section \<open>Every operation keeps the links\<close>

lemma links_okD:
  assumes "links_ok J db"
  shows "distinct (map tr_id (db_tasks db))" and "columns_ok J db"
    and "x \<in> set (blocks_of J db i) \<Longrightarrow> row_of db x \<noteq> None"
    and "y \<in> set (blocked_by_of J db i) \<Longrightarrow> i \<in> set (blocks_of J db y)"
  using assms unfolding links_ok_def by blast+

lemma links_ok_same:
  "links_ok J db \<Longrightarrow> links_to J db db' (blocked_by_of J db) (blocks_of J db) \<Longrightarrow> links_ok J db'"
  unfolding links_ok_def links_to_def
  using same_tasks_ids [of db db'] same_tasks_row [of db db'] by (metis (no_types, lifting))

lemma found_in_team:
  assumes "links_ok J db" and "find_task_by_id team i db = Some row"
  shows "row_of db i = Some row" and "row \<in> set (db_tasks db)" and "tr_id row = i"
    and "tr_team_id row = team"
proof -
  show r: "row_of db i = Some row" and "tr_team_id row = team"
    using assms(2) find_in_team [OF links_okD(1) [OF assms(1)], of team i]
    by (auto split: option.splits if_splits)
  show "row \<in> set (db_tasks db)" "tr_id row = i" using find_row [OF r] by simp_all
qed

lemma row_of_append:
  "tr_id row \<notin> set (map tr_id (db_tasks db)) \<Longrightarrow>
     row_of (db\<lparr>db_tasks := db_tasks db @ [row]\<rparr>) i = (if i = tr_id row then Some row else row_of db i)"
proof -
  assume new: "tr_id row \<notin> set (map tr_id (db_tasks db))"
  have "find P (xs @ [x]) = (case find P xs of None \<Rightarrow> if P x then Some x else None | Some y \<Rightarrow> Some y)"
    for P and xs :: "task_row list" and x by (induction xs) auto
  then show ?thesis
    using row_of_None [of db "tr_id row"] new
    by (auto simp: row_of_def split: option.split)
qed

text \<open>\<open>grows J db db'\<close>: no task loses a blocker, and a new link of the one kind is one of the other, too.\<close>

definition grows :: "'v json_codec \<Rightarrow> team_db \<Rightarrow> team_db \<Rightarrow> bool" where
  "grows J db db' \<longleftrightarrow>
     (\<forall>i j. i \<in> set (blocked_by_of J db j) \<longrightarrow> i \<in> set (blocked_by_of J db' j)) \<and>
     (\<forall>i j. j \<in> set (blocks_of J db' i) \<longrightarrow> j \<in> set (blocks_of J db i) \<or> i \<in> set (blocked_by_of J db' j))"

lemma grows_refl [simp]: "grows J db db"
  by (simp add: grows_def)

lemma create_links:
  assumes J: "json_ok J" and ok: "links_ok J db"
  shows "links_ok J (snd (create_task J fresh now team subject description owner deps db)) \<and>
    grows J db (snd (create_task J fresh now team subject description owner deps db))"
proof (cases "missing_dependency team deps db = None \<and> fresh \<notin> set (map tr_id (db_tasks db))")
  case False
  then show ?thesis
    using ok by (auto simp: create_task_def create_task_row_def new_task_row_def Let_def
        split: option.splits sum.splits prod.splits)
next
  case True
  obtain t where t: "js_list_to_string J deps = Some t" "js_list_from_str J t = Some deps"
    using json_list [OF J] .
  let ?row = "new_task_row fresh now team subject description owner t"
  define db1 where "db1 = db\<lparr>db_tasks := db_tasks db @ [?row]\<rparr>"
  have id: "tr_id ?row = fresh" and cols: "tr_blocked_by ?row = t" "tr_blocks ?row = ''[]''"
    by (simp_all add: new_task_row_def)
  have row1: "row_of db1 i = (if i = fresh then Some ?row else row_of db i)" for i
    using True row_of_append [of ?row db] id by (simp add: db1_def)
  have new: "row_of db fresh = None" using True by (simp add: row_of_None)
  have deps: "\<forall>d \<in> set deps. row_of db d \<noteq> None"
    using True found_in_team(1) [OF ok]
    by (fastforce simp: missing_dependency_def find_None_iff)
  have brackets: "js_list_from_str J ''[]'' = Some []" using J by (simp add: json_ok_def)
  have blocked1: "blocked_by_of J db1 i = (if i = fresh then deps else blocked_by_of J db i)" for i
    using t by (simp add: blocked_by_of_def row1 cols list_or_default_def)
  have blocks1: "blocks_of J db1 i = (if i = fresh then [] else blocks_of J db i)" for i
    by (simp add: blocks_of_def row1 cols list_or_default_def brackets)
  have cr: "create_task_row ?row db = (Inr (), db1)"
    using True id by (simp add: create_task_row_def db1_def) (simp add: new_task_row_def)
  have "\<forall>d \<in> set deps. row_of db1 d \<noteq> None" using deps row1 by simp
  from append_all_links [OF J this] obtain db2 where
    ap: "append_all J now fresh deps db1 = (Inr (), db2)" and
    l2: "links_to J db1 db2 (blocked_by_of J db1)
       (\<lambda>i. if i \<in> set deps then add_last fresh (blocks_of J db1 i) else blocks_of J db1 i)" by blast
  have "columns_ok J db1"
    using links_okD(2) [OF ok] t brackets by (auto simp: columns_ok_def db1_def cols)
  then have cols2: "columns_ok J db2" using l2 by (simp add: links_to_def)
  have ids2: "map tr_id (db_tasks db2) = map tr_id (db_tasks db) @ [fresh]"
    using l2 same_tasks_ids [of db1 db2] id by (simp add: links_to_def db1_def)
  have row2: "row_of db2 i = None \<longleftrightarrow> i \<noteq> fresh \<and> row_of db i = None" for i
    using l2 same_tasks_row [of db1 db2 i] row1 by (simp add: links_to_def)
  have "links_ok J db2"
    unfolding links_ok_def
  proof (intro conjI allI ballI)
    show "distinct (map tr_id (db_tasks db2))"
      using ids2 links_okD(1) [OF ok] True by simp
    show "columns_ok J db2" by (rule cols2)
    show "row_of db2 x \<noteq> None" if "x \<in> set (blocks_of J db2 i)" for i x
      using that l2 links_okD(3) [OF ok, of x i] row2 [of x]
      by (auto simp: links_to_def blocks1 add_last_def split: if_splits)
    show "i \<in> set (blocks_of J db2 y)" if "y \<in> set (blocked_by_of J db2 i)" for i y
    proof (cases "i = fresh")
      case True
      then show ?thesis using that l2 by (auto simp: links_to_def blocked1 add_last_def)
    next
      case False
      then have "i \<in> set (blocks_of J db y)"
        using that l2 links_okD(4) [OF ok, of y i] by (simp add: links_to_def blocked1)
      moreover from this have "y \<noteq> fresh" using new by (auto simp: blocks_of_def)
      ultimately show ?thesis using l2 by (simp add: links_to_def blocks1 add_last_def)
    qed
  qed
  moreover have "grows J db db2"
    using l2 new by (auto simp: grows_def links_to_def blocked1 blocks1 add_last_def blocked_by_of_def [of J db fresh])
  ultimately show ?thesis
    using True t cr ap by (simp add: create_task_def Let_def)
qed

lemma update_links:
  assumes J: "json_ok J" and ok: "links_ok J db" and keeps: "tu_blocked_by u = None"
    and found: "find_task_by_id team i db = Some row"
  obtains db' where "snd (update_task J now team i u db) = db'"
    and "\<forall>e. fst (update_task J now team i u db) = Inl e \<longrightarrow> e = JsonError ''''"
    and "links_to J db db'
      (if tu_status u = Some TsCompleted
       then (\<lambda>x. filter (\<lambda>j. j \<noteq> i) (blocked_by_of J db x)) else blocked_by_of J db)
      (blocks_of J db)"
proof -
  note f = found_in_team [OF ok found]
  obtain md where md: "transpose_map (js_value_to_string J) (tu_metadata u) = Some md"
    using J by (cases "tu_metadata u") (force simp: transpose_map_def json_ok_def bind_eq_Some_conv)+
  define params where "params =
    \<lparr>up_status = map_option task_status_to_string (tu_status u), up_description = tu_description u,
     up_owner = tu_owner u, up_blocked_by = None, up_metadata = md\<rparr>"
  have st: "task_status_to_string x \<in> {''pending'', ''in_progress'', ''completed'', ''deleted''}" for x
    by (cases x) simp_all
  have mem: "i \<in> set (map tr_id (db_tasks db))" using f(2,3) by force
  obtain db1 where up: "update_task_row now i params db = (Inr (), db1)"
    and l1: "links_to J db db1 (blocked_by_of J db) (blocks_of J db)"
  proof (cases "up_status params = None \<and> up_description params = None \<and> up_owner params = None \<and>
         up_blocked_by params = None \<and> up_metadata params = None")
    case True
    then show ?thesis by (intro that [of db]) (simp_all add: update_task_row_def links_to_def)
  next
    case False
    let ?db = "update_where_id i (set_columns now params) db"
    have cols: "tr_blocked_by (set_columns now params r) = tr_blocked_by r"
      "tr_blocks (set_columns now params r) = tr_blocks r"
      "tr_id (set_columns now params r) = tr_id r"
      "tr_team_id (set_columns now params r) = tr_team_id r" for r
      by (simp_all add: set_columns_def params_def)
    have "update_task_row now i params db = (Inr (), ?db)"
      using False mem st by (auto simp: update_task_row_def params_def split: option.splits)
    moreover have "links_to J db ?db (blocked_by_of J db) (blocks_of J db)"
      unfolding links_to_def
    proof (intro conjI impI)
      show "same_tasks db ?db" by (rule update_same_tasks) (simp add: cols)
      show "columns_ok J ?db" if "columns_ok J db"
        by (rule update_columns [OF that]) (simp add: cols)
      show "blocked_by_of J ?db = blocked_by_of J db"
        by (rule ext) (simp add: blocked_by_of_def row_of_update cols split: option.split)
      show "blocks_of J ?db = blocks_of J db"
        by (rule ext) (simp add: blocks_of_def row_of_update cols split: option.split)
    qed
    ultimately show ?thesis by (rule that)
  qed
  have ok1: "links_ok J db1" by (rule links_ok_same [OF ok l1])
  have blocks: "js_list_from_str J (tr_blocks row) = Some (blocks_of J db i)"
    using f links_okD(2) [OF ok]
    by (auto simp: blocks_of_def list_or_default_def columns_ok_def)
  let ?after = "if tu_status u = Some TsCompleted then check_unblocks J now i row db1 else (Inr (), db1)"
  have "\<forall>x \<in> set (blocks_of J db i). row_of db1 x \<noteq> None"
    using links_okD(3) [OF ok1, of _ i] l1 by (simp add: links_to_def)
  from remove_all_links [OF J this] obtain db2 where
    rm: "remove_all J now i (blocks_of J db i) db1 = (Inr (), db2)" and
    l2: "links_to J db1 db2
       (\<lambda>x. if x \<in> set (blocks_of J db i) then filter (\<lambda>j. j \<noteq> i) (blocked_by_of J db1 x)
            else blocked_by_of J db1 x) (blocks_of J db1)" by blast
  have un: "filter (\<lambda>j. j \<noteq> i) (blocked_by_of J db x) = blocked_by_of J db x"
    if "x \<notin> set (blocks_of J db i)" for x
    using that links_okD(4) [OF ok, of i x] by (auto intro: filter_True)
  obtain db' where after: "?after = (Inr (), db')"
    and l: "links_to J db db'
      (if tu_status u = Some TsCompleted
       then (\<lambda>x. filter (\<lambda>j. j \<noteq> i) (blocked_by_of J db x)) else blocked_by_of J db) (blocks_of J db)"
  proof (cases "tu_status u = Some TsCompleted")
    case True
    then show ?thesis
      using rm l1 l2 links_to_trans [OF l1 l2] un
      by (intro that [of db2]) (simp_all add: check_unblocks_def blocks links_to_def fun_eq_iff)
  next
    case False
    then show ?thesis using l1 by (intro that [of db1]) simp_all
  qed
  have "\<exists>res. update_task J now team i u db = (res, db') \<and> (\<forall>e. res = Inl e \<longrightarrow> e = JsonError '''')"
  proof -
    have "row_of db' i \<noteq> None" using l same_tasks_row [of db db' i] f(1) by (simp add: links_to_def)
    have *: "update_task J now team i u db =
        (case find_task_by_id team i db' of
           None \<Rightarrow> (Inl (TaskNotFound i), db') | Some r \<Rightarrow> (task_from_row J r, db'))"
      using found md up after keeps
      by (simp add: update_task_def transpose_map_def [of "js_list_to_string J"] params_def [symmetric]
          split del: if_split)
    have "find_task_by_id team i db' \<noteq> None"
    proof -
      have "(i, team) \<in> set (map (\<lambda>r. (tr_id r, tr_team_id r)) (db_tasks db))"
        using f by force
      then have "(i, team) \<in> set (map (\<lambda>r. (tr_id r, tr_team_id r)) (db_tasks db'))"
        using l unfolding links_to_def same_tasks_def by simp
      then show ?thesis by (auto simp: find_task_by_id_def find_None_iff)
    qed
    with * show ?thesis
      by (auto simp: task_from_row_def Let_def split: option.splits)
  qed
  with l show ?thesis by (intro that [of db']) auto
qed

section \<open>The board as a machine\<close>

datatype 'v board_op =
    BoardCreate string timestamp_ms string "string option" "string option" "string list"
  | BoardUpdate timestamp_ms string "'v task_update"

fun board_step :: "'v json_codec \<Rightarrow> string \<Rightarrow> 'v board_op \<Rightarrow> team_db \<Rightarrow> team_db" where
  "board_step J team (BoardCreate fresh now subject description owner deps) db =
     snd (create_task J fresh now team subject description owner deps db)"
| "board_step J team (BoardUpdate now i u) db = snd (update_task J now team i u db)"

fun keeps_blockers :: "'v board_op \<Rightarrow> bool" where
  "keeps_blockers (BoardCreate fresh now subject description owner deps) \<longleftrightarrow> True"
| "keeps_blockers (BoardUpdate now i u) \<longleftrightarrow> tu_blocked_by u = None"

text \<open>The task that an operation completes.\<close>

fun completes :: "'v board_op \<Rightarrow> string option" where
  "completes (BoardCreate fresh now subject description owner deps) = None"
| "completes (BoardUpdate now i u) = (if tu_status u = Some TsCompleted then Some i else None)"

definition completed_in :: "'v board_op list \<Rightarrow> string list" where
  "completed_in ops = List.map_filter completes ops"

text \<open>Both sides of a link agree, when the task that blocks is not one of \<open>completed\<close>.\<close>

definition two_way :: "'v json_codec \<Rightarrow> string list \<Rightarrow> team_db \<Rightarrow> bool" where
  "two_way J completed db \<longleftrightarrow>
     (\<forall>i j. i \<notin> set completed \<longrightarrow> i \<in> set (blocked_by_of J db j) \<longleftrightarrow> j \<in> set (blocks_of J db i))"

lemma filtered_links_ok:
  assumes "links_ok J db"
    and "links_to J db db' (\<lambda>x. filter (\<lambda>j. j \<noteq> i) (blocked_by_of J db x)) (blocks_of J db)"
  shows "links_ok J db'"
  using assms same_tasks_ids [of db db'] same_tasks_row [of db db']
  unfolding links_ok_def links_to_def by (auto simp del: not_None_eq)

lemma two_way_iff:
  assumes "links_ok J db"
  shows "two_way J completed db \<longleftrightarrow>
    (\<forall>i j. i \<notin> set completed \<longrightarrow> j \<in> set (blocks_of J db i) \<longrightarrow> i \<in> set (blocked_by_of J db j))"
  using links_okD(4) [OF assms] by (auto simp: two_way_def)

lemma two_way_grows:
  assumes "links_ok J db" and "links_ok J db'" and "two_way J completed db" and "grows J db db'"
  shows "two_way J completed db'"
  using assms(3,4) unfolding two_way_iff [OF assms(1)] two_way_iff [OF assms(2)] grows_def by blast

lemma board_step_links:
  assumes J: "json_ok J" and ok: "links_ok J db" and "keeps_blockers op" and two: "two_way J done db"
  shows "links_ok J (board_step J team op db) \<and>
    two_way J (done @ (case completes op of None \<Rightarrow> [] | Some i \<Rightarrow> [i])) (board_step J team op db)"
proof (cases op)
  case (BoardCreate fresh now subject description owner deps)
  then show ?thesis
    using create_links [OF J ok] two_way_grows [OF ok _ two] by simp
next
  case (BoardUpdate now i u)
  then have keeps: "tu_blocked_by u = None" using assms(3) by simp
  show ?thesis
  proof (cases "find_task_by_id team i db")
    case None
    then show ?thesis using BoardUpdate ok two by (simp add: update_task_def two_way_def)
  next
    case (Some row)
    from update_links [OF J ok keeps Some, of now] obtain db' where db':
      "snd (update_task J now team i u db) = db'"
      "links_to J db db'
        (if tu_status u = Some TsCompleted
         then (\<lambda>x. filter (\<lambda>j. j \<noteq> i) (blocked_by_of J db x)) else blocked_by_of J db) (blocks_of J db)"
      by blast
    then have "links_ok J db'"
      using filtered_links_ok [OF ok] links_ok_same [OF ok] by (simp split: if_splits)
    moreover have "two_way J (done @ (case completes op of None \<Rightarrow> [] | Some i \<Rightarrow> [i])) db'"
      using two db'(2) BoardUpdate by (auto simp: two_way_def links_to_def split: if_splits)
    ultimately show ?thesis
      using BoardUpdate db'(1) by simp
  qed
qed

lemma links_ok_empty: "links_ok J empty_db" and two_way_empty: "two_way J [] empty_db"
  by (simp_all add: links_ok_def two_way_def columns_ok_def empty_db_def new_db_def blocks_of_def
      blocked_by_of_def row_of_def)

lemma board_two_way:
  assumes "json_ok J"
  shows "links_ok J db \<Longrightarrow> two_way J done db \<Longrightarrow> list_all keeps_blockers ops \<Longrightarrow>
    links_ok J (fold (board_step J team) ops db) \<and>
    two_way J (done @ completed_in ops) (fold (board_step J team) ops db)"
proof (induction ops arbitrary: db "done")
  case (Cons op ops)
  from board_step_links [OF assms Cons.prems(1) _ Cons.prems(2), of op team] Cons.prems(3)
    Cons.IH [of "board_step J team op db" "done @ (case completes op of None \<Rightarrow> [] | Some i \<Rightarrow> [i])"]
  show ?case
    by (cases "completes op") (simp_all add: completed_in_def map_filter_simps)
qed (simp add: completed_in_def map_filter_simps)

lemma board_links:
  "json_ok J \<Longrightarrow> list_all keeps_blockers ops \<Longrightarrow> links_ok J (fold (board_step J team) ops empty_db)"
  using board_two_way [OF _ links_ok_empty two_way_empty] by blast

section \<open>Properties\<close>

text \<open>
  C24. The links of the board stay two-way: after any sequence of creations and of updates that do
  not set the blockers of a task, a task that no update of the sequence has completed blocks exactly
  the tasks that say they are blocked by it. Whatever was completed, every task that is blocked by
  another is named by it as one it blocks, every task named this way exists, and the columns parse.
  (A completed task still names the tasks it blocked: completing clears one side of the link only.)
\<close>

theorem links_stay_two_way:
  assumes "json_ok J" and "list_all keeps_blockers ops"
  shows "let db = fold (board_step J team) ops empty_db in
    (\<forall>i j. i \<notin> set (completed_in ops) \<longrightarrow>
       (i \<in> set (blocked_by_of J db j) \<longleftrightarrow> j \<in> set (blocks_of J db i))) \<and>
    (\<forall>i j. i \<in> set (blocked_by_of J db j) \<longrightarrow> j \<in> set (blocks_of J db i)) \<and>
    (\<forall>i j. j \<in> set (blocks_of J db i) \<longrightarrow> row_of db j \<noteq> None) \<and> columns_ok J db"
  using board_two_way [OF assms(1) links_ok_empty two_way_empty assms(2), of team]
  by (auto simp: Let_def two_way_def dest: links_okD)

definition demo_board :: "string board_op list" where
  "demo_board =
     [BoardCreate ''a'' 1 ''A'' None None [], BoardCreate ''b'' 2 ''B'' None None [''a''],
      BoardCreate ''c'' 3 ''C'' None None [''a'', ''b'']]"

lemmas board_eval =
  create_task_def missing_dependency_def find_task_by_id_def empty_db_def new_db_def pairs_codec_def
  create_task_row_def new_task_row_def append_to_blocks_def update_where_id_def
  list_or_default_def text_or_brackets_def blocked_by_of_def row_of_def task_from_row_def
  update_task_def no_task_update_def transpose_map_def update_task_row_def
  set_columns_def check_unblocks_def remove_from_blocked_by_def Let_def

definition complete_update :: "'v task_update" where
  "complete_update = no_task_update\<lparr>tu_status := Some TsCompleted\<rparr>"

text \<open>Of three tasks the first is completed: the link between the other two is two-way.\<close>

theorem links_stay_two_way_witness:
  "let ops = demo_board @ [BoardUpdate 4 ''a'' complete_update];
       db = fold (board_step pairs_codec ''team'') ops empty_db in
    completed_in ops = [''a''] \<and>
    blocked_by_of pairs_codec db ''c'' = [''b''] \<and> ''c'' \<in> set (blocks_of pairs_codec db ''b'') \<and>
    ''b'' \<notin> set (blocks_of pairs_codec db ''b'')"
proof -
  let ?ops = "demo_board @ [BoardUpdate 4 ''a'' complete_update]"
  let ?db = "fold (board_step pairs_codec ''team'') ?ops empty_db"
  have "list_all keeps_blockers ?ops"
    by (simp add: demo_board_def complete_update_def no_task_update_def)
  note two_way = links_stay_two_way [OF pairs_codec_ok this, of "''team''", unfolded Let_def]
  have c: "completed_in ?ops = [''a'']"
    by (simp add: completed_in_def demo_board_def complete_update_def no_task_update_def List.map_filter_def)
  have b: "blocked_by_of pairs_codec ?db ''c'' = [''b'']" "blocked_by_of pairs_codec ?db ''b'' = []"
    by (simp_all add: demo_board_def complete_update_def board_eval)
  have "''b'' \<notin> set (completed_in ?ops)"
    by (simp add: c)
  with two_way have "''b'' \<in> set (blocked_by_of pairs_codec ?db j) \<longleftrightarrow> j \<in> set (blocks_of pairs_codec ?db ''b'')" for j
    by blast
  from this [of "''c''"] this [of "''b''"] show ?thesis
    unfolding Let_def using c b by simp
qed

text \<open>The other side of the link of a completed task stays.\<close>

lemma completed_task_keeps_blocks:
  "let db = fold (board_step pairs_codec ''team'') (demo_board @ [BoardUpdate 4 ''a'' complete_update]) empty_db in
    blocks_of pairs_codec db ''a'' = [''b'', ''c''] \<and>
    blocked_by_of pairs_codec db ''b'' = [] \<and> blocked_by_of pairs_codec db ''c'' = [''b'']"
  by (simp add: demo_board_def complete_update_def board_eval blocks_of_def)

text \<open>
  C25. Completing a task unblocks everything it blocked: when the links are two-way and the
  update sets no blockers, no task is blocked by the completed one afterwards, and every task
  keeps its other blockers in their order. The update can only fail on a metadata column that
  does not parse, after it has taken effect.
\<close>

theorem completing_unblocks_all:
  assumes "json_ok J" and "links_ok J db" and "find_task_by_id team i db = Some row"
    and "tu_status u = Some TsCompleted" and "tu_blocked_by u = None"
  shows "blocked_by_of J (snd (update_task J now team i u db)) =
           (\<lambda>x. filter (\<lambda>j. j \<noteq> i) (blocked_by_of J db x)) \<and>
         fst (update_task J now team i u db) \<in> range Inr \<union> {Inl (JsonError '''')}"
proof -
  from update_links [OF assms(1,2,5,3), of now] obtain db' where db':
    "snd (update_task J now team i u db) = db'"
    "\<forall>e. fst (update_task J now team i u db) = Inl e \<longrightarrow> e = JsonError ''''"
    "links_to J db db'
      (if tu_status u = Some TsCompleted
       then (\<lambda>x. filter (\<lambda>j. j \<noteq> i) (blocked_by_of J db x)) else blocked_by_of J db) (blocks_of J db)"
    by blast
  then have "links_to J db db' (\<lambda>x. filter (\<lambda>j. j \<noteq> i) (blocked_by_of J db x)) (blocks_of J db)"
    using assms(4) by simp
  with db'(1,2) show ?thesis
    by (cases "fst (update_task J now team i u db)") (auto simp: links_to_def)
qed

theorem completing_unblocks_all_witness:
  "let db = fold (board_step pairs_codec ''team'') demo_board empty_db;
       db' = snd (update_task pairs_codec 9 ''team'' ''a'' complete_update db)
   in blocked_by_of pairs_codec db ''c'' = [''a'', ''b''] \<and> blocked_by_of pairs_codec db' ''c'' = [''b'']"
proof -
  let ?db = "fold (board_step pairs_codec ''team'') demo_board empty_db"
  have ok: "links_ok pairs_codec ?db"
    by (rule board_links [OF pairs_codec_ok]) (simp add: demo_board_def)
  have ev: "blocked_by_of pairs_codec ?db ''c'' = [''a'', ''b'']"
    "find_task_by_id ''team'' ''a'' ?db \<noteq> None"
    by (simp_all add: demo_board_def create_task_def missing_dependency_def find_task_by_id_def
        empty_db_def new_db_def pairs_codec_def create_task_row_def new_task_row_def append_to_blocks_def
        update_where_id_def list_or_default_def text_or_brackets_def blocked_by_of_def row_of_def
        task_from_row_def Let_def)
  from ev(2) obtain row where row: "find_task_by_id ''team'' ''a'' ?db = Some row" by blast
  show ?thesis
    using completing_unblocks_all [OF pairs_codec_ok ok row, of complete_update 9] ev(1)
    by (simp add: complete_update_def no_task_update_def Let_def)
qed

text \<open>
  Two ways to leave a task blocked for good. A task created with a dependency that is
  already completed is blocked by it, and a task that is made to wait for another by an update is
  not told to it, so that completing the other leaves it blocked.
\<close>

theorem tasks_blocked_for_good:
  "blocked_by_of pairs_codec
     (fold (board_step pairs_codec ''team'')
        [BoardCreate ''a'' 1 ''A'' None None [], BoardUpdate 2 ''a'' complete_update,
         BoardCreate ''b'' 3 ''B'' None None [''a'']] empty_db) ''b'' = [''a''] \<and>
   blocked_by_of pairs_codec
     (fold (board_step pairs_codec ''team'')
        [BoardCreate ''a'' 1 ''A'' None None [], BoardCreate ''b'' 2 ''B'' None None [],
         BoardUpdate 3 ''b'' (no_task_update\<lparr>tu_blocked_by := Some [''a'']\<rparr>),
         BoardUpdate 4 ''a'' complete_update] empty_db) ''b'' = [''a'']"
  by (simp add: board_eval complete_update_def)

end
