(* ===== verification/Scheduler.thy ===== *)
theory Scheduler
  imports TaskBoard
begin

text \<open>
  The scheduler of a team (\<open>TeammateManager\<close>, \<open>veryagent-team/src/scheduler/\<close>): the slots of the
  agents with their status, the wake locks and the finalize window, over the mailbox and the task
  board. An operation takes the scheduler and returns its result, the scheduler after it and the
  events it broadcasts; \<open>?\<close> is \<open>sched_bind\<close>. The identifiers drawn by \<open>generate_id\<close> come from the
  environment by number of draws, the clock is an argument.
\<close>

section \<open>State\<close>

record agent_slot =
  as_agent :: team_agent
  as_status :: teammate_status
  as_needs_role_prompt :: bool

record scheduler =
  sch_team_id :: string
  sch_slots :: "(string, agent_slot) hmap"
  sch_active_wakes :: "string set"
  sch_finalized_turns :: "(string, timestamp_ms) hmap"
  sch_wake_timeouts :: "(string, nat) hmap"
  sch_db :: team_db
  sch_drawn :: nat

text \<open>Text operations of the standard library whose tables are Unicode's.\<close>

record std_text =
  st_is_whitespace :: "char \<Rightarrow> bool"
  st_is_control :: "char \<Rightarrow> bool"
  st_to_lowercase :: "string \<Rightarrow> string"

record 'v env =
  env_json :: "'v json_codec"
  env_text :: std_text
  env_generate_id :: "nat \<Rightarrow> string"

datatype sched_event =
    AgentStatusChanged string teammate_status
  | AgentSpawned team_agent
  | AgentRemoved string
  | AgentRenamed string string

type_synonym 'r sched_result = "(team_error + 'r) \<times> scheduler \<times> sched_event list"

definition sched_return :: "'r \<Rightarrow> scheduler \<Rightarrow> 'r sched_result" where
  "sched_return x s = (Inr x, s, [])"

definition sched_fail :: "team_error \<Rightarrow> scheduler \<Rightarrow> 'r sched_result" where
  "sched_fail e s = (Inl e, s, [])"

definition sched_bind ::
  "(scheduler \<Rightarrow> 'a sched_result) \<Rightarrow> ('a \<Rightarrow> scheduler \<Rightarrow> 'b sched_result) \<Rightarrow> scheduler \<Rightarrow> 'b sched_result"
where
  "sched_bind m f s =
     (case m s of
        (Inl e, s', evs) \<Rightarrow> (Inl e, s', evs)
      | (Inr x, s', evs) \<Rightarrow> (case f x s' of (r, s'', evs') \<Rightarrow> (r, s'', evs @ evs')))"

definition FINALIZE_DEDUP_WINDOW :: int where
  "FINALIZE_DEDUP_WINDOW = 5 * 1000"

definition normalize_name :: "std_text \<Rightarrow> string \<Rightarrow> string" where
  "normalize_name T name =
     st_to_lowercase T (filter (\<lambda>c. \<not> st_is_control T c) (str_trim (st_is_whitespace T) name))"

definition is_settled :: "teammate_status \<Rightarrow> bool" where
  "is_settled st \<longleftrightarrow> st \<in> {SIdle, SCompleted, SError}"

definition new_slot :: "team_agent \<Rightarrow> agent_slot" where
  "new_slot agent = \<lparr>as_agent = agent, as_status = SIdle, as_needs_role_prompt = True\<rparr>"

definition new_scheduler :: "string \<Rightarrow> team_agent list \<Rightarrow> team_db \<Rightarrow> scheduler" where
  "new_scheduler team_id agents db =
     \<lparr>sch_team_id = team_id,
      sch_slots = fold (\<lambda>agent slots.
                     let a = agent\<lparr>ta_status := Some SIdle\<rparr>
                     in hm_insert (ta_slot_id a) (new_slot a) slots) agents [],
      sch_active_wakes = {}, sch_finalized_turns = [], sch_wake_timeouts = [], sch_db = db,
      sch_drawn = 0\<rparr>"

definition get_agent :: "string \<Rightarrow> scheduler \<Rightarrow> team_agent sched_result" where
  "get_agent slot_id s =
     (case hm_get (sch_slots s) slot_id of
        None \<Rightarrow> sched_fail (AgentNotFound slot_id) s
      | Some slot \<Rightarrow> sched_return (as_agent slot) s)"

definition list_agents :: "scheduler \<Rightarrow> team_agent list" where
  "list_agents s = map as_agent (hm_values (sch_slots s))"

definition sched_list_tasks :: "'v env \<Rightarrow> scheduler \<Rightarrow> 'v team_task list" where
  "sched_list_tasks E s = list_tasks (env_json E) (sch_team_id s) (sch_db s)"

definition find_lead_slot_id :: "scheduler \<Rightarrow> string option" where
  "find_lead_slot_id s =
     map_option (\<lambda>slot. ta_slot_id (as_agent slot))
       (find (\<lambda>slot. ta_role (as_agent slot) = LeadRole) (hm_values (sch_slots s)))"

text \<open>One write to the mailbox of the team: it draws an identifier whether it succeeds or not.\<close>

definition sched_write ::
  "'v env \<Rightarrow> timestamp_ms \<Rightarrow> string \<Rightarrow> string \<Rightarrow> mailbox_message_type \<Rightarrow> string \<Rightarrow> string option
   \<Rightarrow> scheduler \<Rightarrow> mailbox_message sched_result" where
  "sched_write E now to_agent from_agent ty content summary s =
     (case mailbox_write (env_json E) (env_generate_id E (sch_drawn s)) now (sch_team_id s) to_agent
             from_agent ty content summary (sch_db s) of
        (r, db) \<Rightarrow> (r, s\<lparr>sch_db := db, sch_drawn := Suc (sch_drawn s)\<rparr>, []))"

section \<open>Status\<close>

definition set_status :: "string \<Rightarrow> teammate_status \<Rightarrow> scheduler \<Rightarrow> unit sched_result" where
  "set_status slot_id status s =
     (if hm_has (sch_slots s) slot_id then
        (Inr (),
         s\<lparr>sch_slots :=
             hm_modify slot_id
               (\<lambda>slot. slot\<lparr>as_status := status,
                            as_agent := (as_agent slot)\<lparr>ta_status := Some status\<rparr>\<rparr>)
               (sch_slots s)\<rparr>,
         [AgentStatusChanged slot_id status])
      else sched_fail (AgentNotFound slot_id) s)"

definition get_status :: "string \<Rightarrow> scheduler \<Rightarrow> teammate_status sched_result" where
  "get_status slot_id s =
     (case hm_get (sch_slots s) slot_id of
        None \<Rightarrow> sched_fail (AgentNotFound slot_id) s
      | Some slot \<Rightarrow> sched_return (as_status slot) s)"

record 'v wake_payload =
  wp_agent :: team_agent
  wp_tasks :: "'v team_task list"
  wp_unread_messages :: "mailbox_message list"

definition build_wake_payload :: "'v env \<Rightarrow> string \<Rightarrow> scheduler \<Rightarrow> 'v wake_payload sched_result" where
  "build_wake_payload E slot_id =
     sched_bind (get_agent slot_id) (\<lambda>agent s.
       let tasks = sched_list_tasks E s;
           (unread, db) = read_unread (env_json E) (sch_team_id s) slot_id (sch_db s)
       in (Inr \<lparr>wp_agent = agent, wp_tasks = tasks, wp_unread_messages = unread\<rparr>,
           s\<lparr>sch_db := db\<rparr>, []))"

definition try_wake :: "'v env \<Rightarrow> string \<Rightarrow> scheduler \<Rightarrow> 'v wake_payload option sched_result" where
  "try_wake E slot_id =
     sched_bind (get_status slot_id) (\<lambda>current.
       if current \<noteq> SIdle then sched_return None
       else sched_bind (set_status slot_id SWorking) (\<lambda>_.
              sched_bind (build_wake_payload E slot_id) (\<lambda>payload. sched_return (Some payload))))"

text \<open>The loop over the slots, left at the first teammate that has not settled.\<close>

fun scan_slots :: "agent_slot list \<Rightarrow> string option \<times> bool \<times> bool \<Rightarrow> string option \<times> bool \<times> bool" where
  "scan_slots [] acc = acc"
| "scan_slots (slot # slots) (lead, settled, has) =
     (if ta_role (as_agent slot) = LeadRole
      then scan_slots slots (Some (ta_slot_id (as_agent slot)), settled, has)
      else if \<not> is_settled (as_status slot) then (lead, False, True)
      else scan_slots slots (lead, settled, True))"

definition maybe_wake_leader_when_all_idle :: "scheduler \<Rightarrow> string option sched_result" where
  "maybe_wake_leader_when_all_idle s =
     (case scan_slots (hm_values (sch_slots s)) (None, True, False) of
        (lead_slot_id, all_settled, has_teammates) \<Rightarrow>
          (case lead_slot_id of
             None \<Rightarrow> sched_return None s
           | Some lead_id \<Rightarrow>
               if \<not> has_teammates then sched_return None s
               else if \<not> all_settled then sched_return None s
               else
                 let lead_is_idle = (case hm_get (sch_slots s) lead_id of
                                       None \<Rightarrow> False | Some slot \<Rightarrow> as_status slot = SIdle)
                 in if \<not> lead_is_idle then sched_return None s
                    else sched_return (Some lead_id) s))"

definition notify_lead_idle ::
  "'v env \<Rightarrow> timestamp_ms \<Rightarrow> string \<Rightarrow> string option \<Rightarrow> scheduler \<Rightarrow> unit sched_result" where
  "notify_lead_idle E now slot_id summary s =
     (case find_lead_slot_id s of
        None \<Rightarrow> sched_return () s
      | Some lead_slot_id \<Rightarrow>
          if lead_slot_id \<noteq> slot_id then
            sched_bind (sched_write E now lead_slot_id slot_id MtIdleNotification
                          (case summary of None \<Rightarrow> ''idle'' | Some t \<Rightarrow> t) summary)
              (\<lambda>_. sched_return ()) s
          else sched_return () s)"

definition mark_idle ::
  "'v env \<Rightarrow> timestamp_ms \<Rightarrow> string \<Rightarrow> string option \<Rightarrow> scheduler \<Rightarrow> string option sched_result" where
  "mark_idle E now slot_id summary =
     sched_bind (set_status slot_id SIdle) (\<lambda>_.
       sched_bind (get_agent slot_id) (\<lambda>agent.
         if ta_role agent = LeadRole then sched_return None
         else sched_bind (notify_lead_idle E now slot_id summary)
                (\<lambda>_. maybe_wake_leader_when_all_idle)))"

definition take_needs_role_prompt :: "string \<Rightarrow> scheduler \<Rightarrow> bool \<times> scheduler" where
  "take_needs_role_prompt slot_id s =
     (case hm_get (sch_slots s) slot_id of
        None \<Rightarrow> (False, s)
      | Some slot \<Rightarrow>
          (as_needs_role_prompt slot,
           s\<lparr>sch_slots := hm_modify slot_id (\<lambda>sl. sl\<lparr>as_needs_role_prompt := False\<rparr>) (sch_slots s)\<rparr>))"

section \<open>Wake locks\<close>

definition acquire_wake_lock :: "string \<Rightarrow> scheduler \<Rightarrow> bool \<times> scheduler" where
  "acquire_wake_lock slot_id s =
     (slot_id \<notin> sch_active_wakes s, s\<lparr>sch_active_wakes := insert slot_id (sch_active_wakes s)\<rparr>)"

definition release_wake_lock :: "string \<Rightarrow> scheduler \<Rightarrow> scheduler" where
  "release_wake_lock slot_id s = s\<lparr>sch_active_wakes := sch_active_wakes s - {slot_id}\<rparr>"

definition is_wake_active :: "string \<Rightarrow> scheduler \<Rightarrow> bool" where
  "is_wake_active slot_id s = (slot_id \<in> sch_active_wakes s)"

text \<open>Aborting the handle of a timeout has no effect on this state.\<close>

definition clear_wake_timeout :: "string \<Rightarrow> scheduler \<Rightarrow> scheduler" where
  "clear_wake_timeout slot_id s = s\<lparr>sch_wake_timeouts := hm_remove slot_id (sch_wake_timeouts s)\<rparr>"

section \<open>Agents joining and leaving\<close>

definition add_agent :: "team_agent \<Rightarrow> scheduler \<Rightarrow> unit sched_result" where
  "add_agent agent s =
     (Inr (), s\<lparr>sch_slots := hm_insert (ta_slot_id agent) (new_slot agent) (sch_slots s)\<rparr>,
      [AgentSpawned agent])"

definition clear_agent_state :: "string \<Rightarrow> string \<Rightarrow> scheduler \<Rightarrow> scheduler" where
  "clear_agent_state slot_id conversation_id s =
     (let s1 = s\<lparr>sch_active_wakes := sch_active_wakes s - {slot_id}\<rparr>;
          s2 = clear_wake_timeout slot_id s1
      in s2\<lparr>sch_finalized_turns := hm_remove conversation_id (sch_finalized_turns s2)\<rparr>)"

definition remove_agent :: "string \<Rightarrow> scheduler \<Rightarrow> string option sched_result" where
  "remove_agent slot_id s =
     (case hm_get (sch_slots s) slot_id of
        None \<Rightarrow> sched_fail (AgentNotFound slot_id) s
      | Some removed \<Rightarrow>
          let conversation_id = ta_conversation_id (as_agent removed);
              s1 = s\<lparr>sch_slots := hm_remove slot_id (sch_slots s)\<rparr>;
              s2 = clear_agent_state slot_id conversation_id s1
          in (Inr (Some conversation_id), s2, [AgentRemoved slot_id]))"

definition rename_agent :: "'v env \<Rightarrow> string \<Rightarrow> string \<Rightarrow> scheduler \<Rightarrow> unit sched_result" where
  "rename_agent E slot_id new_name s =
     (let normalized = normalize_name (env_text E) new_name
      in if normalized = [] then
           sched_fail (InvalidRequest ''rename_agent.new_name is empty after normalization'') s
         else if \<not> hm_has (sch_slots s) slot_id then sched_fail (AgentNotFound slot_id) s
         else if list_ex (\<lambda>(i, slot). i \<noteq> slot_id \<and>
                    normalize_name (env_text E) (ta_name (as_agent slot)) = normalized) (sch_slots s)
         then sched_fail (DuplicateAgentName new_name) s
         else
           (Inr (),
            s\<lparr>sch_slots :=
                hm_modify slot_id
                  (\<lambda>slot. slot\<lparr>as_agent := (as_agent slot)\<lparr>ta_name := new_name\<rparr>\<rparr>) (sch_slots s)\<rparr>,
            [AgentRenamed slot_id new_name]))"

end
