(* ===== verification/SchedulerActions.thy ===== *)
theory SchedulerActions
  imports Scheduler
begin

text \<open>
  What an agent asks of the scheduler at the end of a turn (\<open>scheduler/actions.rs\<close>), what a crash
  or a timeout of an agent does (\<open>scheduler/crash_recovery.rs\<close>, \<open>crash_detection.rs\<close>), and the
  window in which a second finish of a turn is ignored (\<open>scheduler/dedup.rs\<close>).
\<close>

section \<open>Actions\<close>

datatype scheduler_action =
    ActSendMessage string string
  | ActTaskCreate string "string option" "string option" "string list"
  | ActTaskUpdate string "string option" "string option" "string option" "string list option"
  | ActSpawnAgent string string string
  | ActIdleNotification "string option"
  | ActShutdownAgent string "string option"
  | ActRenameAgent string string

fun write_to_all ::
  "'v env \<Rightarrow> timestamp_ms \<Rightarrow> string \<Rightarrow> string \<Rightarrow> string list \<Rightarrow> scheduler \<Rightarrow> unit sched_result" where
  "write_to_all E now from_slot message [] = sched_return ()"
| "write_to_all E now from_slot message (target # targets) =
     sched_bind (sched_write E now target from_slot MtMessage message None)
       (\<lambda>_. write_to_all E now from_slot message targets)"

definition handle_send_message ::
  "'v env \<Rightarrow> timestamp_ms \<Rightarrow> string \<Rightarrow> string \<Rightarrow> string \<Rightarrow> scheduler \<Rightarrow> unit sched_result" where
  "handle_send_message E now from_slot_id to_slot message s =
     (if to_slot = ''*'' then
        write_to_all E now from_slot_id message
          (filter (\<lambda>i. i \<noteq> from_slot_id) (hm_keys (sch_slots s))) s
      else sched_bind (sched_write E now to_slot from_slot_id MtMessage message None)
             (\<lambda>_. sched_return ()) s)"

definition request_shutdown_agent ::
  "'v env \<Rightarrow> timestamp_ms \<Rightarrow> string \<Rightarrow> string \<Rightarrow> string option \<Rightarrow> scheduler
   \<Rightarrow> mailbox_message sched_result" where
  "request_shutdown_agent E now from_slot_id target_slot_id reason =
     sched_bind (get_agent from_slot_id) (\<lambda>caller.
       if ta_role caller \<noteq> LeadRole then
         sched_fail (InvalidRequest ''only lead can shutdown agents'')
       else
         sched_bind (get_agent target_slot_id) (\<lambda>target.
           if ta_role target = LeadRole then
             sched_fail (InvalidRequest ''cannot shutdown the team lead'')
           else
             sched_write E now target_slot_id from_slot_id MtShutdownRequest
               (case reason of None \<Rightarrow> ''shutdown requested'' | Some r \<Rightarrow> r) None))"

text \<open>An operation of the task board on the database of the scheduler.\<close>

definition on_board :: "(team_db \<Rightarrow> 'r db_result) \<Rightarrow> scheduler \<Rightarrow> 'r sched_result" where
  "on_board f s = (case f (sch_db s) of (r, db) \<Rightarrow> (r, s\<lparr>sch_db := db\<rparr>, []))"

definition draw_id :: "'v env \<Rightarrow> scheduler \<Rightarrow> string sched_result" where
  "draw_id E s = (Inr (env_generate_id E (sch_drawn s)), s\<lparr>sch_drawn := Suc (sch_drawn s)\<rparr>, [])"

definition execute_action ::
  "'v env \<Rightarrow> timestamp_ms \<Rightarrow> string \<Rightarrow> scheduler_action \<Rightarrow> scheduler \<Rightarrow> string option sched_result" where
  "execute_action E now from_slot_id action s =
     (case action of
        ActSendMessage to_slot message \<Rightarrow>
          sched_bind (handle_send_message E now from_slot_id to_slot message)
            (\<lambda>_. sched_return None) s
      | ActTaskCreate subject description owner blocked_by \<Rightarrow>
          sched_bind (draw_id E) (\<lambda>fresh.
            sched_bind (on_board (create_task (env_json E) fresh now (sch_team_id s) subject
                                    description owner blocked_by))
              (\<lambda>_. sched_return None)) s
      | ActTaskUpdate task_id status description owner blocked_by \<Rightarrow>
          let update = \<lparr>tu_status = Option.bind status task_status_parse,
                        tu_description = description, tu_owner = owner,
                        tu_blocked_by = blocked_by, tu_metadata = None\<rparr>
          in sched_bind (on_board (update_task (env_json E) now (sch_team_id s) task_id update))
               (\<lambda>_. sched_return None) s
      | ActIdleNotification summary \<Rightarrow> mark_idle E now from_slot_id summary s
      | ActSpawnAgent name role backend \<Rightarrow> sched_return None s
      | ActShutdownAgent slot_id reason \<Rightarrow>
          sched_bind (request_shutdown_agent E now from_slot_id slot_id reason)
            (\<lambda>_. sched_return None) s
      | ActRenameAgent slot_id new_name \<Rightarrow>
          sched_bind (rename_agent E slot_id new_name) (\<lambda>_. sched_return None) s)"

text \<open>
  The loop of \<open>finalize_turn\<close>: idle notifications only yield the first summary, everything else is
  executed in order.
\<close>

fun run_actions ::
  "'v env \<Rightarrow> timestamp_ms \<Rightarrow> string \<Rightarrow> scheduler_action list \<Rightarrow> string option \<Rightarrow> scheduler
   \<Rightarrow> string option sched_result" where
  "run_actions E now slot_id [] summary = sched_return summary"
| "run_actions E now slot_id (action # actions) summary =
     (case action of
        ActIdleNotification t \<Rightarrow>
          run_actions E now slot_id actions (if summary = None then t else summary)
      | _ \<Rightarrow>
          sched_bind (execute_action E now slot_id action)
            (\<lambda>_. run_actions E now slot_id actions summary))"

definition finalize_turn ::
  "'v env \<Rightarrow> timestamp_ms \<Rightarrow> string \<Rightarrow> scheduler_action list \<Rightarrow> scheduler \<Rightarrow> string option sched_result"
where
  "finalize_turn E now slot_id actions =
     sched_bind (run_actions E now slot_id actions None) (\<lambda>summary. mark_idle E now slot_id summary)"

section \<open>Crashes and timeouts\<close>

datatype crash_reason = ProcessExited | CrashSessionNotFound | Unknown string

datatype agent_event = ErrorEvent string | OtherEvent

definition str_contains :: "string \<Rightarrow> string \<Rightarrow> bool" where
  "str_contains s p = sublist p s"

definition detect_crash :: "agent_event \<Rightarrow> crash_reason option" where
  "detect_crash event =
     (case event of
        ErrorEvent msg \<Rightarrow>
          if str_contains msg ''process exited unexpectedly'' \<or> str_contains msg ''process exited''
          then Some ProcessExited
          else if str_contains msg ''Session not found'' \<or> str_contains msg ''session not found''
          then Some CrashSessionNotFound
          else Some (Unknown msg)
      | OtherEvent \<Rightarrow> None)"

definition crash_text :: "string \<Rightarrow> string \<Rightarrow> string option \<Rightarrow> string" where
  "crash_text agent_name reason_str last_message =
     ''Teammate '' @ [CHR 0x27] @ agent_name @ [CHR 0x27] @ '' crashed during task (reason: '' @ reason_str @
     (case last_message of
        Some msg \<Rightarrow> ''). Last message: '' @ msg @ ''. Please investigate.''
      | None \<Rightarrow> ''). Please investigate.'')"

definition format_crash_testament :: "string \<Rightarrow> crash_reason \<Rightarrow> string option \<Rightarrow> string" where
  "format_crash_testament agent_name reason last_message =
     (case reason of
        ProcessExited \<Rightarrow> crash_text agent_name ''ProcessExited'' last_message
      | CrashSessionNotFound \<Rightarrow> crash_text agent_name ''SessionNotFound'' last_message
      | Unknown msg \<Rightarrow> crash_text agent_name (''Unknown '' @ em_dash @ '' '' @ msg) last_message)"

definition write_crash_testament ::
  "'v env \<Rightarrow> timestamp_ms \<Rightarrow> string \<Rightarrow> string \<Rightarrow> crash_reason \<Rightarrow> string option \<Rightarrow> scheduler
   \<Rightarrow> unit sched_result" where
  "write_crash_testament E now slot_id agent_name reason last_message s =
     (case find_lead_slot_id s of
        None \<Rightarrow> sched_return () s
      | Some lead_slot_id \<Rightarrow>
          if lead_slot_id = slot_id then sched_return () s
          else sched_bind (sched_write E now lead_slot_id slot_id MtMessage
                             (format_crash_testament agent_name reason last_message) None)
                 (\<lambda>_. sched_return ()) s)"

definition handle_agent_crash ::
  "'v env \<Rightarrow> timestamp_ms \<Rightarrow> string \<Rightarrow> crash_reason \<Rightarrow> string option \<Rightarrow> scheduler
   \<Rightarrow> string option sched_result" where
  "handle_agent_crash E now slot_id reason last_message =
     sched_bind (get_agent slot_id) (\<lambda>agent.
       sched_bind (write_crash_testament E now slot_id (ta_name agent) reason last_message) (\<lambda>_.
         sched_bind (set_status slot_id SError) (\<lambda>_ s.
           let s1 = clear_wake_timeout slot_id (release_wake_lock slot_id s)
           in sched_return (if ta_role agent = LeadRole then None else find_lead_slot_id s1) s1)))"

definition timeout_text :: "string \<Rightarrow> string" where
  "timeout_text agent_name =
     ''Teammate '' @ [CHR 0x27] @ agent_name @ [CHR 0x27] @
     '' timed out after 60s of inactivity. Please investigate.''"

definition handle_inactivity_timeout ::
  "'v env \<Rightarrow> timestamp_ms \<Rightarrow> string \<Rightarrow> scheduler \<Rightarrow> string option sched_result" where
  "handle_inactivity_timeout E now slot_id =
     sched_bind (get_agent slot_id) (\<lambda>agent.
       sched_bind (set_status slot_id SError) (\<lambda>_ s.
         let s1 = clear_wake_timeout slot_id (release_wake_lock slot_id s)
         in if ta_role agent = LeadRole then sched_return None s1
            else (case find_lead_slot_id s1 of
                    None \<Rightarrow> sched_return None s1
                  | Some lead_slot_id \<Rightarrow>
                      sched_bind (sched_write E now lead_slot_id slot_id MtMessage
                                    (timeout_text (ta_name agent)) None)
                        (\<lambda>_. sched_return (Some lead_slot_id)) s1)))"

definition notify_shutdown_rejected ::
  "'v env \<Rightarrow> timestamp_ms \<Rightarrow> string \<Rightarrow> string \<Rightarrow> scheduler \<Rightarrow> unit sched_result" where
  "notify_shutdown_rejected E now from_slot_id reason s =
     (case find_lead_slot_id s of
        None \<Rightarrow> sched_return () s
      | Some lead_slot_id \<Rightarrow>
          if lead_slot_id = from_slot_id then sched_return () s
          else
            let agent_name = (case fst (get_agent from_slot_id s) of
                                Inr a \<Rightarrow> ta_name a | Inl _ \<Rightarrow> from_slot_id)
            in sched_bind (sched_write E now lead_slot_id from_slot_id MtMessage
                 (''Teammate '' @ [CHR 0x27] @ agent_name @ [CHR 0x27] @ '' declined shutdown: '' @ reason)
                 None) (\<lambda>_. sched_return ()) s)"

section \<open>The finalize window\<close>

text \<open>
  \<open>begin_finalize\<close> records the instant it accepts and spawns a task that sleeps for the window and
  then removes the entry of the conversation, whichever it is by then. The tasks still asleep are
  the second component, with the instant each is due.
\<close>

type_synonym finalize_state = "(string, timestamp_ms) hmap \<times> (string \<times> timestamp_ms) list"

definition begin_finalize :: "timestamp_ms \<Rightarrow> string \<Rightarrow> finalize_state \<Rightarrow> bool \<times> finalize_state" where
  "begin_finalize now conversation_id st =
     (case st of (turns, sleepers) \<Rightarrow>
        let should_proceed =
              (case hm_get turns conversation_id of
                 None \<Rightarrow> True
               | Some entry \<Rightarrow> \<not> (max 0 (now - entry) < FINALIZE_DEDUP_WINDOW))
        in (should_proceed,
            if should_proceed
            then (hm_insert conversation_id now turns,
                  sleepers @ [(conversation_id, now + FINALIZE_DEDUP_WINDOW)])
            else (turns, sleepers)))"

definition clear_finalized_turn :: "string \<Rightarrow> finalize_state \<Rightarrow> finalize_state" where
  "clear_finalized_turn conversation_id st = (hm_remove conversation_id (fst st), snd st)"

text \<open>The task at a position of the list wakes, once it is due.\<close>

definition expire_finalized :: "timestamp_ms \<Rightarrow> nat \<Rightarrow> finalize_state \<Rightarrow> finalize_state" where
  "expire_finalized now i st =
     (case st of (turns, sleepers) \<Rightarrow>
        if i < length sleepers \<and> snd (sleepers ! i) \<le> now
        then (hm_remove (fst (sleepers ! i)) turns, take i sleepers @ drop (Suc i) sleepers)
        else st)"

end
