(* ===== verification/SchedulerProps.thy ===== *)
theory SchedulerProps
  imports SchedulerActions
begin

text \<open>
  Properties of the scheduler: when the leader is woken, what a message or a crash leaves in the
  mailbox, that names stay distinct, and what the finalize window guarantees.
\<close>

section \<open>Well-formed slots\<close>

definition wf_slots :: "scheduler \<Rightarrow> bool" where
  "wf_slots s \<longleftrightarrow>
     hm_wf (sch_slots s) \<and> (\<forall>(i, slot) \<in> set (sch_slots s). ta_slot_id (as_agent slot) = i)"

abbreviation is_lead :: "agent_slot \<Rightarrow> bool" where
  "is_lead slot \<equiv> ta_role (as_agent slot) = LeadRole"

definition one_lead :: "scheduler \<Rightarrow> bool" where
  "one_lead s \<longleftrightarrow> length (filter is_lead (hm_values (sch_slots s))) \<le> 1"

lemma bind_Inr [simp]:
  "m s = (Inr x, s', evs) \<Longrightarrow>
     sched_bind m f s = (fst (f x s'), fst (snd (f x s')), evs @ snd (snd (f x s')))"
  by (simp add: sched_bind_def case_prod_unfold)

lemma bind_Inl [simp]: "m s = (Inl e, s', evs) \<Longrightarrow> sched_bind m f s = (Inl e, s', evs)"
  by (simp add: sched_bind_def)

lemma return_val [simp]: "sched_return x s = (Inr x, s, [])"
  by (simp add: sched_return_def)

lemma fail_val [simp]: "sched_fail e s = (Inl e, s, [])"
  by (simp add: sched_fail_def)

lemma wf_slots_mem:
  "wf_slots s \<Longrightarrow> hm_get (sch_slots s) i = Some slot \<Longrightarrow>
     slot \<in> set (hm_values (sch_slots s)) \<and> ta_slot_id (as_agent slot) = i"
  by (auto simp: wf_slots_def dest!: hm_get_Some_mem intro: rev_image_eqI)

lemma wf_slots_get:
  "wf_slots s \<Longrightarrow> slot \<in> set (hm_values (sch_slots s)) \<Longrightarrow>
     hm_get (sch_slots s) (ta_slot_id (as_agent slot)) = Some slot"
  by (auto simp: wf_slots_def intro!: hm_mem_get)

lemma one_lead_unique:
  assumes "one_lead s" and "a \<in> set (hm_values (sch_slots s))" and "is_lead a"
  shows "filter is_lead (hm_values (sch_slots s)) = [a]"
proof -
  have "a \<in> set (filter is_lead (hm_values (sch_slots s)))" using assms by simp
  with assms(1) show ?thesis
    by (cases "filter is_lead (hm_values (sch_slots s))") (auto simp: one_lead_def simp del: set_filter)
qed

section \<open>Waking the leader\<close>

lemma scan_settled:
  "list_all (\<lambda>sl. is_lead sl \<or> is_settled (as_status sl)) xs \<Longrightarrow>
     scan_slots xs (lead, b, has) =
       (if filter is_lead xs = [] then lead
        else Some (ta_slot_id (as_agent (last (filter is_lead xs)))),
        b, has \<or> list_ex (\<lambda>sl. \<not> is_lead sl) xs)"
  by (induction xs arbitrary: lead has) auto

lemma scan_unsettled:
  "\<not> list_all (\<lambda>sl. is_lead sl \<or> is_settled (as_status sl)) xs \<Longrightarrow>
     fst (snd (scan_slots xs (lead, b, has))) = False"
  by (induction xs arbitrary: lead has) auto

lemma maybe_wake_frame: "snd (maybe_wake_leader_when_all_idle s) = (s, [])"
  by (simp add: maybe_wake_leader_when_all_idle_def Let_def split: prod.split option.split)

lemma maybe_wake_val:
  assumes "wf_slots s" and "one_lead s"
  shows "fst (maybe_wake_leader_when_all_idle s) = Inr (Some l) \<longleftrightarrow>
           (\<exists>lead. hm_get (sch_slots s) l = Some lead \<and> is_lead lead \<and> as_status lead = SIdle) \<and>
           (\<exists>sl \<in> set (hm_values (sch_slots s)). \<not> is_lead sl) \<and>
           (\<forall>sl \<in> set (hm_values (sch_slots s)). is_lead sl \<or> is_settled (as_status sl))"
    (is "?wake \<longleftrightarrow> ?lead \<and> ?mates \<and> ?settled")
proof (cases ?settled)
  case False
  then have "fst (snd (scan_slots (hm_values (sch_slots s)) (None, True, False))) = False"
    by (intro scan_unsettled) (auto simp: list_all_iff)
  then have "\<not> ?wake"
    by (auto simp: maybe_wake_leader_when_all_idle_def Let_def split: prod.splits option.splits)
  with False show ?thesis by blast
next
  case True
  then have scan: "scan_slots (hm_values (sch_slots s)) (None, True, False) =
      (if filter is_lead (hm_values (sch_slots s)) = [] then None
       else Some (ta_slot_id (as_agent (last (filter is_lead (hm_values (sch_slots s)))))),
       True, list_ex (\<lambda>sl. \<not> is_lead sl) (hm_values (sch_slots s)))"
    by (simp add: scan_settled list_all_iff)
  show ?thesis
  proof (cases "filter is_lead (hm_values (sch_slots s))")
    case Nil
    then have "\<not> ?lead" using assms(1) wf_slots_mem by (fastforce simp: filter_empty_conv)
    with Nil scan show ?thesis by (simp add: maybe_wake_leader_when_all_idle_def)
  next
    case (Cons a as)
    have "a \<in> set (filter is_lead (hm_values (sch_slots s)))" unfolding Cons by simp
    then have a: "a \<in> set (hm_values (sch_slots s))" "is_lead a" by simp_all
    note only = one_lead_unique [OF assms(2) a]
    have get: "hm_get (sch_slots s) (ta_slot_id (as_agent a)) = Some a"
      by (rule wf_slots_get [OF assms(1) a(1)])
    have "?lead \<longleftrightarrow> l = ta_slot_id (as_agent a) \<and> as_status a = SIdle"
    proof
      assume ?lead
      then obtain lead where lead: "hm_get (sch_slots s) l = Some lead" "is_lead lead"
        "as_status lead = SIdle" by blast
      have "lead \<in> set (filter is_lead (hm_values (sch_slots s)))"
        using wf_slots_mem [OF assms(1) lead(1)] lead(2) by simp
      with only have "lead = a" by simp
      with lead wf_slots_mem [OF assms(1) lead(1)] show "l = ta_slot_id (as_agent a) \<and> as_status a = SIdle"
        by simp
    qed (use get a in auto)
    moreover have "?wake \<longleftrightarrow> ?mates \<and> l = ta_slot_id (as_agent a) \<and> as_status a = SIdle"
      using scan only get
      by (auto simp: maybe_wake_leader_when_all_idle_def list_ex_iff simp del: set_map)
    ultimately show ?thesis using True by blast
  qed
qed

text \<open>
  C26. The scheduler signals to wake a slot exactly when that slot is the leader's and idle, there
  is at least one teammate, and every teammate is idle, completed or in error; asking changes
  nothing and announces nothing.
\<close>

theorem leader_woken_iff_all_settled:
  assumes "wf_slots s" and "one_lead s"
  shows "(fst (maybe_wake_leader_when_all_idle s) = Inr (Some l) \<longleftrightarrow>
            (\<exists>lead. hm_get (sch_slots s) l = Some lead \<and> is_lead lead \<and> as_status lead = SIdle) \<and>
            (\<exists>sl \<in> set (hm_values (sch_slots s)). \<not> is_lead sl) \<and>
            (\<forall>sl \<in> set (hm_values (sch_slots s)). is_lead sl \<or> is_settled (as_status sl))) \<and>
         snd (maybe_wake_leader_when_all_idle s) = (s, [])"
  using maybe_wake_val [OF assms, of l] maybe_wake_frame by blast

definition demo_agent :: "string \<Rightarrow> teammate_role \<Rightarrow> team_agent" where
  "demo_agent i r =
     \<lparr>ta_slot_id = i, ta_name = i, ta_role = r, ta_conversation_id = i, ta_backend = ''b'',
      ta_model = ''m'', ta_assistant_id = None, ta_status = None, ta_conversation_type = None,
      ta_cli_path = None\<rparr>"

definition demo_scheduler :: scheduler where
  "demo_scheduler =
     new_scheduler ''team'' [demo_agent ''lead'' LeadRole, demo_agent ''w1'' TeammateRole] empty_db"

lemma demo_slots:
  "sch_slots demo_scheduler =
     [(''lead'', new_slot ((demo_agent ''lead'' LeadRole)\<lparr>ta_status := Some SIdle\<rparr>)),
      (''w1'', new_slot ((demo_agent ''w1'' TeammateRole)\<lparr>ta_status := Some SIdle\<rparr>))]"
  by (simp add: demo_scheduler_def new_scheduler_def demo_agent_def Let_def)

lemma demo_ok: "wf_slots demo_scheduler" "one_lead demo_scheduler"
  by (simp_all add: wf_slots_def one_lead_def demo_slots new_slot_def demo_agent_def)

theorem leader_woken_iff_all_settled_witness:
  "fst (maybe_wake_leader_when_all_idle demo_scheduler) = Inr (Some ''lead'')"
  using leader_woken_iff_all_settled [OF demo_ok, of "''lead''"]
  by (simp add: demo_slots new_slot_def demo_agent_def is_settled_def)

section \<open>Idle, error and crash\<close>

definition fresh_id :: "'v env \<Rightarrow> scheduler \<Rightarrow> bool" where
  "fresh_id E s \<longleftrightarrow>
     json_ok (env_json E) \<and>
     env_generate_id E (sch_drawn s) \<notin> set (map mr_id (db_mailbox (sch_db s)))"

text \<open>The state with one more message in the mailbox.\<close>

definition with_message :: "'v env \<Rightarrow> mailbox_message \<Rightarrow> scheduler \<Rightarrow> scheduler \<Rightarrow> bool" where
  "with_message E m s s' \<longleftrightarrow>
     (\<exists>row. s' = s\<lparr>sch_db := (sch_db s)\<lparr>db_mailbox := db_mailbox (sch_db s) @ [row]\<rparr>,
                  sch_drawn := Suc (sch_drawn s)\<rparr> \<and>
            message_from_row (env_json E) row = Some m \<and> mr_to_agent_id row = mm_to_agent_id m \<and>
            \<not> mr_read row)"

lemma write_fresh:
  assumes "fresh_id E s"
  obtains s' where
    "sched_write E now to_agent from_agent ty content summary s =
       (Inr (row_message (env_generate_id E (sch_drawn s)) now (sch_team_id s) to_agent from_agent ty
               content summary None), s', [])"
    and "with_message E
       (row_message (env_generate_id E (sch_drawn s)) now (sch_team_id s) to_agent from_agent ty
          content summary None) s s'"
proof -
  let ?m = "row_message (env_generate_id E (sch_drawn s)) now (sch_team_id s) to_agent from_agent ty
      content summary None"
  obtain row where row: "write_with_files (env_json E) (env_generate_id E (sch_drawn s)) now
        (sch_team_id s) to_agent from_agent ty content summary None (sch_db s) =
      (Inr ?m, (sch_db s)\<lparr>db_mailbox := db_mailbox (sch_db s) @ [row]\<rparr>)"
    "message_from_row (env_json E) row = Some ?m" "mr_to_agent_id row = to_agent" "\<not> mr_read row"
    using write_with_files_fresh [of "env_json E" "env_generate_id E (sch_drawn s)" "sch_db s" now
        "sch_team_id s" to_agent from_agent ty content summary None] assms
    unfolding fresh_id_def by blast
  let ?s' = "s\<lparr>sch_db := (sch_db s)\<lparr>db_mailbox := db_mailbox (sch_db s) @ [row]\<rparr>,
      sch_drawn := Suc (sch_drawn s)\<rparr>"
  have "with_message E ?m s ?s'"
    unfolding with_message_def
    by (intro exI [of _ row]) (use row in \<open>simp add: row_message_def\<close>)
  then show ?thesis
    by (intro that [of ?s']) (use row in \<open>simp_all add: sched_write_def mailbox_write_def\<close>)
qed

definition status_of :: "scheduler \<Rightarrow> string \<Rightarrow> teammate_status option" where
  "status_of s i = map_option as_status (hm_get (sch_slots s) i)"

definition role_of :: "scheduler \<Rightarrow> string \<Rightarrow> teammate_role option" where
  "role_of s i = map_option (ta_role \<circ> as_agent) (hm_get (sch_slots s) i)"

definition slot_with :: "teammate_status \<Rightarrow> agent_slot \<Rightarrow> agent_slot" where
  "slot_with st slot = slot\<lparr>as_status := st, as_agent := (as_agent slot)\<lparr>ta_status := Some st\<rparr>\<rparr>"

definition put_status :: "string \<Rightarrow> teammate_status \<Rightarrow> scheduler \<Rightarrow> scheduler" where
  "put_status i st s = s\<lparr>sch_slots := hm_modify i (slot_with st) (sch_slots s)\<rparr>"

lemma set_status_val:
  "hm_get (sch_slots s) i = Some slot \<Longrightarrow>
     set_status i st s = (Inr (), put_status i st s, [AgentStatusChanged i st])"
  by (simp add: set_status_def hm_has_def put_status_def slot_with_def [abs_def])

lemma put_status_get:
  "hm_get (sch_slots (put_status i st s)) j =
     (if j = i then map_option (slot_with st) (hm_get (sch_slots s) i) else hm_get (sch_slots s) j)"
  by (simp add: put_status_def hm_simps)

lemma put_status_frames [simp]:
  "sch_db (put_status i st s) = sch_db s" "sch_drawn (put_status i st s) = sch_drawn s"
  "sch_team_id (put_status i st s) = sch_team_id s"
  by (simp_all add: put_status_def)

lemma slot_with_agent [simp]:
  "ta_role (as_agent (slot_with st slot)) = ta_role (as_agent slot)"
  "ta_slot_id (as_agent (slot_with st slot)) = ta_slot_id (as_agent slot)"
  "ta_name (as_agent (slot_with st slot)) = ta_name (as_agent slot)"
  "as_status (slot_with st slot) = st"
  by (simp_all add: slot_with_def)

lemma values_put_status:
  "hm_values (sch_slots (put_status i st s)) =
     map (\<lambda>(j, slot). if j = i then slot_with st slot else slot) (sch_slots s)"
  by (simp add: put_status_def hm_modify_def case_prod_unfold if_distrib cong: if_cong)

lemma wf_slots_put_status: "wf_slots s \<Longrightarrow> wf_slots (put_status i st s)"
  by (auto simp: wf_slots_def put_status_def) (auto simp: hm_modify_def split: if_splits)

lemma leads_put_status:
  "map (ta_slot_id \<circ> as_agent) (filter is_lead (hm_values (sch_slots (put_status i st s)))) =
     map (ta_slot_id \<circ> as_agent) (filter is_lead (hm_values (sch_slots s)))"
proof -
  have "map (ta_slot_id \<circ> as_agent)
      (filter is_lead (map (\<lambda>(j, slot). if j = i then slot_with st slot else slot) xs)) =
    map (ta_slot_id \<circ> as_agent) (filter is_lead (hm_values xs))" for xs
    by (induction xs) (auto split: if_splits)
  then show ?thesis unfolding values_put_status .
qed

lemma find_lead_val:
  "find_lead_slot_id s =
     (case map (ta_slot_id \<circ> as_agent) (filter is_lead (hm_values (sch_slots s))) of
        [] \<Rightarrow> None | i # _ \<Rightarrow> Some i)"
proof -
  have "map_option (\<lambda>slot. ta_slot_id (as_agent slot)) (find is_lead xs) =
      (case map (ta_slot_id \<circ> as_agent) (filter is_lead xs) of [] \<Rightarrow> None | i # _ \<Rightarrow> Some i)" for xs
    by (induction xs) auto
  then show ?thesis by (simp add: find_lead_slot_id_def)
qed

lemma find_lead_put_status [simp]: "find_lead_slot_id (put_status i st s) = find_lead_slot_id s"
  by (simp only: find_lead_val leads_put_status)

lemma one_lead_put_status: "one_lead s \<Longrightarrow> one_lead (put_status i st s)"
  using arg_cong [OF leads_put_status [of i st s], of length] by (simp add: one_lead_def)

lemma find_lead_get:
  assumes "wf_slots s" and "one_lead s" and "hm_get (sch_slots s) l = Some lead" and "is_lead lead"
  shows "find_lead_slot_id s = Some l"
  using one_lead_unique [OF assms(2) _ assms(4)] wf_slots_mem [OF assms(1,3)]
  by (simp add: find_lead_val)

lemma maybe_wake_result: "\<exists>r. fst (maybe_wake_leader_when_all_idle s) = Inr r"
  by (simp add: maybe_wake_leader_when_all_idle_def Let_def split: prod.split option.split)

lemma with_message_slots:
  "with_message E m s s' \<Longrightarrow> sch_slots s' = sch_slots s \<and> wf_slots s' = wf_slots s \<and> one_lead s' = one_lead s"
  by (auto simp: with_message_def wf_slots_def one_lead_def)

lemma only_answer:
  assumes "\<And>y. r = Some y \<longleftrightarrow> y = x \<and> P"
  shows "r = (if P then Some x else None)"
  using assms by (cases r) auto

text \<open>
  C27. A teammate that goes idle tells the leader with one message, its summary or \<open>idle\<close>, and the
  scheduler answers with the leader to wake exactly when the leader is idle and every other
  teammate has settled; the last one to settle wakes the leader, no earlier one does.
\<close>

theorem last_teammate_wakes_leader:
  assumes "wf_slots s" and "one_lead s" and "fresh_id E s"
    and "hm_get (sch_slots s) w = Some slot" and "\<not> is_lead slot"
    and "hm_get (sch_slots s) l = Some lead" and "is_lead lead"
  shows "case mark_idle E now w summary s of (r, s', evs) \<Rightarrow>
           r = Inr (if as_status lead = SIdle \<and>
                       (\<forall>(i, sl) \<in> set (sch_slots s). i = w \<or> is_lead sl \<or> is_settled (as_status sl))
                    then Some l else None) \<and>
           evs = [AgentStatusChanged w SIdle] \<and> status_of s' w = Some SIdle \<and>
           with_message E (row_message (env_generate_id E (sch_drawn s)) now (sch_team_id s) l w
                MtIdleNotification (case summary of None \<Rightarrow> ''idle'' | Some t \<Rightarrow> t) summary None)
             (put_status w SIdle s) s'"
proof -
  let ?s = "put_status w SIdle s"
  let ?txt = "case summary of None \<Rightarrow> ''idle'' | Some t \<Rightarrow> t"
  let ?m = "row_message (env_generate_id E (sch_drawn s)) now (sch_team_id s) l w
      MtIdleNotification ?txt summary None"
  have lw: "l \<noteq> w" using assms(4-7) by auto
  have wf: "wf_slots ?s" and one: "one_lead ?s"
    by (rule wf_slots_put_status [OF assms(1)], rule one_lead_put_status [OF assms(2)])
  have lead: "find_lead_slot_id ?s = Some l" using find_lead_get [OF assms(1,2,6,7)] by simp
  have "fresh_id E ?s" using assms(3) by (simp add: fresh_id_def)
  from write_fresh [OF this, of now l w MtIdleNotification ?txt summary] obtain s' where
    w: "sched_write E now l w MtIdleNotification ?txt summary ?s = (Inr ?m, s', [])"
      "with_message E ?m ?s s'" by auto
  have s': "sch_slots s' = sch_slots ?s" "wf_slots s'" "one_lead s'"
    using with_message_slots [OF w(2)] wf one by simp_all
  have run: "mark_idle E now w summary s =
      (fst (maybe_wake_leader_when_all_idle s'), s', [AgentStatusChanged w SIdle])"
    using assms(4,5) lead lw w(1) maybe_wake_frame [of s']
    by (simp add: mark_idle_def set_status_val get_agent_def put_status_get notify_lead_idle_def)
  have get_l: "hm_get (sch_slots s') l = Some lead"
    using assms(6) lw by (simp add: s' put_status_get)
  have vals: "set (hm_values (sch_slots s')) =
      (\<lambda>(i, sl). if i = w then slot_with SIdle sl else sl) ` set (sch_slots s)"
    unfolding s' values_put_status by simp
  have mate: "\<exists>sl \<in> set (hm_values (sch_slots s')). \<not> is_lead sl"
    using hm_get_Some_mem [OF assms(4)] assms(5) unfolding vals by force
  have "(is_lead (if i = w then slot_with SIdle sl else sl) \<or>
       is_settled (as_status (if i = w then slot_with SIdle sl else sl))) \<longleftrightarrow>
      i = w \<or> is_lead sl \<or> is_settled (as_status sl)" for i sl
    by (simp add: is_settled_def)
  then have settled: "(\<forall>sl \<in> set (hm_values (sch_slots s')). is_lead sl \<or> is_settled (as_status sl)) \<longleftrightarrow>
      (\<forall>(i, sl) \<in> set (sch_slots s). i = w \<or> is_lead sl \<or> is_settled (as_status sl))"
    unfolding vals case_prod_unfold by (simp only: ball_simps)
  have uniq: "l' = l" if "hm_get (sch_slots s') l' = Some lead'" "is_lead lead'" for l' lead'
    using find_lead_get [OF s'(2,3) that] find_lead_get [OF s'(2,3) get_l assms(7)] by simp
  obtain r where r: "fst (maybe_wake_leader_when_all_idle s') = Inr r"
    using maybe_wake_result by blast
  have "r = Some l' \<longleftrightarrow> l' = l \<and> as_status lead = SIdle \<and>
      (\<forall>(i, sl) \<in> set (sch_slots s). i = w \<or> is_lead sl \<or> is_settled (as_status sl))" for l'
  proof -
    have who: "(\<exists>lead'. hm_get (sch_slots s') l' = Some lead' \<and> is_lead lead' \<and> as_status lead' = SIdle)
        \<longleftrightarrow> l' = l \<and> as_status lead = SIdle"
      using uniq get_l assms(7) by (metis option.inject)
    have "r = Some l' \<longleftrightarrow> fst (maybe_wake_leader_when_all_idle s') = Inr (Some l')"
      by (simp only: r sum.inject)
    then show ?thesis
      unfolding maybe_wake_val [OF s'(2,3)] who settled using mate by blast
  qed
  then have "r = (if as_status lead = SIdle \<and>
      (\<forall>(i, sl) \<in> set (sch_slots s). i = w \<or> is_lead sl \<or> is_settled (as_status sl))
      then Some l else None)"
    by (rule only_answer)
  moreover have "status_of s' w = Some SIdle"
    using assms(4) by (simp add: status_of_def s' put_status_get)
  ultimately show ?thesis using run r w(2) by simp
qed

definition demo_env :: "string env" where
  "demo_env =
     \<lparr>env_json = pairs_codec,
      env_text = \<lparr>st_is_whitespace = (\<lambda>c. c = CHR '' ''), st_is_control = (\<lambda>c. False),
                  st_to_lowercase = id\<rparr>,
      env_generate_id = (\<lambda>n. replicate n (CHR ''i''))\<rparr>"

lemma demo_fresh: "fresh_id demo_env demo_scheduler"
  by (simp add: fresh_id_def demo_env_def pairs_codec_ok demo_scheduler_def new_scheduler_def
      empty_db_def new_db_def)

theorem last_teammate_wakes_leader_witness:
  "fst (mark_idle demo_env 5 ''w1'' (Some ''done'') demo_scheduler) = Inr (Some ''lead'')"
proof -
  let ?w = "new_slot ((demo_agent ''w1'' TeammateRole)\<lparr>ta_status := Some SIdle\<rparr>)"
  let ?l = "new_slot ((demo_agent ''lead'' LeadRole)\<lparr>ta_status := Some SIdle\<rparr>)"
  have "hm_get (sch_slots demo_scheduler) ''w1'' = Some ?w"
    "hm_get (sch_slots demo_scheduler) ''lead'' = Some ?l" "\<not> is_lead ?w" "is_lead ?l"
    "as_status ?l = SIdle"
    by (simp_all add: demo_slots new_slot_def demo_agent_def)
  with last_teammate_wakes_leader [OF demo_ok demo_fresh, of "''w1''" ?w "''lead''" ?l 5 "Some ''done''"]
  show ?thesis
    by (simp add: demo_slots case_prod_unfold)
qed

lemma get_agent_val:
  "hm_get (sch_slots s) i = Some slot \<Longrightarrow> get_agent i s = (Inr (as_agent slot), s, [])"
  "hm_get (sch_slots s) i = None \<Longrightarrow> get_agent i s = (Inl (AgentNotFound i), s, [])"
  by (simp_all add: get_agent_def)

text \<open>
  A crashed teammate leaves its testament: exactly one message to the leader that names the
  reason, the slot in error, its wake lock and timeout gone, and the leader as the slot to wake.
\<close>

theorem crash_reaches_leader:
  assumes "wf_slots s" and "one_lead s" and "fresh_id E s"
    and "hm_get (sch_slots s) w = Some slot" and "\<not> is_lead slot"
    and "hm_get (sch_slots s) l = Some lead" and "is_lead lead"
  shows "case handle_agent_crash E now w reason last_message s of (r, s', evs) \<Rightarrow>
           r = Inr (Some l) \<and> evs = [AgentStatusChanged w SError] \<and>
           status_of s' w = Some SError \<and> \<not> is_wake_active w s' \<and>
           hm_get (sch_wake_timeouts s') w = None \<and>
           (\<exists>s1. with_message E (row_message (env_generate_id E (sch_drawn s)) now (sch_team_id s) l w
                   MtMessage (format_crash_testament (ta_name (as_agent slot)) reason last_message)
                   None None) s s1 \<and>
                 s' = clear_wake_timeout w (release_wake_lock w (put_status w SError s1)))"
proof -
  let ?txt = "format_crash_testament (ta_name (as_agent slot)) reason last_message"
  let ?m = "row_message (env_generate_id E (sch_drawn s)) now (sch_team_id s) l w MtMessage ?txt None None"
  have lw: "l \<noteq> w" using assms(4-7) by auto
  have lead: "find_lead_slot_id s = Some l" by (rule find_lead_get [OF assms(1,2,6,7)])
  from write_fresh [OF assms(3), of now l w MtMessage ?txt None] obtain s1 where
    w: "sched_write E now l w MtMessage ?txt None s = (Inr ?m, s1, [])" "with_message E ?m s s1" by auto
  have s1: "sch_slots s1 = sch_slots s" using with_message_slots [OF w(2)] by simp
  have lead1: "find_lead_slot_id s1 = Some l" using lead by (simp add: find_lead_slot_id_def s1)
  let ?s' = "clear_wake_timeout w (release_wake_lock w (put_status w SError s1))"
  have frame: "find_lead_slot_id ?s' = find_lead_slot_id (put_status w SError s1)"
    by (simp add: clear_wake_timeout_def release_wake_lock_def find_lead_slot_id_def)
  have get1: "hm_get (sch_slots s1) w = Some slot" using assms(4) s1 by simp
  have run: "handle_agent_crash E now w reason last_message s =
      (Inr (Some l), ?s', [AgentStatusChanged w SError])"
    using assms(5) lead lw w(1) lead1 frame get1
    by (simp add: handle_agent_crash_def get_agent_val(1) [OF assms(4)] write_crash_testament_def
        set_status_val Let_def)
  have "status_of ?s' w = Some SError"
    using assms(4) s1
    by (simp add: status_of_def clear_wake_timeout_def release_wake_lock_def put_status_get)
  moreover have "\<not> is_wake_active w ?s'" "hm_get (sch_wake_timeouts ?s') w = None"
    by (simp_all add: is_wake_active_def clear_wake_timeout_def release_wake_lock_def hm_simps)
  ultimately show ?thesis using run w(2) by auto
qed

theorem crash_reaches_leader_witness:
  "fst (handle_agent_crash demo_env 5 ''w1'' ProcessExited (Some ''hm'') demo_scheduler) = Inr (Some ''lead'')"
proof -
  let ?w = "new_slot ((demo_agent ''w1'' TeammateRole)\<lparr>ta_status := Some SIdle\<rparr>)"
  let ?l = "new_slot ((demo_agent ''lead'' LeadRole)\<lparr>ta_status := Some SIdle\<rparr>)"
  have "hm_get (sch_slots demo_scheduler) ''w1'' = Some ?w"
    "hm_get (sch_slots demo_scheduler) ''lead'' = Some ?l" "\<not> is_lead ?w" "is_lead ?l"
    by (simp_all add: demo_slots new_slot_def demo_agent_def)
  with crash_reaches_leader [OF demo_ok demo_fresh, of "''w1''" ?w "''lead''" ?l 5 ProcessExited "Some ''hm''"]
  show ?thesis by (simp add: case_prod_unfold)
qed

section \<open>Guards\<close>

text \<open>
  C28. A shutdown request is answered by the first of these that applies: the caller is unknown,
  the caller is not the leader, the target is unknown, the target is the leader; each leaves the
  scheduler as it was. Otherwise exactly one shutdown request is written to the target.
\<close>

theorem shutdown_request_branches:
  assumes "fresh_id E s"
  shows "case request_shutdown_agent E now f t reason s of (r, s', evs) \<Rightarrow>
           evs = [] \<and>
           (if role_of s f = None then r = Inl (AgentNotFound f) \<and> s' = s
            else if role_of s f \<noteq> Some LeadRole
            then r = Inl (InvalidRequest ''only lead can shutdown agents'') \<and> s' = s
            else if role_of s t = None then r = Inl (AgentNotFound t) \<and> s' = s
            else if role_of s t = Some LeadRole
            then r = Inl (InvalidRequest ''cannot shutdown the team lead'') \<and> s' = s
            else \<exists>m. r = Inr m \<and> with_message E m s s' \<and> mm_to_agent_id m = t \<and>
                     mm_from_agent_id m = f \<and> mm_msg_type m = MtShutdownRequest)"
proof -
  let ?txt = "case reason of None \<Rightarrow> ''shutdown requested'' | Some r \<Rightarrow> r"
  from write_fresh [OF assms, of now t f MtShutdownRequest ?txt None] obtain s1 where
    w: "sched_write E now t f MtShutdownRequest ?txt None s =
        (Inr (row_message (env_generate_id E (sch_drawn s)) now (sch_team_id s) t f MtShutdownRequest
           ?txt None None), s1, [])"
      "with_message E (row_message (env_generate_id E (sch_drawn s)) now (sch_team_id s) t f
         MtShutdownRequest ?txt None None) s s1" by auto
  show ?thesis
  proof (cases "hm_get (sch_slots s) f")
    case None
    then show ?thesis by (simp add: request_shutdown_agent_def get_agent_val role_of_def)
  next
    case (Some a)
    show ?thesis
    proof (cases "is_lead a \<and> hm_get (sch_slots s) t \<noteq> None")
      case True
      then obtain b where "hm_get (sch_slots s) t = Some b" by blast
      with Some True w show ?thesis
        by (simp add: request_shutdown_agent_def get_agent_val role_of_def row_message_def)
    next
      case False
      with Some show ?thesis
        by (auto simp: request_shutdown_agent_def get_agent_val role_of_def)
    qed
  qed
qed

theorem shutdown_request_branches_witness:
  "fst (request_shutdown_agent demo_env 5 ''w1'' ''lead'' None demo_scheduler) =
     Inl (InvalidRequest ''only lead can shutdown agents'')"
  using shutdown_request_branches [OF demo_fresh, where now = 5 and f = "''w1''" and t = "''lead''" and reason = None]
  by (simp add: case_prod_unfold role_of_def demo_slots new_slot_def demo_agent_def)

definition names_distinct :: "std_text \<Rightarrow> scheduler \<Rightarrow> bool" where
  "names_distinct T s \<longleftrightarrow>
     (\<forall>(i, a) \<in> set (sch_slots s). \<forall>(j, b) \<in> set (sch_slots s).
        i \<noteq> j \<longrightarrow> normalize_name T (ta_name (as_agent a)) \<noteq> normalize_name T (ta_name (as_agent b)))"

text \<open>
  C29. Renaming keeps the names of a team distinct after normalization. It succeeds exactly when
  the new name does not normalize to nothing, the agent exists and no other agent has that
  normalized name, in which case the agent carries the name as given; otherwise nothing changes.
\<close>

theorem rename_keeps_names_distinct:
  assumes "names_distinct (env_text E) s"
  shows "case rename_agent E i n s of (r, s', evs) \<Rightarrow>
           names_distinct (env_text E) s' \<and>
           (r = Inr () \<longleftrightarrow>
              normalize_name (env_text E) n \<noteq> [] \<and> hm_get (sch_slots s) i \<noteq> None \<and>
              (\<forall>(j, b) \<in> set (sch_slots s). j \<noteq> i \<longrightarrow>
                 normalize_name (env_text E) (ta_name (as_agent b)) \<noteq> normalize_name (env_text E) n)) \<and>
           (r = Inr () \<longrightarrow> map_option (ta_name \<circ> as_agent) (hm_get (sch_slots s') i) = Some n) \<and>
           (r \<noteq> Inr () \<longrightarrow> s' = s \<and> evs = [])"
proof -
  let ?N = "normalize_name (env_text E)"
  let ?f = "\<lambda>slot. slot\<lparr>as_agent := (as_agent slot)\<lparr>ta_name := n\<rparr>\<rparr>"
  let ?ok = "?N n \<noteq> [] \<and> hm_get (sch_slots s) i \<noteq> None \<and>
      (\<forall>(j, b) \<in> set (sch_slots s). j \<noteq> i \<longrightarrow> ?N (ta_name (as_agent b)) \<noteq> ?N n)"
  show ?thesis
  proof (cases ?ok)
    case False
    then have "\<exists>e. rename_agent E i n s = (Inl e, s, [])"
      by (auto simp: rename_agent_def Let_def hm_has_def list_ex_iff)
    with False assms show ?thesis by auto
  next
    case True
    let ?s' = "s\<lparr>sch_slots := hm_modify i ?f (sch_slots s)\<rparr>"
    have run: "rename_agent E i n s = (Inr (), ?s', [AgentRenamed i n])"
      using True by (auto simp: rename_agent_def Let_def hm_has_def list_ex_iff)
    have mem: "(j, b) \<in> set (sch_slots ?s') \<Longrightarrow>
        \<exists>b0. (j, b0) \<in> set (sch_slots s) \<and> ta_name (as_agent b) = (if j = i then n else ta_name (as_agent b0))"
      for j b
      by (auto simp: hm_modify_def split: if_splits)
    have "names_distinct (env_text E) ?s'"
      unfolding names_distinct_def
    proof (clarify)
      fix j a k b
      assume m: "(j, a) \<in> set (sch_slots ?s')" "(k, b) \<in> set (sch_slots ?s')" and ne: "j \<noteq> k"
        and eq: "?N (ta_name (as_agent a)) = ?N (ta_name (as_agent b))"
      obtain a0 where a0: "(j, a0) \<in> set (sch_slots s)"
        "ta_name (as_agent a) = (if j = i then n else ta_name (as_agent a0))" using mem [OF m(1)] by blast
      obtain b0 where b0: "(k, b0) \<in> set (sch_slots s)"
        "ta_name (as_agent b) = (if k = i then n else ta_name (as_agent b0))" using mem [OF m(2)] by blast
      have old: "?N (ta_name (as_agent a0)) \<noteq> ?N (ta_name (as_agent b0))"
        using assms a0(1) b0(1) ne unfolding names_distinct_def by fast
      have other: "?N (ta_name (as_agent c)) \<noteq> ?N n" if "(h, c) \<in> set (sch_slots s)" "h \<noteq> i" for h c
        using True that by fast
      show False
        using eq ne old a0 b0 other [OF a0(1)] other [OF b0(1)] by (auto split: if_splits)
    qed
    then show ?thesis using run True by (auto simp: hm_simps)
  qed
qed

theorem rename_keeps_names_distinct_witness:
  "fst (rename_agent demo_env ''w1'' '' lead '' demo_scheduler) \<noteq> Inr () \<and>
   fst (rename_agent demo_env ''w1'' ''scout'' demo_scheduler) = Inr ()"
proof -
  have d: "names_distinct (env_text demo_env) demo_scheduler"
    by (simp add: names_distinct_def demo_slots new_slot_def demo_agent_def demo_env_def
        normalize_name_def str_trim_def trim_start_def)
  show ?thesis
    using rename_keeps_names_distinct [OF d, where i = "''w1''" and n = "'' lead ''"]
      rename_keeps_names_distinct [OF d, where i = "''w1''" and n = "''scout''"]
    by (simp add: case_prod_unfold demo_slots new_slot_def demo_agent_def demo_env_def
        normalize_name_def str_trim_def trim_start_def)
qed

end
