(* ===== verification/SchedulerTurns.thy ===== *)
theory SchedulerTurns
  imports SchedulerProps
begin

text \<open>
  The end of a turn: what status the agent is left with, and what the finalize window of
  \<open>scheduler/dedup.rs\<close> keeps apart.
\<close>

section \<open>The status after a turn\<close>

lemma sched_write_slots [simp]:
  "sch_slots (fst (snd (sched_write E now a b ty c t s))) = sch_slots s"
  by (simp add: sched_write_def case_prod_unfold)

lemma notify_lead_slots [simp]:
  "sch_slots (fst (snd (notify_lead_idle E now i summary s))) = sch_slots s"
proof (cases "find_lead_slot_id s")
  case (Some l)
  let ?w = "sched_write E now l i MtIdleNotification (case summary of None \<Rightarrow> ''idle'' | Some t \<Rightarrow> t) summary s"
  have "sch_slots (fst (snd ?w)) = sch_slots s" by simp
  with Some show ?thesis
    by (cases "fst ?w") (auto simp: notify_lead_idle_def sched_bind_def case_prod_unfold)
qed (simp add: notify_lead_idle_def)

lemma mark_idle_slots:
  assumes "hm_get (sch_slots s) i = Some slot"
  shows "sch_slots (fst (snd (mark_idle E now i summary s))) = sch_slots (put_status i SIdle s)"
proof -
  have get: "hm_get (sch_slots (put_status i SIdle s)) i = Some (slot_with SIdle slot)"
    using assms by (simp add: put_status_get)
  show ?thesis
  proof (cases "is_lead slot")
    case True
    then show ?thesis by (simp add: mark_idle_def set_status_val [OF assms] get_agent_val(1) [OF get])
  next
    case False
    let ?n = "notify_lead_idle E now i summary (put_status i SIdle s)"
    have n: "sch_slots (fst (snd ?n)) = sch_slots (put_status i SIdle s)" by simp
    have "sch_slots (fst (snd (sched_bind (notify_lead_idle E now i summary)
        (\<lambda>_. maybe_wake_leader_when_all_idle) (put_status i SIdle s)))) = sch_slots (put_status i SIdle s)"
      using n maybe_wake_frame [of "fst (snd ?n)"]
      by (cases "fst ?n") (auto simp: sched_bind_def case_prod_unfold)
    with False show ?thesis
      by (simp add: mark_idle_def set_status_val [OF assms] get_agent_val(1) [OF get])
  qed
qed

lemma finalize_nothing: "finalize_turn E now i [] s = mark_idle E now i None s"
  by (simp add: finalize_turn_def sched_bind_def)

text \<open>
  The error of a failed turn does not last: the event loop sets the agent to error and then
  finalizes the turn, and the finalize leaves it idle, whatever becomes of the message to the
  leader.
\<close>

theorem failed_turn_ends_idle:
  assumes "hm_get (sch_slots s) i \<noteq> None"
  shows "status_of (fst (snd (set_status i SError s))) i = Some SError \<and>
         status_of (fst (snd (finalize_turn E now i [] (fst (snd (set_status i SError s)))))) i = Some SIdle"
proof -
  from assms obtain slot where slot: "hm_get (sch_slots s) i = Some slot" by blast
  have err: "hm_get (sch_slots (put_status i SError s)) i = Some (slot_with SError slot)"
    using slot by (simp add: put_status_get)
  then show ?thesis
    unfolding finalize_nothing
    by (simp add: set_status_val [OF slot] status_of_def mark_idle_slots [OF err] put_status_get slot)
qed

theorem failed_turn_ends_idle_witness:
  "status_of (fst (snd (finalize_turn demo_env 9 ''w1'' []
     (fst (snd (set_status ''w1'' SError demo_scheduler)))))) ''w1'' = Some SIdle"
  using failed_turn_ends_idle [of demo_scheduler "''w1''" demo_env 9] by (simp add: demo_slots)

section \<open>The finalize window\<close>

text \<open>
  What happens to the window, in any order: \<open>on_agent_finish\<close> (\<open>session.rs\<close>) begins with
  \<open>begin_finalize\<close> and clears the conversation once the turn is finalized, the tasks that sleep wake up.
\<close>

datatype finalize_op = FinBegin timestamp_ms string | FinExpire timestamp_ms nat | FinClear timestamp_ms string

fun op_time :: "finalize_op \<Rightarrow> timestamp_ms" where
  "op_time (FinBegin now c) = now"
| "op_time (FinExpire now i) = now"
| "op_time (FinClear now c) = now"

fun fin_step :: "finalize_op \<Rightarrow> finalize_state \<Rightarrow> finalize_state" where
  "fin_step (FinBegin now c) st = snd (begin_finalize now c st)"
| "fin_step (FinExpire now i) st = expire_finalized now i st"
| "fin_step (FinClear now c) st = clear_finalized_turn c st"

text \<open>The instants at which a finish of a conversation was accepted.\<close>

fun accepted :: "string \<Rightarrow> finalize_op list \<Rightarrow> finalize_state \<Rightarrow> timestamp_ms list" where
  "accepted c [] st = []"
| "accepted c (op # ops) st =
     (case op of FinBegin now d \<Rightarrow> if fst (begin_finalize now d st) \<and> d = c then [now] else [] | _ \<Rightarrow> [])
     @ accepted c ops (fin_step op st)"

fun clears :: "string \<Rightarrow> finalize_op \<Rightarrow> bool" where
  "clears c (FinClear now d) \<longleftrightarrow> d = c"
| "clears c _ \<longleftrightarrow> False"

text \<open>The entry of an accepted finish, with the one task that will remove it.\<close>

definition window_open :: "string \<Rightarrow> timestamp_ms \<Rightarrow> finalize_state \<Rightarrow> bool" where
  "window_open c a st \<longleftrightarrow> hm_get (fst st) c = Some a \<and>
     list_all (\<lambda>(d, due). d = c \<longrightarrow> a + FINALIZE_DEDUP_WINDOW \<le> due) (snd st)"

lemma window_stays_open:
  assumes "window_open c a st" and "op_time op < a + FINALIZE_DEDUP_WINDOW" and "\<not> clears c op"
  shows "window_open c a (fin_step op st)"
    and "op = FinBegin now c \<Longrightarrow> \<not> fst (begin_finalize now c st)"
proof -
  obtain turns sleepers where st: "st = (turns, sleepers)"
    by fastforce
  have refused: "begin_finalize now c st = (False, st)" if "now < a + FINALIZE_DEDUP_WINDOW" for now
    using assms(1) that by (auto simp: st window_open_def begin_finalize_def FINALIZE_DEDUP_WINDOW_def)
  then show "op = FinBegin now c \<Longrightarrow> \<not> fst (begin_finalize now c st)"
    using assms(2) by simp
  show "window_open c a (fin_step op st)"
  proof (cases op)
    case (FinBegin now d)
    show ?thesis
    proof (cases "d = c")
      case True
      with FinBegin refused assms(1,2) show ?thesis
        by simp
    next
      case False
      with FinBegin assms(1) show ?thesis
        by (auto simp: st window_open_def begin_finalize_def Let_def hm_simps)
    qed
  next
    case (FinExpire now i)
    have "fst (sleepers ! i) \<noteq> c" if "i < length sleepers" "snd (sleepers ! i) \<le> now"
    proof
      assume "fst (sleepers ! i) = c"
      with assms(1) that(1) have "a + FINALIZE_DEDUP_WINDOW \<le> snd (sleepers ! i)"
        by (auto simp: st window_open_def list_all_length case_prod_beta)
      with that(2) assms(2) FinExpire show False
        by simp
    qed
    moreover have "set (take i sleepers @ drop (Suc i) sleepers) \<subseteq> set sleepers"
      using set_take_subset set_drop_subset by fastforce
    ultimately show ?thesis
      using FinExpire assms(1) unfolding st window_open_def list_all_iff
      by (auto simp: expire_finalized_def hm_simps)
  next
    case (FinClear now d)
    with assms(1,3) show ?thesis
      by (simp add: st window_open_def clear_finalized_turn_def hm_simps)
  qed
qed

lemma dropped_while_open:
  "window_open c a st \<Longrightarrow> list_all (\<lambda>op. op_time op < a + FINALIZE_DEDUP_WINDOW \<and> \<not> clears c op) ops \<Longrightarrow>
    accepted c ops st = []"
proof (induction ops arbitrary: st)
  case (Cons op ops)
  then have "accepted c ops (fin_step op st) = []"
    by (intro Cons.IH window_stays_open(1)) simp_all
  with Cons.prems window_stays_open(2) [OF Cons.prems(1), of op] show ?case
    by (auto split: finalize_op.split)
qed simp

text \<open>
  While an accepted finish is being worked off, every other finish of the conversation is dropped: from
  the instant it is accepted until the conversation is cleared, for as long as the window, whatever
  happens to other conversations. No task of an earlier finish of the conversation may be asleep.
\<close>

theorem duplicates_are_dropped:
  assumes "c \<notin> fst ` set (snd st)" and "fst (begin_finalize a c st)"
    and "list_all (\<lambda>op. op_time op < a + FINALIZE_DEDUP_WINDOW \<and> \<not> clears c op) ops"
  shows "accepted c ops (snd (begin_finalize a c st)) = []"
proof -
  obtain turns sleepers where st: "st = (turns, sleepers)"
    by fastforce
  have "window_open c a (snd (begin_finalize a c st))"
    using assms(1,2) by (force simp: st window_open_def begin_finalize_def Let_def list_all_iff hm_simps)
  then show ?thesis
    using dropped_while_open assms(3) by blast
qed

text \<open>
  A task that wakes late breaks the window. The task of the first finish removes whatever
  entry the conversation has by then; when it is still asleep as the window ends and the next
  finish is accepted, it removes the entry of that one, and a third finish two milliseconds
  later is accepted as well.
\<close>

theorem late_task_breaks_window:
  "accepted ''c'' [FinBegin 0 ''c'', FinBegin 5000 ''c'', FinExpire 5001 0, FinBegin 5002 ''c'']
     ([], []) = [0, 5000, 5002]"
  by (simp add: begin_finalize_def expire_finalized_def FINALIZE_DEDUP_WINDOW_def)

text \<open>
  So does a task that wakes in time, when its finish was cleared: the conversation is cleared once a
  turn is finalized, the task sleeps on, and what it removes is the entry of the next finish. The third
  finish is accepted a second after the second one, which is not cleared.
\<close>

theorem cleared_task_breaks_window:
  "accepted ''c'' [FinBegin 0 ''c'', FinClear 1000 ''c'', FinBegin 4000 ''c'', FinExpire 5000 0,
     FinBegin 5000 ''c''] ([], []) = [0, 4000, 5000]"
  by (simp add: begin_finalize_def expire_finalized_def clear_finalized_turn_def FINALIZE_DEDUP_WINDOW_def)

end
