(* ===== verification/Coroutine.thy ===== *)
theory Coroutine
  imports Prelude
begin

text \<open>
  Asynchronous methods. A method of the code is a sequence of critical sections with awaits in
  between, where anything else may run. A \<open>coroutine\<close> is that sequence: each \<open>Await\<close> is one
  critical section on the shared state, and what follows is decided by what it returned. \<open>co_run\<close>
  runs a method alone, \<open>pool_step\<close> lets one of many methods take its next section. The second part
  is the rule that proves an invariant for every interleaving.
\<close>

datatype ('s, 'r) coroutine =
    Done 'r
  | Await "'s \<Rightarrow> ('s, 'r) coroutine \<times> 's"

primrec co_bind :: "('s, 'a) coroutine \<Rightarrow> ('a \<Rightarrow> ('s, 'b) coroutine) \<Rightarrow> ('s, 'b) coroutine" where
  "co_bind (Done x) f = f x"
| "co_bind (Await g) f = Await (\<lambda>s. map_prod (\<lambda>c. co_bind c f) id (g s))"

primrec co_run :: "('s, 'r) coroutine \<Rightarrow> 's \<Rightarrow> 'r \<times> 's" where
  "co_run (Done x) = (\<lambda>s. (x, s))"
| "co_run (Await g) = (\<lambda>s. case map_prod co_run id (g s) of (k, s') \<Rightarrow> k s')"

text \<open>One critical section, and the operator \<open>?\<close> of the code.\<close>

definition atomic :: "('s \<Rightarrow> 'r \<times> 's) \<Rightarrow> ('s, 'r) coroutine" where
  "atomic f = Await (\<lambda>s. case f s of (r, s') \<Rightarrow> (Done r, s'))"

definition co_try ::
    "('s, 'e + 'a) coroutine \<Rightarrow> ('a \<Rightarrow> ('s, 'e + 'b) coroutine) \<Rightarrow> ('s, 'e + 'b) coroutine" where
  "co_try c f = co_bind c (\<lambda>r. case r of Inl e \<Rightarrow> Done (Inl e) | Inr x \<Rightarrow> f x)"

text \<open>A loop over a list that awaits in its body.\<close>

primrec co_for :: "'a list \<Rightarrow> ('a \<Rightarrow> ('s, unit) coroutine) \<Rightarrow> ('s, unit) coroutine" where
  "co_for [] f = Done ()"
| "co_for (x # xs) f = co_bind (f x) (\<lambda>_. co_for xs f)"

lemma coroutine_induct [case_names Done Await]:
  assumes "\<And>x. P (Done x)" and "\<And>g. (\<And>s. P (fst (g s))) \<Longrightarrow> P (Await g)"
  shows "P c"
proof (induction c)
  case (Await g)
  have "fst (g s) \<in> Basic_BNFs.fsts (g s)" for s
    by (cases "g s") (simp add: prod_set_simps)
  then show ?case
    using Await [OF rangeI] by (intro assms(2)) blast
qed (rule assms(1))

lemma co_run_bind: "co_run (co_bind c f) s = (case co_run c s of (x, s') \<Rightarrow> co_run (f x) s')"
  by (induction c arbitrary: s rule: coroutine_induct) (simp_all add: case_prod_beta)

lemma co_run_atomic [simp]: "co_run (atomic f) s = f s"
  by (cases "f s") (simp add: atomic_def)

lemma co_run_try:
  "co_run (co_try c f) s =
    (case co_run c s of (Inl e, s') \<Rightarrow> (Inl e, s') | (Inr x, s') \<Rightarrow> co_run (f x) s')"
  by (simp add: co_try_def co_run_bind split: prod.split sum.split)

section \<open>Interleaving\<close>

text \<open>
  A pool of methods and the state they share. A schedule is the list of the methods that move, by
  their position; a method that is done does not move.
\<close>

definition pool_step :: "nat \<Rightarrow> ('s, 'r) coroutine list \<times> 's \<Rightarrow> ('s, 'r) coroutine list \<times> 's" where
  "pool_step i P =
    (case P of (cs, s) \<Rightarrow>
      if i < length cs then
        (case cs ! i of
          Done x \<Rightarrow> (cs, s)
        | Await g \<Rightarrow> (case g s of (c, s') \<Rightarrow> (cs[i := c], s')))
      else (cs, s))"

definition pool_run :: "nat list \<Rightarrow> ('s, 'r) coroutine list \<Rightarrow> 's \<Rightarrow> ('s, 'r) coroutine list \<times> 's" where
  "pool_run schedule cs s = fold pool_step schedule (cs, s)"

text \<open>
  One step of one method, and the equations that run a concrete pool: they look at nothing but the
  section that is next (\<open>lazy\<close> keeps the rest as it is).
\<close>

primrec co_next :: "('s, 'r) coroutine \<Rightarrow> 's \<Rightarrow> ('s, 'r) coroutine \<times> 's" where
  "co_next (Done x) s = (Done x, s)"
| "co_next (Await g) s = g s"

lemma pool_run_eval:
  "pool_run [] cs s = (cs, s)"
  "i < length cs \<Longrightarrow> pool_run (i # schedule) cs s =
    (case co_next (cs ! i) s of (c, s') \<Rightarrow> pool_run schedule (cs[i := c]) s')"
proof -
  show "pool_run (i # schedule) cs s =
    (case co_next (cs ! i) s of (c, s') \<Rightarrow> pool_run schedule (cs[i := c]) s')" if "i < length cs"
    using that list_update_id [of cs i]
    by (cases "cs ! i") (auto simp: pool_run_def pool_step_def split: prod.split)
qed (simp add: pool_run_def)

text \<open>A member of the pool that is given all the steps does what it does alone.\<close>

lemma pool_alone:
  assumes "i < length cs"
  shows "\<exists>n. pool_run (replicate n i) cs s = (cs[i := Done (fst (co_run (cs ! i) s))], snd (co_run (cs ! i) s))"
proof -
  have "\<exists>n. pool_run (replicate n i) cs s = (cs[i := Done (fst (co_run c s))], snd (co_run c s))"
    if "cs ! i = c" "i < length cs" for c
    using that
  proof (induction c arbitrary: cs s rule: coroutine_induct)
    case (Done x)
    then have "pool_run (replicate 0 i) cs s = (cs[i := Done x], s)"
      using list_update_id [of cs i] by (simp add: pool_run_eval)
    then show ?case
      by (intro exI [of _ 0]) simp
  next
    case (Await g)
    from Await.IH [of "cs[i := fst (g s)]" s "snd (g s)"] Await.prems obtain n where
      "pool_run (replicate n i) (cs[i := fst (g s)]) (snd (g s)) =
        (cs[i := Done (fst (co_run (fst (g s)) (snd (g s))))], snd (co_run (fst (g s)) (snd (g s))))"
      by auto
    then have "pool_run (replicate (Suc n) i) cs s =
        (cs[i := Done (fst (co_run (Await g) s))], snd (co_run (Await g) s))"
      using Await.prems by (simp add: pool_run_eval case_prod_beta)
    then show ?case
      by blast
  qed
  from this [OF refl assms] show ?thesis .
qed

lemma co_next_eval:
  "co_next (co_bind (Done x) f) s = co_next (f x) s"
  "co_next (co_bind (co_bind c g) f) s = co_next (co_bind c (\<lambda>x. co_bind (g x) f)) s"
  "co_next (co_bind (atomic h) f) s = (case h s of (r, s') \<Rightarrow> (f r, s'))"
  "co_next (atomic h) s = (case h s of (r, s') \<Rightarrow> (Done r, s'))"
proof -
  have *: "co_bind (co_bind c g) f = co_bind c (\<lambda>x. co_bind (g x) f)"
    by (induction c rule: coroutine_induct) (simp_all add: map_prod_def case_prod_beta)
  show "co_next (co_bind (co_bind c g) f) s = co_next (co_bind c (\<lambda>x. co_bind (g x) f)) s"
    by (simp only: *)
qed (simp_all add: atomic_def split: prod.split)

lemma co_next_if:
  "co_next (if b then c else d) s = (if b then co_next c s else co_next d s)"
  "co_bind (if b then c else d) f = (if b then co_bind c f else co_bind d f)"
  by simp_all

lemmas co_eval = pool_run_eval co_next_eval co_next_if co_try_def

lemma lazy_bind: "c = c' \<Longrightarrow> co_bind c f = co_bind c' f"
  by simp

lemma lazy_atomic: "atomic h = atomic h"
  by (rule refl)

lemmas lazy = lazy_bind lazy_atomic

text \<open>
  \<open>holds I G Q c s\<close>: started in \<open>s\<close>, or in a state others have made of it by changes in \<open>G\<close>, every
  section of \<open>c\<close> keeps the invariant \<open>I\<close> and changes the state within \<open>G\<close>, and \<open>c\<close> ends in \<open>Q\<close>.
\<close>

primrec holds ::
    "('s \<Rightarrow> bool) \<Rightarrow> ('s \<Rightarrow> 's \<Rightarrow> bool) \<Rightarrow> ('r \<Rightarrow> 's \<Rightarrow> bool) \<Rightarrow> ('s, 'r) coroutine \<Rightarrow> 's \<Rightarrow> bool" where
  "holds I G Q (Done x) = Q x"
| "holds I G Q (Await g) = (\<lambda>s. \<forall>s'. G s s' \<and> I s' \<longrightarrow>
    (case map_prod (holds I G Q) id (g s') of (h, t) \<Rightarrow> I t \<and> G s' t \<and> h t))"

lemma holds_Await:
  "holds I G Q (Await g) s \<longleftrightarrow> (\<forall>s'. G s s' \<and> I s' \<longrightarrow>
    I (snd (g s')) \<and> G s' (snd (g s')) \<and> holds I G Q (fst (g s')) (snd (g s')))"
  by (simp add: case_prod_beta)

declare holds.simps(2) [simp del]

locale rely_guarantee =
  fixes I :: "'s \<Rightarrow> bool" and G :: "'s \<Rightarrow> 's \<Rightarrow> bool"
  assumes G_refl: "G s s" and G_trans: "G r s \<Longrightarrow> G s t \<Longrightarrow> G r t"
begin

definition stable :: "('r \<Rightarrow> 's \<Rightarrow> bool) \<Rightarrow> bool" where
  "stable Q \<longleftrightarrow> (\<forall>x s t. Q x s \<longrightarrow> G s t \<longrightarrow> Q x t)"

lemma holds_stable: "stable Q \<Longrightarrow> holds I G Q c s \<Longrightarrow> G s t \<Longrightarrow> holds I G Q c t"
  by (cases c) (auto simp: stable_def holds_Await intro: G_trans)

lemma stable_True [simp]: "stable (\<lambda>_ _. True)"
  by (simp add: stable_def)

lemma holds_mono: "holds I G Q c s \<Longrightarrow> (\<And>x t. Q x t \<Longrightarrow> R x t) \<Longrightarrow> holds I G R c s"
  by (induction c arbitrary: s rule: coroutine_induct) (simp_all add: holds_Await)

lemma holds_bind:
  "holds I G (\<lambda>x t. holds I G Q (f x) t) c s \<Longrightarrow> holds I G Q (co_bind c f) s"
  by (induction c arbitrary: s rule: coroutine_induct) (simp_all add: holds_Await)

lemma holds_try:
  "holds I G (\<lambda>r t. case r of Inl e \<Rightarrow> Q (Inl e) t | Inr x \<Rightarrow> holds I G Q (f x) t) c s \<Longrightarrow>
    holds I G Q (co_try c f) s"
  unfolding co_try_def
  by (rule holds_bind, erule holds_mono) (auto split: sum.splits)

lemma holds_atomic:
  "(\<And>s' r t. G s s' \<Longrightarrow> I s' \<Longrightarrow> f s' = (r, t) \<Longrightarrow> I t \<and> G s' t \<and> Q r t) \<Longrightarrow>
    holds I G Q (atomic f) s"
  unfolding atomic_def holds_Await by (simp add: case_prod_beta) (metis prod.collapse)

text \<open>What no section can break is there at the end.\<close>

lemma holds_frame:
  assumes "\<And>s t. P s \<Longrightarrow> G s t \<Longrightarrow> P t"
  shows "holds I G Q c s \<Longrightarrow> P s \<Longrightarrow> holds I G (\<lambda>x t. Q x t \<and> P t) c s"
proof (induction c arbitrary: s rule: coroutine_induct)
  case (Await g)
  show ?case
    unfolding holds_Await
  proof (intro allI impI conjI)
    fix s'
    assume s': "G s s' \<and> I s'"
    with Await.prems(1) show "I (snd (g s'))" "G s' (snd (g s'))"
      by (simp_all add: holds_Await)
    moreover have "P (snd (g s'))"
      using Await.prems(2) s' calculation(2) assms by blast
    ultimately show "holds I G (\<lambda>x t. Q x t \<and> P t) (fst (g s')) (snd (g s'))"
      using Await.prems(1) s' by (intro Await.IH) (simp add: holds_Await)
  qed
qed simp

text \<open>Run alone, a method keeps the invariant and ends in its postcondition.\<close>

lemma holds_run:
  "holds I G Q c s \<Longrightarrow> I s \<Longrightarrow> I (snd (co_run c s)) \<and> G s (snd (co_run c s)) \<and>
    Q (fst (co_run c s)) (snd (co_run c s))"
proof (induction c arbitrary: s rule: coroutine_induct)
  case (Await g)
  let ?c = "fst (g s)" and ?t = "snd (g s)"
  have t: "I ?t" "G s ?t" "holds I G Q ?c ?t"
    using Await.prems G_refl by (simp_all add: holds_Await)
  from Await.IH [OF t(3,1)] t(2) show ?case
    by (auto simp: case_prod_beta intro: G_trans)
qed (simp add: G_refl)

text \<open>In a pool, the invariant survives every schedule.\<close>

lemma pool_step_holds:
  assumes "\<forall>c \<in> set (fst P). holds I G (\<lambda>_ _. True) c (snd P)" and "I (snd P)"
  shows "I (snd (pool_step i P)) \<and> G (snd P) (snd (pool_step i P)) \<and>
    (\<forall>c \<in> set (fst (pool_step i P)). holds I G (\<lambda>_ _. True) c (snd (pool_step i P)))"
proof (cases "i < length (fst P)")
  case True
  then have mem: "fst P ! i \<in> set (fst P)"
    by simp
  show ?thesis
  proof (cases "fst P ! i")
    case (Done x)
    with True assms show ?thesis
      by (cases P) (simp add: pool_step_def G_refl)
  next
    case (Await g)
    have h: "I (snd (g (snd P)))" "G (snd P) (snd (g (snd P)))"
        "holds I G (\<lambda>_ _. True) (fst (g (snd P))) (snd (g (snd P)))"
      using assms mem unfolding Await by (auto simp: holds_Await G_refl)
    have "pool_step i P = ((fst P)[i := fst (g (snd P))], snd (g (snd P)))"
      using True Await by (cases P) (simp add: pool_step_def split: prod.split)
    with h assms(1) show ?thesis
      using holds_stable [OF stable_True] set_update_subset_insert [of "fst P" i] by fastforce
  qed
qed (use assms in \<open>auto simp: pool_step_def G_refl split: prod.splits\<close>)

lemma pool_run_holds:
  assumes "\<And>c. c \<in> set cs \<Longrightarrow> holds I G (\<lambda>_ _. True) c s" and "I s"
  shows "I (snd (pool_run schedule cs s)) \<and> G s (snd (pool_run schedule cs s))"
proof -
  have "I (snd (fold pool_step schedule P)) \<and> G (snd P) (snd (fold pool_step schedule P))"
    if "\<forall>c \<in> set (fst P). holds I G (\<lambda>_ _. True) c (snd P)" and "I (snd P)" for P
    using that
  proof (induction schedule arbitrary: P)
    case (Cons i schedule)
    from pool_step_holds [OF Cons.prems, of i] Cons.IH [of "pool_step i P"] show ?case
      using G_trans by (simp, blast)
  qed (simp add: G_refl)
  from this [of "(cs, s)"] show ?thesis
    using assms by (simp add: pool_run_def)
qed

end

end
