(* ===== verification/TeamSession.thy ===== *)
theory TeamSession
  imports TeamRunInv SchedulerActions Coroutine
begin

text \<open>
  A live team session (\<open>veryagent-team/src/session.rs\<close>) over the run manager, the scheduler and the
  mailbox, with the registry of event loops (\<open>event_loop.rs\<close>) and the projection of messages into
  conversations (\<open>message_projection.rs\<close>, \<open>visibility.rs\<close>). A method is a coroutine: every call of
  the manager, the scheduler or the mailbox is one section, anything may run in between.
\<close>

section \<open>State\<close>

definition target_role_for :: "teammate_role \<Rightarrow> target_role" where
  "target_role_for role = (case role of LeadRole \<Rightarrow> Lead | TeammateRole \<Rightarrow> Teammate)"

record visibility_policy =
  vp_write_mailbox :: bool
  vp_insert_user_visible_bubble :: bool
  vp_insert_teammate_visible_bubble :: bool
  vp_allow_hidden_conversation_message :: bool
  vp_strip_system_notes :: bool

definition user_message_policy :: visibility_policy where
  "user_message_policy = \<lparr>vp_write_mailbox = True, vp_insert_user_visible_bubble = True,
     vp_insert_teammate_visible_bubble = False, vp_allow_hidden_conversation_message = False,
     vp_strip_system_notes = True\<rparr>"

definition teammate_message_policy :: visibility_policy where
  "teammate_message_policy = \<lparr>vp_write_mailbox = True, vp_insert_user_visible_bubble = False,
     vp_insert_teammate_visible_bubble = True, vp_allow_hidden_conversation_message = False,
     vp_strip_system_notes = False\<rparr>"

definition hidden_runtime_message_policy :: visibility_policy where
  "hidden_runtime_message_policy = \<lparr>vp_write_mailbox = False, vp_insert_user_visible_bubble = False,
     vp_insert_teammate_visible_bubble = False, vp_allow_hidden_conversation_message = True,
     vp_strip_system_notes = False\<rparr>"

datatype projection_source =
    FromUser
  | FromTeammate string string "string option" "string option"

record projection_request =
  pq_team_id :: string
  pq_slot_id :: string
  pq_conversation_id :: string
  pq_source :: projection_source
  pq_content :: string
  pq_files :: "string list"
  pq_visibility :: visibility_policy
  pq_dedupe_key :: "string option"

text \<open>The columns of a \<open>MessageRow\<close> that vary; the JSON content is its fields.\<close>

record bubble =
  bb_id :: string
  bb_conversation_id :: string
  bb_content :: string
  bb_sender :: "(string \<times> string option \<times> string option) option"
  bb_position :: string
  bb_hidden :: bool
  bb_created_at :: timestamp_ms

datatype session_event =
    RunOut team_event
  | SchedOut sched_event
  | TeammateMessageOut projection_request string
  | CancelTurnCall string string

text \<open>
  \<open>ses_loops\<close> are the slots with a registered event loop and \<open>ses_notified\<close> those whose \<open>Notify\<close> holds
  a permit. \<open>ses_now\<close> is the clock, which only the environment moves.
\<close>

record team_session =
  ses_runs :: run_manager
  ses_sched :: scheduler
  ses_bubbles :: "bubble list"
  ses_loops :: "string set"
  ses_notified :: "string set"
  ses_recovery_scan_completed :: bool
  ses_events :: "session_event list"
  ses_now :: timestamp_ms

text \<open>
  What the session meets outside: which draws of an identifier go with a failing write to the
  database, the answer of the cancellation port, and the texts of the prompts.
\<close>

record 'v session_env = "'v env" +
  se_write_error :: "nat \<Rightarrow> string option"
  se_cancel_turn :: "string \<Rightarrow> string \<Rightarrow> string option"
  se_wake_text :: "team_agent \<Rightarrow> 'v team_task list \<Rightarrow> mailbox_message list \<Rightarrow> string"
  se_role_prompt :: "team_agent \<Rightarrow> team_agent list \<Rightarrow> string"

definition base_env :: "('v, 'e) session_env_scheme \<Rightarrow> 'v env" where
  "base_env E = \<lparr>env_json = env_json E, env_text = env_text E, env_generate_id = env_generate_id E\<rparr>"

type_synonym 'r async = "(team_session, 'r) coroutine"
type_synonym 'r fallible = "(team_session, team_error + 'r) coroutine"

section \<open>Sections\<close>

definition ses_team_id :: "team_session \<Rightarrow> string" where
  "ses_team_id S = sch_team_id (ses_sched S)"

definition ses_drawn :: "team_session \<Rightarrow> nat" where
  "ses_drawn S = sch_drawn (ses_sched S)"

definition draw :: "nat \<Rightarrow> team_session \<Rightarrow> team_session" where
  "draw n S = S\<lparr>ses_sched := (ses_sched S)\<lparr>sch_drawn := ses_drawn S + n\<rparr>\<rparr>"

definition query :: "(team_session \<Rightarrow> 'r) \<Rightarrow> 'r async" where
  "query f = atomic (\<lambda>S. (f S, S))"

text \<open>
  An operation of the manager, with the clock and up to two fresh identifiers. What is not sent under
  the lock is sent after it, one event at a time, and anything may run in between.
\<close>

type_synonym 'r run_operation = "timestamp_ms \<Rightarrow> string \<Rightarrow> string \<Rightarrow> run_manager \<Rightarrow> 'r op_result"

definition locked_section ::
    "('v, 'e) session_env_scheme \<Rightarrow> held \<Rightarrow> 'r run_operation \<Rightarrow> team_session
      \<Rightarrow> ('r \<times> team_event list) \<times> team_session" where
  "locked_section E held f S =
    (case f (ses_now S) (env_generate_id E (ses_drawn S)) (env_generate_id E (Suc (ses_drawn S)))
        (ses_runs S) of
      (r, m, evs) \<Rightarrow>
        ((r, drop (held evs) evs),
         draw 2 (S\<lparr>ses_runs := m, ses_events := ses_events S @ map RunOut (take (held evs) evs)\<rparr>)))"

definition announce :: "team_event \<Rightarrow> unit async" where
  "announce e = atomic (\<lambda>S. ((), S\<lparr>ses_events := ses_events S @ [RunOut e]\<rparr>))"

definition runs_holding ::
    "('v, 'e) session_env_scheme \<Rightarrow> held \<Rightarrow> 'r run_operation \<Rightarrow> 'r async" where
  "runs_holding E held f =
     co_bind (atomic (locked_section E held f)) (\<lambda>(r, later).
     co_bind (co_for later announce) (\<lambda>_. Done r))"

definition runs :: "('v, 'e) session_env_scheme \<Rightarrow> 'r run_operation \<Rightarrow> 'r async" where
  "runs E f = runs_holding E held_none f"

definition sched_section ::
    "(timestamp_ms \<Rightarrow> scheduler \<Rightarrow> 'r sched_result) \<Rightarrow> team_session
      \<Rightarrow> (team_error + 'r) \<times> team_session" where
  "sched_section f S =
    (case f (ses_now S) (ses_sched S) of
      (r, s, evs) \<Rightarrow> (r, S\<lparr>ses_sched := s, ses_events := ses_events S @ map SchedOut evs\<rparr>))"

definition scheds :: "(timestamp_ms \<Rightarrow> scheduler \<Rightarrow> 'r sched_result) \<Rightarrow> 'r fallible" where
  "scheds f = atomic (sched_section f)"

definition write_section ::
    "('v, 'e) session_env_scheme \<Rightarrow> string \<Rightarrow> string \<Rightarrow> mailbox_message_type \<Rightarrow> string \<Rightarrow> string option
      \<Rightarrow> string list option \<Rightarrow> team_session \<Rightarrow> (team_error + mailbox_message) \<times> team_session" where
  "write_section E to_slot from_slot ty content summary files S =
    (case se_write_error E (ses_drawn S) of
      Some text \<Rightarrow> (Inl (DatabaseError text), draw 1 S)
    | None \<Rightarrow>
        (case write_with_files (env_json E) (env_generate_id E (ses_drawn S)) (ses_now S)
            (ses_team_id S) to_slot from_slot ty content summary files (sch_db (ses_sched S)) of
          (r, db) \<Rightarrow>
            (r, draw 1 (S\<lparr>ses_sched := (ses_sched S)\<lparr>sch_db := db\<rparr>\<rparr>))))"

definition post ::
    "('v, 'e) session_env_scheme \<Rightarrow> string \<Rightarrow> string \<Rightarrow> mailbox_message_type \<Rightarrow> string \<Rightarrow> string option
      \<Rightarrow> string list option \<Rightarrow> mailbox_message fallible" where
  "post E to_slot from_slot ty content summary files =
    atomic (write_section E to_slot from_slot ty content summary files)"

text \<open>\<open>EventLoopRegistry::notify\<close>, and the guarded form of it the session uses.\<close>

definition notify_loop :: "string \<Rightarrow> team_session \<Rightarrow> team_session" where
  "notify_loop slot_id S =
    (if slot_id \<in> ses_loops S then S\<lparr>ses_notified := insert slot_id (ses_notified S)\<rparr> else S)"

definition notify :: "string \<Rightarrow> unit async" where
  "notify slot_id = atomic (\<lambda>S. ((), notify_loop slot_id S))"

section \<open>Projection of messages into conversations\<close>

lemma find_text_shorter:
  assumes "find_text p rest = Some (before, tail)" and "find_text q tail = Some (skipped, closing)"
    and "q \<noteq> []"
  shows "length closing - Suc n < length rest"
proof -
  have "rest = before @ skipped @ closing" "prefix q closing"
    using assms(1,2) find_text_append find_text_prefix by fastforce+
  with assms(3) show ?thesis
    by (cases closing) auto
qed

function strip_loop :: "string \<Rightarrow> string \<Rightarrow> string" where
  "strip_loop result rest =
    (case find_text ''[SYSTEM NOTE:'' rest of
      None \<Rightarrow> result @ rest
    | Some (before, tail) \<Rightarrow>
        (case find_text '']'' tail of
          None \<Rightarrow> (result @ before) @ tail
        | Some (_, closing) \<Rightarrow>
            if suffix [newline] (result @ before) \<and> prefix [newline] (drop 1 closing)
            then strip_loop (result @ before) (drop 2 closing)
            else strip_loop (result @ before) (drop 1 closing)))"
  by pat_completeness auto
termination
  by (relation "measure (\<lambda>(result, rest). length rest)")
    (auto dest: find_text_shorter [where n = 1] find_text_shorter [where n = 0])

declare strip_loop.simps [simp del]

definition strip_system_notes :: "(char \<Rightarrow> bool) \<Rightarrow> string \<Rightarrow> string" where
  "strip_system_notes ws text = str_trim ws (strip_loop [] text)"

definition should_insert_visible_bubble :: "projection_request \<Rightarrow> bool" where
  "should_insert_visible_bubble q =
    (case pq_source q of
      FromUser \<Rightarrow> vp_insert_user_visible_bubble (pq_visibility q)
    | FromTeammate _ _ _ _ \<Rightarrow> vp_insert_teammate_visible_bubble (pq_visibility q))"

definition teammate_dedupe_key :: "string \<Rightarrow> string \<Rightarrow> string \<Rightarrow> string" where
  "teammate_dedupe_key team_id message_id conversation_id =
    ''team:'' @ team_id @ '':mailbox:'' @ message_id @ '':conversation:'' @ conversation_id"

definition build_message_row ::
    "('v, 'e) session_env_scheme \<Rightarrow> projection_request \<Rightarrow> string \<Rightarrow> timestamp_ms \<Rightarrow> bubble" where
  "build_message_row E q msg_id created_at =
    (let (position, text, sender) =
       (case pq_source q of
         FromUser \<Rightarrow>
           (''right'',
            if vp_strip_system_notes (pq_visibility q)
            then strip_system_notes (st_is_whitespace (env_text E)) (pq_content q) else pq_content q,
            None)
       | FromTeammate _ name backend conversation \<Rightarrow>
           (''left'', pq_content q, Some (name, backend, conversation)))
     in \<lparr>bb_id = msg_id, bb_conversation_id = pq_conversation_id q, bb_content = text,
         bb_sender = sender, bb_position = position,
         bb_hidden = vp_allow_hidden_conversation_message (pq_visibility q),
         bb_created_at = created_at\<rparr>)"

datatype projected = Inserted string | AlreadyProjected string | Skipped

text \<open>
  The message store keeps its rows by their identifier: an insertion under one that is taken fails.
  \<open>mint_message_id\<close> draws.
\<close>

definition mint_section ::
    "('v, 'e) session_env_scheme \<Rightarrow> projection_request \<Rightarrow> team_session \<Rightarrow> string \<times> team_session" where
  "mint_section E q S =
    (case pq_dedupe_key q of
      Some key \<Rightarrow> (key, S)
    | None \<Rightarrow> (env_generate_id E (ses_drawn S), draw 1 S))"

definition is_projected :: "projection_request \<Rightarrow> string \<Rightarrow> team_session \<Rightarrow> bool" where
  "is_projected q msg_id S =
    list_ex (\<lambda>b. bb_conversation_id b = pq_conversation_id q \<and> bb_id b = msg_id) (ses_bubbles S)"

definition insert_section ::
    "('v, 'e) session_env_scheme \<Rightarrow> projection_request \<Rightarrow> string \<Rightarrow> team_session
      \<Rightarrow> (team_error + projected) \<times> team_session" where
  "insert_section E q msg_id S =
    (if msg_id \<in> set (map bb_id (ses_bubbles S))
     then (Inl (DatabaseError ''UNIQUE constraint failed: messages.id''), S)
     else
       (Inr (Inserted msg_id),
        S\<lparr>ses_bubbles := ses_bubbles S @ [build_message_row E q msg_id (ses_now S)],
          ses_events := ses_events S @
            (case pq_source q of FromUser \<Rightarrow> []
             | FromTeammate _ _ _ _ \<Rightarrow> [TeammateMessageOut q msg_id])\<rparr>))"

definition project :: "('v, 'e) session_env_scheme \<Rightarrow> projection_request \<Rightarrow> projected fallible" where
  "project E q =
    (if \<not> should_insert_visible_bubble q then Done (Inr Skipped)
     else
       co_bind (atomic (mint_section E q)) (\<lambda>msg_id.
         co_bind (if pq_dedupe_key q \<noteq> None then query (is_projected q msg_id) else Done False)
           (\<lambda>existing.
             if existing then Done (Inr (AlreadyProjected msg_id))
             else atomic (insert_section E q msg_id))))"

text \<open>Where the code only logs a failed projection.\<close>

definition project_quietly :: "('v, 'e) session_env_scheme \<Rightarrow> projection_request \<Rightarrow> unit async" where
  "project_quietly E q = co_bind (project E q) (\<lambda>_. Done ())"

definition user_visible :: "string \<Rightarrow> string \<Rightarrow> string \<Rightarrow> string \<Rightarrow> string list \<Rightarrow> projection_request" where
  "user_visible team_id slot_id conversation_id content files =
    \<lparr>pq_team_id = team_id, pq_slot_id = slot_id, pq_conversation_id = conversation_id,
     pq_source = FromUser, pq_content = content, pq_files = files,
     pq_visibility = user_message_policy, pq_dedupe_key = None\<rparr>"

section \<open>Messages of the user\<close>

text \<open>The part \<open>send_message\<close> and \<open>send_message_to_agent\<close> have in common.\<close>

definition deliver_user_message ::
    "('v, 'e) session_env_scheme \<Rightarrow> string \<Rightarrow> target_role \<Rightarrow> string \<Rightarrow> string \<Rightarrow> string list option
      \<Rightarrow> run_ack fallible" where
  "deliver_user_message E slot_id role conversation_id content files =
    co_try (runs E (\<lambda>now fresh_run fresh_lease.
        acquire_user_message_wake now fresh_run fresh_lease slot_id role)) (\<lambda>(ack, lease).
      co_bind (post E slot_id ''user'' MtMessage content None files) (\<lambda>written.
        case written of
          Inl err \<Rightarrow>
            co_bind (runs E (\<lambda>now _ _. abort_operation_lease now (ol_lease_id lease)))
              (\<lambda>_. Done (Inl err))
        | Inr message \<Rightarrow>
            co_bind (query ses_team_id) (\<lambda>team_id.
            co_bind (project_quietly E (user_visible team_id slot_id conversation_id content
                       (case files of None \<Rightarrow> [] | Some fs \<Rightarrow> fs))) (\<lambda>_.
            co_try (runs E (\<lambda>now _ _.
                commit_operation_lease now (ol_lease_id lease) (Some (mm_id message)))) (\<lambda>_.
            co_bind (notify slot_id) (\<lambda>_.
              Done (Inr (ack\<lparr>ack_message_id := Some (mm_id message)\<rparr>))))))))"

definition send_message ::
    "('v, 'e) session_env_scheme \<Rightarrow> string \<Rightarrow> string list option \<Rightarrow> run_ack fallible" where
  "send_message E content files =
    co_bind (query (\<lambda>S. find_lead_slot_id (ses_sched S))) (\<lambda>found.
      case found of
        None \<Rightarrow> Done (Inl (AgentNotFound ''no lead agent in team''))
      | Some lead_slot_id \<Rightarrow>
          co_try (scheds (\<lambda>_. get_agent lead_slot_id)) (\<lambda>agent.
            deliver_user_message E lead_slot_id Lead (ta_conversation_id agent) content files))"

definition send_message_to_agent ::
    "('v, 'e) session_env_scheme \<Rightarrow> string \<Rightarrow> string \<Rightarrow> string list option \<Rightarrow> run_ack fallible" where
  "send_message_to_agent E slot_id content files =
    co_try (scheds (\<lambda>_. get_agent slot_id)) (\<lambda>agent.
      deliver_user_message E slot_id (target_role_for (ta_role agent)) (ta_conversation_id agent)
        content files)"

section \<open>Messages between agents\<close>

datatype send_message_reason =
    QueuedForIdle | BehindStartingTurn | BehindActiveTurn | SuppressedByPause | NoActiveTeamRun
  | TargetNotFound | TargetDisconnected | TargetUnhealthy | InternalError

datatype send_message_delivery = DeliveryWakeRecorded | DeliveryWakeSuppressed | DeliveryNotRecorded

record target_queue_state =
  tq_slot_id :: string
  tq_role :: target_role
  tq_queue_state :: send_message_reason
  tq_pending_wake_count :: nat
  tq_starting_child_count :: nat
  tq_active_turn_id :: "string option"
  tq_suppressed_wake_count :: nat

record agent_message_queue_result =
  am_team_run_id :: string
  am_delivery :: send_message_delivery
  am_target :: target_queue_state

definition classify_send_message_queue_state :: "slot_work \<Rightarrow> bool \<Rightarrow> send_message_reason" where
  "classify_send_message_queue_state work target_event_loop_registered =
    (if sw_runtime_health work = Some Disconnected then TargetDisconnected
     else if \<not> target_event_loop_registered \<or> sw_runtime_health work = Some Unhealthy
     then TargetUnhealthy
     else if sw_paused work \<and> sw_suppressed_wake_count work > 0 then SuppressedByPause
     else if sw_active_turn_id work \<noteq> None then BehindActiveTurn
     else if sw_starting_child_count work > 0 then BehindStartingTurn
     else QueuedForIdle)"

definition queue_result ::
    "string \<Rightarrow> send_message_delivery \<Rightarrow> send_message_reason \<Rightarrow> slot_work \<Rightarrow> agent_message_queue_result" where
  "queue_result team_run_id delivery reason work =
    \<lparr>am_team_run_id = team_run_id, am_delivery = delivery,
     am_target = \<lparr>tq_slot_id = sw_slot_id work, tq_role = sw_role work, tq_queue_state = reason,
       tq_pending_wake_count = sw_pending_wake_count work,
       tq_starting_child_count = sw_starting_child_count work,
       tq_active_turn_id = sw_active_turn_id work,
       tq_suppressed_wake_count = sw_suppressed_wake_count work\<rparr>\<rparr>"

definition slot_work_or_error :: "string \<Rightarrow> (string \<times> slot_work) fallible" where
  "slot_work_or_error slot_id =
    query (\<lambda>S. case slot_work_for_slot (ses_now S) slot_id (ses_runs S) of
      None \<Rightarrow> Inl (InvalidRequest (''no active team run work for slot '' @ slot_id))
    | Some work \<Rightarrow> Inr work)"

definition send_agent_message_from_agent ::
    "('v, 'e) session_env_scheme \<Rightarrow> string \<Rightarrow> string \<Rightarrow> string \<Rightarrow> agent_message_queue_result fallible"
where
  "send_agent_message_from_agent E from_slot_id to_slot_id content =
    co_try (scheds (\<lambda>_. get_agent to_slot_id)) (\<lambda>to_agent.
    co_try (scheds (\<lambda>_. get_agent from_slot_id)) (\<lambda>from_agent.
    co_try (runs E (\<lambda>now fresh _.
        acquire_run_scoped_wake now fresh to_slot_id (target_role_for (ta_role to_agent))
          McpSendMessage)) (\<lambda>outcome.
      case outcome of
        WakeSuppressed \<Rightarrow>
          co_try (slot_work_or_error to_slot_id) (\<lambda>(team_run_id, work).
            Done (Inr (queue_result team_run_id DeliveryWakeSuppressed
              (classify_send_message_queue_state work True) work)))
      | LeaseAccepted lease \<Rightarrow>
          co_bind (post E to_slot_id from_slot_id MtMessage content None None) (\<lambda>written.
            case written of
              Inl err \<Rightarrow>
                co_bind (runs E (\<lambda>now _ _. abort_operation_lease now (ol_lease_id lease)))
                  (\<lambda>_. Done (Inl err))
            | Inr message \<Rightarrow>
                co_bind (query ses_team_id) (\<lambda>team_id.
                co_bind (project_quietly E
                  \<lparr>pq_team_id = team_id, pq_slot_id = to_slot_id,
                   pq_conversation_id = ta_conversation_id to_agent,
                   pq_source = FromTeammate from_slot_id (ta_name from_agent)
                     (Some (ta_backend from_agent)) (Some (ta_conversation_id from_agent)),
                   pq_content = content, pq_files = [], pq_visibility = teammate_message_policy,
                   pq_dedupe_key = Some (teammate_dedupe_key team_id (mm_id message)
                     (ta_conversation_id to_agent))\<rparr>) (\<lambda>_.
                co_try (runs E (\<lambda>now _ _.
                    commit_operation_lease now (ol_lease_id lease) (Some (mm_id message)))) (\<lambda>_.
                co_bind (query (\<lambda>S. to_slot_id \<in> ses_loops S)) (\<lambda>registered.
                co_bind (if registered then Done None
                         else runs E (\<lambda>now _ _. mark_slot_runtime_health now to_slot_id Unhealthy))
                  (\<lambda>_.
                co_try (slot_work_or_error to_slot_id) (\<lambda>(team_run_id, work).
                co_bind (if registered then notify to_slot_id else Done ()) (\<lambda>_.
                  Done (Inr (queue_result team_run_id DeliveryWakeRecorded
                    (classify_send_message_queue_state work registered) work)))))))))))))"

definition shutdown_agent ::
    "('v, 'e) session_env_scheme \<Rightarrow> string \<Rightarrow> string \<Rightarrow> string option \<Rightarrow> unit fallible" where
  "shutdown_agent E caller_slot_id target_slot_id reason =
    co_try (scheds (\<lambda>_. get_agent caller_slot_id)) (\<lambda>caller.
      if ta_role caller \<noteq> LeadRole then Done (Inl (LeaderOnly ''team_shutdown_agent''))
      else co_try (scheds (\<lambda>_. get_agent target_slot_id)) (\<lambda>target.
        if ta_role target = LeadRole
        then Done (Inl (InvalidRequest ''cannot shutdown the team lead''))
        else co_try (runs E (\<lambda>now fresh _.
            acquire_run_scoped_wake now fresh target_slot_id (target_role_for (ta_role target))
              McpShutdownRequest)) (\<lambda>outcome.
          case outcome of
            WakeSuppressed \<Rightarrow> Done (Inl (InvalidRequest ''shutdown wake was suppressed''))
          | LeaseAccepted lease \<Rightarrow>
              co_bind (scheds (\<lambda>now.
                  request_shutdown_agent (base_env E) now caller_slot_id target_slot_id reason))
                (\<lambda>requested.
                  case requested of
                    Inl err \<Rightarrow>
                      co_bind (runs E (\<lambda>now _ _. abort_operation_lease now (ol_lease_id lease)))
                        (\<lambda>_. Done (Inl err))
                  | Inr message \<Rightarrow>
                      if mm_to_agent_id message \<noteq> target_slot_id then
                        co_bind (runs E (\<lambda>now _ _. abort_operation_lease now (ol_lease_id lease)))
                          (\<lambda>_. Done (Inl (InvalidRequest
                            (''shutdown mailbox target mismatch: expected '' @ target_slot_id @
                             '', got '' @ mm_to_agent_id message))))
                      else
                        co_try (runs E (\<lambda>now _ _. commit_operation_lease now (ol_lease_id lease)
                            (Some (mm_id message)))) (\<lambda>_.
                          co_bind (notify target_slot_id) (\<lambda>_. Done (Inr ())))))))"

section \<open>Wakes\<close>

definition reserve_wake_for_team_work ::
    "('v, 'e) session_env_scheme \<Rightarrow> string \<Rightarrow> wake_source \<Rightarrow> string option
      \<Rightarrow> target_role option fallible" where
  "reserve_wake_for_team_work E slot_id source trigger_message_id =
    co_try (scheds (\<lambda>_. get_agent slot_id)) (\<lambda>agent.
    co_try (runs E (\<lambda>now _ _. record_or_suppress_wake now slot_id (target_role_for (ta_role agent))
        source trigger_message_id)) (\<lambda>decision.
      Done (Inr (if decision = Recorded then Some (target_role_for (ta_role agent)) else None))))"

definition scheduler_wake_agent_for_team_work ::
    "('v, 'e) session_env_scheme \<Rightarrow> string \<Rightarrow> wake_source \<Rightarrow> unit fallible" where
  "scheduler_wake_agent_for_team_work E slot_id source =
    co_try (scheds (\<lambda>_. get_agent slot_id)) (\<lambda>agent.
    co_try (runs E (\<lambda>now fresh _. acquire_scheduler_wake now fresh slot_id
        (target_role_for (ta_role agent)) source)) (\<lambda>outcome.
      case outcome of
        WakeSuppressed \<Rightarrow> Done (Inr ())
      | LeaseAccepted lease \<Rightarrow>
          co_try (runs E (\<lambda>now _ _. commit_operation_lease now (ol_lease_id lease) None)) (\<lambda>_.
            co_bind (notify slot_id) (\<lambda>_. Done (Inr ())))))"

definition wake_leader_after_recovery_message ::
    "('v, 'e) session_env_scheme \<Rightarrow> wake_source \<Rightarrow> unit fallible" where
  "wake_leader_after_recovery_message E source =
    co_bind (query (\<lambda>S. find_lead_slot_id (ses_sched S))) (\<lambda>found.
      case found of
        None \<Rightarrow> Done (Inl (AgentNotFound ''lead''))
      | Some lead_slot_id \<Rightarrow>
          co_bind (runs E (\<lambda>now fresh _. acquire_run_scoped_wake now fresh lead_slot_id Lead source))
            (\<lambda>outcome.
              case outcome of
                Inl err \<Rightarrow> Done (if err = no_active_run_error then Inr () else Inl err)
              | Inr WakeSuppressed \<Rightarrow> Done (Inr ())
              | Inr (LeaseAccepted lease) \<Rightarrow>
                  co_try (runs E (\<lambda>now _ _. commit_operation_lease now (ol_lease_id lease) None))
                    (\<lambda>_. co_bind (notify lead_slot_id) (\<lambda>_. Done (Inr ())))))"

definition notify_leader_child_interrupted ::
    "('v, 'e) session_env_scheme \<Rightarrow> string \<Rightarrow> string option \<Rightarrow> unit fallible" where
  "notify_leader_child_interrupted E slot_id reason =
    co_bind (query (\<lambda>S. find_lead_slot_id (ses_sched S))) (\<lambda>found.
      case found of
        None \<Rightarrow> Done (Inr ())
      | Some lead_slot_id \<Rightarrow>
          co_try (post E lead_slot_id slot_id MtIdleNotification
              (case reason of Some r \<Rightarrow> r
               | None \<Rightarrow> ''Agent '' @ slot_id @ '' was interrupted by the user.'')
              (Some ''Interrupted by user'') None)
            (\<lambda>_. wake_leader_after_recovery_message E InterruptedNotification))"

definition notify_leader_spawn_attach_failed ::
    "('v, 'e) session_env_scheme \<Rightarrow> string \<Rightarrow> string \<Rightarrow> unit fallible" where
  "notify_leader_spawn_attach_failed E failed_slot_id error =
    co_bind (query (\<lambda>S. find_lead_slot_id (ses_sched S))) (\<lambda>found.
      case found of
        None \<Rightarrow> Done (Inl (AgentNotFound ''lead''))
      | Some lead_slot_id \<Rightarrow>
          co_try (post E lead_slot_id failed_slot_id MtMessage
              (''Spawned teammate '' @ failed_slot_id @ '' failed to attach its runtime. Error: '' @ error)
              None None)
            (\<lambda>_. wake_leader_after_recovery_message E SpawnAttachFailure))"

text \<open>The scan of the mailboxes after a session was restored; the flag is swapped first.\<close>

definition recoverable_count :: "('v, 'e) session_env_scheme \<Rightarrow> team_session \<Rightarrow> string \<Rightarrow> nat" where
  "recoverable_count E S slot_id =
    length (filter (\<lambda>m. mm_from_agent_id m \<noteq> slot_id)
      (peek_unread (env_json E) (ses_team_id S) slot_id (sch_db (ses_sched S))))"

fun scan_candidates ::
    "('v, 'e) session_env_scheme \<Rightarrow> team_agent list \<Rightarrow> recovery_candidate list \<Rightarrow>
      recovery_candidate list async" where
  "scan_candidates E [] candidates = Done candidates"
| "scan_candidates E (agent # agents) candidates =
    co_bind (query (\<lambda>S. if ta_slot_id agent \<in> ses_loops S
                        then recoverable_count E S (ta_slot_id agent) else 0)) (\<lambda>count.
      scan_candidates E agents
        (if count = 0 then candidates
         else candidates @ [\<lparr>rc_slot_id = ta_slot_id agent,
           rc_role = target_role_for (ta_role agent), rc_unread_count = count\<rparr>]))"

definition try_start_recovery_drain ::
    "('v, 'e) session_env_scheme \<Rightarrow> recovery_result option fallible" where
  "try_start_recovery_drain E =
    co_bind (atomic (\<lambda>S. (ses_recovery_scan_completed S, S\<lparr>ses_recovery_scan_completed := True\<rparr>)))
      (\<lambda>completed.
        if completed then Done (Inr None)
        else co_bind (query (\<lambda>S. list_agents (ses_sched S))) (\<lambda>agents.
          co_bind (scan_candidates E agents []) (\<lambda>candidates.
            if candidates = [] then Done (Inr None)
            else co_bind (runs E (\<lambda>now fresh _. recover_mailbox_backlog now fresh candidates))
              (\<lambda>result.
                co_bind (co_for (case result of None \<Rightarrow> [] | Some r \<Rightarrow> rr_recorded_wakes r) notify)
                  (\<lambda>_. Done (Inr result))))))"

section \<open>Cancelling and pausing\<close>

definition run_is_not_active :: "string \<Rightarrow> team_error" where
  "run_is_not_active team_run_id =
    InvalidRequest (''team run '' @ team_run_id @ '' is not active'')"

definition require_current_run :: "string \<Rightarrow> team_error \<Rightarrow> team_error \<Rightarrow> unit fallible" where
  "require_current_run team_run_id none other =
    query (\<lambda>S. case current_run_id (ses_runs S) of
      None \<Rightarrow> Inl none
    | Some current \<Rightarrow> if current \<noteq> team_run_id then Inl other else Inr ())"

text \<open>The answer of the cancellation port; the call is recorded.\<close>

definition cancel_agent_turn ::
    "('v, 'e) session_env_scheme \<Rightarrow> active_child_turn \<Rightarrow> string option async" where
  "cancel_agent_turn E child =
    atomic (\<lambda>S. (se_cancel_turn E (ac_conversation_id child) (ac_turn_id child),
      S\<lparr>ses_events := ses_events S @ [CancelTurnCall (ac_conversation_id child) (ac_turn_id child)]\<rparr>))"

definition drain_mailboxes :: "('v, 'e) session_env_scheme \<Rightarrow> string list \<Rightarrow> nat async" where
  "drain_mailboxes E agent_ids =
    atomic (\<lambda>S. case mark_all_unread_for_agents_read (env_json E) (ses_team_id S) agent_ids
          (sch_db (ses_sched S)) of
        (n, db) \<Rightarrow> (n, S\<lparr>ses_sched := (ses_sched S)\<lparr>sch_db := db\<rparr>\<rparr>))"

definition cancel_run ::
    "('v, 'e) session_env_scheme \<Rightarrow> string \<Rightarrow> string option \<Rightarrow> string option \<Rightarrow> unit fallible" where
  "cancel_run E team_run_id target_slot_id reason =
    co_try (require_current_run team_run_id (InvalidRequest ''no active team run to cancel'')
        (run_is_not_active team_run_id)) (\<lambda>_.
    co_try (runs E (\<lambda>now _ _. begin_cancel now target_slot_id reason)) (\<lambda>_.
    co_bind (query (\<lambda>S. map ta_slot_id (list_agents (ses_sched S)))) (\<lambda>agent_ids.
    co_bind (drain_mailboxes E agent_ids) (\<lambda>_.
    co_bind (query (\<lambda>S. active_child_turns (ses_runs S))) (\<lambda>children.
    co_bind (co_for children (\<lambda>child.
        co_bind (cancel_agent_turn E child) (\<lambda>_.
          runs_holding E held_but_last (\<lambda>now _ _. record_child_cancelled now child)))) (\<lambda>_.
    co_bind (runs_holding E held_all (\<lambda>now _ _. try_complete_cancelled now)) (\<lambda>_. Done (Inr ()))))))))"

definition cancel_child_turn ::
    "('v, 'e) session_env_scheme \<Rightarrow> string \<Rightarrow> string \<Rightarrow> string option \<Rightarrow> unit fallible" where
  "cancel_child_turn E team_run_id slot_id reason =
    co_try (runs E (\<lambda>_ _ _. begin_cancel_child slot_id)) (\<lambda>target.
      case target of
        CancelActive child \<Rightarrow>
          if ac_team_run_id child \<noteq> team_run_id
          then Done (Inl (InvalidRequest
            (''agent '' @ slot_id @ '' is not active in team run '' @ team_run_id)))
          else co_bind (cancel_agent_turn E child) (\<lambda>failed.
            case failed of
              Some text \<Rightarrow> Done (Inl (InvalidRequest text))
            | None \<Rightarrow>
                co_bind (runs_holding E held_but_last (\<lambda>now _ _. record_child_cancelled now child)) (\<lambda>_.
                  if ac_role child = Teammate then notify_leader_child_interrupted E slot_id reason
                  else co_bind (runs_holding E held_all (\<lambda>now _ _. maybe_complete now)) (\<lambda>_. Done (Inr ()))))
      | CancelStarting reservation \<Rightarrow>
          if sr_team_run_id reservation \<noteq> team_run_id
          then Done (Inl (InvalidRequest
            (''agent '' @ slot_id @ '' is not starting in team run '' @ team_run_id)))
          else co_try (if sr_role reservation = Teammate
                       then notify_leader_child_interrupted E slot_id reason else Done (Inr ()))
            (\<lambda>_. co_bind (runs_holding E held_all (\<lambda>now _ _. try_complete_cancelled now)) (\<lambda>_. Done (Inr ()))))"

definition session_pause_slot_work ::
    "('v, 'e) session_env_scheme \<Rightarrow> string \<Rightarrow> string \<Rightarrow> string option \<Rightarrow> unit fallible" where
  "session_pause_slot_work E team_run_id slot_id reason =
    co_try (require_current_run team_run_id (InvalidRequest ''no active team run to pause'')
        (InvalidRequest (''agent '' @ slot_id @ '' is not active in team run '' @ team_run_id))) (\<lambda>_.
    co_try (runs E (\<lambda>now _ _. pause_slot_work now slot_id reason)) (\<lambda>outcome.
      case po_cancel_target outcome of
        None \<Rightarrow> Done (Inr ())
      | Some (CancelActive child) \<Rightarrow>
          co_bind (cancel_agent_turn E child) (\<lambda>failed.
            case failed of
              Some text \<Rightarrow> Done (Inl (InvalidRequest text))
            | None \<Rightarrow>
                co_bind (runs E (\<lambda>now _ _. complete_pause_after_child_cancelled now child reason))
                  (\<lambda>_. if ac_role child = Teammate
                       then notify_leader_child_interrupted E slot_id reason else Done (Inr ())))
      | Some (CancelStarting reservation) \<Rightarrow>
          if sr_role reservation = Teammate then notify_leader_child_interrupted E slot_id reason
          else Done (Inr ())))"

end
