(* ===== verification/TeamLoop.thy ===== *)
theory TeamLoop
  imports TeamSession
begin

text \<open>
  The event loop of an agent (\<open>veryagent-team/src/event_loop.rs\<close>): when it is notified it computes
  the input of a wake (\<open>compute_wake_input\<close> of \<open>session.rs\<close>), claims the wake, runs a turn through the
  port, marks the messages as read and finalizes, until there is nothing to do. What the port does
  in one turn is an argument (\<open>port_turn\<close>): the starts it announces, and its outcome.
\<close>

section \<open>The input of a wake\<close>

record wake_input =
  wi_team_run_id :: "string option"
  wi_conversation_id :: string
  wi_first_message :: string
  wi_should_send :: bool
  wi_unread :: "mailbox_message list"
  wi_agent_role :: teammate_role
  wi_wake_source :: "wake_source option"
  wi_trigger_message_id :: "string option"

definition select_unread ::
    "string \<Rightarrow> pending_wake_view option \<Rightarrow> mailbox_message list \<Rightarrow> mailbox_message list" where
  "select_unread slot_id next_wake all_unread =
    (case next_wake of
      Some wake \<Rightarrow>
        if pv_source wake = UserIntervention then
          (case pv_message_id wake of
            Some message_id \<Rightarrow>
              filter (\<lambda>m. mm_id m = message_id \<and> mm_from_agent_id m \<noteq> slot_id) all_unread
          | None \<Rightarrow> filter (\<lambda>m. mm_from_agent_id m = ''user'') all_unread)
        else filter (\<lambda>m. mm_from_agent_id m \<noteq> slot_id) all_unread
    | None \<Rightarrow> filter (\<lambda>m. mm_from_agent_id m \<noteq> slot_id) all_unread)"

definition is_intervention :: "pending_wake_view option \<Rightarrow> bool" where
  "is_intervention next_wake = (map_option pv_source next_wake = Some UserIntervention)"

definition blank_line :: string where
  "blank_line = [newline, newline]"

definition intervention_notice :: string where
  "intervention_notice = ''## Turn Context'' @ blank_line @
     ''This turn was triggered by a user intervention. Prioritize the user'' @ [CHR 0x27] @
     ''s message in this turn. Do not infer exact queue or backlog state from this notice.'' @
     blank_line"

definition compute_wake_input ::
    "('v, 'e) session_env_scheme \<Rightarrow> string \<Rightarrow> wake_input option fallible" where
  "compute_wake_input E slot_id =
    co_try (scheds (\<lambda>_. get_agent slot_id)) (\<lambda>agent.
    co_bind (query (\<lambda>S. peek_unread (env_json E) (ses_team_id S) slot_id (sch_db (ses_sched S))))
      (\<lambda>all_unread.
    co_bind (query (\<lambda>S. peek_next_pending_wake slot_id (ses_runs S))) (\<lambda>next_wake.
    co_bind (query (\<lambda>S. active_run_id (ses_runs S))) (\<lambda>active_team_run_id.
      let unread = select_unread slot_id next_wake all_unread in
      if unread \<noteq> [] \<and> (active_team_run_id = None \<or> next_wake = None) then Done (Inr None)
      else
        co_bind (query (\<lambda>S. sched_list_tasks (base_env E) (ses_sched S))) (\<lambda>tasks.
        let body = se_wake_text E agent tasks unread;
            wake_body = (if is_intervention next_wake then intervention_notice @ body else body) in
        co_bind (atomic (\<lambda>S. case take_needs_role_prompt slot_id (ses_sched S) of
            (needs, s) \<Rightarrow> (needs, S\<lparr>ses_sched := s\<rparr>))) (\<lambda>needs_role_prompt.
        co_bind (if needs_role_prompt then query (\<lambda>S. list_agents (ses_sched S)) else Done [])
          (\<lambda>members.
          Done (Inr (Some \<lparr>wi_team_run_id = active_team_run_id,
            wi_conversation_id = ta_conversation_id agent,
            wi_first_message =
              (if needs_role_prompt then se_role_prompt E agent members @ blank_line @ wake_body
               else wake_body),
            wi_should_send = (unread \<noteq> []), wi_unread = unread, wi_agent_role = ta_role agent,
            wi_wake_source = map_option pv_source next_wake,
            wi_trigger_message_id = Option.bind next_wake pv_message_id\<rparr>)))))))))"

definition mirror_request ::
    "string \<Rightarrow> team_agent list \<Rightarrow> wake_input \<Rightarrow> mailbox_message \<Rightarrow> projection_request" where
  "mirror_request team_id agents input msg =
    (let sender = find (\<lambda>a. ta_slot_id a = mm_from_agent_id msg) agents;
         sender_name = (case sender of Some a \<Rightarrow> ta_name a | None \<Rightarrow> mm_from_agent_id msg)
     in \<lparr>pq_team_id = team_id, pq_slot_id = mm_to_agent_id msg,
         pq_conversation_id = wi_conversation_id input,
         pq_source = FromTeammate (mm_from_agent_id msg) sender_name
           (map_option ta_backend sender) (map_option ta_conversation_id sender),
         pq_content =
           (if length (wi_unread input) > 1
            then ''['' @ sender_name @ ''] '' @ mm_content msg else mm_content msg),
         pq_files = (case mm_files msg of None \<Rightarrow> [] | Some fs \<Rightarrow> fs),
         pq_visibility = teammate_message_policy,
         pq_dedupe_key = Some (teammate_dedupe_key team_id (mm_id msg) (wi_conversation_id input))\<rparr>)"

definition is_mirrored :: "mailbox_message \<Rightarrow> bool" where
  "is_mirrored msg \<longleftrightarrow>
    \<not> (mm_from_agent_id msg = ''user'' \<or> mm_msg_type msg = MtIdleNotification)"

definition mirror_unread_to_conversation ::
    "('v, 'e) session_env_scheme \<Rightarrow> wake_input \<Rightarrow> unit async" where
  "mirror_unread_to_conversation E input =
    (if wi_unread input = [] then Done ()
     else
       co_bind (query (\<lambda>S. (ses_team_id S, list_agents (ses_sched S)))) (\<lambda>(team_id, agents).
         co_for (filter is_mirrored (wi_unread input))
           (\<lambda>msg. project_quietly E (mirror_request team_id agents input msg))))"

section \<open>One turn\<close>

record agent_turn_started =
  at_team_run_id :: string
  at_slot_id :: string
  at_role :: target_role
  at_conversation_id :: string
  at_turn_id :: string

datatype agent_turn_status = TurnCompleted | TurnFailed | TurnSkipped

datatype agent_turn_error = PortSkipped string | PortFailed string

record agent_turn_outcome =
  ao_conversation_id :: string
  ao_turn_id :: string
  ao_status :: agent_turn_status

record agent_turn_request =
  ar_team_run_id :: "string option"
  ar_team_id :: string
  ar_slot_id :: string
  ar_role :: target_role
  ar_conversation_id :: string
  ar_content :: string
  ar_files :: "string list"
  ar_unread_message_ids :: "string list"
  ar_reports_start :: bool

record port_turn =
  pt_started :: "agent_turn_started list"
  pt_outcome :: "agent_turn_error + agent_turn_outcome"

type_synonym port = "agent_turn_request \<Rightarrow> port_turn"

definition is_retryable_start_skip :: "agent_turn_error \<Rightarrow> bool" where
  "is_retryable_start_skip error =
    (case error of PortSkipped reason \<Rightarrow> str_contains reason ''already running'' | PortFailed _ \<Rightarrow> False)"

record turn_execution =
  te_finish_ok :: bool
  te_team_run_id :: "string option"
  te_turn_id :: "string option"

definition set_status_quietly :: "string \<Rightarrow> teammate_status \<Rightarrow> unit async" where
  "set_status_quietly slot_id status = co_bind (scheds (\<lambda>_. set_status slot_id status)) (\<lambda>_. Done ())"

text \<open>The callback the port calls when the child has a turn.\<close>

definition on_started ::
    "('v, 'e) session_env_scheme \<Rightarrow> string \<Rightarrow> agent_turn_started \<Rightarrow> unit async" where
  "on_started E reservation_id started =
    co_bind (runs E (\<lambda>now _ _. record_child_started now reservation_id
      \<lparr>ac_team_run_id = at_team_run_id started, ac_slot_id = at_slot_id started,
       ac_role = at_role started, ac_conversation_id = at_conversation_id started,
       ac_turn_id = at_turn_id started, ac_started_at_ms = now,
       ac_last_slow_notified_at_ms = None\<rparr>)) (\<lambda>decision.
      case decision of
        StartAccepted \<Rightarrow> Done ()
      | StartIgnored \<Rightarrow> Done ()
      | CancelImmediately child \<Rightarrow>
          co_bind (cancel_agent_turn E child) (\<lambda>_.
          co_bind (runs_holding E held_but_last (\<lambda>now _ _. record_child_cancelled now child)) (\<lambda>_.
          co_bind (runs_holding E held_all (\<lambda>now _ _. try_complete_cancelled now)) (\<lambda>_. Done ()))))"

definition mark_read :: "string list \<Rightarrow> unit async" where
  "mark_read ids =
    (if ids = [] then Done ()
     else atomic (\<lambda>S. ((), S\<lparr>ses_sched :=
       (ses_sched S)\<lparr>sch_db := mark_read_batch ids (sch_db (ses_sched S))\<rparr>\<rparr>)))"

text \<open>
  What follows the port call. The reservation is there exactly when the input has a run
  (\<open>started_seen\<close> tells whether the callback ran).
\<close>

definition after_port ::
    "('v, 'e) session_env_scheme \<Rightarrow> string \<Rightarrow> wake_input \<Rightarrow> starting_reservation option \<Rightarrow> bool
      \<Rightarrow> agent_turn_error + agent_turn_outcome \<Rightarrow> turn_execution option async" where
  "after_port E slot_id input reservation started_seen outcome =
    (case outcome of
      Inl e \<Rightarrow>
        let failed = Some \<lparr>te_finish_ok = False, te_team_run_id = wi_team_run_id input, te_turn_id = None\<rparr>
        in (case reservation of
          None \<Rightarrow> Done failed
        | Some res \<Rightarrow>
            if started_seen
            then co_bind (runs E (\<lambda>now _ _. complete_failed now)) (\<lambda>_. Done failed)
            else if is_retryable_start_skip e
            then co_bind (runs E (\<lambda>now _ _. retry_child_start_later now (sr_reservation_id res))) (\<lambda>_.
                 co_bind (set_status_quietly slot_id SIdle) (\<lambda>_. Done None))
            else co_bind (runs_holding E held_unless_failed (\<lambda>now _ _. record_child_start_failed now (sr_reservation_id res)))
                   (\<lambda>_. Done failed))
    | Inr ok \<Rightarrow>
        co_bind (mark_read (map mm_id (wi_unread input))) (\<lambda>_.
          Done (Some \<lparr>te_finish_ok = (ao_status ok = TurnCompleted),
            te_team_run_id = wi_team_run_id input, te_turn_id = Some (ao_turn_id ok)\<rparr>)))"

definition execute_turn ::
    "('v, 'e) session_env_scheme \<Rightarrow> string \<Rightarrow> port \<Rightarrow> wake_input \<Rightarrow> turn_execution option async" where
  "execute_turn E slot_id port input =
    (let role = target_role_for (wi_agent_role input) in
     co_bind (if wi_team_run_id input = None then Done (Some None)
              else co_bind (runs E (\<lambda>now fresh _.
                  claim_wake_for_turn now fresh slot_id role (wi_conversation_id input)))
                (\<lambda>claimed. Done (map_option Some claimed))) (\<lambda>claimed.
       case claimed of
         None \<Rightarrow> co_bind (set_status_quietly slot_id SIdle) (\<lambda>_. Done None)
       | Some reservation \<Rightarrow>
           co_bind (mirror_unread_to_conversation E input) (\<lambda>_.
           co_bind (set_status_quietly slot_id SWorking) (\<lambda>_.
           co_bind (query ses_team_id) (\<lambda>team_id.
           let turn = port \<lparr>ar_team_run_id = wi_team_run_id input, ar_team_id = team_id,
                 ar_slot_id = slot_id, ar_role = role, ar_conversation_id = wi_conversation_id input,
                 ar_content = wi_first_message input,
                 ar_files = concat (List.map_filter mm_files (wi_unread input)),
                 ar_unread_message_ids = map mm_id (wi_unread input),
                 ar_reports_start = (reservation \<noteq> None)\<rparr>;
               starts = (if reservation = None then [] else pt_started turn)
           in co_bind (co_for starts (\<lambda>started. case reservation of
                  None \<Rightarrow> Done () | Some res \<Rightarrow> on_started E (sr_reservation_id res) started)) (\<lambda>_.
                after_port E slot_id input reservation (starts \<noteq> []) (pt_outcome turn)))))))"

definition loop_finalize_turn ::
    "('v, 'e) session_env_scheme \<Rightarrow> string \<Rightarrow> turn_execution \<Rightarrow> wake_input \<Rightarrow> unit async" where
  "loop_finalize_turn E slot_id turn input =
    co_bind (if te_finish_ok turn then Done () else set_status_quietly slot_id SError) (\<lambda>_.
    co_bind (scheds (\<lambda>now. finalize_turn (base_env E) now slot_id [])) (\<lambda>finalized.
    co_bind (case finalized of
        Inr (Some wake_target) \<Rightarrow>
          if wake_target \<noteq> slot_id
          then co_bind (scheduler_wake_agent_for_team_work E wake_target IdleNotification) (\<lambda>_. Done ())
          else Done ()
      | _ \<Rightarrow> Done ()) (\<lambda>_.
    co_bind (case (te_team_run_id turn, te_turn_id turn) of
        (Some _, Some turn_id) \<Rightarrow>
          co_bind (runs_holding E held_unless_failed (\<lambda>now _ _. record_child_completed now slot_id turn_id
              (if te_finish_ok turn then RunCompleted else RunFailed))) (\<lambda>_.
          co_bind (runs_holding E held_all (\<lambda>now _ _. maybe_complete now)) (\<lambda>_. Done ()))
      | _ \<Rightarrow> Done ()) (\<lambda>_.
    if (case wi_wake_source input of None \<Rightarrow> False | Some source \<Rightarrow> resumes_paused_slot source)
    then co_bind (runs E (\<lambda>now _ _. release_suppressed_wake_if_resumed now slot_id
        (target_role_for (wi_agent_role input)))) (\<lambda>released.
          if released \<noteq> None then notify slot_id else Done ())
    else Done ()))))"

section \<open>The loop\<close>

text \<open>One pass through the body of the drain loop; the answer tells whether the loop goes on.\<close>

definition drain_pass :: "('v, 'e) session_env_scheme \<Rightarrow> string \<Rightarrow> port \<Rightarrow> bool async" where
  "drain_pass E slot_id port =
    co_bind (compute_wake_input E slot_id) (\<lambda>computed.
      case computed of
        Inl _ \<Rightarrow> Done False
      | Inr None \<Rightarrow> Done False
      | Inr (Some input) \<Rightarrow>
          if \<not> wi_should_send input
          then co_bind (runs_holding E held_all (\<lambda>now _ _. record_empty_wake_observed now slot_id)) (\<lambda>_. Done False)
          else co_bind (execute_turn E slot_id port input) (\<lambda>executed.
            case executed of
              None \<Rightarrow> Done False
            | Some turn \<Rightarrow> co_bind (loop_finalize_turn E slot_id turn input) (\<lambda>_. Done True)))"

text \<open>
  The drain loop for as many passes as the list has behaviours of the port; the answer is whether
  the loop has stopped by itself. A wake-up consumes the permit first.
\<close>

fun drain_loop :: "('v, 'e) session_env_scheme \<Rightarrow> string \<Rightarrow> port list \<Rightarrow> bool async" where
  "drain_loop E slot_id [] = Done False"
| "drain_loop E slot_id (port # ports) =
    co_bind (drain_pass E slot_id port) (\<lambda>go_on.
      if go_on then drain_loop E slot_id ports else Done True)"

definition event_loop_round :: "('v, 'e) session_env_scheme \<Rightarrow> string \<Rightarrow> port list \<Rightarrow> bool async" where
  "event_loop_round E slot_id ports =
    co_bind (atomic (\<lambda>S. (slot_id \<in> ses_notified S, S\<lparr>ses_notified := ses_notified S - {slot_id}\<rparr>)))
      (\<lambda>notified. if notified then drain_loop E slot_id ports else Done False)"

section \<open>The registry of loops\<close>

definition loop_spawn :: "string \<Rightarrow> team_session \<Rightarrow> bool \<times> team_session" where
  "loop_spawn slot_id S =
    (if slot_id \<in> ses_loops S then (False, S)
     else (True, S\<lparr>ses_loops := insert slot_id (ses_loops S)\<rparr>))"

definition loop_remove :: "string \<Rightarrow> team_session \<Rightarrow> team_session" where
  "loop_remove slot_id S =
    S\<lparr>ses_loops := ses_loops S - {slot_id}, ses_notified := ses_notified S - {slot_id}\<rparr>"

definition loop_shutdown :: "team_session \<Rightarrow> team_session" where
  "loop_shutdown S = S\<lparr>ses_loops := {}, ses_notified := {}\<rparr>"

definition session_remove_agent :: "string \<Rightarrow> unit fallible" where
  "session_remove_agent slot_id =
    co_bind (atomic (\<lambda>S. ((), loop_remove slot_id S))) (\<lambda>_.
    co_try (scheds (\<lambda>_. remove_agent slot_id)) (\<lambda>_. Done (Inr ())))"

end
