(* ===== verification/TeamSessionInv.thy ===== *)
theory TeamSessionInv
  imports TeamLoop
begin

text \<open>
  What the run manager keeps for a session whatever is called: a wake of a user message is only
  ever queued, or reserved for a start, together with the identifier of a message that is in the
  mailbox of its slot, and no operation but an acquire adds a lease. \<open>has slot message\<close> stands for
  the mailbox.
\<close>

section \<open>Backed wakes\<close>

definition wake_ok :: "(string \<Rightarrow> string \<Rightarrow> bool) \<Rightarrow> pending_wake \<Rightarrow> bool" where
  "wake_ok has w \<longleftrightarrow>
    (is_foreground_wake (pw_source w) \<longrightarrow> (\<exists>i. pw_message_id w = Some i \<and> has (pw_slot_id w) i))"

definition start_ok :: "(string \<Rightarrow> string \<Rightarrow> bool) \<Rightarrow> starting_reservation \<Rightarrow> bool" where
  "start_ok has res \<longleftrightarrow>
    (is_foreground_wake (sr_wake_source res) \<longrightarrow>
      (\<exists>i. sr_message_id res = Some i \<and> has (sr_slot_id res) i))"

definition pending_ok :: "(string \<Rightarrow> string \<Rightarrow> bool) \<Rightarrow> (string, pending_wake list) hmap \<Rightarrow> bool" where
  "pending_ok has m \<longleftrightarrow> (\<forall>(s, q) \<in> set m. \<forall>w \<in> set q. wake_ok has w)"

definition starting_ok :: "(string \<Rightarrow> string \<Rightarrow> bool) \<Rightarrow> (string, starting_reservation) hmap \<Rightarrow> bool" where
  "starting_ok has m \<longleftrightarrow> (\<forall>(k, res) \<in> set m. start_ok has res)"

definition held_ok :: "paused_slot_state \<Rightarrow> bool" where
  "held_ok e \<longleftrightarrow>
    (case ps_last_suppressed_source e of None \<Rightarrow> True | Some src \<Rightarrow> \<not> is_foreground_wake src)"

definition gate_ok :: "slot_wake_gate \<Rightarrow> bool" where
  "gate_ok g \<longleftrightarrow> (\<forall>(s, e) \<in> set g. held_ok e)"

definition backed :: "(string \<Rightarrow> string \<Rightarrow> bool) \<Rightarrow> team_run \<Rightarrow> bool" where
  "backed has r \<longleftrightarrow>
    pending_ok has (run_pending_wakes r) \<and> starting_ok has (run_starting_reservations r) \<and>
    gate_ok (run_slot_wake_gate r)"

definition backed_manager :: "(string \<Rightarrow> string \<Rightarrow> bool) \<Rightarrow> run_manager \<Rightarrow> bool" where
  "backed_manager has m \<longleftrightarrow> (case mgr_state m of None \<Rightarrow> True | Some r \<Rightarrow> backed has r)"

definition lease_of :: "run_manager \<Rightarrow> string \<Rightarrow> operation_lease option" where
  "lease_of m k =
    (case mgr_state m of None \<Rightarrow> None | Some r \<Rightarrow> hm_get (run_active_operation_leases r) k)"

definition leases_within :: "(string \<rightharpoonup> operation_lease) \<Rightarrow> run_manager \<Rightarrow> bool" where
  "leases_within L m \<longleftrightarrow> (\<forall>k. lease_of m k = None \<or> lease_of m k = L k)"

named_theorems ok_maps \<open>the map operations keep wakes backed\<close>

lemma insert_subset_hm: "set (hm_insert k v m) \<subseteq> insert (k, v) (set m)"
  by (induction m) auto

lemma remove_subset_hm: "set (hm_remove k m) \<subseteq> set m"
  by (simp add: AList.delete_eq)

lemma ok_Nil [ok_maps, simp]: "pending_ok has []" "starting_ok has []" "gate_ok []"
  by (simp_all add: pending_ok_def starting_ok_def gate_ok_def)

lemma ok_remove [ok_maps, simp]:
  "pending_ok has pm \<Longrightarrow> pending_ok has (hm_remove k pm)"
  "starting_ok has sm \<Longrightarrow> starting_ok has (hm_remove k sm)"
  "gate_ok g \<Longrightarrow> gate_ok (hm_remove k g)"
  unfolding pending_ok_def starting_ok_def gate_ok_def by (auto simp: AList.delete_eq)

lemma ball_insert_hm: "\<forall>x \<in> set m. P x \<Longrightarrow> P (k, v) \<Longrightarrow> \<forall>x \<in> set (hm_insert k v m). P x"
  using insert_subset_hm [of k v m] by blast

lemma ball_modify_hm:
  "\<forall>x \<in> set m. P x \<Longrightarrow> (\<And>v. P (k, v) \<Longrightarrow> P (k, f v)) \<Longrightarrow> \<forall>x \<in> set (hm_modify k f m). P x"
  unfolding hm_modify_def by (auto split: if_splits)

lemma ok_insert [ok_maps]:
  "pending_ok has pm \<Longrightarrow> \<forall>w \<in> set q. wake_ok has w \<Longrightarrow> pending_ok has (hm_insert k q pm)"
  "starting_ok has sm \<Longrightarrow> start_ok has res \<Longrightarrow> starting_ok has (hm_insert k res sm)"
  unfolding pending_ok_def starting_ok_def by (erule ball_insert_hm, simp)+

lemma pending_ok_get:
  "pending_ok has m \<Longrightarrow> hm_get m s = Some q \<Longrightarrow> w \<in> set q \<Longrightarrow> wake_ok has w"
  by (auto simp: pending_ok_def dest!: hm_get_Some_mem)

lemma starting_ok_get: "starting_ok has m \<Longrightarrow> hm_get m k = Some res \<Longrightarrow> start_ok has res"
  by (auto simp: starting_ok_def dest!: hm_get_Some_mem)

lemma starting_ok_map [ok_maps, simp]:
  "starting_ok has m \<Longrightarrow> (\<And>res. start_ok has res \<Longrightarrow> start_ok has (f res)) \<Longrightarrow>
    starting_ok has (hm_map_values f m)"
  by (auto simp: starting_ok_def hm_map_values_def)

lemma starting_ok_modify [ok_maps]:
  "starting_ok has m \<Longrightarrow> start_ok has res \<Longrightarrow> starting_ok has (hm_modify k (\<lambda>_. res) m)"
  unfolding starting_ok_def by (erule ball_modify_hm) simp

lemma start_ok_cancelling [simp]: "start_ok has (res\<lparr>sr_state := x\<rparr>) = start_ok has res"
  by (simp add: start_ok_def)

lemma gate_ok_modify: "gate_ok g \<Longrightarrow> (\<And>e. held_ok e \<Longrightarrow> held_ok (f e)) \<Longrightarrow> gate_ok (hm_modify s f g)"
  unfolding gate_ok_def by (erule ball_modify_hm) simp

lemma gate_ok_get: "gate_ok g \<Longrightarrow> hm_get g s = Some e \<Longrightarrow> held_ok e"
  by (auto simp: gate_ok_def dest!: hm_get_Some_mem)

lemma held_ok_updates [simp]:
  "held_ok (e\<lparr>ps_paused := x\<rparr>) = held_ok e" "held_ok (e\<lparr>ps_reason := why\<rparr>) = held_ok e"
  "held_ok (e\<lparr>ps_role_hint := ro\<rparr>) = held_ok e" "held_ok (e\<lparr>ps_paused_at := now\<rparr>) = held_ok e"
  "held_ok (e\<lparr>ps_suppressed_wake_count := n\<rparr>) = held_ok e"
  "held_ok (e\<lparr>ps_last_suppressed_source := Some src\<rparr>) = (\<not> is_foreground_wake src)"
  by (simp_all add: held_ok_def)

lemma not_foreground: "\<not> bypasses_pause src \<Longrightarrow> \<not> is_foreground_wake src"
  by (cases src) (simp_all add: bypasses_pause_def is_foreground_wake_def)

lemma gate_ok_ops [ok_maps, simp]:
  "gate_ok (gate_clear g)"
  "gate_ok g \<Longrightarrow> gate_ok (gate_pause now s ro why g)"
  "gate_ok g \<Longrightarrow> gate_ok (gate_add_suppressed s n g)"
  "gate_ok g \<Longrightarrow> gate_ok (snd (gate_before_wake s src g))"
  "gate_ok g \<Longrightarrow> gate_ok (snd (release_suppressed_if_resumed s g))"
proof -
  show "gate_ok (gate_clear g)"
    by (simp add: gate_clear_def)
  assume g: "gate_ok g"
  have new: "held_ok \<lparr>ps_paused = p, ps_paused_at = at, ps_role_hint = ro, ps_reason = why,
      ps_suppressed_wake_count = 0, ps_last_suppressed_source = None\<rparr>" for p at
    by (simp add: held_ok_def)
  show "gate_ok (gate_pause now s ro why g)"
  proof -
    have "held_ok (case hm_get g s of None \<Rightarrow> \<lparr>ps_paused = True, ps_paused_at = now,
        ps_role_hint = ro, ps_reason = why, ps_suppressed_wake_count = 0,
        ps_last_suppressed_source = None\<rparr> | Some e \<Rightarrow> e)"
      using g new by (auto split: option.split dest: gate_ok_get)
    with g show ?thesis
      unfolding gate_pause_def Let_def gate_ok_def by (intro ball_insert_hm) simp_all
  qed
  have "held_ok (e\<lparr>ps_suppressed_wake_count := ps_suppressed_wake_count e + n,
      ps_last_suppressed_source := (case ps_last_suppressed_source e of
        None \<Rightarrow> Some McpSendMessage | Some s \<Rightarrow> Some s)\<rparr>)" if "held_ok e" for e
    using that by (cases "ps_last_suppressed_source e") (simp_all add: held_ok_def is_foreground_wake_def)
  with g show "gate_ok (gate_add_suppressed s n g)"
    by (simp add: gate_add_suppressed_def gate_ok_modify)
  show "gate_ok (snd (gate_before_wake s src g))"
    using g not_foreground [of src]
    by (auto simp: before_wake_cases intro!: gate_ok_modify split: option.splits)
  show "gate_ok (snd (release_suppressed_if_resumed s g))"
    using g by (auto simp: release_cases intro!: gate_ok_modify ok_remove split: option.splits)
qed

lemma released_not_foreground:
  assumes "gate_ok g" and "release_suppressed_if_resumed s g = (Some src, g')"
  shows "\<not> is_foreground_wake src"
  using assms by (auto simp: release_cases held_ok_def is_foreground_wake_def
      split: option.splits if_splits dest!: gate_ok_get)

section \<open>Every operation keeps wakes backed\<close>

definition keeps :: "(string \<Rightarrow> string \<Rightarrow> bool) \<Rightarrow> run_manager \<Rightarrow> run_manager \<Rightarrow> bool" where
  "keeps has m m' \<longleftrightarrow>
    (backed_manager has m \<longrightarrow> backed_manager has m') \<and> leases_within (lease_of m) m'"

named_theorems keeping \<open>operations that keep wakes backed and add no lease\<close>

lemma keeps_refl [simp]: "keeps has m m"
  by (simp add: keeps_def leases_within_def)

lemma keeps_clear [simp]: "keeps has m (clear_run m)"
  by (simp add: keeps_def leases_within_def backed_manager_def lease_of_def clear_run_def)

lemma keeps_put:
  "mgr_state m = Some r \<Longrightarrow> (backed has r \<Longrightarrow> backed has r') \<Longrightarrow>
    (\<And>k. hm_get (run_active_operation_leases r') k = None \<or>
      hm_get (run_active_operation_leases r') k = hm_get (run_active_operation_leases r) k) \<Longrightarrow>
    keeps has m (put_run r' m)"
  by (simp add: keeps_def leases_within_def backed_manager_def lease_of_def put_run_def)

lemma keeps_settle:
  assumes "mgr_state m = Some r" and "backed has r \<Longrightarrow> backed has r'"
    and "run_active_operation_leases r' = run_active_operation_leases r"
  shows "keeps has m (fst (snd (settle_run (maybe_complete_locked now r') m)))"
    and "keeps has m (fst (snd (settle_run (maybe_cancelled_locked now r') m)))"
  using assms by (auto simp: settle_complete_state settle_cancelled_state intro: keeps_put)

lemma backed_push:
  assumes "backed has r" and "is_foreground_wake src \<Longrightarrow> \<exists>i. t = Some i \<and> has s i"
  shows "backed has (push_pending_wake s ro src t r)"
proof -
  have "wake_ok has w" if "hm_get (run_pending_wakes r) s = Some q" "w \<in> set q" for q w
    using assms(1) that by (auto simp: backed_def intro: pending_ok_get)
  moreover have "wake_ok has \<lparr>pw_slot_id = s, pw_role = ro, pw_source = src, pw_message_id = t\<rparr>"
    using assms(2) by (auto simp: wake_ok_def)
  ultimately have "\<forall>w \<in> set (enqueue_wake \<lparr>pw_slot_id = s, pw_role = ro, pw_source = src, pw_message_id = t\<rparr>
      (case hm_get (run_pending_wakes r) s of None \<Rightarrow> [] | Some q \<Rightarrow> q)). wake_ok has w"
    by (cases "hm_get (run_pending_wakes r) s") (auto simp: set_enqueue)
  with assms(1) show ?thesis
    by (simp add: backed_def push_pending_wake_def Let_def ok_insert)
qed

lemma backed_pop:
  assumes "backed has r"
  shows "backed has (snd (pop_pending s r))"
    and "fst (pop_pending s r) = Some w \<Longrightarrow> wake_ok has w"
  using assms
  by (auto simp: backed_def pop_pending_def intro!: ok_insert dest: pending_ok_get
      split: option.splits list.splits)

lemma backed_gate: "backed has r \<Longrightarrow> gate_ok g \<Longrightarrow> backed has (r\<lparr>run_slot_wake_gate := g\<rparr>)"
  by (simp add: backed_def)

lemma backed_fields [simp]:
  "backed has (r\<lparr>run_has_user_intervention := u\<rparr>) = backed has r"
  "backed has (r\<lparr>run_active_operation_leases := l\<rparr>) = backed has r"
  "backed has (r\<lparr>run_slot_runtime_health := h\<rparr>) = backed has r"
  "backed has (r\<lparr>run_active_child_turns := c\<rparr>) = backed has r"
  "backed has (r\<lparr>run_status := st\<rparr>) = backed has r"
  "backed has (r\<lparr>run_started_at := at\<rparr>) = backed has r"
  by (simp_all add: backed_def)

lemma keeps_queue_ops [keeping]:
  "keeps has m (fst (snd (abort_operation_lease now l m)))"
  "keeps has m (fst (snd (mark_slot_runtime_health now s h m)))"
  "\<not> is_foreground_wake src \<Longrightarrow> keeps has m (fst (snd (record_or_suppress_wake now s ro src t m)))"
  "keeps has m (fst (snd (release_suppressed_wake_if_resumed now s ro m)))"
proof -
  show "keeps has m (fst (snd (abort_operation_lease now l m)))"
    by (auto simp: abort_operation_lease_def Let_def hm_get_remove intro!: keeps_put
        dest: active_runD split: option.split)
  show "keeps has m (fst (snd (mark_slot_runtime_health now s h m)))"
    by (auto simp: mark_slot_runtime_health_def Let_def intro!: keeps_put dest: active_runD
        split: option.split)
  show "keeps has m (fst (snd (record_or_suppress_wake now s ro src t m)))"
    if "\<not> is_foreground_wake src"
    using that
    by (auto simp: record_or_suppress_wake_def Let_def case_prod_unfold
        intro!: keeps_put backed_push backed_gate dest: active_runD
        split: option.split wake_gate_decision.split) (simp_all add: backed_def)
  show "keeps has m (fst (snd (release_suppressed_wake_if_resumed now s ro m)))"
  proof (cases "active_run m")
    case (Some r)
    obtain src g where rel: "release_suppressed_if_resumed s (run_slot_wake_gate r) = (src, g)"
      by fastforce
    have "gate_ok g" if "backed has r"
      using that gate_ok_ops(5) [of "run_slot_wake_gate r" s] rel by (simp add: backed_def)
    moreover have "\<not> is_foreground_wake x" if "backed has r" "src = Some x" for x
      using that released_not_foreground rel by (auto simp: backed_def)
    ultimately show ?thesis
      using Some rel
      by (auto simp: release_suppressed_wake_if_resumed_def Let_def intro!: keeps_put backed_push backed_gate
          dest: active_runD split: option.split)
  qed (simp add: release_suppressed_wake_if_resumed_def)
qed

lemma backed_candidates:
  "backed has r \<Longrightarrow> backed has (fold push_candidate cs r)"
  "backed has r \<Longrightarrow> backed has (snd (attach_candidates cs r))"
  "run_active_operation_leases (fold push_candidate cs r) = run_active_operation_leases r"
  "run_active_operation_leases (snd (attach_candidates cs r)) = run_active_operation_leases r"
proof -
  have push: "backed has r \<Longrightarrow> backed has (push_candidate c r)" for c r
    unfolding push_candidate_def by (rule backed_push) (simp_all add: is_foreground_wake_def)
  have leases: "run_active_operation_leases (push_candidate c r) = run_active_operation_leases r" for c r
    by (simp add: push_candidate_def)
  show "backed has r \<Longrightarrow> backed has (fold push_candidate cs r)"
    by (induction cs arbitrary: r) (simp_all add: push)
  show "backed has r \<Longrightarrow> backed has (snd (attach_candidates cs r))"
    by (induction cs r rule: attach_candidates.induct) (simp_all add: push case_prod_unfold Let_def)
  show "run_active_operation_leases (fold push_candidate cs r) = run_active_operation_leases r"
    by (induction cs arbitrary: r) (simp_all add: leases)
  show "run_active_operation_leases (snd (attach_candidates cs r)) = run_active_operation_leases r"
    by (induction cs r rule: attach_candidates.induct) (simp_all add: leases case_prod_unfold Let_def)
qed

lemma backed_new_run: "backed has (new_team_run_record i t s ro src u)"
  by (simp add: backed_def new_team_run_record_def)

lemma keeps_new:
  "backed has r \<Longrightarrow> run_active_operation_leases r = [] \<Longrightarrow> keeps has m (put_run r m)"
  by (simp add: keeps_def leases_within_def backed_manager_def lease_of_def put_run_def)

lemma keeps_recover [keeping]: "keeps has m (fst (snd (recover_mailbox_backlog now f cs m)))"
proof -
  have "run_active_operation_leases (new_team_run_record i t s ro src u) = []" for i t s ro src u
    by (simp add: new_team_run_record_def)
  then have new: "keeps has m (put_run (fold push_candidate cs (new_team_run_record i t s ro src u)) m)"
    for i t s ro src u
    by (intro keeps_new) (simp_all add: backed_candidates backed_new_run)
  have old: "keeps has m (put_run (snd (attach_candidates cs r)) m)" if "active_run m = Some r" for r
    using active_runD [OF that] by (auto intro!: keeps_put simp: backed_candidates)
  show ?thesis
    using new old
    by (cases cs; cases "cancelling_run m"; cases "active_run m")
      (simp_all add: recover_mailbox_backlog_def Let_def case_prod_unfold
        del: fold_simps attach_candidates.simps)
qed

lemma backed_take_starting: "backed has r \<Longrightarrow> backed has (snd (take_starting_cancel_target s r))"
  by (simp add: take_starting_cancel_target_def backed_def split: option.split prod.split)

lemma keeps_pause [keeping]:
  "keeps has m (fst (snd (pause_slot_work now s why m)))"
  "keeps has m (fst (snd (complete_pause_after_child_cancelled now c why m)))"
proof -
  have "backed has (r\<lparr>run_pending_wakes := hm_remove s (run_pending_wakes r),
      run_slot_wake_gate := gate_add_suppressed s n (gate_pause now s ro y (run_slot_wake_gate r))\<rparr>)"
    if "backed has r" for r n ro y s
    using that by (simp add: backed_def)
  then show "keeps has m (fst (snd (pause_slot_work now s why m)))"
    by (auto simp: pause_slot_work_def Let_def case_prod_unfold intro!: keeps_put backed_take_starting
        dest: active_runD split: option.split)
  show "keeps has m (fst (snd (complete_pause_after_child_cancelled now c why m)))"
    by (auto simp: complete_pause_after_child_cancelled_def Let_def backed_def intro!: keeps_put
        split: option.split)
qed

lemma keeps_cancel [keeping]:
  "keeps has m (fst (snd (begin_cancel now t why m)))"
  "keeps has m (fst (snd (try_complete_cancelled now m)))"
  "keeps has m (fst (snd (begin_cancel_child s m)))"
  "keeps has m (fst (snd (record_child_cancelled now c m)))"
  "keeps has m (fst (snd (complete_failed now m)))"
  "keeps has m (fst (snd (maybe_complete now m)))"
proof -
  show "keeps has m (fst (snd (begin_cancel now t why m)))"
    by (auto simp: begin_cancel_def Let_def backed_def intro!: keeps_put dest: active_runD
        split: option.split)
  show "keeps has m (fst (snd (try_complete_cancelled now m)))"
    by (auto simp: try_complete_cancelled_def intro!: keeps_settle split: option.split)
  show "keeps has m (fst (snd (begin_cancel_child s m)))"
  proof (cases "active_run m")
    case (Some r)
    have "backed has (r\<lparr>run_starting_reservations :=
        hm_modify k (\<lambda>_. res\<lparr>sr_state := ResCancelling\<rparr>) (run_starting_reservations r)\<rparr>)"
      if "backed has r" "find_reservation r s = Some (k, res)" for k res
    proof -
      have "start_ok has res"
        using that find_reservation_mem [OF that(2)] by (auto simp: backed_def starting_ok_def)
      with that(1) show ?thesis
        by (simp add: backed_def starting_ok_modify)
    qed
    with Some show ?thesis
      by (auto simp: begin_cancel_child_def Let_def intro!: keeps_put dest: active_runD
          split: option.split)
  qed (simp add: begin_cancel_child_def)
  show "keeps has m (fst (snd (record_child_cancelled now c m)))"
    by (auto simp: record_child_cancelled_def Let_def case_prod_unfold intro!: keeps_settle keeps_put
        split: option.split)
  show "keeps has m (fst (snd (complete_failed now m)))"
    by (auto simp: complete_failed_def split: option.split)
  show "keeps has m (fst (snd (maybe_complete now m)))"
    by (auto simp: maybe_complete_def intro!: keeps_settle split: option.split)
qed

lemma keeps_children [keeping]:
  "keeps has m (fst (snd (record_child_started now i c m)))"
  "keeps has m (fst (snd (record_child_start_failed now i m)))"
  "keeps has m (fst (snd (record_child_completed now s t st m)))"
  "keeps has m (fst (snd (record_empty_wake_observed now s m)))"
proof -
  have drop: "backed has (r\<lparr>run_starting_reservations := hm_remove i (run_starting_reservations r)\<rparr>)"
    if "backed has r" for r
    using that by (simp add: backed_def)
  show "keeps has m (fst (snd (record_child_started now i c m)))"
    by (auto simp: record_child_started_def Let_def drop intro!: keeps_put split: option.split)
  show "keeps has m (fst (snd (record_child_start_failed now i m)))"
    by (auto simp: record_child_start_failed_def Let_def drop intro!: keeps_settle split: option.split)
  show "keeps has m (fst (snd (record_child_completed now s t st m)))"
    by (auto simp: record_child_completed_def Let_def case_prod_unfold intro!: keeps_settle keeps_put
        split: option.split)
  show "keeps has m (fst (snd (record_empty_wake_observed now s m)))"
    by (auto simp: record_empty_wake_observed_def backed_pop intro!: keeps_settle split: option.split)
qed

lemma keeps_retry [keeping]: "keeps has m (fst (snd (retry_child_start_later now i m)))"
proof (cases "active_run m")
  case (Some r)
  show ?thesis
  proof (cases "hm_get (run_starting_reservations r) i")
    case (Some res)
    let ?w = "\<lparr>pw_slot_id = sr_slot_id res, pw_role = sr_role res, pw_source = sr_wake_source res,
      pw_message_id = sr_message_id res\<rparr>"
    let ?q = "case hm_get (run_pending_wakes r) (sr_slot_id res) of None \<Rightarrow> [] | Some q \<Rightarrow> q"
    have "backed has (r\<lparr>run_starting_reservations := hm_remove i (run_starting_reservations r),
        run_pending_wakes := hm_insert (sr_slot_id res) (?w # ?q) (run_pending_wakes r)\<rparr>)"
      if b: "backed has r"
    proof -
      have "start_ok has res"
        using b Some by (auto simp: backed_def intro: starting_ok_get)
      then have "wake_ok has ?w"
        by (simp add: start_ok_def wake_ok_def)
      moreover have "\<forall>w \<in> set ?q. wake_ok has w"
        using b by (cases "hm_get (run_pending_wakes r) (sr_slot_id res)")
          (auto simp: backed_def intro: pending_ok_get)
      ultimately show ?thesis
        using b by (simp add: backed_def ok_insert)
    qed
    with Some \<open>active_run m = Some r\<close> show ?thesis
      by (auto simp: retry_child_start_later_def Let_def intro!: keeps_put dest: active_runD)
  qed (simp add: retry_child_start_later_def Some)
qed (simp add: retry_child_start_later_def)

lemma keeps_claim [keeping]: "keeps has m (fst (snd (claim_wake_for_turn now f s ro c m)))"
proof (cases "active_run m")
  case (Some r)
  obtain p r1 where p: "pop_pending s r = (p, r1)"
    by fastforce
  have "backed has (r1\<lparr>run_slot_runtime_health := h,
      run_starting_reservations := hm_insert f
        \<lparr>sr_reservation_id = f, sr_team_run_id = run_team_run_id r, sr_slot_id = pw_slot_id w,
         sr_role = ro, sr_conversation_id = c, sr_wake_source = pw_source w,
         sr_message_id = pw_message_id w, sr_state = ResStarting\<rparr> (run_starting_reservations r1)\<rparr>)"
    if "backed has r" "p = Some w" for w h
    using backed_pop [OF that(1), of s] p that(2)
    by (simp add: backed_def ok_insert start_ok_def wake_ok_def)
  moreover have "run_active_operation_leases r1 = run_active_operation_leases r"
    using pop_frames(7) [of s r] p by simp
  ultimately show ?thesis
    using Some p
    by (auto simp: claim_wake_for_turn_def Let_def intro!: keeps_put dest: active_runD split: option.split)
qed (simp add: claim_wake_for_turn_def)

text \<open>A commit keeps wakes backed when the lease is not of a user wake or the message is there.\<close>

lemma keeps_commit:
  assumes "\<And>lease. lease_of m l = Some lease \<Longrightarrow> is_foreground_wake (ol_wake_source lease) \<Longrightarrow>
    \<exists>i. t = Some i \<and> has (ol_slot_id lease) i"
  shows "keeps has m (fst (snd (commit_operation_lease now l t m)))"
proof (cases "active_run m")
  case (Some r)
  note r = active_runD [OF Some]
  show ?thesis
  proof (cases "hm_get (run_active_operation_leases r) l")
    case (Some lease)
    with r assms [of lease] show ?thesis
      using \<open>active_run m = Some r\<close>
      by (auto simp: commit_operation_lease_def Let_def lease_of_def hm_get_remove
          intro!: keeps_put backed_push)
  qed (simp add: commit_operation_lease_def \<open>active_run m = Some r\<close>)
qed (simp add: commit_operation_lease_def)

text \<open>An acquire adds at most the lease it returns, under the fresh identifier.\<close>

definition acquires ::
    "(string \<Rightarrow> string \<Rightarrow> bool) \<Rightarrow> run_manager \<Rightarrow> string \<Rightarrow> operation_lease \<Rightarrow> run_manager \<Rightarrow> bool" where
  "acquires has m fresh lease m' \<longleftrightarrow>
    (backed_manager has m \<longrightarrow> backed_manager has m') \<and> ol_lease_id lease = fresh \<and>
    leases_within ((lease_of m)(fresh \<mapsto> lease)) m'"

lemma acquire_user_keeps:
  "case acquire_user_message_wake now f l s ro m of
     (Inl e, m', evs) \<Rightarrow> m' = m
   | (Inr (ack, lease), m', evs) \<Rightarrow> acquires has m l lease m' \<and> ol_slot_id lease = s"
proof (cases "active_run m")
  case (Some r)
  then show ?thesis
    using active_runD [OF Some]
    by (auto simp: acquire_user_message_wake_def new_operation_lease_def Let_def acquires_def
        leases_within_def lease_of_def put_run_def backed_manager_def backed_gate hm_get_insert
        intro!: backed_gate) (simp_all add: backed_def)
next
  case None
  then show ?thesis
    by (cases "cancelling_run m")
      (simp_all add: acquire_user_message_wake_def new_operation_lease_def Let_def acquires_def
        leases_within_def lease_of_def put_run_def backed_manager_def backed_new_run hm_get_insert,
       simp add: new_team_run_record_def)
qed

lemma acquire_scoped_keeps:
  "case acquire_run_scoped_wake_with_intent now f s ro src intent m of
     (Inr (LeaseAccepted lease), m', evs) \<Rightarrow>
       acquires has m f lease m' \<and> ol_slot_id lease = s \<and> ol_wake_source lease = src
   | (_, m', evs) \<Rightarrow> keeps has m m'"
proof (cases "active_run m")
  case (Some r)
  have g: "backed has (r\<lparr>run_slot_wake_gate := snd (gate_before_wake s src (run_slot_wake_gate r))\<rparr>)"
    if "backed has r" for r
    using that by (simp add: backed_def)
  from Some show ?thesis
    using active_runD [OF Some]
    by (auto simp: acquire_run_scoped_wake_with_intent_def new_operation_lease_def Let_def
        acquires_def leases_within_def lease_of_def put_run_def backed_manager_def g hm_get_insert
        keeps_def split: acquire_policy_decision.split)
qed (simp add: acquire_run_scoped_wake_with_intent_def)

end
