(* ===== verification/TeamSessionProps.thy ===== *)
theory TeamSessionProps
  imports TeamSessionInv Mailbox
begin

text \<open>
  What holds of a team session in every interleaving of its methods, as an instance of
  \<open>rely_guarantee\<close>: the invariant \<open>session_inv\<close> of the shared state, and \<open>session_change\<close>, what one
  section may do to it under the feet of another method. Then the methods run one after the other:
  a message of the user is worked off.
\<close>

section \<open>Invariant and guarantee\<close>

definition user_row :: "string \<Rightarrow> string \<Rightarrow> string \<Rightarrow> mailbox_row \<Rightarrow> bool" where
  "user_row team_id slot_id i row \<longleftrightarrow> mr_id row = i \<and> mr_team_id row = team_id \<and>
    mr_to_agent_id row = slot_id \<and> mr_from_agent_id row = ''user''"

definition db_has :: "team_db \<Rightarrow> string \<Rightarrow> string \<Rightarrow> string \<Rightarrow> bool" where
  "db_has db team_id slot_id i \<longleftrightarrow> list_ex (user_row team_id slot_id i) (db_mailbox db)"

definition has_message :: "team_session \<Rightarrow> string \<Rightarrow> string \<Rightarrow> bool" where
  "has_message S = db_has (sch_db (ses_sched S)) (ses_team_id S)"

definition session_inv :: "('v, 'e) session_env_scheme \<Rightarrow> team_session \<Rightarrow> bool" where
  "session_inv E S \<longleftrightarrow>
    wf_manager (ses_runs S) \<and> backed_manager (has_message S) (ses_runs S) \<and>
    (\<forall>k. lease_of (ses_runs S) k \<noteq> None \<longrightarrow> (\<exists>n < ses_drawn S. k = env_generate_id E n))"

definition session_change :: "('v, 'e) session_env_scheme \<Rightarrow> team_session \<Rightarrow> team_session \<Rightarrow> bool" where
  "session_change E S T \<longleftrightarrow>
    ses_team_id T = ses_team_id S \<and> ses_drawn S \<le> ses_drawn T \<and>
    (\<forall>slot i. has_message S slot i \<longrightarrow> has_message T slot i) \<and>
    (\<forall>n < ses_drawn S. lease_of (ses_runs T) (env_generate_id E n) = None \<or>
      lease_of (ses_runs T) (env_generate_id E n) = lease_of (ses_runs S) (env_generate_id E n))"

interpretation session: rely_guarantee "session_inv E" "session_change E"
  for E :: "('v, 'e) session_env_scheme"
proof
  fix R S T :: team_session
  show "session_change E S S"
    by (simp add: session_change_def)
  assume "session_change E R S" "session_change E S T"
  then show "session_change E R T"
    unfolding session_change_def by (smt (verit, best) order_trans less_le_trans)
qed

text \<open>What a method knows of the lease it holds: it is still there unchanged, or it is gone.\<close>

definition own_lease :: "('v, 'e) session_env_scheme \<Rightarrow> operation_lease \<Rightarrow> team_session \<Rightarrow> bool" where
  "own_lease E lease S \<longleftrightarrow> (\<exists>n < ses_drawn S. ol_lease_id lease = env_generate_id E n \<and>
    (lease_of (ses_runs S) (env_generate_id E n) = None \<or>
     lease_of (ses_runs S) (env_generate_id E n) = Some lease))"

lemma own_lease_stable: "own_lease E lease S \<Longrightarrow> session_change E S T \<Longrightarrow> own_lease E lease T"
  unfolding own_lease_def session_change_def by (metis less_le_trans)

lemma has_message_stable: "has_message S slot i \<Longrightarrow> session_change E S T \<Longrightarrow> has_message T slot i"
  by (simp add: session_change_def)

section \<open>Sections of the manager\<close>

lemma draw_fields [simp]:
  "ses_runs (draw n S) = ses_runs S" "ses_team_id (draw n S) = ses_team_id S"
  "ses_drawn (draw n S) = ses_drawn S + n" "has_message (draw n S) = has_message S"
  "sch_db (ses_sched (draw n S)) = sch_db (ses_sched S)" "ses_now (draw n S) = ses_now S"
  "ses_loops (draw n S) = ses_loops S" "ses_notified (draw n S) = ses_notified S"
  "ses_events (draw n S) = ses_events S" "ses_bubbles (draw n S) = ses_bubbles S"
  "sch_slots (ses_sched (draw n S)) = sch_slots (ses_sched S)"
  by (simp_all add: draw_def ses_team_id_def ses_drawn_def has_message_def)

lemma ses_fields [simp]:
  "ses_team_id (S\<lparr>ses_runs := m, ses_events := es\<rparr>) = ses_team_id S"
  "ses_drawn (S\<lparr>ses_runs := m, ses_events := es\<rparr>) = ses_drawn S"
  "has_message (S\<lparr>ses_runs := m, ses_events := es\<rparr>) = has_message S"
  by (simp_all add: ses_team_id_def ses_drawn_def has_message_def)

text \<open>The result of an operation on the manager, as a section of the session, when nothing runs in between.\<close>

definition run_section ::
    "('v, 'e) session_env_scheme \<Rightarrow> 'r run_operation \<Rightarrow> team_session \<Rightarrow> 'r \<times> team_session" where
  "run_section E f S =
    (case f (ses_now S) (env_generate_id E (ses_drawn S)) (env_generate_id E (Suc (ses_drawn S)))
        (ses_runs S) of
      (r, m, evs) \<Rightarrow>
        (r, draw 2 (S\<lparr>ses_runs := m, ses_events := ses_events S @ map RunOut evs\<rparr>)))"

lemma run_announce: "co_run (co_for evs announce) S = ((), S\<lparr>ses_events := ses_events S @ map RunOut evs\<rparr>)"
  by (induction evs arbitrary: S) (simp_all add: co_run_bind announce_def)

lemma draw_events: "(draw n S)\<lparr>ses_events := es\<rparr> = draw n (S\<lparr>ses_events := es\<rparr>)"
  by (simp add: draw_def ses_drawn_def)

lemma co_run_runs [simp]:
  "co_run (runs_holding E held f) S = run_section E f S"
  "co_run (runs E f) S = run_section E f S"
proof -
  show "co_run (runs_holding E held f) S = run_section E f S" for held
    by (simp add: runs_holding_def co_run_bind locked_section_def run_section_def run_announce draw_events
        flip: map_append split: prod.split)
  then show "co_run (runs E f) S = run_section E f S"
    by (simp add: runs_def)
qed

lemma locked_section_result:
  "locked_section E held f S = ((r, later), T) \<Longrightarrow>
    \<exists>T'. run_section E f S = (r, T') \<and> T = T'\<lparr>ses_events := ses_events T\<rparr>"
  by (auto simp: locked_section_def run_section_def draw_def ses_drawn_def split: prod.splits)

lemma run_section_result:
  "run_section E f S = (r, T) \<longleftrightarrow>
    (\<exists>m evs. f (ses_now S) (env_generate_id E (ses_drawn S)) (env_generate_id E (Suc (ses_drawn S)))
        (ses_runs S) = (r, m, evs) \<and>
      T = draw 2 (S\<lparr>ses_runs := m, ses_events := ses_events S @ map RunOut evs\<rparr>))"
  by (auto simp: run_section_def split: prod.split)

lemma inv_after_run:
  assumes "session_inv E S" and "wf_manager m"
    and "backed_manager (has_message S) (ses_runs S) \<Longrightarrow> backed_manager (has_message S) m"
    and "leases_within L m" and "\<And>k. L k \<noteq> None \<Longrightarrow> lease_of (ses_runs S) k \<noteq> None \<or> (\<exists>n < ses_drawn S + 2. k = env_generate_id E n)"
    and "\<And>n. n < ses_drawn S \<Longrightarrow> L (env_generate_id E n) = lease_of (ses_runs S) (env_generate_id E n)"
  shows "session_inv E (draw 2 (S\<lparr>ses_runs := m, ses_events := es\<rparr>))"
    and "session_change E S (draw 2 (S\<lparr>ses_runs := m, ses_events := es\<rparr>))"
proof -
  have "\<exists>n < ses_drawn S + 2. k = env_generate_id E n" if "lease_of m k \<noteq> None" for k
  proof -
    have "L k \<noteq> None"
      using that assms(4) by (metis leases_within_def)
    with assms(5) show ?thesis
      using assms(1) unfolding session_inv_def by (meson trans_less_add1)
  qed
  with assms show "session_inv E (draw 2 (S\<lparr>ses_runs := m, ses_events := es\<rparr>))"
    by (simp add: session_inv_def)
  show "session_change E S (draw 2 (S\<lparr>ses_runs := m, ses_events := es\<rparr>))"
    using assms(4,6) by (simp add: session_change_def leases_within_def) metis
qed

text \<open>Operations that keep wakes backed and add no lease.\<close>

lemma keeping_section:
  assumes "session_inv E S" and "run_section E f S = (r, T)"
    and "\<And>now a b m. keeps (has_message S) m (fst (snd (f now a b m)))"
    and "\<And>now a b m. wf_manager m \<Longrightarrow> wf_manager (fst (snd (f now a b m)))"
  shows "session_inv E T \<and> session_change E S T"
proof -
  let ?m = "fst (snd (f (ses_now S) (env_generate_id E (ses_drawn S))
    (env_generate_id E (Suc (ses_drawn S))) (ses_runs S)))"
  obtain evs where T: "T = draw 2 (S\<lparr>ses_runs := ?m, ses_events := ses_events S @ map RunOut evs\<rparr>)"
    using assms(2) unfolding run_section_result by auto
  have k: "backed_manager (has_message S) (ses_runs S) \<Longrightarrow> backed_manager (has_message S) ?m"
    "leases_within (lease_of (ses_runs S)) ?m"
    using assms(3) by (simp_all add: keeps_def)
  have "wf_manager ?m"
    using assms(1,4) by (simp add: session_inv_def)
  from inv_after_run [OF assms(1) this k] show ?thesis
    unfolding T by blast
qed

lemma acquire_user_section:
  assumes "inj (env_generate_id E)" and "session_inv E S"
    and "run_section E (\<lambda>now a b. acquire_user_message_wake now a b slot role) S = (r, T)"
  shows "session_inv E T \<and> session_change E S T \<and>
    (\<forall>ack lease. r = Inr (ack, lease) \<longrightarrow> own_lease E lease T \<and> ol_slot_id lease = slot)"
proof -
  let ?l = "env_generate_id E (Suc (ses_drawn S))"
  obtain m evs where op: "acquire_user_message_wake (ses_now S) (env_generate_id E (ses_drawn S)) ?l slot
      role (ses_runs S) = (r, m, evs)"
    and T: "T = draw 2 (S\<lparr>ses_runs := m, ses_events := ses_events S @ map RunOut evs\<rparr>)"
    using assms(3) unfolding run_section_result by auto
  have wf: "wf_manager m"
    using wf_acquire_user_message_wake [of "ses_runs S"] assms(2) op
    by (metis fst_conv session_inv_def snd_conv)
  note user = acquire_user_keeps [where now = "ses_now S" and f = "env_generate_id E (ses_drawn S)"
      and l = ?l and s = slot and ro = role and m = "ses_runs S" and has = "has_message S", unfolded op]
  show ?thesis
  proof (cases r)
    case (Inl e)
    with user have "m = ses_runs S" by simp
    with inv_after_run [OF assms(2) wf, of "lease_of (ses_runs S)"] Inl show ?thesis
      unfolding T by (simp add: leases_within_def)
  next
    case (Inr x)
    obtain ack lease where x: "x = (ack, lease)" by fastforce
    with user Inr have acq: "acquires (has_message S) (ses_runs S) ?l lease m" "ol_slot_id lease = slot"
      by auto
    have fresh: "env_generate_id E n \<noteq> ?l" if "n < ses_drawn S" for n
      using injD [OF assms(1)] that by fastforce
    have "session_inv E T \<and> session_change E S T"
      unfolding T using acq(1) fresh
      by (intro conjI inv_after_run [OF assms(2) wf, where L = "(lease_of (ses_runs S))(?l \<mapsto> lease)"])
        (auto simp: acquires_def intro: exI [of _ "Suc (ses_drawn S)"] split: if_splits)
    moreover have "own_lease E lease T"
      using acq(1) unfolding T own_lease_def acquires_def leases_within_def
      by (intro exI [of _ "Suc (ses_drawn S)"]) (auto simp: fun_upd_def)
    ultimately show ?thesis
      using acq(2) Inr x by simp
  qed
qed

lemma acquire_scoped_section:
  assumes "inj (env_generate_id E)" and "session_inv E S"
    and "run_section E (\<lambda>now a b. acquire_run_scoped_wake_with_intent now a slot role src intent) S = (r, T)"
  shows "session_inv E T \<and> session_change E S T \<and>
    (\<forall>lease. r = Inr (LeaseAccepted lease) \<longrightarrow>
      own_lease E lease T \<and> ol_slot_id lease = slot \<and> ol_wake_source lease = src)"
proof -
  let ?l = "env_generate_id E (ses_drawn S)"
  obtain m evs where op: "acquire_run_scoped_wake_with_intent (ses_now S) ?l slot role src intent
      (ses_runs S) = (r, m, evs)"
    and T: "T = draw 2 (S\<lparr>ses_runs := m, ses_events := ses_events S @ map RunOut evs\<rparr>)"
    using assms(3) unfolding run_section_result by auto
  have wf: "wf_manager m"
    using wf_acquire_run_scoped [of "ses_runs S"] assms(2) op
    by (metis fst_conv session_inv_def snd_conv)
  note scoped = acquire_scoped_keeps [where now = "ses_now S" and f = ?l and s = slot and ro = role
      and src = src and intent = intent and m = "ses_runs S" and has = "has_message S", unfolded op]
  show ?thesis
  proof (cases "\<exists>lease. r = Inr (LeaseAccepted lease)")
    case False
    with scoped have "keeps (has_message S) (ses_runs S) m"
      by (auto split: sum.splits wake_acquire_outcome.splits)
    with inv_after_run [OF assms(2) wf, of "lease_of (ses_runs S)"] False show ?thesis
      unfolding T keeps_def by blast
  next
    case True
    then obtain lease where r: "r = Inr (LeaseAccepted lease)" by blast
    with scoped have acq: "acquires (has_message S) (ses_runs S) ?l lease m" "ol_slot_id lease = slot"
        "ol_wake_source lease = src"
      by auto
    have fresh: "env_generate_id E n \<noteq> ?l" if "n < ses_drawn S" for n
      using injD [OF assms(1)] that by fastforce
    have "session_inv E T \<and> session_change E S T"
      unfolding T using acq(1) fresh
      by (intro conjI inv_after_run [OF assms(2) wf, where L = "(lease_of (ses_runs S))(?l \<mapsto> lease)"])
        (auto simp: acquires_def intro: exI [of _ "ses_drawn S"] split: if_splits)
    moreover have "own_lease E lease T"
      using acq(1) unfolding T own_lease_def acquires_def leases_within_def
      by (intro exI [of _ "ses_drawn S"]) (auto simp: fun_upd_def)
    ultimately show ?thesis
      using acq(2,3) r by simp
  qed
qed

lemma commit_section:
  assumes "session_inv E S" and "own_lease E lease S"
    and "is_foreground_wake (ol_wake_source lease) \<Longrightarrow> \<exists>i. t = Some i \<and> has_message S (ol_slot_id lease) i"
    and "run_section E (\<lambda>now a b. commit_operation_lease now (ol_lease_id lease) t) S = (r, T)"
  shows "session_inv E T \<and> session_change E S T"
proof -
  obtain m evs where op: "commit_operation_lease (ses_now S) (ol_lease_id lease) t (ses_runs S) = (r, m, evs)"
    and T: "T = draw 2 (S\<lparr>ses_runs := m, ses_events := ses_events S @ map RunOut evs\<rparr>)"
    using assms(4) unfolding run_section_result by auto
  have wf: "wf_manager m"
    using wf_commit_operation_lease [of "ses_runs S"] assms(1) op
    by (metis fst_conv session_inv_def snd_conv)
  have "keeps (has_message S) (ses_runs S) m"
    using keeps_commit [of "ses_runs S" "ol_lease_id lease" t "has_message S"] assms(2,3) op
    unfolding own_lease_def by (metis fst_conv option.distinct(1) option.inject snd_conv)
  with inv_after_run [OF assms(1) wf, of "lease_of (ses_runs S)"] show ?thesis
    unfolding T keeps_def by blast
qed

section \<open>Sections of the database and the rest\<close>

text \<open>
  A section that leaves the manager alone and only adds rows to the mailbox, or changes what is
  read of them.
\<close>

lemma inv_after_db:
  assumes "session_inv E S" and "ses_runs T = ses_runs S" and "ses_team_id T = ses_team_id S"
    and "ses_drawn S \<le> ses_drawn T"
    and "\<And>slot i. has_message S slot i \<Longrightarrow> has_message T slot i"
  shows "session_inv E T \<and> session_change E S T"
proof -
  have mono: "wake_ok (has_message S) w \<Longrightarrow> wake_ok (has_message T) w"
      "start_ok (has_message S) res \<Longrightarrow> start_ok (has_message T) res" for w res
    using assms(5) unfolding wake_ok_def start_ok_def by blast+
  have "backed (has_message T) r" if "backed (has_message S) r" for r
    using that mono unfolding backed_def pending_ok_def starting_ok_def by fast
  then have "backed_manager (has_message T) (ses_runs S)"
    using assms(1) by (auto simp: session_inv_def backed_manager_def split: option.splits)
  moreover have "\<exists>n < ses_drawn T. k = env_generate_id E n" if "lease_of (ses_runs S) k \<noteq> None" for k
    using assms(1,4) that unfolding session_inv_def by (meson less_le_trans)
  ultimately show ?thesis
    using assms by (simp add: session_inv_def session_change_def)
qed

definition adds_rows :: "scheduler \<Rightarrow> scheduler \<Rightarrow> bool" where
  "adds_rows s s' \<longleftrightarrow> sch_team_id s' = sch_team_id s \<and> sch_drawn s \<le> sch_drawn s' \<and>
    (\<exists>rows. db_mailbox (sch_db s') = db_mailbox (sch_db s) @ rows)"

lemma adds_rows_refl [simp]: "adds_rows s s"
  by (simp add: adds_rows_def)

lemma adds_rows_trans: "adds_rows r s \<Longrightarrow> adds_rows s t \<Longrightarrow> adds_rows r t"
  unfolding adds_rows_def by (metis append.assoc order_trans)

lemma adds_rows_message:
  "adds_rows (ses_sched S) s \<Longrightarrow> has_message S slot i \<Longrightarrow>
    has_message (S\<lparr>ses_sched := s, ses_events := es\<rparr>) slot i"
  by (auto simp: adds_rows_def has_message_def db_has_def ses_team_id_def)

lemma sched_section_keeps:
  assumes "session_inv E S" and "sched_section f S = (r, T)"
    and "\<And>now s. adds_rows s (fst (snd (f now s)))"
  shows "session_inv E T \<and> session_change E S T"
proof -
  obtain s evs where "f (ses_now S) (ses_sched S) = (r, s, evs)"
    and T: "T = S\<lparr>ses_sched := s, ses_events := ses_events S @ map SchedOut evs\<rparr>"
    using assms(2) by (auto simp: sched_section_def split: prod.splits)
  with assms(3) have s: "adds_rows (ses_sched S) s"
    by (metis fst_conv snd_conv)
  show ?thesis
    unfolding T using s
    by (intro inv_after_db [OF assms(1)])
      (simp_all add: adds_rows_message, simp_all add: adds_rows_def ses_team_id_def ses_drawn_def)
qed

lemma adds_rows_bind:
  "adds_rows s (fst (snd (m s))) \<Longrightarrow> (\<And>x s. adds_rows s (fst (snd (f x s)))) \<Longrightarrow>
    adds_rows s (fst (snd (sched_bind m f s)))"
proof -
  assume m: "adds_rows s (fst (snd (m s)))" and f: "\<And>x s. adds_rows s (fst (snd (f x s)))"
  obtain r s' evs where res: "m s = (r, s', evs)"
    by (cases "m s") auto
  show ?thesis
  proof (cases r)
    case (Inr x)
    have "adds_rows s' (fst (snd (f x s')))"
      by (rule f)
    with m res Inr show ?thesis
      by (auto simp: sched_bind_def case_prod_unfold intro: adds_rows_trans)
  qed (use m res in \<open>simp add: sched_bind_def\<close>)
qed

lemma write_message_appends: "\<exists>rows. db_mailbox (snd (write_message row db)) = db_mailbox db @ rows"
  by (simp add: write_message_def)

lemma write_with_files_writes:
  "\<exists>row. snd (write_with_files J i now team to from_slot ty content summary files db) =
    snd (write_message row db) \<and>
    mr_id row = i \<and> mr_team_id row = team \<and> mr_to_agent_id row = to \<and> mr_from_agent_id row = from_slot \<and>
    (\<forall>m. fst (write_with_files J i now team to from_slot ty content summary files db) = Inr m \<longrightarrow>
      fst (write_message row db) = Inr () \<and> message_from_row J row = Some m)"
proof -
  define row where "row = \<lparr>mr_id = i, mr_team_id = team, mr_to_agent_id = to,
    mr_from_agent_id = from_slot, mr_msg_type = msg_type_to_string ty, mr_content = content,
    mr_summary = summary,
    mr_files = (case files of None \<Rightarrow> None | Some f \<Rightarrow> if f = [] then None
      else Some (case js_list_to_string J f of None \<Rightarrow> '''' | Some s \<Rightarrow> s)),
    mr_read = False, mr_created_at = now\<rparr>"
  have "write_with_files J i now team to from_slot ty content summary files db =
    (case write_message row db of
       (Inl e, db') \<Rightarrow> (Inl (db_err e), db')
     | (Inr _, db') \<Rightarrow>
         (case message_from_row J row of
            None \<Rightarrow> (Inl (InvalidRequest (''invalid message type: '' @ msg_type_to_string ty)), db')
          | Some m \<Rightarrow> (Inr m, db')))"
    unfolding write_with_files_def row_def Let_def by simp
  moreover obtain r db' where "write_message row db = (r, db')"
    by fastforce
  ultimately have "snd (write_with_files J i now team to from_slot ty content summary files db) =
      snd (write_message row db)"
    "\<forall>m. fst (write_with_files J i now team to from_slot ty content summary files db) = Inr m \<longrightarrow>
      fst (write_message row db) = Inr () \<and> message_from_row J row = Some m"
    by (cases r; cases "message_from_row J row"; simp)+
  moreover have "mr_id row = i" "mr_team_id row = team" "mr_to_agent_id row = to"
      "mr_from_agent_id row = from_slot"
    by (simp_all add: row_def)
  ultimately show ?thesis
    by blast
qed

lemma write_adds_rows:
  assumes "sch_drawn s \<le> n"
  shows "adds_rows s (s\<lparr>sch_db := snd (write_with_files J i now team to from_slot ty content summary
     files (sch_db s)), sch_drawn := n\<rparr>)"
proof -
  obtain row where row: "snd (write_with_files J i now team to from_slot ty content summary files (sch_db s))
      = snd (write_message row (sch_db s))"
    using write_with_files_writes by blast
  obtain rows where "db_mailbox (snd (write_message row (sch_db s))) = db_mailbox (sch_db s) @ rows"
    using write_message_appends by blast
  with assms row show ?thesis
    by (simp add: adds_rows_def)
qed

lemma sched_ops_add_rows:
  "adds_rows s (fst (snd (get_agent i s)))"
  "adds_rows s (fst (snd (set_status i st s)))"
  "adds_rows s (fst (snd (remove_agent i s)))"
  "adds_rows s (fst (snd (sched_write F now to from_slot ty content summary s)))"
  "adds_rows s (fst (snd (maybe_wake_leader_when_all_idle s)))"
proof -
  show "adds_rows s (fst (snd (get_agent i s)))"
    by (simp add: get_agent_def sched_fail_def sched_return_def split: option.split)
  show "adds_rows s (fst (snd (set_status i st s)))"
    by (simp add: set_status_def sched_fail_def adds_rows_def)
  show "adds_rows s (fst (snd (remove_agent i s)))"
    by (simp add: remove_agent_def sched_fail_def adds_rows_def Let_def clear_agent_state_def
        clear_wake_timeout_def split: option.split)
  show "adds_rows s (fst (snd (sched_write F now to from_slot ty content summary s)))"
    using write_adds_rows [of s "Suc (sch_drawn s)" "env_json F" _ now "sch_team_id s" to from_slot ty
        content summary None]
    by (simp add: sched_write_def mailbox_write_def case_prod_unfold)
  show "adds_rows s (fst (snd (maybe_wake_leader_when_all_idle s)))"
    by (simp add: maybe_wake_leader_when_all_idle_def sched_return_def split: prod.split option.split)
qed

lemma sched_steps_add_rows:
  "adds_rows s (fst (snd (finalize_turn F now i [] s)))"
  "adds_rows s (fst (snd (request_shutdown_agent F now from_slot target why s)))"
proof -
  have note_lead: "adds_rows s (fst (snd (notify_lead_idle F now i summary s)))" for summary s
    unfolding notify_lead_idle_def
    by (simp add: sched_return_def adds_rows_bind sched_ops_add_rows split: option.split)
  have "adds_rows s (fst (snd (mark_idle F now i summary s)))" for summary s
    unfolding mark_idle_def
    by (intro adds_rows_bind)
      (simp_all add: sched_return_def adds_rows_bind note_lead sched_ops_add_rows)
  then show "adds_rows s (fst (snd (finalize_turn F now i [] s)))"
    unfolding finalize_turn_def by (intro adds_rows_bind) (simp_all add: sched_return_def)
  show "adds_rows s (fst (snd (request_shutdown_agent F now from_slot target why s)))"
    unfolding request_shutdown_agent_def
    by (intro adds_rows_bind)
      (simp_all add: sched_fail_def adds_rows_bind sched_ops_add_rows)
qed

text \<open>A write that succeeds leaves the message in the mailbox of its receiver.\<close>

lemma message_from_row_id: "message_from_row J row = Some m \<Longrightarrow> mm_id m = mr_id row"
  by (auto simp: message_from_row_def Let_def split: option.splits)

lemma write_section_inv:
  assumes "session_inv E S"
    and "write_section E to_slot from_slot ty content summary files S = (r, T)"
  shows "session_inv E T \<and> session_change E S T \<and>
    (\<forall>m. r = Inr m \<longrightarrow> from_slot = ''user'' \<longrightarrow> has_message T to_slot (mm_id m))"
proof (cases "se_write_error E (ses_drawn S)")
  case (Some why)
  with assms have "r = Inl (DatabaseError why)" "T = draw 1 S"
    by (simp_all add: write_section_def)
  with inv_after_db [OF assms(1), of "draw 1 S"] show ?thesis
    by simp
next
  case None
  let ?db = "sch_db (ses_sched S)"
  let ?w = "write_with_files (env_json E) (env_generate_id E (ses_drawn S)) (ses_now S)
    (ses_team_id S) to_slot from_slot ty content summary files ?db"
  have T: "r = fst ?w" "T = draw 1 (S\<lparr>ses_sched := (ses_sched S)\<lparr>sch_db := snd ?w\<rparr>\<rparr>)"
    using None assms(2) by (simp_all add: write_section_def case_prod_beta)
  obtain row where row: "snd ?w = snd (write_message row ?db)" "mr_team_id row = ses_team_id S"
      "mr_to_agent_id row = to_slot" "mr_from_agent_id row = from_slot"
      "\<And>m. fst ?w = Inr m \<Longrightarrow> fst (write_message row ?db) = Inr () \<and>
        message_from_row (env_json E) row = Some m"
    using write_with_files_writes by blast
  obtain rows where rows: "db_mailbox (snd (write_message row ?db)) = db_mailbox ?db @ rows"
    using write_message_appends by blast
  have team: "ses_team_id T = ses_team_id S" "ses_runs T = ses_runs S" "ses_drawn T = Suc (ses_drawn S)"
    unfolding T(2) by (simp_all add: draw_def ses_team_id_def ses_drawn_def)
  have box: "db_mailbox (sch_db (ses_sched T)) = db_mailbox ?db @ rows"
    unfolding T(2) using row(1) rows by (simp add: draw_def)
  have "has_message T slot i" if "has_message S slot i" for slot i
    using that box team(1) by (simp add: has_message_def db_has_def)
  moreover have "has_message T to_slot (mm_id m)" if "r = Inr m" "from_slot = ''user''" for m
  proof -
    from row(5) [of m] that T(1) have "fst (write_message row ?db) = Inr ()"
      "message_from_row (env_json E) row = Some m"
      by simp_all
    then have "row \<in> set (db_mailbox (snd (write_message row ?db)))" "mm_id m = mr_id row"
      by (auto simp: write_message_def message_from_row_id split: if_splits)
    then show ?thesis
      using that(2) row(2-4) box rows team(1)
      by (auto simp: has_message_def db_has_def user_row_def list_ex_iff)
  qed
  ultimately show ?thesis
    using inv_after_db [OF assms(1) team(2,1)] team(3) by auto
qed

lemma mark_read_batch_has:
  assumes "db_has db team_id slot i"
  shows "db_has (mark_read_batch ids db) team_id slot i"
proof -
  obtain row where row: "row \<in> set (db_mailbox db)" "user_row team_id slot i row"
    using assms by (auto simp: db_has_def list_ex_iff)
  let ?row = "if mr_id row \<in> set ids then row\<lparr>mr_read := True\<rparr> else row"
  have "user_row team_id slot i ?row" "?row \<in> set (mark_chunk ids (db_mailbox db))"
    using row by (auto simp: user_row_def mark_chunk_def)
  then show ?thesis
    unfolding db_has_def mark_read_batch_rows list_ex_iff by blast
qed

lemma mark_all_unread_has:
  "db_has db team_id slot i \<Longrightarrow>
    db_has (snd (mark_all_unread_for_agents_read J t agent_ids db)) team_id slot i"
  by (simp add: mark_all_unread_for_agents_read_def Let_def mark_read_batch_has)

end
