(* ===== verification/TeamSpawn.thy ===== *)
theory TeamSpawn
  imports TeamLoop
begin

text \<open>
  A session from its start, and the agents that join it: \<open>TeamSession::start\<close>, \<open>add_agent\<close>,
  \<open>rename_agent\<close> and \<open>spawn_agent\<close> (\<open>session.rs\<close>), with the background task that attaches the process of
  a spawned agent. The service that resolves and persists agents is an argument.
\<close>

definition session_start :: "string \<Rightarrow> team_agent list \<Rightarrow> team_db \<Rightarrow> timestamp_ms \<Rightarrow> team_session" where
  "session_start team_id agents db now =
    \<lparr>ses_runs = new_run_manager team_id, ses_sched = new_scheduler team_id agents db,
     ses_bubbles = [], ses_loops = {}, ses_notified = {}, ses_recovery_scan_completed = False,
     ses_events = [], ses_now = now\<rparr>"

definition session_add_agent :: "team_agent \<Rightarrow> unit async" where
  "session_add_agent agent = co_bind (scheds (\<lambda>_. add_agent agent)) (\<lambda>_. Done ())"

definition session_rename_agent ::
    "('v, 'e) session_env_scheme \<Rightarrow> string \<Rightarrow> string \<Rightarrow> unit fallible" where
  "session_rename_agent E slot_id new_name = scheds (\<lambda>_. rename_agent (base_env E) slot_id new_name)"

record spawn_agent_request =
  sq_name :: string
  sq_assistant_id :: "string option"
  sq_model :: "string option"

datatype spawn_wake_plan = RunScoped target_role | MailboxOnly

text \<open>
  \<open>av_persist\<close> stores an agent with a slot, a name, a back end, a model and an assistant;
  \<open>av_removes\<close> tells whether the service gets as far as removing the agent from the session again.
\<close>

record agent_service =
  av_resolve :: "string \<Rightarrow> string option \<Rightarrow> string \<Rightarrow> string \<Rightarrow> team_error + string \<times> string"
  av_capable :: "string \<Rightarrow> bool"
  av_persist :: "string \<Rightarrow> string \<Rightarrow> string \<Rightarrow> string \<Rightarrow> string \<Rightarrow> team_error + team_agent"
  av_removes :: "string \<Rightarrow> bool"

definition team_capable_backends :: "string list" where
  "team_capable_backends = [''claude'', ''codex'', ''gemini'', ''aionrs'', ''codebuddy'']"

definition welcome_text :: string where
  "welcome_text = ''You have been spawned as a teammate. Read your mailbox and wait for instructions.''"

definition fresh_section :: "('v, 'e) session_env_scheme \<Rightarrow> team_session \<Rightarrow> string \<times> team_session" where
  "fresh_section E S = (env_generate_id E (ses_drawn S), draw 1 S)"

text \<open>Once the agent is in the scheduler: the welcome message and the plan of its wake.\<close>

definition welcome_agent ::
    "('v, 'e) session_env_scheme \<Rightarrow> agent_service option \<Rightarrow> string \<Rightarrow> team_agent
      \<Rightarrow> (team_agent \<times> spawn_wake_plan) fallible" where
  "welcome_agent E service caller_slot_id agent =
    co_bind (post E (ta_slot_id agent) caller_slot_id MtMessage welcome_text None None) (\<lambda>written.
      case written of
        Inl err \<Rightarrow>
          co_bind (case service of
              Some sv \<Rightarrow>
                if av_removes sv (ta_slot_id agent)
                then co_bind (session_remove_agent (ta_slot_id agent)) (\<lambda>_. Done ()) else Done ()
            | None \<Rightarrow> co_bind (scheds (\<lambda>_. remove_agent (ta_slot_id agent))) (\<lambda>_. Done ()))
            (\<lambda>_. Done (Inl err))
      | Inr message \<Rightarrow>
          co_bind (query (\<lambda>S. active_run_id (ses_runs S))) (\<lambda>active.
            if active = None then Done (Inr (agent, MailboxOnly))
            else
              co_try (reserve_wake_for_team_work E (ta_slot_id agent) SpawnWelcome (Some (mm_id message)))
                (\<lambda>reserved.
                  case reserved of
                    None \<Rightarrow> Done (Inl (InvalidRequest ''spawn welcome wake was suppressed''))
                  | Some role \<Rightarrow> Done (Inr (agent, RunScoped role)))))"

definition spawn_agent ::
    "('v, 'e) session_env_scheme \<Rightarrow> agent_service option \<Rightarrow> string \<Rightarrow> spawn_agent_request
      \<Rightarrow> (team_agent \<times> spawn_wake_plan) fallible" where
  "spawn_agent E service caller_slot_id req =
    co_try (scheds (\<lambda>_. get_agent caller_slot_id)) (\<lambda>caller.
      if ta_role caller \<noteq> LeadRole then Done (Inl (LeaderOnly ''spawn_agent''))
      else
        let ws = st_is_whitespace (env_text E);
            requested_name = str_trim ws (sq_name req);
            normalized = normalize_name (env_text E) requested_name
        in if requested_name = [] then Done (Inl (InvalidRequest ''spawn_agent.name must not be empty''))
        else if normalized = []
        then Done (Inl (InvalidRequest ''spawn_agent.name is empty after normalization''))
        else co_bind (query (\<lambda>S. list_agents (ses_sched S))) (\<lambda>existing.
          if list_ex (\<lambda>a. normalize_name (env_text E) (ta_name a) = normalized) existing
          then Done (Inl (DuplicateAgentName requested_name))
          else
            let assistant = (case sq_assistant_id req of None \<Rightarrow> [] | Some a \<Rightarrow> str_trim ws a)
            in if assistant = []
            then Done (Inl (InvalidRequest ''spawn_agent.assistant_id is required''))
            else
              (case service of
                None \<Rightarrow> Done (Inl (InvalidRequest ''spawn_agent requires a live TeamSessionService''))
              | Some sv \<Rightarrow>
                  (case av_resolve sv assistant (sq_model req) (ta_backend caller) (ta_model caller) of
                    Inl err \<Rightarrow> Done (Inl err)
                  | Inr (backend, model) \<Rightarrow>
                      if backend \<notin> set team_capable_backends \<and> \<not> av_capable sv backend
                      then Done (Inl (BackendNotAllowed backend))
                      else
                        co_bind (atomic (fresh_section E)) (\<lambda>slot_id.
                          case av_persist sv slot_id requested_name backend model assistant of
                            Inl err \<Rightarrow> Done (Inl err)
                          | Inr agent \<Rightarrow>
                              co_bind (session_add_agent agent) (\<lambda>_.
                                welcome_agent E service caller_slot_id agent))))))"

text \<open>
  The background task: with a process attached (\<open>None\<close>) the event loop is registered and notified,
  otherwise the lead is told why it failed.
\<close>

definition attach_spawned_agent ::
    "('v, 'e) session_env_scheme \<Rightarrow> team_agent \<times> spawn_wake_plan \<Rightarrow> string option \<Rightarrow> unit async" where
  "attach_spawned_agent E spawned failure =
    (case failure of
      Some text \<Rightarrow>
        co_bind (notify_leader_spawn_attach_failed E (ta_slot_id (fst spawned)) text) (\<lambda>_. Done ())
    | None \<Rightarrow>
        co_bind (atomic (loop_spawn (ta_slot_id (fst spawned)))) (\<lambda>_. notify (ta_slot_id (fst spawned))))"

definition spawn_and_attach ::
    "('v, 'e) session_env_scheme \<Rightarrow> agent_service option \<Rightarrow> string \<Rightarrow> spawn_agent_request \<Rightarrow> string option
      \<Rightarrow> unit async" where
  "spawn_and_attach E service caller_slot_id req failure =
    co_bind (spawn_agent E service caller_slot_id req) (\<lambda>spawned.
      case spawned of Inl err \<Rightarrow> Done () | Inr agent \<Rightarrow> attach_spawned_agent E agent failure)"

end
