(* ===== verification/TeamSessionPool.thy ===== *)
theory TeamSessionPool
  imports TeamSessionProps TeamSpawn SchedulerProps
begin

text \<open>
  Every method of the session is \<open>safe\<close>: whatever runs between its sections, each of them keeps
  \<open>session_inv\<close> and stays within \<open>session_change\<close>. So the invariant holds in every interleaving of
  any calls, which is what the properties at the end say of the messages of the user.
\<close>

definition safe :: "('v, 'e) session_env_scheme \<Rightarrow> 'r async \<Rightarrow> bool" where
  "safe E c \<longleftrightarrow> (\<forall>S. holds (session_inv E) (session_change E) (\<lambda>_ _. True) c S)"

named_theorems safe \<open>methods that keep the invariant in every interleaving\<close>

lemma safeD: "safe E c \<Longrightarrow> holds (session_inv E) (session_change E) (\<lambda>_ _. True) c S"
  by (simp add: safe_def)

lemma safe_Done [simp]: "safe E (Done x)"
  by (simp add: safe_def)

lemma safe_bind:
  assumes "safe E c" and "\<And>x. safe E (f x)"
  shows "safe E (co_bind c f)"
proof (unfold safe_def, intro allI session.holds_bind)
  fix S
  show "holds (session_inv E) (session_change E)
      (\<lambda>x t. holds (session_inv E) (session_change E) (\<lambda>_ _. True) (f x) t) c S"
    using assms by (intro session.holds_mono [OF safeD]) (simp_all add: safeD)
qed

lemma safe_try: "safe E c \<Longrightarrow> (\<And>x. safe E (f x)) \<Longrightarrow> safe E (co_try c f)"
  unfolding co_try_def by (intro safe_bind) (auto split: sum.split)

lemma safe_atomic:
  "(\<And>S r T. session_inv E S \<Longrightarrow> f S = (r, T) \<Longrightarrow> session_inv E T \<and> session_change E S T) \<Longrightarrow>
    safe E (atomic f)"
  unfolding safe_def by (auto intro!: session.holds_atomic)

lemma safe_query [safe, simp]: "safe E (query f)"
  unfolding query_def by (rule safe_atomic) (auto simp: session_change_def)

lemma safe_for: "(\<And>x. x \<in> set xs \<Longrightarrow> safe E (f x)) \<Longrightarrow> safe E (co_for xs f)"
  by (induction xs) (auto intro: safe_bind)

section \<open>Sections\<close>

text \<open>The events of a session are in neither relation, so what is sent late may be sent at any time.\<close>

lemma events_free [simp]:
  "session_inv E (S\<lparr>ses_events := es\<rparr>) = session_inv E S"
  "session_change E S (T\<lparr>ses_events := es\<rparr>) = session_change E S T"
  by (simp_all add: session_inv_def session_change_def has_message_def ses_team_id_def ses_drawn_def)

lemma safe_announce: "safe E (co_for evs announce)"
  by (rule safe_for, unfold announce_def, rule safe_atomic) (auto simp: session.G_refl)

lemma holds_runs:
  assumes "\<And>S' r T. session_change E S S' \<Longrightarrow> session_inv E S' \<Longrightarrow> run_section E f S' = (r, T) \<Longrightarrow>
      session_inv E T \<and> session_change E S' T \<and> Q r T"
    and stable: "\<And>r T T'. Q r T \<Longrightarrow> session_change E T T' \<Longrightarrow> Q r T'"
  shows "holds (session_inv E) (session_change E) Q (runs_holding E held f) S"
  unfolding runs_holding_def
proof (rule session.holds_bind, rule session.holds_atomic)
  fix S' x T
  assume S': "session_change E S S'" "session_inv E S'" and locked: "locked_section E held f S' = (x, T)"
  obtain r later where x: "x = (r, later)"
    by fastforce
  from locked_section_result [OF locked [unfolded x]] obtain T'
    where T': "run_section E f S' = (r, T')" "T = T'\<lparr>ses_events := ses_events T\<rparr>"
    by blast
  note kept = assms(1) [OF S' T'(1)]
  have "session_change E T' T"
    by (subst T'(2)) (simp add: session.G_refl)
  with kept stable have Q: "Q r T"
    by blast
  have "holds (session_inv E) (session_change E)
      (\<lambda>_ T. holds (session_inv E) (session_change E) Q (Done r) T) (co_for later announce) T"
  proof (rule session.holds_mono)
    show "holds (session_inv E) (session_change E) (\<lambda>x t. True \<and> Q r t) (co_for later announce) T"
      by (rule session.holds_frame [where P = "Q r", OF _ safeD [OF safe_announce] Q]) (rule stable)
  qed simp
  then have "holds (session_inv E) (session_change E) Q
      (co_bind (co_for later announce) (\<lambda>_. Done r)) T"
    by (rule session.holds_bind)
  moreover have "session_inv E T" "session_change E S' T"
    using kept by (subst T'(2), simp)+
  ultimately show "session_inv E T \<and> session_change E S' T \<and>
      holds (session_inv E) (session_change E) Q
        (case x of (r, later) \<Rightarrow> co_bind (co_for later announce) (\<lambda>_. Done r)) T"
    by (simp add: x)
qed

lemma then_stable:
  "holds (session_inv E) (session_change E) (\<lambda>_ _. True) (f r) T \<Longrightarrow> session_change E T T' \<Longrightarrow>
    holds (session_inv E) (session_change E) (\<lambda>_ _. True) (f r) T'"
  by (rule session.holds_stable [OF session.stable_True])

lemma then_ok_stable:
  "(case r of Inl e \<Rightarrow> True | Inr x \<Rightarrow> holds (session_inv E) (session_change E) (\<lambda>_ _. True) (f x) T) \<Longrightarrow>
    session_change E T T' \<Longrightarrow>
    (case r of Inl e \<Rightarrow> True | Inr x \<Rightarrow> holds (session_inv E) (session_change E) (\<lambda>_ _. True) (f x) T')"
  by (auto split: sum.splits intro: then_stable)

lemma safe_runs_holding:
  assumes "\<And>has now a b m. keeps has m (fst (snd (f now a b m)))"
    and "\<And>now a b m. wf_manager m \<Longrightarrow> wf_manager (fst (snd (f now a b m)))"
  shows "safe E (runs_holding E held f)"
  unfolding safe_def
  by (intro allI holds_runs) (use keeping_section [of E _ f] assms in auto)

lemma safe_runs:
  assumes "\<And>has now a b m. keeps has m (fst (snd (f now a b m)))"
    and "\<And>now a b m. wf_manager m \<Longrightarrow> wf_manager (fst (snd (f now a b m)))"
  shows "safe E (runs E f)"
  unfolding runs_def by (rule safe_runs_holding [OF assms])

lemma safe_run_ops [safe]:
  "safe E (runs E (\<lambda>now _ _. abort_operation_lease now l))"
  "safe E (runs E (\<lambda>now _ _. mark_slot_runtime_health now s h))"
  "safe E (runs E (\<lambda>now _ _. release_suppressed_wake_if_resumed now s ro))"
  "safe E (runs E (\<lambda>now fresh _. recover_mailbox_backlog now fresh cs))"
  "safe E (runs E (\<lambda>now _ _. pause_slot_work now s why))"
  "safe E (runs E (\<lambda>now _ _. complete_pause_after_child_cancelled now c why))"
  "safe E (runs E (\<lambda>now _ _. begin_cancel now t why))"
  "safe E (runs_holding E held_all (\<lambda>now _ _. try_complete_cancelled now))"
  "safe E (runs E (\<lambda>_ _ _. begin_cancel_child s))"
  "safe E (runs_holding E held_but_last (\<lambda>now _ _. record_child_cancelled now c))"
  "safe E (runs E (\<lambda>now _ _. complete_failed now))"
  "safe E (runs_holding E held_all (\<lambda>now _ _. maybe_complete now))"
  "safe E (runs_holding E held_unless_failed (\<lambda>now _ _. record_child_start_failed now i))"
  "safe E (runs_holding E held_unless_failed (\<lambda>now _ _. record_child_completed now s i st))"
  "safe E (runs_holding E held_all (\<lambda>now _ _. record_empty_wake_observed now s))"
  "safe E (runs E (\<lambda>now _ _. retry_child_start_later now i))"
  "safe E (runs E (\<lambda>now fresh _. claim_wake_for_turn now fresh s ro conv))"
  by (intro safe_runs safe_runs_holding keeping wf_abort_operation_lease wf_mark_slot_runtime_health
      wf_release_suppressed_wake wf_recover_mailbox_backlog wf_pause_slot_work wf_complete_pause
      wf_begin_cancel wf_try_complete_cancelled wf_begin_cancel_child wf_record_child_cancelled
      wf_complete_failed wf_maybe_complete wf_record_child_start_failed wf_record_child_completed
      wf_record_empty_wake_observed wf_retry_child_start_later wf_claim_wake_for_turn; assumption)+

lemma safe_record_child_started [safe]:
  "safe E (runs E (\<lambda>now _ _. record_child_started now i (c now)))"
  by (intro safe_runs keeping wf_record_child_started)

lemma safe_record_or_suppress [safe]:
  "\<not> is_foreground_wake src \<Longrightarrow> safe E (runs E (\<lambda>now _ _. record_or_suppress_wake now s ro src t))"
  by (intro safe_runs keeping wf_record_or_suppress_wake)

lemma safe_scheds: "(\<And>now s. adds_rows s (fst (snd (f now s)))) \<Longrightarrow> safe E (scheds f)"
  unfolding scheds_def by (rule safe_atomic, rule sched_section_keeps)

lemma safe_sched_ops [safe]:
  "safe E (scheds (\<lambda>_. get_agent i))"
  "safe E (scheds (\<lambda>_. set_status i st))"
  "safe E (scheds (\<lambda>_. remove_agent i))"
  "safe E (scheds (\<lambda>now. finalize_turn F now i []))"
  "safe E (scheds (\<lambda>now. request_shutdown_agent F now from_slot target why))"
  by (intro safe_scheds sched_ops_add_rows sched_steps_add_rows)+

lemma safe_post [safe]: "safe E (post E to_slot from_slot ty content summary files)"
  unfolding post_def by (rule safe_atomic) (blast dest: write_section_inv)

text \<open>Sections that touch neither the manager, nor the mailbox, nor the identifiers.\<close>

lemma safe_apart:
  assumes "\<And>S. ses_runs (snd (f S)) = ses_runs S"
    and "\<And>S. sch_db (ses_sched (snd (f S))) = sch_db (ses_sched S)"
    and "\<And>S. ses_team_id (snd (f S)) = ses_team_id S" and "\<And>S. ses_drawn S \<le> ses_drawn (snd (f S))"
  shows "safe E (atomic f)"
proof (rule safe_atomic)
  fix S r T
  assume "session_inv E S" and "f S = (r, T)"
  with inv_after_db [of E S T] assms [of S] show "session_inv E T \<and> session_change E S T"
    by (simp add: has_message_def)
qed

lemmas apart = ses_team_id_def ses_drawn_def draw_def

lemma safe_notify [safe]: "safe E (notify slot)"
  unfolding notify_def by (rule safe_apart) (simp_all add: notify_loop_def apart)

lemma safe_cancel_agent_turn [safe]: "safe E (cancel_agent_turn E child)"
  unfolding cancel_agent_turn_def by (rule safe_apart) (simp_all add: apart)

lemma safe_marks:
  assumes "\<And>S. \<exists>db. snd (f S) = S\<lparr>ses_sched := (ses_sched S)\<lparr>sch_db := db\<rparr>\<rparr> \<and>
    (\<forall>team slot i. db_has (sch_db (ses_sched S)) team slot i \<longrightarrow> db_has db team slot i)"
  shows "safe E (atomic f)"
proof (rule safe_atomic)
  fix S r T
  assume S: "session_inv E S" and "f S = (r, T)"
  with assms [of S] obtain db where "T = S\<lparr>ses_sched := (ses_sched S)\<lparr>sch_db := db\<rparr>\<rparr>"
    "\<And>team slot i. db_has (sch_db (ses_sched S)) team slot i \<Longrightarrow> db_has db team slot i"
    by auto
  with inv_after_db [OF S, of T] show "session_inv E T \<and> session_change E S T"
    by (simp add: has_message_def apart)
qed

lemma safe_reads [safe]: "safe E (drain_mailboxes E ids)" "safe E (mark_read ids)"
proof -
  show "safe E (drain_mailboxes E ids)"
    unfolding drain_mailboxes_def
    by (rule safe_marks) (auto simp: case_prod_beta intro: mark_all_unread_has)
  show "safe E (mark_read ids)"
    unfolding mark_read_def
    by (auto intro!: safe_marks intro: mark_read_batch_has)
qed

lemma safe_prompt [safe]:
  "safe E (atomic (\<lambda>S. case take_needs_role_prompt slot (ses_sched S) of
     (needs, s) \<Rightarrow> (needs, S\<lparr>ses_sched := s\<rparr>)))"
  by (rule safe_apart) (simp_all add: take_needs_role_prompt_def apart split: option.split prod.split)

lemma safe_permit [safe]:
  "safe E (atomic (\<lambda>S. (slot \<in> ses_notified S, S\<lparr>ses_notified := ses_notified S - {slot}\<rparr>)))"
  "safe E (atomic (\<lambda>S. (ses_recovery_scan_completed S, S\<lparr>ses_recovery_scan_completed := True\<rparr>)))"
  "safe E (atomic (\<lambda>S. ((), loop_remove slot S)))"
  "safe E (atomic (loop_spawn slot))"
  by (rule safe_apart; simp add: loop_remove_def loop_spawn_def apart)+

lemma safe_project [safe]: "safe E (project E q)" "safe E (project_quietly E q)"
proof -
  have "safe E (atomic (mint_section E q))"
    by (rule safe_apart) (simp_all add: mint_section_def apart split: option.split)
  moreover have "safe E (atomic (insert_section E q i))" for i
    by (rule safe_apart) (simp_all add: insert_section_def apart)
  ultimately show "safe E (project E q)"
    by (auto simp: project_def intro!: safe_bind)
  then show "safe E (project_quietly E q)"
    unfolding project_quietly_def by (intro safe_bind) simp_all
qed

section \<open>Methods that take a lease\<close>

text \<open>
  Between an acquire and the commit a method knows that its lease is its own and, when the wake is
  one of the user, that the message is in the mailbox: nothing another method does takes this away.
\<close>

definition may_commit ::
    "('v, 'e) session_env_scheme \<Rightarrow> operation_lease \<Rightarrow> string option \<Rightarrow> team_session \<Rightarrow> bool" where
  "may_commit E lease trigger S \<longleftrightarrow> own_lease E lease S \<and>
    (is_foreground_wake (ol_wake_source lease) \<longrightarrow>
      (\<exists>i. trigger = Some i \<and> has_message S (ol_slot_id lease) i))"

lemma may_commit_stable: "may_commit E lease t S \<Longrightarrow> session_change E S T \<Longrightarrow> may_commit E lease t T"
  unfolding may_commit_def by (metis own_lease_stable has_message_stable)

lemma holds_then:
  assumes "safe E c" and "P S" and "\<And>S T. P S \<Longrightarrow> session_change E S T \<Longrightarrow> P T"
    and "\<And>x T. P T \<Longrightarrow> holds (session_inv E) (session_change E) R (f x) T"
  shows "holds (session_inv E) (session_change E) R (co_bind c f) S"
proof (rule session.holds_bind, rule session.holds_mono)
  show "holds (session_inv E) (session_change E) (\<lambda>x t. True \<and> P t) c S"
    by (rule session.holds_frame [where P = P]) (rule assms(3), assumption+, rule safeD, rule assms(1), rule assms(2))
qed (simp add: assms(4))

lemmas then_commit = holds_then [where P = "may_commit E lease t" for E lease t, OF _ _ may_commit_stable]

lemmas then_own = holds_then [where P = "own_lease E lease" for E lease, OF _ _ own_lease_stable]

lemma may_commitI: "own_lease E lease S \<Longrightarrow> \<not> is_foreground_wake (ol_wake_source lease) \<Longrightarrow> may_commit E lease t S"
  by (simp add: may_commit_def)

lemma holds_commit:
  assumes "may_commit E lease t S" and "\<And>x. safe E (f x)"
  shows "holds (session_inv E) (session_change E) (\<lambda>_ _. True)
    (co_try (runs E (\<lambda>now _ _. commit_operation_lease now (ol_lease_id lease) t)) f) S"
proof (rule session.holds_try, unfold runs_def, rule holds_runs [OF _ then_ok_stable])
  fix S' r T
  assume "session_change E S S'" "session_inv E S'"
    and "run_section E (\<lambda>now _ _. commit_operation_lease now (ol_lease_id lease) t) S' = (r, T)"
  moreover have "may_commit E lease t S'"
    using may_commit_stable assms(1) calculation(1) by blast
  ultimately show "session_inv E T \<and> session_change E S' T \<and>
      (case r of Inl e \<Rightarrow> True | Inr x \<Rightarrow>
        holds (session_inv E) (session_change E) (\<lambda>_ _. True) (f x) T)"
    using commit_section [of E S' lease t r T] safeD [OF assms(2)]
    by (auto simp: may_commit_def split: sum.split)
qed

lemma holds_post:
  assumes "own_lease E lease S" and "is_foreground_wake (ol_wake_source lease) \<Longrightarrow> from_slot = ''user''"
    and "\<And>err. safe E (f (Inl err))"
    and "\<And>m T. may_commit E lease (Some (mm_id m)) T \<Longrightarrow>
      holds (session_inv E) (session_change E) (\<lambda>_ _. True) (f (Inr m)) T"
  shows "holds (session_inv E) (session_change E) (\<lambda>_ _. True)
    (co_bind (post E (ol_slot_id lease) from_slot ty content summary files) f) S"
proof (rule session.holds_bind, unfold post_def, rule session.holds_atomic)
  fix S' r T
  assume "session_change E S S'" "session_inv E S'"
    and "write_section E (ol_slot_id lease) from_slot ty content summary files S' = (r, T)"
  moreover have "own_lease E lease S'"
    using own_lease_stable assms(1) calculation(1) by blast
  ultimately show "session_inv E T \<and> session_change E S' T \<and>
      holds (session_inv E) (session_change E) (\<lambda>_ _. True) (f r) T"
    using write_section_inv [of E S' "ol_slot_id lease" from_slot ty content summary files r T]
      own_lease_stable [of E lease S' T] safeD [OF assms(3)] assms(2)
    by (cases r) (simp_all add: may_commit_def assms(4))
qed

lemma holds_acquire_user:
  assumes "inj (env_generate_id E)"
    and "\<And>ack lease T. own_lease E lease T \<Longrightarrow> ol_slot_id lease = slot \<Longrightarrow>
      holds (session_inv E) (session_change E) (\<lambda>_ _. True) (f (ack, lease)) T"
  shows "safe E (co_try (runs E (\<lambda>now a b. acquire_user_message_wake now a b slot role)) f)"
  unfolding safe_def
proof (intro allI session.holds_try, unfold runs_def, rule holds_runs [OF _ then_ok_stable])
  fix S' r T
  assume "session_inv E S'"
    and "run_section E (\<lambda>now a b. acquire_user_message_wake now a b slot role) S' = (r, T)"
  from acquire_user_section [OF assms(1) this] show "session_inv E T \<and> session_change E S' T \<and>
      (case r of Inl e \<Rightarrow> True | Inr x \<Rightarrow>
        holds (session_inv E) (session_change E) (\<lambda>_ _. True) (f x) T)"
    using assms(2) by (auto split: sum.split)
qed

lemma holds_acquire_scoped:
  assumes "inj (env_generate_id E)"
    and "\<And>e. safe E (f (Inl e))" and "safe E (f (Inr WakeSuppressed))"
    and "\<And>lease T. own_lease E lease T \<Longrightarrow> ol_slot_id lease = slot \<Longrightarrow> ol_wake_source lease = src \<Longrightarrow>
      holds (session_inv E) (session_change E) (\<lambda>_ _. True) (f (Inr (LeaseAccepted lease))) T"
  shows "safe E (co_bind (runs E (\<lambda>now a _.
    acquire_run_scoped_wake_with_intent now a slot role src intent)) f)"
  unfolding safe_def
proof (intro allI session.holds_bind, unfold runs_def, rule holds_runs [OF _ then_stable])
  fix S' r T
  assume "session_inv E S'"
    and "run_section E (\<lambda>now a _. acquire_run_scoped_wake_with_intent now a slot role src intent) S' = (r, T)"
  from acquire_scoped_section [OF assms(1) this] show "session_inv E T \<and> session_change E S' T \<and>
      holds (session_inv E) (session_change E) (\<lambda>_ _. True) (f r) T"
    using assms(4) safeD [OF assms(2)] safeD [OF assms(3)]
    by (cases r; cases "projr r") auto
qed

lemma holds_acquire_scoped_try:
  assumes "inj (env_generate_id E)" and "safe E (f WakeSuppressed)"
    and "\<And>lease T. own_lease E lease T \<Longrightarrow> ol_slot_id lease = slot \<Longrightarrow> ol_wake_source lease = src \<Longrightarrow>
      holds (session_inv E) (session_change E) (\<lambda>_ _. True) (f (LeaseAccepted lease)) T"
  shows "safe E (co_try (runs E (\<lambda>now a _.
    acquire_run_scoped_wake_with_intent now a slot role src intent)) f)"
  unfolding co_try_def by (rule holds_acquire_scoped [OF assms(1)]; simp add: assms)

lemmas scoped_wakes = acquire_run_scoped_wake_def acquire_scheduler_wake_def

section \<open>The methods\<close>

lemma safe_deliver [safe]:
  assumes "inj (env_generate_id E)"
  shows "safe E (deliver_user_message E slot role conversation content files)"
  unfolding deliver_user_message_def
  by (rule holds_acquire_user [OF assms], unfold prod.case, hypsubst, rule holds_post, assumption,
      simp, unfold sum.case)
    (intro safe_bind safe safe_Done, intro then_commit holds_commit safe_bind safe safe_Done)

lemma safe_send [safe]:
  assumes "inj (env_generate_id E)"
  shows "safe E (send_message E content files)"
    and "safe E (send_message_to_agent E slot content files)"
  unfolding send_message_def send_message_to_agent_def
  using assms by (auto intro!: safe_bind safe_try safe split: option.split)

lemma safe_slot_work [safe]: "safe E (slot_work_or_error slot)"
  unfolding slot_work_or_error_def by simp

lemma safe_agent_message [safe]:
  assumes "inj (env_generate_id E)"
  shows "safe E (send_agent_message_from_agent E from_slot to_slot content)"
  unfolding send_agent_message_from_agent_def scoped_wakes
  apply (rule safe_try, rule safe, rule safe_try, rule safe)
  apply (rule holds_acquire_scoped_try [OF assms]; simp only: wake_acquire_outcome.case)
   apply (auto intro!: safe_try safe)[1]
  apply hypsubst
  apply (rule holds_post, assumption, simp add: is_foreground_wake_def, unfold sum.case)
   apply (intro safe_bind safe safe_Done)
  apply (intro then_commit holds_commit safe_bind safe_try safe safe_Done)
   apply (auto intro!: safe_bind safe_try safe)
  done

lemma safe_shutdown_agent [safe]:
  assumes "inj (env_generate_id E)"
  shows "safe E (shutdown_agent E caller target reason)"
  unfolding shutdown_agent_def scoped_wakes
  apply (rule safe_try, rule safe, simp only: if_split, intro conjI impI, simp)
  apply (rule safe_try, rule safe, simp only: if_split, intro conjI impI, simp)
  apply (rule holds_acquire_scoped_try [OF assms]; simp only: wake_acquire_outcome.case)
   apply simp
  apply (rule then_own, rule safe, assumption)
  apply (auto simp: is_foreground_wake_def intro!: holds_commit may_commitI safe_bind safe intro: safeD split: sum.split)
  done

lemma safe_wakes [safe]:
  assumes "inj (env_generate_id E)" and "\<not> is_foreground_wake source"
  shows "safe E (scheduler_wake_agent_for_team_work E slot source)"
    and "safe E (wake_leader_after_recovery_message E source)"
proof -
  have commit: "holds (session_inv E) (session_change E) (\<lambda>_ _. True)
      (co_try (runs E (\<lambda>now _ _. commit_operation_lease now (ol_lease_id lease) None))
        (\<lambda>_. co_bind (notify i) (\<lambda>_. Done (Inr ())))) T"
    if "own_lease E lease T" "ol_wake_source lease = source" for lease i T
    using that assms(2) by (auto intro!: holds_commit may_commitI safe_bind safe)
  show "safe E (scheduler_wake_agent_for_team_work E slot source)"
    unfolding scheduler_wake_agent_for_team_work_def scoped_wakes
    by (rule safe_try, rule safe, rule holds_acquire_scoped_try [OF assms(1)]) (simp_all add: commit)
  show "safe E (wake_leader_after_recovery_message E source)"
    unfolding wake_leader_after_recovery_message_def scoped_wakes
    by (rule safe_bind, simp)
      (auto intro!: holds_acquire_scoped [OF assms(1)] simp: commit split: option.split)
qed

lemma safe_reserve_wake [safe]:
  "\<not> is_foreground_wake source \<Longrightarrow> safe E (reserve_wake_for_team_work E slot source trigger)"
  unfolding reserve_wake_for_team_work_def by (intro safe_try safe safe_Done)

lemma safe_notices [safe]:
  assumes "inj (env_generate_id E)"
  shows "safe E (notify_leader_child_interrupted E slot reason)"
    and "safe E (notify_leader_spawn_attach_failed E slot err)"
  unfolding notify_leader_child_interrupted_def notify_leader_spawn_attach_failed_def
  using assms by (auto intro!: safe_bind safe_try safe split: option.split simp: is_foreground_wake_def)

lemma safe_scan [safe]: "safe E (scan_candidates E agents candidates)"
  by (induction agents arbitrary: candidates) (auto intro!: safe_bind)

lemma safe_recovery [safe]: "safe E (try_start_recovery_drain E)"
  unfolding try_start_recovery_drain_def by (auto intro!: safe_bind safe_for safe)

lemma safe_cancelling [safe]:
  assumes "inj (env_generate_id E)"
  shows "safe E (cancel_run E run target reason)"
    and "safe E (cancel_child_turn E run slot reason)"
    and "safe E (session_pause_slot_work E run slot reason)"
proof -
  have [safe]: "safe E (require_current_run run none other)" for none other
    unfolding require_current_run_def by simp
  show "safe E (cancel_run E run target reason)"
    unfolding cancel_run_def by (intro safe_try safe_bind safe_for safe safe_Done)
  show "safe E (cancel_child_turn E run slot reason)"
    unfolding cancel_child_turn_def
    using assms by (auto intro!: safe_bind safe_try safe split: child_cancel_target.split option.split)
  show "safe E (session_pause_slot_work E run slot reason)"
    unfolding session_pause_slot_work_def
    using assms by (auto intro!: safe_bind safe_try safe split: child_cancel_target.split option.split)
qed

section \<open>The event loop\<close>

lemma safe_compute_wake_input [safe]: "safe E (compute_wake_input E slot)"
  unfolding compute_wake_input_def Let_def by (auto intro!: safe_bind safe_try safe)

lemma safe_mirror [safe]: "safe E (mirror_unread_to_conversation E input)"
  unfolding mirror_unread_to_conversation_def by (auto intro!: safe_bind safe_for safe)

lemma safe_status [safe]: "safe E (set_status_quietly slot status)"
  unfolding set_status_quietly_def by (auto intro!: safe_bind safe)

lemma safe_started [safe]: "safe E (on_started E i started)"
  unfolding on_started_def by (auto intro!: safe_bind safe split: child_start_decision.split)

lemma safe_turn [safe]:
  "safe E (after_port E slot input reservation seen outcome)"
  "safe E (execute_turn E slot port input)"
proof -
  show *: "safe E (after_port E slot input reservation seen outcome)" for reservation seen outcome
    unfolding after_port_def Let_def
    by (auto intro!: safe_bind safe split: sum.split option.split)
  show "safe E (execute_turn E slot port input)"
    unfolding execute_turn_def Let_def
    by (auto intro!: safe_bind safe_for safe * split: option.split)
qed

lemma safe_finalize [safe]:
  assumes "inj (env_generate_id E)"
  shows "safe E (loop_finalize_turn E slot turn input)"
  unfolding loop_finalize_turn_def
  using assms by (auto intro!: safe_bind safe split: sum.split option.split simp: is_foreground_wake_def)

lemma safe_loop [safe]:
  assumes "inj (env_generate_id E)"
  shows "safe E (event_loop_round E slot ports)"
proof -
  have [safe]: "safe E (drain_pass E slot port)" for port
    unfolding drain_pass_def using assms by (auto intro!: safe_bind safe split: sum.split option.split)
  have [safe]: "safe E (drain_loop E slot ports)"
    by (induction ports) (auto intro!: safe_bind safe)
  show ?thesis
    unfolding event_loop_round_def by (auto intro!: safe_bind safe)
qed

lemma safe_remove_agent [safe]: "safe E (session_remove_agent slot)"
  unfolding session_remove_agent_def by (auto intro!: safe_bind safe_try safe)

lemma safe_joins [safe]:
  "safe E (session_add_agent agent)"
  "safe E (session_rename_agent E slot new_name)"
  unfolding session_add_agent_def session_rename_agent_def
  by (intro safe_bind safe_scheds safe_Done;
      simp add: add_agent_def rename_agent_def sched_fail_def adds_rows_def Let_def)+

lemma safe_spawn [safe]:
  assumes "inj (env_generate_id E)"
  shows "safe E (spawn_and_attach E service caller req failure)"
proof -
  have "safe E (atomic (fresh_section E))"
    by (rule safe_apart) (simp_all add: fresh_section_def apart)
  moreover have "safe E (welcome_agent E service caller agent)" for agent
    unfolding welcome_agent_def
    by (auto intro!: safe_bind safe_try safe simp: is_foreground_wake_def split: sum.split option.split)
  ultimately have "safe E (spawn_agent E service caller req)"
    unfolding spawn_agent_def Let_def
    by (auto intro!: safe_bind safe_try safe split: sum.split option.split)
  moreover have "safe E (attach_spawned_agent E spawned failure)" for spawned
    unfolding attach_spawned_agent_def
    using assms by (auto intro!: safe_bind safe split: option.split)
  ultimately show ?thesis
    unfolding spawn_and_attach_def by (auto intro!: safe_bind split: sum.split)
qed

section \<open>Calls in every interleaving\<close>

text \<open>
  What a session can be called for. \<open>Tick\<close> is the clock; the wakes others reserve come with the
  source of their cause, never with one of the user.
\<close>

datatype session_call =
    SendMessage string "string list option"
  | SendMessageToAgent string string "string list option"
  | SendAgentMessage string string string
  | ShutdownAgent string string "string option"
  | ReserveWake string wake_source "string option"
  | SchedulerWake string wake_source
  | SpawnAttachFailed string string
  | RecoveryDrain
  | CancelRun string "string option" "string option"
  | CancelChildTurn string string "string option"
  | PauseSlotWork string string "string option"
  | EventLoop string "port list"
  | SpawnLoop string
  | AddAgent team_agent
  | RenameAgent string string
  | SpawnAgent "agent_service option" string spawn_agent_request "string option"
  | RemoveAgent string
  | Tick timestamp_ms

definition and_then_done :: "'r async \<Rightarrow> unit async" where
  "and_then_done c = co_bind c (\<lambda>_. Done ())"

fun session_method :: "('v, 'e) session_env_scheme \<Rightarrow> session_call \<Rightarrow> unit async" where
  "session_method E (SendMessage content files) = and_then_done (send_message E content files)"
| "session_method E (SendMessageToAgent slot content files) =
    and_then_done (send_message_to_agent E slot content files)"
| "session_method E (SendAgentMessage from_slot to_slot content) =
    and_then_done (send_agent_message_from_agent E from_slot to_slot content)"
| "session_method E (ShutdownAgent caller target reason) =
    and_then_done (shutdown_agent E caller target reason)"
| "session_method E (ReserveWake slot source trigger) =
    and_then_done (reserve_wake_for_team_work E slot source trigger)"
| "session_method E (SchedulerWake slot source) =
    and_then_done (scheduler_wake_agent_for_team_work E slot source)"
| "session_method E (SpawnAttachFailed slot err) =
    and_then_done (notify_leader_spawn_attach_failed E slot err)"
| "session_method E RecoveryDrain = and_then_done (try_start_recovery_drain E)"
| "session_method E (CancelRun run target reason) = and_then_done (cancel_run E run target reason)"
| "session_method E (CancelChildTurn run slot reason) =
    and_then_done (cancel_child_turn E run slot reason)"
| "session_method E (PauseSlotWork run slot reason) =
    and_then_done (session_pause_slot_work E run slot reason)"
| "session_method E (EventLoop slot ports) = and_then_done (event_loop_round E slot ports)"
| "session_method E (SpawnLoop slot) = and_then_done (atomic (loop_spawn slot))"
| "session_method E (AddAgent agent) = session_add_agent agent"
| "session_method E (RenameAgent slot new_name) = and_then_done (session_rename_agent E slot new_name)"
| "session_method E (SpawnAgent service caller req failure) =
    spawn_and_attach E service caller req failure"
| "session_method E (RemoveAgent slot) = and_then_done (session_remove_agent slot)"
| "session_method E (Tick now) = atomic (\<lambda>S. ((), S\<lparr>ses_now := now\<rparr>))"

fun internal_source :: "session_call \<Rightarrow> bool" where
  "internal_source (ReserveWake slot source trigger) = (\<not> is_foreground_wake source)"
| "internal_source (SchedulerWake slot source) = (\<not> is_foreground_wake source)"
| "internal_source _ = True"

lemma safe_method:
  assumes "inj (env_generate_id E)" and "internal_source call"
  shows "safe E (session_method E call)"
proof -
  have "safe E (atomic (\<lambda>S. ((), S\<lparr>ses_now := now\<rparr>)))" for now
    by (rule safe_apart) (simp_all add: apart)
  then show ?thesis
    using assms unfolding and_then_done_def
    by (cases call) (auto simp: and_then_done_def intro!: safe_bind safe)
qed

lemma inv_in_pool:
  assumes "inj (env_generate_id E)" and "list_all internal_source calls" and "session_inv E S"
  shows "session_inv E (snd (pool_run schedule (map (session_method E) calls) S))"
    and "session_change E S (snd (pool_run schedule (map (session_method E) calls) S))"
  using session.pool_run_holds [of "map (session_method E) calls" E S schedule] assms
  by (auto simp: list_all_iff intro!: safeD safe_method)

text \<open>
  C1. In every interleaving of any calls, from a session without a run: the run stays well formed, and
  each wake of the user that is queued or reserved for a start carries the identifier of a message
  of the user which is in the mailbox of that slot, whoever removes agents, pauses, cancels or
  shuts down in between. An agent is never woken for a user message that is not there.
\<close>

theorem user_wakes_have_mail:
  assumes "inj (env_generate_id E)" and "list_all internal_source calls"
    and "mgr_state (ses_runs S) = None"
    and "snd (pool_run schedule (map (session_method E) calls) S) = T"
  shows "wf_manager (ses_runs T) \<and>
    (case mgr_state (ses_runs T) of
      None \<Rightarrow> True
    | Some r \<Rightarrow>
        (\<forall>(slot, wakes) \<in> set (run_pending_wakes r). \<forall>w \<in> set wakes.
          is_foreground_wake (pw_source w) \<longrightarrow>
            (\<exists>i. pw_message_id w = Some i \<and> has_message T (pw_slot_id w) i)) \<and>
        (\<forall>(k, res) \<in> set (run_starting_reservations r).
          is_foreground_wake (sr_wake_source res) \<longrightarrow>
            (\<exists>i. sr_message_id res = Some i \<and> has_message T (sr_slot_id res) i)))"
proof -
  have "session_inv E S"
    using assms(3) by (simp add: session_inv_def wf_manager_def backed_manager_def lease_of_def)
  from inv_in_pool(1) [OF assms(1,2) this, of schedule] show ?thesis
    unfolding assms(4) session_inv_def backed_manager_def
    by (simp add: backed_def pending_ok_def starting_ok_def wake_ok_def start_ok_def split: option.splits)
qed

text \<open>
  Two messages of the user for different agents that are sent at the same time: the second run
  request finds the run of the first and becomes an intervention.
\<close>

definition demo_session_env :: "string session_env" where
  "demo_session_env =
    \<lparr>env_json = env_json demo_env, env_text = env_text demo_env,
     env_generate_id = env_generate_id demo_env, se_write_error = (\<lambda>n. None),
     se_cancel_turn = (\<lambda>_ _. None), se_wake_text = (\<lambda>_ _ _. ''wake''),
     se_role_prompt = (\<lambda>_ _. ''prompt'')\<rparr>"

definition demo_session :: team_session where
  "demo_session = \<lparr>ses_runs = new_run_manager ''team'', ses_sched = demo_scheduler, ses_bubbles = [],
     ses_loops = {''lead'', ''w1''}, ses_notified = {}, ses_recovery_scan_completed = False,
     ses_events = [], ses_now = 0\<rparr>"

definition demo_calls :: "session_call list" where
  "demo_calls = [SendMessage ''hi'' None, SendMessageToAgent ''w1'' ''do it'' None]"

definition demo_schedule :: "nat list" where
  "demo_schedule = [0, 1, 0, 0, 1, 0, 1, 0, 1, 0, 1, 0, 0, 0, 0, 0, 0, 0, 1, 1, 1, 1, 1]"

definition demo_final :: team_session where
  "demo_final =
    snd (pool_run demo_schedule (map (session_method demo_session_env) demo_calls) demo_session)"

lemmas demo_defs = demo_calls_def demo_session_def demo_session_env_def demo_scheduler_def
  new_run_manager_def new_scheduler_def new_slot_def demo_agent_def demo_env_def pairs_codec_def
  demo_schedule_def empty_db_def new_db_def demo_final_def

lemmas session_eval = co_eval and_then_done_def send_message_def send_message_to_agent_def
  deliver_user_message_def query_def runs_def runs_holding_def held_none_def announce_def scheds_def post_def notify_def project_quietly_def
  project_def find_lead_slot_id_def sched_section_def get_agent_def locked_section_def
  write_section_def write_with_files_def write_message_def message_from_row_def mint_section_def
  insert_section_def Let_def apart user_visible_def should_insert_visible_bubble_def
  user_message_policy_def build_message_row_def strip_system_notes_def strip_loop.simps
  str_trim_def notify_loop_def target_role_for_def msg_type_parse_def

lemmas run_eval = acquire_user_message_wake_def commit_operation_lease_def new_operation_lease_def
  new_team_run_record_def active_run_def cancelling_run_def is_active_def put_run_def
  push_pending_wake_def gate_before_wake_def slot_run_state_def ack_of_def
  pending_wake_count_for_slot_def starting_child_count_for_slot_def snapshot_for_slot_def
  hm_has_def enqueue_wake_def is_foreground_wake_def

lemma demo_wakes:
  "map_option run_pending_wakes (mgr_state (ses_runs demo_final)) =
    Some
     [(''lead'', [\<lparr>pw_slot_id = ''lead'', pw_role = Lead, pw_source = UserMessage,
        pw_message_id = Some ''iiiii''\<rparr>]),
      (''w1'', [\<lparr>pw_slot_id = ''w1'', pw_role = Teammate, pw_source = UserIntervention,
        pw_message_id = Some ''iiii''\<rparr>])]"
  by (simp add: demo_defs session_eval run_eval cong: lazy)

theorem user_wakes_have_mail_witness:
  "has_message demo_final ''lead'' ''iiiii'' \<and> has_message demo_final ''w1'' ''iiii'' \<and>
    map_option (concat \<circ> map snd \<circ> run_pending_wakes) (mgr_state (ses_runs demo_final)) \<noteq> Some []"
proof -
  obtain r where r: "mgr_state (ses_runs demo_final) = Some r"
    and wakes: "run_pending_wakes r =
     [(''lead'', [\<lparr>pw_slot_id = ''lead'', pw_role = Lead, pw_source = UserMessage,
        pw_message_id = Some ''iiiii''\<rparr>]),
      (''w1'', [\<lparr>pw_slot_id = ''w1'', pw_role = Teammate, pw_source = UserIntervention,
        pw_message_id = Some ''iiii''\<rparr>])]"
    using demo_wakes by (auto simp: map_option_case split: option.splits)
  have "inj (env_generate_id demo_session_env)"
    by (auto simp: demo_session_env_def demo_env_def intro!: injI dest: map_eq_imp_length_eq
        arg_cong [where f = length])
  moreover have "list_all internal_source demo_calls" "mgr_state (ses_runs demo_session) = None"
    by (simp_all add: demo_calls_def demo_session_def new_run_manager_def)
  ultimately show ?thesis
    using user_wakes_have_mail [of demo_session_env demo_calls demo_session demo_schedule demo_final]
    by (simp add: demo_final_def [symmetric] r wakes is_foreground_wake_def)
qed

end
