(* ===== verification/TeamSessionTurn.thy ===== *)
theory TeamSessionTurn
  imports TeamSessionPool
begin

text \<open>
  A message of the user to a quiet session, worked off by the event loop of the lead: the methods of
  the session and of the loop composed, run one after the other.
\<close>

section \<open>The message is queued\<close>

fun run_event :: "session_event \<Rightarrow> run_event_name option" where
  "run_event (RunOut (RunEvent name payload)) = Some name"
| "run_event _ = None"

definition run_history :: "team_session \<Rightarrow> run_event_name list" where
  "run_history S = List.map_filter run_event (ses_events S)"

lemma co_run_query [simp]: "co_run (query f) s = (f s, s)"
  by (simp add: query_def)

lemma co_run_if: "co_run (if b then c else d) s = (if b then co_run c s else co_run d s)"
  by simp

text \<open>The state but for the bubbles, what else is sent, and the number of identifiers drawn.\<close>

definition view ::
    "team_session \<Rightarrow> run_manager \<times> scheduler \<times> string set \<times> string set \<times> timestamp_ms \<times>
      run_event_name list" where
  "view S = (ses_runs S, (ses_sched S)\<lparr>sch_drawn := 0\<rparr>, ses_loops S, ses_notified S, ses_now S,
     run_history S)"

definition alike :: "team_session \<Rightarrow> team_session \<Rightarrow> bool" where
  "alike S T \<longleftrightarrow> view T = view S \<and> ses_drawn S \<le> ses_drawn T"

lemma alike_refl [simp]: "alike S S"
  by (simp add: alike_def)

lemma alike_trans: "alike R S \<Longrightarrow> alike S T \<Longrightarrow> alike R T"
  by (simp add: alike_def)

lemma alike_draw [simp]: "alike S (draw n S)"
  by (simp add: alike_def view_def draw_def run_history_def ses_drawn_def)

lemma alike_project: "alike S (snd (co_run (project_quietly E q) S))"
proof -
  have mint: "alike S (snd (mint_section E q S))" for S
    by (simp add: mint_section_def split: option.split)
  have ins: "alike S (snd (insert_section E q key S))" for key S
    by (simp add: insert_section_def alike_def view_def run_history_def ses_drawn_def
        List.map_filter_def split: projection_source.split)
  show ?thesis
    unfolding project_quietly_def project_def
    using mint [of S] ins [of "snd (mint_section E q S)" "fst (mint_section E q S)"]
    by (auto simp: co_run_bind co_run_if case_prod_beta intro: alike_trans)
qed

lemma alikeD:
  assumes "alike S T"
  shows "ses_runs T = ses_runs S" "ses_loops T = ses_loops S" "ses_notified T = ses_notified S"
    "ses_now T = ses_now S" "run_history T = run_history S" "sch_slots (ses_sched T) = sch_slots (ses_sched S)"
    "sch_db (ses_sched T) = sch_db (ses_sched S)" "sch_team_id (ses_sched T) = sch_team_id (ses_sched S)"
  using assms by (auto simp: alike_def view_def dest: arg_cong [where f = sch_slots]
      arg_cong [where f = sch_db] arg_cong [where f = sch_team_id])

lemma run_history_snoc:
  "run_history (S\<lparr>ses_runs := m, ses_events := ses_events S @ evs\<rparr>) = run_history S @ List.map_filter run_event evs"
  by (simp add: run_history_def List.map_filter_def)

lemma run_history_draw [simp]: "run_history (draw n S) = run_history S"
  by (simp add: run_history_def draw_def)

text \<open>The run of one user message that waits for the lead.\<close>

definition waiting_run :: "string \<Rightarrow> string \<Rightarrow> string \<Rightarrow> string \<Rightarrow> team_run" where
  "waiting_run run_id team_id lead message_id =
    (new_team_run_record run_id team_id lead Lead SrcUserMessage True)
      \<lparr>run_pending_wakes := [(lead, [\<lparr>pw_slot_id = lead, pw_role = Lead, pw_source = UserMessage,
         pw_message_id = Some message_id\<rparr>])]\<rparr>"

lemma quiet_acquire:
  "mgr_state m = None \<Longrightarrow> acquire_user_message_wake now f l lead Lead m =
    (Inr (ack_of (new_team_run_record f (mgr_team_id m) lead Lead SrcUserMessage True) lead Lead None,
          \<lparr>ol_lease_id = l, ol_team_run_id = f, ol_slot_id = lead, ol_role = Lead,
           ol_wake_source = UserMessage, ol_accepted_as_new_run = True\<rparr>),
     put_run ((new_team_run_record f (mgr_team_id m) lead Lead SrcUserMessage True)
        \<lparr>run_active_operation_leases := [(l, \<lparr>ol_lease_id = l, ol_team_run_id = f, ol_slot_id = lead,
           ol_role = Lead, ol_wake_source = UserMessage, ol_accepted_as_new_run = True\<rparr>)]\<rparr>) m,
     snd (snd (acquire_user_message_wake now f l lead Lead m)))"
  by (simp add: acquire_user_message_wake_def active_run_def cancelling_run_def
      new_operation_lease_def Let_def new_team_run_record_def ack_of_def)

lemma quiet_commit:
  "commit_operation_lease now l (Some i) (put_run ((new_team_run_record f t lead Lead SrcUserMessage True)
      \<lparr>run_active_operation_leases := [(l, \<lparr>ol_lease_id = l, ol_team_run_id = f, ol_slot_id = lead,
         ol_role = Lead, ol_wake_source = UserMessage, ol_accepted_as_new_run = True\<rparr>)]\<rparr>) m) =
    (Inr (), put_run (waiting_run f t lead i) m, [RunEvent EvUpdated (payload_of now (waiting_run f t lead i))])"
  by (simp add: commit_operation_lease_def active_run_def put_run_def is_active_def Let_def
      new_team_run_record_def push_pending_wake_def enqueue_wake_def waiting_run_def is_foreground_wake_def)

text \<open>
  What the session and the event loop need of the world: fresh identifiers, a mailbox that can be
  written and a codec that round trips.
\<close>

definition works :: "('v, 'e) session_env_scheme \<Rightarrow> team_session \<Rightarrow> bool" where
  "works E S \<longleftrightarrow> json_ok (env_json E) \<and> (\<forall>n. se_write_error E n = None) \<and>
    (\<forall>n \<ge> ses_drawn S.
      env_generate_id E n \<notin> set (map mr_id (db_mailbox (sch_db (ses_sched S)))))"

text \<open>A section of the manager, and one of the mailbox, by the fields they change.\<close>

lemma run_section_fields:
  assumes "f (ses_now S) (env_generate_id E (ses_drawn S)) (env_generate_id E (Suc (ses_drawn S)))
    (ses_runs S) = (r, m, evs)"
  shows "\<exists>T. run_section E f S = (r, T) \<and> ses_runs T = m \<and> ses_drawn T = ses_drawn S + 2 \<and>
    sch_slots (ses_sched T) = sch_slots (ses_sched S) \<and> sch_db (ses_sched T) = sch_db (ses_sched S) \<and>
    ses_team_id T = ses_team_id S \<and> ses_loops T = ses_loops S \<and> ses_notified T = ses_notified S \<and>
    ses_now T = ses_now S \<and> run_history T = run_history S @ List.map_filter run_event (map RunOut evs)"
  using assms by (simp add: run_section_def run_history_snoc)

lemma write_section_fields:
  assumes "works E S"
  shows "\<exists>T row. write_section E to_slot from_slot ty content summary files S =
      (Inr (row_message (env_generate_id E (ses_drawn S)) (ses_now S) (ses_team_id S) to_slot from_slot
         ty content summary files), T) \<and>
    sch_db (ses_sched T) = (sch_db (ses_sched S))\<lparr>db_mailbox := db_mailbox (sch_db (ses_sched S)) @ [row]\<rparr> \<and>
    message_from_row (env_json E) row = Some (row_message (env_generate_id E (ses_drawn S)) (ses_now S)
      (ses_team_id S) to_slot from_slot ty content summary files) \<and>
    mr_id row = env_generate_id E (ses_drawn S) \<and> mr_team_id row = ses_team_id S \<and>
    mr_to_agent_id row = to_slot \<and> \<not> mr_read row \<and>
    ses_runs T = ses_runs S \<and> ses_drawn T = Suc (ses_drawn S) \<and>
    sch_slots (ses_sched T) = sch_slots (ses_sched S) \<and>
    ses_team_id T = ses_team_id S \<and> ses_loops T = ses_loops S \<and> ses_notified T = ses_notified S \<and>
    ses_now T = ses_now S \<and> run_history T = run_history S"
proof -
  have "env_generate_id E (ses_drawn S) \<notin> set (map mr_id (db_mailbox (sch_db (ses_sched S))))"
    "json_ok (env_json E)" "se_write_error E (ses_drawn S) = None"
    using assms by (simp_all add: works_def)
  with write_with_files_fresh [of "env_json E" "env_generate_id E (ses_drawn S)" "sch_db (ses_sched S)"
      "ses_now S" "ses_team_id S" to_slot from_slot ty content summary files]
  show ?thesis
    by (auto simp: write_section_def draw_def ses_team_id_def ses_drawn_def run_history_def)
qed

lemma send_message_quiet:
  assumes "mgr_state (ses_runs S) = None" and "works E S"
    and "find_lead_slot_id (ses_sched S) = Some lead"
    and "hm_get (sch_slots (ses_sched S)) lead = Some slot"
  shows "\<exists>ack T row. co_run (send_message E content files) S = (Inr ack, T) \<and>
    ack_message_id ack = Some (mr_id row) \<and>
    ses_runs T = put_run (waiting_run (env_generate_id E (ses_drawn S)) (mgr_team_id (ses_runs S)) lead
      (mr_id row)) (ses_runs S) \<and>
    sch_db (ses_sched T) = (sch_db (ses_sched S))\<lparr>db_mailbox := db_mailbox (sch_db (ses_sched S)) @ [row]\<rparr> \<and>
    message_from_row (env_json E) row = Some (row_message (mr_id row) (ses_now S)
      (ses_team_id S) lead ''user'' MtMessage content None files) \<and>
    mr_team_id row = ses_team_id S \<and>
    mr_to_agent_id row = lead \<and> \<not> mr_read row \<and>
    sch_slots (ses_sched T) = sch_slots (ses_sched S) \<and>
    ses_team_id T = ses_team_id S \<and> ses_loops T = ses_loops S \<and>
    (lead \<in> ses_loops S \<longrightarrow> lead \<in> ses_notified T) \<and>
    ses_now T = ses_now S \<and> run_history T = run_history S @ [EvAccepted, EvUpdated]"
proof -
  let ?f = "env_generate_id E (ses_drawn S)" and ?l = "env_generate_id E (Suc (ses_drawn S))"
  let ?i = "env_generate_id E (ses_drawn S + 2)" and ?team = "mgr_team_id (ses_runs S)"
  let ?lease = "\<lparr>ol_lease_id = ?l, ol_team_run_id = ?f, ol_slot_id = lead, ol_role = Lead,
    ol_wake_source = UserMessage, ol_accepted_as_new_run = True\<rparr>"
  let ?agent = "as_agent slot" and ?ack = "ack_of (new_team_run_record ?f ?team lead Lead SrcUserMessage True) lead Lead None"
  have get: "sched_section (\<lambda>_. get_agent lead) S = (Inr ?agent, S)"
    using assms(4) by (simp add: sched_section_def get_agent_def sched_return_def)
  obtain evs where evs: "acquire_user_message_wake (ses_now S) ?f ?l lead Lead (ses_runs S) =
      (Inr (?ack, ?lease), put_run ((new_team_run_record ?f ?team lead Lead SrcUserMessage True)
        \<lparr>run_active_operation_leases := [(?l, ?lease)]\<rparr>) (ses_runs S), evs)"
    "List.map_filter run_event (map RunOut evs) = [EvAccepted]"
    using assms(1) quiet_acquire [OF assms(1), of "ses_now S" ?f ?l lead]
    by (auto simp: acquire_user_message_wake_def active_run_def cancelling_run_def Let_def
        new_operation_lease_def List.map_filter_def)
  obtain S1 where S1: "run_section E (\<lambda>now a b. acquire_user_message_wake now a b lead Lead) S = (Inr (?ack, ?lease), S1)"
    "ses_runs S1 = put_run ((new_team_run_record ?f ?team lead Lead SrcUserMessage True)
        \<lparr>run_active_operation_leases := [(?l, ?lease)]\<rparr>) (ses_runs S)" "ses_drawn S1 = ses_drawn S + 2"
    "sch_slots (ses_sched S1) = sch_slots (ses_sched S)" "sch_db (ses_sched S1) = sch_db (ses_sched S)"
    "ses_team_id S1 = ses_team_id S" "ses_loops S1 = ses_loops S" "ses_notified S1 = ses_notified S"
    "ses_now S1 = ses_now S" "run_history S1 = run_history S @ [EvAccepted]"
    using run_section_fields [of "\<lambda>now a b. acquire_user_message_wake now a b lead Lead", OF evs(1)] evs(2)
    by auto
  have "works E S1"
    using assms(2) S1(3,5) by (auto simp: works_def)
  from write_section_fields [OF this, of lead "''user''" MtMessage content None files]
  obtain S2 row where S2: "write_section E lead ''user'' MtMessage content None files S1 =
      (Inr (row_message ?i (ses_now S) (ses_team_id S) lead ''user'' MtMessage content None files), S2)"
    "sch_db (ses_sched S2) = (sch_db (ses_sched S))\<lparr>db_mailbox := db_mailbox (sch_db (ses_sched S)) @ [row]\<rparr>"
    and row: "message_from_row (env_json E) row = Some (row_message ?i (ses_now S)
      (ses_team_id S) lead ''user'' MtMessage content None files)" "mr_id row = ?i"
    "mr_team_id row = ses_team_id S" "mr_to_agent_id row = lead" "\<not> mr_read row"
    and S2': "ses_runs S2 = ses_runs S1" "sch_slots (ses_sched S2) = sch_slots (ses_sched S)"
    "ses_team_id S2 = ses_team_id S" "ses_loops S2 = ses_loops S" "ses_notified S2 = ses_notified S"
    "ses_now S2 = ses_now S" "run_history S2 = run_history S @ [EvAccepted]"
    unfolding S1(3-10) by blast
  let ?q = "user_visible (ses_team_id S) lead (ta_conversation_id ?agent) content
    (case files of None \<Rightarrow> [] | Some fs \<Rightarrow> fs)"
  obtain S3 where S3: "co_run (project_quietly E ?q) S2 = ((), S3)" "alike S2 S3"
    using alike_project [of S2 E ?q] by (cases "co_run (project_quietly E ?q) S2") simp
  note S3' = alikeD [OF S3(2), unfolded S2' S2(2)]
  let ?m = "put_run (waiting_run ?f ?team lead ?i) (ses_runs S)"
  obtain S4 where S4: "run_section E (\<lambda>now _ _. commit_operation_lease now ?l (Some ?i)) S3 = (Inr (), S4)"
    "ses_runs S4 = ?m" "sch_slots (ses_sched S4) = sch_slots (ses_sched S)"
    "sch_db (ses_sched S4) = sch_db (ses_sched S2)"
    "ses_team_id S4 = ses_team_id S" "ses_loops S4 = ses_loops S" "ses_notified S4 = ses_notified S"
    "ses_now S4 = ses_now S" "run_history S4 = run_history S @ [EvAccepted, EvUpdated]"
    using run_section_fields [of "\<lambda>now _ _. commit_operation_lease now ?l (Some ?i)" S3 E "Inr ()" ?m
        "[RunEvent EvUpdated (payload_of (ses_now S) (waiting_run ?f ?team lead ?i))]"]
      S3' quiet_commit S1(2) S2(2) S2'(3)
    by (auto simp: ses_team_id_def List.map_filter_def)
  have "co_run (send_message E content files) S =
      (Inr (?ack\<lparr>ack_message_id := Some ?i\<rparr>), notify_loop lead S4)"
    unfolding send_message_def deliver_user_message_def
    using assms(3) get S1(1) S2(1) S3(1) S4(1) S2'(3)
    by (simp add: co_run_bind co_run_try scheds_def post_def notify_def row_message_def)
  moreover have "ses_runs (notify_loop lead S4) = ?m"
    "sch_slots (ses_sched (notify_loop lead S4)) = sch_slots (ses_sched S)"
    "sch_db (ses_sched (notify_loop lead S4)) = sch_db (ses_sched S2)"
    "ses_team_id (notify_loop lead S4) = ses_team_id S" "ses_loops (notify_loop lead S4) = ses_loops S"
    "lead \<in> ses_loops S \<longrightarrow> lead \<in> ses_notified (notify_loop lead S4)"
    "ses_now (notify_loop lead S4) = ses_now S"
    "run_history (notify_loop lead S4) = run_history S @ [EvAccepted, EvUpdated]"
    using S4 by (simp_all add: notify_loop_def ses_team_id_def run_history_def)
  ultimately show ?thesis
    using S2(2) row
    by (intro exI [of _ "?ack\<lparr>ack_message_id := Some ?i\<rparr>"] exI [of _ "notify_loop lead S4"]
        exI [of _ row]) simp
qed

section \<open>The event loop works it off\<close>

definition lead_slot :: "string \<Rightarrow> team_session \<Rightarrow> bool" where
  "lead_slot lead S \<longleftrightarrow>
    (\<exists>slot. hm_get (sch_slots (ses_sched S)) lead = Some slot \<and> ta_role (as_agent slot) = LeadRole)"

definition agent_status :: "string \<Rightarrow> team_session \<Rightarrow> teammate_status option" where
  "agent_status slot_id S = map_option as_status (hm_get (sch_slots (ses_sched S)) slot_id)"

text \<open>What a step has to say of the rest: the runs, the mailbox and the history.\<close>

definition work :: "team_session \<Rightarrow> run_manager \<times> team_db \<times> string \<times> run_event_name list" where
  "work S = (ses_runs S, sch_db (ses_sched S), ses_team_id S, run_history S)"

definition others_unread :: "('v, 'e) session_env_scheme \<Rightarrow> string \<Rightarrow> team_session \<Rightarrow> mailbox_message list" where
  "others_unread E slot S = filter (\<lambda>m. mm_from_agent_id m \<noteq> slot)
    (peek_unread (env_json E) (ses_team_id S) slot (sch_db (ses_sched S)))"

lemma alike_work: "alike S T \<Longrightarrow> work T = work S" "alike S T \<Longrightarrow> lead_slot lead T = lead_slot lead S"
  by (simp_all add: work_def lead_slot_def ses_team_id_def alikeD)

lemma others_work: "work T = work S \<Longrightarrow> others_unread E slot T = others_unread E slot S"
  by (simp add: others_unread_def work_def)

lemma get_lead:
  "lead_slot lead S \<Longrightarrow> \<exists>agent. sched_section (\<lambda>_. get_agent lead) S = (Inr agent, S) \<and> ta_role agent = LeadRole"
  by (auto simp: lead_slot_def sched_section_def get_agent_def sched_return_def)

lemma prompt_section:
  fixes S :: team_session
  assumes "lead_slot lead S"
  shows "\<exists>needs T. (case take_needs_role_prompt lead (ses_sched S) of
      (needs, s) \<Rightarrow> (needs, S\<lparr>ses_sched := s\<rparr>)) = (needs, T) \<and> work T = work S \<and> lead_slot lead T \<and>
    agent_status lead T = agent_status lead S"
  using assms by (auto simp: take_needs_role_prompt_def lead_slot_def work_def ses_team_id_def
      run_history_def hm_get_modify agent_status_def)

lemma compute_lead:
  assumes "lead_slot lead S"
    and "case peek_next_pending_wake lead (ses_runs S) of
      None \<Rightarrow> others_unread E lead S = []
    | Some w \<Rightarrow> pv_source w = UserMessage \<and> active_run_id (ses_runs S) \<noteq> None"
  shows "\<exists>input T. co_run (compute_wake_input E lead) S = (Inr (Some input), T) \<and>
    work T = work S \<and> lead_slot lead T \<and> agent_status lead T = agent_status lead S \<and>
    wi_team_run_id input = active_run_id (ses_runs S) \<and>
    wi_unread input = others_unread E lead S \<and> wi_should_send input = (others_unread E lead S \<noteq> []) \<and>
    wi_agent_role input = LeadRole \<and>
    wi_wake_source input = map_option pv_source (peek_next_pending_wake lead (ses_runs S))"
proof -
  obtain agent where agent: "sched_section (\<lambda>_. get_agent lead) S = (Inr agent, S)" "ta_role agent = LeadRole"
    using get_lead [OF assms(1)] by blast
  obtain needs T where T: "(case take_needs_role_prompt lead (ses_sched S) of
      (needs, s) \<Rightarrow> (needs, S\<lparr>ses_sched := s\<rparr>)) = (needs, T)" "work T = work S" "lead_slot lead T"
    "agent_status lead T = agent_status lead S"
    using prompt_section [OF assms(1)] by blast
  have sel: "select_unread lead (peek_next_pending_wake lead (ses_runs S))
      (peek_unread (env_json E) (ses_team_id S) lead (sch_db (ses_sched S))) = others_unread E lead S"
    using assms(2) by (auto simp: select_unread_def others_unread_def split: option.splits)
  show ?thesis
    unfolding compute_wake_input_def
    using agent T sel assms(2)
    by (cases "peek_next_pending_wake lead (ses_runs S)")
      (simp_all add: co_run_bind co_run_try scheds_def Let_def co_run_if)
qed

text \<open>The run from the claim to the end, on the states the loop meets.\<close>

definition claimed_run :: "string \<Rightarrow> string \<Rightarrow> string \<Rightarrow> string \<Rightarrow> starting_reservation \<Rightarrow> team_run" where
  "claimed_run f team lead k res =
    (new_team_run_record f team lead Lead SrcUserMessage True)\<lparr>run_starting_reservations := [(k, res)]\<rparr>"

definition running_run :: "string \<Rightarrow> string \<Rightarrow> string \<Rightarrow> timestamp_ms \<Rightarrow> active_child_turn \<Rightarrow> team_run" where
  "running_run f team lead now child =
    (new_team_run_record f team lead Lead SrcUserMessage True)
      \<lparr>run_started_at := Some now, run_status := RunRunning, run_active_child_turns := [(lead, child)]\<rparr>"

lemmas lead_run_defs = waiting_run_def claimed_run_def running_run_def new_team_run_record_def
  put_run_def clear_run_def active_run_def is_active_def Let_def

lemma waiting_view:
  "peek_next_pending_wake lead (put_run (waiting_run f team lead i) m) =
    Some \<lparr>pv_source = UserMessage, pv_message_id = Some i\<rparr>"
  "active_run_id (put_run (waiting_run f team lead i) m) = Some f"
  by (simp_all add: peek_next_pending_wake_def active_run_id_def lead_run_defs)

lemma lead_claim:
  "\<exists>res evs. claim_wake_for_turn now k lead Lead conv (put_run (waiting_run f team lead i) m) =
      (Some res, put_run (claimed_run f team lead k res) m, evs) \<and> sr_reservation_id res = k \<and>
    sr_state res = ResStarting \<and> List.map_filter run_event (map RunOut evs) = [EvUpdated]"
  by (simp add: claim_wake_for_turn_def pop_pending_def lead_run_defs List.map_filter_def)

lemma lead_start:
  assumes "ac_team_run_id child = f" and "ac_slot_id child = lead" and "sr_state res = ResStarting"
  shows "\<exists>evs. record_child_started now k child (put_run (claimed_run f team lead k res) m) =
      (StartAccepted, put_run (running_run f team lead now child) m, evs) \<and>
    List.map_filter run_event (map RunOut evs) = [EvStarted]"
  using assms by (simp add: record_child_started_def lead_run_defs List.map_filter_def)

lemma lead_complete:
  assumes "ac_turn_id child = turn"
  shows "\<exists>payload evs. record_child_completed now lead turn RunCompleted (put_run (running_run f team lead at child) m) =
      (payload, clear_run m, evs) \<and> List.map_filter run_event (map RunOut evs) = [EvCompleted]"
  using assms by (simp add: record_child_completed_def maybe_complete_locked_def settle_run_def
      no_work_left_def pending_wake_count_def has_retained_wake_gate_work_def has_retained_work_def active_operation_lease_count_def
      lead_run_defs List.map_filter_def)

lemma status_frame:
  assumes "lead_slot lead S"
  shows "\<exists>T. co_run (set_status_quietly lead st) S = ((), T) \<and> work T = work S \<and> lead_slot lead T"
  using assms
  by (auto simp: set_status_quietly_def co_run_bind scheds_def sched_section_def set_status_def hm_has_def
      lead_slot_def work_def ses_team_id_def run_history_def hm_get_modify List.map_filter_def
      split: option.split)

lemma mirror_frame: "alike S (snd (co_run (mirror_unread_to_conversation E input) S))"
proof -
  have "alike S (snd (co_run (co_for ms (\<lambda>msg. project_quietly E (q msg))) S))"
    for ms :: "mailbox_message list" and q S
    by (induction ms arbitrary: S)
      (auto simp: co_run_bind case_prod_beta intro: alike_trans alike_project)
  then show ?thesis
    by (simp add: mirror_unread_to_conversation_def co_run_bind co_run_if case_prod_beta)
qed

text \<open>A port that starts one turn and completes it.\<close>

definition answering :: "string \<Rightarrow> port \<Rightarrow> bool" where
  "answering turn port \<longleftrightarrow> (\<forall>q. port q =
    \<lparr>pt_started = [\<lparr>at_team_run_id = (case ar_team_run_id q of None \<Rightarrow> [] | Some r \<Rightarrow> r),
       at_slot_id = ar_slot_id q, at_role = ar_role q,
       at_conversation_id = ar_conversation_id q, at_turn_id = turn\<rparr>],
     pt_outcome = Inr \<lparr>ao_conversation_id = ar_conversation_id q, ao_turn_id = turn,
       ao_status = TurnCompleted\<rparr>\<rparr>)"

lemma mark_read_run:
  "co_run (mark_read ids) S =
    ((), S\<lparr>ses_sched := (ses_sched S)\<lparr>sch_db := mark_read_batch ids (sch_db (ses_sched S))\<rparr>\<rparr>)"
  by (simp add: mark_read_def mark_read_batch_def)

lemma execute_lead:
  assumes "lead_slot lead S" and "ses_runs S = put_run (waiting_run f team lead i) m"
    and "wi_team_run_id input = Some f" and "wi_agent_role input = LeadRole" and "answering turn port"
  shows "\<exists>T now child. co_run (execute_turn E lead port input) S =
      (Some \<lparr>te_finish_ok = True, te_team_run_id = Some f, te_turn_id = Some turn\<rparr>, T) \<and>
    lead_slot lead T \<and> ac_turn_id child = turn \<and>
    work T = (put_run (running_run f team lead now child) m,
      mark_read_batch (map mm_id (wi_unread input)) (sch_db (ses_sched S)), ses_team_id S,
      run_history S @ [EvUpdated, EvStarted])"
proof -
  let ?conv = "wi_conversation_id input"
  obtain res evs where claim: "claim_wake_for_turn (ses_now S) (env_generate_id E (ses_drawn S)) lead Lead
      ?conv (ses_runs S) = (Some res, put_run (claimed_run f team lead (env_generate_id E (ses_drawn S)) res) m, evs)"
    "sr_reservation_id res = env_generate_id E (ses_drawn S)" "sr_state res = ResStarting"
    "List.map_filter run_event (map RunOut evs) = [EvUpdated]"
    using lead_claim assms(2) by metis
  obtain S1 where S1: "run_section E (\<lambda>now fresh _. claim_wake_for_turn now fresh lead Lead ?conv) S = (Some res, S1)"
    "ses_runs S1 = put_run (claimed_run f team lead (sr_reservation_id res) res) m"
    "sch_slots (ses_sched S1) = sch_slots (ses_sched S)" "sch_db (ses_sched S1) = sch_db (ses_sched S)"
    "ses_team_id S1 = ses_team_id S" "run_history S1 = run_history S @ [EvUpdated]"
    using run_section_fields [of "\<lambda>now fresh _. claim_wake_for_turn now fresh lead Lead ?conv", OF claim(1)]
      claim(2,4) by auto
  then have S1': "lead_slot lead S1" "work S1 = (put_run (claimed_run f team lead (sr_reservation_id res) res) m,
      sch_db (ses_sched S), ses_team_id S, run_history S @ [EvUpdated])"
    using assms(1) by (simp_all add: lead_slot_def work_def)
  obtain S2 where S2: "co_run (mirror_unread_to_conversation E input) S1 = ((), S2)" "alike S1 S2"
    using mirror_frame [of S1 E input] by (cases "co_run (mirror_unread_to_conversation E input) S1") simp
  with S1' have S2': "lead_slot lead S2" "work S2 = work S1"
    by (simp_all add: alike_work)
  obtain S3 where S3: "co_run (set_status_quietly lead SWorking) S2 = ((), S3)" "work S3 = work S2" "lead_slot lead S3"
    using status_frame [OF S2'(1)] by blast
  note w3 = S3(2) [unfolded S2'(2) S1'(2)]
  let ?child = "\<lambda>now. \<lparr>ac_team_run_id = f, ac_slot_id = lead, ac_role = Lead, ac_conversation_id = ?conv,
    ac_turn_id = turn, ac_started_at_ms = now, ac_last_slow_notified_at_ms = None\<rparr>"
  have runs3: "ses_runs S3 = put_run (claimed_run f team lead (sr_reservation_id res) res) m"
    using w3 by (simp add: work_def)
  obtain evs3 where start: "record_child_started (ses_now S3) (sr_reservation_id res) (?child (ses_now S3)) (ses_runs S3) =
      (StartAccepted, put_run (running_run f team lead (ses_now S3) (?child (ses_now S3))) m, evs3)"
    "List.map_filter run_event (map RunOut evs3) = [EvStarted]"
    using lead_start [of "?child (ses_now S3)" f lead res "ses_now S3" "sr_reservation_id res" team m] claim(3)
    unfolding runs3 by auto
  obtain S4 where S4: "run_section E (\<lambda>now _ _. record_child_started now (sr_reservation_id res) (?child now)) S3 =
      (StartAccepted, S4)" "ses_runs S4 = put_run (running_run f team lead (ses_now S3) (?child (ses_now S3))) m"
    "sch_slots (ses_sched S4) = sch_slots (ses_sched S3)" "sch_db (ses_sched S4) = sch_db (ses_sched S3)"
    "ses_team_id S4 = ses_team_id S3" "run_history S4 = run_history S3 @ [EvStarted]"
    using run_section_fields [where E = E and f = "\<lambda>now _ _. record_child_started now (sr_reservation_id res) (?child now)",
        OF start(1)] start(2) by auto
  let ?T = "snd (co_run (mark_read (map mm_id (wi_unread input))) S4)"
  have "lead_slot lead ?T" "work ?T = (put_run (running_run f team lead (ses_now S3) (?child (ses_now S3))) m,
      mark_read_batch (map mm_id (wi_unread input)) (sch_db (ses_sched S)), ses_team_id S,
      run_history S @ [EvUpdated, EvStarted])"
    using S4 S3(3) w3 by (simp_all add: mark_read_run lead_slot_def work_def ses_team_id_def run_history_def)
  moreover have "co_run (execute_turn E lead port input) S =
      (Some \<lparr>te_finish_ok = True, te_team_run_id = Some f, te_turn_id = Some turn\<rparr>, ?T)"
    unfolding execute_turn_def on_started_def after_port_def
    using assms(3-5) S1(1) S2(1) S3(1) S4(1)
    by (simp add: co_run_bind Let_def answering_def target_role_for_def mark_read_run)
  ultimately show ?thesis
    by (intro exI [of _ ?T] exI [of _ "ses_now S3"] exI [of _ "?child (ses_now S3)"]) simp
qed

lemma finalize_frame:
  assumes "lead_slot lead S"
  shows "\<exists>T. sched_section (\<lambda>now. finalize_turn F now lead []) S = (Inr None, T) \<and> work T = work S \<and>
    agent_status lead T = Some SIdle \<and> lead_slot lead T"
  using assms
  by (auto simp: sched_section_def finalize_turn_def mark_idle_def sched_bind_def sched_return_def
      set_status_def get_agent_def hm_has_def lead_slot_def work_def ses_team_id_def run_history_def
      hm_get_modify List.map_filter_def agent_status_def split: option.split)

lemma release_none: "mgr_state m = None \<Longrightarrow> release_suppressed_wake_if_resumed now s ro m = (None, m, [])"
  "mgr_state m = None \<Longrightarrow> maybe_complete now m = (None, m, [])"
  "mgr_state m = None \<Longrightarrow> record_empty_wake_observed now s m = (None, m, [])"
  by (simp_all add: release_suppressed_wake_if_resumed_def maybe_complete_def active_run_def
      record_empty_wake_observed_def)

lemma no_run_section:
  assumes "\<And>now a b. f now a b (ses_runs S) = (None, ses_runs S, [])"
  shows "\<exists>T. run_section E f S = (None, T) \<and> work T = work S \<and> sch_slots (ses_sched T) = sch_slots (ses_sched S)"
  using run_section_fields [where E = E and f = f, OF assms [of "ses_now S"]]
  by (auto simp: work_def)

lemma finalize_lead:
  assumes "lead_slot lead S" and "ses_runs S = put_run (running_run f team lead at child) m"
    and "ac_turn_id child = turn" and "mgr_state m = None"
  shows "\<exists>T. co_run (loop_finalize_turn E lead
        \<lparr>te_finish_ok = True, te_team_run_id = Some f, te_turn_id = Some turn\<rparr> input) S = ((), T) \<and>
    lead_slot lead T \<and> agent_status lead T = Some SIdle \<and>
    work T = (m, sch_db (ses_sched S), ses_team_id S, run_history S @ [EvCompleted])"
proof -
  obtain S1 where S1: "sched_section (\<lambda>now. finalize_turn (base_env E) now lead []) S = (Inr None, S1)"
    "work S1 = work S" "agent_status lead S1 = Some SIdle"
    "lead_slot lead S1"
    using finalize_frame [OF assms(1)] by blast
  have m: "clear_run m = m"
    using assms(4) by (simp add: clear_run_def)
  obtain payload evs where fin: "record_child_completed (ses_now S1) lead turn RunCompleted (ses_runs S1) = (payload, m, evs)"
    "List.map_filter run_event (map RunOut evs) = [EvCompleted]"
    using lead_complete [OF assms(3)] S1(2) assms(2) m by (metis prod.inject work_def)
  obtain S2 where S2: "run_section E (\<lambda>now _ _. record_child_completed now lead turn RunCompleted) S1 = (payload, S2)"
    "ses_runs S2 = m" "sch_slots (ses_sched S2) = sch_slots (ses_sched S1)"
    "sch_db (ses_sched S2) = sch_db (ses_sched S1)" "ses_team_id S2 = ses_team_id S1"
    "run_history S2 = run_history S1 @ [EvCompleted]"
    using run_section_fields [where E = E and f = "\<lambda>now _ _. record_child_completed now lead turn RunCompleted",
        OF fin(1)] fin(2) by auto
  obtain S3 where S3: "run_section E (\<lambda>now _ _. maybe_complete now) S2 = (None, S3)" "work S3 = work S2"
    "sch_slots (ses_sched S3) = sch_slots (ses_sched S2)"
    using no_run_section [where E = E and S = S2 and f = "\<lambda>now _ _. maybe_complete now"] release_none(2) assms(4) S2(2)
    by auto
  have runs3: "ses_runs S3 = m"
    using S3(2) S2(2) by (simp add: work_def)
  obtain S4 where S4: "run_section E (\<lambda>now _ _. release_suppressed_wake_if_resumed now lead
      (target_role_for (wi_agent_role input))) S3 = (None, S4)" "work S4 = work S3"
    "sch_slots (ses_sched S4) = sch_slots (ses_sched S3)"
    using no_run_section [where E = E and S = S3 and f = "\<lambda>now _ _. release_suppressed_wake_if_resumed now lead
      (target_role_for (wi_agent_role input))"] release_none(1) assms(4) runs3 by auto
  have "work S3 = (m, sch_db (ses_sched S), ses_team_id S, run_history S @ [EvCompleted])"
    using S3(2) S2 S1(2) by (simp add: work_def)
  moreover have "co_run (loop_finalize_turn E lead
        \<lparr>te_finish_ok = True, te_team_run_id = Some f, te_turn_id = Some turn\<rparr> input) S =
      ((), if (case wi_wake_source input of None \<Rightarrow> False | Some source \<Rightarrow> resumes_paused_slot source)
           then S4 else S3)"
    unfolding loop_finalize_turn_def
    using S1(1) S2(1) S3(1) S4(1) by (simp add: co_run_bind scheds_def co_run_if)
  ultimately show ?thesis
    using S1(3,4) S2(3) S3(3) S4(2,3) by (simp add: lead_slot_def agent_status_def)
qed

lemma marked_others:
  assumes "sch_db (ses_sched T) = mark_read_batch (map mm_id (others_unread E slot S)) (sch_db (ses_sched S))"
    and "ses_team_id T = ses_team_id S"
  shows "others_unread E slot T = []"
proof -
  let ?ids = "map mm_id (others_unread E slot S)"
  have "m \<notin> set (peek_unread (env_json E) (ses_team_id S) slot (sch_db (ses_sched T)))"
    if "mm_from_agent_id m \<noteq> slot" for m
  proof
    assume "m \<in> set (peek_unread (env_json E) (ses_team_id S) slot (sch_db (ses_sched T)))"
    then obtain row where row: "row \<in> set (db_mailbox (sch_db (ses_sched S)))" "unread_for (ses_team_id S) slot row"
        "mr_id row \<notin> set ?ids" "message_from_row (env_json E) row = Some m"
      unfolding assms(1)
      by (auto simp: peek_unread_def peek_unread_rows_def mark_read_batch_rows filter_mark_chunk
          List.map_filter_def)
    then have "m \<in> set (others_unread E slot S)"
      using that by (auto simp: others_unread_def peek_unread_def peek_unread_rows_def List.map_filter_def
          intro!: image_eqI [where x = row])
    with row(3) message_from_row_id [OF row(4)] show False
      by (metis image_eqI set_map)
  qed
  then show ?thesis
    using assms(2) by (auto simp: others_unread_def filter_empty_conv)
qed

lemma mark_includes:
  assumes "row \<in> set (db_mailbox db)" and "mr_id row \<in> set ids"
  shows "row\<lparr>mr_read := True\<rparr> \<in> set (db_mailbox (mark_read_batch ids db))"
  using assms by (force simp: mark_read_batch_rows mark_chunk_def)

lemma row_in_others:
  assumes "row \<in> set (db_mailbox (sch_db (ses_sched S)))" and "message_from_row (env_json E) row = Some m"
    and "unread_for (ses_team_id S) slot row" and "mm_from_agent_id m \<noteq> slot"
  shows "m \<in> set (others_unread E slot S)"
  using assms by (auto simp: others_unread_def peek_unread_def peek_unread_rows_def List.map_filter_def
      intro!: image_eqI [where x = row])

text \<open>One pass that answers, one that finds nothing left.\<close>

lemma round_lead:
  assumes "lead_slot lead S" and "lead \<in> ses_notified S"
    and "ses_runs S = put_run (waiting_run f team lead i) m" and "mgr_state m = None"
    and "others_unread E lead S \<noteq> []" and "answering turn port"
  shows "\<exists>T. co_run (event_loop_round E lead (port # port' # ports)) S = (True, T) \<and>
    lead_slot lead T \<and> agent_status lead T = Some SIdle \<and>
    work T = (m, mark_read_batch (map mm_id (others_unread E lead S)) (sch_db (ses_sched S)), ses_team_id S,
      run_history S @ [EvUpdated, EvStarted, EvCompleted])"
proof -
  let ?S = "S\<lparr>ses_notified := ses_notified S - {lead}\<rparr>"
  have S: "work ?S = work S" "lead_slot lead ?S" "ses_runs ?S = ses_runs S"
    "others_unread E lead ?S = others_unread E lead S"
    using assms(1) by (simp_all add: work_def ses_team_id_def run_history_def lead_slot_def others_unread_def)
  obtain input S1 where S1: "co_run (compute_wake_input E lead) ?S = (Inr (Some input), S1)" "work S1 = work S"
    "lead_slot lead S1" "wi_team_run_id input = Some f" "wi_unread input = others_unread E lead S"
    "wi_should_send input" "wi_agent_role input = LeadRole"
    using compute_lead [OF S(2), of E] assms(3,5) S by (auto simp: waiting_view)
  have runs1: "ses_runs S1 = put_run (waiting_run f team lead i) m" "sch_db (ses_sched S1) = sch_db (ses_sched S)"
    "ses_team_id S1 = ses_team_id S" "run_history S1 = run_history S"
    using S1(2) assms(3) by (simp_all add: work_def)
  let ?turn = "\<lparr>te_finish_ok = True, te_team_run_id = Some f, te_turn_id = Some turn\<rparr>"
  obtain S2 now child where S2: "co_run (execute_turn E lead port input) S1 = (Some ?turn, S2)"
    "lead_slot lead S2" "ac_turn_id child = turn"
    "work S2 = (put_run (running_run f team lead now child) m,
      mark_read_batch (map mm_id (others_unread E lead S)) (sch_db (ses_sched S)), ses_team_id S,
      run_history S @ [EvUpdated, EvStarted])"
    using execute_lead [OF S1(3) runs1(1) S1(4,7) assms(6), of E] unfolding S1(5) runs1 by blast
  have "ses_runs S2 = put_run (running_run f team lead now child) m"
    using S2(4) by (simp add: work_def)
  from finalize_lead [OF S2(2) this S2(3) assms(4), of E input]
  obtain S3 where S3: "co_run (loop_finalize_turn E lead ?turn input) S2 = ((), S3)" "lead_slot lead S3"
    "agent_status lead S3 = Some SIdle"
    "work S3 = (m, mark_read_batch (map mm_id (others_unread E lead S)) (sch_db (ses_sched S)), ses_team_id S,
      run_history S @ [EvUpdated, EvStarted, EvCompleted])"
    using S2(4) by (auto simp: work_def)
  have none: "others_unread E lead S3 = []"
    using S3(4) by (intro marked_others [of S3 E lead S]) (simp_all add: work_def)
  have runs3: "ses_runs S3 = m"
    using S3(4) by (simp add: work_def)
  have "peek_next_pending_wake lead (ses_runs S3) = None"
    using assms(4) runs3 by (simp add: peek_next_pending_wake_def active_run_def)
  with compute_lead [OF S3(2), of E] none obtain input' S4 where
    S4: "co_run (compute_wake_input E lead) S3 = (Inr (Some input'), S4)" "work S4 = work S3"
      "lead_slot lead S4" "agent_status lead S4 = Some SIdle" "\<not> wi_should_send input'"
    using S3(3) by auto
  have "ses_runs S4 = m"
    using S4(2) runs3 by (simp add: work_def)
  then obtain T where T: "run_section E (\<lambda>now _ _. record_empty_wake_observed now lead) S4 = (None, T)"
    "work T = work S4" "sch_slots (ses_sched T) = sch_slots (ses_sched S4)"
    using no_run_section [where E = E and S = S4 and f = "\<lambda>now _ _. record_empty_wake_observed now lead"]
      release_none(3) assms(4) by auto
  have "co_run (event_loop_round E lead (port # port' # ports)) S = (True, T)"
    unfolding event_loop_round_def drain_loop.simps drain_pass_def
    using assms(2) S1(1,6) S2(1) S3(1) S4(1,5) T(1) by (simp add: co_run_bind)
  then show ?thesis
    using T(2,3) S4(2-4) S3(4) by (simp add: lead_slot_def agent_status_def)
qed

text \<open>
  C2. A message of the user to a session without a run, and then the event loop of the lead with a port
  that completes its turn: the call is acknowledged with the identifier of the message, the message
  is in the mailbox and read, with its content and its files, nothing of another sender is unread
  for the lead, the lead is idle again, the manager is back where it was, and the events of the run
  are those of one run that is accepted, started and completed.
\<close>

theorem user_message_is_worked_off:
  assumes "mgr_state (ses_runs S) = None" and "works E S"
    and "find_lead_slot_id (ses_sched S) = Some lead" and "lead_slot lead S"
    and "lead \<in> ses_loops S" and "lead \<noteq> ''user''" and "answering turn port"
  shows "case co_run (co_bind (send_message E content files) (\<lambda>sent.
      co_bind (event_loop_round E lead [port, port]) (\<lambda>stopped. Done (sent, stopped)))) S of
    ((sent, stopped), T) \<Rightarrow>
      stopped \<and> ses_runs T = ses_runs S \<and> agent_status lead T = Some SIdle \<and>
      others_unread E lead T = [] \<and>
      run_history T = run_history S @ [EvAccepted, EvUpdated, EvUpdated, EvStarted, EvCompleted] \<and>
      (\<exists>ack row. sent = Inr ack \<and> row \<in> set (db_mailbox (sch_db (ses_sched T))) \<and>
        ack_message_id ack = Some (mr_id row) \<and> mr_to_agent_id row = lead \<and> mr_read row \<and>
        map_option mm_content (message_from_row (env_json E) row) = Some content)"
proof -
  obtain slot where slot: "hm_get (sch_slots (ses_sched S)) lead = Some slot"
    using assms(4) by (auto simp: lead_slot_def)
  obtain ack A row where A: "co_run (send_message E content files) S = (Inr ack, A)"
    "ack_message_id ack = Some (mr_id row)"
    "ses_runs A = put_run (waiting_run (env_generate_id E (ses_drawn S)) (mgr_team_id (ses_runs S)) lead
      (mr_id row)) (ses_runs S)"
    "sch_db (ses_sched A) = (sch_db (ses_sched S))\<lparr>db_mailbox := db_mailbox (sch_db (ses_sched S)) @ [row]\<rparr>"
    "ses_team_id A = ses_team_id S" "sch_slots (ses_sched A) = sch_slots (ses_sched S)"
    "lead \<in> ses_loops S \<longrightarrow> lead \<in> ses_notified A" "run_history A = run_history S @ [EvAccepted, EvUpdated]"
    and row: "message_from_row (env_json E) row = Some (row_message (mr_id row) (ses_now S)
      (ses_team_id S) lead ''user'' MtMessage content None files)" "mr_team_id row = ses_team_id S"
      "mr_to_agent_id row = lead" "\<not> mr_read row"
    using send_message_quiet [OF assms(1,2,3) slot, of content files] by blast
  have A': "row \<in> set (db_mailbox (sch_db (ses_sched A)))" "lead_slot lead A" "lead \<in> ses_notified A"
    using A(4,6,7) assms(4,5) by (simp_all add: lead_slot_def)
  let ?m = "row_message (mr_id row) (ses_now S) (ses_team_id S) lead ''user'' MtMessage content None files"
  have mem: "?m \<in> set (others_unread E lead A)"
    using A'(1) A(5) row assms(6) by (intro row_in_others [of row]) (simp_all add: unread_for_def row_message_def)
  then have "others_unread E lead A \<noteq> []"
    by auto
  from round_lead [OF A'(2,3) A(3) assms(1) this assms(7), of port "[]"]
  obtain T where T: "co_run (event_loop_round E lead [port, port]) A = (True, T)"
    "agent_status lead T = Some SIdle"
    "work T = (ses_runs S, mark_read_batch (map mm_id (others_unread E lead A)) (sch_db (ses_sched A)), ses_team_id A,
      run_history A @ [EvUpdated, EvStarted, EvCompleted])"
    by blast
  have "mr_id row \<in> set (map mm_id (others_unread E lead A))"
    using mem by (force simp: row_message_def)
  from mark_includes [OF A'(1) this]
  have "row\<lparr>mr_read := True\<rparr> \<in> set (db_mailbox (sch_db (ses_sched T)))"
    using T(3) by (simp add: work_def)
  moreover have "map_option mm_content (message_from_row (env_json E) (row\<lparr>mr_read := True\<rparr>)) = Some content"
    using row(1) by (auto simp: message_from_row_def row_message_def Let_def split: option.splits)
  moreover have "others_unread E lead T = []"
    using T(3) by (intro marked_others [of T E lead A]) (simp_all add: work_def)
  ultimately show ?thesis
    using A(1,2,8) T row(3) by (simp add: co_run_bind work_def) (intro exI [of _ "row\<lparr>mr_read := True\<rparr>"], simp)
qed

definition demo_port :: port where
  "demo_port q =
    \<lparr>pt_started = [\<lparr>at_team_run_id = (case ar_team_run_id q of None \<Rightarrow> [] | Some r \<Rightarrow> r),
       at_slot_id = ar_slot_id q, at_role = ar_role q,
       at_conversation_id = ar_conversation_id q, at_turn_id = ''turn''\<rparr>],
     pt_outcome = Inr \<lparr>ao_conversation_id = ar_conversation_id q, ao_turn_id = ''turn'',
       ao_status = TurnCompleted\<rparr>\<rparr>"

lemma demo_session_lead:
  "find_lead_slot_id (ses_sched demo_session) = Some ''lead''" "lead_slot ''lead'' demo_session"
  by (simp_all add: demo_session_def demo_scheduler_def new_scheduler_def find_lead_slot_id_def
      lead_slot_def demo_agent_def new_slot_def)

theorem user_message_is_worked_off_witness:
  "case co_run (co_bind (send_message demo_session_env ''hi'' (Some [''notes.txt''])) (\<lambda>sent.
      co_bind (event_loop_round demo_session_env ''lead'' [demo_port, demo_port])
        (\<lambda>stopped. Done (sent, stopped)))) demo_session of
    ((sent, stopped), T) \<Rightarrow>
      stopped \<and> mgr_state (ses_runs T) = None \<and> agent_status ''lead'' T = Some SIdle \<and>
      run_history T = [EvAccepted, EvUpdated, EvUpdated, EvStarted, EvCompleted]"
proof -
  have "mgr_state (ses_runs demo_session) = None" "works demo_session_env demo_session"
    "''lead'' \<in> ses_loops demo_session" "answering ''turn'' demo_port" "run_history demo_session = []"
    by (simp_all add: demo_session_def new_run_manager_def works_def demo_session_env_def demo_env_def
        pairs_codec_ok demo_scheduler_def new_scheduler_def empty_db_def new_db_def answering_def demo_port_def
        run_history_def List.map_filter_def)
  with user_message_is_worked_off [of demo_session demo_session_env "''lead''" "''turn''" demo_port
      "''hi''" "Some [''notes.txt'']"] demo_session_lead
  show ?thesis
    by (simp add: case_prod_beta)
qed

section \<open>The message cannot be written\<close>

text \<open>
  When the mailbox cannot be written the caller gets the error and the lease is given back, but the
  run that was opened for the message stays: it is active, it has no work left, no loop is notified
  and nothing completes it.
\<close>

theorem failed_write_leaves_empty_run:
  assumes "mgr_state (ses_runs S) = None"
    and "find_lead_slot_id (ses_sched S) = Some lead" and "lead_slot lead S"
    and "se_write_error E (ses_drawn S + 2) = Some why"
  shows "case co_run (send_message E content files) S of (sent, T) \<Rightarrow>
    sent = Inl (DatabaseError why) \<and> sch_db (ses_sched T) = sch_db (ses_sched S) \<and>
    ses_notified T = ses_notified S \<and> run_history T = run_history S @ [EvAccepted, EvUpdated] \<and>
    (case mgr_state (ses_runs T) of None \<Rightarrow> False | Some r \<Rightarrow> is_active r \<and> no_work_left r)"
proof -
  let ?f = "env_generate_id E (ses_drawn S)" and ?l = "env_generate_id E (Suc (ses_drawn S))"
  let ?r = "new_team_run_record ?f (mgr_team_id (ses_runs S)) lead Lead SrcUserMessage True"
  let ?lease = "\<lparr>ol_lease_id = ?l, ol_team_run_id = ?f, ol_slot_id = lead, ol_role = Lead,
    ol_wake_source = UserMessage, ol_accepted_as_new_run = True\<rparr>"
  let ?m1 = "put_run (?r\<lparr>run_active_operation_leases := [(?l, ?lease)]\<rparr>) (ses_runs S)"
  obtain slot where slot: "hm_get (sch_slots (ses_sched S)) lead = Some slot"
    using assms(3) by (auto simp: lead_slot_def)
  then have get: "sched_section (\<lambda>_. get_agent lead) S = (Inr (as_agent slot), S)"
    by (simp add: sched_section_def get_agent_def sched_return_def)
  obtain ack evs where evs: "acquire_user_message_wake (ses_now S) ?f ?l lead Lead (ses_runs S) =
      (Inr (ack, ?lease), ?m1, evs)" "List.map_filter run_event (map RunOut evs) = [EvAccepted]"
    using assms(1) by (auto simp: acquire_user_message_wake_def active_run_def cancelling_run_def Let_def
        new_operation_lease_def List.map_filter_def new_team_run_record_def)
  obtain S1 where S1: "run_section E (\<lambda>now a b. acquire_user_message_wake now a b lead Lead) S = (Inr (ack, ?lease), S1)"
    "ses_runs S1 = ?m1" "ses_drawn S1 = ses_drawn S + 2" "sch_db (ses_sched S1) = sch_db (ses_sched S)"
    "ses_notified S1 = ses_notified S" "run_history S1 = run_history S @ [EvAccepted]"
    using run_section_fields [where E = E and f = "\<lambda>now a b. acquire_user_message_wake now a b lead Lead",
        OF evs(1)] evs(2) by auto
  have post: "write_section E lead ''user'' MtMessage content None files S1 = (Inl (DatabaseError why), draw 1 S1)"
    using assms(4) S1(3) by (simp add: write_section_def)
  have abort: "abort_operation_lease now ?l ?m1 =
      (Inr (), put_run ?r (ses_runs S), [RunEvent EvUpdated (payload_of now ?r)])" for now
    by (simp add: abort_operation_lease_def lead_run_defs)
  obtain T where T: "run_section E (\<lambda>now _ _. abort_operation_lease now ?l) (draw 1 S1) = (Inr (), T)"
    "ses_runs T = put_run ?r (ses_runs S)" "sch_db (ses_sched T) = sch_db (ses_sched S)"
    "ses_notified T = ses_notified S" "run_history T = run_history S @ [EvAccepted, EvUpdated]"
    using run_section_fields [where E = E and S = "draw 1 S1" and f = "\<lambda>now _ _. abort_operation_lease now ?l"]
      abort S1 by (auto simp: List.map_filter_def)
  have "co_run (send_message E content files) S = (Inl (DatabaseError why), T)"
    unfolding send_message_def deliver_user_message_def
    using assms(2) get S1(1) post T(1)
    by (simp add: co_run_bind co_run_try scheds_def post_def)
  moreover have "is_active ?r" "no_work_left ?r"
    by (simp_all add: is_active_def no_work_left_def pending_wake_count_def has_retained_wake_gate_work_def
        has_retained_work_def active_operation_lease_count_def new_team_run_record_def)
  ultimately show ?thesis
    using T(2-5) by (simp add: put_run_def)
qed

theorem failed_write_leaves_empty_run_witness:
  "fst (co_run (send_message (demo_session_env\<lparr>se_write_error := \<lambda>n. Some ''disk full''\<rparr>) ''hi'' None)
    demo_session) = Inl (DatabaseError ''disk full'')"
  using failed_write_leaves_empty_run [of demo_session "''lead''"
      "demo_session_env\<lparr>se_write_error := \<lambda>n. Some ''disk full''\<rparr>" "''disk full''" "''hi''" None]
    demo_session_lead by (simp add: case_prod_beta demo_session_def new_run_manager_def)

section \<open>Two spawns at once\<close>

text \<open>
  The name of a spawned agent is compared with the names of the live agents, and the agent joins them
  only after the service has stored it: two spawns at the same time get the same name.
\<close>

definition demo_service :: agent_service where
  "demo_service = \<lparr>av_resolve = (\<lambda>a m b model. Inr (''claude'', model)), av_capable = (\<lambda>_. True),
     av_persist = (\<lambda>slot name b m a. Inr ((demo_agent slot TeammateRole)\<lparr>ta_name := name\<rparr>)),
     av_removes = (\<lambda>_. True)\<rparr>"

definition spawn_w2 :: session_call where
  "spawn_w2 = SpawnAgent (Some demo_service) ''lead''
     \<lparr>sq_name = ''w2'', sq_assistant_id = Some ''writer'', sq_model = None\<rparr> None"

theorem concurrent_spawns_share_name:
  "map ta_name (list_agents (ses_sched (snd (pool_run [0, 1, 0, 1, 0, 1, 0, 1]
      (map (session_method demo_session_env) [spawn_w2, spawn_w2]) demo_session)))) =
    [''lead'', ''w1'', ''w2'', ''w2'']"
  by (simp add: demo_defs demo_service_def spawn_w2_def session_eval spawn_and_attach_def
      spawn_agent_def normalize_name_def trim_start_def list_agents_def team_capable_backends_def
      fresh_section_def session_add_agent_def add_agent_def cong: lazy)

section \<open>A wake without mail\<close>

text \<open>
  A wake that finds no mail still takes the note that the agent needs its role prompt, and nothing is
  sent: the first turn after it goes without the prompt.
\<close>

theorem empty_wake_loses_role_prompt:
  assumes "hm_get (sch_slots (ses_sched S)) slot_id = Some slot" and "as_needs_role_prompt slot"
    and "mgr_state (ses_runs S) = None" and "others_unread E slot_id S = []"
  shows "case co_run (drain_pass E slot_id port) S of (go_on, T) \<Rightarrow>
    \<not> go_on \<and> ses_events T = ses_events S \<and>
    map_option as_needs_role_prompt (hm_get (sch_slots (ses_sched T)) slot_id) = Some False"
proof -
  have get: "sched_section (\<lambda>_. get_agent slot_id) S = (Inr (as_agent slot), S)"
    using assms(1) by (simp add: sched_section_def get_agent_def sched_return_def)
  have idle: "peek_next_pending_wake slot_id (ses_runs S) = None" "active_run_id (ses_runs S) = None"
    using assms(3) by (simp_all add: peek_next_pending_wake_def active_run_id_def active_run_def)
  have none: "select_unread slot_id None (peek_unread (env_json E) (ses_team_id S) slot_id
      (sch_db (ses_sched S))) = []"
    using assms(4) by (simp add: select_unread_def others_unread_def)
  show ?thesis
    unfolding drain_pass_def compute_wake_input_def
    using assms(1-3) get idle none
    by (simp add: co_run_bind co_run_try scheds_def Let_def take_needs_role_prompt_def
        run_section_def release_none draw_def hm_get_modify)
qed

theorem empty_wake_loses_role_prompt_witness:
  "\<not> fst (co_run (drain_pass demo_session_env ''lead'' demo_port) demo_session)"
proof -
  have "hm_get (sch_slots (ses_sched demo_session)) ''lead'' = Some (new_slot (demo_agent ''lead'' LeadRole)
      \<lparr>as_agent := (demo_agent ''lead'' LeadRole)\<lparr>ta_status := Some SIdle\<rparr>\<rparr>)"
    "mgr_state (ses_runs demo_session) = None" "others_unread demo_session_env ''lead'' demo_session = []"
    by (simp_all add: demo_defs others_unread_def peek_unread_def peek_unread_rows_def List.map_filter_def)
  from empty_wake_loses_role_prompt [OF this(1) _ this(2,3), of demo_port] show ?thesis
    by (simp add: new_slot_def case_prod_beta)
qed

end
