(* ===== verification/TeamRunWire.thy ===== *)
theory TeamRunWire
  imports TeamRunLifecycle Coroutine "HOL-Library.Multiset"
begin

text \<open>
  What the listeners of a team see. The operations of \<open>TeamRunManager\<close> serialise on its mutex, but
  most of them drop the guard before they broadcast (\<open>team_run.rs\<close>), so that the order of the events
  on the wire is not the order of the changes. Here each call is the method it is in the code: one
  section under the lock, which sends what the code sends there, and one section per event that is
  sent later. The theorem says what of the pairing of \<open>TeamRunLifecycle\<close> survives any interleaving of
  calls, the last lemma what does not.
\<close>

section \<open>Calls\<close>

type_synonym wire_state = "run_manager \<times> team_event list"

fun under_guard :: "run_op \<Rightarrow> held" where
  "under_guard (OpMaybeComplete now) = held_all"
| "under_guard (OpTryCompleteCancelled now) = held_all"
| "under_guard (OpRecordEmptyWakeObserved now slot_id) = held_all"
| "under_guard (OpRecordChildStartFailed now reservation_id) = held_unless_failed"
| "under_guard (OpRecordChildCompleted now slot_id turn_id status) = held_unless_failed"
| "under_guard (OpRecordChildCancelled now child) = held_but_last"
| "under_guard _ = held_none"

definition locked_call :: "run_op \<Rightarrow> wire_state \<Rightarrow> team_event list \<times> wire_state" where
  "locked_call op S =
    (case S of (m, wire) \<Rightarrow>
      let evs = run_events op m; n = under_guard op evs
      in (drop n evs, run_step op m, wire @ take n evs))"

definition broadcast :: "team_event \<Rightarrow> wire_state \<Rightarrow> unit \<times> wire_state" where
  "broadcast e S = (case S of (m, wire) \<Rightarrow> ((), m, wire @ [e]))"

definition send_later :: "team_event list \<Rightarrow> (wire_state, unit) coroutine" where
  "send_later evs = co_for evs (\<lambda>e. atomic (broadcast e))"

definition call_run :: "run_op \<Rightarrow> (wire_state, unit) coroutine" where
  "call_run op = co_bind (atomic (locked_call op)) send_later"

text \<open>A call that nothing interrupts sends the events of its operation in their order.\<close>

lemma send_later_alone: "co_run (send_later evs) (m, wire) = ((), m, wire @ evs)"
  by (induction evs arbitrary: wire) (simp_all add: send_later_def co_run_bind broadcast_def)

lemma call_run_alone: "co_run (call_run op) (m, wire) = ((), run_step op m, wire @ run_events op m)"
  by (simp add: call_run_def co_run_bind locked_call_def Let_def send_later_alone)

section \<open>Interleaved calls\<close>

text \<open>What is left of a call: all of it, or the events that it has still to send.\<close>

datatype call_rest = Called run_op | Sending "team_event list"

fun rest_method :: "call_rest \<Rightarrow> (wire_state, unit) coroutine" where
  "rest_method (Called op) = call_run op"
| "rest_method (Sending evs) = send_later evs"

fun rest_next :: "call_rest \<Rightarrow> wire_state \<Rightarrow> call_rest \<times> wire_state" where
  "rest_next (Called op) S = (case locked_call op S of (later, S') \<Rightarrow> (Sending later, S'))"
| "rest_next (Sending []) S = (Sending [], S)"
| "rest_next (Sending (e # evs)) S = (Sending evs, snd (broadcast e S))"

lemma co_next_rest:
  "co_next (rest_method p) S = (case rest_next p S of (q, T) \<Rightarrow> (rest_method q, T))"
  by (cases "(p, S)" rule: rest_next.cases)
    (simp_all add: call_run_def send_later_def co_next_eval broadcast_def split: prod.splits)

fun called :: "call_rest \<Rightarrow> run_op multiset" where
  "called (Called op) = {#op#}"
| "called (Sending evs) = {#}"

fun unsent :: "call_rest \<Rightarrow> team_event list" where
  "unsent (Called op) = []"
| "unsent (Sending evs) = evs"

text \<open>The events that end a run by its own accounts. They are always sent under the lock.\<close>

fun settles :: "team_event \<Rightarrow> bool" where
  "settles (RunEvent name _) \<longleftrightarrow> name \<in> {EvCompleted, EvCancelled}"
| "settles (ChildEvent _ _) \<longleftrightarrow> False"

abbreviation settles_nothing :: "'r op_result \<Rightarrow> bool" where
  "settles_nothing res \<equiv> filter settles (snd (snd res)) = []"

lemma settles_nothing_ops:
  "settles_nothing (accept_user_message now f s ro a i m)"
  "settles_nothing (acquire_user_message_wake now f l s ro m)"
  "settles_nothing (recover_mailbox_backlog now f cs m)"
  "settles_nothing (commit_operation_lease now l i m)"
  "settles_nothing (abort_operation_lease now l m)"
  "settles_nothing (acquire_run_scoped_wake_with_intent now f s ro src intent m)"
  "settles_nothing (mark_slot_runtime_health now s h m)"
  "settles_nothing (observe_slow_child_turns now m)"
  "settles_nothing (pause_slot_work now s why m)"
  "settles_nothing (record_or_suppress_wake now s ro src i m)"
  "settles_nothing (claim_wake_for_turn now f s ro conv m)"
  "settles_nothing (retry_child_start_later now k m)"
  "settles_nothing (record_child_started now k c m)"
  "settles_nothing (begin_cancel now t why m)"
  "settles_nothing (complete_failed now m)"
  "settles_nothing (begin_cancel_child s m)"
  "settles_nothing (complete_pause_after_child_cancelled now c why m)"
  "settles_nothing (release_suppressed_wake_if_resumed now s ro m)"
  by (auto simp: accept_user_message_def acquire_user_message_wake_def recover_mailbox_backlog_def
      commit_operation_lease_def abort_operation_lease_def acquire_run_scoped_wake_with_intent_def
      mark_slot_runtime_health_def observe_slow_child_turns_def pause_slot_work_def
      record_or_suppress_wake_def claim_wake_for_turn_def retry_child_start_later_def
      record_child_started_def begin_cancel_def complete_failed_def begin_cancel_child_def
      complete_pause_after_child_cancelled_def release_suppressed_wake_if_resumed_def
      Let_def case_prod_unfold split: option.splits list.splits if_splits
      acquire_policy_decision.splits wake_gate_decision.splits)

lemma settle_never_fails:
  "\<not> list_ex is_failure (snd (snd (settle_run (maybe_complete_locked now r) m)))"
  "\<not> list_ex is_failure (snd (snd (settle_run (maybe_cancelled_locked now r) m)))"
  by (auto simp: settle_run_def maybe_complete_locked_def maybe_cancelled_locked_def Let_def)

lemma failed_start_settles_nothing:
  "list_ex is_failure (snd (snd (record_child_start_failed now k m))) \<Longrightarrow>
    settles_nothing (record_child_start_failed now k m)"
  using settle_never_fails
  by (auto simp: record_child_start_failed_def Let_def split: option.splits if_splits)

lemma failed_child_settles_nothing:
  "list_ex is_failure (snd (snd (record_child_completed now s t st m))) \<Longrightarrow>
    settles_nothing (record_child_completed now s t st m)"
  using settle_never_fails
  by (auto simp: record_child_completed_def Let_def case_prod_unfold split: option.splits if_splits)

lemma cancelled_child_is_last:
  "filter settles (drop (held_but_last evs) evs) = []"
  if "evs = snd (snd (record_child_cancelled now c m))"
  using that
  by (auto simp: record_child_cancelled_def held_but_last_def Let_def case_prod_unfold
      split: option.splits if_splits)

lemma settled_under_guard: "filter settles (drop (under_guard op (run_events op m)) (run_events op m)) = []"
proof (cases op)
  case (OpRecordChildStartFailed now k)
  then show ?thesis
    using failed_start_settles_nothing [of now k m]
    by (simp add: held_unless_failed_def run_events_def case_prod_unfold)
next
  case (OpRecordChildCompleted now s t st)
  then show ?thesis
    using failed_child_settles_nothing [of now s t st m]
    by (simp add: held_unless_failed_def run_events_def case_prod_unfold)
next
  case (OpRecordChildCancelled now c)
  then show ?thesis
    using cancelled_child_is_last [OF refl, of now c m]
    by (simp add: run_events_def case_prod_unfold)
qed (simp_all add: held_all_def held_none_def run_events_def case_prod_unfold settles_nothing_ops
    acquire_run_scoped_wake_def acquire_scheduler_wake_def)


text \<open>
  The sections under the lock have an order, \<open>order\<close>: the state is what the operations make of the
  first state in this order, and each event of the operations done is on the wire or still to be
  sent.
\<close>

definition accounted ::
    "run_manager \<Rightarrow> run_op list \<Rightarrow> call_rest list \<Rightarrow> wire_state \<Rightarrow> run_op list \<Rightarrow> bool" where
  "accounted m0 ops ps S order \<longleftrightarrow>
    fst S = fold run_step order m0 \<and>
    mset order + sum_list (map called ps) = mset ops \<and>
    mset (snd S) + sum_list (map (mset \<circ> unsent) ps) = mset (trace_events order m0) \<and>
    filter settles (snd S) = filter settles (trace_events order m0) \<and>
    (\<forall>p \<in> set ps. filter settles (unsent p) = [])"

lemma sum_list_at:
  fixes f :: "'a \<Rightarrow> 'b :: comm_monoid_add"
  assumes "i < length xs"
  shows "sum_list (map f (xs[i := y])) + f (xs ! i) = sum_list (map f xs) + f y"
  using assms by (induction xs arbitrary: i) (auto simp: ac_simps split: nat.split)

lemma trace_events_append:
  "trace_events (ops @ [op]) m = trace_events ops m @ run_events op (fold run_step ops m)"
  by (induction ops arbitrary: m) simp_all

lemma accounted_next:
  assumes "accounted m0 ops ps S order" and "i < length ps" and "rest_next (ps ! i) S = (q, T)"
  shows "\<exists>order'. accounted m0 ops (ps[i := q]) T order'"
proof -
  obtain m wire where S: "S = (m, wire)" by fastforce
  have in_set: "ps ! i \<in> set ps"
    using assms(2) by simp
  note sums = sum_list_at [OF assms(2), of called q] sum_list_at [OF assms(2), of "mset \<circ> unsent" q]
  have keeps: "\<forall>p \<in> set (ps[i := q]). filter settles (unsent p) = []" if "filter settles (unsent q) = []"
    using that assms(1) set_update_subset_insert [of ps i q] by (auto simp: accounted_def)
  show ?thesis
  proof (cases "ps ! i")
    case (Called op)
    let ?evs = "run_events op m" and ?n = "under_guard op (run_events op m)"
    have q: "q = Sending (drop ?n ?evs)" and T: "T = (run_step op m, wire @ take ?n ?evs)"
      using assms(3) by (simp_all add: Called S locked_call_def Let_def)
    have m: "m = fold run_step order m0"
      using assms(1) by (simp add: accounted_def S)
    have all: "mset (take ?n ?evs) + mset (drop ?n ?evs) = mset ?evs"
      by (simp flip: mset_append)
    have settled: "filter settles (take ?n ?evs) = filter settles ?evs"
      using settled_under_guard [of op m] append_take_drop_id [of ?n ?evs]
      by (metis append_Nil2 filter_append)
    have "accounted m0 ops (ps[i := q]) T (order @ [op])"
      unfolding accounted_def
    proof (intro conjI)
      have "sum_list (map called ps) = add_mset op (sum_list (map called (ps[i := q])))"
        using sums(1) by (simp add: Called q)
      then show "mset (order @ [op]) + sum_list (map called (ps[i := q])) = mset ops"
        using assms(1) by (simp add: accounted_def)
      show "mset (snd T) + sum_list (map (mset \<circ> unsent) (ps[i := q])) =
          mset (trace_events (order @ [op]) m0)"
        using assms(1) sums(2) all
        by (simp add: accounted_def Called q T S trace_events_append m [symmetric] ac_simps)
      show "filter settles (snd T) = filter settles (trace_events (order @ [op]) m0)"
        using assms(1) settled by (simp add: accounted_def S T trace_events_append m [symmetric])
      show "\<forall>p \<in> set (ps[i := q]). filter settles (unsent p) = []"
        using settled_under_guard by (intro keeps) (simp add: q)
    qed (simp add: T m)
    then show ?thesis ..
  next
    case (Sending evs)
    show ?thesis
    proof (cases evs)
      case Nil
      then have "q = ps ! i" "T = S"
        using assms(3) by (simp_all add: Sending)
      then show ?thesis
        using assms(1) list_update_id [of ps i] by auto
    next
      case (Cons e rest)
      have q: "q = Sending rest" and T: "T = (m, wire @ [e])"
        using assms(3) by (simp_all add: Sending Cons S broadcast_def)
      have unsettled: "\<not> settles e" "filter settles rest = []"
        using assms(1) in_set Sending Cons by (force simp: accounted_def split: if_splits)+
      have "accounted m0 ops (ps[i := q]) T order"
        unfolding accounted_def
      proof (intro conjI)
        have "sum_list (map (mset \<circ> unsent) ps) = add_mset e (sum_list (map (mset \<circ> unsent) (ps[i := q])))"
          using sums(2) by (simp add: Sending Cons q)
        then show "mset (snd T) + sum_list (map (mset \<circ> unsent) (ps[i := q])) = mset (trace_events order m0)"
          using assms(1) by (simp add: accounted_def T S)
        show "mset order + sum_list (map called (ps[i := q])) = mset ops"
          using assms(1) sums(1) by (simp add: accounted_def Sending q)
        show "\<forall>p \<in> set (ps[i := q]). filter settles (unsent p) = []"
          using unsettled by (intro keeps) (simp add: q)
      qed (use assms(1) unsettled in \<open>simp_all add: accounted_def S T\<close>)
      then show ?thesis ..
    qed
  qed
qed


lemma pool_step_rest:
  assumes "accounted m0 ops ps S order"
  shows "\<exists>qs T order'. pool_step i (map rest_method ps, S) = (map rest_method qs, T) \<and>
    accounted m0 ops qs T order'"
proof (cases "i < length ps")
  case True
  obtain q T where next_i: "rest_next (ps ! i) S = (q, T)"
    by (rule prod.exhaust [of "rest_next (ps ! i) S"])
  have "pool_step i (map rest_method ps, S) = (map rest_method (ps[i := q]), T)"
    using True pool_run_eval(2) [of i "map rest_method ps" "[]" S]
    by (simp add: pool_run_def co_next_rest next_i map_update)
  then show ?thesis
    using accounted_next [OF assms True next_i] by blast
next
  case False
  then show ?thesis
    using assms by (auto simp: pool_step_def)
qed

lemma pool_run_rest:
  assumes "accounted m0 ops ps S order"
  shows "\<exists>qs T order'. pool_run schedule (map rest_method ps) S = (map rest_method qs, T) \<and>
    accounted m0 ops qs T order'"
  using assms
proof (induction schedule arbitrary: ps S order)
  case (Cons i schedule)
  obtain qs T order' where "pool_step i (map rest_method ps, S) = (map rest_method qs, T)"
    and acc: "accounted m0 ops qs T order'"
    using pool_step_rest [OF Cons.prems, of i] by blast
  then have "pool_run (i # schedule) (map rest_method ps) S = pool_run schedule (map rest_method qs) T"
    by (simp add: pool_run_def)
  then show ?case
    using Cons.IH [OF acc] by simp
qed (auto simp: pool_run_def)

text \<open>How often a run is announced, and how often it is said to be over.\<close>

definition opened :: "string \<Rightarrow> notice list \<Rightarrow> nat" where
  "opened i ns = length (filter (\<lambda>n. n = (EvAccepted, i)) ns)"

definition closed :: "string \<Rightarrow> notice list \<Rightarrow> nat" where
  "closed i ns = length (filter (\<lambda>(name, j). j = i \<and> name \<in> {EvCompleted, EvCancelled, EvFailed}) ns)"

lemma counts_append:
  "opened i (ns @ ms) = opened i ns + opened i ms"
  "closed i (ns @ ms) = closed i ns + closed i ms"
  by (simp_all add: opened_def closed_def)

lemma mset_notices:
  "mset (notices evs) = image_mset (the \<circ> notice_of) (filter_mset (\<lambda>e. notice_of e \<noteq> None) (mset evs))"
  by (simp add: notices_def List.map_filter_def comp_def)

lemma counts_of_mset:
  "opened i ns = size (filter_mset (\<lambda>n. n = (EvAccepted, i)) (mset ns))"
  "closed i ns =
    size (filter_mset (\<lambda>(name, j). j = i \<and> name \<in> {EvCompleted, EvCancelled, EvFailed}) (mset ns))"
  by (simp_all only: opened_def closed_def flip: size_mset mset_filter)

lemma counts_mset:
  assumes "mset evs = mset evs'"
  shows "opened i (notices evs) = opened i (notices evs')" and "closed i (notices evs) = closed i (notices evs')"
  by (simp_all only: counts_of_mset mset_notices assms)

lemma step_counts:
  assumes "lifecycle_step p ns q"
  shows "(if open_run_of p = Some i then 1 else 0) + opened i ns =
    closed i ns + (if open_run_of q = Some i then 1 else 0)"
  using assms by cases (auto simp: opened_def closed_def)

lemma trace_counts:
  "wf_manager m \<Longrightarrow> (if open_run_of (phase_of m) = Some i then 1 else 0) + opened i (notices (trace_events ops m)) =
    closed i (notices (trace_events ops m)) +
    (if open_run_of (phase_of (fold run_step ops m)) = Some i then 1 else 0)"
proof (induction ops arbitrary: m)
  case (Cons op ops)
  from Cons.IH [of "run_step op m"] Cons.prems step_counts [OF step_simulates [OF Cons.prems], of i op]
  show ?case
    by (simp add: wf_run_step counts_append)
qed (simp add: opened_def closed_def)


section \<open>The wire\<close>

text \<open>
  One call after the other, the wire is the trace, and the notices that open and close runs come in
  pairs: an acceptance, then one closing notice of the same run before the next acceptance.
\<close>

lemma calls_in_turn:
  "co_run (co_for ops call_run) (m, wire) = ((), fold run_step ops m, wire @ trace_events ops m)"
  by (induction ops arbitrary: m wire) (simp_all add: co_run_bind call_run_alone)

lemma calls_in_turn_are_paired:
  "well_paired None (notices (snd (snd (co_run (co_for ops call_run) (new_run_manager team, [])))))"
  using trace_well_paired [OF wf_new_manager, of team ops]
  by (simp add: calls_in_turn phase_of_def new_run_manager_def)

lemma done_rest: "rest_method p = Done () \<Longrightarrow> called p = {#} \<and> unsent p = []"
  by (cases "p" rule: unsent.cases; cases "unsent p")
    (simp_all add: call_run_def send_later_def atomic_def)

text \<open>
  C12. Whatever calls run at the same time, once they have returned there is an order of them in
  which they could have been made one after the other: it gives the state, each of its events was
  sent exactly once, the completions and the cancellations in this order, and its notices are
  paired. A listener hears of every run once that it was accepted and once that it is over, except
  for the run that is still kept.
\<close>

theorem every_run_is_closed_once:
  assumes "pool_run schedule (map call_run ops) (new_run_manager team, []) = (cs, m, wire)"
    and "list_all (\<lambda>c. c = Done ()) cs"
  shows "(\<exists>order. mset order = mset ops \<and> m = fold run_step order (new_run_manager team) \<and>
      mset wire = mset (trace_events order (new_run_manager team)) \<and>
      filter settles wire = filter settles (trace_events order (new_run_manager team)) \<and>
      well_paired None (notices (trace_events order (new_run_manager team)))) \<and>
    (\<forall>i. opened i (notices wire) =
      closed i (notices wire) + (if open_run_of (phase_of m) = Some i then 1 else 0))"
proof -
  let ?start = "new_run_manager team"
  have "sum_list (map (called \<circ> Called) ops) = mset ops" "sum_list (map (mset \<circ> unsent \<circ> Called) ops) = {#}"
    by (induction ops) simp_all
  then have "accounted ?start ops (map Called ops) (?start, []) []"
    by (auto simp: accounted_def comp_assoc)
  from pool_run_rest [OF this, of schedule] obtain qs order where
    cs: "cs = map rest_method qs" and acc: "accounted ?start ops qs (m, wire) order"
    using assms(1) by (auto simp: comp_def)
  have "\<forall>q \<in> set qs. called q = {#} \<and> unsent q = []"
    using assms(2) done_rest by (auto simp: cs list_all_iff)
  then have "sum_list (map called qs) = {#}" "sum_list (map (mset \<circ> unsent) qs) = {#}"
    by (induction qs) simp_all
  with acc have order: "mset order = mset ops" "m = fold run_step order ?start"
      "mset wire = mset (trace_events order ?start)"
      "filter settles wire = filter settles (trace_events order ?start)"
    by (simp_all add: accounted_def)
  have phase: "phase_of ?start = NoRun"
    by (simp add: phase_of_def new_run_manager_def)
  have "opened i (notices wire) =
      closed i (notices wire) + (if open_run_of (phase_of m) = Some i then 1 else 0)" for i
    using trace_counts [OF wf_new_manager, of team i order]
    by (simp add: counts_mset [OF order(3)] phase order(2))
  moreover have "well_paired None (notices (trace_events order ?start))"
    using trace_well_paired [OF wf_new_manager, of team order] by (simp add: phase)
  ultimately show ?thesis
    using order by blast
qed

text \<open>
  A first message opens \<open>r1\<close>; a failure ends it and drops the guard; a second message opens \<open>r2\<close> and
  sends its acceptance before the failure of \<open>r1\<close> is sent. The listener hears of \<open>r2\<close> while \<open>r1\<close> is open.
\<close>

definition overtaking_calls :: "run_op list" where
  "overtaking_calls =
    [OpAcquireUserMessageWake 5 ''r1'' ''l1'' ''lead'' Lead, OpCompleteFailed 6,
     OpAcquireUserMessageWake 7 ''r2'' ''l2'' ''lead'' Lead]"

definition overtaking_schedule :: "nat list" where
  "overtaking_schedule = [0, 0, 1, 2, 2, 1]"

lemmas wire_eval = co_eval call_run_def send_later_def locked_call_def broadcast_def Let_def run_step_def
  run_events_def held_none_def overtaking_calls_def overtaking_schedule_def acquire_user_message_wake_def
  new_run_manager_def active_run_def cancelling_run_def is_active_def new_operation_lease_def
  complete_failed_def clear_run_def fail_run_def put_run_def phase_of_def

lemma next_run_overtakes_failure:
  "case pool_run overtaking_schedule (map call_run overtaking_calls) (new_run_manager ''t'', []) of
    (cs, m, wire) \<Rightarrow>
      cs = [Done (), Done (), Done ()] \<and>
      notices wire = [(EvAccepted, ''r1''), (EvAccepted, ''r2''), (EvFailed, ''r1'')] \<and>
      open_run_of (phase_of m) = Some ''r2'' \<and> \<not> well_paired None (notices wire)"
  by (simp add: wire_eval cong: lazy)

theorem every_run_is_closed_once_witness:
  "\<exists>order. mset order = mset overtaking_calls \<and>
    well_paired None (notices (trace_events order (new_run_manager ''t'')))"
proof -
  obtain cs m wire where run: "pool_run overtaking_schedule (map call_run overtaking_calls)
      (new_run_manager ''t'', []) = (cs, m, wire)"
    by (rule prod_cases3)
  with next_run_overtakes_failure have "list_all (\<lambda>c. c = Done ()) cs"
    by simp
  from every_run_is_closed_once [OF run this] show ?thesis
    by blast
qed

end
