(* ===== verification/RateLimit.thy ===== *)
theory RateLimit
  imports Prelude "HOL-Library.Word" "HOL-Library.Multiset"
begin

text \<open>
  The fixed-window rate limiter of \<open>veryagent-auth\<close> (\<open>src/rate_limit.rs\<close>): its entries, its
  operations, the middlewares that use it, and the bounds it keeps. Counters are \<open>u32\<close> and
  times \<open>u64\<close> milliseconds, both with wrapping addition as in the release profile; the clock is
  an argument. Each operation holds the shard lock of its key, so operations are atomic.
\<close>

section \<open>State\<close>

datatype auth_error = InvalidCredentials | WeakPassword string | InvalidUsername string
  | TokenExpired | TokenInvalid string | TokenBlacklisted | RateLimited | HashError string

type_synonym u32 = "32 word"
type_synonym u64 = "64 word"

record rate_limit_entry =
  rl_count :: u32
  rl_reset_time_ms :: u64

text \<open>The window is a \<open>Duration\<close>; it is kept here in whole milliseconds.\<close>

record rate_limiter =
  rl_entries :: "(string, rate_limit_entry) hmap"
  rl_max_requests :: u32
  rl_window_millis :: nat

definition rate_limiter_new :: "u32 \<Rightarrow> nat \<Rightarrow> rate_limiter" where
  "rate_limiter_new max_requests window =
    \<lparr> rl_entries = [], rl_max_requests = max_requests, rl_window_millis = window \<rparr>"

definition rate_limiter_auth :: rate_limiter where
  "rate_limiter_auth = rate_limiter_new 5 (15 * 60 * 1000)"

definition rate_limiter_api :: rate_limiter where
  "rate_limiter_api = rate_limiter_new 60 (60 * 1000)"

definition rate_limiter_authenticated_action :: rate_limiter where
  "rate_limiter_authenticated_action = rate_limiter_new 20 (60 * 1000)"

definition window_ms :: "rate_limiter \<Rightarrow> u64" where
  "window_ms L = word_of_nat (rl_window_millis L)"

section \<open>Operations\<close>

definition rl_check :: "u64 \<Rightarrow> string \<Rightarrow> rate_limiter \<Rightarrow> auth_error + unit" where
  "rl_check now key L =
    (case hm_get (rl_entries L) key of
      Some entry \<Rightarrow>
        if now < rl_reset_time_ms entry \<and> rl_max_requests L \<le> rl_count entry
        then Inl RateLimited else Inr ()
    | None \<Rightarrow> Inr ())"

text \<open>The entry both counting operations work on: inserted when absent, restarted when expired.\<close>

definition current_entry :: "u64 \<Rightarrow> string \<Rightarrow> rate_limiter \<Rightarrow> rate_limit_entry" where
  "current_entry now key L =
    (let entry = (case hm_get (rl_entries L) key of
        Some entry \<Rightarrow> entry
      | None \<Rightarrow> \<lparr> rl_count = 0, rl_reset_time_ms = now + window_ms L \<rparr>)
     in if rl_reset_time_ms entry \<le> now
        then entry\<lparr> rl_count := 0, rl_reset_time_ms := now + window_ms L \<rparr> else entry)"

definition put_entry :: "string \<Rightarrow> rate_limit_entry \<Rightarrow> rate_limiter \<Rightarrow> rate_limiter" where
  "put_entry key entry L = L\<lparr> rl_entries := hm_insert key entry (rl_entries L) \<rparr>"

definition check_and_increment ::
    "u64 \<Rightarrow> string \<Rightarrow> rate_limiter \<Rightarrow> (auth_error + unit) \<times> rate_limiter" where
  "check_and_increment now key L =
    (let entry = current_entry now key L
     in if rl_max_requests L \<le> rl_count entry
        then (Inl RateLimited, put_entry key entry L)
        else (Inr (), put_entry key (entry\<lparr> rl_count := rl_count entry + 1 \<rparr>) L))"

definition record_attempt :: "u64 \<Rightarrow> string \<Rightarrow> rate_limiter \<Rightarrow> rate_limiter" where
  "record_attempt now key L =
    (let entry = current_entry now key L
     in put_entry key (entry\<lparr> rl_count := rl_count entry + 1 \<rparr>) L)"

definition rl_cleanup :: "u64 \<Rightarrow> rate_limiter \<Rightarrow> rate_limiter" where
  "rl_cleanup now L =
    L\<lparr> rl_entries := filter (\<lambda>(_, entry). now < rl_reset_time_ms entry) (rl_entries L) \<rparr>"

definition entry_count :: "rate_limiter \<Rightarrow> nat" where
  "entry_count L = length (rl_entries L)"

section \<open>The middlewares\<close>

text \<open>
  Headers are a lookup that already holds only the values \<open>to_str\<close> accepts (visible ASCII and
  tab), so \<open>trim\<close> strips blanks and tabs.
\<close>

definition trim_ascii :: "string \<Rightarrow> string" where
  "trim_ascii s =
    (let blank = (\<lambda>c. c = CHR '' '' \<or> c = CHR 0x09)
     in rev (dropWhile blank (rev (dropWhile blank s))))"

definition extract_client_ip :: "(string \<Rightarrow> string option) \<Rightarrow> string" where
  "extract_client_ip headers =
    (let real =
       (case headers ''x-real-ip'' of
          Some real_ip \<Rightarrow>
            let ip = trim_ascii real_ip in if ip \<noteq> [] then ip else ''unknown''
        | None \<Rightarrow> ''unknown'')
     in case headers ''x-forwarded-for'' of
          Some forwarded \<Rightarrow>
            let ip = trim_ascii (takeWhile (\<lambda>c. c \<noteq> CHR '','') forwarded)
            in if ip \<noteq> [] then ip else real
        | None \<Rightarrow> real)"

text \<open>
  The login middleware checks first and records a failure once the response is there. Its two
  critical sections are two definitions, since other requests run between them.
\<close>

definition auth_middleware_enter ::
    "u64 \<Rightarrow> (string \<Rightarrow> string option) \<Rightarrow> rate_limiter \<Rightarrow> auth_error + unit" where
  "auth_middleware_enter now headers L = rl_check now (extract_client_ip headers) L"

definition auth_middleware_leave ::
    "u64 \<Rightarrow> (string \<Rightarrow> string option) \<Rightarrow> bool \<Rightarrow> rate_limiter \<Rightarrow> rate_limiter" where
  "auth_middleware_leave now headers is_success L =
    (if \<not> is_success then record_attempt now (extract_client_ip headers) L else L)"

definition api_middleware ::
    "u64 \<Rightarrow> (string \<Rightarrow> string option) \<Rightarrow> rate_limiter \<Rightarrow> (auth_error + unit) \<times> rate_limiter" where
  "api_middleware now headers L = check_and_increment now (extract_client_ip headers) L"

definition authenticated_action_key :: "string option \<Rightarrow> (string \<Rightarrow> string option) \<Rightarrow> string" where
  "authenticated_action_key current_user headers =
    (case current_user of
      Some uid \<Rightarrow> ''user:'' @ uid
    | None \<Rightarrow> ''ip:'' @ extract_client_ip headers)"

definition authenticated_action_middleware ::
    "u64 \<Rightarrow> string option \<Rightarrow> (string \<Rightarrow> string option) \<Rightarrow> rate_limiter
      \<Rightarrow> (auth_error + unit) \<times> rate_limiter" where
  "authenticated_action_middleware now current_user headers L =
    check_and_increment now (authenticated_action_key current_user headers) L"

section \<open>Histories\<close>

text \<open>
  What may happen to one limiter: requests, checks, recorded failures and the cleanup task, each
  with the time it reads. \<open>limiter_step\<close> gives the answer the caller sees (\<open>None\<close> for the
  operations that answer nothing).
\<close>

datatype limiter_op = Request u64 string | Check u64 string | Record u64 string | Cleanup u64

fun op_time :: "limiter_op \<Rightarrow> u64" where
  "op_time (Request now _) = now"
| "op_time (Check now _) = now"
| "op_time (Record now _) = now"
| "op_time (Cleanup now) = now"

fun limiter_step :: "limiter_op \<Rightarrow> rate_limiter \<Rightarrow> (auth_error + unit) option \<times> rate_limiter" where
  "limiter_step (Request now key) L = (let (r, L') = check_and_increment now key L in (Some r, L'))"
| "limiter_step (Check now key) L = (Some (rl_check now key L), L)"
| "limiter_step (Record now key) L = (None, record_attempt now key L)"
| "limiter_step (Cleanup now) L = (None, rl_cleanup now L)"

fun answers :: "limiter_op list \<Rightarrow> rate_limiter \<Rightarrow> (auth_error + unit) list" where
  "answers [] L = []"
| "answers (op # ops) L =
    (let (r, L') = limiter_step op L
     in (case r of Some a \<Rightarrow> [a] | None \<Rightarrow> []) @ answers ops L')"

text \<open>The times at which a request with the key was let through.\<close>

fun accepted_at :: "string \<Rightarrow> limiter_op list \<Rightarrow> rate_limiter \<Rightarrow> u64 list" where
  "accepted_at key [] L = []"
| "accepted_at key (op # ops) L =
    (let (r, L') = limiter_step op L
     in (case op of Request now k \<Rightarrow> if k = key \<and> r = Some (Inr ()) then [now] else [] | _ \<Rightarrow> [])
        @ accepted_at key ops L')"

text \<open>The clock does not run backwards.\<close>

fun clock_runs :: "u64 \<Rightarrow> limiter_op list \<Rightarrow> bool" where
  "clock_runs prev [] \<longleftrightarrow> True"
| "clock_runs prev (op # ops) \<longleftrightarrow> prev \<le> op_time op \<and> clock_runs (op_time op) ops"

fun is_cleanup :: "limiter_op \<Rightarrow> bool" where
  "is_cleanup (Cleanup _) = True"
| "is_cleanup _ = False"

section \<open>Cleaning up changes no answer\<close>

lemma limiter_step_Request [simp]:
  "limiter_step (Request now key) L =
    (Some (fst (check_and_increment now key L)), snd (check_and_increment now key L))"
  by (simp add: split_def Let_def)

declare limiter_step.simps(1) [simp del]

lemma limiter_frame [simp]:
  "rl_max_requests (snd (limiter_step op L)) = rl_max_requests L"
  "rl_window_millis (snd (limiter_step op L)) = rl_window_millis L"
  by (cases op; simp add: check_and_increment_def record_attempt_def rl_cleanup_def put_entry_def
      Let_def split_def)+

lemma entries_put [simp]: "rl_entries (put_entry k e L) = hm_insert k e (rl_entries L)"
  by (simp add: put_entry_def)

lemma step_wf: "hm_wf (rl_entries L) \<Longrightarrow> hm_wf (rl_entries (snd (limiter_step op L)))"
  by (cases op) (auto simp: check_and_increment_def record_attempt_def rl_cleanup_def Let_def
      split_def distinct_map_filter)

text \<open>
  The relation between a limiter that was cleaned and one that was not, at time \<open>t\<close>: they agree,
  except that the first may miss entries whose window is over.
\<close>

definition cleaned :: "u64 \<Rightarrow> rate_limiter \<Rightarrow> rate_limiter \<Rightarrow> bool" where
  "cleaned t L M \<longleftrightarrow>
    rl_max_requests L = rl_max_requests M \<and> rl_window_millis L = rl_window_millis M \<and>
    hm_wf (rl_entries L) \<and> hm_wf (rl_entries M) \<and>
    (\<forall>k. hm_get (rl_entries L) k = hm_get (rl_entries M) k \<or>
      (hm_get (rl_entries L) k = None \<and>
       (\<exists>e. hm_get (rl_entries M) k = Some e \<and> rl_reset_time_ms e \<le> t)))"

lemma cleaned_later: "cleaned t L M \<Longrightarrow> t \<le> now \<Longrightarrow> cleaned now L M"
  by (fastforce simp: cleaned_def)

lemma cleaned_key:
  assumes "cleaned now L M"
  obtains (same) "hm_get (rl_entries L) k = hm_get (rl_entries M) k"
    | (expired) e where "hm_get (rl_entries L) k = None"
      "hm_get (rl_entries M) k = Some e" "rl_reset_time_ms e \<le> now"
  using assms unfolding cleaned_def by blast

lemma cleaned_frame:
  "cleaned now L M \<Longrightarrow> rl_max_requests L = rl_max_requests M"
  "cleaned now L M \<Longrightarrow> window_ms L = window_ms M"
  by (simp_all add: cleaned_def window_ms_def)

lemma cleaned_entry:
  assumes "cleaned now L M"
  shows "current_entry now k L = current_entry now k M"
  using assms
proof (cases rule: cleaned_key [where k = k])
  case same
  then show ?thesis
    by (simp add: current_entry_def Let_def cleaned_frame(2) [OF assms] split: option.split)
next
  case (expired e)
  then show ?thesis
    by (cases e) (simp add: current_entry_def Let_def cleaned_frame(2) [OF assms])
qed

lemma cleaned_check:
  assumes "cleaned now L M"
  shows "rl_check now k L = rl_check now k M"
  using assms
proof (cases rule: cleaned_key [where k = k])
  case same
  then show ?thesis
    by (simp add: rl_check_def cleaned_frame(1) [OF assms] split: option.split)
next
  case (expired e)
  then show ?thesis
    by (auto simp: rl_check_def)
qed

lemma cleaned_put: "cleaned now L M \<Longrightarrow> cleaned now (put_entry k e L) (put_entry k e M)"
  by (auto simp: cleaned_def put_entry_def hm_get_insert)

lemma cleaned_step:
  assumes "cleaned t L M" "t \<le> op_time op" "\<not> is_cleanup op"
  shows "fst (limiter_step op L) = fst (limiter_step op M) \<and>
    cleaned (op_time op) (snd (limiter_step op L)) (snd (limiter_step op M))"
proof -
  have c: "cleaned (op_time op) L M"
    using assms(1,2) by (rule cleaned_later)
  then have m: "rl_max_requests L = rl_max_requests M"
    by (simp add: cleaned_def)
  show ?thesis
    using assms(3) c m
    by (cases op) (simp_all add: check_and_increment_def record_attempt_def Let_def
        cleaned_entry cleaned_check cleaned_put)
qed

lemma map_of_filter_wf:
  "distinct (map fst m) \<Longrightarrow>
    map_of (filter (\<lambda>(_, v). P v) m) k =
      (case map_of m k of Some v \<Rightarrow> if P v then Some v else None | None \<Rightarrow> None)"
  by (induction m) (auto split: option.splits simp: map_of_eq_None_iff image_iff)

lemma cleaned_cleanup:
  assumes "cleaned t L M" "t \<le> now"
  shows "cleaned now (rl_cleanup now L) M"
proof -
  have c: "cleaned now L M"
    using assms by (rule cleaned_later)
  then have "hm_wf (rl_entries L)"
    by (simp add: cleaned_def)
  note get = map_of_filter_wf [OF this, of "\<lambda>e. now < rl_reset_time_ms e"]
  have "hm_get (rl_entries (rl_cleanup now L)) k = hm_get (rl_entries M) k \<or>
      (hm_get (rl_entries (rl_cleanup now L)) k = None \<and>
       (\<exists>e. hm_get (rl_entries M) k = Some e \<and> rl_reset_time_ms e \<le> now))" for k
    using c by (cases rule: cleaned_key [where k = k])
      (auto simp: rl_cleanup_def get not_less split: option.splits)
  then show ?thesis
    using c by (simp add: cleaned_def rl_cleanup_def distinct_map_filter)
qed

lemma cleaned_answers:
  assumes "cleaned t L M" "clock_runs t ops"
  shows "answers ops L = answers (filter (\<lambda>op. \<not> is_cleanup op) ops) M"
  using assms
proof (induction ops arbitrary: t L M)
  case (Cons op ops)
  show ?case
  proof (cases "is_cleanup op")
    case True
    then obtain now where "op = Cleanup now"
      by (cases op) auto
    then show ?thesis
      using Cons by (auto intro: cleaned_cleanup)
  next
    case False
    from cleaned_step [OF Cons.prems(1) _ this] Cons.prems(2)
    have "fst (limiter_step op L) = fst (limiter_step op M)"
      and "cleaned (op_time op) (snd (limiter_step op L)) (snd (limiter_step op M))"
      by auto
    with False Cons.IH [OF this(2)] Cons.prems(2) show ?thesis
      by (simp add: split_def Let_def)
  qed
qed simp

section \<open>How much a window lets through\<close>

text \<open>
  The accepted requests of one key, grouped by the window that counted them, newest first. Each
  group is at most the capacity and has the request that opened the window, and the windows do
  not overlap.
\<close>

definition follows :: "nat \<Rightarrow> nat \<Rightarrow> (nat \<times> nat list) list \<Rightarrow> bool" where
  "follows W s ws \<longleftrightarrow> (case ws of [] \<Rightarrow> True | (s', _) # _ \<Rightarrow> s' + W \<le> s)"

lemma follows_simps [simp]:
  "follows W s []"
  "follows W s ((s', xs) # ws) \<longleftrightarrow> s' + W \<le> s"
  by (simp_all add: follows_def)

lemma follows_mono: "follows W s ws \<Longrightarrow> s \<le> s' \<Longrightarrow> follows W s' ws"
  by (auto simp: follows_def split: list.splits)

fun windowed :: "nat \<Rightarrow> nat \<Rightarrow> (nat \<times> nat list) list \<Rightarrow> bool" where
  "windowed W m [] \<longleftrightarrow> True"
| "windowed W m ((s, xs) # ws) \<longleftrightarrow>
    length xs \<le> m \<and> (\<forall>x \<in> set xs. s \<le> x \<and> x < s + W) \<and> (s \<in> set xs \<or> m = 0) \<and>
    follows W s ws \<and> windowed W m ws"

definition grouped :: "(nat \<times> nat list) list \<Rightarrow> nat list" where
  "grouped ws = concat (map snd ws)"

definition hits :: "nat \<Rightarrow> nat \<Rightarrow> nat list \<Rightarrow> nat" where
  "hits t W xs = length (filter (\<lambda>x. t \<le> x \<and> x < t + W) xs)"

lemma grouped_Cons [simp]: "grouped ((s, xs) # ws) = xs @ grouped ws"
  by (simp add: grouped_def)

lemma grouped_Nil [simp]: "grouped [] = []"
  by (simp add: grouped_def)

lemma hits_append [simp]: "hits t W (xs @ ys) = hits t W xs + hits t W ys"
  by (simp add: hits_def)

lemma hits_le: "hits t W xs \<le> length xs"
  by (simp add: hits_def)

lemma hits_less: "x \<in> set xs \<Longrightarrow> x < t \<Longrightarrow> hits t W xs < length xs"
  unfolding hits_def by (rule length_filter_less) auto

lemma hits_0: "\<forall>x \<in> set xs. x < t \<or> t + W \<le> x \<Longrightarrow> hits t W xs = 0"
  by (auto simp: hits_def filter_empty_conv)

lemma windowed_before: "windowed W m ((s, xs) # ws) \<Longrightarrow> \<forall>x \<in> set (grouped ws). x < s"
proof (induction ws arbitrary: s xs)
  case (Cons w ws)
  obtain s' ys where w: "w = (s', ys)"
    by (cases w)
  with Cons.prems have "windowed W m ((s', ys) # ws)" "s' + W \<le> s" and ys: "\<forall>x \<in> set ys. x < s' + W"
    by auto
  with Cons.IH [OF this(1)] show ?case
    by (fastforce simp: w)
qed simp

lemma windowed_tail_once:
  assumes "windowed W m ((s, xs) # ws)" "s < t + W"
  shows "hits t W (grouped ws) \<le> m - 1"
proof (cases ws)
  case (Cons w ws')
  obtain s' ys where w: "w = (s', ys)"
    by (cases w)
  with assms Cons have wd: "windowed W m ((s', ys) # ws')" and "s' + W \<le> s"
    by auto
  with assms(2) have "s' < t"
    by simp
  with windowed_before [OF wd] have "hits t W (grouped ws') = 0"
    by (intro hits_0) auto
  moreover have "hits t W ys \<le> m - 1"
    using wd hits_le [of t W ys] hits_less [of s' ys t W] \<open>s' < t\<close> by auto
  ultimately show ?thesis
    by (simp add: Cons w)
qed (simp add: hits_def)

lemma windowed_twice: "windowed W m ws \<Longrightarrow> hits t W (grouped ws) \<le> 2 * m - 1"
proof (induction ws)
  case (Cons w ws)
  obtain s xs where w: "w = (s, xs)"
    by (cases w)
  note wd = Cons.prems [unfolded w]
  show ?case
  proof (cases "s < t + W")
    case True
    with windowed_tail_once [OF wd] have "hits t W (grouped ws) \<le> m - 1"
      by simp
    moreover have "hits t W xs \<le> m"
      using wd hits_le [of t W xs] by simp
    ultimately show ?thesis
      by (simp add: w)
  next
    case False
    with wd have "hits t W xs = 0"
      by (intro hits_0) auto
    with Cons.IH wd show ?thesis
      by (simp add: w)
  qed
qed (simp add: hits_def)

text \<open>What the entry of the key says about the groups.\<close>

definition tracks :: "string \<Rightarrow> nat \<Rightarrow> nat \<Rightarrow> u64 \<Rightarrow> rate_limiter \<Rightarrow> (nat \<times> nat list) list \<Rightarrow> bool" where
  "tracks key W m t L ws \<longleftrightarrow>
    0 < W \<and> rl_window_millis L = W \<and> unat (rl_max_requests L) = m \<and> hm_wf (rl_entries L) \<and>
    windowed W m ws \<and>
    (case hm_get (rl_entries L) key of
      None \<Rightarrow> follows W (unat t) ws
    | Some e \<Rightarrow> (\<exists>s xs ws'. ws = (s, xs) # ws' \<and> unat (rl_reset_time_ms e) = s + W \<and>
        unat (rl_count e) = length xs \<and> s \<le> unat t))"

text \<open>The window a counting operation works in.\<close>

lemma tracks_current:
  assumes "tracks key W m t L ws" "t \<le> now" "unat now + W < 2 ^ 64"
  obtains s xs ws' where "windowed W m ws'" "follows W s ws'" "grouped ws = xs @ grouped ws'"
    "length xs \<le> m" "\<forall>x \<in> set xs. s \<le> x \<and> x < s + W" "s \<in> set xs \<or> m = 0 \<or> xs = [] \<and> s = unat now"
    "unat (rl_reset_time_ms (current_entry now key L)) = s + W"
    "unat (rl_count (current_entry now key L)) = length xs"
    "s \<le> unat now" "unat now < s + W"
proof -
  note window = that
  have w: "unat (now + window_ms L) = unat now + W"
    using assms(1,3) by (simp add: tracks_def window_ms_def unat_word_ariths unsigned_of_nat
        take_bit_eq_mod)
  have t: "unat t \<le> unat now"
    using assms(2) by (simp add: word_le_nat_alt)
  have wd: "windowed W m ws" and W: "0 < W"
    using assms(1) by (auto simp: tracks_def)
  have fresh: thesis
    if "current_entry now key L = \<lparr> rl_count = 0, rl_reset_time_ms = now + window_ms L \<rparr>"
      and "follows W (unat now) ws"
    using window [of ws "unat now" "[]"] wd W w that by simp
  show thesis
  proof (cases "hm_get (rl_entries L) key")
    case None
    then have "follows W (unat now) ws"
      using assms(1) t by (auto simp: tracks_def elim: follows_mono)
    with None show thesis
      by (intro fresh) (simp_all add: current_entry_def Let_def)
  next
    case (Some e)
    with assms(1) obtain s xs ws' where ws: "ws = (s, xs) # ws'"
      and r: "unat (rl_reset_time_ms e) = s + W" and c: "unat (rl_count e) = length xs"
      and s: "s \<le> unat t"
      by (auto simp: tracks_def)
    show thesis
    proof (cases "rl_reset_time_ms e \<le> now")
      case True
      then have "s + W \<le> unat now"
        using r by (simp add: word_le_nat_alt)
      with Some True ws show thesis
        by (intro fresh) (simp_all add: current_entry_def Let_def)
    next
      case False
      then have "current_entry now key L = e" and "unat now < s + W"
        using Some r by (simp_all add: current_entry_def Let_def word_le_nat_alt)
      then show thesis
        using window [of ws' s xs] wd ws r c s t by auto
    qed
  qed
qed

lemma tracks_later:
  assumes "tracks key W m t L ws" "t \<le> now"
  shows "tracks key W m now L ws"
proof -
  have "unat t \<le> unat now"
    using assms(2) by (simp add: word_le_nat_alt)
  then show ?thesis
  proof (cases "hm_get (rl_entries L) key")
    case None
    with assms(1) \<open>unat t \<le> unat now\<close> show ?thesis
      by (auto simp: tracks_def elim: follows_mono)
  next
    case (Some e)
    with assms(1) obtain s xs ws' where "ws = (s, xs) # ws'" "unat (rl_reset_time_ms e) = s + W"
      "unat (rl_count e) = length xs" "s \<le> unat t"
      by (auto simp: tracks_def)
    with Some assms(1) \<open>unat t \<le> unat now\<close> show ?thesis
      by (simp add: tracks_def)
  qed
qed

lemma tracks_put_same:
  assumes "tracks key W m t L ws" "windowed W m ((s, xs) # ws')" "unat (rl_reset_time_ms e) = s + W"
    "unat (rl_count e) = length xs" "s \<le> unat now"
  shows "tracks key W m now (put_entry key e L) ((s, xs) # ws')"
  using assms by (simp add: tracks_def put_entry_def hm_get_insert)

lemma tracks_put_other:
  "tracks key W m t L ws \<Longrightarrow> k \<noteq> key \<Longrightarrow> tracks key W m t (put_entry k e L) ws"
  by (auto simp: tracks_def put_entry_def hm_get_insert)

lemma tracks_cleanup:
  assumes "tracks key W m now L ws"
  shows "tracks key W m now (rl_cleanup now L) ws"
proof -
  have "hm_wf (rl_entries L)"
    using assms by (simp add: tracks_def)
  note get = map_of_filter_wf [OF this, of "\<lambda>e. now < rl_reset_time_ms e"]
  show ?thesis
  proof (cases "hm_get (rl_entries L) key")
    case None
    with assms show ?thesis
      by (simp add: tracks_def rl_cleanup_def get distinct_map_filter)
  next
    case (Some e)
    with assms obtain s xs ws' where "ws = (s, xs) # ws'" "unat (rl_reset_time_ms e) = s + W"
      by (auto simp: tracks_def)
    moreover have "now < rl_reset_time_ms e \<longleftrightarrow> unat now < unat (rl_reset_time_ms e)"
      by (rule word_less_nat_alt)
    ultimately show ?thesis
      using Some assms by (simp add: tracks_def rl_cleanup_def get distinct_map_filter)
  qed
qed

lemma unat_Suc_less: "c < (d :: u32) \<Longrightarrow> unat (c + 1) = Suc (unat c)"
proof -
  assume "c < d"
  then have "unat c < unat d" and "unat d < 2 ^ 32"
    using unsigned_less [of d] by (simp_all add: word_less_nat_alt)
  then have "unat c + unat (1 :: u32) < 2 ^ 32"
    by simp
  then show "unat (c + 1) = Suc (unat c)"
    by (simp add: unat_word_ariths)
qed

text \<open>What a request answers and where it is counted.\<close>

lemma tracks_request:
  assumes "tracks key W m t L ws" "t \<le> now" "unat now + W < 2 ^ 64"
  shows "\<exists>ws'. tracks key W m now (snd (check_and_increment now key L)) ws' \<and>
    (case fst (check_and_increment now key L) of
       Inr _ \<Rightarrow> grouped ws' = unat now # grouped ws
     | Inl e \<Rightarrow> e = RateLimited \<and> grouped ws' = grouped ws \<and>
         (\<exists>xs ys. grouped ws = xs @ ys \<and> length xs = m \<and> (\<forall>x \<in> set xs. unat now < x + W)))"
proof -
  let ?e = "current_entry now key L"
  obtain s xs ws' where wd: "windowed W m ws'" "follows W s ws'" and g: "grouped ws = xs @ grouped ws'"
    and xs: "length xs \<le> m" "\<forall>x \<in> set xs. s \<le> x \<and> x < s + W" "s \<in> set xs \<or> m = 0 \<or> xs = [] \<and> s = unat now"
    and r: "unat (rl_reset_time_ms ?e) = s + W" and c: "unat (rl_count ?e) = length xs"
    and s: "s \<le> unat now" "unat now < s + W"
    by (rule tracks_current [OF assms])
  have m: "unat (rl_max_requests L) = m"
    using assms(1) by (simp add: tracks_def)
  show ?thesis
  proof (cases "rl_max_requests L \<le> rl_count ?e")
    case True
    with m c xs have len: "length xs = m"
      by (simp add: word_le_nat_alt)
    have "\<forall>x \<in> set xs. unat now < x + W"
      using xs s by fastforce
    moreover have "windowed W m ((s, xs) # ws')"
      using wd xs len by auto
    ultimately show ?thesis
      using len g tracks_put_same [OF assms(1) _ r c s(1)] True
      by (intro exI [of _ "(s, xs) # ws'"]) (auto simp: check_and_increment_def Let_def)
  next
    case False
    let ?e' = "?e\<lparr> rl_count := rl_count ?e + 1 \<rparr>"
    from False have less: "rl_count ?e < rl_max_requests L"
      by simp
    then have "unat (rl_count ?e') = length (unat now # xs)"
      using c by (simp add: unat_Suc_less)
    moreover have "windowed W m ((s, unat now # xs) # ws')"
      using wd xs s less m c by (auto simp: word_less_nat_alt)
    moreover have "unat (rl_reset_time_ms ?e') = s + W"
      using r by simp
    ultimately have "tracks key W m now (put_entry key ?e' L) ((s, unat now # xs) # ws')"
      using tracks_put_same [OF assms(1)] s(1) by blast
    with g False show ?thesis
      by (intro exI [of _ "(s, unat now # xs) # ws'"]) (auto simp: check_and_increment_def Let_def)
  qed
qed

lemma tracks_step:
  assumes "tracks key W m t L ws" "t \<le> op_time op" "unat (op_time op) + W < 2 ^ 64"
    and "\<forall>now. op \<noteq> Record now key"
  shows "\<exists>ws'. tracks key W m (op_time op) (snd (limiter_step op L)) ws' \<and>
    grouped ws' = map unat (accepted_at key [op] L) @ grouped ws"
proof -
  have tr: "tracks key W m (op_time op) L ws"
    using assms(1,2) by (rule tracks_later)
  show ?thesis
  proof (cases op)
    case (Request now k)
    show ?thesis
    proof (cases "k = key")
      case True
      with Request have "accepted_at key [op] L =
          (case fst (check_and_increment now key L) of Inr _ \<Rightarrow> [now] | Inl _ \<Rightarrow> [])"
        by (cases "fst (check_and_increment now key L)") auto
      with tracks_request [OF assms(1), of now] assms(2,3) Request True show ?thesis
        by (cases "fst (check_and_increment now key L)") auto
    next
      case False
      with tr Request show ?thesis
        by (auto simp: check_and_increment_def Let_def intro: tracks_put_other)
    qed
  next
    case (Record now k)
    with tr assms(4) show ?thesis
      by (auto simp: record_attempt_def Let_def intro!: exI [of _ ws] tracks_put_other)
  qed (use tr in \<open>auto intro: tracks_cleanup\<close>)
qed

lemma tracks_run:
  assumes "tracks key W m t L ws" "clock_runs t ops"
    and "\<forall>op \<in> set ops. unat (op_time op) + W < 2 ^ 64 \<and> (\<forall>now. op \<noteq> Record now key)"
  shows "\<exists>ws'. tracks key W m (op_time (last (Cleanup t # ops)))
      (fold (\<lambda>op L. snd (limiter_step op L)) ops L) ws' \<and>
    mset (grouped ws') = mset (map unat (accepted_at key ops L)) + mset (grouped ws)"
  using assms
proof (induction ops arbitrary: t L ws)
  case (Cons op ops)
  let ?L = "snd (limiter_step op L)"
  obtain ws1 where 1: "tracks key W m (op_time op) ?L ws1"
    "grouped ws1 = map unat (accepted_at key [op] L) @ grouped ws"
    using tracks_step [OF Cons.prems(1), of op] Cons.prems(2,3) by auto
  obtain ws2 where 2: "tracks key W m (op_time (last (Cleanup (op_time op) # ops)))
      (fold (\<lambda>op L. snd (limiter_step op L)) ops ?L) ws2"
    "mset (grouped ws2) = mset (map unat (accepted_at key ops ?L)) + mset (grouped ws1)"
    using Cons.IH [OF 1(1)] Cons.prems(2,3) by auto
  have acc: "accepted_at key (op # ops) L = accepted_at key [op] L @ accepted_at key ops ?L"
    by (simp add: split_def Let_def)
  have "op_time (last (Cleanup t # op # ops)) = op_time (last (Cleanup (op_time op) # ops))"
    by (cases ops) auto
  moreover have "mset (grouped ws2) = mset (map unat (accepted_at key (op # ops) L)) + mset (grouped ws)"
    unfolding acc 2(2) 1(2) mset_append map_append by (simp only: ac_simps)
  ultimately show ?case
    using 2(1) by (intro exI [of _ ws2]) simp
qed auto

section \<open>The properties\<close>

lemma tracks_new:
  "0 < W \<Longrightarrow> unat m' = m \<Longrightarrow> tracks key W m 0 (rate_limiter_new m' W) []"
  by (simp add: tracks_def rate_limiter_new_def)

text \<open>
  C31. A limiter with capacity \<open>m\<close> and window \<open>W\<close>, on a clock that does not run backwards and stays
  a window short of wrapping around, and a key that only \<open>check_and_increment\<close> counts (no
  \<open>record_attempt\<close>, as for the API and the action limiter): the requests let through fall into
  windows of length \<open>W\<close> that do not overlap, at most \<open>m\<close> in each; so in any stretch of time as long
  as a window there are at most \<open>2 m - 1\<close> (a window used up at its end and the next at its start);
  and a request is refused only when \<open>m\<close> were let through less than a window before it.
\<close>

theorem window_capacity:
  fixes m :: u32
  assumes "clock_runs 0 ops" and "0 < W"
    and "\<forall>op \<in> set ops. unat (op_time op) + W < 2 ^ 64 \<and> (\<forall>now. op \<noteq> Record now key)"
    and "op_time (last (Cleanup 0 # ops)) \<le> now" and "unat now + W < 2 ^ 64"
    and "map unat (accepted_at key ops (rate_limiter_new m W)) = accepted"
    and "fold (\<lambda>op L. snd (limiter_step op L)) ops (rate_limiter_new m W) = L"
  shows "(\<exists>windows. windowed W (unat m) windows \<and> mset (grouped windows) = mset accepted) \<and>
    hits from_ms W accepted \<le> 2 * unat m - 1 \<and>
    (fst (check_and_increment now key L) = Inl RateLimited \<longrightarrow>
      unat m \<le> length (filter (\<lambda>t. unat now < t + W) accepted))"
proof -
  have "\<exists>ws. tracks key W (unat m) (op_time (last (Cleanup 0 # ops))) L ws \<and>
      mset (grouped ws) = mset accepted"
    using tracks_run [OF tracks_new [OF assms(2) refl, of key m] assms(1,3)]
    by (simp add: assms(7) flip: assms(6) del: last.simps)
  then obtain ws where tr: "tracks key W (unat m) (op_time (last (Cleanup 0 # ops))) L ws"
    and ms: "mset (grouped ws) = mset accepted"
    by blast
  have counts: "length (filter P (grouped ws)) = length (filter P accepted)" for P
    by (metis ms mset_filter size_mset)
  have windows: "windowed W (unat m) ws"
    using tr by (simp add: tracks_def)
  then have "hits from_ms W accepted \<le> 2 * unat m - 1"
    using windowed_twice [OF windows, of from_ms] by (simp add: hits_def counts)
  moreover have "unat m \<le> length (filter (\<lambda>t. unat now < t + W) accepted)"
    if limited: "fst (check_and_increment now key L) = Inl RateLimited"
  proof -
    obtain xs ys where g: "grouped ws = xs @ ys" "length xs = unat m" "\<forall>x \<in> set xs. unat now < x + W"
      using tracks_request [OF tr assms(4,5)] by (auto simp: limited)
    with counts [of "\<lambda>t. unat now < t + W"] show ?thesis
      by simp
  qed
  ultimately show ?thesis
    using windows ms by blast
qed

text \<open>The bound is met: a capacity of two, three requests within a window.\<close>

theorem window_capacity_witness:
  "map unat (accepted_at ''ip'' [Request 0 ''ip'', Request 9 ''ip'', Request 10 ''ip'', Cleanup 10, Request 11 ''ip'']
      (rate_limiter_new 2 10)) = [0, 9, 10, 11] \<and>
    hits 9 10 [0, 9, 10, 11] = 3 \<and> hits 9 10 [0, 9, 10, 11] \<le> 2 * unat (2 :: u32) - 1"
proof -
  have times: "map unat (accepted_at ''ip''
      [Request 0 ''ip'', Request 9 ''ip'', Request 10 ''ip'', Cleanup 10, Request 11 ''ip'']
      (rate_limiter_new 2 10)) = [0, 9, 10, 11]"
    by code_simp
  from window_capacity [OF _ _ _ _ _ this refl, of 12 9]
  have "hits 9 10 [0, 9, 10, 11] \<le> 2 * unat (2 :: u32) - 1"
    by simp
  with times show ?thesis
    by (simp add: hits_def)
qed

text \<open>
  C32. The cleanup task is invisible to clients: on a clock that does not run backwards, the
  answers of any history are those of the same history without its cleanups.
\<close>

theorem cleanup_is_invisible:
  "clock_runs 0 ops \<Longrightarrow>
    answers ops (rate_limiter_new m window) =
    answers (filter (\<lambda>op. \<not> is_cleanup op) ops) (rate_limiter_new m window)"
  by (rule cleaned_answers) (simp_all add: cleaned_def rate_limiter_new_def)

theorem cleanup_is_invisible_witness:
  "answers [Request 1 ''ip'', Request 2 ''ip'', Cleanup 20, Request 21 ''ip''] (rate_limiter_new 1 10) =
     answers [Request 1 ''ip'', Request 2 ''ip'', Request 21 ''ip''] (rate_limiter_new 1 10) \<and>
   answers [Request 1 ''ip'', Request 2 ''ip'', Request 21 ''ip''] (rate_limiter_new 1 10) =
     [Inr (), Inl RateLimited, Inr ()]"
proof (rule conjI)
  show "answers [Request 1 ''ip'', Request 2 ''ip'', Cleanup 20, Request 21 ''ip''] (rate_limiter_new 1 10) =
     answers [Request 1 ''ip'', Request 2 ''ip'', Request 21 ''ip''] (rate_limiter_new 1 10)"
    using cleanup_is_invisible [of "[Request 1 ''ip'', Request 2 ''ip'', Cleanup 20, Request 21 ''ip'']" 1 10]
    by simp
  show "answers [Request 1 ''ip'', Request 2 ''ip'', Request 21 ''ip''] (rate_limiter_new 1 10) =
     [Inr (), Inl RateLimited, Inr ()]"
    by code_simp
qed

text \<open>
  The login limiter checks and records in two critical sections, so requests that are in flight
  together all pass the check before any of them is recorded: their number is not bounded by
  the capacity.
\<close>

lemma failures_in_flight_are_counted:
  assumes "hm_get (rl_entries L) (extract_client_ip headers) = Some e"
    and "\<forall>now \<in> set stamps. now < rl_reset_time_ms e"
  shows "hm_get (rl_entries (fold (\<lambda>now. auth_middleware_leave now headers False) stamps L))
    (extract_client_ip headers) = Some (e\<lparr> rl_count := rl_count e + of_nat (length stamps) \<rparr>)"
  using assms
proof (induction stamps arbitrary: L e)
  case (Cons now stamps)
  let ?L = "auth_middleware_leave now headers False L" and ?e = "e\<lparr> rl_count := rl_count e + 1 \<rparr>"
  have "hm_get (rl_entries ?L) (extract_client_ip headers) = Some ?e"
    using Cons.prems by (simp add: auth_middleware_leave_def record_attempt_def current_entry_def
        hm_get_insert Let_def not_less [symmetric] del: not_less)
  from Cons.IH [OF this] Cons.prems(2) show ?case
    by (simp add: ac_simps)
qed simp

theorem concurrent_logins_exceed_limit:
  assumes "hm_get (rl_entries L) (extract_client_ip headers) = Some e"
    and "rl_count e < rl_max_requests L"
    and "\<forall>now \<in> set stamps. now < rl_reset_time_ms e"
  shows "(\<forall>now \<in> set stamps. auth_middleware_enter now headers L = Inr ()) \<and>
    map_option rl_count (hm_get
      (rl_entries (fold (\<lambda>now. auth_middleware_leave now headers False) stamps L))
      (extract_client_ip headers)) = Some (rl_count e + of_nat (length stamps))"
  using assms failures_in_flight_are_counted [OF assms(1,3)]
  by (auto simp: auth_middleware_enter_def rl_check_def)

end
