(* ===== verification/ExtTypes.thy ===== *)
theory ExtTypes
  imports Prelude "HOL-Library.Word"
begin

text \<open>
  The data of the extension system (\<open>veryagent-extension/src/types.rs\<close>): what a manifest
  declares, what a loaded extension is, and what the resolvers make of its contributions. A
  \<open>serde_json::Value\<close> the code only passes on is an opaque type \<open>'j\<close>; paths are strings.
\<close>

type_synonym u32 = "32 word"

section \<open>Permissions\<close>

datatype network_permission = Unrestricted bool | Scoped (allowed_domains: "string list") (reasoning: string)

datatype filesystem_scope = ExtensionOnly | Workspace | FsFull

record ext_permissions =
  ep_storage :: "bool option"
  ep_network :: "network_permission option"
  ep_shell :: "bool option"
  ep_filesystem :: "filesystem_scope option"
  ep_clipboard :: "bool option"
  ep_active_user :: "bool option"
  ep_events :: "bool option"

datatype risk_level = Safe | Moderate | Dangerous

datatype permission_level = PNone | PLimited | PFull

record permission_detail =
  pd_permission :: string
  pd_level :: permission_level
  pd_description :: string

record permission_summary =
  ps_permissions :: ext_permissions
  ps_risk_level :: risk_level
  ps_details :: "permission_detail list"

section \<open>Contributions as declared\<close>

record 'j ext_acp_adapter =
  ea_id :: string
  ea_name :: string
  ea_description :: "string option"
  ea_cli_command :: "string option"
  ea_default_cli_path :: "string option"
  ea_acp_args :: "string list"
  ea_env :: "(string, string) hmap"
  ea_avatar :: "string option"
  ea_auth_required :: "bool option"
  ea_supports_streaming :: "bool option"
  ea_connection_type :: "string option"
  ea_endpoint :: "string option"
  ea_models :: "string list"
  ea_yolo_mode :: "'j option"
  ea_health_check :: "'j option"
  ea_api_key_fields :: "'j list"

record 'j ext_mcp_server =
  em_id :: string
  em_name :: string
  em_description :: "string option"
  em_config :: "'j"

record ext_assistant =
  es_id :: string
  es_name :: string
  es_description :: "string option"
  es_system_prompt :: "string option"
  es_icon :: "string option"
  es_context :: "string option"
  es_agent_id :: "string option"
  es_enabled_skills :: "string list"
  es_prompts :: "string list"
  es_models :: "string list"

record ext_agent =
  eg_id :: string
  eg_name :: string
  eg_description :: "string option"
  eg_agent_type :: "string option"
  eg_context :: "string option"
  eg_icon :: "string option"
  eg_enabled_skills :: "string list"
  eg_prompts :: "string list"
  eg_models :: "string list"

record ext_skill =
  ek_name :: string
  ek_description :: "string option"
  ek_path :: "string option"

record ext_theme =
  et_id :: string
  et_name :: string
  et_description :: "string option"
  et_css_file :: string
  et_cover_image :: "string option"

record 'j ext_channel_plugin =
  ec_id :: string
  ec_name :: string
  ec_description :: "string option"
  ec_platform :: "string option"
  ec_entry_point :: "string option"
  ec_icon :: "string option"
  ec_credential_fields :: "'j list"
  ec_config_fields :: "'j list"

record ext_webui_route =
  wr_path :: string
  wr_method :: string
  wr_handler :: string

record ext_webui =
  ew_id :: string
  ew_directory :: string
  ew_routes :: "ext_webui_route list"

record settings_tab_position =
  tp_relative_to :: string
  tp_placement :: string

record ext_settings_tab =
  tb_id :: string
  tb_label :: string
  tb_icon :: "string option"
  tb_url :: string
  tb_position :: "settings_tab_position option"
  tb_order :: u32

record ext_model_provider =
  mp_id :: string
  mp_name :: string
  mp_description :: "string option"
  mp_protocol :: "string option"
  mp_base_url :: "string option"
  mp_models :: "string list"

record 'j ext_contributes =
  ct_acp_adapters :: "'j ext_acp_adapter list"
  ct_mcp_servers :: "'j ext_mcp_server list"
  ct_assistants :: "ext_assistant list"
  ct_agents :: "ext_agent list"
  ct_skills :: "ext_skill list"
  ct_themes :: "ext_theme list"
  ct_channel_plugins :: "'j ext_channel_plugin list"
  ct_webui :: "ext_webui list"
  ct_settings_tabs :: "ext_settings_tab list"
  ct_model_providers :: "ext_model_provider list"

section \<open>Manifest and loaded extension\<close>

record i18n_config =
  i18n_locales :: "string list"
  i18n_directory :: string

record engine_config =
  eng_veryagent :: "string option"

record lifecycle_hooks =
  on_install :: "string option"
  on_uninstall :: "string option"
  on_activate :: "string option"
  on_deactivate :: "string option"

record 'j extension_manifest =
  mf_name :: string
  mf_version :: string
  mf_display_name :: "string option"
  mf_description :: "string option"
  mf_author :: "string option"
  mf_license :: "string option"
  mf_homepage :: "string option"
  mf_icon :: "string option"
  mf_engine :: "engine_config option"
  mf_api_version :: "string option"
  mf_dependencies :: "(string, string) hmap"
  mf_entry_point :: "string option"
  mf_permissions :: "ext_permissions option"
  mf_contributes :: "'j ext_contributes option"
  mf_lifecycle :: "lifecycle_hooks option"
  mf_i18n :: "i18n_config option"

datatype extension_source = Local | Appdata | Env

record extension_state =
  xs_name :: string
  xs_version :: string
  xs_enabled :: bool
  xs_installed_at :: "timestamp_ms option"
  xs_last_activated_at :: "timestamp_ms option"

record 'j loaded_extension =
  le_manifest :: "'j extension_manifest"
  le_directory :: string
  le_source :: extension_source
  le_state :: extension_state

abbreviation le_name :: "'j loaded_extension \<Rightarrow> string" where
  "le_name e \<equiv> mf_name (le_manifest e)"

abbreviation le_enabled :: "'j loaded_extension \<Rightarrow> bool" where
  "le_enabled e \<equiv> xs_enabled (le_state e)"

abbreviation le_dependencies :: "'j loaded_extension \<Rightarrow> (string, string) hmap" where
  "le_dependencies e \<equiv> mf_dependencies (le_manifest e)"

datatype extension_system_event = ExtensionActivated | ExtensionDeactivated | ExtensionInstalled
  | ExtensionUninstalled | RegistryReloaded | StatesPersisted

section \<open>Contributions as resolved\<close>

record 'j resolved_acp_adapter =
  ra_extension_name :: string
  ra_id :: string
  ra_name :: string
  ra_description :: "string option"
  ra_cli_command :: "string option"
  ra_default_cli_path :: "string option"
  ra_acp_args :: "string list"
  ra_env :: "(string, string) hmap"
  ra_avatar :: "string option"
  ra_auth_required :: "bool option"
  ra_supports_streaming :: "bool option"
  ra_connection_type :: "string option"
  ra_endpoint :: "string option"
  ra_models :: "string list"
  ra_yolo_mode :: "'j option"
  ra_health_check :: "'j option"
  ra_api_key_fields :: "'j list"

record 'j resolved_mcp_server =
  rm_extension_name :: string
  rm_id :: string
  rm_name :: string
  rm_description :: "string option"
  rm_config :: "'j"

record resolved_assistant =
  rs_extension_name :: string
  rs_id :: string
  rs_name :: string
  rs_description :: "string option"
  rs_system_prompt :: "string option"
  rs_icon :: "string option"
  rs_context :: "string option"
  rs_agent_id :: "string option"
  rs_enabled_skills :: "string list"
  rs_prompts :: "string list"
  rs_models :: "string list"

record resolved_agent =
  rg_extension_name :: string
  rg_id :: string
  rg_name :: string
  rg_description :: "string option"
  rg_agent_type :: "string option"
  rg_context :: "string option"
  rg_icon :: "string option"
  rg_enabled_skills :: "string list"
  rg_prompts :: "string list"
  rg_models :: "string list"

record resolved_skill =
  rk_extension_name :: string
  rk_name :: string
  rk_description :: "string option"
  rk_path :: "string option"

record resolved_theme =
  rt_extension_name :: string
  rt_id :: string
  rt_name :: string
  rt_description :: "string option"
  rt_css_content :: string
  rt_cover_image :: "string option"

record 'j resolved_channel_plugin =
  rc_extension_name :: string
  rc_id :: string
  rc_name :: string
  rc_description :: "string option"
  rc_platform :: "string option"
  rc_entry_point :: "string option"
  rc_icon :: "string option"
  rc_credential_fields :: "'j list"
  rc_config_fields :: "'j list"

record webui_contribution =
  wc_extension_name :: string
  wc_id :: string
  wc_directory :: string
  wc_routes :: "ext_webui_route list"

record resolved_settings_tab =
  rb_extension_name :: string
  rb_id :: string
  rb_label :: string
  rb_icon :: "string option"
  rb_url :: string
  rb_position :: "settings_tab_position option"
  rb_order :: u32

record resolved_model_provider =
  rp_extension_name :: string
  rp_id :: string
  rp_name :: string
  rp_description :: "string option"
  rp_protocol :: "string option"
  rp_base_url :: "string option"
  rp_models :: "string list"

record 'j resolved_contributions =
  rc_acp_adapters :: "'j resolved_acp_adapter list"
  rc_mcp_servers :: "'j resolved_mcp_server list"
  rc_assistants :: "resolved_assistant list"
  rc_agents :: "resolved_agent list"
  rc_skills :: "resolved_skill list"
  rc_themes :: "resolved_theme list"
  rc_channel_plugins :: "'j resolved_channel_plugin list"
  rc_webui :: "webui_contribution list"
  rc_settings_tabs :: "resolved_settings_tab list"
  rc_model_providers :: "resolved_model_provider list"
  rc_i18n :: "(string, (string, string) hmap) hmap"

end
