(* ===== verification/ExtPermission.thy ===== *)
theory ExtPermission
  imports ExtTypes
begin

text \<open>
  The risk analysis of extension permissions (\<open>veryagent-extension/src/permission.rs\<close>). Risk levels
  get the order the rules speak of, and the level the code computes is related to the entries it
  shows to the user.
\<close>

section \<open>The order of risk levels\<close>

fun risk_rank :: "risk_level \<Rightarrow> nat" where
  "risk_rank Safe = 0"
| "risk_rank Moderate = 1"
| "risk_rank Dangerous = 2"

lemma risk_rank_inject [simp]: "risk_rank a = risk_rank b \<longleftrightarrow> a = b"
  by (cases a; cases b) simp_all

instantiation risk_level :: linorder
begin

definition less_eq_risk_level :: "risk_level \<Rightarrow> risk_level \<Rightarrow> bool" where
  "a \<le> b \<longleftrightarrow> risk_rank a \<le> risk_rank b"

definition less_risk_level :: "risk_level \<Rightarrow> risk_level \<Rightarrow> bool" where
  "a < b \<longleftrightarrow> risk_rank a < risk_rank b"

instance
  by standard (auto simp: less_eq_risk_level_def less_risk_level_def)

end

lemma risk_order [simp]:
  "Safe \<le> r" "r \<le> Dangerous" "Moderate \<le> r \<longleftrightarrow> r \<noteq> Safe" "Dangerous \<le> r \<longleftrightarrow> r = Dangerous"
  by (cases r; simp add: less_eq_risk_level_def)+

section \<open>Operations\<close>

definition calculate_risk_level :: "ext_permissions \<Rightarrow> risk_level" where
  "calculate_risk_level p =
    (if ep_shell p = Some True then Dangerous
     else if ep_filesystem p = Some FsFull then Dangerous
     else if ep_network p = Some (Unrestricted True) then Dangerous
     else if (case ep_network p of Some (Scoped _ _) \<Rightarrow> True | _ \<Rightarrow> False) then Moderate
     else if ep_filesystem p = Some Workspace \<or> ep_filesystem p = Some ExtensionOnly then Moderate
     else Safe)"

abbreviation detail :: "string \<Rightarrow> permission_level \<Rightarrow> string \<Rightarrow> permission_detail" where
  "detail name level text \<equiv> \<lparr> pd_permission = name, pd_level = level, pd_description = text \<rparr>"

definition build_storage_detail :: "bool option \<Rightarrow> permission_detail" where
  "build_storage_detail storage =
    (if storage = Some True then detail ''storage'' PFull ''Persistent key-value storage access''
     else detail ''storage'' PNone ''No storage access'')"

definition build_network_detail :: "network_permission option \<Rightarrow> permission_detail" where
  "build_network_detail network =
    (case network of
      Some (Unrestricted True) \<Rightarrow> detail ''network'' PFull ''Unrestricted network access''
    | Some (Scoped domains _) \<Rightarrow>
        detail ''network'' PLimited (''Network access limited to: '' @ join_with '', '' domains)
    | _ \<Rightarrow> detail ''network'' PNone ''No network access'')"

definition build_shell_detail :: "bool option \<Rightarrow> permission_detail" where
  "build_shell_detail shell =
    (if shell = Some True then detail ''shell'' PFull ''System command execution''
     else detail ''shell'' PNone ''No shell access'')"

definition build_filesystem_detail :: "filesystem_scope option \<Rightarrow> permission_detail" where
  "build_filesystem_detail filesystem =
    (case filesystem of
      Some FsFull \<Rightarrow> detail ''filesystem'' PFull ''Full filesystem access''
    | Some Workspace \<Rightarrow> detail ''filesystem'' PLimited ''Workspace directory access''
    | Some ExtensionOnly \<Rightarrow> detail ''filesystem'' PLimited ''Extension directory access only''
    | None \<Rightarrow> detail ''filesystem'' PNone ''No filesystem access'')"

definition build_bool_detail :: "string \<Rightarrow> bool option \<Rightarrow> string \<Rightarrow> permission_detail" where
  "build_bool_detail name value granted_desc =
    (if value = Some True then detail name PFull granted_desc
     else detail name PNone (''No '' @ name @ '' access''))"

definition build_details :: "ext_permissions \<Rightarrow> permission_detail list" where
  "build_details p =
    [build_storage_detail (ep_storage p), build_network_detail (ep_network p),
     build_shell_detail (ep_shell p), build_filesystem_detail (ep_filesystem p),
     build_bool_detail ''clipboard'' (ep_clipboard p) ''Clipboard read/write access'',
     build_bool_detail ''activeUser'' (ep_active_user p) ''Access to current user information'',
     build_bool_detail ''events'' (ep_events p) ''Extension event bus communication'']"

definition build_permission_summary :: "ext_permissions \<Rightarrow> permission_summary" where
  "build_permission_summary p =
    \<lparr> ps_permissions = p, ps_risk_level = calculate_risk_level p, ps_details = build_details p \<rparr>"

section \<open>The level is the worst of the entries\<close>

text \<open>The rules of the documentation, entry by entry.\<close>

definition risk_of_detail :: "permission_detail \<Rightarrow> risk_level" where
  "risk_of_detail d =
    (if pd_permission d \<in> {''shell'', ''filesystem'', ''network''}
     then (case pd_level d of PFull \<Rightarrow> Dangerous | PLimited \<Rightarrow> Moderate | PNone \<Rightarrow> Safe)
     else Safe)"

lemma risk_of_entries [simp]:
  "risk_of_detail (build_storage_detail b) = Safe"
  "risk_of_detail (build_shell_detail b) = (if b = Some True then Dangerous else Safe)"
  "risk_of_detail (build_network_detail n) =
    (case n of Some (Unrestricted True) \<Rightarrow> Dangerous | Some (Scoped _ _) \<Rightarrow> Moderate | _ \<Rightarrow> Safe)"
  "risk_of_detail (build_filesystem_detail f) =
    (case f of None \<Rightarrow> Safe | Some FsFull \<Rightarrow> Dangerous | _ \<Rightarrow> Moderate)"
  by (auto simp: risk_of_detail_def build_storage_detail_def build_shell_detail_def
      build_network_detail_def build_filesystem_detail_def
      split: option.split network_permission.split filesystem_scope.split bool.split)

lemma risk_of_bool_detail [simp]:
  "name \<notin> {''shell'', ''filesystem'', ''network''} \<Longrightarrow> risk_of_detail (build_bool_detail name b text) = Safe"
  by (simp add: risk_of_detail_def build_bool_detail_def)

text \<open>
  The risk level of a permission summary is the highest risk among the entries it lists for
  the user: full shell, filesystem or network access is dangerous, limited access to the
  filesystem or the network is moderate, and no other entry adds any risk.
\<close>

theorem risk_is_worst_entry:
  "ps_risk_level (build_permission_summary p) =
    Max (risk_of_detail ` set (ps_details (build_permission_summary p)))"
proof (rule sym, rule Max_eqI)
  show "r \<le> ps_risk_level (build_permission_summary p)"
    if "r \<in> risk_of_detail ` set (ps_details (build_permission_summary p))" for r
    using that by (auto simp: build_permission_summary_def build_details_def calculate_risk_level_def
        split: option.splits network_permission.splits filesystem_scope.splits bool.splits if_splits)
  show "ps_risk_level (build_permission_summary p)
      \<in> risk_of_detail ` set (ps_details (build_permission_summary p))"
    by (auto simp: build_permission_summary_def build_details_def calculate_risk_level_def
        split: option.splits network_permission.splits filesystem_scope.splits bool.splits if_splits)
qed simp

end
