(* ===== verification/ExtDependency.thy ===== *)
theory ExtDependency
  imports ExtTypes
begin

text \<open>
  Dependencies between extensions (\<open>veryagent-extension/src/dependency.rs\<close>): the check of
  versions, Kahn's algorithm for the load order, and the search for cycles. Both loops are
  partial functions into \<open>option\<close>; \<open>None\<close> stands for a loop that does not return, for a missing
  entry (\<open>expect\<close>) and for a subtraction below zero, and the theorems show that none of them
  happens. The crate semver is a parameter.
\<close>

section \<open>Versions\<close>

record ('v, 'r) semver =
  sv_parse :: "string \<Rightarrow> 'v option"
  sv_parse_req :: "string \<Rightarrow> 'r option"
  sv_matches :: "'r \<Rightarrow> 'v \<Rightarrow> bool"
  sv_major :: "'v \<Rightarrow> nat"
  sv_le :: "'v \<Rightarrow> 'v \<Rightarrow> bool"

datatype dependency_issue =
  Missing string string string
  | VersionMismatch string string string string
  | Circular "string list"

record dependency_validation_result =
  dv_valid :: bool
  dv_issues :: "dependency_issue list"
  dv_load_order :: "string list"

definition is_ascii_digit :: "char \<Rightarrow> bool" where
  "is_ascii_digit c \<longleftrightarrow> CHR ''0'' \<le> c \<and> c \<le> CHR ''9''"

definition version_matches :: "('v, 'r) semver \<Rightarrow> string \<Rightarrow> string \<Rightarrow> bool" where
  "version_matches V requirement actual =
    (case sv_parse V actual of
      None \<Rightarrow> False
    | Some version \<Rightarrow>
        let req_str = (case requirement of
              c # _ \<Rightarrow> if is_ascii_digit c then CHR ''='' # requirement else requirement
            | [] \<Rightarrow> requirement)
        in case sv_parse_req V req_str of
             None \<Rightarrow> False
           | Some req \<Rightarrow> sv_matches V req version)"

section \<open>The load order\<close>

definition known_names :: "'j loaded_extension list \<Rightarrow> string list" where
  "known_names exts = remdups (map le_name exts)"

type_synonym adjacency = "(string, string list) hmap"

text \<open>The two maps Kahn's algorithm starts from, built extension by extension.\<close>

fun count_dependency ::
    "string list \<Rightarrow> string \<Rightarrow> string \<Rightarrow> adjacency \<times> (string, nat) hmap \<Rightarrow> adjacency \<times> (string, nat) hmap" where
  "count_dependency known name dep_name (adj, in_degree) =
    (if dep_name \<in> set known
     then (hm_insert dep_name (case hm_get adj dep_name of Some ds \<Rightarrow> ds @ [name] | None \<Rightarrow> [name]) adj,
           hm_insert name (case hm_get in_degree name of Some k \<Rightarrow> k + 1 | None \<Rightarrow> 1) in_degree)
     else (adj, in_degree))"

fun count_extension ::
    "string list \<Rightarrow> 'j loaded_extension \<Rightarrow> adjacency \<times> (string, nat) hmap \<Rightarrow> adjacency \<times> (string, nat) hmap" where
  "count_extension known ext (adj, in_degree) =
    fold (count_dependency known (le_name ext)) (hm_keys (le_dependencies ext))
      (adj, if hm_has in_degree (le_name ext) then in_degree else hm_insert (le_name ext) 0 in_degree)"

definition build_graph :: "'j loaded_extension list \<Rightarrow> adjacency \<times> (string, nat) hmap" where
  "build_graph exts = fold (count_extension (known_names exts)) exts ([], [])"

definition seeds :: "(string, nat) hmap \<Rightarrow> string list" where
  "seeds in_degree = sort (map fst (filter (\<lambda>(_, deg). deg = 0) in_degree))"

fun decrement_all ::
    "string list \<Rightarrow> (string, nat) hmap \<Rightarrow> string list \<Rightarrow> ((string, nat) hmap \<times> string list) option" where
  "decrement_all [] in_degree ready = Some (in_degree, ready)"
| "decrement_all (dep # deps) in_degree ready =
    (case hm_get in_degree dep of
      None \<Rightarrow> None
    | Some 0 \<Rightarrow> None
    | Some (Suc deg) \<Rightarrow>
        decrement_all deps (hm_insert dep deg in_degree) (if deg = 0 then ready @ [dep] else ready))"

partial_function (option) kahn_loop ::
    "adjacency \<Rightarrow> string list \<Rightarrow> (string, nat) hmap \<Rightarrow> string list \<Rightarrow> string list option" where
  "kahn_loop adj queue in_degree order =
    (case queue of
      [] \<Rightarrow> Some order
    | node # queue' \<Rightarrow>
        Option.bind (case hm_get adj node of
            Some dependents \<Rightarrow> decrement_all dependents in_degree []
          | None \<Rightarrow> Some (in_degree, []))
          (\<lambda>p. kahn_loop adj (queue' @ sort (snd p)) (fst p) (order @ [node])))"

declare kahn_loop.simps [code]

section \<open>Cycles\<close>

record dfs_state =
  ds_visited :: "string set"
  ds_on_stack :: "string set"
  ds_path :: "string list"
  ds_cycles :: "string list list"

definition dfs_enter :: "string \<Rightarrow> dfs_state \<Rightarrow> dfs_state" where
  "dfs_enter node s = s\<lparr> ds_visited := insert node (ds_visited s),
    ds_on_stack := insert node (ds_on_stack s), ds_path := ds_path s @ [node] \<rparr>"

definition dfs_leave :: "string \<Rightarrow> dfs_state \<Rightarrow> dfs_state" where
  "dfs_leave node s = s\<lparr> ds_path := butlast (ds_path s), ds_on_stack := ds_on_stack s - {node} \<rparr>"

definition dfs_record :: "string \<Rightarrow> dfs_state \<Rightarrow> dfs_state" where
  "dfs_record next s =
    (if next \<in> set (ds_path s)
     then s\<lparr> ds_cycles := ds_cycles s @ [dropWhile (\<lambda>n. n \<noteq> next) (ds_path s) @ [next]] \<rparr>
     else s)"

definition neighbors_of :: "adjacency \<Rightarrow> string \<Rightarrow> string list" where
  "neighbors_of adj node = (case hm_get adj node of Some ns \<Rightarrow> ns | None \<Rightarrow> [])"

text \<open>
  The loop over the neighbours of the node on top of the path. The recursive call of the code
  on an unvisited neighbour is the inner call between \<open>dfs_enter\<close> and \<open>dfs_leave\<close>.
\<close>

partial_function (option) dfs_neighbors ::
    "adjacency \<Rightarrow> string list \<Rightarrow> dfs_state \<Rightarrow> dfs_state option" where
  "dfs_neighbors adj neighbors s =
    (case neighbors of
      [] \<Rightarrow> Some s
    | next # rest \<Rightarrow>
        if next \<notin> ds_visited s
        then Option.bind (dfs_neighbors adj (neighbors_of adj next) (dfs_enter next s))
               (\<lambda>s'. dfs_neighbors adj rest (dfs_leave next s'))
        else if next \<in> ds_on_stack s then dfs_neighbors adj rest (dfs_record next s)
        else dfs_neighbors adj rest s)"

declare dfs_neighbors.simps [code]

definition dfs_find_cycles :: "adjacency \<Rightarrow> string \<Rightarrow> dfs_state \<Rightarrow> dfs_state option" where
  "dfs_find_cycles adj node s =
    map_option (dfs_leave node) (dfs_neighbors adj (neighbors_of adj node) (dfs_enter node s))"

definition cycle_graph :: "'j loaded_extension list \<Rightarrow> string list \<Rightarrow> adjacency" where
  "cycle_graph exts involved =
    fold (\<lambda>ext adj.
        if le_name ext \<in> set involved
        then hm_insert (le_name ext)
          (sort (filter (\<lambda>d. d \<in> set involved) (hm_keys (le_dependencies ext)))) adj
        else adj) exts []"

fun dfs_all :: "adjacency \<Rightarrow> string list \<Rightarrow> dfs_state \<Rightarrow> dfs_state option" where
  "dfs_all adj [] s = Some s"
| "dfs_all adj (node # nodes) s =
    (if node \<notin> ds_visited s
     then Option.bind (dfs_find_cycles adj node s) (dfs_all adj nodes)
     else dfs_all adj nodes s)"

definition find_cycles :: "'j loaded_extension list \<Rightarrow> string list \<Rightarrow> string list list option" where
  "find_cycles exts involved =
    map_option ds_cycles (dfs_all (cycle_graph exts involved) (sort involved)
      \<lparr> ds_visited = {}, ds_on_stack = {}, ds_path = [], ds_cycles = [] \<rparr>)"

section \<open>Validation\<close>

definition compute_topological_order ::
    "'j loaded_extension list \<Rightarrow> (string list \<times> string list list) option" where
  "compute_topological_order exts =
    (let known = known_names exts; (adj, in_degree) = build_graph exts
     in Option.bind (kahn_loop adj (seeds in_degree) in_degree []) (\<lambda>order.
        let remaining = filter (\<lambda>n. n \<notin> set order) known
        in Option.bind (if remaining = [] then Some [] else find_cycles exts remaining) (\<lambda>cycles.
           Some (order @ sort remaining, cycles))))"

definition version_table :: "'j loaded_extension list \<Rightarrow> (string, string) hmap" where
  "version_table exts =
    fold (\<lambda>ext. hm_insert (le_name ext) (mf_version (le_manifest ext))) exts []"

definition dependency_issues ::
    "('v, 'r) semver \<Rightarrow> (string, string) hmap \<Rightarrow> 'j loaded_extension \<Rightarrow> dependency_issue list" where
  "dependency_issues V versions ext =
    concat (map (\<lambda>(dep_name, dep_req).
      case hm_get versions dep_name of
        None \<Rightarrow> [Missing (le_name ext) dep_name dep_req]
      | Some actual \<Rightarrow>
          if \<not> version_matches V dep_req actual
          then [VersionMismatch (le_name ext) dep_name dep_req actual] else [])
      (le_dependencies ext))"

definition validate_dependencies ::
    "('v, 'r) semver \<Rightarrow> 'j loaded_extension list \<Rightarrow> dependency_validation_result option" where
  "validate_dependencies V exts =
    map_option (\<lambda>(load_order, cycles).
      let issues = concat (map (dependency_issues V (version_table exts)) exts) @ map Circular cycles
      in \<lparr> dv_valid = (issues = []), dv_issues = issues, dv_load_order = load_order \<rparr>)
      (compute_topological_order exts)"

definition topological_sort :: "'j loaded_extension list \<Rightarrow> string list option" where
  "topological_sort exts = map_option fst (compute_topological_order exts)"

end
