(* ===== verification/ExtAssets.thy ===== *)
theory ExtAssets
  imports ExtTypes
begin

text \<open>
  Paths an extension may name (\<open>veryagent-extension/src/asset_paths.rs\<close>, \<open>template.rs\<close>, the route
  checks of \<open>resolvers/webui.rs\<close> and the asset handler of \<open>routes.rs\<close>). Paths are those of a Unix
  system; the file system is a parameter that answers \<open>exists\<close>, \<open>canonicalize\<close> and \<open>read\<close>.
\<close>

section \<open>Paths of the standard library\<close>

datatype component = RootDir | CurDir | ParentDir | Normal string

definition component_of :: "string \<Rightarrow> component list" where
  "component_of s = (if s = [] \<or> s = ''.'' then [] else if s = ''..'' then [ParentDir] else [Normal s])"

text \<open>\<open>Path::components\<close>: a leading dot of a relative path is kept, other dots and empty parts go.\<close>

definition components :: "string \<Rightarrow> component list" where
  "components p =
    (case split_on CHR ''/'' p of
      first # rest \<Rightarrow>
        (if first = [] \<and> rest \<noteq> [] then [RootDir] else if first = ''.'' then [CurDir] else component_of first)
        @ concat (map component_of rest)
    | [] \<Rightarrow> [])"

definition is_absolute :: "string \<Rightarrow> bool" where
  "is_absolute p \<longleftrightarrow> (case p of c # _ \<Rightarrow> c = CHR ''/'' | [] \<Rightarrow> False)"

text \<open>\<open>Path::join\<close> and \<open>PathBuf::push\<close>: an absolute argument replaces the path.\<close>

definition path_join :: "string \<Rightarrow> string \<Rightarrow> string" where
  "path_join base p =
    (if is_absolute p then p
     else if base = [] \<or> last base = CHR ''/'' then base @ p
     else base @ ''/'' @ p)"

definition path_starts_with :: "string \<Rightarrow> string \<Rightarrow> bool" where
  "path_starts_with p base \<longleftrightarrow> take (length (components base)) (components p) = components base"

datatype io_error = IoNotFound | IoOther string

record filesystem =
  fs_exists :: "string \<Rightarrow> bool"
  fs_canonicalize :: "string \<Rightarrow> io_error + string"
  fs_read :: "string \<Rightarrow> io_error + string"

section \<open>Asset paths\<close>

definition starts_with :: "string \<Rightarrow> string \<Rightarrow> bool" where
  "starts_with s pre \<longleftrightarrow> take (length pre) s = pre"

definition is_remote_asset_url :: "string \<Rightarrow> bool" where
  "is_remote_asset_url v \<longleftrightarrow> starts_with v ''http://'' \<or> starts_with v ''https://''"

fun push_components :: "component list \<Rightarrow> string \<Rightarrow> string option" where
  "push_components [] normalized = Some normalized"
| "push_components (Normal part # cs) normalized = push_components cs (path_join normalized part)"
| "push_components (CurDir # cs) normalized = push_components cs normalized"
| "push_components (ParentDir # cs) normalized = None"
| "push_components (RootDir # cs) normalized = None"

definition normalize_relative_asset_path :: "string \<Rightarrow> string option" where
  "normalize_relative_asset_path path =
    (if CHR 0x5C \<in> set path then None
     else case push_components (components path) [] of
       None \<Rightarrow> None
     | Some normalized \<Rightarrow> if normalized = [] then None else Some normalized)"

fun normal_parts :: "component list \<Rightarrow> string list" where
  "normal_parts [] = []"
| "normal_parts (Normal part # cs) = part # normal_parts cs"
| "normal_parts (_ # cs) = normal_parts cs"

definition normalized_asset_url_path :: "string \<Rightarrow> string option" where
  "normalized_asset_url_path path =
    map_option (\<lambda>n. join_with ''/'' (normal_parts (components n))) (normalize_relative_asset_path path)"

definition resolve_extension_asset_url :: "string \<Rightarrow> string \<Rightarrow> string option" where
  "resolve_extension_asset_url extension_name raw =
    (if is_remote_asset_url raw then Some raw
     else map_option (\<lambda>relative. ''/api/extensions/'' @ extension_name @ ''/assets/'' @ relative)
       (normalized_asset_url_path raw))"

section \<open>Templates\<close>

datatype extension_error =
  ManifestValidation string
  | ReservedNamePrefix string string
  | InvalidVersion string string
  | UndefinedEnvVariable string
  | FileReferenceNotFound string
  | PathTraversal string
  | InvalidWebuiRouteNamespace string string
  | ReservedWebuiRoute string string
  | ThemeCssNotFound string
  | ResolutionFailed string string
  | HookTimeout string string nat
  | HookFailed string string string
  | HookNotFound string
  | ExtNotFound string
  | StatePersistence string
  | Io io_error
  | JsonParse string

text \<open>The environment holds the variables \<open>std::env::var\<close> returns.\<close>

definition collect_until_closing_brace :: "string \<Rightarrow> string \<times> string" where
  "collect_until_closing_brace chars =
    (takeWhile (\<lambda>c. c \<noteq> CHR ''}'') chars, drop 1 (dropWhile (\<lambda>c. c \<noteq> CHR ''}'') chars))"

lemma collect_shorter: "length (snd (collect_until_closing_brace (drop n chars))) \<le> length chars"
  using length_dropWhile_le [of "\<lambda>c. c \<noteq> CHR ''}''" "drop n chars"]
  by (simp add: collect_until_closing_brace_def)

function resolve_env_loop ::
    "(string \<Rightarrow> string option) \<Rightarrow> bool \<Rightarrow> string \<Rightarrow> string \<Rightarrow> extension_error + string" where
  "resolve_env_loop env strict chars result =
    (case chars of
      [] \<Rightarrow> Inr result
    | ch # chars' \<Rightarrow>
        if ch = CHR ''$'' \<and> take 1 chars' = ''{'' then
          let (var_name, rest) = collect_until_closing_brace (drop 1 chars')
          in if var_name = [] then resolve_env_loop env strict rest (result @ ''${}'')
             else case env var_name of
               Some val \<Rightarrow> resolve_env_loop env strict rest (result @ val)
             | None \<Rightarrow>
                 if strict then Inl (UndefinedEnvVariable var_name)
                 else resolve_env_loop env strict rest result
        else resolve_env_loop env strict chars' (result @ [ch]))"
  by pat_completeness auto

termination
  by (relation "measure (\<lambda>(env, strict, chars, result). length chars)")
    (auto dest!: arg_cong [where f = snd] simp: less_Suc_eq_le collect_shorter)

declare resolve_env_loop.simps [simp del]

definition resolve_env_templates ::
    "(string \<Rightarrow> string option) \<Rightarrow> string \<Rightarrow> bool \<Rightarrow> extension_error + string" where
  "resolve_env_templates env value strict = resolve_env_loop env strict value []"


definition resolve_file_reference :: "filesystem \<Rightarrow> string \<Rightarrow> string \<Rightarrow> extension_error + string" where
  "resolve_file_reference fs value ext_dir =
    (if \<not> starts_with value ''@file:'' then Inr value
     else let rel_path = drop 6 value in
       if rel_path = [] then Inl (FileReferenceNotFound ''@file: with empty path'')
       else let full_path = path_join ext_dir rel_path in
         if \<not> fs_exists fs full_path then Inl (FileReferenceNotFound full_path)
         else case fs_canonicalize fs ext_dir of
           Inl e \<Rightarrow> Inl (Io e)
         | Inr canonical_dir \<Rightarrow>
             (case fs_canonicalize fs full_path of
               Inl e \<Rightarrow> Inl (Io e)
             | Inr canonical_file \<Rightarrow>
                 if \<not> path_starts_with canonical_file canonical_dir then Inl (PathTraversal rel_path)
                 else case fs_read fs canonical_file of
                   Inl e \<Rightarrow> Inl (Io e)
                 | Inr text \<Rightarrow> Inr text))"

text \<open>\<open>collect\<close> into a \<open>Result\<close> stops at the first error.\<close>

fun resolve_env_map ::
    "(string \<Rightarrow> string option) \<Rightarrow> (string, string) hmap \<Rightarrow> bool \<Rightarrow> extension_error + (string, string) hmap" where
  "resolve_env_map env [] strict = Inr []"
| "resolve_env_map env ((k, v) # m) strict =
    (case resolve_env_templates env v strict of
      Inl e \<Rightarrow> Inl e
    | Inr resolved \<Rightarrow>
        (case resolve_env_map env m strict of Inl e \<Rightarrow> Inl e | Inr m' \<Rightarrow> Inr ((k, resolved) # m')))"

section \<open>Routes\<close>

definition RESERVED_ROUTE_PREFIXES :: "string list" where
  "RESERVED_ROUTE_PREFIXES = [''/api/'', ''/auth/'', ''/ws/'']"

definition validate_route :: "string \<Rightarrow> string \<Rightarrow> extension_error + unit" where
  "validate_route route_path extension_name =
    (if \<not> starts_with route_path (''/'' @ extension_name @ ''/'')
     then Inl (InvalidWebuiRouteNamespace extension_name route_path)
     else case find (starts_with route_path) RESERVED_ROUTE_PREFIXES of
       Some reserved \<Rightarrow> Inl (ReservedWebuiRoute route_path reserved)
     | None \<Rightarrow> Inr ())"

datatype api_error = ApiNotFound string | Forbidden string | ApiInternal string

definition map_asset_lookup_error :: "io_error \<Rightarrow> api_error" where
  "map_asset_lookup_error e =
    (case e of IoNotFound \<Rightarrow> ApiNotFound ''Extension asset not found'' | IoOther text \<Rightarrow> ApiInternal text)"

text \<open>
  The handler of an asset request, after the extension was looked up; the answer is the path
  that is served with its content. Headers are left out.
\<close>

definition get_extension_asset ::
    "filesystem \<Rightarrow> string option \<Rightarrow> string \<Rightarrow> string \<Rightarrow> api_error + string \<times> string" where
  "get_extension_asset fs directory extension_name asset_path =
    (case directory of
      None \<Rightarrow> Inl (ApiNotFound (''Extension not found: '' @ extension_name))
    | Some dir \<Rightarrow>
      (case fs_canonicalize fs dir of
        Inl e \<Rightarrow> Inl (map_asset_lookup_error e)
      | Inr canonical_root \<Rightarrow>
        (case normalize_relative_asset_path asset_path of
          None \<Rightarrow> Inl (Forbidden
            (''Asset path escapes extension root: '' @ extension_name @ ''/'' @ asset_path))
        | Some relative_path \<Rightarrow>
          (case fs_canonicalize fs (path_join canonical_root relative_path) of
            Inl e \<Rightarrow> Inl (map_asset_lookup_error e)
          | Inr canonical_asset \<Rightarrow>
            if \<not> path_starts_with canonical_asset canonical_root
            then Inl (Forbidden (''Asset path escapes extension root: '' @ canonical_asset))
            else case fs_read fs canonical_asset of
              Inl e \<Rightarrow> Inl (map_asset_lookup_error e)
            | Inr content \<Rightarrow> Inr (canonical_asset, content)))))"

section \<open>Asset paths stay inside\<close>

text \<open>A part of a path that \<open>components\<close> shows as \<open>Normal\<close>.\<close>

definition plain_part :: "string \<Rightarrow> bool" where
  "plain_part s \<longleftrightarrow> s \<noteq> [] \<and> s \<noteq> ''.'' \<and> s \<noteq> ''..'' \<and> CHR ''/'' \<notin> set s"

lemma component_of_plain [simp]: "plain_part s \<Longrightarrow> component_of s = [Normal s]"
  by (simp add: component_of_def plain_part_def)

lemma component_of_Normal: "Normal s \<in> set (component_of x) \<Longrightarrow> CHR ''/'' \<notin> set x \<Longrightarrow> plain_part s"
  by (auto simp: component_of_def plain_part_def split: if_splits)

lemma components_Normal:
  assumes "Normal s \<in> set (components p)"
  shows "plain_part s"
proof (cases "split_on CHR ''/'' p")
  case (Cons first rest)
  then have "\<forall>x \<in> set (first # rest). CHR ''/'' \<notin> set x"
    using split_on_parts by metis
  with assms Cons show ?thesis
    by (auto simp: components_def dest: component_of_Normal split: if_splits)
qed simp

lemma normal_parts_eq: "set (normal_parts cs) = {s. Normal s \<in> set cs}"
  by (induction cs rule: normal_parts.induct) auto

lemma normal_parts_map [simp]: "normal_parts (map Normal xs) = xs"
  by (induction xs) auto

lemma plain_not_absolute [simp]: "plain_part x \<Longrightarrow> \<not> is_absolute x"
  by (cases x) (auto simp: plain_part_def is_absolute_def)

lemma is_absolute_append [simp]: "x \<noteq> [] \<Longrightarrow> is_absolute (x @ y) \<longleftrightarrow> is_absolute x"
  by (cases x) (auto simp: is_absolute_def)

lemma plain_ends [simp]: "plain_part x \<Longrightarrow> x \<noteq> [] \<and> last x \<noteq> CHR ''/''"
  by (auto simp: plain_part_def dest: last_in_set)

lemma join_not_Nil: "xs \<noteq> [] \<Longrightarrow> \<forall>x \<in> set xs. plain_part x \<Longrightarrow>
    join_with ''/'' xs \<noteq> [] \<and> last (join_with ''/'' xs) \<noteq> CHR ''/'' \<and> \<not> is_absolute (join_with ''/'' xs)"
  by (induction "''/''" xs rule: join_with.induct) auto

lemma join_snoc: "xs \<noteq> [] \<Longrightarrow> join_with sep (xs @ [x]) = join_with sep xs @ sep @ x"
proof (induction sep xs rule: join_with.induct)
  case (3 sep x y xs)
  then show ?case
    by simp
qed simp_all

lemma path_join_snoc:
  assumes "\<forall>y \<in> set xs. plain_part y" "plain_part x"
  shows "path_join (join_with ''/'' xs) x = join_with ''/'' (xs @ [x])"
proof (cases "xs = []")
  case True
  with assms(2) show ?thesis
    by (simp add: path_join_def)
next
  case False
  from join_not_Nil [OF this assms(1)] assms(2) show ?thesis
    by (simp add: path_join_def join_snoc [OF False])
qed

lemma push_components_eq:
  assumes "\<forall>y \<in> set xs. plain_part y" "\<forall>y. Normal y \<in> set cs \<longrightarrow> plain_part y"
  shows "push_components cs (join_with ''/'' xs) =
    (if ParentDir \<in> set cs \<or> RootDir \<in> set cs then None else Some (join_with ''/'' (xs @ normal_parts cs)))"
  using assms
proof (induction cs arbitrary: xs)
  case (Cons c cs)
  show ?case
  proof (cases c)
    case (Normal s)
    with Cons.IH [of "xs @ [s]"] Cons.prems show ?thesis
      by (simp add: path_join_snoc)
  qed (use Cons in auto)
qed simp

lemma split_join_plain:
  "xs \<noteq> [] \<Longrightarrow> \<forall>x \<in> set xs. plain_part x \<Longrightarrow> split_on CHR ''/'' (join_with ''/'' xs) = xs"
  by (rule split_on_join) (auto simp: plain_part_def)

lemma concat_component_of: "\<forall>x \<in> set xs. plain_part x \<Longrightarrow> concat (map component_of xs) = map Normal xs"
  by (induction xs) auto

lemma components_join:
  assumes "xs \<noteq> []" "\<forall>x \<in> set xs. plain_part x"
  shows "components (join_with ''/'' xs) = map Normal xs"
  using assms split_join_plain [OF assms]
  by (cases xs) (auto simp: components_def concat_component_of plain_part_def component_of_def)

text \<open>Exactly which paths are accepted, and what they become.\<close>

lemma normalize_eq:
  "normalize_relative_asset_path p =
    (if CHR 0x5C \<in> set p \<or> ParentDir \<in> set (components p) \<or> RootDir \<in> set (components p) \<or>
        normal_parts (components p) = []
     then None else Some (join_with ''/'' (normal_parts (components p))))"
proof -
  have plain: "\<forall>x \<in> set (normal_parts (components p)). plain_part x"
    by (auto simp: normal_parts_eq components_Normal)
  have "push_components (components p) [] =
    (if ParentDir \<in> set (components p) \<or> RootDir \<in> set (components p) then None
     else Some (join_with ''/'' (normal_parts (components p))))"
    using push_components_eq [of "[]" "components p"] components_Normal [of _ p] by auto
  then show ?thesis
    using join_not_Nil [OF _ plain] by (auto simp: normalize_relative_asset_path_def)
qed

lemma normalize_result:
  assumes "normalize_relative_asset_path p = Some rel"
  obtains xs where "xs \<noteq> []" "\<forall>x \<in> set xs. plain_part x" "rel = join_with ''/'' xs"
    "components rel = map Normal xs" "CHR 0x5C \<notin> set rel"
proof -
  let ?xs = "normal_parts (components p)"
  have xs: "?xs \<noteq> []" "\<forall>x \<in> set ?xs. plain_part x" "rel = join_with ''/'' ?xs" "CHR 0x5C \<notin> set p"
    using assms by (auto simp: normalize_eq normal_parts_eq components_Normal split: if_splits)
  have sub: "set s \<subseteq> set p" if "Normal s \<in> set (components p)" for s
  proof (cases "split_on CHR ''/'' p")
    case (Cons first rest)
    with that obtain x where "x \<in> set (first # rest)" "s = x"
      by (auto simp: components_def component_of_def split: if_splits)
    with Cons split_on_parts [of x "CHR ''/''" p] show ?thesis
      by auto
  qed simp
  have "set (join_with ''/'' ys) \<subseteq> insert (CHR ''/'') (\<Union> (set ` set ys))" for ys
    by (induction "''/''" ys rule: join_with.induct) auto
  then have "CHR 0x5C \<notin> set rel"
    using xs(3,4) sub by (fastforce simp: normal_parts_eq)
  with xs that [of ?xs] components_join [OF xs(1,2)] show thesis
    by simp
qed

lemma normalize_again:
  assumes "normalize_relative_asset_path p = Some rel"
  shows "normalize_relative_asset_path rel = Some rel"
  using assms by (rule normalize_result) (auto simp: normalize_eq)

lemma url_path_eq: "normalized_asset_url_path p = normalize_relative_asset_path p"
proof (cases "normalize_relative_asset_path p")
  case (Some rel)
  then show ?thesis
    by (rule normalize_result) (simp add: normalized_asset_url_path_def Some)
qed (simp add: normalized_asset_url_path_def)

text \<open>
  C36. An asset URL made from a reference that is not remote has a path whose parts are all plain
  names, so it cannot leave the directory it is joined to; the handler of asset requests accepts
  that path and treats it like the reference itself (normalizing twice changes nothing); and
  whatever it then serves lies, after links are resolved, below the root of the extension.
\<close>

theorem asset_urls_are_confined:
  assumes "resolve_extension_asset_url name raw = Some url" and "\<not> is_remote_asset_url raw"
  shows "\<exists>rel. url = ''/api/extensions/'' @ name @ ''/assets/'' @ rel \<and>
    rel \<noteq> [] \<and> components rel = map Normal (split_on CHR ''/'' rel) \<and> CHR 0x5C \<notin> set rel \<and>
    (\<forall>fs dir. get_extension_asset fs dir name rel = get_extension_asset fs dir name raw) \<and>
    (\<forall>fs dir asset content. get_extension_asset fs dir name rel = Inr (asset, content) \<longrightarrow>
      (\<exists>d root. dir = Some d \<and> fs_canonicalize fs d = Inr root \<and>
        fs_canonicalize fs (path_join root rel) = Inr asset \<and> path_starts_with asset root))"
proof -
  obtain rel where rel: "normalize_relative_asset_path raw = Some rel"
    and url: "url = ''/api/extensions/'' @ name @ ''/assets/'' @ rel"
    using assms by (auto simp: resolve_extension_asset_url_def url_path_eq)
  note again = normalize_again [OF rel]
  obtain xs where xs: "xs \<noteq> []" "\<forall>x \<in> set xs. plain_part x" "rel = join_with ''/'' xs"
    "components rel = map Normal xs" "CHR 0x5C \<notin> set rel"
    by (rule normalize_result [OF rel])
  moreover have "rel \<noteq> []" "split_on CHR ''/'' rel = xs"
    using xs join_not_Nil split_join_plain by auto
  moreover have "get_extension_asset fs dir name rel = get_extension_asset fs dir name raw" for fs dir
    by (simp add: get_extension_asset_def rel again split: option.split sum.split)
  moreover have "\<exists>d root. dir = Some d \<and> fs_canonicalize fs d = Inr root \<and>
      fs_canonicalize fs (path_join root rel) = Inr asset \<and> path_starts_with asset root"
    if "get_extension_asset fs dir name rel = Inr (asset, content)" for fs dir asset content
    using that by (auto simp: get_extension_asset_def again split: option.splits sum.splits if_splits)
  ultimately show ?thesis
    using url by auto
qed

definition sample_fs :: filesystem where
  "sample_fs = \<lparr> fs_exists = (\<lambda>_. True), fs_canonicalize = Inr, fs_read = (\<lambda>p. Inr (''text of '' @ p)) \<rparr>"

theorem asset_urls_are_confined_witness:
  "resolve_extension_asset_url ''x'' ''./ui//a.html'' = Some ''/api/extensions/x/assets/ui/a.html'' \<and>
   (\<exists>rel. ''/api/extensions/x/assets/ui/a.html'' = ''/api/extensions/'' @ ''x'' @ ''/assets/'' @ rel \<and>
     get_extension_asset sample_fs (Some ''/e'') ''x'' rel = get_extension_asset sample_fs (Some ''/e'') ''x'' ''./ui//a.html'') \<and>
   get_extension_asset sample_fs (Some ''/e'') ''x'' ''./ui//a.html'' = Inr (''/e/ui/a.html'', ''text of /e/ui/a.html'')"
proof -
  have "resolve_extension_asset_url ''x'' ''./ui//a.html'' = Some ''/api/extensions/x/assets/ui/a.html''"
    and "\<not> is_remote_asset_url ''./ui//a.html''"
    and "get_extension_asset sample_fs (Some ''/e'') ''x'' ''./ui//a.html'' = Inr (''/e/ui/a.html'', ''text of /e/ui/a.html'')"
    by code_simp+
  with asset_urls_are_confined [OF this(1,2)] show ?thesis
    by blast
qed

text \<open>
  Other paths of a manifest are joined to the directory of the extension as they are: an absolute
  one replaces it.
\<close>

lemma absolute_path_replaces: "is_absolute p \<Longrightarrow> path_join dir p = p"
  by (simp add: path_join_def)

section \<open>Templates\<close>

lemma resolve_env_lenient: "\<exists>s. resolve_env_loop env False chars result = Inr s"
  by (induction env False chars result rule: resolve_env_loop.induct)
    (subst resolve_env_loop.simps; auto split: list.split option.split prod.split)

lemma resolve_env_plain:
  "CHR ''$'' \<notin> set chars \<Longrightarrow> resolve_env_loop env strict chars result = Inr (result @ chars)"
  by (induction chars arbitrary: result) (subst resolve_env_loop.simps; auto)+

lemma resolve_env_map_lenient: "\<exists>m'. resolve_env_map env m False = Inr m' \<and> map fst m' = map fst m"
proof (induction m)
  case (Cons p m)
  obtain k v where p: "p = (k, v)"
    by (cases p)
  obtain s where "resolve_env_templates env v False = Inr s"
    using resolve_env_lenient [of env v "[]"] by (auto simp: resolve_env_templates_def)
  with Cons p show ?case
    by auto
qed simp

end
