(* ===== verification/ExtResolvers.thy ===== *)
theory ExtResolvers
  imports ExtAssets "HOL-Library.Product_Lexorder" "HOL-Library.Multiset"
begin

text \<open>
  The resolvers (\<open>veryagent-extension/src/resolvers\<close>): what a manifest declares becomes what the
  application uses. Broken contributions are dropped one by one; the environment and the file
  system are arguments.
\<close>

section \<open>One contribution\<close>

definition ok :: "'e + 'a \<Rightarrow> 'a option" where
  "ok r = (case r of Inr a \<Rightarrow> Some a | Inl _ \<Rightarrow> None)"

text \<open>\<open>map(..).transpose()?\<close> on an optional text.\<close>

definition resolve_optional_reference ::
    "filesystem \<Rightarrow> string option \<Rightarrow> string \<Rightarrow> extension_error + string option" where
  "resolve_optional_reference fs value ext_dir =
    (case value of
      None \<Rightarrow> Inr None
    | Some v \<Rightarrow> (case resolve_file_reference fs v ext_dir of Inl e \<Rightarrow> Inl e | Inr t \<Rightarrow> Inr (Some t)))"

definition resolve_acp_adapter ::
    "(string \<Rightarrow> string option) \<Rightarrow> 'j ext_acp_adapter \<Rightarrow> string \<Rightarrow> extension_error + 'j resolved_acp_adapter" where
  "resolve_acp_adapter env a extension_name =
    (case resolve_env_map env (ea_env a) False of
      Inl e \<Rightarrow> Inl e
    | Inr resolved_env \<Rightarrow> Inr \<lparr>
        ra_extension_name = extension_name, ra_id = ea_id a, ra_name = ea_name a,
        ra_description = ea_description a, ra_cli_command = ea_cli_command a,
        ra_default_cli_path = ea_default_cli_path a, ra_acp_args = ea_acp_args a,
        ra_env = resolved_env,
        ra_avatar = Option.bind (ea_avatar a) (resolve_extension_asset_url extension_name),
        ra_auth_required = ea_auth_required a, ra_supports_streaming = ea_supports_streaming a,
        ra_connection_type = ea_connection_type a, ra_endpoint = ea_endpoint a, ra_models = ea_models a,
        ra_yolo_mode = ea_yolo_mode a, ra_health_check = ea_health_check a,
        ra_api_key_fields = ea_api_key_fields a \<rparr>)"

definition resolve_mcp_server :: "'j ext_mcp_server \<Rightarrow> string \<Rightarrow> 'j resolved_mcp_server" where
  "resolve_mcp_server s extension_name = \<lparr>
    rm_extension_name = extension_name, rm_id = em_id s, rm_name = em_name s,
    rm_description = em_description s, rm_config = em_config s \<rparr>"

definition resolve_assistant ::
    "filesystem \<Rightarrow> ext_assistant \<Rightarrow> string \<Rightarrow> string \<Rightarrow> extension_error + resolved_assistant" where
  "resolve_assistant fs a extension_name ext_dir =
    (case resolve_optional_reference fs (es_system_prompt a) ext_dir of
      Inl e \<Rightarrow> Inl e
    | Inr system_prompt \<Rightarrow>
      (case resolve_optional_reference fs (es_context a) ext_dir of
        Inl e \<Rightarrow> Inl e
      | Inr context_text \<Rightarrow> Inr \<lparr>
          rs_extension_name = extension_name, rs_id = es_id a, rs_name = es_name a,
          rs_description = es_description a, rs_system_prompt = system_prompt,
          rs_icon = Option.bind (es_icon a) (resolve_extension_asset_url extension_name),
          rs_context = context_text, rs_agent_id = es_agent_id a,
          rs_enabled_skills = es_enabled_skills a, rs_prompts = es_prompts a, rs_models = es_models a \<rparr>))"

definition resolve_agent ::
    "filesystem \<Rightarrow> ext_agent \<Rightarrow> string \<Rightarrow> string \<Rightarrow> extension_error + resolved_agent" where
  "resolve_agent fs a extension_name ext_dir =
    (case resolve_optional_reference fs (eg_context a) ext_dir of
      Inl e \<Rightarrow> Inl e
    | Inr context_text \<Rightarrow> Inr \<lparr>
        rg_extension_name = extension_name, rg_id = eg_id a, rg_name = eg_name a,
        rg_description = eg_description a, rg_agent_type = eg_agent_type a, rg_context = context_text,
        rg_icon = Option.bind (eg_icon a) (resolve_extension_asset_url extension_name),
        rg_enabled_skills = eg_enabled_skills a, rg_prompts = eg_prompts a, rg_models = eg_models a \<rparr>)"

definition resolve_skill :: "filesystem \<Rightarrow> ext_skill \<Rightarrow> string \<Rightarrow> string \<Rightarrow> resolved_skill option" where
  "resolve_skill fs s extension_name ext_dir =
    (case ek_path s of
      None \<Rightarrow> None
    | Some p \<Rightarrow>
        let location = path_join ext_dir p
        in if \<not> fs_exists fs location then None
           else Some \<lparr> rk_extension_name = extension_name, rk_name = ek_name s,
             rk_description = ek_description s, rk_path = Some location \<rparr>)"

definition resolve_theme ::
    "filesystem \<Rightarrow> ext_theme \<Rightarrow> string \<Rightarrow> string \<Rightarrow> extension_error + resolved_theme" where
  "resolve_theme fs t extension_name ext_dir =
    (let css_path = path_join ext_dir (et_css_file t)
     in if \<not> fs_exists fs css_path then Inl (ThemeCssNotFound css_path)
        else case fs_read fs css_path of
          Inl e \<Rightarrow> Inl (Io e)
        | Inr css_content \<Rightarrow> Inr \<lparr>
            rt_extension_name = extension_name, rt_id = et_id t, rt_name = et_name t,
            rt_description = et_description t, rt_css_content = css_content,
            rt_cover_image = Option.bind (et_cover_image t) (resolve_extension_asset_url extension_name) \<rparr>)"

definition resolve_channel_plugin ::
    "'j ext_channel_plugin \<Rightarrow> string \<Rightarrow> string \<Rightarrow> 'j resolved_channel_plugin" where
  "resolve_channel_plugin p extension_name ext_dir = \<lparr>
    rc_extension_name = extension_name, rc_id = ec_id p, rc_name = ec_name p,
    rc_description = ec_description p, rc_platform = ec_platform p,
    rc_entry_point = map_option (path_join ext_dir) (ec_entry_point p),
    rc_icon = Option.bind (ec_icon p) (resolve_extension_asset_url extension_name),
    rc_credential_fields = ec_credential_fields p, rc_config_fields = ec_config_fields p \<rparr>"

fun validate_routes :: "ext_webui_route list \<Rightarrow> string \<Rightarrow> extension_error + unit" where
  "validate_routes [] extension_name = Inr ()"
| "validate_routes (r # rs) extension_name =
    (case validate_route (wr_path r) extension_name of
      Inl e \<Rightarrow> Inl e
    | Inr _ \<Rightarrow> validate_routes rs extension_name)"

definition resolve_webui :: "ext_webui \<Rightarrow> string \<Rightarrow> string \<Rightarrow> extension_error + webui_contribution" where
  "resolve_webui w extension_name ext_dir =
    (case validate_routes (ew_routes w) extension_name of
      Inl e \<Rightarrow> Inl e
    | Inr _ \<Rightarrow> Inr \<lparr> wc_extension_name = extension_name, wc_id = ew_id w,
        wc_directory = path_join ext_dir (ew_directory w), wc_routes = ew_routes w \<rparr>)"

text \<open>The module of settings tabs has its own copy of the URL function.\<close>

definition resolve_asset_url :: "string \<Rightarrow> string \<Rightarrow> string option" where
  "resolve_asset_url extension_name raw =
    (if is_remote_asset_url raw then Some raw
     else map_option (\<lambda>relative. ''/api/extensions/'' @ extension_name @ ''/assets/'' @ relative)
       (normalized_asset_url_path raw))"

definition resolve_settings_tab :: "ext_settings_tab \<Rightarrow> string \<Rightarrow> resolved_settings_tab option" where
  "resolve_settings_tab t extension_name =
    (case resolve_asset_url extension_name (tb_url t) of
      None \<Rightarrow> None
    | Some url \<Rightarrow> Some \<lparr>
        rb_extension_name = extension_name, rb_id = ''ext-'' @ extension_name @ ''-'' @ tb_id t,
        rb_label = tb_label t,
        rb_icon = Option.bind (tb_icon t) (resolve_asset_url extension_name),
        rb_url = url, rb_position = tb_position t, rb_order = tb_order t \<rparr>)"

definition resolve_model_provider :: "ext_model_provider \<Rightarrow> string \<Rightarrow> resolved_model_provider" where
  "resolve_model_provider p extension_name = \<lparr>
    rp_extension_name = extension_name, rp_id = mp_id p, rp_name = mp_name p,
    rp_description = mp_description p, rp_protocol = mp_protocol p, rp_base_url = mp_base_url p,
    rp_models = mp_models p \<rparr>"

section \<open>All contributions\<close>

text \<open>\<open>sort_by\<close> on the order of a tab, then its label; it is stable, as \<open>sort_key\<close> is.\<close>

definition sort_settings_tabs :: "resolved_settings_tab list \<Rightarrow> resolved_settings_tab list" where
  "sort_settings_tabs = sort_key (\<lambda>t. (rb_order t, rb_label t))"

definition no_contributions :: "'j resolved_contributions" where
  "no_contributions = \<lparr> rc_acp_adapters = [], rc_mcp_servers = [], rc_assistants = [], rc_agents = [],
    rc_skills = [], rc_themes = [], rc_channel_plugins = [], rc_webui = [], rc_settings_tabs = [],
    rc_model_providers = [], rc_i18n = [] \<rparr>"

lemma no_contributions_fields [simp]:
  "rc_acp_adapters no_contributions = []" "rc_webui no_contributions = []"
  "rc_settings_tabs no_contributions = []"
  by (simp_all add: no_contributions_def)

definition resolve_extension_contributions ::
    "(string \<Rightarrow> string option) \<Rightarrow> filesystem \<Rightarrow> 'j loaded_extension \<Rightarrow> 'j resolved_contributions" where
  "resolve_extension_contributions env fs ext =
    (let name = le_name ext; dir = le_directory ext
     in case mf_contributes (le_manifest ext) of
       None \<Rightarrow> no_contributions
     | Some c \<Rightarrow> \<lparr>
         rc_acp_adapters = List.map_filter (\<lambda>a. ok (resolve_acp_adapter env a name)) (ct_acp_adapters c),
         rc_mcp_servers = map (\<lambda>s. resolve_mcp_server s name) (ct_mcp_servers c),
         rc_assistants = List.map_filter (\<lambda>a. ok (resolve_assistant fs a name dir)) (ct_assistants c),
         rc_agents = List.map_filter (\<lambda>a. ok (resolve_agent fs a name dir)) (ct_agents c),
         rc_skills = List.map_filter (\<lambda>s. resolve_skill fs s name dir) (ct_skills c),
         rc_themes = List.map_filter (\<lambda>t. ok (resolve_theme fs t name dir)) (ct_themes c),
         rc_channel_plugins = map (\<lambda>p. resolve_channel_plugin p name dir) (ct_channel_plugins c),
         rc_webui = List.map_filter (\<lambda>w. ok (resolve_webui w name dir)) (ct_webui c),
         rc_settings_tabs =
           sort_settings_tabs (List.map_filter (\<lambda>t. resolve_settings_tab t name) (ct_settings_tabs c)),
         rc_model_providers = map (\<lambda>p. resolve_model_provider p name) (ct_model_providers c),
         rc_i18n = [] \<rparr>)"

definition hm_extend :: "('k, 'v) hmap \<Rightarrow> ('k, 'v) hmap \<Rightarrow> ('k, 'v) hmap" where
  "hm_extend target source = fold (\<lambda>(k, v). hm_insert k v) source target"

definition merge_contributions ::
    "'j resolved_contributions \<Rightarrow> 'j resolved_contributions \<Rightarrow> 'j resolved_contributions" where
  "merge_contributions t s = \<lparr>
    rc_acp_adapters = rc_acp_adapters t @ rc_acp_adapters s,
    rc_mcp_servers = rc_mcp_servers t @ rc_mcp_servers s,
    rc_assistants = rc_assistants t @ rc_assistants s,
    rc_agents = rc_agents t @ rc_agents s,
    rc_skills = rc_skills t @ rc_skills s,
    rc_themes = rc_themes t @ rc_themes s,
    rc_channel_plugins = rc_channel_plugins t @ rc_channel_plugins s,
    rc_webui = rc_webui t @ rc_webui s,
    rc_settings_tabs = rc_settings_tabs t @ rc_settings_tabs s,
    rc_model_providers = rc_model_providers t @ rc_model_providers s,
    rc_i18n = hm_extend (rc_i18n t) (rc_i18n s) \<rparr>"

definition resolve_all_contributions ::
    "(string \<Rightarrow> string option) \<Rightarrow> filesystem \<Rightarrow> 'j loaded_extension list \<Rightarrow> 'j resolved_contributions" where
  "resolve_all_contributions env fs exts =
    (let merged = fold (\<lambda>ext merged.
         if \<not> le_enabled ext then merged
         else merge_contributions merged (resolve_extension_contributions env fs ext)) exts no_contributions
     in merged\<lparr> rc_settings_tabs := sort_settings_tabs (rc_settings_tabs merged) \<rparr>)"

section \<open>What is resolved\<close>

text \<open>
  When a declared contribution can be used, kind by kind: a reference to a file is readable, a
  skill and the style sheet of a theme exist, the routes lie in the namespace of the extension and
  under no reserved prefix, the URL of a tab is remote or stays inside the extension.
\<close>

definition readable_reference :: "filesystem \<Rightarrow> 'j loaded_extension \<Rightarrow> string option \<Rightarrow> bool" where
  "readable_reference fs e reference =
    (case reference of None \<Rightarrow> True | Some v \<Rightarrow> ok (resolve_file_reference fs v (le_directory e)) \<noteq> None)"

definition usable_assistant :: "filesystem \<Rightarrow> 'j loaded_extension \<Rightarrow> ext_assistant \<Rightarrow> bool" where
  "usable_assistant fs e a \<longleftrightarrow>
    readable_reference fs e (es_system_prompt a) \<and> readable_reference fs e (es_context a)"

definition usable_agent :: "filesystem \<Rightarrow> 'j loaded_extension \<Rightarrow> ext_agent \<Rightarrow> bool" where
  "usable_agent fs e a \<longleftrightarrow> readable_reference fs e (eg_context a)"

definition usable_skill :: "filesystem \<Rightarrow> 'j loaded_extension \<Rightarrow> ext_skill \<Rightarrow> bool" where
  "usable_skill fs e s =
    (case ek_path s of None \<Rightarrow> False | Some p \<Rightarrow> fs_exists fs (path_join (le_directory e) p))"

definition usable_theme :: "filesystem \<Rightarrow> 'j loaded_extension \<Rightarrow> ext_theme \<Rightarrow> bool" where
  "usable_theme fs e t \<longleftrightarrow> fs_exists fs (path_join (le_directory e) (et_css_file t)) \<and>
    ok (fs_read fs (path_join (le_directory e) (et_css_file t))) \<noteq> None"

definition own_route :: "string \<Rightarrow> ext_webui_route \<Rightarrow> bool" where
  "own_route name r \<longleftrightarrow> starts_with (wr_path r) (''/'' @ name @ ''/'') \<and>
    list_all (\<lambda>p. \<not> starts_with (wr_path r) p) RESERVED_ROUTE_PREFIXES"

definition usable_webui :: "'j loaded_extension \<Rightarrow> ext_webui \<Rightarrow> bool" where
  "usable_webui e w \<longleftrightarrow> list_all (own_route (le_name e)) (ew_routes w)"

definition usable_tab :: "'j loaded_extension \<Rightarrow> ext_settings_tab \<Rightarrow> bool" where
  "usable_tab e t \<longleftrightarrow> is_remote_asset_url (tb_url t) \<or> normalized_asset_url_path (tb_url t) \<noteq> None"

text \<open>
  The contributions of one kind that the enabled extensions declare and that can be used, each
  under the name of its extension.
\<close>

definition declared_by ::
    "('j ext_contributes \<Rightarrow> 'a list) \<Rightarrow> ('j loaded_extension \<Rightarrow> 'a \<Rightarrow> bool) \<Rightarrow> ('a \<Rightarrow> string) \<Rightarrow>
     'j loaded_extension \<Rightarrow> (string \<times> string) list" where
  "declared_by kind usable ident e =
    (case mf_contributes (le_manifest e) of
      None \<Rightarrow> []
    | Some c \<Rightarrow> map (\<lambda>x. (le_name e, ident x)) (filter (usable e) (kind c)))"

definition contributed ::
    "('j ext_contributes \<Rightarrow> 'a list) \<Rightarrow> ('j loaded_extension \<Rightarrow> 'a \<Rightarrow> bool) \<Rightarrow> ('a \<Rightarrow> string) \<Rightarrow>
     'j loaded_extension list \<Rightarrow> (string \<times> string) list" where
  "contributed kind usable ident exts =
    concat (map (declared_by kind usable ident) (filter le_enabled exts))"

lemma ok_Some: "ok r = Some x \<longleftrightarrow> r = Inr x"
  by (cases r) (auto simp: ok_def)

lemma set_map_filter: "y \<in> set (List.map_filter f xs) \<longleftrightarrow> (\<exists>x \<in> set xs. f x = Some y)"
  by (induction xs) (auto simp: List.map_filter_simps split: option.split)

lemma ok_simps [simp]: "ok (Inr x) = Some x" "ok (Inl e) = None"
  by (simp_all add: ok_def)

lemma map_map_filter:
  assumes "\<And>x. P x \<longleftrightarrow> f x \<noteq> None" and "\<And>x y. f x = Some y \<Longrightarrow> g y = h x"
  shows "map g (List.map_filter f xs) = map h (filter P xs)"
  using assms by (induction xs) (auto simp: List.map_filter_simps split: option.split)

text \<open>Each resolver keeps what can be used, under the name of the extension.\<close>

lemma reference_resolves:
  "resolve_optional_reference fs v (le_directory e) = Inl err \<Longrightarrow> \<not> readable_reference fs e v"
  "resolve_optional_reference fs v (le_directory e) = Inr t \<Longrightarrow> readable_reference fs e v"
  by (auto simp: resolve_optional_reference_def readable_reference_def split: option.splits sum.splits)

lemma assistant_resolves:
  "map (\<lambda>a. (rs_extension_name a, rs_id a))
      (List.map_filter (\<lambda>a. ok (resolve_assistant fs a (le_name e) (le_directory e))) xs) =
    map (\<lambda>a. (le_name e, es_id a)) (filter (usable_assistant fs e) xs)"
  by (rule map_map_filter)
    (auto simp: resolve_assistant_def usable_assistant_def dest: reference_resolves split: sum.splits)

lemma agent_resolves:
  "map (\<lambda>a. (rg_extension_name a, rg_id a))
      (List.map_filter (\<lambda>a. ok (resolve_agent fs a (le_name e) (le_directory e))) xs) =
    map (\<lambda>a. (le_name e, eg_id a)) (filter (usable_agent fs e) xs)"
  by (rule map_map_filter)
    (auto simp: resolve_agent_def usable_agent_def dest: reference_resolves split: sum.splits)

lemma skill_resolves:
  "map (\<lambda>a. (rk_extension_name a, rk_name a))
      (List.map_filter (\<lambda>a. resolve_skill fs a (le_name e) (le_directory e)) xs) =
    map (\<lambda>a. (le_name e, ek_name a)) (filter (usable_skill fs e) xs)"
  by (rule map_map_filter)
    (auto simp: resolve_skill_def usable_skill_def Let_def split: option.splits if_splits)

lemma theme_resolves:
  "map (\<lambda>a. (rt_extension_name a, rt_id a))
      (List.map_filter (\<lambda>a. ok (resolve_theme fs a (le_name e) (le_directory e))) xs) =
    map (\<lambda>a. (le_name e, et_id a)) (filter (usable_theme fs e) xs)"
  by (rule map_map_filter)
    (auto simp: resolve_theme_def usable_theme_def Let_def ok_Some split: sum.splits if_splits)

lemma validate_routes_iff:
  "validate_routes rs name = (if list_all (own_route name) rs then Inr () else
    Inl (projl (validate_routes rs name)))"
  by (induction rs)
    (auto simp: validate_route_def own_route_def find_None_iff list_all_iff find_Some_iff
      split: sum.splits if_splits option.splits)

lemma webui_kept:
  "ok (resolve_webui w (le_name e) (le_directory e)) =
    (if usable_webui e w then Some \<lparr> wc_extension_name = le_name e, wc_id = ew_id w,
       wc_directory = path_join (le_directory e) (ew_directory w), wc_routes = ew_routes w \<rparr> else None)"
  unfolding resolve_webui_def usable_webui_def by (subst validate_routes_iff) simp

lemma webui_resolves:
  "map (\<lambda>w. (wc_extension_name w, wc_id w))
      (List.map_filter (\<lambda>w. ok (resolve_webui w (le_name e) (le_directory e))) xs) =
    map (\<lambda>w. (le_name e, ew_id w)) (filter (usable_webui e) xs)"
  by (rule map_map_filter) (auto simp: webui_kept split: if_splits)

lemma tab_resolves:
  "map (\<lambda>t. (rb_extension_name t, rb_id t)) (List.map_filter (\<lambda>t. resolve_settings_tab t (le_name e)) xs) =
    map (\<lambda>t. (le_name e, ''ext-'' @ le_name e @ ''-'' @ tb_id t)) (filter (usable_tab e) xs)"
  by (rule map_map_filter)
    (auto simp: resolve_settings_tab_def usable_tab_def resolve_asset_url_def split: option.splits if_splits)

lemma adapter_resolves:
  "map (\<lambda>a. (ra_extension_name a, ra_id a)) (List.map_filter (\<lambda>a. ok (resolve_acp_adapter env a (le_name e))) xs) =
    map (\<lambda>a. (le_name e, ea_id a)) xs"
proof -
  have "\<exists>r. resolve_acp_adapter env a (le_name e) = Inr r \<and> ra_extension_name r = le_name e \<and> ra_id r = ea_id a" for a
    using resolve_env_map_lenient [of env "ea_env a"] by (auto simp: resolve_acp_adapter_def)
  note resolves = this
  have "map (\<lambda>a. (ra_extension_name a, ra_id a))
      (List.map_filter (\<lambda>a. ok (resolve_acp_adapter env a (le_name e))) xs) =
    map (\<lambda>a. (le_name e, ea_id a)) (filter (\<lambda>_. True) xs)"
  proof (rule map_map_filter)
    show "True \<longleftrightarrow> ok (resolve_acp_adapter env a (le_name e)) \<noteq> None" for a
      using resolves [of a] by auto
    show "(ra_extension_name r, ra_id r) = (le_name e, ea_id a)"
      if "ok (resolve_acp_adapter env a (le_name e)) = Some r" for a r
      using that resolves [of a] by auto
  qed
  then show ?thesis
    by simp
qed

lemma sorted_tabs_resolve:
  "mset (map (\<lambda>t. (rb_extension_name t, rb_id t))
      (sort_settings_tabs (List.map_filter (\<lambda>t. resolve_settings_tab t (le_name e)) xs))) =
    mset (map (\<lambda>t. (le_name e, ''ext-'' @ le_name e @ ''-'' @ tb_id t)) (filter (usable_tab e) xs))"
  unfolding tab_resolves [symmetric] by (simp add: sort_settings_tabs_def)

text \<open>What an extension contributes, kind by kind.\<close>

lemma extension_contributes:
  defines "r env fs e \<equiv> resolve_extension_contributions env fs e"
  shows "map (\<lambda>x. (ra_extension_name x, ra_id x)) (rc_acp_adapters (r env fs e)) =
      declared_by ct_acp_adapters (\<lambda>_ _. True) ea_id e"
    and "map (\<lambda>x. (rm_extension_name x, rm_id x)) (rc_mcp_servers (r env fs e)) =
      declared_by ct_mcp_servers (\<lambda>_ _. True) em_id e"
    and "map (\<lambda>x. (rs_extension_name x, rs_id x)) (rc_assistants (r env fs e)) =
      declared_by ct_assistants (usable_assistant fs) es_id e"
    and "map (\<lambda>x. (rg_extension_name x, rg_id x)) (rc_agents (r env fs e)) =
      declared_by ct_agents (usable_agent fs) eg_id e"
    and "map (\<lambda>x. (rk_extension_name x, rk_name x)) (rc_skills (r env fs e)) =
      declared_by ct_skills (usable_skill fs) ek_name e"
    and "map (\<lambda>x. (rt_extension_name x, rt_id x)) (rc_themes (r env fs e)) =
      declared_by ct_themes (usable_theme fs) et_id e"
    and "map (\<lambda>x. (rc_extension_name x, rc_id x)) (rc_channel_plugins (r env fs e)) =
      declared_by ct_channel_plugins (\<lambda>_ _. True) ec_id e"
    and "map (\<lambda>x. (wc_extension_name x, wc_id x)) (rc_webui (r env fs e)) =
      declared_by ct_webui usable_webui ew_id e"
    and "mset (map (\<lambda>x. (rb_extension_name x, rb_id x)) (rc_settings_tabs (r env fs e))) =
      mset (map (\<lambda>(name, i). (name, ''ext-'' @ name @ ''-'' @ i))
        (declared_by ct_settings_tabs usable_tab tb_id e))"
    and "map (\<lambda>x. (rp_extension_name x, rp_id x)) (rc_model_providers (r env fs e)) =
      declared_by ct_model_providers (\<lambda>_ _. True) mp_id e"
  unfolding r_def resolve_extension_contributions_def declared_by_def Let_def
  by (cases "mf_contributes (le_manifest e)";
      simp add: no_contributions_def adapter_resolves assistant_resolves agent_resolves skill_resolves
        theme_resolves webui_resolves sorted_tabs_resolve resolve_mcp_server_def comp_def
        resolve_channel_plugin_def resolve_model_provider_def del: mset_map)+

lemma extension_routes:
  "w \<in> set (rc_webui (resolve_extension_contributions env fs e)) \<Longrightarrow>
    list_all (own_route (wc_extension_name w)) (wc_routes w)"
  unfolding resolve_extension_contributions_def Let_def
  by (cases "mf_contributes (le_manifest e)")
    (auto simp: no_contributions_def set_map_filter webui_kept usable_webui_def split: if_splits)

text \<open>The list of one kind is the lists of the enabled extensions in a row.\<close>

lemma resolve_all_field:
  assumes "\<And>m s. field (merge_contributions m s) = field m @ field s"
  shows "field (fold (\<lambda>ext merged. if \<not> le_enabled ext then merged
      else merge_contributions merged (resolve_extension_contributions env fs ext)) exts m) =
    field m @ concat (map (field \<circ> resolve_extension_contributions env fs) (filter le_enabled exts))"
  by (induction exts arbitrary: m) (simp_all add: assms)

abbreviation each ::
    "('j resolved_contributions \<Rightarrow> 'a list) \<Rightarrow> (string \<Rightarrow> string option) \<Rightarrow> filesystem \<Rightarrow>
     'j loaded_extension list \<Rightarrow> 'a list" where
  "each field env fs exts \<equiv>
    concat (map (field \<circ> resolve_extension_contributions env fs) (filter le_enabled exts))"

lemma resolve_all_fields:
  shows "rc_acp_adapters (resolve_all_contributions env fs exts) = each rc_acp_adapters env fs exts"
    and "rc_mcp_servers (resolve_all_contributions env fs exts) = each rc_mcp_servers env fs exts"
    and "rc_assistants (resolve_all_contributions env fs exts) = each rc_assistants env fs exts"
    and "rc_agents (resolve_all_contributions env fs exts) = each rc_agents env fs exts"
    and "rc_skills (resolve_all_contributions env fs exts) = each rc_skills env fs exts"
    and "rc_themes (resolve_all_contributions env fs exts) = each rc_themes env fs exts"
    and "rc_channel_plugins (resolve_all_contributions env fs exts) = each rc_channel_plugins env fs exts"
    and "rc_webui (resolve_all_contributions env fs exts) = each rc_webui env fs exts"
    and "rc_model_providers (resolve_all_contributions env fs exts) = each rc_model_providers env fs exts"
    and "rc_settings_tabs (resolve_all_contributions env fs exts) =
      sort_settings_tabs (each rc_settings_tabs env fs exts)"
  unfolding resolve_all_contributions_def Let_def
  by (simp_all add: resolve_all_field merge_contributions_def no_contributions_def)

lemma sort_keeps_tabs: "mset (map f (sort_settings_tabs tabs)) = mset (map f tabs)"
  by (simp add: sort_settings_tabs_def)

text \<open>
  C37. Only the enabled extensions contribute, and each contributes all it declares that can be
  used, under its own name and in its order: adapters, MCP servers, channel plugins and model
  providers without exception, whatever the environment looks like; assistants and agents whose
  references are readable, skills and themes whose files exist, web interfaces all of whose routes
  lie in the namespace of their extension and under no reserved prefix; settings tabs with a safe
  URL, sorted by order and label.
\<close>

theorem contributions_are_confined:
  fixes exts :: "'j loaded_extension list" and c :: "'j resolved_contributions"
  assumes "resolve_all_contributions env fs exts = c"
  shows "map (\<lambda>x. (ra_extension_name x, ra_id x)) (rc_acp_adapters c) =
      contributed ct_acp_adapters (\<lambda>_ _. True) ea_id exts \<and>
    map (\<lambda>x. (rm_extension_name x, rm_id x)) (rc_mcp_servers c) =
      contributed ct_mcp_servers (\<lambda>_ _. True) em_id exts \<and>
    map (\<lambda>x. (rc_extension_name x, rc_id x)) (rc_channel_plugins c) =
      contributed ct_channel_plugins (\<lambda>_ _. True) ec_id exts \<and>
    map (\<lambda>x. (rp_extension_name x, rp_id x)) (rc_model_providers c) =
      contributed ct_model_providers (\<lambda>_ _. True) mp_id exts \<and>
    map (\<lambda>x. (rs_extension_name x, rs_id x)) (rc_assistants c) =
      contributed ct_assistants (usable_assistant fs) es_id exts \<and>
    map (\<lambda>x. (rg_extension_name x, rg_id x)) (rc_agents c) =
      contributed ct_agents (usable_agent fs) eg_id exts \<and>
    map (\<lambda>x. (rk_extension_name x, rk_name x)) (rc_skills c) =
      contributed ct_skills (usable_skill fs) ek_name exts \<and>
    map (\<lambda>x. (rt_extension_name x, rt_id x)) (rc_themes c) =
      contributed ct_themes (usable_theme fs) et_id exts \<and>
    map (\<lambda>x. (wc_extension_name x, wc_id x)) (rc_webui c) = contributed ct_webui usable_webui ew_id exts \<and>
    (\<forall>w \<in> set (rc_webui c). \<forall>r \<in> set (wc_routes w). own_route (wc_extension_name w) r) \<and>
    mset (map (\<lambda>x. (rb_extension_name x, rb_id x)) (rc_settings_tabs c)) =
      mset (map (\<lambda>(name, i). (name, ''ext-'' @ name @ ''-'' @ i))
        (contributed ct_settings_tabs usable_tab tb_id exts)) \<and>
    sorted (map (\<lambda>t. (rb_order t, rb_label t)) (rc_settings_tabs c))"
proof -
  have "mset (concat (map (\<lambda>e. map (\<lambda>x. (rb_extension_name x, rb_id x))
        (rc_settings_tabs (resolve_extension_contributions env fs e))) es)) =
      mset (concat (map (\<lambda>e. map (\<lambda>(name, i). (name, ''ext-'' @ name @ ''-'' @ i))
        (declared_by ct_settings_tabs usable_tab tb_id e)) es))" for es :: "'j loaded_extension list"
    by (induction es) (simp_all only: list.map concat.simps mset_append extension_contributes(9))
  note each_tabs = this
  have "mset (map (\<lambda>x. (rb_extension_name x, rb_id x)) (rc_settings_tabs c)) =
      mset (map (\<lambda>(name, i). (name, ''ext-'' @ name @ ''-'' @ i))
        (contributed ct_settings_tabs usable_tab tb_id exts))"
    unfolding assms [symmetric] resolve_all_fields sort_keeps_tabs contributed_def map_concat map_map comp_def
    by (rule each_tabs)
  moreover have "\<forall>w \<in> set (rc_webui c). \<forall>r \<in> set (wc_routes w). own_route (wc_extension_name w) r"
    using extension_routes by (fastforce simp: resolve_all_fields list_all_iff simp flip: assms)
  moreover have "sorted (map (\<lambda>t. (rb_order t, rb_label t)) (rc_settings_tabs c))"
    by (simp add: resolve_all_fields sort_settings_tabs_def flip: assms)
  ultimately show ?thesis
    by (simp add: resolve_all_fields contributed_def map_concat comp_def extension_contributes
        flip: assms)
qed

text \<open>
  Two extensions that declare the same, one of them disabled: an MCP server, a skill with a path and
  one without, and three web interfaces, one of which has its routes in its own namespace.
\<close>

definition sample_webui :: "string \<Rightarrow> string \<Rightarrow> ext_webui" where
  "sample_webui i path = \<lparr> ew_id = i, ew_directory = ''ui'',
    ew_routes = [\<lparr> wr_path = path, wr_method = ''GET'', wr_handler = ''h'' \<rparr>] \<rparr>"

definition sample_contributor :: "string \<Rightarrow> bool \<Rightarrow> unit loaded_extension" where
  "sample_contributor name enabled =
    \<lparr> le_manifest = \<lparr> mf_name = name, mf_version = ''1.0.0'', mf_display_name = None,
        mf_description = None, mf_author = None, mf_license = None, mf_homepage = None,
        mf_icon = None, mf_engine = None, mf_api_version = None, mf_dependencies = [],
        mf_entry_point = None, mf_permissions = None,
        mf_contributes = Some \<lparr> ct_acp_adapters = [],
          ct_mcp_servers = [\<lparr> em_id = ''m'', em_name = ''m'', em_description = None, em_config = () \<rparr>],
          ct_assistants = [], ct_agents = [],
          ct_skills = [\<lparr> ek_name = ''s'', ek_description = None, ek_path = Some ''s.md'' \<rparr>,
            \<lparr> ek_name = ''t'', ek_description = None, ek_path = None \<rparr>],
          ct_themes = [], ct_channel_plugins = [],
          ct_webui = [sample_webui ''a'' ''/x/a'', sample_webui ''b'' ''/y/a'', sample_webui ''c'' ''/api/x/''],
          ct_settings_tabs = [], ct_model_providers = [] \<rparr>,
        mf_lifecycle = None, mf_i18n = None \<rparr>,
      le_directory = ''/e'', le_source = Local,
      le_state = \<lparr> xs_name = name, xs_version = ''1.0.0'', xs_enabled = enabled,
        xs_installed_at = None, xs_last_activated_at = None \<rparr> \<rparr>"

theorem contributions_are_confined_witness:
  "\<exists>c. resolve_all_contributions (\<lambda>_. None) sample_fs
      [sample_contributor ''x'' True, sample_contributor ''y'' False] = c \<and>
    map (\<lambda>x. (rm_extension_name x, rm_id x)) (rc_mcp_servers c) = [(''x'', ''m'')] \<and>
    map (\<lambda>x. (rk_extension_name x, rk_name x)) (rc_skills c) = [(''x'', ''s'')] \<and>
    map (\<lambda>x. (wc_extension_name x, wc_id x)) (rc_webui c) = [(''x'', ''a'')]"
proof -
  have "contributed ct_mcp_servers (\<lambda>_ _. True) em_id
      [sample_contributor ''x'' True, sample_contributor ''y'' False] = [(''x'', ''m'')]"
    "contributed ct_skills (usable_skill sample_fs) ek_name
      [sample_contributor ''x'' True, sample_contributor ''y'' False] = [(''x'', ''s'')]"
    "contributed ct_webui usable_webui ew_id
      [sample_contributor ''x'' True, sample_contributor ''y'' False] = [(''x'', ''a'')]"
    by code_simp+
  with contributions_are_confined [of "\<lambda>_. None" sample_fs
      "[sample_contributor ''x'' True, sample_contributor ''y'' False]", OF refl]
  show ?thesis
    by simp
qed

end
