(* ===== verification/ExtRegistry.thy ===== *)
theory ExtRegistry
  imports ExtDependency ExtResolvers
begin

text \<open>
  The extension registry (\<open>veryagent-extension/src/registry.rs\<close>, \<open>registry_helpers.rs\<close>,
  \<open>loader.rs\<close>, \<open>state.rs\<close>, \<open>lifecycle.rs\<close>): loading, the order, the persisted states, hooks,
  hot reload and the switch of an extension. The manifests found in a directory are an argument,
  and so are the clock, the environment and the file system; hooks and broadcasts are events.
\<close>

section \<open>The state store\<close>

record persisted_extension_state =
  pe_enabled :: bool
  pe_installed :: "bool option"
  pe_last_version :: "string option"

text \<open>A \<open>BTreeMap\<close> is an association list sorted by key.\<close>

record persisted_states =
  pst_version :: nat
  pst_extensions :: "(string, persisted_extension_state) hmap"

text \<open>serde_json on these types: a parameter with its documented round trip.\<close>

record 'b states_codec =
  sc_encode :: "persisted_states \<Rightarrow> 'b"
  sc_decode :: "'b \<Rightarrow> string + persisted_states"

definition states_codec_ok :: "'b states_codec \<Rightarrow> bool" where
  "states_codec_ok C \<longleftrightarrow> (\<forall>p. sc_decode C (sc_encode C p) = Inr p)"

definition state_of_persisted :: "string \<Rightarrow> persisted_extension_state \<Rightarrow> extension_state" where
  "state_of_persisted name p = \<lparr> xs_name = name,
    xs_version = (case pe_last_version p of Some v \<Rightarrow> v | None \<Rightarrow> []),
    xs_enabled = pe_enabled p,
    xs_installed_at = (if pe_installed p = Some True then Some 0 else None),
    xs_last_activated_at = None \<rparr>"

definition parse_states_from_bytes ::
    "'b states_codec \<Rightarrow> 'b \<Rightarrow> extension_error + (string, extension_state) hmap" where
  "parse_states_from_bytes C bytes =
    (case sc_decode C bytes of
      Inl text \<Rightarrow> Inl (JsonParse text)
    | Inr persisted \<Rightarrow>
        if pst_version persisted \<noteq> 1
        then Inl (StatePersistence ''unsupported extension state file version'')
        else Inr (map (\<lambda>(name, p). (name, state_of_persisted name p)) (pst_extensions persisted)))"

text \<open>The file as reading it answers; a missing file means no states.\<close>

definition load_states_from_file ::
    "'b states_codec \<Rightarrow> io_error + 'b \<Rightarrow> extension_error + (string, extension_state) hmap" where
  "load_states_from_file C content =
    (case content of
      Inr bytes \<Rightarrow> parse_states_from_bytes C bytes
    | Inl IoNotFound \<Rightarrow> Inr []
    | Inl e \<Rightarrow> Inl (Io e))"

definition persisted_of_state :: "extension_state \<Rightarrow> persisted_extension_state" where
  "persisted_of_state s = \<lparr> pe_enabled = xs_enabled s,
    pe_installed = map_option (\<lambda>_. True) (xs_installed_at s),
    pe_last_version = (if xs_version s \<noteq> [] then Some (xs_version s) else None) \<rparr>"

definition persisted_form :: "(string, extension_state) hmap \<Rightarrow> persisted_states" where
  "persisted_form states = \<lparr> pst_version = 1,
    pst_extensions = List.map_filter
      (\<lambda>name. map_option (\<lambda>s. (name, persisted_of_state s)) (hm_get states name))
      (sort (hm_keys states)) \<rparr>"

text \<open>Writing goes through a temporary file: either the whole new content or the old file.\<close>

definition save_states_to_file ::
    "'b states_codec \<Rightarrow> io_error option \<Rightarrow> (string, extension_state) hmap \<Rightarrow> io_error + 'b
      \<Rightarrow> (extension_error + unit) \<times> (io_error + 'b)" where
  "save_states_to_file C failure states content =
    (case failure of
      Some e \<Rightarrow> (Inl (Io e), content)
    | None \<Rightarrow> (Inr (), Inr (sc_encode C (persisted_form states))))"

text \<open>The store: its map, the file, and whether the writer has been notified.\<close>

record 'b state_store =
  st_states :: "(string, extension_state) hmap"
  st_file :: "io_error + 'b"
  st_notified :: bool

definition store_load ::
    "'b states_codec \<Rightarrow> 'b state_store \<Rightarrow> (extension_error + (string, extension_state) hmap) \<times> 'b state_store" where
  "store_load C S =
    (case load_states_from_file C (st_file S) of
      Inl e \<Rightarrow> (Inl e, S)
    | Inr states \<Rightarrow> (Inr states, S\<lparr> st_states := states \<rparr>))"

definition store_get :: "string \<Rightarrow> 'b state_store \<Rightarrow> extension_state option" where
  "store_get name S = hm_get (st_states S) name"

definition store_set :: "extension_state \<Rightarrow> 'b state_store \<Rightarrow> 'b state_store" where
  "store_set s S = S\<lparr> st_states := hm_insert (xs_name s) s (st_states S), st_notified := True \<rparr>"

definition store_set_all :: "(string, extension_state) hmap \<Rightarrow> 'b state_store \<Rightarrow> 'b state_store" where
  "store_set_all states S = S\<lparr> st_states := states, st_notified := True \<rparr>"

definition store_remove :: "string \<Rightarrow> 'b state_store \<Rightarrow> 'b state_store" where
  "store_remove name S = S\<lparr> st_states := hm_remove name (st_states S), st_notified := True \<rparr>"

definition store_flush ::
    "'b states_codec \<Rightarrow> io_error option \<Rightarrow> 'b state_store \<Rightarrow> (extension_error + unit) \<times> 'b state_store" where
  "store_flush C failure S =
    (let (r, content) = save_states_to_file C failure (st_states S) (st_file S)
     in (r, S\<lparr> st_file := content \<rparr>))"

text \<open>One round of the background writer, after its debounce sleep.\<close>

definition writer_round :: "'b states_codec \<Rightarrow> io_error option \<Rightarrow> 'b state_store \<Rightarrow> 'b state_store" where
  "writer_round C failure S =
    (if st_notified S then snd (store_flush C failure (S\<lparr> st_notified := False \<rparr>)) else S)"

section \<open>Loading\<close>

definition EXTENSION_API_VERSION :: string where
  "EXTENSION_API_VERSION = ''1.0.0''"

definition load_single_extension ::
    "'j extension_manifest \<Rightarrow> string \<Rightarrow> extension_source \<Rightarrow> 'j loaded_extension" where
  "load_single_extension manifest ext_dir source =
    \<lparr> le_manifest = manifest, le_directory = ext_dir, le_source = source,
      le_state = \<lparr> xs_name = mf_name manifest, xs_version = mf_version manifest, xs_enabled = True,
        xs_installed_at = None, xs_last_activated_at = None \<rparr> \<rparr>"

record scan_path =
  sp_path :: string
  sp_source :: extension_source

text \<open>The valid manifests below a directory with their own directories, in listing order.\<close>

type_synonym 'j listing = "string \<Rightarrow> (string \<times> 'j extension_manifest) list"

definition scan_directory :: "'j listing \<Rightarrow> scan_path \<Rightarrow> 'j loaded_extension list" where
  "scan_directory manifests sp =
    map (\<lambda>(dir, manifest). load_single_extension manifest dir (sp_source sp)) (manifests (sp_path sp))"

fun load_extension_once :: "'j loaded_extension \<Rightarrow> 'j loaded_extension list \<Rightarrow> 'j loaded_extension list" where
  "load_extension_once ext result =
    (if le_name ext \<in> set (map le_name result) then result else result @ [ext])"

definition load_all :: "'j listing \<Rightarrow> scan_path list \<Rightarrow> 'j loaded_extension list" where
  "load_all manifests scan_paths =
    fold (\<lambda>sp. fold load_extension_once (scan_directory manifests sp)) scan_paths []"

definition is_engine_compatible :: "('v, 'r) semver \<Rightarrow> 'j loaded_extension \<Rightarrow> 'v \<Rightarrow> bool" where
  "is_engine_compatible V ext app_version =
    (case mf_engine (le_manifest ext) of
      None \<Rightarrow> True
    | Some engine \<Rightarrow>
      (case eng_veryagent engine of
        None \<Rightarrow> True
      | Some required \<Rightarrow>
          (case sv_parse_req V required of
            Some req \<Rightarrow> sv_matches V req app_version
          | None \<Rightarrow> False)))"

definition is_api_version_compatible :: "('v, 'r) semver \<Rightarrow> 'j loaded_extension \<Rightarrow> bool" where
  "is_api_version_compatible V ext =
    (case mf_api_version (le_manifest ext) of
      None \<Rightarrow> True
    | Some api_ver_str \<Rightarrow>
      (case sv_parse V api_ver_str of
        None \<Rightarrow> False
      | Some declared \<Rightarrow>
        (case sv_parse V EXTENSION_API_VERSION of
          None \<Rightarrow> True
        | Some supported \<Rightarrow> sv_major V declared = sv_major V supported \<and> sv_le V declared supported)))"

definition filter_by_engine_compatibility ::
    "('v, 'r) semver \<Rightarrow> 'j loaded_extension list \<Rightarrow> string \<Rightarrow> 'j loaded_extension list" where
  "filter_by_engine_compatibility V exts app_version =
    (case sv_parse V app_version of
      None \<Rightarrow> exts
    | Some app_ver \<Rightarrow> filter (\<lambda>e. is_engine_compatible V e app_ver \<and> is_api_version_compatible V e) exts)"

text \<open>
  \<open>take_in_order\<close> is the loop over the load order, on the map from names to extensions.
\<close>

fun take_in_order ::
    "string list \<Rightarrow> (string, 'j loaded_extension) hmap \<Rightarrow> 'j loaded_extension list \<Rightarrow>
      (string, 'j loaded_extension) hmap \<times> 'j loaded_extension list" where
  "take_in_order [] by_name taken = (by_name, taken)"
| "take_in_order (name # names) by_name taken =
    (case hm_get by_name name of
      Some ext \<Rightarrow> take_in_order names (hm_remove name by_name) (taken @ [ext])
    | None \<Rightarrow> take_in_order names by_name taken)"

definition sort_by_load_order :: "'j loaded_extension list \<Rightarrow> string list \<Rightarrow> 'j loaded_extension list" where
  "sort_by_load_order exts load_order =
    (let by_name = fold (\<lambda>e. hm_insert (le_name e) e) exts [];
         (remaining, taken) = take_in_order load_order by_name []
     in taken @ sort_key le_name (hm_values remaining))"

definition load_and_validate ::
    "('v, 'r) semver \<Rightarrow> 'j listing \<Rightarrow> scan_path list \<Rightarrow> string
      \<Rightarrow> ('j loaded_extension list \<times> dependency_validation_result) option" where
  "load_and_validate V manifests scan_paths app_version =
    (let filtered = filter_by_engine_compatibility V (load_all manifests scan_paths) app_version
     in map_option (\<lambda>dep_result. (sort_by_load_order filtered (dv_load_order dep_result), dep_result))
          (validate_dependencies V filtered))"

section \<open>States and hooks\<close>

definition merge_persisted_states ::
    "'j loaded_extension list \<Rightarrow> (string, extension_state) hmap \<Rightarrow> 'j loaded_extension list" where
  "merge_persisted_states exts persisted =
    map (\<lambda>ext. case hm_get persisted (le_name ext) of
        Some saved \<Rightarrow> ext\<lparr> le_state := (le_state ext)\<lparr> xs_enabled := xs_enabled saved,
          xs_installed_at := xs_installed_at saved, xs_last_activated_at := xs_last_activated_at saved \<rparr> \<rparr>
      | None \<Rightarrow> ext) exts"

definition build_state_map :: "'j loaded_extension list \<Rightarrow> (string, extension_state) hmap" where
  "build_state_map exts = fold (\<lambda>e. hm_insert (xs_name (le_state e)) (le_state e)) exts []"

datatype hook_kind = OnInstall | OnUninstall | OnActivate | OnDeactivate

definition resolve_hook_path :: "lifecycle_hooks \<Rightarrow> hook_kind \<Rightarrow> string option" where
  "resolve_hook_path hooks kind =
    (let value = (case kind of OnInstall \<Rightarrow> on_install hooks | OnUninstall \<Rightarrow> on_uninstall hooks
        | OnActivate \<Rightarrow> on_activate hooks | OnDeactivate \<Rightarrow> on_deactivate hooks)
     in case value of Some s \<Rightarrow> if s = [] then None else Some s | None \<Rightarrow> None)"

definition needs_install_hook :: "string \<Rightarrow> string option \<Rightarrow> bool" where
  "needs_install_hook current_version persisted_version =
    (case persisted_version of None \<Rightarrow> True | Some prev \<Rightarrow> prev \<noteq> current_version)"

fun timeout_secs :: "hook_kind \<Rightarrow> nat" where
  "timeout_secs OnInstall = 120"
| "timeout_secs OnUninstall = 60"
| "timeout_secs OnActivate = 30"
| "timeout_secs OnDeactivate = 30"

fun hook_label :: "hook_kind \<Rightarrow> string" where
  "hook_label OnInstall = ''onInstall''"
| "hook_label OnUninstall = ''onUninstall''"
| "hook_label OnActivate = ''onActivate''"
| "hook_label OnDeactivate = ''onDeactivate''"

text \<open>
  How the process of a script ends: past its time, not started, or with a status, its exit code as
  text (\<open>None\<close> after a signal) and the trimmed text of its \<open>stderr\<close>.
\<close>

datatype hook_outcome = TimedOut | NotStarted string | Exited bool "string option" string

definition execute_hook ::
    "filesystem \<Rightarrow> (string \<Rightarrow> hook_outcome) \<Rightarrow> string \<Rightarrow> string \<Rightarrow> hook_kind \<Rightarrow> string \<Rightarrow>
     extension_error + unit" where
  "execute_hook fs process ext_dir hook_path kind extension_name =
    (let script = path_join ext_dir hook_path in
     if \<not> fs_exists fs script then Inl (HookNotFound script)
     else case process script of
       TimedOut \<Rightarrow> Inl (HookTimeout extension_name (hook_label kind) (timeout_secs kind))
     | NotStarted io_err \<Rightarrow> Inl (HookFailed extension_name (hook_label kind) io_err)
     | Exited True code stderr \<Rightarrow> Inr ()
     | Exited False code stderr \<Rightarrow>
         Inl (HookFailed extension_name (hook_label kind)
           (''exit code '' @ (case code of None \<Rightarrow> ''signal'' | Some c \<Rightarrow> c) @ '': '' @ stderr)))"

text \<open>
  What the registry does to the outside: hooks it executes, with what becomes of them, and messages
  it broadcasts. A hook that fails is logged and passed over.
\<close>

datatype registry_event =
  HookRun string hook_kind string "extension_error + unit"
  | LifecycleEvent string extension_system_event
  | StateChanged string bool

type_synonym hook_world = "filesystem \<times> (string \<Rightarrow> hook_outcome)"

definition hook_event :: "hook_world \<Rightarrow> 'j loaded_extension \<Rightarrow> hook_kind \<Rightarrow> registry_event list" where
  "hook_event H ext kind =
    (case mf_lifecycle (le_manifest ext) of
      None \<Rightarrow> []
    | Some hooks \<Rightarrow>
        (case resolve_hook_path hooks kind of
          Some path \<Rightarrow>
            [HookRun (le_name ext) kind path
              (execute_hook (fst H) (snd H) (le_directory ext) path kind (le_name ext))]
        | None \<Rightarrow> []))"

definition run_deactivation_hooks :: "hook_world \<Rightarrow> 'j loaded_extension list \<Rightarrow> registry_event list" where
  "run_deactivation_hooks H exts =
    concat (map (\<lambda>ext. if \<not> le_enabled ext then [] else hook_event H ext OnDeactivate) exts)"

definition activate_extension :: "timestamp_ms \<Rightarrow> 'j loaded_extension \<Rightarrow> 'j loaded_extension" where
  "activate_extension now ext =
    (if \<not> le_enabled ext then ext
     else ext\<lparr> le_state := (le_state ext)\<lparr> xs_last_activated_at := Some now,
       xs_installed_at := (case xs_installed_at (le_state ext) of None \<Rightarrow> Some now | t \<Rightarrow> t) \<rparr> \<rparr>)"

definition activation_events ::
    "hook_world \<Rightarrow> (string, extension_state) hmap \<Rightarrow> 'j loaded_extension \<Rightarrow> registry_event list" where
  "activation_events H persisted ext =
    (if \<not> le_enabled ext then []
     else (if needs_install_hook (mf_version (le_manifest ext))
              (map_option xs_version (hm_get persisted (le_name ext)))
           then hook_event H ext OnInstall else [])
          @ hook_event H ext OnActivate @ [LifecycleEvent (le_name ext) ExtensionActivated])"

definition run_activation_hooks ::
    "hook_world \<Rightarrow> timestamp_ms \<Rightarrow> 'j loaded_extension list \<Rightarrow> (string, extension_state) hmap
      \<Rightarrow> 'j loaded_extension list \<times> registry_event list" where
  "run_activation_hooks H now exts persisted =
    (map (activate_extension now) exts, concat (map (activation_events H persisted) exts))"

section \<open>The registry\<close>

record 'j registry =
  reg_extensions :: "'j loaded_extension list"
  reg_contributions :: "'j resolved_contributions"
  reg_scan_paths :: "scan_path list"
  reg_initialized :: bool

text \<open>What an operation reads from outside while it runs.\<close>

record ('j, 'v, 'r) world =
  wd_semver :: "('v, 'r) semver"
  wd_manifests :: "'j listing"
  wd_app_version :: string
  wd_env :: "string \<Rightarrow> string option"
  wd_fs :: filesystem
  wd_process :: "string \<Rightarrow> hook_outcome"
  wd_now :: timestamp_ms

definition new_registry :: "'j registry" where
  "new_registry = \<lparr> reg_extensions = [], reg_contributions = no_contributions, reg_scan_paths = [],
    reg_initialized = False \<rparr>"

abbreviation resolve_world :: "('j, 'v, 'r) world \<Rightarrow> 'j loaded_extension list \<Rightarrow> 'j resolved_contributions" where
  "resolve_world W \<equiv> resolve_all_contributions (wd_env W) (wd_fs W)"

abbreviation hooks_of :: "('j, 'v, 'r) world \<Rightarrow> hook_world" where
  "hooks_of W \<equiv> (wd_fs W, wd_process W)"

text \<open>\<open>None\<close> is a check of dependencies that does not return; it never happens.\<close>

definition initialize_with_scan_paths ::
    "'b states_codec \<Rightarrow> ('j, 'v, 'r) world \<Rightarrow> scan_path list \<Rightarrow> 'j registry \<times> 'b state_store \<Rightarrow>
      ((extension_error + unit) \<times> registry_event list \<times> 'j registry \<times> 'b state_store) option" where
  "initialize_with_scan_paths C W scan_paths rs =
    (let (R, S) = rs in
     map_option (\<lambda>(loaded, _).
       case store_load C S of
         (Inl e, S') \<Rightarrow> (Inl e, [], R, S')
       | (Inr persisted, S') \<Rightarrow>
           let (exts, events) = run_activation_hooks (hooks_of W) (wd_now W) (merge_persisted_states loaded persisted) persisted
           in (Inr (), events,
               R\<lparr> reg_extensions := exts, reg_contributions := resolve_world W exts,
                  reg_scan_paths := scan_paths, reg_initialized := True \<rparr>,
               store_set_all (build_state_map exts) S'))
       (load_and_validate (wd_semver W) (wd_manifests W) scan_paths (wd_app_version W)))"

text \<open>
  A hot reload takes its snapshots, runs the hooks and writes the store first, and commits the
  extensions after that, in another critical section.
\<close>

definition hot_reload_prepare ::
    "('j, 'v, 'r) world \<Rightarrow> 'j registry \<times> 'b state_store \<Rightarrow>
      ('j loaded_extension list \<times> registry_event list \<times> (string, extension_state) hmap) option" where
  "hot_reload_prepare W rs =
    (let (R, S) = rs in
     map_option (\<lambda>(loaded, _).
       let persisted = st_states S;
           (exts, events) = run_activation_hooks (hooks_of W) (wd_now W) (merge_persisted_states loaded persisted) persisted
       in (exts, run_deactivation_hooks (hooks_of W) (reg_extensions R) @ events, build_state_map exts))
       (load_and_validate (wd_semver W) (wd_manifests W) (reg_scan_paths R) (wd_app_version W)))"

definition hot_reload_commit ::
    "('j, 'v, 'r) world \<Rightarrow> 'j loaded_extension list \<Rightarrow> (string, extension_state) hmap
      \<Rightarrow> 'j registry \<times> 'b state_store \<Rightarrow> 'j registry \<times> 'b state_store" where
  "hot_reload_commit W exts states rs =
    (let (R, S) = rs in
     (R\<lparr> reg_extensions := exts, reg_contributions := resolve_world W exts \<rparr>, store_set_all states S))"

definition hot_reload ::
    "('j, 'v, 'r) world \<Rightarrow> 'j registry \<times> 'b state_store \<Rightarrow> (registry_event list \<times> 'j registry \<times> 'b state_store) option" where
  "hot_reload W rs =
    map_option (\<lambda>(exts, events, states).
      (events @ [LifecycleEvent ''registry'' RegistryReloaded], hot_reload_commit W exts states rs))
      (hot_reload_prepare W rs)"

definition find_extension :: "string \<Rightarrow> 'j loaded_extension list \<Rightarrow> nat option" where
  "find_extension name exts = (case filter (\<lambda>i. le_name (exts ! i) = name) [0..<length exts] of
     i # _ \<Rightarrow> Some i | [] \<Rightarrow> None)"

text \<open>
  The switch under the write lock; the state it returns is stored and announced after the lock
  was released. \<open>None\<close> means that nothing had to change.
\<close>

definition switch_locked ::
    "('j, 'v, 'r) world \<Rightarrow> bool \<Rightarrow> string \<Rightarrow> 'j registry \<Rightarrow>
      (extension_error + extension_state option) \<times> 'j registry" where
  "switch_locked W enable name R =
    (case find_extension name (reg_extensions R) of
      None \<Rightarrow> (Inl (ExtNotFound name), R)
    | Some idx \<Rightarrow>
        let ext = reg_extensions R ! idx in
        if le_enabled ext = enable then (Inr None, R)
        else
          let state = (if enable
                then (le_state ext)\<lparr> xs_enabled := True, xs_last_activated_at := Some (wd_now W) \<rparr>
                else (le_state ext)\<lparr> xs_enabled := False \<rparr>);
              exts = (reg_extensions R)[idx := ext\<lparr> le_state := state \<rparr>]
          in (Inr (Some state),
              R\<lparr> reg_extensions := exts, reg_contributions := resolve_world W exts \<rparr>))"

definition switch_extension ::
    "('j, 'v, 'r) world \<Rightarrow> bool \<Rightarrow> string \<Rightarrow> 'j registry \<times> 'b state_store \<Rightarrow>
      (extension_error + unit) \<times> registry_event list \<times> 'j registry \<times> 'b state_store" where
  "switch_extension W enable name rs =
    (let (R, S) = rs in
     case switch_locked W enable name R of
       (Inl e, R') \<Rightarrow> (Inl e, [], R', S)
     | (Inr None, R') \<Rightarrow> (Inr (), [], R', S)
     | (Inr (Some state), R') \<Rightarrow> (Inr (), [StateChanged name enable], R', store_set state S))"

definition enable_extension ::
    "('j, 'v, 'r) world \<Rightarrow> string \<Rightarrow> 'j registry \<times> 'b state_store \<Rightarrow>
      (extension_error + unit) \<times> registry_event list \<times> 'j registry \<times> 'b state_store" where
  "enable_extension W = switch_extension W True"

definition disable_extension ::
    "('j, 'v, 'r) world \<Rightarrow> string \<Rightarrow> 'j registry \<times> 'b state_store \<Rightarrow>
      (extension_error + unit) \<times> registry_event list \<times> 'j registry \<times> 'b state_store" where
  "disable_extension W = switch_extension W False"

record extension_summary =
  sm_name :: string
  sm_version :: string
  sm_display_name :: "string option"
  sm_description :: "string option"
  sm_enabled :: bool
  sm_source :: extension_source

definition to_summary :: "'j loaded_extension \<Rightarrow> extension_summary" where
  "to_summary ext = \<lparr> sm_name = le_name ext, sm_version = mf_version (le_manifest ext),
    sm_display_name = mf_display_name (le_manifest ext), sm_description = mf_description (le_manifest ext),
    sm_enabled = le_enabled ext, sm_source = le_source ext \<rparr>"

definition get_loaded_extensions :: "'j registry \<Rightarrow> extension_summary list" where
  "get_loaded_extensions R = map to_summary (reg_extensions R)"

definition get_extension_by_name :: "string \<Rightarrow> 'j registry \<Rightarrow> 'j loaded_extension option" where
  "get_extension_by_name name R = find (\<lambda>e. le_name e = name) (reg_extensions R)"

definition has_assistant :: "string \<Rightarrow> 'j registry \<Rightarrow> bool" where
  "has_assistant aid R = (\<exists>a \<in> set (rc_assistants (reg_contributions R)). rs_id a = aid)"

definition get_assistant_by_id :: "string \<Rightarrow> 'j registry \<Rightarrow> resolved_assistant option" where
  "get_assistant_by_id aid R = find (\<lambda>a. rs_id a = aid) (rc_assistants (reg_contributions R))"

end
