(* ===== verification/ExtDependencyProps.thy ===== *)
theory ExtDependencyProps
  imports ExtDependency
begin

text \<open>
  The load order is correct and every loop of the dependency check returns. The graph is first
  read off the maps the code builds; then the loop of Kahn's algorithm and the search for
  cycles are followed over it.
\<close>

section \<open>The graph\<close>

definition edges_from :: "string list \<Rightarrow> string \<Rightarrow> string list \<Rightarrow> (string \<times> string) list" where
  "edges_from known name deps = map (\<lambda>d. (d, name)) (filter (\<lambda>d. d \<in> set known) deps)"

definition edges_of :: "string list \<Rightarrow> 'j loaded_extension list \<Rightarrow> (string \<times> string) list" where
  "edges_of known exts =
    concat (map (\<lambda>e. edges_from known (le_name e) (hm_keys (le_dependencies e))) exts)"

definition degree :: "(string, nat) hmap \<Rightarrow> string \<Rightarrow> nat" where
  "degree deg n = (case hm_get deg n of Some k \<Rightarrow> k | None \<Rightarrow> 0)"

definition out_edges :: "string \<Rightarrow> (string \<times> string) list \<Rightarrow> string list" where
  "out_edges d E = map snd (filter (\<lambda>e. fst e = d) E)"

definition in_edges :: "string \<Rightarrow> (string \<times> string) list \<Rightarrow> nat" where
  "in_edges n E = length (filter (\<lambda>e. snd e = n) E)"

lemma edge_simps [simp]:
  "out_edges d [] = []" "in_edges n [] = 0"
  "out_edges d (E @ F) = out_edges d E @ out_edges d F" "in_edges n (E @ F) = in_edges n E + in_edges n F"
  "out_edges d ((a, b) # E) = (if a = d then b # out_edges d E else out_edges d E)"
  "in_edges n ((a, b) # E) = (if b = n then Suc (in_edges n E) else in_edges n E)"
  by (simp_all add: out_edges_def in_edges_def)

lemma neighbors_of_insert [simp]:
  "neighbors_of (hm_insert d ds adj) n = (if n = d then ds else neighbors_of adj n)"
  by (simp add: neighbors_of_def hm_get_insert)

lemma degree_insert [simp]: "degree (hm_insert n k deg) m = (if m = n then k else degree deg m)"
  by (simp add: degree_def hm_get_insert)

lemma hm_keys_insert [simp]: "fst ` set (hm_insert k v m) = insert k (fst ` set m)"
  by (induction m) auto

text \<open>\<open>represents adj deg E N\<close>: the two maps hold the edges \<open>E\<close> over the nodes \<open>N\<close>.\<close>

definition represents ::
    "adjacency \<Rightarrow> (string, nat) hmap \<Rightarrow> (string \<times> string) list \<Rightarrow> string set \<Rightarrow> bool" where
  "represents adj deg E N \<longleftrightarrow>
    (\<forall>d. neighbors_of adj d = out_edges d E) \<and> (\<forall>n. degree deg n = in_edges n E) \<and>
    set (hm_keys deg) = N \<and> hm_wf deg"

lemma represents_dependency:
  assumes "represents adj deg E N" "name \<in> N"
    and "count_dependency known name d (adj, deg) = (adj', deg')"
  shows "represents adj' deg' (E @ edges_from known name [d]) N"
proof (cases "d \<in> set known")
  case True
  then have "adj' = hm_insert d (neighbors_of adj d @ [name]) adj"
    and "deg' = hm_insert name (degree deg name + 1) deg"
    using assms(3) by (auto simp: neighbors_of_def degree_def split: option.splits)
  with assms(1,2) True show ?thesis
    by (auto simp: represents_def edges_from_def simp del: map_append)
next
  case False
  with assms show ?thesis
    by (auto simp: edges_from_def)
qed

lemma edges_from_Cons: "edges_from known name (d # ds) = edges_from known name [d] @ edges_from known name ds"
  by (simp add: edges_from_def)

lemma represents_dependencies:
  assumes "represents adj deg E N" "name \<in> N"
    and "fold (count_dependency known name) ds (adj, deg) = (adj', deg')"
  shows "represents adj' deg' (E @ edges_from known name ds) N"
  using assms
proof (induction ds arbitrary: adj deg E)
  case Nil
  then show ?case
    by (simp add: edges_from_def)
next
  case (Cons d ds)
  obtain adj1 deg1 where 1: "count_dependency known name d (adj, deg) = (adj1, deg1)"
    by (cases "count_dependency known name d (adj, deg)")
  from Cons.IH [OF represents_dependency [OF Cons.prems(1,2) 1] Cons.prems(2)] Cons.prems(3) 1
  show ?case
    by (simp add: edges_from_Cons [of known name d ds])
qed

lemma represents_extensions:
  assumes "represents adj deg E N" and "fold (count_extension known) exts (adj, deg) = (adj', deg')"
  shows "represents adj' deg' (E @ edges_of known exts) (N \<union> le_name ` set exts)"
  using assms
proof (induction exts arbitrary: adj deg E N)
  case (Cons e exts)
  let ?deg = "if hm_has deg (le_name e) then deg else hm_insert (le_name e) 0 deg"
  have "degree deg (le_name e) = 0" if "\<not> hm_has deg (le_name e)"
    using that by (simp add: degree_def hm_has_def)
  then have 0: "represents adj ?deg E (insert (le_name e) N)"
    using Cons.prems(1) by (auto simp: represents_def hm_has_iff)
  obtain adj1 deg1 where 1: "count_extension known e (adj, deg) = (adj1, deg1)"
    by (cases "count_extension known e (adj, deg)")
  then have "fold (count_dependency known (le_name e)) (hm_keys (le_dependencies e)) (adj, ?deg) = (adj1, deg1)"
    by simp
  from Cons.IH [OF represents_dependencies [OF 0 _ this]] Cons.prems(2) 1 show ?case
    by (simp add: edges_of_def)
qed (simp add: edges_of_def)

lemma build_graph_represents:
  assumes "build_graph exts = (adj, deg)"
  shows "represents adj deg (edges_of (known_names exts) exts) (set (known_names exts))"
proof -
  have "represents [] [] [] {}"
    by (simp add: represents_def neighbors_of_def degree_def)
  from represents_extensions [OF this] assms show ?thesis
    by (simp add: build_graph_def known_names_def)
qed

section \<open>Kahn's algorithm\<close>

text \<open>Edges whose source has not been emitted, and orders in which every source comes first.\<close>

definition pending :: "string list \<Rightarrow> (string \<times> string) list \<Rightarrow> (string \<times> string) list" where
  "pending order E = filter (\<lambda>e. fst e \<notin> set order) E"

definition sources_first :: "(string \<times> string) list \<Rightarrow> string list \<Rightarrow> bool" where
  "sources_first E order \<longleftrightarrow>
    (\<forall>i < length order. \<forall>d. (d, order ! i) \<in> set E \<longrightarrow> d \<in> set (take i order))"

lemma sources_first_snoc:
  "sources_first E (order @ [n]) \<longleftrightarrow> sources_first E order \<and> (\<forall>d. (d, n) \<in> set E \<longrightarrow> d \<in> set order)"
  by (auto simp: sources_first_def nth_append less_Suc_eq)

lemma in_edges_0: "in_edges n E = 0 \<longleftrightarrow> (\<forall>d. (d, n) \<notin> set E)"
  by (auto simp: in_edges_def filter_empty_conv)

lemma mem_out_edges: "n \<in> set (out_edges d E) \<longleftrightarrow> (d, n) \<in> set E"
  by (force simp: out_edges_def)

lemma in_edges_pending:
  assumes "node \<notin> set order"
  shows "in_edges n (pending order E) =
    in_edges n (pending (order @ [node]) E) + count_list (out_edges node E) n"
  using assms by (induction E) (auto simp: pending_def)

lemma decrement_all_Some:
  assumes "\<forall>n. degree deg n = R n + count_list ds n"
  shows "\<exists>deg' ready. decrement_all ds deg acc = Some (deg', acc @ ready) \<and>
    (\<forall>n. degree deg' n = R n) \<and> distinct ready \<and> set ready = {n \<in> set ds. R n = 0}"
  using assms
proof (induction ds arbitrary: deg acc)
  case (Cons dep ds)
  let ?k = "R dep + count_list ds dep"
  have "degree deg dep = Suc ?k"
    using Cons.prems by simp
  then have get: "hm_get deg dep = Some (Suc ?k)"
    by (auto simp: degree_def split: option.splits)
  have "\<forall>n. degree (hm_insert dep ?k deg) n = R n + count_list ds n"
    using Cons.prems by auto
  from Cons.IH [OF this, of "if ?k = 0 then acc @ [dep] else acc"]
  obtain deg' ready where step: "decrement_all ds (hm_insert dep ?k deg)
      (if ?k = 0 then acc @ [dep] else acc) = Some (deg', (if ?k = 0 then acc @ [dep] else acc) @ ready)"
    and rest: "\<forall>n. degree deg' n = R n" "distinct ready" "set ready = {n \<in> set ds. R n = 0}"
    by blast
  show ?case
  proof (cases "?k = 0")
    case True
    then have "dep \<notin> set ds" "R dep = 0"
      by (auto simp: count_list_0_iff)
    with step rest get True show ?thesis
      by (intro exI [of _ deg'] exI [of _ "dep # ready"]) auto
  next
    case False
    then have "R dep = 0 \<Longrightarrow> dep \<in> set ds"
      by (auto simp: count_list_0_iff)
    with step rest get False show ?thesis
      by (intro exI [of _ deg'] exI [of _ ready]) auto
  qed
qed auto

definition kahn_inv ::
    "(string \<times> string) list \<Rightarrow> string set \<Rightarrow> adjacency \<Rightarrow> string list \<Rightarrow> (string, nat) hmap \<Rightarrow> string list \<Rightarrow> bool" where
  "kahn_inv E N adj queue deg order \<longleftrightarrow>
    (\<forall>d. neighbors_of adj d = out_edges d E) \<and>
    (\<forall>n. degree deg n = in_edges n (pending order E)) \<and>
    distinct (order @ queue) \<and>
    set (order @ queue) = {n \<in> N. in_edges n (pending order E) = 0} \<and>
    sources_first E order"

lemma kahn_step:
  assumes inv: "kahn_inv E N adj (node # queue) deg order" and N: "snd ` set E \<subseteq> N"
  shows "\<exists>deg' ready. decrement_all (neighbors_of adj node) deg [] = Some (deg', ready) \<and>
    kahn_inv E N adj (queue @ sort ready) deg' (order @ [node])"
proof -
  let ?R = "\<lambda>n. in_edges n (pending (order @ [node]) E)"
  have node: "node \<notin> set order"
    using inv by (auto simp: kahn_inv_def)
  have ds: "neighbors_of adj node = out_edges node E"
    using inv by (simp add: kahn_inv_def)
  note split = in_edges_pending [OF node, where E = E]
  have "\<forall>n. degree deg n = ?R n + count_list (out_edges node E) n"
    using inv split by (simp add: kahn_inv_def)
  from decrement_all_Some [OF this, of "[]"] obtain deg' ready where
    dec: "decrement_all (out_edges node E) deg [] = Some (deg', ready)" and
    deg': "\<forall>n. degree deg' n = ?R n" and
    ready: "distinct ready" "set ready = {n \<in> set (out_edges node E). ?R n = 0}"
    by auto
  have zero: "in_edges n (pending order E) = 0 \<longleftrightarrow> ?R n = 0 \<and> n \<notin> set (out_edges node E)" for n
    by (simp add: split count_list_0_iff)
  have old: "set (order @ node # queue) = {n \<in> N. ?R n = 0 \<and> n \<notin> set (out_edges node E)}"
    using inv zero by (simp add: kahn_inv_def)
  have "set (out_edges node E) \<subseteq> N"
    using N by (force simp: mem_out_edges)
  then have "set (order @ node # queue) \<union> set ready = {n \<in> N. ?R n = 0}"
    unfolding old ready(2) by auto
  then have new: "set ((order @ [node]) @ queue @ sort ready) = {n \<in> N. ?R n = 0}"
    by auto
  have "set (order @ node # queue) \<inter> set ready = {}"
    unfolding old ready(2) by auto
  then have dist: "distinct ((order @ [node]) @ queue @ sort ready)"
    using inv ready(1) by (auto simp: kahn_inv_def)
  have "in_edges node (pending order E) = 0"
    using inv by (auto simp: kahn_inv_def)
  then have "\<forall>d. (d, node) \<in> set E \<longrightarrow> d \<in> set order"
    by (auto simp: in_edges_0 pending_def)
  with inv have "sources_first E (order @ [node])"
    by (simp add: kahn_inv_def sources_first_snoc)
  with inv dec deg' new dist ds show ?thesis
    by (intro exI [of _ deg'] exI [of _ ready]) (simp add: kahn_inv_def del: set_append distinct_append)
qed

lemma kahn_loop_unfold:
  "kahn_loop adj (node # queue) deg order =
    Option.bind (decrement_all (neighbors_of adj node) deg [])
      (\<lambda>p. kahn_loop adj (queue @ sort (snd p)) (fst p) (order @ [node]))"
  by (subst kahn_loop.simps) (auto simp: neighbors_of_def split: option.split)

lemma kahn_loop_Some:
  assumes "kahn_inv E N adj queue deg order" and "snd ` set E \<subseteq> N" and "finite N"
  shows "\<exists>deg' order'. kahn_loop adj queue deg order = Some order' \<and> kahn_inv E N adj [] deg' order'"
  using assms(1)
proof (induction "card N - length order" arbitrary: queue deg order rule: less_induct)
  case less
  show ?case
  proof (cases queue)
    case Nil
    with less.prems show ?thesis
      by (subst kahn_loop.simps) auto
  next
    case (Cons node queue')
    obtain deg' ready where dec: "decrement_all (neighbors_of adj node) deg [] = Some (deg', ready)"
      and inv: "kahn_inv E N adj (queue' @ sort ready) deg' (order @ [node])"
      using kahn_step [OF less.prems [unfolded Cons] assms(2)] by blast
    have "distinct (order @ [node])" and "set (order @ [node]) \<subseteq> N"
      using inv by (auto simp: kahn_inv_def)
    then have "length (order @ [node]) \<le> card N"
      using card_mono [OF assms(3)] distinct_card by metis
    then have "card N - length (order @ [node]) < card N - length order"
      by simp
    from less.hyps [OF this inv] dec show ?thesis
      by (simp add: Cons kahn_loop_unfold)
  qed
qed

text \<open>What is left over are the nodes from which a cycle can be reached.\<close>

definition reaches_cycle :: "('a \<times> 'a) set \<Rightarrow> 'a \<Rightarrow> bool" where
  "reaches_cycle D n \<longleftrightarrow> (\<exists>c. (n, c) \<in> D\<^sup>* \<and> (c, c) \<in> D\<^sup>+)"

lemma endless_reaches_cycle:
  assumes "finite Y" and "\<forall>y \<in> Y. \<exists>z \<in> Y. (y, z) \<in> D" and "y \<in> Y"
  shows "reaches_cycle D y"
proof (rule ccontr)
  assume no: "\<not> reaches_cycle D y"
  let ?D = "D \<inter> Y \<times> Y"
  let ?S = "{z \<in> Y. (y, z) \<in> ?D\<^sup>*}"
  have mono: "?D\<^sup>* \<subseteq> D\<^sup>*" "?D\<^sup>+ \<subseteq> D\<^sup>+"
    by (auto intro: rtrancl_mono [THEN subsetD] trancl_mono)
  have "acyclic (?D \<inter> ?S \<times> ?S)"
  proof (rule acyclicI, intro allI notI)
    fix c
    assume c: "(c, c) \<in> (?D \<inter> ?S \<times> ?S)\<^sup>+"
    then obtain d where "(c, d) \<in> ?D \<inter> ?S \<times> ?S"
      by (blast dest: tranclD)
    then have "c \<in> ?S"
      by simp
    moreover have "(c, c) \<in> D\<^sup>+"
      using c by (rule trancl_mono) auto
    ultimately show False
      using no mono(1) by (auto simp: reaches_cycle_def)
  qed
  moreover have "finite (?D \<inter> ?S \<times> ?S)"
    using assms(1) by auto
  ultimately have "wf ((?D \<inter> ?S \<times> ?S)\<inverse>)"
    by (simp add: finite_acyclic_wf acyclic_converse)
  moreover have "y \<in> ?S"
    using assms(3) by simp
  ultimately obtain z where z: "z \<in> ?S" "\<And>w. (w, z) \<in> (?D \<inter> ?S \<times> ?S)\<inverse> \<Longrightarrow> w \<notin> ?S"
    by (rule wfE_min) blast
  with assms(2) obtain w where "w \<in> Y" "(z, w) \<in> D"
    by auto
  with z have "(z, w) \<in> ?D" "w \<in> ?S"
    by (auto intro: rtrancl_into_rtrancl)
  with z show False
    by auto
qed

lemma sources_first_no_cycle:
  assumes "sources_first E order" and "n \<in> set order"
  shows "\<not> reaches_cycle ((set E)\<inverse>) n"
proof
  let ?D = "(set E)\<inverse>"
  assume "reaches_cycle ?D n"
  then obtain c where nc: "(n, c) \<in> ?D\<^sup>*" and cc: "(c, c) \<in> ?D\<^sup>+"
    by (auto simp: reaches_cycle_def)
  have upto: "\<exists>j \<le> i. order ! j = d \<and> j < length order" if "(m, d) \<in> ?D\<^sup>*" "order ! i = m" "i < length order" for m d i
    using that
  proof (induction arbitrary: i rule: converse_rtrancl_induct)
    case (step m m')
    then have "m' \<in> set (take i order)"
      using assms(1) by (auto simp: sources_first_def)
    then obtain j where "j < i" "order ! j = m'"
      by (auto simp: in_set_conv_nth)
    with step.IH [of j] step.prems show ?case
      by (meson less_imp_le order.trans order.strict_trans)
  qed blast
  have strict: "\<exists>j < i. order ! j = d" if md: "(m, d) \<in> ?D\<^sup>+" "order ! i = m" "i < length order" for m d i
  proof -
    obtain m' where m': "(m, m') \<in> ?D" "(m', d) \<in> ?D\<^sup>*"
      using tranclD [OF md(1)] by blast
    then have "m' \<in> set (take i order)"
      using assms(1) md by (auto simp: sources_first_def)
    then obtain j where "j < i" "order ! j = m'"
      by (auto simp: in_set_conv_nth)
    with upto [OF m'(2), of j] md(3) show ?thesis
      by (meson le_less_trans less_trans)
  qed
  from assms(2) obtain i where "i < length order" "order ! i = n"
    by (auto simp: in_set_conv_nth)
  from upto [OF nc this(2,1)] obtain j where j: "j < length order" "order ! j = c"
    by blast
  have "j < length order \<longrightarrow> order ! j \<noteq> c" for j
  proof (induction j rule: less_induct)
    case (less j)
    show ?case
    proof (intro impI notI)
      assume "j < length order" "order ! j = c"
      from strict [OF cc this(2,1)] obtain k where "k < j" "order ! k = c"
        by blast
      with less [of k] \<open>j < length order\<close> show False
        by simp
    qed
  qed
  with j show False
    by blast
qed

lemma kahn_leftover:
  assumes "kahn_inv E N adj [] deg order" and "finite N" and "set E \<subseteq> N \<times> N"
  shows "N - set order = {n \<in> N. reaches_cycle ((set E)\<inverse>) n}"
proof (intro equalityI subsetI)
  fix n
  assume n: "n \<in> N - set order"
  have "\<exists>z \<in> N - set order. (y, z) \<in> (set E)\<inverse>" if "y \<in> N - set order" for y
  proof -
    have "in_edges y (pending order E) \<noteq> 0"
      using that assms(1) by (auto simp: kahn_inv_def)
    then show ?thesis
      using assms(3) by (auto simp: in_edges_0 pending_def)
  qed
  with n assms(2) show "n \<in> {n \<in> N. reaches_cycle ((set E)\<inverse>) n}"
    by (auto intro!: endless_reaches_cycle [of "N - set order"])
next
  fix n
  assume "n \<in> {n \<in> N. reaches_cycle ((set E)\<inverse>) n}"
  with assms(1) show "n \<in> N - set order"
    by (auto simp: kahn_inv_def dest: sources_first_no_cycle)
qed

section \<open>The search for cycles\<close>

abbreviation edge_path :: "adjacency \<Rightarrow> string list \<Rightarrow> bool" where
  "edge_path adj \<equiv> successively (\<lambda>a b. b \<in> set (neighbors_of adj a))"

definition closed_walk :: "adjacency \<Rightarrow> string list \<Rightarrow> bool" where
  "closed_walk adj c \<longleftrightarrow> 2 \<le> length c \<and> hd c = last c \<and> edge_path adj c"

definition dfs_inv :: "adjacency \<Rightarrow> string set \<Rightarrow> dfs_state \<Rightarrow> bool" where
  "dfs_inv adj V s \<longleftrightarrow>
    ds_on_stack s = set (ds_path s) \<and> distinct (ds_path s) \<and> set (ds_path s) \<subseteq> ds_visited s \<and>
    ds_visited s \<subseteq> V \<and> edge_path adj (ds_path s) \<and> (\<forall>c \<in> set (ds_cycles s). closed_walk adj c)"

text \<open>
  What the loop over neighbours leaves: the path is back, the visited nodes and the cycles have
  only grown, and while no node had been finished before, a cycle has been found (provided that
  no node is without neighbours).
\<close>

definition dfs_post :: "adjacency \<Rightarrow> string set \<Rightarrow> bool \<Rightarrow> dfs_state \<Rightarrow> dfs_state \<Rightarrow> bool" where
  "dfs_post adj V todo s s' \<longleftrightarrow>
    dfs_inv adj V s' \<and> ds_path s' = ds_path s \<and> ds_visited s \<subseteq> ds_visited s' \<and>
    (ds_cycles s \<noteq> [] \<longrightarrow> ds_cycles s' \<noteq> []) \<and>
    ((\<forall>x \<in> V. neighbors_of adj x \<noteq> []) \<and> ds_visited s = ds_on_stack s \<and> todo \<longrightarrow> ds_cycles s' \<noteq> [])"

lemma edge_path_snoc:
  "edge_path adj (p @ [n]) \<longleftrightarrow> edge_path adj p \<and> (p \<noteq> [] \<longrightarrow> n \<in> set (neighbors_of adj (last p)))"
  by (auto simp: successively_append_iff)

lemma dfs_enter_inv:
  assumes "dfs_inv adj V s" "n \<in> V" "n \<notin> ds_visited s"
    "ds_path s \<noteq> [] \<longrightarrow> n \<in> set (neighbors_of adj (last (ds_path s)))"
  shows "dfs_inv adj V (dfs_enter n s)"
  using assms by (auto simp: dfs_inv_def dfs_enter_def edge_path_snoc)

lemma dfs_leave_inv:
  assumes "dfs_inv adj V s" "ds_path s = p @ [n]"
  shows "dfs_inv adj V (dfs_leave n s)"
  using assms by (auto simp: dfs_inv_def dfs_leave_def edge_path_snoc)

lemma dfs_record_inv:
  assumes inv: "dfs_inv adj V s" and "ds_path s \<noteq> []"
    and n: "n \<in> set (neighbors_of adj (last (ds_path s)))"
  shows "dfs_inv adj V (dfs_record n s)"
proof (cases "n \<in> set (ds_path s)")
  case True
  then obtain xs ys where split: "ds_path s = xs @ n # ys" "n \<notin> set xs"
    by (meson split_list_first)
  then have "\<forall>m \<in> set xs. m \<noteq> n"
    by auto
  then have "dropWhile (\<lambda>m. m \<noteq> n) (ds_path s) = n # ys"
    by (simp add: split(1) dropWhile_append2)
  moreover have "edge_path adj ((n # ys) @ [n])"
    unfolding edge_path_snoc using inv n split(1) by (auto simp: dfs_inv_def successively_append_iff)
  then have "closed_walk adj ((n # ys) @ [n])"
    by (simp add: closed_walk_def)
  ultimately show ?thesis
    using inv True by (auto simp: dfs_inv_def dfs_record_def)
qed (use inv in \<open>simp add: dfs_record_def\<close>)

lemma dfs_neighbors_Nil [simp]: "dfs_neighbors adj [] s = Some s"
  by (subst dfs_neighbors.simps) simp

lemma dfs_neighbors_Cons:
  "dfs_neighbors adj (n # ns) s =
    (if n \<notin> ds_visited s
     then Option.bind (dfs_neighbors adj (neighbors_of adj n) (dfs_enter n s))
            (\<lambda>s'. dfs_neighbors adj ns (dfs_leave n s'))
     else if n \<in> ds_on_stack s then dfs_neighbors adj ns (dfs_record n s)
     else dfs_neighbors adj ns s)"
  by (subst dfs_neighbors.simps) simp

lemma dfs_post_visit:
  assumes "dfs_inv adj V s" "n \<notin> ds_visited s"
    and "dfs_post adj V (neighbors_of adj n \<noteq> []) (dfs_enter n s) s1" "n \<in> V"
  shows "dfs_post adj V True s (dfs_leave n s1)"
proof -
  have p: "ds_path s1 = ds_path s @ [n]"
    using assms(3) by (simp add: dfs_post_def dfs_enter_def)
  show ?thesis
    using assms dfs_leave_inv [OF _ p, of adj V] p
    by (auto simp: dfs_post_def dfs_enter_def dfs_leave_def dfs_inv_def)
qed

lemma dfs_post_trans:
  assumes "dfs_post adj V True s s1" "dfs_post adj V b s1 s2"
  shows "dfs_post adj V True s s2"
  using assms by (auto simp: dfs_post_def)

lemma dfs_post_record:
  assumes "dfs_inv adj V s" "ds_path s \<noteq> []" "n \<in> set (neighbors_of adj (last (ds_path s)))"
    and "n \<in> ds_on_stack s"
  shows "dfs_post adj V True s (dfs_record n s)"
  using assms dfs_record_inv [OF assms(1-3)] by (auto simp: dfs_post_def dfs_record_def dfs_inv_def)

lemma dfs_neighbors_Some:
  assumes V: "finite V" "\<forall>x. set (neighbors_of adj x) \<subseteq> V"
  shows "dfs_inv adj V s \<Longrightarrow> ds_path s \<noteq> [] \<Longrightarrow> set ns \<subseteq> set (neighbors_of adj (last (ds_path s))) \<Longrightarrow>
    card (V - ds_visited s) \<le> k \<Longrightarrow>
    \<exists>s'. dfs_neighbors adj ns s = Some s' \<and> dfs_post adj V (ns \<noteq> []) s s'"
proof (induction k arbitrary: ns s rule: less_induct)
  case (less k)
  note inner = less.IH
  from less.prems show ?case
  proof (induction ns arbitrary: s)
    case Nil
    then show ?case
      by (auto simp: dfs_post_def)
  next
    case (Cons n ns)
    have n: "n \<in> set (neighbors_of adj (last (ds_path s)))" "n \<in> V"
      using Cons.prems(3) V(2) by auto
    have later: "\<exists>s'. dfs_neighbors adj ns s1 = Some s' \<and> dfs_post adj V True s s'"
      if post: "dfs_post adj V True s s1" for s1
    proof -
      have "dfs_inv adj V s1" "ds_path s1 = ds_path s" "ds_visited s \<subseteq> ds_visited s1"
        using post by (auto simp: dfs_post_def)
      moreover have "card (V - ds_visited s1) \<le> k"
        using Cons.prems(4) V(1) calculation(3)
        by (meson Diff_mono card_mono dual_order.trans finite_Diff order_refl)
      ultimately obtain s' where "dfs_neighbors adj ns s1 = Some s'" "dfs_post adj V (ns \<noteq> []) s1 s'"
        using Cons.IH [of s1] Cons.prems(2,3) by auto
      then show ?thesis
        using dfs_post_trans [OF post] by blast
    qed
    show ?case
    proof (cases "n \<in> ds_visited s")
      case False
      let ?s = "dfs_enter n s"
      have "V - ds_visited ?s \<subset> V - ds_visited s"
        using False n(2) by (auto simp: dfs_enter_def)
      then have "card (V - ds_visited ?s) < card (V - ds_visited s)"
        by (rule psubset_card_mono [OF finite_Diff [OF V(1)]])
      with Cons.prems(4) have "card (V - ds_visited ?s) < k"
        by simp
      moreover have "dfs_inv adj V ?s"
        using Cons.prems(1) n False by (intro dfs_enter_inv) auto
      moreover have "ds_path ?s \<noteq> []" "last (ds_path ?s) = n"
        by (simp_all add: dfs_enter_def)
      ultimately obtain s1 where s1: "dfs_neighbors adj (neighbors_of adj n) ?s = Some s1"
        "dfs_post adj V (neighbors_of adj n \<noteq> []) ?s s1"
        using inner [of "card (V - ds_visited ?s)" ?s "neighbors_of adj n"] by auto
      with later [OF dfs_post_visit [OF Cons.prems(1) False s1(2) n(2)]] False show ?thesis
        by (simp add: dfs_neighbors_Cons)
    next
      case True
      show ?thesis
      proof (cases "n \<in> ds_on_stack s")
        case True
        with \<open>n \<in> ds_visited s\<close> later [OF dfs_post_record [OF Cons.prems(1,2) n(1) True]] show ?thesis
          by (simp add: dfs_neighbors_Cons)
      next
        case False
        with True have "ds_visited s \<noteq> ds_on_stack s"
          by auto
        then have "dfs_post adj V True s s"
          using Cons.prems(1) by (simp add: dfs_post_def)
        with True False later show ?thesis
          by (simp add: dfs_neighbors_Cons)
      qed
    qed
  qed
qed

lemma dfs_all_Some:
  assumes V: "finite V" "\<forall>x. set (neighbors_of adj x) \<subseteq> V"
  shows "dfs_inv adj V s \<Longrightarrow> ds_path s = [] \<Longrightarrow> set nodes \<subseteq> V \<Longrightarrow>
    \<exists>s'. dfs_all adj nodes s = Some s' \<and> dfs_inv adj V s' \<and>
      (ds_cycles s \<noteq> [] \<longrightarrow> ds_cycles s' \<noteq> []) \<and>
      ((\<forall>x \<in> V. neighbors_of adj x \<noteq> []) \<and> ds_visited s = {} \<and> nodes \<noteq> [] \<longrightarrow> ds_cycles s' \<noteq> [])"
proof (induction nodes arbitrary: s)
  case (Cons n nodes)
  show ?case
  proof (cases "n \<in> ds_visited s")
    case True
    then have "ds_visited s \<noteq> {}"
      by blast
    with True Cons.IH [OF Cons.prems(1,2)] Cons.prems(3) show ?thesis
      by fastforce
  next
    case False
    have n: "n \<in> V"
      using Cons.prems by simp
    let ?s = "dfs_enter n s"
    have "dfs_inv adj V ?s" "ds_path ?s \<noteq> []" "last (ds_path ?s) = n"
      using dfs_enter_inv [OF Cons.prems(1) n False] Cons.prems(2) by (simp_all add: dfs_enter_def)
    then obtain s1 where s1: "dfs_neighbors adj (neighbors_of adj n) ?s = Some s1"
      "dfs_post adj V (neighbors_of adj n \<noteq> []) ?s s1"
      using dfs_neighbors_Some [OF V, of ?s "neighbors_of adj n"] by auto
    have post: "dfs_post adj V True s (dfs_leave n s1)"
      using dfs_post_visit [OF Cons.prems(1) False s1(2) n] .
    then obtain s' where s': "dfs_all adj nodes (dfs_leave n s1) = Some s'" "dfs_inv adj V s'"
      "ds_cycles (dfs_leave n s1) \<noteq> [] \<longrightarrow> ds_cycles s' \<noteq> []"
      using Cons.IH [of "dfs_leave n s1"] Cons.prems(2,3) by (auto simp: dfs_post_def)
    have "ds_visited s = {} \<Longrightarrow> ds_visited s = ds_on_stack s"
      using Cons.prems(1) by (auto simp: dfs_inv_def)
    with post s' s1(1) False show ?thesis
      by (auto simp: dfs_find_cycles_def dfs_post_def)
  qed
qed auto

text \<open>The graph the search runs on.\<close>

lemma cycle_graph_snoc:
  "neighbors_of (cycle_graph (exts @ [e]) involved) n =
    (if le_name e \<in> set involved \<and> n = le_name e
     then sort (filter (\<lambda>d. d \<in> set involved) (hm_keys (le_dependencies e)))
     else neighbors_of (cycle_graph exts involved) n)"
  by (simp add: cycle_graph_def)

lemma cycle_graph_subset: "set (neighbors_of (cycle_graph exts involved) n) \<subseteq> set involved"
proof (induction exts rule: rev_induct)
  case Nil
  show ?case
    by (simp add: cycle_graph_def neighbors_of_def)
qed (auto simp: cycle_graph_snoc)

text \<open>With distinct names, the neighbours of an extension are its dependencies.\<close>

lemma cycle_graph_of_extension:
  "distinct (map le_name exts) \<Longrightarrow> e \<in> set exts \<Longrightarrow> le_name e \<in> set involved \<Longrightarrow>
    set (neighbors_of (cycle_graph exts involved) (le_name e)) = fst ` set (le_dependencies e) \<inter> set involved"
proof (induction exts rule: rev_induct)
  case (snoc x exts)
  show ?case
  proof (cases "e = x")
    case True
    with snoc.prems(3) show ?thesis
      by (auto simp: cycle_graph_snoc)
  next
    case False
    with snoc.prems have "e \<in> set exts" "distinct (map le_name exts)" "le_name x \<notin> le_name ` set exts"
      by auto
    moreover from this(1,3) have "le_name e \<noteq> le_name x"
      by (metis imageI)
    ultimately show ?thesis
      using snoc.IH snoc.prems(3) by (simp add: cycle_graph_snoc)
  qed
qed simp

lemma cycle_graph_edge:
  "m \<in> set (neighbors_of (cycle_graph exts involved) n) \<Longrightarrow>
    \<exists>e \<in> set exts. le_name e = n \<and> m \<in> fst ` set (le_dependencies e)"
proof (induction exts rule: rev_induct)
  case Nil
  then show ?case
    by (simp add: cycle_graph_def neighbors_of_def)
qed (auto simp: cycle_graph_snoc split: if_split_asm)

lemma find_cycles_Some:
  fixes exts :: "'j loaded_extension list"
  assumes "distinct involved"
  defines "adj \<equiv> cycle_graph exts involved"
  shows "\<exists>cycles. find_cycles exts involved = Some cycles \<and> (\<forall>c \<in> set cycles. closed_walk adj c) \<and>
    (involved \<noteq> [] \<and> (\<forall>n \<in> set involved. neighbors_of adj n \<noteq> []) \<longrightarrow> cycles \<noteq> [])"
proof -
  let ?s = "\<lparr> ds_visited = {}, ds_on_stack = {}, ds_path = [], ds_cycles = [] \<rparr>"
  have "\<forall>x. set (neighbors_of adj x) \<subseteq> set involved"
    by (simp add: adj_def cycle_graph_subset)
  moreover have ne: "sort involved \<noteq> [] \<longleftrightarrow> involved \<noteq> []"
    by (metis length_0_conv length_sort)
  moreover have "dfs_inv adj (set involved) ?s"
    by (simp add: dfs_inv_def)
  ultimately obtain s' where "dfs_all adj (sort involved) ?s = Some s'" "dfs_inv adj (set involved) s'"
    "(\<forall>x \<in> set involved. neighbors_of adj x \<noteq> []) \<and> involved \<noteq> [] \<longrightarrow> ds_cycles s' \<noteq> []"
    using dfs_all_Some [of "set involved" adj ?s "sort involved"] by auto
  then show ?thesis
    by (auto simp: find_cycles_def adj_def dfs_inv_def)
qed

section \<open>The load order\<close>

text \<open>\<open>(n, d)\<close>: the extension \<open>n\<close> needs the installed extension \<open>d\<close>.\<close>

definition depends_on :: "'j loaded_extension list \<Rightarrow> (string \<times> string) set" where
  "depends_on exts = {(le_name e, d) | e d.
    e \<in> set exts \<and> d \<in> fst ` set (le_dependencies e) \<and> d \<in> le_name ` set exts}"

lemma set_known [simp]: "set (known_names exts) = le_name ` set exts"
  by (simp add: known_names_def)

lemma mem_edges_of:
  "(d, n) \<in> set (edges_of known exts) \<longleftrightarrow>
    (\<exists>e \<in> set exts. n = le_name e \<and> d \<in> fst ` set (le_dependencies e) \<and> d \<in> set known)"
  by (auto simp: edges_of_def edges_from_def)

lemma edges_depends_on: "(set (edges_of (known_names exts) exts))\<inverse> = depends_on exts"
proof (intro set_eqI, goal_cases)
  case (1 p)
  show ?case
    by (cases p) (auto simp: mem_edges_of depends_on_def)
qed

lemma edges_in_known: "set (edges_of (known_names exts) exts) \<subseteq> le_name ` set exts \<times> le_name ` set exts"
  by (auto simp: edges_of_def edges_from_def)

lemma mem_zero_degree:
  assumes "hm_wf deg"
  shows "(n, 0) \<in> set deg \<longleftrightarrow> n \<in> fst ` set deg \<and> degree deg n = 0"
proof
  assume "(n, 0) \<in> set deg"
  then show "n \<in> fst ` set deg \<and> degree deg n = 0"
    using hm_mem_get [OF assms] by (force simp: degree_def)
next
  assume "n \<in> fst ` set deg \<and> degree deg n = 0"
  then obtain k where "(n, k) \<in> set deg" "degree deg n = 0"
    by auto
  with hm_mem_get [OF assms] show "(n, 0) \<in> set deg"
    by (auto simp: degree_def)
qed

lemma seeds_start:
  assumes "represents adj deg E N"
  shows "kahn_inv E N adj (seeds deg) deg []"
proof -
  have wf: "hm_wf deg" and keys: "fst ` set deg = N" and deg: "\<And>n. degree deg n = in_edges n E"
    using assms by (auto simp: represents_def)
  have "set (seeds deg) = {n. (n, 0) \<in> set deg}"
    by (force simp: seeds_def)
  then have "set (seeds deg) = {n \<in> N. degree deg n = 0}"
    by (simp add: mem_zero_degree [OF wf] keys)
  moreover have "distinct (seeds deg)"
    unfolding seeds_def using wf by (simp add: distinct_map_filter)
  ultimately show ?thesis
    using assms by (simp add: kahn_inv_def represents_def pending_def sources_first_def)
qed

lemma kahn_on_extensions:
  assumes "build_graph exts = (adj, deg)"
  shows "\<exists>order. kahn_loop adj (seeds deg) deg [] = Some order \<and> distinct order \<and>
    set order \<subseteq> le_name ` set exts \<and>
    le_name ` set exts - set order = {n \<in> le_name ` set exts. reaches_cycle (depends_on exts) n} \<and>
    (\<forall>i < length order. \<forall>d. (order ! i, d) \<in> depends_on exts \<longrightarrow> d \<in> set (take i order))"
proof -
  let ?E = "edges_of (known_names exts) exts" and ?N = "le_name ` set exts"
  have "represents adj deg ?E ?N"
    using build_graph_represents [OF assms] by simp
  then have "kahn_inv ?E ?N adj (seeds deg) deg []"
    by (rule seeds_start)
  moreover have "snd ` set ?E \<subseteq> ?N"
    using edges_in_known [of exts] by force
  ultimately obtain deg' order where
    "kahn_loop adj (seeds deg) deg [] = Some order" "kahn_inv ?E ?N adj [] deg' order"
    using kahn_loop_Some [of ?E ?N adj "seeds deg" deg "[]"] by auto
  with kahn_leftover [OF this(2) _ edges_in_known] show ?thesis
    unfolding edges_depends_on by (auto simp: kahn_inv_def sources_first_def simp flip: edges_depends_on)
qed

text \<open>The result in one place: what the loop emitted, what is left, and the cycles among it.\<close>

lemma compute_topological_order_Some:
  fixes exts :: "'j loaded_extension list"
  obtains xs rest cycles where "compute_topological_order exts = Some (xs @ sort rest, cycles)"
    "distinct (xs @ rest)" "set (xs @ rest) = le_name ` set exts"
    "set rest = {n \<in> le_name ` set exts. reaches_cycle (depends_on exts) n}"
    "\<forall>i < length xs. \<forall>d. (xs ! i, d) \<in> depends_on exts \<longrightarrow> d \<in> set (take i xs)"
    "\<forall>c \<in> set cycles. closed_walk (cycle_graph exts rest) c" "rest = [] \<longrightarrow> cycles = []"
    "rest \<noteq> [] \<and> (\<forall>n \<in> set rest. neighbors_of (cycle_graph exts rest) n \<noteq> []) \<longrightarrow> cycles \<noteq> []"
proof -
  obtain adj deg where g: "build_graph exts = (adj, deg)"
    by (cases "build_graph exts")
  from kahn_on_extensions [OF g] obtain order where o: "kahn_loop adj (seeds deg) deg [] = Some order"
    "distinct order" "set order \<subseteq> le_name ` set exts"
    "le_name ` set exts - set order = {n \<in> le_name ` set exts. reaches_cycle (depends_on exts) n}"
    "\<forall>i < length order. \<forall>d. (order ! i, d) \<in> depends_on exts \<longrightarrow> d \<in> set (take i order)"
    by blast
  let ?rest = "filter (\<lambda>n. n \<notin> set order) (known_names exts)"
  have rest: "set ?rest = le_name ` set exts - set order" "distinct ?rest"
    by (auto simp: known_names_def)
  obtain cycles where c: "(if ?rest = [] then Some [] else find_cycles exts ?rest) = Some cycles"
    "\<forall>c \<in> set cycles. closed_walk (cycle_graph exts ?rest) c" "?rest = [] \<longrightarrow> cycles = []"
    "?rest \<noteq> [] \<and> (\<forall>n \<in> set ?rest. neighbors_of (cycle_graph exts ?rest) n \<noteq> []) \<longrightarrow> cycles \<noteq> []"
    using find_cycles_Some [OF rest(2), of exts] by (cases "?rest = []") auto
  from c(1) have "compute_topological_order exts = Some (order @ sort ?rest, cycles)"
    by (simp add: compute_topological_order_def g o(1) Let_def)
  moreover have "distinct (order @ ?rest)" "set (order @ ?rest) = le_name ` set exts"
    using o(2,3) rest by auto
  moreover have "set ?rest = {n \<in> le_name ` set exts. reaches_cycle (depends_on exts) n}"
    using o(4) rest(1) by simp
  ultimately show thesis
    by (rule that [OF _ _ _ _ o(5) c(2-4)])
qed

lemma load_order_facts:
  "\<exists>order cycles. compute_topological_order exts = Some (order, cycles) \<and> distinct order \<and>
    set order = le_name ` set exts"
proof -
  obtain xs rest cycles where "compute_topological_order exts = Some (xs @ sort rest, cycles)"
    "distinct (xs @ rest)" "set (xs @ rest) = le_name ` set exts"
    by (rule compute_topological_order_Some)
  then show ?thesis
    by auto
qed

text \<open>
  C33. Whatever the extensions depend on, the load order is computed (no entry is missing, no
  count drops below zero, the loops end), names every extension once, puts every extension
  after all its installed dependencies as long as no cycle can be reached from it, and ends with
  the extensions from which a cycle can be reached, in alphabetical order. These are more than
  the extensions \<open>involved in cycles\<close> of the documentation: an extension that only depends on
  a cycle is among them, and may be placed before its dependencies.
\<close>

theorem load_order_is_topological:
  "\<exists>xs ys cycles. compute_topological_order exts = Some (xs @ ys, cycles) \<and>
    distinct (xs @ ys) \<and> set (xs @ ys) = le_name ` set exts \<and>
    (\<forall>i < length xs. \<forall>d. (xs ! i, d) \<in> depends_on exts \<longrightarrow> d \<in> set (take i xs)) \<and>
    set ys = {n \<in> le_name ` set exts. reaches_cycle (depends_on exts) n} \<and> sorted ys"
proof -
  obtain xs rest cycles where r: "compute_topological_order exts = Some (xs @ sort rest, cycles)"
    "distinct (xs @ rest)" "set (xs @ rest) = le_name ` set exts"
    "set rest = {n \<in> le_name ` set exts. reaches_cycle (depends_on exts) n}"
    "\<forall>i < length xs. \<forall>d. (xs ! i, d) \<in> depends_on exts \<longrightarrow> d \<in> set (take i xs)"
    by (rule compute_topological_order_Some)
  then have "distinct (xs @ sort rest)" "set (xs @ sort rest) = le_name ` set exts"
    by auto
  with r show ?thesis
    by (intro exI [of _ xs] exI [of _ "sort rest"] exI [of _ cycles]) simp
qed

text \<open>Three extensions: \<open>b\<close> needs \<open>c\<close>, \<open>c\<close> needs itself, and \<open>a\<close> is free.\<close>

definition sample_extension :: "string \<Rightarrow> (string, string) hmap \<Rightarrow> unit loaded_extension" where
  "sample_extension name deps =
    \<lparr> le_manifest = \<lparr> mf_name = name, mf_version = ''1.0.0'', mf_display_name = None,
        mf_description = None, mf_author = None, mf_license = None, mf_homepage = None,
        mf_icon = None, mf_engine = None, mf_api_version = None, mf_dependencies = deps,
        mf_entry_point = None, mf_permissions = None, mf_contributes = None, mf_lifecycle = None,
        mf_i18n = None \<rparr>,
      le_directory = name, le_source = Local,
      le_state = \<lparr> xs_name = name, xs_version = ''1.0.0'', xs_enabled = True,
        xs_installed_at = None, xs_last_activated_at = None \<rparr> \<rparr>"

definition sample_extensions :: "unit loaded_extension list" where
  "sample_extensions =
    [sample_extension ''b'' [(''c'', ''1.0.0'')], sample_extension ''c'' [(''c'', ''1.0.0'')],
     sample_extension ''a'' []]"

lemma sample_order: "compute_topological_order sample_extensions = Some ([''a'', ''b'', ''c''], [[''c'', ''c'']])"
  by code_simp

theorem load_order_is_topological_witness:
  "compute_topological_order sample_extensions = Some ([''a'', ''b'', ''c''], [[''c'', ''c'']]) \<and>
   (\<exists>xs ys. [''a'', ''b'', ''c''] = xs @ ys \<and>
     (\<forall>i < length xs. \<forall>d. (xs ! i, d) \<in> depends_on sample_extensions \<longrightarrow> d \<in> set (take i xs)) \<and>
     set ys = {n \<in> le_name ` set sample_extensions. reaches_cycle (depends_on sample_extensions) n})"
  using load_order_is_topological [of sample_extensions] sample_order by auto

text \<open>
  C34. The check returns for every set of extensions, and every cycle it reports is one: it
  starts and ends with the same extension and each extension in it depends on the next.
\<close>

theorem reported_cycles_are_cycles:
  "\<exists>order cycles. compute_topological_order exts = Some (order, cycles) \<and>
    (\<forall>c \<in> set cycles. 2 \<le> length c \<and> hd c = last c \<and> successively (\<lambda>a b. (a, b) \<in> depends_on exts) c)"
proof -
  obtain xs rest cycles where r: "compute_topological_order exts = Some (xs @ sort rest, cycles)"
    "set (xs @ rest) = le_name ` set exts" "\<forall>c \<in> set cycles. closed_walk (cycle_graph exts rest) c"
    by (rule compute_topological_order_Some)
  have "(a, b) \<in> depends_on exts" if "b \<in> set (neighbors_of (cycle_graph exts rest) a)" for a b
  proof -
    have "b \<in> le_name ` set exts"
      using that cycle_graph_subset [of exts rest a] r(2) by auto
    with cycle_graph_edge [OF that] show ?thesis
      by (auto simp: depends_on_def)
  qed
  then have "successively (\<lambda>a b. (a, b) \<in> depends_on exts) c" if "closed_walk (cycle_graph exts rest) c" for c
    using that by (auto simp: closed_walk_def intro: successively_mono)
  with r show ?thesis
    by (auto simp: closed_walk_def)
qed

theorem reported_cycles_are_cycles_witness:
  "\<exists>cycles. Some ([''a'', ''b'', ''c''], [[''c'', ''c'']]) = Some ([''a'', ''b'', ''c''], cycles) \<and>
    (\<forall>c \<in> set cycles. successively (\<lambda>a b. (a, b) \<in> depends_on sample_extensions) c)"
  using reported_cycles_are_cycles [of sample_extensions] unfolding sample_order by auto

lemma version_table_get:
  "distinct (map le_name exts) \<Longrightarrow>
    hm_get (version_table exts) d = Some v \<longleftrightarrow> (\<exists>e \<in> set exts. le_name e = d \<and> mf_version (le_manifest e) = v)"
proof (induction exts rule: rev_induct)
  case (snoc e exts)
  then show ?case
    by (auto simp: version_table_def hm_get_insert rev_image_eqI)
qed (simp add: version_table_def)

lemma no_dependency_issues:
  assumes "distinct (map le_name exts)"
  shows "dependency_issues V (version_table exts) ext = [] \<longleftrightarrow>
    (\<forall>(d, req) \<in> set (le_dependencies ext). \<exists>e \<in> set exts.
      le_name e = d \<and> version_matches V req (mf_version (le_manifest e)))"
proof -
  have "(case hm_get (version_table exts) d of None \<Rightarrow> [Missing (le_name ext) d req]
      | Some actual \<Rightarrow> if \<not> version_matches V req actual
          then [VersionMismatch (le_name ext) d req actual] else []) = [] \<longleftrightarrow>
    (\<exists>e \<in> set exts. le_name e = d \<and> version_matches V req (mf_version (le_manifest e)))" for d req
  proof (cases "hm_get (version_table exts) d")
    case None
    with version_table_get [OF assms, of d] show ?thesis
      by auto
  next
    case (Some v)
    then have "(\<exists>e \<in> set exts. le_name e = d \<and> mf_version (le_manifest e) = u) \<longleftrightarrow> u = v" for u
      using version_table_get [OF assms, of d u] by auto
    then have "(\<exists>e \<in> set exts. le_name e = d \<and> version_matches V req (mf_version (le_manifest e)))
        \<longleftrightarrow> version_matches V req v"
      by metis
    with Some show ?thesis
      by simp
  qed
  then show ?thesis
    by (auto simp: dependency_issues_def split_def)
qed

lemma reaches_cycle_step: "reaches_cycle D n \<Longrightarrow> \<exists>d. (n, d) \<in> D \<and> reaches_cycle D d"
proof -
  assume "reaches_cycle D n"
  then obtain c where "(n, c) \<in> D\<^sup>*" "(c, c) \<in> D\<^sup>+"
    by (auto simp: reaches_cycle_def)
  then have "(n, c) \<in> D\<^sup>+"
    by (rule rtrancl_trancl_trancl)
  then obtain d where "(n, d) \<in> D" "(d, c) \<in> D\<^sup>*"
    using tranclD by metis
  with \<open>(c, c) \<in> D\<^sup>+\<close> show ?thesis
    by (auto simp: reaches_cycle_def)
qed

lemma cycles_iff_cyclic:
  assumes "distinct (map le_name exts)" and "compute_topological_order exts = Some (order, cycles)"
  shows "cycles = [] \<longleftrightarrow> acyclic (depends_on exts)"
proof -
  obtain xs rest cycles' where c: "compute_topological_order exts = Some (xs @ sort rest, cycles')"
    and "distinct (xs @ rest)" "set (xs @ rest) = le_name ` set exts"
    and rest: "set rest = {n \<in> le_name ` set exts. reaches_cycle (depends_on exts) n}"
    and "\<forall>i < length xs. \<forall>d. (xs ! i, d) \<in> depends_on exts \<longrightarrow> d \<in> set (take i xs)"
      "\<forall>c \<in> set cycles'. closed_walk (cycle_graph exts rest) c"
    and cycles: "rest = [] \<longrightarrow> cycles' = []"
      "rest \<noteq> [] \<and> (\<forall>n \<in> set rest. neighbors_of (cycle_graph exts rest) n \<noteq> []) \<longrightarrow> cycles' \<noteq> []"
    by (rule compute_topological_order_Some)
  from c assms(2) have "cycles' = cycles"
    by simp
  note cycles = cycles [unfolded this]
  have "neighbors_of (cycle_graph exts rest) n \<noteq> []" if n: "n \<in> set rest" for n
  proof -
    from n rest have "reaches_cycle (depends_on exts) n"
      by simp
    from reaches_cycle_step [OF this]
    obtain d where d: "(n, d) \<in> depends_on exts" "reaches_cycle (depends_on exts) d"
      by blast
    then have "d \<in> set rest"
      unfolding rest by (auto simp: depends_on_def)
    moreover obtain e where "e \<in> set exts" "le_name e = n" "d \<in> fst ` set (le_dependencies e)"
      using d(1) by (auto simp: depends_on_def)
    ultimately have "d \<in> set (neighbors_of (cycle_graph exts rest) n)"
      using cycle_graph_of_extension [OF assms(1), of e rest] n by simp
    then show ?thesis
      by auto
  qed
  then have "cycles = [] \<longleftrightarrow> rest = []"
    using cycles by blast
  also have "\<dots> \<longleftrightarrow> (\<forall>n \<in> le_name ` set exts. \<not> reaches_cycle (depends_on exts) n)"
    using rest by (metis (no_types, lifting) empty_Collect_eq set_empty)
  also have "\<dots> \<longleftrightarrow> acyclic (depends_on exts)"
  proof
    assume none: "\<forall>n \<in> le_name ` set exts. \<not> reaches_cycle (depends_on exts) n"
    show "acyclic (depends_on exts)"
    proof (rule acyclicI, intro allI notI)
      fix c
      assume "(c, c) \<in> (depends_on exts)\<^sup>+"
      moreover from this have "c \<in> le_name ` set exts"
        by (auto simp: depends_on_def dest!: tranclD)
      ultimately show False
        using none by (auto simp: reaches_cycle_def)
    qed
  qed (auto simp: acyclic_def reaches_cycle_def)
  finally show ?thesis .
qed

text \<open>
  C35. With distinct names the verdict of the check is the reference one: it is valid exactly when
  every dependency is installed in a version that matches, and no extension depends on itself
  through others.
\<close>

theorem valid_iff_satisfied_and_acyclic:
  assumes "distinct (map le_name exts)"
  shows "\<exists>r. validate_dependencies V exts = Some r \<and>
    (dv_valid r \<longleftrightarrow>
      (\<forall>ext \<in> set exts. \<forall>(d, req) \<in> set (le_dependencies ext). \<exists>e \<in> set exts.
        le_name e = d \<and> version_matches V req (mf_version (le_manifest e))) \<and>
      acyclic (depends_on exts))"
proof -
  obtain order cycles where c: "compute_topological_order exts = Some (order, cycles)"
    using compute_topological_order_Some [of exts] by metis
  show ?thesis
    by (simp add: validate_dependencies_def c Let_def cycles_iff_cyclic [OF assms c]
        no_dependency_issues [OF assms])
qed

text \<open>An instance of the crate in which the only requirements are exact ones.\<close>

definition exact_semver :: "(string, string) semver" where
  "exact_semver = \<lparr> sv_parse = Some, sv_parse_req = Some, sv_matches = (\<lambda>req v. req = CHR ''='' # v),
    sv_major = (\<lambda>_. 1), sv_le = (\<le>) \<rparr>"

theorem valid_iff_satisfied_and_acyclic_witness:
  "map_option dv_valid (validate_dependencies exact_semver
     [sample_extension ''b'' [(''a'', ''1.0.0'')], sample_extension ''a'' []]) = Some True \<and>
   acyclic (depends_on [sample_extension ''b'' [(''a'', ''1.0.0'')], sample_extension ''a'' []])"
proof -
  let ?exts = "[sample_extension ''b'' [(''a'', ''1.0.0'')], sample_extension ''a'' []]"
  have valid: "map_option dv_valid (validate_dependencies exact_semver ?exts) = Some True"
    by code_simp
  have "distinct (map le_name ?exts)"
    by (simp add: sample_extension_def)
  from valid_iff_satisfied_and_acyclic [OF this, of exact_semver] valid show ?thesis
    by auto
qed

text \<open>
  Without distinct names the search for cycles may miss one: the later of two extensions with one
  name hides the dependencies of the earlier one from \<open>find_cycles\<close>, not from Kahn's algorithm.
\<close>

theorem duplicate_name_hides_cycle:
  "map_option dv_valid (validate_dependencies exact_semver
     [sample_extension ''a'' [(''b'', ''1.0.0'')], sample_extension ''b'' [(''a'', ''1.0.0'')],
      sample_extension ''a'' []]) = Some True"
  by code_simp

end
