(* ===== verification/ExtRegistryProps.thy ===== *)
theory ExtRegistryProps
  imports ExtRegistry ExtDependencyProps
begin

text \<open>
  What the registry promises: the load order reaches the extensions, the persisted states
  survive the file, the store and the contributions follow the extensions over every sequence of
  operations that are made one after the other (\<open>ExtRegistryPool\<close> has the interleavings), and a hot
  reload keeps the switches.
\<close>

section \<open>Maps built by a loop\<close>

lemma fold_insert_wf: "hm_wf m \<Longrightarrow> hm_wf (fold (\<lambda>x. hm_insert (k x) (v x)) xs m)"
  by (induction xs arbitrary: m) auto

lemma fold_insert_other:
  "y \<notin> k ` set xs \<Longrightarrow> hm_get (fold (\<lambda>x. hm_insert (k x) (v x)) xs m) y = hm_get m y"
  by (induction xs arbitrary: m) (auto simp: hm_get_insert)

lemma fold_insert_get:
  "distinct (map k xs) \<Longrightarrow> x \<in> set xs \<Longrightarrow>
    hm_get (fold (\<lambda>x. hm_insert (k x) (v x)) xs m) (k x) = Some (v x)"
proof (induction xs arbitrary: m)
  case (Cons y xs)
  show ?case
  proof (cases "x = y")
    case True
    with Cons.prems have "k x \<notin> k ` set xs"
      by auto
    with True show ?thesis
      by (simp add: fold_insert_other hm_get_insert)
  next
    case False
    with Cons show ?thesis
      by simp
  qed
qed simp

lemma fold_insert_keys:
  "fst ` set (fold (\<lambda>x. hm_insert (k x) (v x)) xs m) = fst ` set m \<union> k ` set xs"
  by (induction xs arbitrary: m) auto

section \<open>Loading\<close>

lemma load_once_names:
  "distinct (map le_name r) \<Longrightarrow> distinct (map le_name (load_extension_once e r))"
  by auto

lemma load_all_distinct: "distinct (map le_name (load_all manifests scan_paths))"
proof -
  have step: "distinct (map le_name r) \<Longrightarrow> distinct (map le_name (fold load_extension_once es r))" for es r
    by (induction es arbitrary: r) (simp_all only: fold.simps id_apply comp_apply load_once_names)
  have "distinct (map le_name r) \<Longrightarrow>
      distinct (map le_name (fold (\<lambda>sp. fold load_extension_once (scan_directory manifests sp)) sps r))" for sps r
    by (induction sps arbitrary: r) (simp_all add: step)
  then show ?thesis
    by (simp add: load_all_def)
qed

lemma load_once_subset: "set (fold load_extension_once es r) \<subseteq> set es \<union> set r"
proof (induction es arbitrary: r)
  case (Cons e es)
  have "set (load_extension_once e r) \<subseteq> insert e (set r)"
    by auto
  with Cons [of "load_extension_once e r"] show ?case
    by fastforce
qed simp

lemma load_all_subset: "set (load_all manifests sps) \<subseteq> (\<Union>sp \<in> set sps. set (scan_directory manifests sp))"
proof -
  have "set (fold (\<lambda>sp. fold load_extension_once (scan_directory manifests sp)) sps r)
      \<subseteq> (\<Union>sp \<in> set sps. set (scan_directory manifests sp)) \<union> set r" for r
  proof (induction sps arbitrary: r)
    case (Cons sp sps)
    let ?r = "fold load_extension_once (scan_directory manifests sp) r"
    have "set (fold (\<lambda>sp. fold load_extension_once (scan_directory manifests sp)) (sp # sps) r)
        \<subseteq> (\<Union>sp \<in> set sps. set (scan_directory manifests sp)) \<union> set ?r"
      using Cons.IH [of ?r] by (simp del: load_extension_once.simps)
    also have "\<dots> \<subseteq> (\<Union>sp \<in> set (sp # sps). set (scan_directory manifests sp)) \<union> set r"
      using load_once_subset [of "scan_directory manifests sp" r] by auto
    finally show ?case .
  qed simp
  from this [of "[]"] show ?thesis
    by (simp add: load_all_def)
qed

lemma load_all_states:
  assumes "e \<in> set (load_all manifests scan_paths)"
  shows "xs_name (le_state e) = le_name e \<and> xs_version (le_state e) = mf_version (le_manifest e) \<and> le_enabled e"
  using assms load_all_subset [of manifests scan_paths]
  by (auto simp: scan_directory_def load_single_extension_def)

lemma filter_engine_sub:
  "\<exists>P. filter_by_engine_compatibility V exts v = filter P exts"
  by (cases "sv_parse V v")
    (auto simp: filter_by_engine_compatibility_def intro: exI [of _ "\<lambda>_. True"])

lemma take_in_order_eq:
  "distinct names \<Longrightarrow> hm_wf m \<Longrightarrow> set names \<subseteq> fst ` set m \<Longrightarrow>
    take_in_order names m r =
      (filter (\<lambda>p. fst p \<notin> set names) m, r @ map (\<lambda>n. the (hm_get m n)) names)"
proof (induction names arbitrary: m r)
  case (Cons n names)
  then obtain e where e: "hm_get m n = Some e"
    by (metis list.set_intros(1) map_of_eq_None_iff not_None_eq subsetD)
  have "set names \<subseteq> fst ` set (hm_remove n m)"
    using Cons.prems by (force simp: hm_set_remove)
  with Cons e have "take_in_order names (hm_remove n m) (r @ [e]) =
      (filter (\<lambda>p. fst p \<notin> set names) (hm_remove n m), (r @ [e]) @ map (\<lambda>k. the (hm_get (hm_remove n m) k)) names)"
    by simp
  moreover have "map (\<lambda>k. the (hm_get (hm_remove n m) k)) names = map (\<lambda>k. the (hm_get m k)) names"
    using Cons.prems(1) by (auto simp: hm_get_remove)
  ultimately show ?case
    using e by (auto simp: hm_remove_eq_filter intro: filter_cong)
qed simp

lemma sort_by_load_order_names:
  assumes "distinct (map le_name exts)" "distinct names" "set names = le_name ` set exts"
  shows "map le_name (sort_by_load_order exts names) = names \<and>
    set (sort_by_load_order exts names) = set exts"
proof -
  let ?m = "fold (\<lambda>e. hm_insert (le_name e) e) exts []"
  have m: "hm_wf ?m" "fst ` set ?m = set names"
    using assms(3) fold_insert_wf [of "[]" le_name "\<lambda>e. e"] fold_insert_keys [of le_name "\<lambda>e. e" exts "[]"]
    by simp_all
  have get: "e \<in> set exts \<Longrightarrow> hm_get ?m (le_name e) = Some e" for e
    using fold_insert_get [OF assms(1), of e "\<lambda>e. e" "[]"] by simp
  have "filter (\<lambda>p. fst p \<notin> set names) ?m = []"
    using m(2) by (auto simp: filter_empty_conv)
  with take_in_order_eq [OF assms(2) m(1), of "[]"] m(2)
  have "sort_by_load_order exts names = map (\<lambda>n. the (hm_get ?m n)) names"
    by (simp add: sort_by_load_order_def)
  moreover have "le_name (the (hm_get ?m n)) = n" if "n \<in> set names" for n
    using that get assms(3) by auto
  moreover have "(\<lambda>n. the (hm_get ?m n)) ` set names = set exts"
    using get unfolding assms(3) by force
  ultimately show ?thesis
    by (simp add: map_idI)
qed

text \<open>Loading always returns, in the order of the dependency check, each extension once.\<close>

lemma load_and_validate_Some:
  obtains exts r where "load_and_validate V manifests scan_paths version = Some (exts, r)"
    "map le_name exts = dv_load_order r" "distinct (map le_name exts)"
    "\<forall>e \<in> set exts. xs_name (le_state e) = le_name e \<and> xs_version (le_state e) = mf_version (le_manifest e) \<and> le_enabled e"
proof -
  let ?f = "filter_by_engine_compatibility V (load_all manifests scan_paths) version"
  obtain P where P: "?f = filter P (load_all manifests scan_paths)"
    using filter_engine_sub by blast
  have d: "distinct (map le_name ?f)"
    unfolding P using load_all_distinct distinct_map_filter by blast
  obtain order cycles where o: "compute_topological_order ?f = Some (order, cycles)"
    "distinct order" "set order = le_name ` set ?f"
    using load_order_facts [of ?f] by blast
  obtain r where r: "validate_dependencies V ?f = Some r" "dv_load_order r = order"
    by (simp add: validate_dependencies_def o(1) Let_def)
  note s = sort_by_load_order_names [OF d o(2,3)]
  have "\<forall>e \<in> set ?f. xs_name (le_state e) = le_name e \<and> xs_version (le_state e) = mf_version (le_manifest e) \<and> le_enabled e"
    unfolding P using load_all_states by auto
  with s o(2) r show thesis
    by (intro that [of "sort_by_load_order ?f order" r]) (simp_all add: load_and_validate_def Let_def)
qed

section \<open>The state file\<close>

text \<open>What the file keeps of a state.\<close>

definition kept :: "string \<Rightarrow> extension_state \<Rightarrow> extension_state" where
  "kept name s = s\<lparr> xs_name := name, xs_installed_at := map_option (\<lambda>_. 0) (xs_installed_at s),
    xs_last_activated_at := None \<rparr>"

lemma state_of_persisted_of_state: "state_of_persisted name (persisted_of_state s) = kept name s"
  by (cases s) (auto simp: state_of_persisted_def persisted_of_state_def kept_def split: option.splits)

lemma persisted_of_kept: "persisted_of_state (kept name s) = persisted_of_state s"
  by (cases "xs_installed_at s") (auto simp: persisted_of_state_def kept_def)

definition reread :: "(string, extension_state) hmap \<Rightarrow> (string, extension_state) hmap" where
  "reread states = map (\<lambda>n. (n, kept n (the (hm_get states n)))) (sort (hm_keys states))"

lemma map_filter_Some: "\<forall>x \<in> set xs. f x = Some (g x) \<Longrightarrow> List.map_filter f xs = map g xs"
  by (induction xs) (auto simp: List.map_filter_simps)

lemma persisted_form_eq:
  "pst_extensions (persisted_form states) =
    map (\<lambda>n. (n, persisted_of_state (the (hm_get states n)))) (sort (hm_keys states))"
proof -
  have "map_option (\<lambda>s. (n, persisted_of_state s)) (hm_get states n) =
      Some (n, persisted_of_state (the (hm_get states n)))" if "n \<in> set (sort (hm_keys states))" for n
    using that by (cases "hm_get states n") (auto simp: map_of_eq_None_iff)
  then show ?thesis
    by (simp add: persisted_form_def map_filter_Some)
qed

lemma hm_get_map_keys: "hm_get (map (\<lambda>n. (n, f n)) ns) k = (if k \<in> set ns then Some (f k) else None)"
  by (induction ns) auto

lemma reread_get: "hm_get (reread states) name = map_option (kept name) (hm_get states name)"
proof (cases "hm_get states name")
  case None
  then show ?thesis
    by (simp add: reread_def hm_get_map_keys map_of_eq_None_iff)
next
  case (Some s)
  then have "name \<in> fst ` set states"
    using hm_get_Some_mem [OF Some] by force
  with Some show ?thesis
    by (simp add: reread_def hm_get_map_keys)
qed

text \<open>
  C38. Writing the states and reading them back returns them: the same names, in alphabetical
  order, each with its version and its switch; of the times only whether there was an
  installation is kept. Reading back what was read back changes nothing more, because it makes
  the same file; and a write that fails leaves the file as it was.
\<close>

theorem state_file_round_trip:
  assumes "states_codec_ok C" and "hm_wf states"
  shows "load_states_from_file C (snd (save_states_to_file C None states old)) = Inr (reread states) \<and>
    hm_keys (reread states) = sort (hm_keys states) \<and>
    (\<forall>name. hm_get (reread states) name = map_option (kept name) (hm_get states name)) \<and>
    save_states_to_file C None (reread states) old = save_states_to_file C None states old \<and>
    snd (save_states_to_file C (Some e) states old) = old"
proof -
  have "load_states_from_file C (snd (save_states_to_file C None states old)) = Inr (reread states)"
    using assms(1) by (simp add: save_states_to_file_def load_states_from_file_def states_codec_ok_def
        parse_states_from_bytes_def persisted_form_eq reread_def state_of_persisted_of_state comp_def)
      (simp add: persisted_form_def)
  moreover have keys: "hm_keys (reread states) = sort (hm_keys states)"
    by (simp add: reread_def comp_def)
  moreover have "persisted_form (reread states) = persisted_form states"
  proof -
    have "persisted_of_state (the (hm_get (reread states) n)) = persisted_of_state (the (hm_get states n))"
      if "n \<in> set (hm_keys states)" for n
      using that by (cases "hm_get states n") (auto simp: reread_get persisted_of_kept map_of_eq_None_iff)
    then have "pst_extensions (persisted_form (reread states)) = pst_extensions (persisted_form states)"
      unfolding persisted_form_eq keys by (simp add: sorted_sort_id cong: map_cong)
    then show ?thesis
      by (simp add: persisted_form_def)
  qed
  ultimately show ?thesis
    by (simp add: reread_get save_states_to_file_def)
qed

section \<open>The registry over time\<close>

definition registry_inv ::
    "(string \<Rightarrow> string option) \<Rightarrow> filesystem \<Rightarrow> 'j registry \<times> 'b state_store \<Rightarrow> bool" where
  "registry_inv env fs rs \<longleftrightarrow>
    distinct (map le_name (reg_extensions (fst rs))) \<and>
    reg_contributions (fst rs) = resolve_all_contributions env fs (reg_extensions (fst rs)) \<and>
    (\<forall>e \<in> set (reg_extensions (fst rs)).
      xs_name (le_state e) = le_name e \<and> hm_get (st_states (snd rs)) (le_name e) = Some (le_state e))"

text \<open>Everything that may happen to a registry and its store, with the world it meets.\<close>

datatype ('j, 'v, 'r) registry_op =
  Initialize "('j, 'v, 'r) world" "scan_path list"
  | Reload "('j, 'v, 'r) world"
  | Switch "('j, 'v, 'r) world" bool string
  | Flush "io_error option"
  | WriterRound "io_error option"

fun registry_step ::
    "'b states_codec \<Rightarrow> ('j, 'v, 'r) registry_op \<Rightarrow> 'j registry \<times> 'b state_store \<Rightarrow> 'j registry \<times> 'b state_store" where
  "registry_step C (Initialize W paths) rs =
    (case initialize_with_scan_paths C W paths rs of Some (_, _, rs') \<Rightarrow> rs' | None \<Rightarrow> rs)"
| "registry_step C (Reload W) rs = (case hot_reload W rs of Some (_, rs') \<Rightarrow> rs' | None \<Rightarrow> rs)"
| "registry_step C (Switch W enable name) rs = snd (snd (switch_extension W enable name rs))"
| "registry_step C (Flush failure) rs = (fst rs, snd (store_flush C failure (snd rs)))"
| "registry_step C (WriterRound failure) rs = (fst rs, writer_round C failure (snd rs))"

text \<open>The environment and the extension files do not change while the registry runs.\<close>

fun same_world :: "(string \<Rightarrow> string option) \<Rightarrow> filesystem \<Rightarrow> ('j, 'v, 'r) registry_op \<Rightarrow> bool" where
  "same_world env fs (Initialize W _) \<longleftrightarrow> wd_env W = env \<and> wd_fs W = fs"
| "same_world env fs (Reload W) \<longleftrightarrow> wd_env W = env \<and> wd_fs W = fs"
| "same_world env fs (Switch W _ _) \<longleftrightarrow> wd_env W = env \<and> wd_fs W = fs"
| "same_world env fs (Flush _) \<longleftrightarrow> True"
| "same_world env fs (WriterRound _) \<longleftrightarrow> True"

lemma merge_names [simp]: "map le_name (merge_persisted_states exts persisted) = map le_name exts"
  by (auto simp: merge_persisted_states_def split: option.split)

lemma activate_name [simp]: "le_name (activate_extension now e) = le_name e"
  by (simp add: activate_extension_def)

lemma activate_directory [simp]: "le_directory (activate_extension now e) = le_directory e"
  by (simp add: activate_extension_def)

lemma activate_fields [simp]:
  "le_enabled (activate_extension now e) = le_enabled e"
  "xs_name (le_state (activate_extension now e)) = xs_name (le_state e)"
  "xs_version (le_state (activate_extension now e)) = xs_version (le_state e)"
  "le_manifest (activate_extension now e) = le_manifest e"
  by (simp_all add: activate_extension_def)

lemma build_state_map_get:
  assumes "distinct (map le_name exts)" "\<forall>e \<in> set exts. xs_name (le_state e) = le_name e" "e \<in> set exts"
  shows "hm_get (build_state_map exts) (le_name e) = Some (le_state e)"
proof -
  have "map (\<lambda>e. xs_name (le_state e)) exts = map le_name exts"
    using assms(2) by simp
  with assms(1) have "distinct (map (\<lambda>e. xs_name (le_state e)) exts)"
    by metis
  from fold_insert_get [OF this assms(3), of le_state "[]"] assms(2,3) show ?thesis
    by (simp add: build_state_map_def)
qed

text \<open>The extensions a (re)load installs, whatever was persisted.\<close>

lemma loaded_extensions_inv:
  fixes loaded :: "'j loaded_extension list" and now persisted
  assumes "distinct (map le_name loaded)" "\<forall>e \<in> set loaded. xs_name (le_state e) = le_name e"
  defines "exts \<equiv> map (activate_extension now) (merge_persisted_states loaded persisted)"
  shows "distinct (map le_name exts)" "\<forall>e \<in> set exts. xs_name (le_state e) = le_name e"
    "\<forall>e \<in> set exts. hm_get (build_state_map exts) (le_name e) = Some (le_state e)"
proof -
  have "map le_name exts = map le_name loaded"
    by (simp add: exts_def comp_def)
  then show d: "distinct (map le_name exts)"
    using assms(1) by simp
  show n: "\<forall>e \<in> set exts. xs_name (le_state e) = le_name e"
    using assms(2) by (auto simp: exts_def merge_persisted_states_def split: option.splits)
  show "\<forall>e \<in> set exts. hm_get (build_state_map exts) (le_name e) = Some (le_state e)"
    using build_state_map_get [OF d n] by blast
qed

lemma find_extension_Some:
  assumes "find_extension name exts = Some i"
  shows "i < length exts" "le_name (exts ! i) = name"
proof -
  have "i \<in> set (filter (\<lambda>i. le_name (exts ! i) = name) [0..<length exts])"
  proof (cases "filter (\<lambda>i. le_name (exts ! i) = name) [0..<length exts]")
    case (Cons j js)
    with assms show ?thesis
      unfolding find_extension_def Cons by simp
  qed (use assms in \<open>simp add: find_extension_def\<close>)
  then show "i < length exts" "le_name (exts ! i) = name"
    by auto
qed

lemma switch_locked_some:
  assumes "switch_locked W enable name R = (Inr (Some state), R')"
  obtains i where "i < length (reg_extensions R)" "le_name (reg_extensions R ! i) = name"
    "le_enabled (reg_extensions R ! i) \<noteq> enable" "xs_enabled state = enable"
    "xs_name state = xs_name (le_state (reg_extensions R ! i))"
    "R' = R\<lparr> reg_extensions := (reg_extensions R)[i := (reg_extensions R ! i)\<lparr> le_state := state \<rparr>],
      reg_contributions := resolve_world W ((reg_extensions R)[i := (reg_extensions R ! i)\<lparr> le_state := state \<rparr>]) \<rparr>"
proof -
  obtain i where f: "find_extension name (reg_extensions R) = Some i"
    using assms by (auto simp: switch_locked_def split: option.splits)
  note i = find_extension_Some [OF f]
  show thesis
    using assms i that [of i] by (auto simp: switch_locked_def f Let_def split: if_splits)
qed

lemma switch_locked_none:
  "switch_locked W enable name R = (r, R') \<Longrightarrow> \<forall>state. r \<noteq> Inr (Some state) \<Longrightarrow> R' = R"
  by (auto simp: switch_locked_def Let_def split: option.splits if_splits)

lemma switch_inv:
  assumes inv: "registry_inv env fs (R, S)" and W: "wd_env W = env" "wd_fs W = fs"
  shows "registry_inv env fs (snd (snd (switch_extension W enable name (R, S))))"
proof -
  obtain r R' where sw: "switch_locked W enable name R = (r, R')"
    by (cases "switch_locked W enable name R")
  show ?thesis
  proof (cases "\<exists>state. r = Inr (Some state)")
    case False
    then have "snd (snd (switch_extension W enable name (R, S))) = (R, S)"
      using switch_locked_none [OF sw] by (auto simp: switch_extension_def sw split: sum.split option.split)
    with inv show ?thesis
      by simp
  next
    case True
    then obtain state where r: "r = Inr (Some state)"
      by blast
    let ?xs = "reg_extensions R"
    obtain i where i: "i < length ?xs" "le_name (?xs ! i) = name"
      "xs_name state = xs_name (le_state (?xs ! i))"
      "R' = R\<lparr> reg_extensions := ?xs[i := (?xs ! i)\<lparr> le_state := state \<rparr>],
        reg_contributions := resolve_world W (?xs[i := (?xs ! i)\<lparr> le_state := state \<rparr>]) \<rparr>"
      using switch_locked_some [OF sw [unfolded r]] by metis
    let ?ys = "?xs[i := (?xs ! i)\<lparr> le_state := state \<rparr>]"
    have names: "map le_name ?ys = map le_name ?xs"
      using i(1) by (simp add: map_update list_update_same_conv)
    have d: "distinct (map le_name ?xs)" and st: "\<forall>e \<in> set ?xs. xs_name (le_state e) = le_name e \<and>
        hm_get (st_states S) (le_name e) = Some (le_state e)"
      using inv by (auto simp: registry_inv_def)
    have key: "xs_name state = name"
      using st i by simp
    have "xs_name (le_state e) = le_name e \<and>
        hm_get (st_states (store_set state S)) (le_name e) = Some (le_state e)" if "e \<in> set ?ys" for e
    proof -
      obtain j where j: "j < length ?xs" "e = ?ys ! j"
        using \<open>e \<in> set ?ys\<close> by (auto simp: in_set_conv_nth)
      show ?thesis
      proof (cases "j = i")
        case True
        with i(1,2) j key show ?thesis
          by (simp add: store_set_def hm_get_insert)
      next
        case False
        then have "e = ?xs ! j" "le_name (?xs ! j) \<noteq> name"
          using d i(1,2) j nth_eq_iff_index_eq [OF d, of j i] by auto
        with st j(1) key show ?thesis
          by (simp add: store_set_def hm_get_insert)
      qed
    qed
    with names d i(4) W show ?thesis
      by (auto simp: registry_inv_def switch_extension_def sw r)
  qed
qed

lemma writes_keep_states [simp]:
  "st_states (snd (store_flush C failure S)) = st_states S"
  "st_states (writer_round C failure S) = st_states S"
  by (simp_all add: store_flush_def writer_round_def split_def Let_def)

lemma no_extensions [simp]: "resolve_all_contributions env fs [] = no_contributions"
  by (simp add: resolve_all_contributions_def sort_settings_tabs_def no_contributions_def)

lemma registry_step_inv:
  assumes inv: "registry_inv env fs rs" and W: "same_world env fs op"
  shows "registry_inv env fs (registry_step C op rs)"
proof -
  obtain R S where rs: "rs = (R, S)"
    by (cases rs)
  show ?thesis
  proof (cases op)
    case (Initialize W paths)
    obtain loaded r where l: "load_and_validate (wd_semver W) (wd_manifests W) paths (wd_app_version W) = Some (loaded, r)"
      "distinct (map le_name loaded)" "\<forall>e \<in> set loaded. xs_name (le_state e) = le_name e"
      using load_and_validate_Some [of "wd_semver W" "wd_manifests W" paths "wd_app_version W"] by metis
    obtain q S' where q: "store_load C S = (q, S')"
      by (cases "store_load C S")
    show ?thesis
    proof (cases q)
      case (Inl e)
      then have "S' = S"
        using q by (auto simp: store_load_def split: sum.splits)
      with inv q Inl l(1) show ?thesis
        by (simp add: Initialize rs initialize_with_scan_paths_def)
    next
      case (Inr persisted)
      with q l(1) loaded_extensions_inv [OF l(2,3), of "wd_now W" persisted] \<open>same_world env fs op\<close> show ?thesis
        by (simp add: Initialize rs initialize_with_scan_paths_def run_activation_hooks_def
            registry_inv_def store_set_all_def)
    qed
  next
    case (Reload W)
    obtain loaded r where l: "load_and_validate (wd_semver W) (wd_manifests W) (reg_scan_paths R) (wd_app_version W) = Some (loaded, r)"
      "distinct (map le_name loaded)" "\<forall>e \<in> set loaded. xs_name (le_state e) = le_name e"
      using load_and_validate_Some [of "wd_semver W" "wd_manifests W" "reg_scan_paths R" "wd_app_version W"] by metis
    with loaded_extensions_inv [OF l(2,3), of "wd_now W" "st_states S"] \<open>same_world env fs op\<close> show ?thesis
      by (simp add: Reload rs hot_reload_def hot_reload_prepare_def hot_reload_commit_def
          run_activation_hooks_def registry_inv_def store_set_all_def Let_def)
  next
    case (Switch W enable name)
    with inv switch_inv [of env fs R S W] \<open>same_world env fs op\<close> show ?thesis
      by (simp add: rs)
  qed (use inv in \<open>auto simp: rs registry_inv_def\<close>)
qed

interpretation registry: guarded_machine "registry_step C" "\<lambda>op _. same_world env fs op"
  "\<lambda>rs. fst rs = new_registry" "registry_inv env fs" for C env fs
  by unfold_locales
    (simp add: registry_inv_def new_registry_def, rule registry_step_inv)

text \<open>The operations one after the other.\<close>

lemma registry_in_turn:
  assumes "registry_inv env fs rs" and "\<forall>op \<in> set ops. same_world env fs op"
  shows "registry_inv env fs (fold (registry_step C) ops rs)"
proof -
  have "registry.admissible_run C env fs ops rs"
    using assms(2) by (induction ops arbitrary: rs) auto
  with assms(1) show ?thesis
    by (rule registry.run_inv)
qed

text \<open>A world with one extension in the given versions, which has an install hook.\<close>

definition sample_manifest :: "string \<Rightarrow> unit extension_manifest" where
  "sample_manifest version =
    (le_manifest (sample_extension ''x'' []))\<lparr> mf_version := version,
      mf_lifecycle := Some \<lparr> on_install = Some ''install.js'', on_uninstall = None, on_activate = None,
        on_deactivate = None \<rparr> \<rparr>"

definition sample_world :: "string list \<Rightarrow> (unit, string, string) world" where
  "sample_world versions = \<lparr> wd_semver = exact_semver,
    wd_manifests = (\<lambda>_. map (\<lambda>v. (''/e/x'', sample_manifest v)) versions),
    wd_app_version = ''1.0.0'', wd_env = (\<lambda>_. None), wd_fs = sample_fs,
    wd_process = (\<lambda>_. Exited True (Some ''0'') []), wd_now = 7 \<rparr>"

definition sample_codec :: "persisted_states states_codec" where
  "sample_codec = \<lparr> sc_encode = (\<lambda>p. p), sc_decode = Inr \<rparr>"

definition empty_store :: "persisted_states state_store" where
  "empty_store = \<lparr> st_states = [], st_file = Inl IoNotFound, st_notified = False \<rparr>"

abbreviation sample_ops :: "(unit, string, string) registry_op list \<Rightarrow> unit registry \<times> persisted_states state_store" where
  "sample_ops ops \<equiv> fold (registry_step sample_codec) ops (new_registry, empty_store)"

abbreviation sample_start :: "(unit, string, string) registry_op" where
  "sample_start \<equiv> Initialize (sample_world [''1.0.0'']) [\<lparr> sp_path = ''/e'', sp_source = Local \<rparr>]"

definition sample_states :: "(string, extension_state) hmap" where
  "sample_states =
    [(''b'', \<lparr> xs_name = ''b'', xs_version = ''1'', xs_enabled = False, xs_installed_at = Some 9,
        xs_last_activated_at = Some 9 \<rparr>),
     (''a'', \<lparr> xs_name = ''a'', xs_version = [], xs_enabled = True, xs_installed_at = None,
        xs_last_activated_at = None \<rparr>)]"

theorem state_file_round_trip_witness:
  "load_states_from_file sample_codec
     (snd (save_states_to_file sample_codec None sample_states (Inl IoNotFound))) = Inr (reread sample_states) \<and>
   reread sample_states =
     [(''a'', \<lparr> xs_name = ''a'', xs_version = [], xs_enabled = True, xs_installed_at = None,
        xs_last_activated_at = None \<rparr>),
      (''b'', \<lparr> xs_name = ''b'', xs_version = ''1'', xs_enabled = False, xs_installed_at = Some 0,
        xs_last_activated_at = None \<rparr>)]"
proof (rule conjI)
  have "states_codec_ok sample_codec" "hm_wf sample_states"
    by (simp_all add: states_codec_ok_def sample_codec_def sample_states_def)
  from state_file_round_trip [OF this]
  show "load_states_from_file sample_codec
      (snd (save_states_to_file sample_codec None sample_states (Inl IoNotFound))) = Inr (reread sample_states)"
    by blast
qed code_simp

section \<open>Reloading\<close>

lemma merged_enabled:
  assumes "m \<in> set (merge_persisted_states loaded persisted)"
    and "\<forall>e \<in> set loaded. le_enabled e"
  shows "le_enabled m = (case hm_get persisted (le_name m) of Some s \<Rightarrow> xs_enabled s | None \<Rightarrow> True)"
  using assms by (auto simp: merge_persisted_states_def split: option.splits)

lemma missing_hook:
  "execute_hook fs process dir path kind name = Inl (HookNotFound (path_join dir path)) \<longleftrightarrow>
    \<not> fs_exists fs (path_join dir path)"
  by (auto simp: execute_hook_def Let_def split: hook_outcome.split bool.split)

lemma install_event:
  "HookRun n OnInstall path r \<in> set (activation_events H persisted e) \<longleftrightarrow>
    n = le_name e \<and> le_enabled e \<and>
    r = execute_hook (fst H) (snd H) (le_directory e) path OnInstall (le_name e) \<and>
    (\<exists>h. mf_lifecycle (le_manifest e) = Some h \<and> resolve_hook_path h OnInstall = Some path) \<and>
    needs_install_hook (mf_version (le_manifest e)) (map_option xs_version (hm_get persisted (le_name e)))"
  by (cases "mf_lifecycle (le_manifest e)")
    (auto simp: activation_events_def hook_event_def split: option.split)

lemma deactivation_no_install: "HookRun n OnInstall path r \<notin> set (run_deactivation_hooks H exts)"
  by (auto simp: run_deactivation_hooks_def hook_event_def split: option.splits if_splits)

text \<open>
  C40. A hot reload always completes. Every extension that is still there keeps its switch, a new
  one takes it from the store or starts enabled, and the install hook is executed exactly for the
  enabled extensions that have one and whose version is not the stored one: with the error
  \<open>HookNotFound\<close>, and no process, exactly when its script is missing.
\<close>

theorem reload_keeps_switches:
  assumes "registry_inv env fs (R, S)"
  shows "\<exists>events R' S'. hot_reload W (R, S) = Some (events, R', S') \<and>
    (\<forall>e \<in> set (reg_extensions R). \<forall>e' \<in> set (reg_extensions R').
      le_name e' = le_name e \<longrightarrow> le_enabled e' = le_enabled e) \<and>
    (\<forall>e' \<in> set (reg_extensions R'). hm_get (st_states S) (le_name e') = None \<longrightarrow> le_enabled e') \<and>
    (\<forall>e' \<in> set (reg_extensions R'). \<forall>path. (\<exists>r. HookRun (le_name e') OnInstall path r \<in> set events) \<longleftrightarrow>
      le_enabled e' \<and>
      (\<exists>h. mf_lifecycle (le_manifest e') = Some h \<and> resolve_hook_path h OnInstall = Some path) \<and>
      needs_install_hook (mf_version (le_manifest e'))
        (map_option xs_version (hm_get (st_states S) (le_name e')))) \<and>
    (\<forall>e' \<in> set (reg_extensions R'). \<forall>path r. HookRun (le_name e') OnInstall path r \<in> set events \<longrightarrow>
      (r = Inl (HookNotFound (path_join (le_directory e') path)) \<longleftrightarrow>
        \<not> fs_exists (wd_fs W) (path_join (le_directory e') path)))"
proof -
  obtain loaded r where l: "load_and_validate (wd_semver W) (wd_manifests W) (reg_scan_paths R) (wd_app_version W) = Some (loaded, r)"
    "distinct (map le_name loaded)" "\<forall>e \<in> set loaded. le_enabled e"
    using load_and_validate_Some [of "wd_semver W" "wd_manifests W" "reg_scan_paths R" "wd_app_version W"] by metis
  let ?m = "merge_persisted_states loaded (st_states S)"
  let ?events = "run_deactivation_hooks (hooks_of W) (reg_extensions R) @ concat (map (activation_events (hooks_of W) (st_states S)) ?m) @
    [LifecycleEvent ''registry'' RegistryReloaded]"
  have reload: "hot_reload W (R, S) = Some (?events,
      hot_reload_commit W (map (activate_extension (wd_now W)) ?m)
        (build_state_map (map (activate_extension (wd_now W)) ?m)) (R, S))"
    by (simp add: hot_reload_def hot_reload_prepare_def l(1) run_activation_hooks_def Let_def)
  have d: "distinct (map le_name ?m)"
    using l(2) by (simp only: merge_names)
  have st: "\<forall>e \<in> set (reg_extensions R). hm_get (st_states S) (le_name e) = Some (le_state e)"
    using assms by (auto simp: registry_inv_def)
  have keep: "le_enabled m = le_enabled e"
    if "e \<in> set (reg_extensions R)" "m \<in> set ?m" "le_name m = le_name e" for e m
    using merged_enabled [OF that(2) l(3)] st that(1,3) by simp
  have new: "le_enabled m" if "m \<in> set ?m" "hm_get (st_states S) (le_name m) = None" for m
    using merged_enabled [OF that(1) l(3)] that(2) by simp
  have unique: "m' = m" if "m \<in> set ?m" "m' \<in> set ?m" "le_name m' = le_name m" for m m'
    using inj_onD [OF conjunct2 [OF d [unfolded distinct_map]]] that by blast
  have run: "HookRun n OnInstall path r \<in> set ?events \<longleftrightarrow>
      (\<exists>m' \<in> set ?m. HookRun n OnInstall path r \<in> set (activation_events (hooks_of W) (st_states S) m'))" for n path r
    by (simp add: deactivation_no_install)
  have install: "HookRun (le_name m) OnInstall path r \<in> set ?events \<longleftrightarrow>
      HookRun (le_name m) OnInstall path r \<in> set (activation_events (hooks_of W) (st_states S) m)"
    if "m \<in> set ?m" for m path r
  proof
    assume "HookRun (le_name m) OnInstall path r \<in> set ?events"
    then obtain m' where m': "m' \<in> set ?m" "HookRun (le_name m) OnInstall path r \<in> set (activation_events (hooks_of W) (st_states S) m')"
      unfolding run by blast
    then have "le_name m' = le_name m"
      by (simp add: install_event)
    from unique [OF that m'(1) this] m'(2) show "HookRun (le_name m) OnInstall path r \<in> set (activation_events (hooks_of W) (st_states S) m)"
      by simp
  qed (use that run in blast)
  show ?thesis
    unfolding reload hot_reload_commit_def
    using keep new install by (auto simp: install_event missing_hook simp del: set_append)
qed

theorem reload_keeps_switches_witness:
  "\<exists>events R S. hot_reload (sample_world [''2.0.0'']) (sample_ops [sample_start]) = Some (events, R, S) \<and>
     HookRun ''x'' OnInstall ''install.js'' (Inr ()) \<in> set events \<and>
     (\<forall>e \<in> set (reg_extensions (fst (sample_ops [sample_start]))). \<forall>e' \<in> set (reg_extensions R).
       le_name e' = le_name e \<longrightarrow> le_enabled e' = le_enabled e)"
proof -
  have "registry_inv (\<lambda>_. None) sample_fs (sample_ops [sample_start])"
    using registry.run_from_start [of "(new_registry, empty_store)" sample_codec "\<lambda>_. None" sample_fs "[sample_start]"]
    by (simp add: sample_world_def)
  then have inv: "registry_inv (\<lambda>_. None) sample_fs (fst (sample_ops [sample_start]), snd (sample_ops [sample_start]))"
    by simp
  have hook: "map_option (\<lambda>(events, _). HookRun ''x'' OnInstall ''install.js'' (Inr ()) \<in> set events)
      (hot_reload (sample_world [''2.0.0'']) (sample_ops [sample_start])) = Some True"
    by code_simp
  obtain events R S where r: "hot_reload (sample_world [''2.0.0'']) (sample_ops [sample_start]) = Some (events, R, S)"
    and keep: "\<forall>e \<in> set (reg_extensions (fst (sample_ops [sample_start]))). \<forall>e' \<in> set (reg_extensions R).
       le_name e' = le_name e \<longrightarrow> le_enabled e' = le_enabled e"
    using reload_keeps_switches [OF inv, of "sample_world [''2.0.0'']"] by auto
  from hook r have "HookRun ''x'' OnInstall ''install.js'' (Inr ()) \<in> set events"
    by simp
  with r keep show ?thesis
    by blast
qed

section \<open>Three traces\<close>

text \<open>
  A switch between the snapshot of a hot reload and its commit is lost: the extension is enabled
  again, in the registry and in the store.
\<close>

theorem switch_during_reload_is_lost:
  "(let W = sample_world [''1.0.0'']; rs = sample_ops [sample_start];
        reloading = the (hot_reload_prepare W rs);
        disabled = snd (snd (disable_extension W ''x'' rs));
        done = hot_reload_commit W (fst reloading) (snd (snd reloading)) disabled
    in (map le_enabled (reg_extensions (fst disabled)), map le_enabled (reg_extensions (fst done)),
        map_option xs_enabled (store_get ''x'' (snd done)))) = ([False], [True], Some True)"
  by code_simp

text \<open>
  The install hook of an update is skipped for good when the extension is disabled at the time:
  the new version is stored all the same, and enabling runs no hook.
\<close>

theorem update_of_disabled_extension_never_installs:
  "(let rs = sample_ops [sample_start, Switch (sample_world []) False ''x''];
        W = sample_world [''2.0.0''];
        (events1, rs1) = the (hot_reload W rs);
        (_, events2, rs2) = enable_extension W ''x'' rs1;
        (events3, rs3) = the (hot_reload W rs2)
    in (filter (\<lambda>e. case e of HookRun _ _ _ _ \<Rightarrow> True | _ \<Rightarrow> False) (events1 @ events2 @ events3),
        map le_enabled (reg_extensions (fst rs3)))) = ([], [True])"
  by code_simp

text \<open>
  The store forgets an extension that is missing from one load, so one that was disabled comes
  back enabled.
\<close>

theorem missing_extension_forgets_switch:
  "map le_enabled (reg_extensions (fst (sample_ops
     [sample_start, Switch (sample_world []) False ''x'', Reload (sample_world []),
      Reload (sample_world [''1.0.0''])]))) = [True]"
  by code_simp

end
