(* ===== verification/ExtRegistryPool.thy ===== *)
theory ExtRegistryPool
  imports ExtRegistryProps Coroutine
begin

text \<open>
  The registry under concurrent calls. The registry and the state store have a lock each, and no
  method holds both: a switch stores the new state after it released the registry
  (\<open>registry.rs\<close>, 227-229 and 263-265), a reload takes its snapshots and writes the store before it
  commits the extensions (156-188), an initialization loads and writes the store before it commits
  (115-139). Here each call is the sequence of its critical sections. The theorem says what holds for
  every interleaving and what for calls made one after the other, the last lemma what does not hold.
\<close>

section \<open>Methods\<close>

type_synonym ('j, 'b) shared = "'j registry \<times> 'b state_store"

definition on_registry :: "('j registry \<Rightarrow> 'r \<times> 'j registry) \<Rightarrow> (('j, 'b) shared, 'r) coroutine" where
  "on_registry f = atomic (\<lambda>(R, S). case f R of (r, R') \<Rightarrow> (r, R', S))"

definition on_store :: "('b state_store \<Rightarrow> 'r \<times> 'b state_store) \<Rightarrow> (('j, 'b) shared, 'r) coroutine" where
  "on_store f = atomic (\<lambda>(R, S). case f S of (r, S') \<Rightarrow> (r, R, S'))"

text \<open>
  The methods of the store: reading the file and keeping what it says, changing the map and then
  notifying the writer, taking a snapshot of the map and then writing it.
\<close>

definition load_method ::
    "'b states_codec \<Rightarrow> (('j, 'b) shared, extension_error + (string, extension_state) hmap) coroutine" where
  "load_method C =
    co_bind (on_store (\<lambda>S. (load_states_from_file C (st_file S), S))) (\<lambda>r.
      case r of
        Inl e \<Rightarrow> Done (Inl e)
      | Inr states \<Rightarrow> co_bind (on_store (\<lambda>S. ((), S\<lparr> st_states := states \<rparr>))) (\<lambda>_. Done (Inr states)))"

definition set_method ::
    "((string, extension_state) hmap \<Rightarrow> (string, extension_state) hmap) \<Rightarrow> (('j, 'b) shared, unit) coroutine" where
  "set_method f =
    co_bind (on_store (\<lambda>S. ((), S\<lparr> st_states := f (st_states S) \<rparr>))) (\<lambda>_.
      on_store (\<lambda>S. ((), S\<lparr> st_notified := True \<rparr>)))"

definition flush_method :: "'b states_codec \<Rightarrow> io_error option \<Rightarrow> (('j, 'b) shared, unit) coroutine" where
  "flush_method C failure =
    co_bind (on_store (\<lambda>S. (st_states S, S))) (\<lambda>snapshot.
      on_store (\<lambda>S. ((), S\<lparr> st_file := snd (save_states_to_file C failure snapshot (st_file S)) \<rparr>)))"

definition writer_method :: "'b states_codec \<Rightarrow> io_error option \<Rightarrow> (('j, 'b) shared, unit) coroutine" where
  "writer_method C failure =
    co_bind (on_store (\<lambda>S. (st_notified S, S\<lparr> st_notified := False \<rparr>))) (\<lambda>notified.
      if notified then flush_method C failure else Done ())"

text \<open>The methods of the registry.\<close>

definition initialize_method ::
    "'b states_codec \<Rightarrow> ('j, 'v, 'r) world \<Rightarrow> scan_path list \<Rightarrow> (('j, 'b) shared, unit) coroutine" where
  "initialize_method C W scan_paths =
    (case load_and_validate (wd_semver W) (wd_manifests W) scan_paths (wd_app_version W) of
      None \<Rightarrow> Done ()
    | Some (loaded, _) \<Rightarrow>
        co_bind (load_method C) (\<lambda>r.
          case r of
            Inl e \<Rightarrow> Done ()
          | Inr persisted \<Rightarrow>
              let (exts, _) = run_activation_hooks (hooks_of W) (wd_now W)
                    (merge_persisted_states loaded persisted) persisted
              in co_bind (set_method (\<lambda>_. build_state_map exts)) (\<lambda>_.
                   on_registry (\<lambda>R. ((), R\<lparr> reg_extensions := exts,
                     reg_contributions := resolve_world W exts, reg_scan_paths := scan_paths,
                     reg_initialized := True \<rparr>)))))"

definition reload_method :: "('j, 'v, 'r) world \<Rightarrow> (('j, 'b) shared, unit) coroutine" where
  "reload_method W =
    co_bind (on_registry (\<lambda>R. (reg_scan_paths R, R))) (\<lambda>scan_paths.
      case load_and_validate (wd_semver W) (wd_manifests W) scan_paths (wd_app_version W) of
        None \<Rightarrow> Done ()
      | Some (loaded, _) \<Rightarrow>
          co_bind (on_store (\<lambda>S. (st_states S, S))) (\<lambda>persisted.
            let (exts, _) = run_activation_hooks (hooks_of W) (wd_now W)
                  (merge_persisted_states loaded persisted) persisted
            in co_bind (set_method (\<lambda>_. build_state_map exts)) (\<lambda>_.
                 on_registry (\<lambda>R. ((), R\<lparr> reg_extensions := exts,
                   reg_contributions := resolve_world W exts \<rparr>)))))"

definition switch_method ::
    "('j, 'v, 'r) world \<Rightarrow> bool \<Rightarrow> string \<Rightarrow> (('j, 'b) shared, unit) coroutine" where
  "switch_method W enable name =
    co_bind (on_registry (switch_locked W enable name)) (\<lambda>r.
      case r of
        Inr (Some state) \<Rightarrow> set_method (hm_insert (xs_name state) state)
      | _ \<Rightarrow> Done ())"

fun registry_method ::
    "'b states_codec \<Rightarrow> ('j, 'v, 'r) registry_op \<Rightarrow> (('j, 'b) shared, unit) coroutine" where
  "registry_method C (Initialize W scan_paths) = initialize_method C W scan_paths"
| "registry_method C (Reload W) = reload_method W"
| "registry_method C (Switch W enable name) = switch_method W enable name"
| "registry_method C (Flush failure) = flush_method C failure"
| "registry_method C (WriterRound failure) = writer_method C failure"

lemma co_run_on [simp]:
  "co_run (on_registry f) (R, S) = (case f R of (r, R') \<Rightarrow> (r, R', S))"
  "co_run (on_store g) (R, S) = (case g S of (r, S') \<Rightarrow> (r, R, S'))"
  by (simp_all add: on_registry_def on_store_def)

lemma store_methods_alone:
  "co_run (load_method C) (R, S) = (case store_load C S of (r, S') \<Rightarrow> (r, R, S'))"
  "co_run (set_method (\<lambda>_. states)) (R, S) = ((), R, store_set_all states S)"
  "co_run (set_method (hm_insert (xs_name state) state)) (R, S) = ((), R, store_set state S)"
  "co_run (flush_method C failure) (R, S) = ((), R, snd (store_flush C failure S))"
  "co_run (writer_method C failure) (R, S) = ((), R, writer_round C failure S)"
  by (simp_all add: load_method_def set_method_def flush_method_def writer_method_def co_run_bind
      store_load_def store_set_all_def store_set_def store_flush_def writer_round_def case_prod_beta
      split: sum.split)

text \<open>A call that nothing interrupts is the operation of \<open>ExtRegistry\<close>.\<close>

lemma registry_method_alone: "co_run (registry_method C op) rs = ((), registry_step C op rs)"
proof (cases rs)
  case (Pair R S)
  show ?thesis
  proof (cases op)
    case (Initialize W paths)
    obtain loaded r where "load_and_validate (wd_semver W) (wd_manifests W) paths (wd_app_version W) = Some (loaded, r)"
      using load_and_validate_Some by metis
    then show ?thesis
      by (auto simp: Initialize Pair initialize_method_def initialize_with_scan_paths_def co_run_bind
          store_methods_alone Let_def split: sum.split prod.split)
  next
    case (Reload W)
    obtain loaded r where "load_and_validate (wd_semver W) (wd_manifests W) (reg_scan_paths R) (wd_app_version W) = Some (loaded, r)"
      using load_and_validate_Some by metis
    then show ?thesis
      by (auto simp: Reload Pair reload_method_def hot_reload_def hot_reload_prepare_def
          hot_reload_commit_def co_run_bind store_methods_alone Let_def split: prod.split)
  next
    case (Switch W enable name)
    then show ?thesis
      by (auto simp: Pair switch_method_def switch_extension_def co_run_bind store_methods_alone
          split: prod.split sum.split option.split)
  qed (simp_all add: Pair store_methods_alone)
qed

section \<open>Interleaved calls\<close>

text \<open>What the registry promises at every moment, whatever the store holds.\<close>

definition registry_ok ::
    "(string \<Rightarrow> string option) \<Rightarrow> filesystem \<Rightarrow> 'j registry \<Rightarrow> bool" where
  "registry_ok env fs R \<longleftrightarrow>
    distinct (map le_name (reg_extensions R)) \<and>
    reg_contributions R = resolve_all_contributions env fs (reg_extensions R) \<and>
    (\<forall>e \<in> set (reg_extensions R). xs_name (le_state e) = le_name e)"

interpretation shared: rely_guarantee "\<lambda>rs. registry_ok env fs (fst rs)" "\<lambda>_ _. True" for env fs
  by unfold_locales simp_all

definition keeps_registry ::
    "(string \<Rightarrow> string option) \<Rightarrow> filesystem \<Rightarrow> (('j, 'b) shared, 'r) coroutine \<Rightarrow> bool" where
  "keeps_registry env fs c \<longleftrightarrow>
    (\<forall>rs. holds (\<lambda>rs. registry_ok env fs (fst rs)) (\<lambda>_ _. True) (\<lambda>_ _. True) c rs)"

named_theorems keeps

lemma registry_keeps_bind [keeps]:
  assumes "keeps_registry env fs c" and "\<And>x. keeps_registry env fs (f x)"
  shows "keeps_registry env fs (co_bind c f)"
  unfolding keeps_registry_def
proof
  fix rs
  show "holds (\<lambda>rs. registry_ok env fs (fst rs)) (\<lambda>_ _. True) (\<lambda>_ _. True) (co_bind c f) rs"
    using assms unfolding keeps_registry_def
    by (intro shared.holds_bind) (rule shared.holds_mono, blast+)
qed

lemma registry_keeps_Done [keeps]: "keeps_registry env fs (Done x)"
  by (simp add: keeps_registry_def)

lemma keeps_store [keeps]: "keeps_registry env fs (on_store f)"
  unfolding keeps_registry_def on_store_def
  by (auto intro!: shared.holds_atomic split: prod.splits)

lemma keeps_on_registry:
  assumes "\<And>R. registry_ok env fs R \<Longrightarrow> registry_ok env fs (snd (f R))"
  shows "keeps_registry env fs (on_registry f)"
  unfolding keeps_registry_def on_registry_def
  using assms by (auto intro!: shared.holds_atomic split: prod.splits) (metis snd_conv)

lemma keeps_store_methods [keeps]:
  "keeps_registry env fs (load_method C)" "keeps_registry env fs (set_method g)"
  "keeps_registry env fs (flush_method C failure)" "keeps_registry env fs (writer_method C failure)"
  by (auto simp: load_method_def set_method_def flush_method_def writer_method_def intro!: keeps split: sum.split)

text \<open>What a load or a reload commits.\<close>

lemma loaded_registry_ok:
  assumes "load_and_validate V manifests scan_paths version = Some (loaded, r)"
    and "exts = map (activate_extension now) (merge_persisted_states loaded persisted)"
    and "reg_extensions R = exts" and "reg_contributions R = resolve_all_contributions env fs exts"
  shows "registry_ok env fs R"
proof -
  obtain loaded' r' where l: "load_and_validate V manifests scan_paths version = Some (loaded', r')"
    "distinct (map le_name loaded')" "\<forall>e \<in> set loaded'. xs_name (le_state e) = le_name e"
    using load_and_validate_Some [of V manifests scan_paths version] by metis
  with assms(1) have "loaded' = loaded"
    by simp
  with loaded_extensions_inv(1,2) [OF l(2,3), of now persisted] show ?thesis
    unfolding registry_ok_def assms(2-4) by simp
qed

lemma initialize_keeps: "keeps_registry (wd_env W) (wd_fs W) (initialize_method C W scan_paths)"
  unfolding initialize_method_def run_activation_hooks_def
  by (auto intro!: keeps keeps_on_registry loaded_registry_ok [OF _ refl] split: option.split sum.split)

lemma reload_keeps: "keeps_registry (wd_env W) (wd_fs W) (reload_method W)"
  unfolding reload_method_def run_activation_hooks_def
  by (rule registry_keeps_bind, rule keeps_on_registry, simp)
    (auto intro!: keeps keeps_on_registry loaded_registry_ok [OF _ refl] split: option.split)

lemma switch_locked_ok:
  assumes "registry_ok (wd_env W) (wd_fs W) R"
  shows "registry_ok (wd_env W) (wd_fs W) (snd (switch_locked W enable name R))"
proof -
  let ?S = "\<lparr> st_states = build_state_map (reg_extensions R), st_file = Inl IoNotFound, st_notified = False \<rparr>"
  have "registry_inv (wd_env W) (wd_fs W) (R, ?S)"
    using assms build_state_map_get [of "reg_extensions R"]
    by (auto simp: registry_inv_def registry_ok_def)
  from switch_inv [OF this refl refl, of enable name] show ?thesis
    by (auto simp: registry_inv_def registry_ok_def switch_extension_def split: prod.splits sum.splits option.splits)
qed

lemma switch_keeps: "keeps_registry (wd_env W) (wd_fs W) (switch_method W enable name)"
  unfolding switch_method_def
  by (auto intro!: keeps keeps_on_registry switch_locked_ok split: option.split sum.split)

lemma method_keeps: "same_world env fs op \<Longrightarrow> keeps_registry env fs (registry_method C op)"
  using initialize_keeps reload_keeps switch_keeps by (cases op) (auto intro: keeps)


section \<open>The registry and its store\<close>

lemma registry_calls_in_turn:
  "co_run (co_for ops (registry_method C)) rs = ((), fold (registry_step C) ops rs)"
  by (induction ops arbitrary: rs) (simp_all add: co_run_bind registry_method_alone)

text \<open>
  C39. As long as the environment and the files of the extensions stay the same: whatever calls run
  at the same time (initializations, reloads, switches, flushes and writes, failed ones included),
  at every moment the registry has each extension once, and its contributions are those of the
  extensions that are enabled at that moment. When the calls are made one after the other, the
  store also holds the state of every extension.
\<close>

theorem registry_and_store_agree:
  assumes "fst rs = new_registry" and "\<forall>op \<in> set ops. same_world env fs op"
  shows "registry_ok env fs (fst (snd (pool_run schedule (map (registry_method C) ops) rs))) \<and>
    registry_inv env fs (snd (co_run (co_for ops (registry_method C)) rs))"
proof
  have "registry_ok env fs (fst rs)"
    using assms(1) by (simp add: registry_ok_def new_registry_def)
  then show "registry_ok env fs (fst (snd (pool_run schedule (map (registry_method C) ops) rs)))"
    using assms(2) method_keeps [of env fs _ C]
    by (cases rs, intro conjunct1 [OF shared.pool_run_holds]) (auto simp: keeps_registry_def)
  have "registry_inv env fs rs"
    using assms(1) by (cases rs) (simp add: registry_inv_def new_registry_def)
  from registry_in_turn [OF this assms(2)]
  show "registry_inv env fs (snd (co_run (co_for ops (registry_method C)) rs))"
    by (simp add: registry_calls_in_turn)
qed

text \<open>
  An extension is disabled and enabled again at the same time. Each switch changes the registry under
  its lock, in this order, and the store later, in the other order.
\<close>

definition racing_switches :: "(unit, string, string) registry_op list" where
  "racing_switches = [Switch (sample_world []) False ''x'', Switch (sample_world []) True ''x'']"

definition racing_schedule :: "nat list" where
  "racing_schedule = [0, 1, 1, 1, 0, 0]"

definition raced :: "unit registry \<times> persisted_states state_store" where
  "raced = snd (pool_run racing_schedule (map (registry_method sample_codec) racing_switches)
     (sample_ops [sample_start]))"

lemma racing_switches_disagree:
  "map le_enabled (reg_extensions (fst raced)) = [True] \<and>
   map_option xs_enabled (store_get ''x'' (snd raced)) = Some False"
  by code_simp


text \<open>The theorem on these calls, on an empty registry that is initialized first.\<close>

theorem registry_and_store_agree_witness:
  "registry_ok (\<lambda>_. None) sample_fs (fst (snd (pool_run [0, 0, 0, 0, 0, 0, 1, 2, 2, 2, 1, 1]
      (map (registry_method sample_codec) (sample_start # racing_switches)) (new_registry, empty_store)))) \<and>
   map le_enabled (reg_extensions (fst (snd (pool_run [0, 0, 0, 0, 0, 0, 1, 2, 2, 2, 1, 1]
      (map (registry_method sample_codec) (sample_start # racing_switches)) (new_registry, empty_store))))) = [True] \<and>
   registry_inv (\<lambda>_. None) sample_fs (snd (co_run (co_for (sample_start # racing_switches)
      (registry_method sample_codec)) (new_registry, empty_store)))"
proof (intro conjI)
  have world: "\<forall>op \<in> set (sample_start # racing_switches). same_world (\<lambda>_. None) sample_fs op"
    by (simp add: racing_switches_def sample_world_def)
  note agree = registry_and_store_agree [of "(new_registry, empty_store)", OF _ world]
  show "registry_ok (\<lambda>_. None) sample_fs (fst (snd (pool_run [0, 0, 0, 0, 0, 0, 1, 2, 2, 2, 1, 1]
      (map (registry_method sample_codec) (sample_start # racing_switches)) (new_registry, empty_store))))"
    "registry_inv (\<lambda>_. None) sample_fs (snd (co_run (co_for (sample_start # racing_switches)
      (registry_method sample_codec)) (new_registry, empty_store)))"
    using agree by (simp_all only: fst_conv simp_thms)
  show "map le_enabled (reg_extensions (fst (snd (pool_run [0, 0, 0, 0, 0, 0, 1, 2, 2, 2, 1, 1]
      (map (registry_method sample_codec) (sample_start # racing_switches)) (new_registry, empty_store))))) = [True]"
    by code_simp
qed

end
