(* ===== verification/CronTypes.thy ===== *)
theory CronTypes
  imports TeamStore
begin

text \<open>
  The data of scheduled jobs: the domain types, the row of the table \<open>cron_jobs\<close> and the conversions
  between them (\<open>veryagent-cron/src/types.rs\<close>, \<open>veryagent-db/src/models/cron_job.rs\<close>), the requests and
  responses (\<open>veryagent-api-types/src/cron.rs\<close>) and the errors (\<open>error.rs\<close>). An \<open>i64\<close> is an integer
  whose bounds are written out; \<open>serde_json\<close> is a parameter (\<open>cron_codec\<close>).
\<close>

section \<open>Errors\<close>

text \<open>\<open>ConversationError\<close> of \<open>veryagent-conversation/src/error.rs\<close>; the ACP error is its display text.\<close>

datatype conv_error =
    ConvNotFound string
  | ConvMessageNotFound string
  | ConvArtifactNotFound string
  | ConvActiveAgentNotFound string
  | ConvArchived string string
  | ConvBadRequest string
  | ConvBusy string
  | ConvForbidden string
  | ConvNotFoundReason string
  | ConvUnauthorized string
  | ConvRateLimited
  | ConvBadGateway string
  | ConvTimeout string
  | ConvConfigConfirmationTimeout string string string "string option"
  | ConvConfigUpdateInProgress string string string
  | ConvUnprocessable string
  | ConvInternal string
  | ConvWorkspacePathUnavailable string
  | ConvWorkspacePathRuntimeUnavailable string
  | ConvOpenClawGatewayUnreachable string
  | ConvAcp

fun conv_error_display :: "conv_error \<Rightarrow> string" where
  "conv_error_display (ConvNotFound i) = ''Conversation not found: '' @ i"
| "conv_error_display (ConvMessageNotFound i) = ''Message not found: '' @ i"
| "conv_error_display (ConvArtifactNotFound i) = ''Artifact not found: '' @ i"
| "conv_error_display (ConvActiveAgentNotFound c) = ''Active agent not found for conversation: '' @ c"
| "conv_error_display (ConvArchived i r) = ''Conversation is archived: '' @ r"
| "conv_error_display (ConvBadRequest r) = ''Bad request: '' @ r"
| "conv_error_display (ConvBusy r) = ''Conversation is busy: '' @ r"
| "conv_error_display (ConvForbidden r) = ''Forbidden: '' @ r"
| "conv_error_display (ConvNotFoundReason r) = ''Not found: '' @ r"
| "conv_error_display (ConvUnauthorized r) = ''Unauthorized: '' @ r"
| "conv_error_display ConvRateLimited = ''Rate limited''"
| "conv_error_display (ConvBadGateway r) = ''Bad gateway: '' @ r"
| "conv_error_display (ConvTimeout r) = ''Request timeout: '' @ r"
| "conv_error_display (ConvConfigConfirmationTimeout c i r l) =
     ''ACP config option confirmation timed out''"
| "conv_error_display (ConvConfigUpdateInProgress c i r) =
     ''ACP config update is already in progress''"
| "conv_error_display (ConvUnprocessable r) = ''Unprocessable entity: '' @ r"
| "conv_error_display (ConvInternal r) = ''Internal error: '' @ r"
| "conv_error_display (ConvWorkspacePathUnavailable p) = ''Workspace path is unavailable: '' @ p"
| "conv_error_display (ConvWorkspacePathRuntimeUnavailable p) =
     ''Workspace path is unavailable during execution: '' @ p"
| "conv_error_display (ConvOpenClawGatewayUnreachable d) =
     ''OpenClaw Gateway is not reachable: '' @ d"
| "conv_error_display ConvAcp = ''ACP error''"

datatype cron_error =
    JobNotFound string
  | InvalidSchedule string
  | InvalidCronExpression string
  | InvalidExecutionMode string
  | InvalidCreatedBy string
  | InvalidJobStatus string
  | InvalidTimezone string
  | InvalidSkillContent string
  | InvalidAgentConfig string
  | SchedulerError string
  | WorkspacePathUnavailable string
  | WorkspacePathRuntimeUnavailable string
  | ConversationFailed conv_error
  | CronDatabase db_error
  | CronJson string

fun cron_error_display :: "cron_error \<Rightarrow> string" where
  "cron_error_display (JobNotFound s) = ''Cron job not found: '' @ s"
| "cron_error_display (InvalidSchedule s) = ''Invalid schedule: '' @ s"
| "cron_error_display (InvalidCronExpression s) = ''Invalid cron expression: '' @ s"
| "cron_error_display (InvalidExecutionMode s) = ''Invalid execution mode: '' @ s"
| "cron_error_display (InvalidCreatedBy s) = ''Invalid created-by value: '' @ s"
| "cron_error_display (InvalidJobStatus s) = ''Invalid job status: '' @ s"
| "cron_error_display (InvalidTimezone s) = ''Invalid timezone: '' @ s"
| "cron_error_display (InvalidSkillContent s) = ''Invalid skill content: '' @ s"
| "cron_error_display (InvalidAgentConfig s) = ''Invalid agent config: '' @ s"
| "cron_error_display (SchedulerError s) = ''Scheduler error: '' @ s"
| "cron_error_display (WorkspacePathUnavailable s) = ''Workspace path is unavailable: '' @ s"
| "cron_error_display (WorkspacePathRuntimeUnavailable s) =
     ''Workspace path is unavailable during execution: '' @ s"
| "cron_error_display (ConversationFailed e) = conv_error_display e"
| "cron_error_display (CronDatabase e) = db_error_display e"
| "cron_error_display (CronJson s) = ''JSON error: '' @ s"

fun from_conversation_create :: "conv_error \<Rightarrow> cron_error" where
  "from_conversation_create (ConvWorkspacePathUnavailable p) = WorkspacePathUnavailable p"
| "from_conversation_create (ConvWorkspacePathRuntimeUnavailable p) =
     WorkspacePathRuntimeUnavailable p"
| "from_conversation_create e = SchedulerError (''create conversation: '' @ conv_error_display e)"

section \<open>Decimal text of an i64\<close>

text \<open>
  \<open>to_string\<close> and \<open>str::parse::<i64>\<close>. Parsing takes an optional sign, reads digit by digit and stops
  at the first digit that is none or that leaves the range, as \<open>from_str_radix\<close> does.
\<close>

fun show_nat :: "nat \<Rightarrow> string" where
  "show_nat n =
     (if n < 10 then [char_of (48 + n)] else show_nat (n div 10) @ [char_of (48 + n mod 10)])"

declare show_nat.simps [simp del]

definition show_i64 :: "int \<Rightarrow> string" where
  "show_i64 i = (if i < 0 then CHR ''-'' # show_nat (nat (- i)) else show_nat (nat i))"

definition in_i64 :: "int \<Rightarrow> bool" where
  "in_i64 i \<longleftrightarrow> i64_min \<le> i \<and> i \<le> i64_max"

definition wrap_i64 :: "int \<Rightarrow> int" where
  "wrap_i64 i = (i + 2 ^ 63) mod 2 ^ 64 - 2 ^ 63"

definition digit_value :: "char \<Rightarrow> int option" where
  "digit_value c =
     (let n = (of_char c :: nat) in if 48 \<le> n \<and> n \<le> 57 then Some (int n - 48) else None)"

fun parse_digits :: "bool \<Rightarrow> int \<Rightarrow> string \<Rightarrow> string + int" where
  "parse_digits neg acc [] = Inr acc"
| "parse_digits neg acc (c # cs) =
     (case digit_value c of
        None \<Rightarrow> Inl ''invalid digit found in string''
      | Some d \<Rightarrow>
          let acc' = acc * 10 + (if neg then - d else d)
          in if in_i64 (acc * 10) \<and> in_i64 acc' then parse_digits neg acc' cs
             else Inl (if neg then ''number too small to fit in target type''
                       else ''number too large to fit in target type''))"

definition parse_i64 :: "string \<Rightarrow> string + int" where
  "parse_i64 s =
     (case s of
        [] \<Rightarrow> Inl ''cannot parse integer from empty string''
      | c # cs \<Rightarrow>
          if (c = CHR ''-'' \<or> c = CHR ''+'') \<and> cs = [] then Inl ''invalid digit found in string''
          else if c = CHR ''-'' then parse_digits True 0 cs
          else if c = CHR ''+'' then parse_digits False 0 cs
          else parse_digits False 0 s)"

lemma digit_value_digit: "d < 10 \<Longrightarrow> digit_value (char_of (48 + d :: nat)) = Some (int d)"
  by (simp add: digit_value_def)

lemma parse_digits_append:
  "parse_digits neg acc (xs @ ys) =
     (case parse_digits neg acc xs of Inl e \<Rightarrow> Inl e | Inr a \<Rightarrow> parse_digits neg a ys)"
  by (induction xs arbitrary: acc) (auto simp: Let_def split: option.split)

lemma parse_digits_last:
  "digit_value c = Some d \<Longrightarrow> in_i64 (acc * 10) \<Longrightarrow>
    in_i64 (acc * 10 + (if neg then - d else d)) \<Longrightarrow>
    parse_digits neg acc [c] = Inr (acc * 10 + (if neg then - d else d))"
  by simp

lemma parse_show_nat:
  assumes "in_i64 (if neg then - int n else int n)"
  shows "parse_digits neg 0 (show_nat n) = Inr (if neg then - int n else int n)"
  using assms
proof (induction n rule: show_nat.induct)
  case (1 n)
  have small: "in_i64 0" "\<And>d::int. \<bar>d\<bar> < 10 \<Longrightarrow> in_i64 d"
    by (auto simp: in_i64_def i64_min_def i64_max_def)
  show ?case
  proof (cases "n < 10")
    case True
    with small show ?thesis
      by (simp add: show_nat.simps [of n] digit_value_digit)
  next
    case False
    let ?q = "int (n div 10)" and ?r = "int (n mod 10)"
    have n: "int n = ?q * 10 + ?r"
      by (metis div_mult_mod_eq of_nat_add of_nat_mult of_nat_numeral)
    have r: "0 \<le> ?r" "?r < 10"
      by simp_all
    from 1(2) n r have *: "in_i64 (if neg then - ?q else ?q)"
        "in_i64 ((if neg then - ?q else ?q) * 10)"
      by (auto simp: in_i64_def i64_min_def i64_max_def split: if_splits)
    have "parse_digits neg 0 (show_nat (n div 10)) = Inr (if neg then - ?q else ?q)"
      using False *(1) by (rule 1(1))
    moreover have "parse_digits neg (if neg then - ?q else ?q) [char_of (48 + n mod 10)] =
        Inr ((if neg then - ?q else ?q) * 10 + (if neg then - ?r else ?r))"
      using 1(2) n by (intro parse_digits_last digit_value_digit *(2)) (auto split: if_splits)
    moreover have "(if neg then - ?q else ?q) * 10 + (if neg then - ?r else ?r) =
        (if neg then - int n else int n)"
      by (simp only: n split: if_split) simp
    ultimately show ?thesis
      using False
      by (simp only: show_nat.simps [of n] parse_digits_append if_False sum.case)
  qed
qed

lemma show_nat_digits: "set (show_nat n) \<subseteq> char_of ` {48 ..< 58 :: nat}"
proof (induction n rule: show_nat.induct)
  case (1 n)
  then show ?case
    by (subst show_nat.simps) auto
qed

lemma show_nat_no_sign [simp]:
  "show_nat n \<noteq> []" "show_nat n \<noteq> CHR ''-'' # cs" "show_nat n \<noteq> CHR ''+'' # cs"
proof -
  have sign: "c \<notin> char_of ` {48 ..< 58 :: nat}" if "of_char c < (48 :: nat)" for c
  proof
    assume "c \<in> char_of ` {48 ..< 58 :: nat}"
    then obtain n :: nat where "48 \<le> n" "n < 58" "c = char_of n"
      by auto
    then have "of_char c = n"
      by simp
    with that \<open>48 \<le> n\<close> show False
      by simp
  qed
  show "show_nat n \<noteq> []"
    by (subst show_nat.simps) simp
  show "show_nat n \<noteq> CHR ''-'' # cs" "show_nat n \<noteq> CHR ''+'' # cs"
    using show_nat_digits [of n] sign [of "CHR ''-''"] sign [of "CHR ''+''"] by auto
qed

text \<open>The number that is written is the number that is read, at every value of the type.\<close>

lemma parse_show_i64: "in_i64 i \<Longrightarrow> parse_i64 (show_i64 i) = Inr i"
proof (cases "i < 0")
  case True
  assume "in_i64 i"
  with True have "parse_digits True 0 (show_nat (nat (- i))) = Inr i"
    using parse_show_nat [of True "nat (- i)"] by simp
  with True show ?thesis
    by (simp add: parse_i64_def show_i64_def)
next
  case False
  assume "in_i64 i"
  with False have "parse_digits False 0 (show_nat (nat i)) = Inr i"
    using parse_show_nat [of False "nat i"] by simp
  moreover obtain c cs where "show_nat (nat i) = c # cs"
    by (meson neq_Nil_conv show_nat_no_sign(1))
  ultimately show ?thesis
    using False show_nat_no_sign(2,3) [of "nat i" cs]
    by (auto simp: parse_i64_def show_i64_def)
qed

lemma wrap_i64_range [simp]: "in_i64 (wrap_i64 i)"
proof -
  have "0 \<le> (i + 2 ^ 63) mod 2 ^ 64" "(i + 2 ^ 63) mod 2 ^ 64 < 2 ^ 64"
    by simp_all
  then show ?thesis
    by (simp add: wrap_i64_def in_i64_def i64_min_def i64_max_def)
qed

lemma wrap_i64_exact: "in_i64 i \<Longrightarrow> wrap_i64 i = i"
  by (simp add: wrap_i64_def in_i64_def i64_min_def i64_max_def)

lemma parse_digits_range: "in_i64 acc \<Longrightarrow> parse_digits neg acc s = Inr i \<Longrightarrow> in_i64 i"
  by (induction neg acc s rule: parse_digits.induct)
    (auto simp: Let_def split: option.splits if_splits)

lemma parse_i64_range: "parse_i64 s = Inr i \<Longrightarrow> in_i64 i"
proof -
  have "in_i64 0"
    by (simp add: in_i64_def i64_min_def i64_max_def)
  then show "parse_i64 s = Inr i \<Longrightarrow> in_i64 i"
    by (auto simp: parse_i64_def simp del: parse_digits.simps dest: parse_digits_range
      split: list.splits if_splits)
qed

section \<open>Schedules, modes and statuses\<close>

datatype cron_schedule =
    AtSchedule timestamp_ms "string option"
  | EverySchedule int "string option"
  | CronExpr string "string option" "string option"

datatype cron_schedule_dto =
    AtDto timestamp_ms "string option"
  | EveryDto int "string option"
  | CronDto string "string option" "string option"

datatype execution_mode = ExistingConversation | NewConversation

fun execution_mode_as_str :: "execution_mode \<Rightarrow> string" where
  "execution_mode_as_str ExistingConversation = ''existing''"
| "execution_mode_as_str NewConversation = ''new_conversation''"

definition execution_mode_from_str :: "string \<Rightarrow> cron_error + execution_mode" where
  "execution_mode_from_str s =
     (if s = ''existing'' then Inr ExistingConversation
      else if s = ''new_conversation'' then Inr NewConversation
      else Inl (InvalidExecutionMode s))"

datatype created_by = CreatedByUser | CreatedByAgent

fun created_by_as_str :: "created_by \<Rightarrow> string" where
  "created_by_as_str CreatedByUser = ''user''"
| "created_by_as_str CreatedByAgent = ''agent''"

definition created_by_from_str :: "string \<Rightarrow> cron_error + created_by" where
  "created_by_from_str s =
     (if s = ''user'' then Inr CreatedByUser
      else if s = ''agent'' then Inr CreatedByAgent
      else Inl (InvalidCreatedBy s))"

datatype job_status = JobOk | JobError | JobSkipped | JobMissed

fun job_status_as_str :: "job_status \<Rightarrow> string" where
  "job_status_as_str JobOk = ''ok''"
| "job_status_as_str JobError = ''error''"
| "job_status_as_str JobSkipped = ''skipped''"
| "job_status_as_str JobMissed = ''missed''"

definition job_status_from_str :: "string \<Rightarrow> cron_error + job_status" where
  "job_status_from_str s =
     (if s = ''ok'' then Inr JobOk
      else if s = ''error'' then Inr JobError
      else if s = ''skipped'' then Inr JobSkipped
      else if s = ''missed'' then Inr JobMissed
      else Inl (InvalidJobStatus s))"

text \<open>The successful half of a result, to read these forms as instances of \<open>text_form\<close>.\<close>

definition ok_of :: "'e + 'a \<Rightarrow> 'a option" where
  "ok_of r = (case r of Inl _ \<Rightarrow> None | Inr x \<Rightarrow> Some x)"

lemma ok_of_simps [simp]: "ok_of (Inl e) = None" "ok_of (Inr x) = Some x"
  by (simp_all add: ok_of_def)

lemma ok_of_Some [simp]: "ok_of r = Some x \<longleftrightarrow> r = Inr x"
  by (cases r) simp_all

interpretation execution_mode_form: text_form execution_mode_as_str "ok_of \<circ> execution_mode_from_str"
  by unfold_locales (case_tac x, simp_all add: execution_mode_from_str_def)

interpretation created_by_form: text_form created_by_as_str "ok_of \<circ> created_by_from_str"
  by unfold_locales (case_tac x, simp_all add: created_by_from_str_def)

interpretation job_status_form: text_form job_status_as_str "ok_of \<circ> job_status_from_str"
  by unfold_locales (case_tac x, simp_all add: job_status_from_str_def)

lemmas text_forms = execution_mode_form.parse_show [simplified] created_by_form.parse_show [simplified]
  job_status_form.parse_show [simplified]

section \<open>Jobs and rows\<close>

record provider_with_model =
  pm_provider_id :: string
  pm_model :: string
  pm_use_model :: "string option"

record cron_agent_config =
  ac_name :: string
  ac_cli_path :: "string option"
  ac_is_preset :: "bool option"
  ac_assistant_id :: "string option"
  ac_custom_agent_id :: "string option"
  ac_mode :: "string option"
  ac_model_id :: "string option"
  ac_model :: "provider_with_model option"
  ac_config_options :: "(string, string) hmap option"
  ac_workspace :: "string option"

record cron_job =
  cj_id :: string
  cj_name :: string
  cj_enabled :: bool
  cj_schedule :: cron_schedule
  cj_message :: string
  cj_execution_mode :: execution_mode
  cj_agent_config :: "cron_agent_config option"
  cj_conversation_id :: string
  cj_conversation_title :: "string option"
  cj_agent_type :: string
  cj_created_by :: created_by
  cj_skill_content :: "string option"
  cj_description :: "string option"
  cj_created_at :: timestamp_ms
  cj_updated_at :: timestamp_ms
  cj_next_run_at :: "timestamp_ms option"
  cj_last_run_at :: "timestamp_ms option"
  cj_last_status :: "job_status option"
  cj_last_error :: "string option"
  cj_run_count :: int
  cj_retry_count :: int
  cj_max_retries :: int

record cron_job_row =
  jr_id :: string
  jr_name :: string
  jr_enabled :: bool
  jr_schedule_kind :: string
  jr_schedule_value :: string
  jr_schedule_tz :: "string option"
  jr_schedule_description :: "string option"
  jr_payload_message :: string
  jr_execution_mode :: string
  jr_agent_config :: "string option"
  jr_conversation_id :: string
  jr_conversation_title :: "string option"
  jr_created_by :: string
  jr_skill_content :: "string option"
  jr_description :: "string option"
  jr_created_at :: timestamp_ms
  jr_updated_at :: timestamp_ms
  jr_next_run_at :: "timestamp_ms option"
  jr_last_run_at :: "timestamp_ms option"
  jr_last_status :: "string option"
  jr_last_error :: "string option"
  jr_run_count :: int
  jr_retry_count :: int
  jr_max_retries :: int

text \<open>A \<open>serde_json::Value\<close>, and what the code uses of \<open>serde_json\<close>; the left is the error text. \<open>cc_error_text\<close> is the text of
  the error for a text that is no value of the type that is asked for.\<close>

datatype json =
    JNull | JBool bool | JNumber string | JString string | JArray "json list"
  | JObject "(string \<times> json) list"

record cron_codec =
  cc_config_to_string :: "cron_agent_config \<Rightarrow> string + string"
  cc_config_from_str :: "string \<Rightarrow> string + cron_agent_config"
  cc_json_from_str :: "string \<Rightarrow> json option"
  cc_json_to_string :: "json \<Rightarrow> string"
  cc_error_text :: "string \<Rightarrow> string"

definition codec_ok :: "cron_codec \<Rightarrow> bool" where
  "codec_ok C \<longleftrightarrow> (\<forall>config. \<exists>s. cc_config_to_string C config = Inr s \<and>
     cc_config_from_str C s = Inr config)"

text \<open>The operator \<open>?\<close>, and \<open>map(..).transpose()?\<close> on an option.\<close>

fun and_then :: "'e + 'a \<Rightarrow> ('a \<Rightarrow> 'e + 'b) \<Rightarrow> 'e + 'b" where
  "and_then (Inl e) f = Inl e"
| "and_then (Inr x) f = f x"

fun map_err :: "('e \<Rightarrow> 'f) \<Rightarrow> 'e + 'a \<Rightarrow> 'f + 'a" where
  "map_err g (Inl e) = Inl (g e)"
| "map_err g (Inr x) = Inr x"

fun transposed :: "('a \<Rightarrow> 'e + 'b) \<Rightarrow> 'a option \<Rightarrow> 'e + 'b option" where
  "transposed f None = Inr None"
| "transposed f (Some x) = and_then (f x) (\<lambda>y. Inr (Some y))"

lemma and_then_eq_Inr [simp]: "and_then r f = Inr y \<longleftrightarrow> (\<exists>x. r = Inr x \<and> f x = Inr y)"
  by (cases r) simp_all

lemma map_err_eq_Inr [simp]: "map_err g r = Inr x \<longleftrightarrow> r = Inr x"
  by (cases r) simp_all

definition quoted :: "string \<Rightarrow> string" where
  "quoted s = CHR 0x27 # s @ [CHR 0x27]"

definition parse_schedule ::
    "string \<Rightarrow> string \<Rightarrow> string option \<Rightarrow> string option \<Rightarrow> cron_error + cron_schedule" where
  "parse_schedule kind val tz description =
     (if kind = ''at'' then
        and_then (map_err (\<lambda>e. InvalidSchedule (''invalid at_ms '' @ quoted val @ '': '' @ e))
                    (parse_i64 val))
          (\<lambda>at_ms. Inr (AtSchedule at_ms description))
      else if kind = ''every'' then
        and_then (map_err (\<lambda>e. InvalidSchedule (''invalid every_ms '' @ quoted val @ '': '' @ e))
                    (parse_i64 val))
          (\<lambda>every_ms. Inr (EverySchedule every_ms description))
      else if kind = ''cron'' then Inr (CronExpr val tz description)
      else Inl (InvalidSchedule (''unknown schedule kind: '' @ kind)))"

definition cron_job_from_row :: "cron_codec \<Rightarrow> cron_job_row \<Rightarrow> cron_error + cron_job" where
  "cron_job_from_row C row =
     and_then (parse_schedule (jr_schedule_kind row) (jr_schedule_value row) (jr_schedule_tz row)
                 (jr_schedule_description row)) (\<lambda>schedule.
     and_then (execution_mode_from_str (jr_execution_mode row)) (\<lambda>execution_mode.
     and_then (created_by_from_str (jr_created_by row)) (\<lambda>created_by.
     and_then (transposed (\<lambda>s. map_err CronJson (cc_config_from_str C s)) (jr_agent_config row))
       (\<lambda>agent_config.
     and_then (transposed job_status_from_str (jr_last_status row)) (\<lambda>last_status.
       Inr \<lparr>cj_id = jr_id row, cj_name = jr_name row, cj_enabled = jr_enabled row,
            cj_schedule = schedule, cj_message = jr_payload_message row,
            cj_execution_mode = execution_mode, cj_agent_config = agent_config,
            cj_conversation_id = jr_conversation_id row,
            cj_conversation_title = jr_conversation_title row, cj_agent_type = [],
            cj_created_by = created_by, cj_skill_content = jr_skill_content row,
            cj_description = jr_description row, cj_created_at = jr_created_at row,
            cj_updated_at = jr_updated_at row, cj_next_run_at = jr_next_run_at row,
            cj_last_run_at = jr_last_run_at row, cj_last_status = last_status,
            cj_last_error = jr_last_error row, cj_run_count = jr_run_count row,
            cj_retry_count = jr_retry_count row, cj_max_retries = jr_max_retries row\<rparr>)))))"

fun schedule_to_row_fields ::
    "cron_schedule \<Rightarrow> string \<times> string \<times> string option \<times> string option" where
  "schedule_to_row_fields (AtSchedule at_ms description) =
     (''at'', show_i64 at_ms, None, description)"
| "schedule_to_row_fields (EverySchedule every_ms description) =
     (''every'', show_i64 every_ms, None, description)"
| "schedule_to_row_fields (CronExpr expr tz description) = (''cron'', expr, tz, description)"

definition cron_job_to_row :: "cron_codec \<Rightarrow> cron_job \<Rightarrow> cron_error + cron_job_row" where
  "cron_job_to_row C job =
     (case schedule_to_row_fields (cj_schedule job) of (kind, val, tz, description) \<Rightarrow>
     and_then (transposed (\<lambda>c. map_err CronJson (cc_config_to_string C c)) (cj_agent_config job))
       (\<lambda>agent_config_json.
       Inr \<lparr>jr_id = cj_id job, jr_name = cj_name job, jr_enabled = cj_enabled job,
            jr_schedule_kind = kind, jr_schedule_value = val, jr_schedule_tz = tz,
            jr_schedule_description = description, jr_payload_message = cj_message job,
            jr_execution_mode = execution_mode_as_str (cj_execution_mode job),
            jr_agent_config = agent_config_json, jr_conversation_id = cj_conversation_id job,
            jr_conversation_title = cj_conversation_title job,
            jr_created_by = created_by_as_str (cj_created_by job),
            jr_skill_content = cj_skill_content job, jr_description = cj_description job,
            jr_created_at = cj_created_at job, jr_updated_at = cj_updated_at job,
            jr_next_run_at = cj_next_run_at job, jr_last_run_at = cj_last_run_at job,
            jr_last_status = map_option job_status_as_str (cj_last_status job),
            jr_last_error = cj_last_error job, jr_run_count = cj_run_count job,
            jr_retry_count = cj_retry_count job, jr_max_retries = cj_max_retries job\<rparr>))"

text \<open>The numbers of a schedule are \<open>i64\<close>.\<close>

fun schedule_in_range :: "cron_schedule \<Rightarrow> bool" where
  "schedule_in_range (AtSchedule at_ms _) = in_i64 at_ms"
| "schedule_in_range (EverySchedule every_ms _) = in_i64 every_ms"
| "schedule_in_range (CronExpr _ _ _) = True"

lemma parse_schedule_fields:
  "schedule_in_range schedule \<Longrightarrow> schedule_to_row_fields schedule = (kind, val, tz, description) \<Longrightarrow>
    parse_schedule kind val tz description = Inr schedule"
  by (cases schedule) (auto simp: parse_schedule_def parse_show_i64)

lemma parse_schedule_range: "parse_schedule kind val tz description = Inr schedule \<Longrightarrow> schedule_in_range schedule"
  by (auto simp: parse_schedule_def dest: parse_i64_range split: if_splits)

lemma config_round_trip:
  assumes "codec_ok C"
  obtains s where "transposed (\<lambda>c. map_err CronJson (cc_config_to_string C c)) config = Inr s"
    and "transposed (\<lambda>s. map_err CronJson (cc_config_from_str C s)) s = Inr config"
proof (cases config)
  case (Some c)
  from assms obtain t where "cc_config_to_string C c = Inr t" "cc_config_from_str C t = Inr c"
    by (auto simp: codec_ok_def)
  with Some show ?thesis
    using that [of "Some t"] by simp
qed (use that [of None] in simp)

text \<open>
  A job survives the database: the row that is written for it is read back as the same job, but for
  the agent type, which is not stored.
\<close>

lemma job_row_round_trip:
  assumes "codec_ok C" and "schedule_in_range (cj_schedule job)"
  shows "\<exists>row. cron_job_to_row C job = Inr row \<and>
    cron_job_from_row C row = Inr (job\<lparr>cj_agent_type := []\<rparr>)"
proof -
  obtain kind val tz description
    where fields: "schedule_to_row_fields (cj_schedule job) = (kind, val, tz, description)"
    by (metis prod_cases4)
  obtain s where s: "transposed (\<lambda>c. map_err CronJson (cc_config_to_string C c)) (cj_agent_config job) = Inr s"
      "transposed (\<lambda>s. map_err CronJson (cc_config_from_str C s)) s = Inr (cj_agent_config job)"
    using config_round_trip [OF assms(1)] by blast
  have status: "transposed job_status_from_str (map_option job_status_as_str st) = Inr st" for st
    by (cases st) (simp_all add: text_forms)
  show ?thesis
    by (simp add: cron_job_to_row_def cron_job_from_row_def fields s status text_forms
      parse_schedule_fields [OF assms(2) fields])
qed

section \<open>Requests and responses\<close>

record cron_agent_config_read =
  rd_name :: string
  rd_cli_path :: "string option"
  rd_is_preset :: "bool option"
  rd_assistant_id :: "string option"
  rd_custom_agent_id :: "string option"
  rd_mode :: "string option"
  rd_model_id :: "string option"
  rd_model :: "provider_with_model option"
  rd_config_options :: "(string, string) hmap option"
  rd_workspace :: "string option"

record cron_agent_config_write =
  wd_name :: string
  wd_cli_path :: "string option"
  wd_assistant_id :: "string option"
  wd_mode :: "string option"
  wd_model_id :: "string option"
  wd_model :: "provider_with_model option"
  wd_config_options :: "(string, string) hmap option"
  wd_workspace :: "string option"

datatype cron_job_payload = MessagePayload string

record cron_job_target =
  tg_payload :: cron_job_payload
  tg_execution_mode :: "string option"

record cron_job_metadata =
  md_conversation_id :: string
  md_conversation_title :: "string option"
  md_agent_type :: string
  md_created_by :: string
  md_created_at :: timestamp_ms
  md_updated_at :: timestamp_ms
  md_agent_config :: "cron_agent_config_read option"

record cron_job_state =
  sd_next_run_at_ms :: "timestamp_ms option"
  sd_last_run_at_ms :: "timestamp_ms option"
  sd_last_status :: "string option"
  sd_last_error :: "string option"
  sd_run_count :: int
  sd_retry_count :: int
  sd_max_retries :: int

record cron_job_response =
  rs_id :: string
  rs_name :: string
  rs_description :: "string option"
  rs_enabled :: bool
  rs_schedule :: cron_schedule_dto
  rs_target :: cron_job_target
  rs_metadata :: cron_job_metadata
  rs_state :: cron_job_state

record create_cron_job_request =
  cq_name :: string
  cq_description :: "string option"
  cq_schedule :: cron_schedule_dto
  cq_prompt :: "string option"
  cq_message :: "string option"
  cq_conversation_id :: string
  cq_conversation_title :: "string option"
  cq_created_by :: string
  cq_execution_mode :: "string option"
  cq_agent_config :: "cron_agent_config_write option"

record update_cron_job_request =
  uq_name :: "string option"
  uq_description :: "string option"
  uq_enabled :: "bool option"
  uq_schedule :: "cron_schedule_dto option"
  uq_message :: "string option"
  uq_execution_mode :: "string option"
  uq_agent_config :: "cron_agent_config_write option"
  uq_conversation_title :: "string option"
  uq_max_retries :: "int option"

fun schedule_to_dto :: "cron_schedule \<Rightarrow> cron_schedule_dto" where
  "schedule_to_dto (AtSchedule at_ms description) = AtDto at_ms description"
| "schedule_to_dto (EverySchedule every_ms description) = EveryDto every_ms description"
| "schedule_to_dto (CronExpr expr tz description) = CronDto expr tz description"

definition opt_else :: "'a option \<Rightarrow> 'a option \<Rightarrow> 'a option" where
  "opt_else x y = (case x of None \<Rightarrow> y | Some _ \<Rightarrow> x)"

definition agent_config_to_read :: "cron_agent_config \<Rightarrow> cron_agent_config_read" where
  "agent_config_to_read c =
     (let canonical_assistant_id = opt_else (ac_assistant_id c) (ac_custom_agent_id c);
          assistant_backed = (canonical_assistant_id \<noteq> None)
      in \<lparr>rd_name = ac_name c,
          rd_cli_path = (if assistant_backed then None else ac_cli_path c),
          rd_is_preset = (if assistant_backed then None else ac_is_preset c),
          rd_assistant_id = canonical_assistant_id,
          rd_custom_agent_id = (if assistant_backed then None else ac_custom_agent_id c),
          rd_mode = ac_mode c, rd_model_id = ac_model_id c, rd_model = ac_model c,
          rd_config_options = ac_config_options c, rd_workspace = ac_workspace c\<rparr>)"

definition cron_job_to_response :: "cron_job \<Rightarrow> cron_job_response" where
  "cron_job_to_response job =
     \<lparr>rs_id = cj_id job, rs_name = cj_name job, rs_description = cj_description job,
      rs_enabled = cj_enabled job, rs_schedule = schedule_to_dto (cj_schedule job),
      rs_target = \<lparr>tg_payload = MessagePayload (cj_message job),
                   tg_execution_mode = Some (execution_mode_as_str (cj_execution_mode job))\<rparr>,
      rs_metadata = \<lparr>md_conversation_id = cj_conversation_id job,
                     md_conversation_title = cj_conversation_title job,
                     md_agent_type = cj_agent_type job,
                     md_created_by = created_by_as_str (cj_created_by job),
                     md_created_at = cj_created_at job, md_updated_at = cj_updated_at job,
                     md_agent_config = map_option agent_config_to_read (cj_agent_config job)\<rparr>,
      rs_state = \<lparr>sd_next_run_at_ms = cj_next_run_at job, sd_last_run_at_ms = cj_last_run_at job,
                  sd_last_status = map_option job_status_as_str (cj_last_status job),
                  sd_last_error = cj_last_error job, sd_run_count = cj_run_count job,
                  sd_retry_count = cj_retry_count job, sd_max_retries = cj_max_retries job\<rparr>\<rparr>"

fun schedule_from_dto :: "cron_schedule_dto \<Rightarrow> cron_schedule" where
  "schedule_from_dto (AtDto at_ms description) = AtSchedule at_ms description"
| "schedule_from_dto (EveryDto every_ms description) = EverySchedule every_ms description"
| "schedule_from_dto (CronDto expr tz description) = CronExpr expr tz description"

text \<open>An update that names no zone keeps the zone the job had.\<close>

fun schedule_from_dto_with_existing_timezone :: "cron_schedule_dto \<Rightarrow> cron_schedule \<Rightarrow> cron_schedule" where
  "schedule_from_dto_with_existing_timezone (CronDto expr tz description) existing =
     CronExpr expr
       (opt_else tz (case existing of CronExpr _ tz' _ \<Rightarrow> tz' | _ \<Rightarrow> None)) description"
| "schedule_from_dto_with_existing_timezone dto existing = schedule_from_dto dto"

lemma schedule_dto_round_trip [simp]: "schedule_from_dto (schedule_to_dto schedule) = schedule"
  by (cases schedule) simp_all

text \<open>A client that sends back the schedule it was shown changes nothing.\<close>

lemma resending_schedule_keeps_it:
  "schedule_from_dto_with_existing_timezone (rs_schedule (cron_job_to_response job)) (cj_schedule job) =
     cj_schedule job"
  by (cases "cj_schedule job") (simp_all add: cron_job_to_response_def opt_else_def split: option.split)

text \<open>
  A time zone cannot be taken off a job again: the request without one is the request that keeps it.
\<close>

lemma zone_is_sticky:
  "schedule_from_dto_with_existing_timezone (CronDto expr None description) (CronExpr e (Some z) d) =
     CronExpr expr (Some z) description"
  by (simp add: opt_else_def)

end
