(* ===== verification/CronSchedule.thy ===== *)
theory CronSchedule
  imports CronTypes
begin

text \<open>
  When a job runs next, and the table of its timers (\<open>veryagent-cron/src/scheduler.rs\<close>). The \<open>cron\<close>
  and \<open>chrono_tz\<close> crates are a parameter (\<open>cron_crate\<close>). A timer is a task that sleeps and calls back;
  here it is what the task will do next: \<open>ct_due\<close> is the time of its next call, and \<open>None\<close> when the
  task has ended. The handle of a task that has ended stays in the table, as in the code.
\<close>

section \<open>Schedules\<close>

text \<open>
  \<open>xc_parse_error\<close>: the error of \<open>Schedule::from_str\<close>, \<open>None\<close> for an expression that parses.
  \<open>xc_zone\<close>: whether a name is a time zone. \<open>xc_next\<close>: the first time after the given one at which an
  expression that parses fires in a zone, UTC by default.
\<close>

record cron_crate =
  xc_whitespace :: "char \<Rightarrow> bool"
  xc_parse_error :: "string \<Rightarrow> string option"
  xc_zone :: "string \<Rightarrow> bool"
  xc_next :: "string \<Rightarrow> string option \<Rightarrow> timestamp_ms \<Rightarrow> timestamp_ms option"

text \<open>The documented behaviour of \<open>after\<close>: strictly later, and a date the crate can represent.\<close>

definition crate_ok :: "cron_crate \<Rightarrow> bool" where
  "crate_ok X \<longleftrightarrow> (\<forall>expr zone now t. xc_next X expr zone now = Some t \<longrightarrow> now < t \<and> in_i64 t)"

fun split_whitespace :: "(char \<Rightarrow> bool) \<Rightarrow> string \<Rightarrow> string list" where
  "split_whitespace ws [] = []"
| "split_whitespace ws (c # cs) =
     (if ws c then split_whitespace ws cs
      else if cs = [] \<or> ws (hd cs) then [c] # split_whitespace ws cs
      else (case split_whitespace ws cs of [] \<Rightarrow> [[c]] | w # words \<Rightarrow> (c # w) # words))"

definition normalize_cron_expr :: "(char \<Rightarrow> bool) \<Rightarrow> string \<Rightarrow> string" where
  "normalize_cron_expr ws expr =
     (let trimmed = str_trim ws expr
      in if length (split_whitespace ws trimmed) = 5 then ''0 '' @ trimmed else trimmed)"

definition validate_cron_expression :: "cron_crate \<Rightarrow> string \<Rightarrow> cron_error + string" where
  "validate_cron_expression X expr =
     (let normalized = normalize_cron_expr (xc_whitespace X) expr
      in case xc_parse_error X normalized of
           None \<Rightarrow> Inr normalized
         | Some e \<Rightarrow> Inl (InvalidCronExpression (expr @ '': '' @ e)))"

definition validate_timezone :: "cron_crate \<Rightarrow> string \<Rightarrow> cron_error + unit" where
  "validate_timezone X tz = (if xc_zone X tz then Inr () else Inl (InvalidTimezone tz))"

definition compute_cron_next_run ::
    "cron_crate \<Rightarrow> string \<Rightarrow> string option \<Rightarrow> timestamp_ms \<Rightarrow> timestamp_ms option" where
  "compute_cron_next_run X expr tz now =
     (let normalized = normalize_cron_expr (xc_whitespace X) expr
      in if xc_parse_error X normalized \<noteq> None then None
         else case tz of
           Some zone \<Rightarrow> if xc_zone X zone then xc_next X normalized (Some zone) now else None
         | None \<Rightarrow> xc_next X normalized None now)"

text \<open>\<open>now + every_ms\<close> wraps in a release build.\<close>

fun compute_next_run :: "cron_crate \<Rightarrow> cron_schedule \<Rightarrow> timestamp_ms \<Rightarrow> timestamp_ms option" where
  "compute_next_run X (AtSchedule at_ms _) now = Some at_ms"
| "compute_next_run X (EverySchedule every_ms _) now =
     (if every_ms \<le> 0 then None else Some (wrap_i64 (now + every_ms)))"
| "compute_next_run X (CronExpr expr tz _) now = compute_cron_next_run X expr tz now"

fun validate_schedule :: "cron_crate \<Rightarrow> cron_schedule \<Rightarrow> cron_error + unit" where
  "validate_schedule X (AtSchedule _ _) = Inr ()"
| "validate_schedule X (EverySchedule every_ms _) =
     (if every_ms \<le> 0 then Inl (InvalidSchedule ''every_ms must be positive'') else Inr ())"
| "validate_schedule X (CronExpr expr tz _) =
     (if str_trim (xc_whitespace X) expr = [] then Inr ()
      else and_then (validate_cron_expression X expr) (\<lambda>_.
        case tz of Some zone \<Rightarrow> validate_timezone X zone | None \<Rightarrow> Inr ()))"

section \<open>Timers\<close>

datatype timer_plan = PlanAt | PlanEvery int | PlanCron string "string option"

record cron_timer =
  ct_plan :: timer_plan
  ct_due :: "timestamp_ms option"
  ct_started :: bool

type_synonym timer_table = "(string, cron_timer) hmap"

fun plan_of :: "cron_schedule \<Rightarrow> timer_plan" where
  "plan_of (AtSchedule _ _) = PlanAt"
| "plan_of (EverySchedule every_ms _) = PlanEvery every_ms"
| "plan_of (CronExpr expr tz _) = PlanCron expr tz"

definition cancel_job :: "string \<Rightarrow> timer_table \<Rightarrow> timer_table" where
  "cancel_job job_id handles = hm_remove job_id handles"

definition schedule_job :: "cron_job \<Rightarrow> timer_table \<Rightarrow> timer_table" where
  "schedule_job job handles =
     (let handles = cancel_job (cj_id job) handles
      in if \<not> cj_enabled job then handles
         else case cj_next_run_at job of
           None \<Rightarrow> handles
         | Some next_run_at \<Rightarrow>
             hm_insert (cj_id job)
               \<lparr>ct_plan = plan_of (cj_schedule job), ct_due = Some next_run_at, ct_started = False\<rparr> handles)"

definition reschedule_job :: "cron_job \<Rightarrow> timer_table \<Rightarrow> timer_table" where
  "reschedule_job job handles = schedule_job job handles"

definition cancel_all :: "timer_table \<Rightarrow> timer_table" where
  "cancel_all handles = []"

definition active_count :: "timer_table \<Rightarrow> nat" where
  "active_count handles = length handles"

definition is_scheduled :: "string \<Rightarrow> timer_table \<Rightarrow> bool" where
  "is_scheduled job_id handles = hm_has handles job_id"

definition delay_until :: "timestamp_ms \<Rightarrow> timestamp_ms \<Rightarrow> int" where
  "delay_until target now = max (target - now) 0"

text \<open>
  What a task does when it wakes at \<open>now\<close>: it calls back, and sleeps until the next call. A fixed
  interval is counted from the first call, and afterwards from the call before. A task whose interval
  is zero panics in \<open>tokio::time::interval\<close>; one whose expression has no further date ends.
\<close>

definition fires :: "timestamp_ms \<Rightarrow> cron_timer \<Rightarrow> bool" where
  "fires now t = (case ct_due t of None \<Rightarrow> False | Some due \<Rightarrow> delay_until due now = 0)"

definition after_call :: "cron_crate \<Rightarrow> timestamp_ms \<Rightarrow> cron_timer \<Rightarrow> cron_timer" where
  "after_call X now t =
     t\<lparr>ct_due :=
         (case ct_plan t of
            PlanAt \<Rightarrow> None
          | PlanEvery every_ms \<Rightarrow>
              if every_ms = 0 then None
              else Some ((if ct_started t then case ct_due t of None \<Rightarrow> now | Some due \<Rightarrow> due else now)
                         + every_ms mod 2 ^ 64)
          | PlanCron expr tz \<Rightarrow> compute_cron_next_run X expr tz now),
       ct_started := True\<rparr>"

section \<open>What a schedule promises\<close>

text \<open>
  A schedule that has been validated and has a next run has it in the future, but for a single date,
  which is taken as it is.
\<close>

lemma next_run_is_later:
  assumes "crate_ok X" and "compute_next_run X schedule now = Some t"
    and "\<nexists>at_ms d. schedule = AtSchedule at_ms d"
    and "\<And>every_ms d. schedule = EverySchedule every_ms d \<Longrightarrow> in_i64 (now + every_ms)"
  shows "now < t"
  using assms
  by (cases schedule)
    (auto simp: crate_ok_def compute_cron_next_run_def Let_def wrap_i64_exact
      split: if_splits option.splits)

lemma next_run_in_range:
  assumes "crate_ok X" and "schedule_in_range schedule" and "compute_next_run X schedule now = Some t"
  shows "in_i64 t"
  using assms
  by (cases schedule)
    (auto simp: crate_ok_def compute_cron_next_run_def Let_def split: if_splits option.splits)

text \<open>An interval near the end of the range wraps into the past.\<close>

lemma next_run_wraps: "compute_next_run X (EverySchedule i64_max None) 1 = Some i64_min"
  by (simp add: wrap_i64_def i64_max_def i64_min_def)

text \<open>
  Only a validated expression can fail to have a next run, and an expression that is blank passes
  validation and never has one, for a crate that rejects the empty text.
\<close>

lemma no_next_run:
  assumes "validate_schedule X schedule = Inr ()" and "compute_next_run X schedule now = None"
  obtains expr tz d where "schedule = CronExpr expr tz d"
  using assms by (cases schedule) (auto split: if_splits)

lemma blank_expression_never_runs:
  assumes "str_trim (xc_whitespace X) expr = []" and "xc_parse_error X [] \<noteq> None"
  shows "validate_schedule X (CronExpr expr tz d) = Inr ()"
    and "compute_next_run X (CronExpr expr tz d) now = None"
  using assms by (simp_all add: compute_cron_next_run_def normalize_cron_expr_def)

text \<open>Five fields and six fields mean the same when the first of six is a zero.\<close>

lemma five_fields_get_seconds:
  assumes "length (split_whitespace ws expr) = 5" and "str_trim ws expr = expr"
  shows "normalize_cron_expr ws expr = ''0 '' @ expr"
  using assms by (simp add: normalize_cron_expr_def)

section \<open>The table of timers as an interface\<close>

text \<open>
  What the service relies on: arming a job gives it the timer it should have and touches no other.
  The client's lemma is about a loop that arms a list of jobs.
\<close>

definition planned :: "cron_job \<Rightarrow> cron_timer option" where
  "planned job =
     (if cj_enabled job then
        map_option (\<lambda>due. \<lparr>ct_plan = plan_of (cj_schedule job), ct_due = Some due, ct_started = False\<rparr>)
          (cj_next_run_at job)
      else None)"

locale timer_service =
  fixes arm :: "cron_job \<Rightarrow> 't \<Rightarrow> 't"
    and disarm :: "string \<Rightarrow> 't \<Rightarrow> 't"
    and timer_of :: "'t \<Rightarrow> string \<Rightarrow> cron_timer option"
  assumes timer_of_arm: "timer_of (arm job t) = (timer_of t)(cj_id job := planned job)"
    and timer_of_disarm: "timer_of (disarm i t) = (timer_of t)(i := None)"
begin

lemma arm_disarm: "timer_of (disarm (cj_id job) (arm job t)) (cj_id job) = None"
  by (simp add: timer_of_disarm)

lemma disabled_is_disarmed: "\<not> cj_enabled job \<Longrightarrow> timer_of (arm job t) = timer_of (disarm (cj_id job) t)"
  by (simp add: timer_of_arm timer_of_disarm planned_def)

lemma arm_twice: "cj_id job = cj_id job' \<Longrightarrow> timer_of (arm job' (arm job t)) = timer_of (arm job' t)"
  by (simp add: timer_of_arm)

lemma timer_of_arm_all:
  "distinct (map cj_id jobs) \<Longrightarrow>
    timer_of (fold arm jobs t) i =
      (case find (\<lambda>job. cj_id job = i) jobs of Some job \<Rightarrow> planned job | None \<Rightarrow> timer_of t i)"
proof (induction jobs arbitrary: t)
  case (Cons job jobs)
  have "find (\<lambda>j. cj_id j = cj_id job) jobs = None"
    using Cons.prems by (auto simp: find_None_iff image_iff)
  with Cons show ?case
    by (auto simp: timer_of_arm split: option.split)
qed simp

end

interpretation timers: timer_service schedule_job cancel_job hm_get
proof
  show "hm_get (schedule_job job t) = (hm_get t)(cj_id job := planned job)" for job t
    by (simp add: schedule_job_def cancel_job_def planned_def Let_def hm_simps fun_upd_def fun_eq_iff
      split: option.split)
  show "hm_get (cancel_job i t) = (hm_get t)(i := None)" for i t
    by (simp add: cancel_job_def hm_simps fun_upd_def)
qed

text \<open>
  Every timer that an enabled job with a valid schedule gets can be run: no interval is zero, so no
  task panics, and no task ends before its schedule does.
\<close>

definition timer_ok :: "cron_timer \<Rightarrow> bool" where
  "timer_ok t \<longleftrightarrow> (\<forall>every_ms. ct_plan t = PlanEvery every_ms \<longrightarrow> 0 < every_ms)"

lemma planned_ok:
  "validate_schedule X (cj_schedule job) = Inr () \<Longrightarrow> planned job = Some t \<Longrightarrow> timer_ok t"
  by (cases "cj_schedule job") (auto simp: planned_def timer_ok_def split: if_splits)

lemma after_call_ok [simp]: "timer_ok (after_call X now t) = timer_ok t"
  by (simp add: timer_ok_def after_call_def)

lemma interval_keeps_going:
  assumes "timer_ok t" and "ct_plan t = PlanEvery every_ms" and "in_i64 every_ms"
  shows "ct_due (after_call X now t) \<noteq> None"
  using assms by (simp add: after_call_def timer_ok_def)

text \<open>
  The calls of an interval do not drift: after the first, the next call is one interval after the
  one that was due, however late the task woke.
\<close>

lemma interval_does_not_drift:
  assumes "ct_plan t = PlanEvery every_ms" and "0 < every_ms" and "in_i64 every_ms"
    and "ct_started t" and "ct_due t = Some due"
  shows "ct_due (after_call X now t) = Some (due + every_ms)"
proof -
  have "every_ms mod 2 ^ 64 = every_ms"
    using assms(2,3) by (simp add: in_i64_def i64_max_def)
  with assms show ?thesis
    by (simp add: after_call_def)
qed

end
