(* ===== verification/CronSkill.thy ===== *)
theory CronSkill
  imports CronSchedule ExtAssets
begin

text \<open>
  Skill files of scheduled jobs (\<open>veryagent-cron/src/skill_file.rs\<close>): the text that is written, the
  front matter that is read back, what counts as a placeholder, and where the file of a job lies.
  \<open>ws\<close> is \<open>char::is_whitespace\<close> on the characters of one byte: trimming here does not take off the
  white space of several bytes that \<open>str::trim\<close> knows (see \<open>Prelude\<close>).
\<close>

section \<open>Text\<close>

definition carriage_return :: char where
  "carriage_return = CHR 0x0D"

fun replace_crlf :: "string \<Rightarrow> string" where
  "replace_crlf (c # d # cs) =
     (if c = carriage_return \<and> d = newline then newline # replace_crlf cs else c # replace_crlf (d # cs))"
| "replace_crlf cs = cs"

definition unix_newlines :: "string \<Rightarrow> string" where
  "unix_newlines s = map (\<lambda>c. if c = carriage_return then newline else c) (replace_crlf s)"

text \<open>\<open>str::lines\<close>: a line ends at a newline, without the carriage return before it.\<close>

definition strip_cr :: "string \<Rightarrow> string" where
  "strip_cr l = (if l \<noteq> [] \<and> last l = carriage_return then butlast l else l)"

definition str_lines :: "string \<Rightarrow> string list" where
  "str_lines s =
     (let parts = split_on newline s
      in map strip_cr (butlast parts) @ (if last parts = [] then [] else [last parts]))"

definition trim_end :: "(char \<Rightarrow> bool) \<Rightarrow> string \<Rightarrow> string" where
  "trim_end ws s = rev (dropWhile ws (rev s))"

definition ascii_lower :: "char \<Rightarrow> char" where
  "ascii_lower c =
     (let n = (of_char c :: nat) in if 65 \<le> n \<and> n \<le> 90 then char_of (n + 32) else c)"

definition to_ascii_lowercase :: "string \<Rightarrow> string" where
  "to_ascii_lowercase s = map ascii_lower s"

section \<open>Where the file lies\<close>

definition validate_job_id :: "string \<Rightarrow> cron_error + unit" where
  "validate_job_id job_id =
     (if job_id = [] \<or> CHR ''/'' \<in> set job_id \<or> CHR 0x5C \<in> set job_id \<or> sublist ''..'' job_id
      then Inl (InvalidSkillContent (''invalid cron job id: '' @ job_id)) else Inr ())"

definition cron_skill_name :: "string \<Rightarrow> cron_error + string" where
  "cron_skill_name job_id = and_then (validate_job_id job_id) (\<lambda>_. Inr (''cron-'' @ job_id))"

definition cron_skill_dir :: "string \<Rightarrow> string \<Rightarrow> cron_error + string" where
  "cron_skill_dir data_dir job_id =
     and_then (cron_skill_name job_id) (\<lambda>name. Inr (path_join (path_join data_dir ''cron/skills'') name))"

definition cron_skill_file_path :: "string \<Rightarrow> string \<Rightarrow> cron_error + string" where
  "cron_skill_file_path data_dir job_id =
     and_then (cron_skill_dir data_dir job_id) (\<lambda>dir. Inr (path_join dir ''SKILL.md''))"

section \<open>What it holds\<close>

definition placeholder_patterns :: "string list" where
  "placeholder_patterns =
     [''skill-name'', ''one-line description'', ''your-skill-name'', ''your skill name'', ''description of'']"

definition placeholder_body_patterns :: "string list" where
  "placeholder_body_patterns =
     [''(full skill.md body'', ''full skill.md body'', ''(clear instructions for executing this task'',
      ''<full instructions: output format, tone, sources to check'']"

definition is_placeholder :: "(char \<Rightarrow> bool) \<Rightarrow> string \<Rightarrow> string list \<Rightarrow> bool" where
  "is_placeholder ws val patterns =
     (let normalized = to_ascii_lowercase (str_trim ws val)
      in list_ex (\<lambda>p. prefix p normalized) patterns)"

record parsed_skill_content =
  sk_name :: string
  sk_description :: string
  sk_body :: string

definition sanitized_description :: "(char \<Rightarrow> bool) \<Rightarrow> string \<Rightarrow> string" where
  "sanitized_description ws description =
     join_with '' '' (filter (\<lambda>l. l \<noteq> []) (map (str_trim ws) (str_lines (unix_newlines description))))"

definition title_line :: "string \<Rightarrow> string" where
  "title_line name = ''This is a scheduled task: **'' @ name @ ''**''"

definition schedule_lines :: "string option \<Rightarrow> string list" where
  "schedule_lines schedule_description =
     (case schedule_description of None \<Rightarrow> [] | Some d \<Rightarrow> [''Schedule: '' @ d])"

definition instruction_lines :: "string list" where
  "instruction_lines =
     [''You are executing a scheduled task. Follow the instructions below directly.'',
      ''Do NOT ask clarifying questions '' @ em_dash @ '' just execute the task and produce the result.'']"

definition build_skill_content ::
    "(char \<Rightarrow> bool) \<Rightarrow> string \<Rightarrow> string \<Rightarrow> string \<Rightarrow> string option \<Rightarrow> string" where
  "build_skill_content ws name description prompt schedule_description =
     join_with [newline]
       ([''---'', ''name: '' @ name, ''description: '' @ sanitized_description ws description, ''---'', [],
         title_line name] @ schedule_lines schedule_description @
        [[], ''## Instructions'', []] @ instruction_lines @ [[], prompt])"

text \<open>\<open>find_map(|line| line.strip_prefix(key)).map(str::trim).filter(|value| !value.is_empty())\<close>\<close>

fun find_key :: "string \<Rightarrow> string list \<Rightarrow> string option" where
  "find_key key [] = None"
| "find_key key (l # ls) = (case strip_prefix key l of Some v \<Rightarrow> Some v | None \<Rightarrow> find_key key ls)"

definition front_value :: "(char \<Rightarrow> bool) \<Rightarrow> string \<Rightarrow> string list \<Rightarrow> string option" where
  "front_value ws key frontmatter =
     (case find_key key frontmatter of
        None \<Rightarrow> None
      | Some v \<Rightarrow> let t = str_trim ws v in if t = [] then None else Some t)"

definition parse_frontmatter ::
    "(char \<Rightarrow> bool) \<Rightarrow> string \<Rightarrow> cron_error + (string \<times> string \<times> string)" where
  "parse_frontmatter ws content =
     (case str_lines (unix_newlines content) of
        [] \<Rightarrow> Inl (InvalidSkillContent ''skill file must start with YAML frontmatter'')
      | first # rest \<Rightarrow>
          if first \<noteq> ''---'' then
            Inl (InvalidSkillContent ''skill file must start with YAML frontmatter'')
          else
            let frontmatter = takeWhile (\<lambda>l. l \<noteq> ''---'') rest;
                after = dropWhile (\<lambda>l. l \<noteq> ''---'') rest
            in if after = [] then
                 Inl (InvalidSkillContent ''skill file is missing the closing frontmatter delimiter'')
               else case front_value ws ''name:'' frontmatter of
                 None \<Rightarrow> Inl (InvalidSkillContent ''missing skill name'')
               | Some name \<Rightarrow>
                   (case front_value ws ''description:'' frontmatter of
                      None \<Rightarrow> Inl (InvalidSkillContent ''missing skill description'')
                    | Some description \<Rightarrow>
                        Inr (name, description,
                          join_with [newline] (dropWhile (\<lambda>l. l = []) (tl after)))))"

definition skips_line :: "(char \<Rightarrow> bool) \<Rightarrow> string \<Rightarrow> bool" where
  "skips_line ws l =
     (let trimmed = str_trim ws l
      in trimmed = [] \<or> prefix ''You are executing'' trimmed \<or> prefix ''Do NOT ask'' trimmed)"

definition extract_prompt_from_body :: "(char \<Rightarrow> bool) \<Rightarrow> string \<Rightarrow> string" where
  "extract_prompt_from_body ws body =
     (case find_text ''## Instructions'' body of
        None \<Rightarrow> trim_end ws body
      | Some (_, after_heading) \<Rightarrow>
          let ls = dropWhile (skips_line ws) (tl (split_on newline after_heading))
          in if ls = [] then [] else trim_end ws (join_with [newline] ls))"

definition parse_skill_content :: "(char \<Rightarrow> bool) \<Rightarrow> string \<Rightarrow> cron_error + parsed_skill_content" where
  "parse_skill_content ws content =
     and_then (parse_frontmatter ws content) (\<lambda>(name, description, body).
       Inr \<lparr>sk_name = name, sk_description = description,
            sk_body = extract_prompt_from_body ws body\<rparr>)"

definition validate_skill_content :: "(char \<Rightarrow> bool) \<Rightarrow> string \<Rightarrow> cron_error + parsed_skill_content" where
  "validate_skill_content ws content =
     and_then (parse_frontmatter ws content) (\<lambda>(name, description, body).
       let trimmed_body = str_trim ws body
       in if trimmed_body = [] then
            Inl (InvalidSkillContent ''skill file body cannot be empty'')
          else if is_placeholder ws name placeholder_patterns then
            Inl (InvalidSkillContent ''skill name looks like a template placeholder'')
          else if is_placeholder ws description placeholder_patterns then
            Inl (InvalidSkillContent ''skill description looks like a template placeholder'')
          else if is_placeholder ws trimmed_body placeholder_body_patterns then
            Inl (InvalidSkillContent ''skill body looks like a template placeholder'')
          else Inr \<lparr>sk_name = name, sk_description = description, sk_body = trimmed_body\<rparr>)"

definition normalize_for_hash :: "(char \<Rightarrow> bool) \<Rightarrow> string \<Rightarrow> string" where
  "normalize_for_hash ws content = str_trim ws (unix_newlines content)"

section \<open>The file of a job is its own\<close>

text \<open>What the code relies on of white space: ASCII is decided as in Rust.\<close>

definition ascii_ws :: "(char \<Rightarrow> bool) \<Rightarrow> bool" where
  "ascii_ws ws \<longleftrightarrow>
     (\<forall>c. (of_char c :: nat) < 128 \<longrightarrow> ws c = (of_char c = (32 :: nat) \<or> (9 \<le> (of_char c :: nat) \<and> (of_char c :: nat) \<le> 13)))"

text \<open>
  A job can only reach a directory below \<open>cron/skills\<close>, exactly one level down, and two jobs never
  the same one.
\<close>

lemma skill_dir_confined:
  assumes "cron_skill_dir data_dir job_id = Inr dir"
  shows "components dir = components (path_join data_dir ''cron/skills'') @ [Normal (''cron-'' @ job_id)]"
proof -
  from assms have dir: "dir = path_join (path_join data_dir ''cron/skills'') (''cron-'' @ job_id)"
      and slash: "CHR ''/'' \<notin> set job_id"
    by (auto simp: cron_skill_dir_def cron_skill_name_def validate_job_id_def split: if_splits)
  define base where "base = path_join data_dir ''cron/skills''"
  have base: "base \<noteq> []" "last base \<noteq> CHR ''/''"
    by (auto simp: base_def path_join_def is_absolute_def)
  have "dir = base @ CHR ''/'' # (''cron-'' @ job_id)"
    using base unfolding dir base_def [symmetric] by (simp add: path_join_def is_absolute_def)
  then have split: "split_on CHR ''/'' dir = split_on CHR ''/'' base @ [''cron-'' @ job_id]"
    using slash by (simp only: split_on_append2) (simp add: split_on_plain)
  obtain first rest where parts: "split_on CHR ''/'' base = first # rest"
    by (meson neq_Nil_conv split_on_not_Nil)
  have nonempty: "first \<noteq> [] \<or> rest \<noteq> []"
  proof (rule ccontr)
    assume "\<not> ?thesis"
    with parts have "split_on CHR ''/'' base = [[]]"
      by simp
    with base(1) show False
      by (cases base) (auto split: if_splits list.splits)
  qed
  with split parts show ?thesis
    by (auto simp: components_def base_def [symmetric] component_of_def)
qed

lemma skill_dirs_distinct:
  "cron_skill_dir data_dir i = Inr dir \<Longrightarrow> cron_skill_dir data_dir j = Inr dir \<Longrightarrow> i = j"
  by (auto dest!: skill_dir_confined)

section \<open>Reading back what was written\<close>

lemma unix_newlines_plain: "carriage_return \<notin> set s \<Longrightarrow> unix_newlines s = s"
proof -
  assume "carriage_return \<notin> set s"
  then have "replace_crlf s = s"
    by (induction s rule: replace_crlf.induct) auto
  with \<open>carriage_return \<notin> set s\<close> show ?thesis
    by (auto simp: unix_newlines_def intro!: map_idI)
qed

lemma unix_newlines_clean: "carriage_return \<notin> set (unix_newlines s)"
  by (auto simp: unix_newlines_def carriage_return_def newline_def)

lemma join_Cons: "ys \<noteq> [] \<Longrightarrow> join_with sep (x # ys) = x @ sep @ join_with sep ys"
  by (cases ys) simp_all

lemma join_split: "join_with [c] (split_on c s) = s"
proof (induction s)
  case (Cons x s)
  obtain p ps where "split_on c s = p # ps"
    by (meson neq_Nil_conv split_on_not_Nil)
  with Cons show ?case
    by (cases ps) (auto simp: join_Cons)
qed simp

lemma join_append: "ys \<noteq> [] \<Longrightarrow> xs \<noteq> [] \<Longrightarrow> join_with sep (xs @ ys) = join_with sep xs @ sep @ join_with sep ys"
proof (induction xs)
  case (Cons x xs)
  then show ?case
    by (cases xs) (simp_all add: join_Cons)
qed simp

lemma split_join_last:
  "\<forall>x \<in> set xs. c \<notin> set x \<Longrightarrow> split_on c (join_with [c] (xs @ [p])) = xs @ split_on c p"
  by (induction xs) (auto simp: join_Cons split_on_append)

lemma set_join: "set (join_with sep xs) \<subseteq> set sep \<union> \<Union> (set ` set xs)"
  by (induction sep xs rule: join_with.induct) auto

lemma strip_cr_plain: "carriage_return \<notin> set l \<Longrightarrow> strip_cr l = l"
  by (cases l rule: rev_cases) (auto simp: strip_cr_def)

lemma str_lines_plain:
  assumes "carriage_return \<notin> set s"
  shows "str_lines s = (if last (split_on newline s) = [] then butlast (split_on newline s) else split_on newline s)"
proof -
  have "map strip_cr (butlast (split_on newline s)) = butlast (split_on newline s)"
    using assms split_on_parts [of _ newline s]
    by (intro map_idI strip_cr_plain) (auto dest: in_set_butlastD)
  then show ?thesis
    by (simp add: str_lines_def Let_def)
qed

lemma str_lines_join:
  assumes "\<forall>x \<in> set xs. newline \<notin> set x \<and> carriage_return \<notin> set x" and "carriage_return \<notin> set p"
  shows "str_lines (join_with [newline] (xs @ [p])) = xs @ str_lines p"
proof -
  have "carriage_return \<notin> set (join_with [newline] (xs @ [p]))"
    using assms set_join [of "[newline]" "xs @ [p]"] by (auto simp: newline_def carriage_return_def)
  then show ?thesis
    using assms by (simp add: str_lines_plain split_join_last butlast_append)
qed

lemma trim_end_newline: "ws newline \<Longrightarrow> trim_end ws (s @ [newline]) = trim_end ws s"
  by (simp add: trim_end_def)

lemma trim_end_lines:
  assumes "carriage_return \<notin> set s" and "ws newline"
  shows "trim_end ws (join_with [newline] (str_lines s)) = trim_end ws s"
proof (cases "last (split_on newline s) = []")
  case True
  have s: "join_with [newline] (butlast (split_on newline s) @ [[]]) = s"
    by (metis True append_butlast_last_id join_split split_on_not_Nil)
  show ?thesis
  proof (cases "butlast (split_on newline s) = []")
    case True
    with s have "s = []"
      by simp
    then show ?thesis
      by (simp add: str_lines_def)
  next
    case False
    then have "join_with [newline] (butlast (split_on newline s)) @ [newline] = s"
      using s join_append [of "[[]]" "butlast (split_on newline s)" "[newline]"] by simp
    with True assms show ?thesis
      by (metis str_lines_plain trim_end_newline)
  qed
next
  case False
  with assms show ?thesis
    by (simp add: str_lines_plain join_split)
qed

text \<open>A text that has no newline is found in the first line that has it.\<close>

lemma find_text_next_line:
  assumes "\<not> sublist p x" and "newline \<notin> set p"
  shows "find_text p (x @ newline # y) = map_option (\<lambda>(b, r). (x @ newline # b, r)) (find_text p y)"
  using assms(1)
proof (induction x)
  case Nil
  then have "p \<noteq> []"
    by auto
  with assms(2) have "\<not> prefix p (newline # y)"
    by (cases p) auto
  then show ?case
    by (simp add: case_prod_beta cong: map_option_cong)
next
  case (Cons c x)
  have "\<not> prefix p (c # x @ newline # y)"
  proof
    assume "prefix p (c # x @ newline # y)"
    then have "prefix p ((c # x) @ newline # y)"
      by simp
    then have "prefix p (c # x)"
      using assms(2) by (auto simp: prefix_append prefix_Cons)
    with Cons.prems show False
      by blast
  qed
  moreover have "\<not> sublist p x"
    using Cons.prems by (meson sublist_Cons_right)
  ultimately show ?case
    using Cons.IH by (simp add: option.map_comp comp_def case_prod_beta)
qed

lemma str_trim_id:
  assumes "s \<noteq> []" and "\<not> ws (hd s)" and "\<not> ws (last s)"
  shows "str_trim ws s = s"
proof -
  have keep: "dropWhile ws t = t" if "t \<noteq> []" "\<not> ws (hd t)" for t
    using that by (cases t) simp_all
  have "hd (rev s) = last s"
    using assms(1) by (simp add: hd_rev)
  with assms show ?thesis
    by (simp add: str_trim_def trim_start_def keep)
qed

lemma str_trim_space: "ws c \<Longrightarrow> str_trim ws (c # s) = str_trim ws s"
  by (simp add: str_trim_def trim_start_def)

lemma str_trim_Nil [simp]: "str_trim ws [] = []"
  by (simp add: str_trim_def trim_start_def)

definition plain_line :: "string \<Rightarrow> bool" where
  "plain_line s \<longleftrightarrow> newline \<notin> set s \<and> carriage_return \<notin> set s"

lemma sublist_later: "p \<noteq> [] \<Longrightarrow> hd p \<notin> set x \<Longrightarrow> sublist p (x @ y) \<longleftrightarrow> sublist p y"
  by (induction x) (auto simp: sublist_Cons_right neq_Nil_conv)

lemma sublist_around:
  assumes "c \<notin> set p" and "sublist p (x @ c # y)"
  shows "sublist p x \<or> sublist p y"
proof -
  have front: "q = []" if "prefix q (c # y)" "c \<notin> set q" for q
    using that by (cases q) auto
  from assms(2) consider "sublist p x" | "sublist p (c # y)"
    | q r where "p = q @ r" "suffix q x" "prefix r (c # y)"
    by (auto simp: sublist_append)
  then show ?thesis
  proof cases
    case 2
    then show ?thesis
      using front assms(1) by (auto simp: sublist_Cons_right)
  next
    case 3
    with front assms(1) have "r = []"
      by auto
    with 3 show ?thesis
      by (simp add: suffix_imp_sublist)
  qed simp
qed

lemma heading_not_in_title:
  assumes "\<not> sublist ''## Instructions'' name"
  shows "\<not> sublist ''## Instructions'' (''This is a scheduled task: **'' @ name @ ''**'')"
proof
  assume "sublist ''## Instructions'' (''This is a scheduled task: **'' @ name @ ''**'')"
  then have "sublist ''## Instructions'' (name @ CHR ''*'' # ''*'')"
    by (subst (asm) sublist_later) simp_all
  then have "sublist ''## Instructions'' name \<or> sublist ''## Instructions'' ''*''"
    by (rule sublist_around [rotated]) simp
  with assms show False
    by (auto dest: set_mono_sublist)
qed

lemma heading_not_in_schedule:
  "\<not> sublist ''## Instructions'' d \<Longrightarrow> \<not> sublist ''## Instructions'' (''Schedule: '' @ d)"
  by (subst sublist_later) simp_all

lemma trimmed_ends:
  assumes "str_trim ws s \<noteq> []"
  shows "\<not> ws (hd (str_trim ws s))" and "\<not> ws (last (str_trim ws s))"
proof -
  have hd_drop: "\<not> ws (hd (dropWhile ws t))" if "dropWhile ws t \<noteq> []" for t
    using that by (rule hd_dropWhile)
  define t where "t = dropWhile ws s"
  have trim: "str_trim ws s = rev (dropWhile ws (rev t))"
    by (simp add: str_trim_def trim_start_def t_def)
  with assms have ne: "dropWhile ws (rev t) \<noteq> []"
    by simp
  then show "\<not> ws (last (str_trim ws s))"
    using hd_drop by (simp add: trim last_rev)
  have "suffix (dropWhile ws (rev t)) (rev t)"
    by (rule suffix_dropWhile)
  then have "prefix (str_trim ws s) t"
    by (simp add: trim suffix_to_prefix)
  moreover have "t \<noteq> []"
    using ne by auto
  moreover from this have "\<not> ws (hd t)"
    using hd_drop unfolding t_def by blast
  ultimately show "\<not> ws (hd (str_trim ws s))"
    using assms by (auto simp: prefix_def)
qed

lemma join_ends:
  assumes "xs \<noteq> []" and "\<forall>x \<in> set xs. x \<noteq> [] \<and> \<not> ws (hd x) \<and> \<not> ws (last x)"
  shows "join_with sep xs \<noteq> [] \<and> \<not> ws (hd (join_with sep xs)) \<and> \<not> ws (last (join_with sep xs))"
  using assms by (induction sep xs rule: join_with.induct) auto

lemma sanitized_trimmed:
  assumes "sanitized_description ws description \<noteq> []"
  shows "str_trim ws (sanitized_description ws description) = sanitized_description ws description"
proof -
  define ls where "ls = filter (\<lambda>l. l \<noteq> []) (map (str_trim ws) (str_lines (unix_newlines description)))"
  have "\<forall>l \<in> set ls. l \<noteq> [] \<and> \<not> ws (hd l) \<and> \<not> ws (last l)"
    using trimmed_ends [of ws] by (auto simp: ls_def)
  moreover have "ls \<noteq> []"
    using assms by (auto simp: sanitized_description_def ls_def [symmetric])
  ultimately show ?thesis
    using join_ends [of ls ws "'' ''"]
    by (simp add: sanitized_description_def ls_def [symmetric] str_trim_id)
qed

lemma set_str_trim: "set (str_trim ws s) \<subseteq> set s"
  by (auto simp: str_trim_def trim_start_def dest!: set_dropWhileD)

lemma str_lines_lines: "carriage_return \<notin> set s \<Longrightarrow> l \<in> set (str_lines s) \<Longrightarrow> plain_line l"
  using split_on_parts [of l newline s]
  by (auto simp: str_lines_plain plain_line_def dest: in_set_butlastD split: if_splits)

lemma sanitized_plain: "plain_line (sanitized_description ws description)"
proof -
  define ls where "ls = filter (\<lambda>l. l \<noteq> []) (map (str_trim ws) (str_lines (unix_newlines description)))"
  have "newline \<notin> set l \<and> carriage_return \<notin> set l" if "l \<in> set ls" for l
  proof -
    from that obtain m where "m \<in> set (str_lines (unix_newlines description))" "l = str_trim ws m"
      by (auto simp: ls_def)
    then show ?thesis
      using str_lines_lines [OF unix_newlines_clean] set_str_trim [of ws m]
      by (auto simp: plain_line_def)
  qed
  moreover have "newline \<notin> set '' ''" "carriage_return \<notin> set '' ''"
    by (simp_all add: newline_def carriage_return_def)
  ultimately show ?thesis
    using set_join [of "'' ''" ls]
    unfolding sanitized_description_def ls_def [symmetric] plain_line_def by blast
qed

lemma plain_line_simps [simp]:
  "plain_line []"
  "plain_line (c # cs) \<longleftrightarrow> c \<noteq> CHR 0x0A \<and> c \<noteq> CHR 0x0D \<and> plain_line cs"
  by (auto simp: plain_line_def newline_def carriage_return_def)

lemma plain_dash: "plain_line em_dash"
  by (simp add: plain_line_def newline_def carriage_return_def em_dash_def) (simp add: char_of_def)

lemma plain_append [simp]: "plain_line (xs @ ys) \<longleftrightarrow> plain_line xs \<and> plain_line ys"
  by (auto simp: plain_line_def)

lemma skill_lines:
  assumes "plain_line name" and "\<And>d. schedule_description = Some d \<Longrightarrow> plain_line d"
    and "carriage_return \<notin> set prompt"
  shows "str_lines (unix_newlines (build_skill_content ws name description prompt schedule_description)) =
    [''---'', ''name: '' @ name, ''description: '' @ sanitized_description ws description, ''---'', [],
      title_line name] @ schedule_lines schedule_description @
      [[], ''## Instructions'', []] @ instruction_lines @ [[]] @ str_lines prompt"
    (is "_ = ?front @ ?sched @ ?mid @ _ @ ?end @ _")
proof -
  let ?xs = "?front @ ?sched @ ?mid @ instruction_lines @ ?end"
  let ?c = "join_with [newline] (?xs @ [prompt])"
  have build: "build_skill_content ws name description prompt schedule_description = ?c"
    by (simp add: build_skill_content_def)
  have "\<forall>x \<in> set ?xs. plain_line x"
    using assms(1,2) sanitized_plain plain_dash
    by (auto simp: title_line_def schedule_lines_def instruction_lines_def split: option.splits)
  then have plain: "\<forall>x \<in> set ?xs. newline \<notin> set x \<and> carriage_return \<notin> set x"
    unfolding plain_line_def .
  then have "carriage_return \<notin> set ?c"
    using assms(3) set_join [of "[newline]" "?xs @ [prompt]"]
    by (auto simp: newline_def carriage_return_def)
  then have "unix_newlines ?c = ?c"
    by (rule unix_newlines_plain)
  then have "str_lines (unix_newlines ?c) = str_lines ?c"
    by (rule arg_cong)
  also have "\<dots> = ?xs @ str_lines prompt"
    using plain assms(3) by (rule str_lines_join)
  finally show ?thesis
    by (simp add: build)
qed

lemma front_value_line:
  assumes "ws CHR '' ''" and "str_trim ws v = v" and "v \<noteq> []"
  shows "front_value ws ''name:'' ((''name: '' @ v) # ls) = Some v"
    and "front_value ws ''description:'' ((''name: '' @ n) # (''description: '' @ v) # ls) = Some v"
  using assms by (simp_all add: front_value_def strip_prefix_def str_trim_space)

lemma parse_frontmatter_lines:
  assumes "str_lines (unix_newlines content) =
      ''---'' # (''name: '' @ n) # (''description: '' @ d) # ''---'' # [] # title # rest"
    and "ws CHR '' ''" and "str_trim ws n = n" and "n \<noteq> []" and "str_trim ws d = d" and "d \<noteq> []"
    and "title \<noteq> []"
  shows "parse_frontmatter ws content = Inr (n, d, join_with [newline] (title # rest))"
  using front_value_line(1) [of ws n "[''description: '' @ d]"] front_value_line(2) [of ws d n "[]"] assms(2-)
  by (simp add: parse_frontmatter_def assms(1))

text \<open>The front matter gives back the name and the sanitized description, and the body as written.\<close>

lemma parse_frontmatter_build:
  assumes ws: "ascii_ws ws"
    and name: "plain_line name" "str_trim ws name = name" "name \<noteq> []"
    and description: "sanitized_description ws description \<noteq> []"
    and schedule: "\<And>d. schedule_description = Some d \<Longrightarrow> plain_line d"
    and prompt: "carriage_return \<notin> set prompt"
  shows "parse_frontmatter ws (build_skill_content ws name description prompt schedule_description) =
    Inr (name, sanitized_description ws description,
      join_with [newline] ((title_line name # schedule_lines schedule_description @ [[]]) @
        ''## Instructions'' # [] # instruction_lines @ [[]] @ str_lines prompt))"
proof -
  have "ws CHR '' ''" "title_line name \<noteq> []"
    using ws by (simp_all add: ascii_ws_def title_line_def)
  then show ?thesis
    using name(2,3) sanitized_trimmed [OF description] description
    by (subst parse_frontmatter_lines [where title = "title_line name" and
          rest = "schedule_lines schedule_description @ [[], ''## Instructions'', []] @
            instruction_lines @ [[]] @ str_lines prompt"])
      (use skill_lines [OF name(1) schedule prompt] in simp_all)
qed

lemma find_heading:
  assumes "list_all (\<lambda>l. \<not> sublist ''## Instructions'' l) xs" and "ys \<noteq> []"
  shows "\<exists>b. find_text ''## Instructions'' (join_with [newline] (xs @ ''## Instructions'' # ys)) =
    Some (b, join_with [newline] (''## Instructions'' # ys))"
  using assms(1)
proof (induction xs)
  case Nil
  show ?case
    using assms(2) by (simp add: join_Cons)
next
  case (Cons x xs)
  have "newline \<notin> set ''## Instructions''"
    by (simp add: newline_def)
  with Cons show ?case
    by (auto simp: join_Cons find_text_next_line)
qed

lemma instructions_are_skipped: "ascii_ws ws \<Longrightarrow> l \<in> set instruction_lines \<Longrightarrow> skips_line ws l"
  by (auto simp: instruction_lines_def skips_line_def str_trim_id ascii_ws_def)

text \<open>
  C7. A skill file that is written for a job is read back with its name, its description on one line and
  its prompt without trailing white space, when the name is one line, nothing before the prompt looks
  like the heading of the instructions, and the prompt does not begin with a line that the reader
  takes for boilerplate.
\<close>

theorem skill_file_round_trip:
  assumes ws: "ascii_ws ws"
    and name: "plain_line name" "str_trim ws name = name" "name \<noteq> []"
      "\<not> sublist ''## Instructions'' name"
    and description: "sanitized_description ws description \<noteq> []"
    and schedule: "\<And>d. schedule_description = Some d \<Longrightarrow> plain_line d \<and> \<not> sublist ''## Instructions'' d"
    and prompt: "carriage_return \<notin> set prompt" "str_lines prompt = l # ls" "\<not> skips_line ws l"
  shows "parse_skill_content ws (build_skill_content ws name description prompt schedule_description) =
    Inr \<lparr>sk_name = name, sk_description = sanitized_description ws description,
         sk_body = trim_end ws prompt\<rparr>"
proof -
  let ?before = "title_line name # schedule_lines schedule_description @ [[]]"
  let ?after = "[] # instruction_lines @ [[]] @ str_lines prompt"
  have "list_all (\<lambda>l. \<not> sublist ''## Instructions'' l) ?before"
    using heading_not_in_title [OF name(4)] heading_not_in_schedule schedule
    by (auto simp: title_line_def schedule_lines_def split: option.splits)
  then obtain b where found: "find_text ''## Instructions'' (join_with [newline] (?before @ ''## Instructions'' # ?after)) =
      Some (b, join_with [newline] (''## Instructions'' # ?after))"
    using find_heading [of ?before ?after] by auto
  have "plain_line x" if "x \<in> set (''## Instructions'' # ?after)" for x
    using that str_lines_lines [OF prompt(1)] plain_dash by (auto simp: instruction_lines_def)
  then have parts: "split_on newline (join_with [newline] (''## Instructions'' # ?after)) = ''## Instructions'' # ?after"
    by (intro split_on_join) (auto simp: plain_line_def)
  have "skips_line ws []"
    by (simp add: skips_line_def)
  then have drop: "dropWhile (skips_line ws) ?after = str_lines prompt"
    using instructions_are_skipped [OF ws] prompt(2,3)
    by (simp add: dropWhile_append2)
  have "extract_prompt_from_body ws (join_with [newline] (?before @ ''## Instructions'' # ?after)) =
      (if str_lines prompt = [] then [] else trim_end ws (join_with [newline] (str_lines prompt)))"
    unfolding extract_prompt_from_body_def found option.case prod.case parts list.sel Let_def drop ..
  moreover have "ws newline"
    using ws by (simp add: ascii_ws_def newline_def)
  ultimately have "extract_prompt_from_body ws (join_with [newline] (?before @ ''## Instructions'' # ?after)) =
      trim_end ws prompt"
    using prompt(2) trim_end_lines [OF prompt(1)] by simp
  then show ?thesis
    using parse_frontmatter_build [OF ws name(1-3) description _ prompt(1)] schedule
    by (simp add: parse_skill_content_def)
qed

text \<open>
  The description is reduced to one line before it is written, the name is not: a name with a newline
  writes keys of its own. And a prompt that begins with the words of the boilerplate loses that line.
\<close>

definition rust_ascii_ws :: "char \<Rightarrow> bool" where
  "rust_ascii_ws c = (let n = (of_char c :: nat) in n = 32 \<or> 9 \<le> n \<and> n \<le> 13)"

lemma rust_ascii_ws_ok [simp]: "ascii_ws rust_ascii_ws"
  by (simp add: ascii_ws_def rust_ascii_ws_def Let_def)

lemma name_overrides_description:
  "parse_skill_content rust_ascii_ws (build_skill_content rust_ascii_ws
     (''report'' @ newline # ''description: injected'') ''mine'' ''do it'' None) =
   Inr \<lparr>sk_name = ''report'', sk_description = ''injected'', sk_body = ''do it''\<rparr>"
  by code_simp

lemma first_line_is_lost:
  "parse_skill_content rust_ascii_ws (build_skill_content rust_ascii_ws ''report'' ''mine''
     (''Do NOT ask the user. Read the log.'' @ newline # ''Then stop.'') None) =
   Inr \<lparr>sk_name = ''report'', sk_description = ''mine'', sk_body = ''Then stop.''\<rparr>"
  by code_simp

lemma skill_file_round_trip_witness:
  "parse_skill_content rust_ascii_ws (build_skill_content rust_ascii_ws ''daily report'' ''what happened''
     (''Read the log.'' @ newline # ''Then stop. '') (Some ''at nine'')) =
   Inr \<lparr>sk_name = ''daily report'', sk_description = sanitized_description rust_ascii_ws ''what happened'',
        sk_body = trim_end rust_ascii_ws (''Read the log.'' @ newline # ''Then stop. '')\<rparr>"
proof (rule skill_file_round_trip)
  show "str_trim rust_ascii_ws ''daily report'' = ''daily report''"
    by code_simp
  show "sanitized_description rust_ascii_ws ''what happened'' \<noteq> []"
    by code_simp
  show "\<not> sublist ''## Instructions'' ''daily report''"
    by code_simp
  show "str_lines (''Read the log.'' @ newline # ''Then stop. '') = ''Read the log.'' # [''Then stop. '']"
    by code_simp
  show "\<not> skips_line rust_ascii_ws ''Read the log.''"
    by code_simp
  show "plain_line d \<and> \<not> sublist ''## Instructions'' d" if "Some ''at nine'' = Some d" for d
    using that by (auto dest: set_mono_sublist)
qed (simp_all add: newline_def carriage_return_def)

end
