(* ===== verification/CronStore.thy ===== *)
theory CronStore
  imports CronSkill Coroutine
begin

text \<open>
  The state scheduled jobs work on, and every access to it: the statements on the table \<open>cron_jobs\<close>
  (\<open>veryagent-db/src/repository/sqlite_cron.rs\<close>, schema of \<open>migrations/001_initial_schema.sql\<close>), those on
  conversations, messages and artifacts the jobs use (\<open>sqlite_conversation.rs\<close>), the skill files, the
  artifacts (\<open>veryagent-cron/src/artifacts.rs\<close>) and the events (\<open>events.rs\<close>). A statement fails as long
  as the database is failing (\<open>cs_fault\<close>), which only the environment decides, like the clock and who
  has claimed a conversation.
\<close>

section \<open>State\<close>

record conversation_row =
  vr_id :: string
  vr_user_id :: string
  vr_name :: string
  vr_type :: string
  vr_extra :: string
  vr_model :: "string option"
  vr_updated_at :: timestamp_ms

record tips_message =
  tp_id :: string
  tp_conversation_id :: string
  tp_content :: string
  tp_type :: string
  tp_created_at :: timestamp_ms

record artifact_row =
  ar_id :: string
  ar_conversation_id :: string
  ar_cron_job_id :: "string option"
  ar_kind :: string
  ar_status :: string
  ar_payload :: string
  ar_created_at :: timestamp_ms
  ar_updated_at :: timestamp_ms

datatype cron_event =
    JobCreated cron_job_response
  | JobUpdated cron_job_response
  | JobRemoved string
  | JobExecuted string string "string option"
  | ConversationTips string string string
  | ArtifactBroadcast artifact_row json

record cron_state =
  cs_jobs :: "cron_job_row list"
  cs_timers :: timer_table
  cs_convs :: "conversation_row list"
  cs_messages :: "tips_message list"
  cs_artifacts :: "artifact_row list"
  cs_files :: "(string, string) hmap"
  cs_hashes :: "(string, string) hmap"
  cs_checks :: "(string \<times> string \<times> string) list"
  cs_events :: "cron_event list"
  cs_drawn :: nat
  cs_clock :: timestamp_ms
  cs_fault :: "string option"
  cs_claims :: "string list"

definition empty_cron_state :: cron_state where
  "empty_cron_state = \<lparr>cs_jobs = [], cs_timers = [], cs_convs = [], cs_messages = [], cs_artifacts = [],
     cs_files = [], cs_hashes = [], cs_checks = [], cs_events = [], cs_drawn = 0, cs_clock = 0, cs_fault = None,
     cs_claims = []\<rparr>"

type_synonym 'r stmt = "cron_state \<Rightarrow> (db_error + 'r) \<times> cron_state"

definition guarded :: "'r stmt \<Rightarrow> 'r stmt" where
  "guarded f s = (case cs_fault s of Some m \<Rightarrow> (Inl (DbQuery m), s) | None \<Rightarrow> f s)"

section \<open>The table of jobs\<close>

definition row_checks :: "cron_job_row \<Rightarrow> bool" where
  "row_checks row \<longleftrightarrow>
     jr_schedule_kind row \<in> {''at'', ''every'', ''cron''} \<and>
     jr_execution_mode row \<in> {''existing'', ''new_conversation''} \<and>
     jr_created_by row \<in> {''user'', ''agent''} \<and>
     (case jr_last_status row of None \<Rightarrow> True
      | Some st \<Rightarrow> st \<in> {''ok'', ''error'', ''skipped'', ''missed''})"

definition insert_job_row :: "cron_job_row \<Rightarrow> unit stmt" where
  "insert_job_row row = guarded (\<lambda>s.
     if jr_id row \<in> set (map jr_id (cs_jobs s)) then
       (Inl (DbQuery ''UNIQUE constraint failed: cron_jobs.id''), s)
     else if \<not> row_checks row then (Inl (DbQuery ''CHECK constraint failed''), s)
     else (Inr (), s\<lparr>cs_jobs := cs_jobs s @ [row]\<rparr>))"

record update_cron_job_params =
  pp_name :: "string option"
  pp_enabled :: "bool option"
  pp_schedule_kind :: "string option"
  pp_schedule_value :: "string option"
  pp_schedule_tz :: "string option option"
  pp_schedule_description :: "string option option"
  pp_payload_message :: "string option"
  pp_execution_mode :: "string option"
  pp_agent_config :: "string option option"
  pp_conversation_id :: "string option"
  pp_conversation_title :: "string option option"
  pp_skill_content :: "string option option"
  pp_description :: "string option option"
  pp_next_run_at :: "timestamp_ms option option"
  pp_last_run_at :: "timestamp_ms option option"
  pp_last_status :: "string option option"
  pp_last_error :: "string option option"
  pp_run_count :: "int option"
  pp_retry_count :: "int option"

definition keep_all :: update_cron_job_params where
  "keep_all = \<lparr>pp_name = None, pp_enabled = None, pp_schedule_kind = None, pp_schedule_value = None,
     pp_schedule_tz = None, pp_schedule_description = None, pp_payload_message = None,
     pp_execution_mode = None, pp_agent_config = None, pp_conversation_id = None,
     pp_conversation_title = None, pp_skill_content = None, pp_description = None,
     pp_next_run_at = None, pp_last_run_at = None, pp_last_status = None, pp_last_error = None,
     pp_run_count = None, pp_retry_count = None\<rparr>"

definition given :: "'a option \<Rightarrow> 'a \<Rightarrow> 'a" where
  "given new old = (case new of None \<Rightarrow> old | Some v \<Rightarrow> v)"

definition apply_update :: "timestamp_ms \<Rightarrow> update_cron_job_params \<Rightarrow> cron_job_row \<Rightarrow> cron_job_row" where
  "apply_update now p row =
     row\<lparr>jr_name := given (pp_name p) (jr_name row),
         jr_enabled := given (pp_enabled p) (jr_enabled row),
         jr_schedule_kind := given (pp_schedule_kind p) (jr_schedule_kind row),
         jr_schedule_value := given (pp_schedule_value p) (jr_schedule_value row),
         jr_schedule_tz := given (pp_schedule_tz p) (jr_schedule_tz row),
         jr_schedule_description := given (pp_schedule_description p) (jr_schedule_description row),
         jr_payload_message := given (pp_payload_message p) (jr_payload_message row),
         jr_execution_mode := given (pp_execution_mode p) (jr_execution_mode row),
         jr_agent_config := given (pp_agent_config p) (jr_agent_config row),
         jr_conversation_id := given (pp_conversation_id p) (jr_conversation_id row),
         jr_conversation_title := given (pp_conversation_title p) (jr_conversation_title row),
         jr_skill_content := given (pp_skill_content p) (jr_skill_content row),
         jr_description := given (pp_description p) (jr_description row),
         jr_next_run_at := given (pp_next_run_at p) (jr_next_run_at row),
         jr_last_run_at := given (pp_last_run_at p) (jr_last_run_at row),
         jr_last_status := given (pp_last_status p) (jr_last_status row),
         jr_last_error := given (pp_last_error p) (jr_last_error row),
         jr_run_count := given (pp_run_count p) (jr_run_count row),
         jr_retry_count := given (pp_retry_count p) (jr_retry_count row),
         jr_updated_at := now\<rparr>"

text \<open>The parameters with no field given change nothing, and do not ask whether the job exists.\<close>

definition update_job_row :: "string \<Rightarrow> update_cron_job_params \<Rightarrow> unit stmt" where
  "update_job_row i p s =
     (if p = keep_all then (Inr (), s)
      else guarded (\<lambda>s.
        let change = (\<lambda>row. if jr_id row = i then apply_update (cs_clock s) p row else row)
        in if i \<notin> set (map jr_id (cs_jobs s)) then
             (Inl (DbNotFound (''cron job '' @ quoted i)), s)
           else if \<not> list_all (\<lambda>row. jr_id row = i \<longrightarrow> row_checks (change row)) (cs_jobs s) then
             (Inl (DbQuery ''CHECK constraint failed''), s)
           else (Inr (), s\<lparr>cs_jobs := map change (cs_jobs s)\<rparr>)) s)"

definition delete_job_row :: "string \<Rightarrow> unit stmt" where
  "delete_job_row i = guarded (\<lambda>s.
     if i \<notin> set (map jr_id (cs_jobs s)) then (Inl (DbNotFound (''cron job '' @ quoted i)), s)
     else (Inr (), s\<lparr>cs_jobs := filter (\<lambda>row. jr_id row \<noteq> i) (cs_jobs s)\<rparr>))"

definition get_job_row :: "string \<Rightarrow> cron_job_row option stmt" where
  "get_job_row i = guarded (\<lambda>s. (Inr (find (\<lambda>row. jr_id row = i) (cs_jobs s)), s))"

definition list_all_rows :: "cron_job_row list stmt" where
  "list_all_rows = guarded (\<lambda>s. (Inr (sort_key jr_created_at (cs_jobs s)), s))"

definition list_enabled_rows :: "cron_job_row list stmt" where
  "list_enabled_rows = guarded (\<lambda>s. (Inr (sort_key jr_created_at (filter jr_enabled (cs_jobs s))), s))"

definition list_rows_by_conversation :: "string \<Rightarrow> cron_job_row list stmt" where
  "list_rows_by_conversation c = guarded (\<lambda>s.
     (Inr (sort_key jr_created_at (filter (\<lambda>row. jr_conversation_id row = c) (cs_jobs s))), s))"

definition delete_rows_by_conversation :: "string \<Rightarrow> nat stmt" where
  "delete_rows_by_conversation c = guarded (\<lambda>s.
     (Inr (length (filter (\<lambda>row. jr_conversation_id row = c) (cs_jobs s))),
      s\<lparr>cs_jobs := filter (\<lambda>row. jr_conversation_id row \<noteq> c) (cs_jobs s)\<rparr>))"

section \<open>Conversations, messages and artifacts\<close>

definition get_conversation :: "string \<Rightarrow> conversation_row option stmt" where
  "get_conversation c = guarded (\<lambda>s. (Inr (find (\<lambda>row. vr_id row = c) (cs_convs s)), s))"

text \<open>\<open>ConversationRowUpdate\<close> with the columns \<open>extra\<close> and \<open>updated_at\<close>.\<close>

definition update_conversation :: "string \<Rightarrow> string \<Rightarrow> unit stmt" where
  "update_conversation c extra = guarded (\<lambda>s.
     if c \<notin> set (map vr_id (cs_convs s)) then
       (Inl (DbNotFound (''Conversation '' @ quoted c @ '' not found'')), s)
     else (Inr (), s\<lparr>cs_convs := map (\<lambda>row. if vr_id row = c
        then row\<lparr>vr_extra := extra, vr_updated_at := cs_clock s\<rparr> else row) (cs_convs s)\<rparr>))"

definition insert_message :: "tips_message \<Rightarrow> unit stmt" where
  "insert_message m = guarded (\<lambda>s.
     if tp_id m \<in> set (map tp_id (cs_messages s)) then
       (Inl (DbQuery ''UNIQUE constraint failed: messages.id''), s)
     else if tp_conversation_id m \<notin> set (map vr_id (cs_convs s)) then
       (Inl (DbQuery ''FOREIGN KEY constraint failed''), s)
     else (Inr (), s\<lparr>cs_messages := cs_messages s @ [m]\<rparr>))"

definition upsert_artifact :: "artifact_row \<Rightarrow> artifact_row stmt" where
  "upsert_artifact a = guarded (\<lambda>s.
     if ar_conversation_id a \<notin> set (map vr_id (cs_convs s)) then
       (Inl (DbQuery ''FOREIGN KEY constraint failed''), s)
     else case find (\<lambda>b. ar_id b = ar_id a) (cs_artifacts s) of
       None \<Rightarrow> (Inr a, s\<lparr>cs_artifacts := cs_artifacts s @ [a]\<rparr>)
     | Some b \<Rightarrow>
         let a' = a\<lparr>ar_created_at := ar_created_at b\<rparr>
         in (Inr a', s\<lparr>cs_artifacts := map (\<lambda>b. if ar_id b = ar_id a then a' else b) (cs_artifacts s)\<rparr>))"

definition is_suggestion_of :: "string \<Rightarrow> artifact_row \<Rightarrow> bool" where
  "is_suggestion_of job_id a \<longleftrightarrow> ar_kind a = ''skill_suggest'' \<and> ar_cron_job_id a = Some job_id"

definition mark_suggestions_saved :: "string \<Rightarrow> artifact_row list stmt" where
  "mark_suggestions_saved job_id = guarded (\<lambda>s.
     let artifacts = map (\<lambda>a. if is_suggestion_of job_id a \<and> ar_status a \<noteq> ''saved''
                              then a\<lparr>ar_status := ''saved'', ar_updated_at := cs_clock s\<rparr> else a)
                       (cs_artifacts s)
     in (Inr (sort_key (\<lambda>a. ar_created_at a) (sort_key ar_id (filter (is_suggestion_of job_id) artifacts))),
         s\<lparr>cs_artifacts := artifacts\<rparr>))"

definition build_cron_trigger_artifact ::
    "cron_codec \<Rightarrow> string \<Rightarrow> string \<Rightarrow> cron_job \<Rightarrow> timestamp_ms \<Rightarrow> artifact_row" where
  "build_cron_trigger_artifact C generated conversation_id job created_at =
     \<lparr>ar_id = conversation_id @ '':cron_trigger:'' @ generated, ar_conversation_id = conversation_id,
      ar_cron_job_id = Some (cj_id job), ar_kind = ''cron_trigger'', ar_status = ''active'',
      ar_payload = cc_json_to_string C
        (JObject [(''cron_job_id'', JString (cj_id job)), (''cron_job_name'', JString (cj_name job)),
                  (''triggered_at'', JNumber (show_i64 created_at))]),
      ar_created_at = created_at, ar_updated_at = created_at\<rparr>"

definition build_skill_suggest_artifact ::
    "cron_codec \<Rightarrow> string \<Rightarrow> string \<Rightarrow> string \<Rightarrow> string \<Rightarrow> string \<Rightarrow> timestamp_ms \<Rightarrow> artifact_row" where
  "build_skill_suggest_artifact C conversation_id job_id name description skill_content now =
     \<lparr>ar_id = conversation_id @ '':skill_suggest:'' @ job_id, ar_conversation_id = conversation_id,
      ar_cron_job_id = Some job_id, ar_kind = ''skill_suggest'', ar_status = ''pending'',
      ar_payload = cc_json_to_string C
        (JObject [(''cron_job_id'', JString job_id), (''name'', JString name),
                  (''description'', JString description), (''skillContent'', JString skill_content)]),
      ar_created_at = now, ar_updated_at = now\<rparr>"

text \<open>\<open>artifact_response_from_row\<close>: the kinds and states of \<open>ConversationArtifactResponse\<close>.\<close>

definition artifact_response_from_row :: "cron_codec \<Rightarrow> artifact_row \<Rightarrow> cron_error + json" where
  "artifact_response_from_row C a =
     (if ar_kind a \<notin> {''cron_trigger'', ''skill_suggest''} then
        Inl (SchedulerError (''invalid artifact enum value '' @ quoted (ar_kind a) @ '': '' @
              cc_error_text C (ar_kind a)))
      else if ar_status a \<notin> {''active'', ''pending'', ''dismissed'', ''saved''} then
        Inl (SchedulerError (''invalid artifact enum value '' @ quoted (ar_status a) @ '': '' @
              cc_error_text C (ar_status a)))
      else case cc_json_from_str C (ar_payload a) of
        None \<Rightarrow> Inl (SchedulerError (''invalid artifact payload JSON: '' @ cc_error_text C (ar_payload a)))
      | Some payload \<Rightarrow> Inr payload)"

definition emit :: "cron_event \<Rightarrow> cron_state \<Rightarrow> cron_state" where
  "emit e s = s\<lparr>cs_events := cs_events s @ [e]\<rparr>"

definition broadcast_artifact :: "cron_codec \<Rightarrow> artifact_row \<Rightarrow> cron_state \<Rightarrow> (cron_error + unit) \<times> cron_state" where
  "broadcast_artifact C a s =
     (case artifact_response_from_row C a of
        Inl e \<Rightarrow> (Inl e, s)
      | Inr payload \<Rightarrow> (Inr (), emit (ArtifactBroadcast a payload) s))"

section \<open>Skill files\<close>

text \<open>
  A directory holds one file, so a file is its directory. \<open>io\<close> is the error of the disk, if it fails.
\<close>

definition write_raw_skill_file ::
    "(char \<Rightarrow> bool) \<Rightarrow> string option \<Rightarrow> string \<Rightarrow> string \<Rightarrow> string \<Rightarrow> cron_state
      \<Rightarrow> (cron_error + unit) \<times> cron_state" where
  "write_raw_skill_file ws io data_dir job_id raw_content s =
     (case validate_skill_content ws raw_content of
        Inl e \<Rightarrow> (Inl e, s)
      | Inr _ \<Rightarrow>
          (case cron_skill_dir data_dir job_id of
             Inl e \<Rightarrow> (Inl e, s)
           | Inr dir \<Rightarrow>
               (case io of
                  Some e \<Rightarrow> (Inl (InvalidSkillContent e), s)
                | None \<Rightarrow> (Inr (), s\<lparr>cs_files := hm_insert dir raw_content (cs_files s)\<rparr>))))"

definition write_skill_file ::
    "(char \<Rightarrow> bool) \<Rightarrow> string option \<Rightarrow> string \<Rightarrow> string \<Rightarrow> string \<Rightarrow> string \<Rightarrow> string \<Rightarrow> string option
      \<Rightarrow> cron_state \<Rightarrow> (cron_error + unit) \<times> cron_state" where
  "write_skill_file ws io data_dir job_id name description prompt schedule_description =
     write_raw_skill_file ws io data_dir job_id
       (build_skill_content ws name description prompt schedule_description)"

definition read_skill_content ::
    "string option \<Rightarrow> string \<Rightarrow> string \<Rightarrow> cron_state \<Rightarrow> cron_error + string option" where
  "read_skill_content io data_dir job_id s =
     and_then (cron_skill_dir data_dir job_id) (\<lambda>dir.
       case io of Some e \<Rightarrow> Inl (InvalidSkillContent e) | None \<Rightarrow> Inr (hm_get (cs_files s) dir))"

definition has_skill_file ::
    "string option \<Rightarrow> string \<Rightarrow> string \<Rightarrow> cron_state \<Rightarrow> cron_error + bool" where
  "has_skill_file io data_dir job_id s =
     and_then (cron_skill_dir data_dir job_id) (\<lambda>dir.
       case io of Some e \<Rightarrow> Inl (InvalidSkillContent e) | None \<Rightarrow> Inr (hm_has (cs_files s) dir))"

definition delete_skill_file ::
    "string option \<Rightarrow> string \<Rightarrow> string \<Rightarrow> cron_state \<Rightarrow> (cron_error + unit) \<times> cron_state" where
  "delete_skill_file io data_dir job_id s =
     (case cron_skill_dir data_dir job_id of
        Inl e \<Rightarrow> (Inl e, s)
      | Inr dir \<Rightarrow>
          (case io of
             Some e \<Rightarrow> (Inl (InvalidSkillContent e), s)
           | None \<Rightarrow> (Inr (), s\<lparr>cs_files := hm_remove dir (cs_files s)\<rparr>)))"

end
