(* ===== verification/CronPrompt.thy ===== *)
theory CronPrompt
  imports CronStore
begin

text \<open>
  The prompts of executions (\<open>veryagent-cron/src/prompt.rs\<close>), line by line. The dash of the texts is in
  its three bytes, as everywhere.
\<close>

definition unlined :: "string list \<Rightarrow> string" where
  "unlined ls = concat (map (\<lambda>l. l @ [newline]) (butlast ls)) @ (if ls = [] then [] else last ls)"

definition SKILL_SUGGEST_FILENAME :: string where
  "SKILL_SUGGEST_FILENAME = ''SKILL_SUGGEST.md''"

definition build_new_conversation_prompt :: "string \<Rightarrow> string \<Rightarrow> string \<Rightarrow> string" where
  "build_new_conversation_prompt task_name schedule_desc user_prompt = unlined
     [''[Scheduled Task Context]'',
      ''Task: '' @ task_name,
      ''Schedule: '' @ schedule_desc,
      [],
      ''Rules:'',
      ''1. Execute the task directly '' @ em_dash @ '' do NOT ask clarifying questions.'',
      ''2. Focus on producing useful, actionable output.'',
      ''3. If the task requires external data (news, weather, etc.), search for the '' @
        ''latest information.'',
      ''[/Scheduled Task Context]'',
      [],
      user_prompt]"

definition build_new_conversation_prompt_with_skill_suggest :: "string \<Rightarrow> string \<Rightarrow> string \<Rightarrow> string" where
  "build_new_conversation_prompt_with_skill_suggest task_name schedule_desc user_prompt = unlined
     [''[Scheduled Task Context]'',
      ''Task: '' @ task_name,
      ''Schedule: '' @ schedule_desc,
      [],
      ''Rules:'',
      ''1. Execute the task directly '' @ em_dash @ '' do NOT ask clarifying questions.'',
      ''2. Focus on producing useful, actionable output.'',
      ''3. If the task requires external data (news, weather, etc.), search for the '' @
        ''latest information.'',
      ''4. After completing the task above, create a file named '' @ [CHR 0x22] @
        SKILL_SUGGEST_FILENAME @ [CHR 0x22] @
        '' in the current working directory (see instructions at the end).'',
      ''[/Scheduled Task Context]'',
      [],
      user_prompt,
      [],
      ''---'',
      [],
      ''[Post-Task] After you have fully completed the task above, create a file named '' @
        [CHR 0x22] @ SKILL_SUGGEST_FILENAME @ [CHR 0x22] @
        '' in the current working directory to help future runs stay consistent. The file '' @
        ''should follow this format:'',
      [],
      ''```markdown'',
      ''---'',
      ''name: <short kebab-case name, e.g. daily-greeting>'',
      ''description: <one-line description of what this task does>'',
      ''---'',
      [],
      ''<Instructions capturing the pattern you used: output format, tone, sources '' @
        ''checked, steps taken, quality criteria. Use concrete details from this '' @
        ''execution, not placeholders.>'',
      ''```'',
      [],
      ''If you think the task is too simple or one-off to benefit from a skill file, '' @
        ''you can skip this step.'']"

definition build_new_conversation_with_skill_prompt :: "string \<Rightarrow> string \<Rightarrow> string" where
  "build_new_conversation_with_skill_prompt task_name user_prompt = unlined
     [''[Scheduled Task Context]'',
      ''Task: '' @ task_name,
      [],
      ''This is a scheduled task execution. A skill file with detailed instructions has '' @
        ''been loaded'',
      ''into your workspace. You MUST read and follow the skill instructions precisely.'',
      [],
      ''Rules:'',
      ''1. Execute the task directly '' @ em_dash @ '' do NOT ask clarifying questions.'',
      ''2. Follow the output format, tone, sources, and steps defined in the skill.'',
      ''3. If the task requires external data (news, weather, etc.), search for the '' @
        ''latest information.'',
      ''[/Scheduled Task Context]'',
      [],
      user_prompt]"

definition build_existing_conversation_prompt :: "string \<Rightarrow> string \<Rightarrow> string \<Rightarrow> string" where
  "build_existing_conversation_prompt task_name schedule_desc user_prompt = unlined
     [''[Scheduled Task Execution]'',
      ''Task: '' @ task_name,
      ''Schedule: '' @ schedule_desc,
      [],
      ''This message is NOT a conversation from the user '' @ em_dash @
        '' it is a scheduled task triggered automatically.'',
      ''The text below is a TASK INSTRUCTION that you must execute, not something the '' @
        ''user is saying to you.'',
      [],
      ''Rules:'',
      ''1. Treat the instruction as a command to perform, not as a chat message to '' @
        ''respond to.'',
      ''2. Execute it directly '' @ em_dash @ '' do NOT ask clarifying questions.'',
      ''3. If the task requires external data (news, weather, etc.), search for the '' @
        ''latest information.'',
      [],
      ''Task instruction:'',
      user_prompt]"

definition build_skill_suggest_prompt :: "string \<Rightarrow> string" where
  "build_skill_suggest_prompt task_name = unlined
     [''The task '' @ [CHR 0x22] @ task_name @ [CHR 0x22] @
        '' is a recurring scheduled task. Based on what you just did, please create a '' @
        ''file named '' @ [CHR 0x22] @ SKILL_SUGGEST_FILENAME @ [CHR 0x22] @
        '' in the current working directory to help future runs stay consistent.'',
      [],
      ''The file should follow this format:'',
      [],
      ''```markdown'',
      ''---'',
      ''name: <short kebab-case name, e.g. daily-greeting>'',
      ''description: <one-line description of what this task does>'',
      ''---'',
      [],
      ''<Instructions capturing the pattern you used: output format, tone, sources '' @
        ''checked, steps taken, quality criteria. Use concrete details from this '' @
        ''execution, not placeholders.>'',
      ''```'',
      [],
      ''If you think the task is too simple or one-off to benefit from a skill file, '' @
        ''you can skip this.'']"

end
