(* ===== verification/CronExec.thy ===== *)
theory CronExec
  imports CronPrompt
begin

text \<open>
  The execution of a job (\<open>veryagent-cron/src/executor.rs\<close>) as a coroutine: every access to the state is
  a section. What the executor calls outside of the crate is the environment (\<open>cron_env\<close>): the
  conversation service, the agents, the registry and the disk. Its answers may differ from call to call, because every call has an environment of
  its own.
\<close>

section \<open>Agent types and JSON\<close>

text \<open>\<open>AgentType\<close> of \<open>veryagent-common/src/enums.rs\<close>.\<close>

datatype agent_type = Acp | OpenclawGateway | Nanobot | Remote | Aionrs | Gemini | Codex

fun agent_type_serde_name :: "agent_type \<Rightarrow> string" where
  "agent_type_serde_name Acp = ''acp''"
| "agent_type_serde_name OpenclawGateway = ''openclaw-gateway''"
| "agent_type_serde_name Nanobot = ''nanobot''"
| "agent_type_serde_name Remote = ''remote''"
| "agent_type_serde_name Aionrs = ''aionrs''"
| "agent_type_serde_name Gemini = ''gemini''"
| "agent_type_serde_name Codex = ''codex''"

definition agent_types :: "agent_type list" where
  "agent_types = [Acp, OpenclawGateway, Nanobot, Remote, Aionrs, Gemini, Codex]"

definition agent_type_from_str :: "string \<Rightarrow> agent_type option" where
  "agent_type_from_str s = find (\<lambda>t. agent_type_serde_name t = s) agent_types"

definition is_deprecated_runtime :: "agent_type \<Rightarrow> bool" where
  "is_deprecated_runtime t \<longleftrightarrow> t \<notin> {Acp, Aionrs}"

definition full_auto_mode_id :: "agent_type \<Rightarrow> string \<Rightarrow> string" where
  "full_auto_mode_id t backend =
     (if t = Acp then
        (if backend = ''claude'' \<or> backend = ''codebuddy'' then ''bypassPermissions''
         else if backend = ''codex'' then ''full-access''
         else if backend = ''hermes'' then ''default''
         else if backend = ''opencode'' then ''build''
         else if backend = ''cursor'' then ''agent''
         else ''yolo'')
      else ''yolo'')"

interpretation agent_type_form: text_form agent_type_serde_name agent_type_from_str
  by unfold_locales (case_tac x, simp_all add: agent_type_from_str_def agent_types_def)

fun json_get :: "json \<Rightarrow> string \<Rightarrow> json option" where
  "json_get (JObject entries) key = hm_get entries key"
| "json_get _ key = None"

fun json_as_str :: "json \<Rightarrow> string option" where
  "json_as_str (JString s) = Some s"
| "json_as_str _ = None"

definition json_str :: "json \<Rightarrow> string \<Rightarrow> string option" where
  "json_str v key = Option.bind (json_get v key) json_as_str"

definition extra_or :: "json \<Rightarrow> cron_codec \<Rightarrow> string \<Rightarrow> json" where
  "extra_or dflt C extra = (case cc_json_from_str C extra of None \<Rightarrow> dflt | Some v \<Rightarrow> v)"

text \<open>The fields of an object, or of a fresh one in place of another value.\<close>

fun json_fields :: "json \<Rightarrow> (string, json) hmap" where
  "json_fields (JObject entries) = entries"
| "json_fields _ = []"

section \<open>The environment\<close>

datatype path_state = PathDirectory | PathFile | PathMissing | PathInaccessible string

datatype workspace_error =
    WsEmpty | WsDoesNotExist string | WsNotDirectory string | WsNotAccessible string string

record agent_metadata_row =
  am_id :: string
  am_name :: string
  am_backend :: "string option"
  am_agent_type :: string
  am_agent_source :: string
  am_sort_order :: int

record assistant_definition_row =
  ad_id :: string
  ad_assistant_id :: string
  ad_source :: string
  ad_name :: string
  ad_agent_id :: string
  ad_deleted :: bool

record create_conversation_request =
  rq_type :: "agent_type option"
  rq_name :: string
  rq_model :: "provider_with_model option"
  rq_assistant :: "string option"
  rq_extra :: json

record send_message_request =
  sm_content :: string
  sm_inject_skills :: "string list"
  sm_hidden :: bool

record saved_skill =
  sv_name :: string
  sv_raw_content :: string

record cron_env =
  en_crate :: cron_crate
  en_codec :: cron_codec
  en_lowercase :: "string \<Rightarrow> string"
  en_data_dir :: string
  en_work_dir :: string
  en_io :: "string option"
  en_generate_id :: "nat \<Rightarrow> string"
  en_path :: "string \<Rightarrow> path_state"
  en_mkdir :: "string \<Rightarrow> string option"
  en_definitions :: "assistant_definition_row list"
  en_overlays :: "(string, string option) hmap"
  en_agents :: "agent_metadata_row list"
  en_catalog_error :: "db_error option"
  en_builtin :: "string \<Rightarrow> (string \<times> string option) option"
  en_create :: "string \<Rightarrow> create_conversation_request \<Rightarrow> conv_error + conversation_row"
  en_task_options :: "conversation_row \<Rightarrow> string option \<Rightarrow> conv_error option"
  en_build_task :: "string \<Rightarrow> string + string"
  en_get_mode :: "string \<Rightarrow> string + string"
  en_set_mode :: "string \<Rightarrow> string \<Rightarrow> string option"
  en_send :: "string \<Rightarrow> string \<Rightarrow> send_message_request \<Rightarrow> conv_error option"

abbreviation en_ws :: "cron_env \<Rightarrow> char \<Rightarrow> bool" where
  "en_ws E \<equiv> xc_whitespace (en_crate E)"

abbreviation trimmed :: "cron_env \<Rightarrow> string \<Rightarrow> string" where
  "trimmed E s \<equiv> str_trim (en_ws E) s"

type_synonym 'r cron_async = "(cron_state, 'r) coroutine"
type_synonym 'r cron_fallible = "(cron_state, cron_error + 'r) coroutine"

text \<open>A statement with its error as an error of the crate, and a section that only reads.\<close>

definition repo :: "'r stmt \<Rightarrow> 'r cron_fallible" where
  "repo f = atomic (\<lambda>s. case f s of (r, s') \<Rightarrow> (map_err CronDatabase r, s'))"

definition peek :: "(cron_state \<Rightarrow> 'r) \<Rightarrow> 'r cron_async" where
  "peek f = atomic (\<lambda>s. (f s, s))"

definition tell :: "cron_event \<Rightarrow> unit cron_async" where
  "tell e = atomic (\<lambda>s. ((), emit e s))"

definition next_id :: "cron_env \<Rightarrow> string cron_async" where
  "next_id E = atomic (\<lambda>s. (en_generate_id E (cs_drawn s), s\<lparr>cs_drawn := cs_drawn s + 1\<rparr>))"

section \<open>Results\<close>

datatype execution_result =
    ExSuccess string | ExRetrying int | ExSkipped | ExError string

definition RETRY_INTERVAL_MS :: int where
  "RETRY_INTERVAL_MS = 30000"

definition handle_busy :: "cron_job \<Rightarrow> execution_result" where
  "handle_busy job =
     (if cj_max_retries job \<le> cj_retry_count job then ExSkipped
      else ExRetrying (cj_retry_count job + 1))"

text \<open>\<open>Err(e) => return ExecutionResult::Error\<close>\<close>

definition or_fail :: "'a cron_fallible \<Rightarrow> ('a \<Rightarrow> execution_result cron_async) \<Rightarrow> execution_result cron_async" where
  "or_fail c f = co_bind c (\<lambda>r. case r of
     Inl e \<Rightarrow> Done (ExError (cron_error_display e)) | Inr x \<Rightarrow> f x)"

section \<open>Workspaces\<close>

definition validate_workspace_path_availability ::
    "cron_env \<Rightarrow> string \<Rightarrow> workspace_error + string" where
  "validate_workspace_path_availability E workspace =
     (if trimmed E workspace = [] then Inl WsEmpty
      else case en_path E workspace of
        PathDirectory \<Rightarrow> Inr workspace
      | PathFile \<Rightarrow> Inl (WsNotDirectory workspace)
      | PathMissing \<Rightarrow> Inl (WsDoesNotExist workspace)
      | PathInaccessible reason \<Rightarrow> Inl (WsNotAccessible workspace reason))"

definition workspace_verdict :: "(string \<Rightarrow> cron_error) \<Rightarrow> workspace_error + string \<Rightarrow> cron_error + unit" where
  "workspace_verdict fail r =
     (case r of
        Inr _ \<Rightarrow> Inr ()
      | Inl WsEmpty \<Rightarrow> Inr ()
      | Inl (WsDoesNotExist path) \<Rightarrow> Inl (fail path)
      | Inl (WsNotDirectory path) \<Rightarrow> Inl (fail path)
      | Inl (WsNotAccessible path _) \<Rightarrow> Inl (fail path))"

definition config_workspace :: "cron_job \<Rightarrow> string option" where
  "config_workspace job = Option.bind (cj_agent_config job) ac_workspace"

definition resolve_execution_workspace_raw :: "cron_env \<Rightarrow> cron_job \<Rightarrow> string \<Rightarrow> string cron_fallible" where
  "resolve_execution_workspace_raw E job conversation_id =
     (case config_workspace job of
        Some workspace \<Rightarrow> Done (Inr workspace)
      | None \<Rightarrow>
          co_try (repo (get_conversation conversation_id)) (\<lambda>row.
            case row of
              None \<Rightarrow> Done (Inr [])
            | Some row \<Rightarrow>
                Done (Inr (given (json_str (extra_or JNull (en_codec E) (vr_extra row)) ''workspace'') []))))"

definition resolve_execution_workspace :: "cron_env \<Rightarrow> cron_job \<Rightarrow> string \<Rightarrow> string cron_fallible" where
  "resolve_execution_workspace E job conversation_id =
     co_try (resolve_execution_workspace_raw E job conversation_id) (\<lambda>w. Done (Inr (trimmed E w)))"

definition resolve_job_workspace_raw :: "cron_env \<Rightarrow> cron_job \<Rightarrow> string cron_fallible" where
  "resolve_job_workspace_raw E job = resolve_execution_workspace_raw E job (cj_conversation_id job)"

definition validate_runtime_job_workspace :: "cron_env \<Rightarrow> cron_job \<Rightarrow> unit cron_fallible" where
  "validate_runtime_job_workspace E job =
     co_try (resolve_job_workspace_raw E job) (\<lambda>workspace.
       Done (workspace_verdict WorkspacePathRuntimeUnavailable
               (validate_workspace_path_availability E workspace)))"

section \<open>Conversations\<close>

definition conversation_exists :: "string \<Rightarrow> bool cron_fallible" where
  "conversation_exists conversation_id =
     co_try (repo (get_conversation conversation_id)) (\<lambda>row. Done (Inr (row \<noteq> None)))"

definition is_conversation_claimed :: "string \<Rightarrow> bool cron_async" where
  "is_conversation_claimed conversation_id = peek (\<lambda>s. conversation_id \<in> set (cs_claims s))"

definition insert_tips_message :: "cron_env \<Rightarrow> string \<Rightarrow> string \<Rightarrow> string \<Rightarrow> unit cron_fallible" where
  "insert_tips_message E conversation_id content tip_type =
     co_bind (next_id E) (\<lambda>msg_id.
     co_bind (peek cs_clock) (\<lambda>now.
       repo (insert_message \<lparr>tp_id = msg_id, tp_conversation_id = conversation_id, tp_content = content,
         tp_type = tip_type, tp_created_at = now\<rparr>)))"

text \<open>Both spellings of the key are written, and neither when the first that is there has the value.\<close>

definition bind_cron_job_to_conversation :: "cron_env \<Rightarrow> string \<Rightarrow> string \<Rightarrow> unit cron_fallible" where
  "bind_cron_job_to_conversation E conversation_id cron_job_id =
     co_try (repo (get_conversation conversation_id)) (\<lambda>row. case row of
       None \<Rightarrow> Done (Inr ())
     | Some row \<Rightarrow>
         let extra = extra_or (JObject []) (en_codec E) (vr_extra row);
             current = opt_else (json_str extra ''cron_job_id'') (json_str extra ''cronJobId'');
             bound = JObject (hm_insert ''cronJobId'' (JString cron_job_id)
               (hm_insert ''cron_job_id'' (JString cron_job_id) (json_fields extra)))
         in if current = Some cron_job_id then Done (Inr ())
            else repo (update_conversation conversation_id (cc_json_to_string (en_codec E) bound)))"

definition persist_workspace_if_missing :: "cron_env \<Rightarrow> string \<Rightarrow> string \<Rightarrow> unit cron_fallible" where
  "persist_workspace_if_missing E conversation_id resolved_workspace =
     (let resolved_workspace = trimmed E resolved_workspace
      in if resolved_workspace = [] then Done (Inr ())
         else co_try (repo (get_conversation conversation_id)) (\<lambda>row. case row of
           None \<Rightarrow> Done (Inr ())
         | Some row \<Rightarrow>
             let extra = extra_or (JObject []) (en_codec E) (vr_extra row);
                 current = trimmed E (given (json_str extra ''workspace'') []);
                 updated = JObject (hm_insert ''workspace'' (JString resolved_workspace) (json_fields extra))
             in if current \<noteq> [] then Done (Inr ())
                else repo (update_conversation conversation_id (cc_json_to_string (en_codec E) updated))))"

definition resolve_conversation_owner_user_id :: "cron_env \<Rightarrow> cron_job \<Rightarrow> string cron_fallible" where
  "resolve_conversation_owner_user_id E job =
     (if trimmed E (cj_conversation_id job) = [] then Done (Inr ''system_default_user'')
      else co_try (repo (get_conversation (cj_conversation_id job))) (\<lambda>row. case row of
        Some row \<Rightarrow> Done (Inr (if trimmed E (vr_user_id row) = [] then ''system_default_user'' else vr_user_id row))
      | None \<Rightarrow> Done (Inr ''system_default_user'')))"

definition resolve_target_conversation_user_id :: "cron_env \<Rightarrow> string \<Rightarrow> string cron_fallible" where
  "resolve_target_conversation_user_id E conversation_id =
     co_try (repo (get_conversation conversation_id)) (\<lambda>row. case row of
       None \<Rightarrow> Done (Inl (SchedulerError (''conversation '' @ conversation_id @ '' not found'')))
     | Some row \<Rightarrow>
         Done (Inr (if trimmed E (vr_user_id row) = [] then ''system_default_user'' else vr_user_id row)))"

definition verify_conversation_exists :: "string \<Rightarrow> unit cron_fallible" where
  "verify_conversation_exists conversation_id =
     co_try (conversation_exists conversation_id) (\<lambda>there.
       if there then Done (Inr ())
       else Done (Inl (SchedulerError (''conversation '' @ conversation_id @ '' not found''))))"

definition parse_agent_type :: "string \<Rightarrow> cron_error + agent_type" where
  "parse_agent_type s =
     (case agent_type_from_str s of
        Some t \<Rightarrow>
          if is_deprecated_runtime t
          then Inl (InvalidAgentConfig ''This agent type is no longer supported for new conversations.'')
          else Inr t
      | None \<Rightarrow> Inr Acp)"

definition resolve_model :: "cron_job \<Rightarrow> provider_with_model option" where
  "resolve_model job =
     (if cj_agent_type job \<noteq> ''aionrs'' then None else Option.bind (cj_agent_config job) ac_model)"

definition non_blank :: "cron_env \<Rightarrow> string option \<Rightarrow> string option" where
  "non_blank E v = (case v of Some s \<Rightarrow> if trimmed E s = [] then None else Some s | None \<Rightarrow> None)"

definition build_assistant_request :: "cron_env \<Rightarrow> cron_job \<Rightarrow> string option" where
  "build_assistant_request E job =
     Option.bind (cj_agent_config job) (\<lambda>config.
       opt_else (non_blank E (ac_assistant_id config)) (non_blank E (ac_custom_agent_id config)))"

definition inject_agent_identity :: "cron_env \<Rightarrow> cron_job \<Rightarrow> (string, json) hmap \<Rightarrow> (string, json) hmap" where
  "inject_agent_identity E job extra =
     (let lookup_label = trimmed E (cj_agent_type job)
      in if lookup_label = [] then extra
         else case en_builtin E lookup_label of
           None \<Rightarrow> extra
         | Some (agent_id, backend) \<Rightarrow>
             let extra = hm_insert ''agent_id'' (JString agent_id) extra
             in case backend of None \<Rightarrow> extra | Some b \<Rightarrow> hm_insert ''backend'' (JString b) extra)"

definition insert_given :: "string \<Rightarrow> string option \<Rightarrow> (string, json) hmap \<Rightarrow> (string, json) hmap" where
  "insert_given key v extra = (case v of None \<Rightarrow> extra | Some s \<Rightarrow> hm_insert key (JString s) extra)"

definition build_conversation_extra :: "cron_env \<Rightarrow> cron_job \<Rightarrow> saved_skill option \<Rightarrow> json" where
  "build_conversation_extra E job skill =
     (let assistant_backed = (build_assistant_request E job \<noteq> None);
          extra = [(''cron_job_id'', JString (cj_id job)), (''cronJobId'', JString (cj_id job)),
                   (''exclude_auto_inject_skills'', JArray [JString ''cron''])];
          extra = (case skill of None \<Rightarrow> extra
            | Some k \<Rightarrow> hm_insert ''preset_enabled_skills'' (JArray [JString (sv_name k)]) extra);
          extra = (if assistant_backed then extra else inject_agent_identity E job extra)
      in JObject (case cj_agent_config job of
           None \<Rightarrow> extra
         | Some config \<Rightarrow>
             let extra = insert_given ''cli_path'' (ac_cli_path config) extra;
                 extra = (if \<not> assistant_backed \<and> ac_name config \<noteq> []
                          then hm_insert ''agent_name'' (JString (ac_name config)) extra else extra);
                 extra = insert_given ''session_mode'' (ac_mode config) extra
             in insert_given ''workspace'' (non_blank E (ac_workspace config)) extra))"

definition default_temp_workspace_path :: "string \<Rightarrow> agent_type \<Rightarrow> string \<Rightarrow> string" where
  "default_temp_workspace_path data_dir t conversation_id =
     path_join (path_join data_dir ''conversations'')
       (agent_type_serde_name t @ ''-temp-'' @ conversation_id)"

definition create_conversation ::
    "cron_env \<Rightarrow> string \<Rightarrow> create_conversation_request \<Rightarrow> conversation_row cron_fallible" where
  "create_conversation E user_id request = atomic (\<lambda>s.
     case en_create E user_id request of
       Inl e \<Rightarrow> (Inl (from_conversation_create e), s)
     | Inr row \<Rightarrow> (Inr row, s\<lparr>cs_convs := cs_convs s @ [row]\<rparr>))"

definition create_new_conversation :: "cron_env \<Rightarrow> cron_job \<Rightarrow> saved_skill option \<Rightarrow> string cron_fallible" where
  "create_new_conversation E job skill =
     co_try (Done (parse_agent_type (cj_agent_type job))) (\<lambda>t.
     co_try (resolve_conversation_owner_user_id E job) (\<lambda>user_id.
     let assistant = build_assistant_request E job;
         request = \<lparr>rq_type = (if assistant \<noteq> None then None else Some t), rq_name = cj_name job,
           rq_model = resolve_model job, rq_assistant = assistant,
           rq_extra = build_conversation_extra E job skill\<rparr>
     in co_try (create_conversation E user_id request) (\<lambda>response.
       let workspace = trimmed E (given (json_str (extra_or JNull (en_codec E) (vr_extra response)) ''workspace'') [])
       in if workspace \<noteq> [] then Done (Inr (vr_id response))
          else
            let fallback = default_temp_workspace_path (en_work_dir E) t (vr_id response)
            in case en_mkdir E fallback of
                 Some e \<Rightarrow> Done (Inl (SchedulerError (''create fallback cron workspace '' @ fallback @ '': '' @ e)))
               | None \<Rightarrow> co_try (persist_workspace_if_missing E (vr_id response) fallback) (\<lambda>_.
                   Done (Inr (vr_id response))))))"

definition resolve_conversation :: "cron_env \<Rightarrow> cron_job \<Rightarrow> saved_skill option \<Rightarrow> string cron_fallible" where
  "resolve_conversation E job skill =
     (case cj_execution_mode job of
        ExistingConversation \<Rightarrow>
          if trimmed E (cj_conversation_id job) = [] then create_new_conversation E job skill
          else co_try (verify_conversation_exists (cj_conversation_id job)) (\<lambda>_.
                 Done (Inr (cj_conversation_id job)))
      | NewConversation \<Rightarrow> create_new_conversation E job skill)"

section \<open>Saved skills\<close>

definition schedule_description :: "cron_schedule \<Rightarrow> string option" where
  "schedule_description schedule =
     (case schedule of AtSchedule _ d \<Rightarrow> d | EverySchedule _ d \<Rightarrow> d | CronExpr _ _ d \<Rightarrow> d)"

text \<open>A text that is no skill file is wrapped into one; any other error is passed on.\<close>

definition persist_skill_file :: "cron_env \<Rightarrow> cron_job \<Rightarrow> string \<Rightarrow> unit cron_fallible" where
  "persist_skill_file E job raw_content =
     co_bind (atomic (write_raw_skill_file (en_ws E) (en_io E) (en_data_dir E) (cj_id job) raw_content)) (\<lambda>r.
       case r of
         Inr _ \<Rightarrow> Done (Inr ())
       | Inl (InvalidSkillContent _) \<Rightarrow>
           let description = given (cj_description job) (''Saved cron skill for '' @ cj_name job)
           in atomic (write_skill_file (en_ws E) (en_io E) (en_data_dir E) (cj_id job) (cj_name job) description
                (trimmed E raw_content) (schedule_description (cj_schedule job)))
       | Inl e \<Rightarrow> Done (Inl e))"

definition read_skill :: "cron_env \<Rightarrow> cron_job \<Rightarrow> string option cron_fallible" where
  "read_skill E job = peek (read_skill_content (en_io E) (en_data_dir E) (cj_id job))"

definition skill_context :: "cron_job \<Rightarrow> string \<Rightarrow> cron_error + saved_skill option" where
  "skill_context job raw_content =
     and_then (cron_skill_name (cj_id job)) (\<lambda>name.
       Inr (Some \<lparr>sv_name = name, sv_raw_content = raw_content\<rparr>))"

definition prepare_saved_skill :: "cron_env \<Rightarrow> cron_job \<Rightarrow> saved_skill option cron_fallible" where
  "prepare_saved_skill E job =
     co_try (read_skill E job) (\<lambda>raw.
       case non_blank E raw of
         Some raw_content \<Rightarrow> Done (skill_context job raw_content)
       | None \<Rightarrow>
           (case non_blank E (map_option (str_trim (en_ws E)) (cj_skill_content job)) of
              None \<Rightarrow> Done (Inr None)
            | Some legacy_content \<Rightarrow>
                co_try (persist_skill_file E job legacy_content) (\<lambda>_.
                co_try (read_skill E job) (\<lambda>raw. Done (skill_context job (given raw legacy_content))))))"

definition load_conversation_skill_names :: "cron_env \<Rightarrow> string \<Rightarrow> string list cron_fallible" where
  "load_conversation_skill_names E conversation_id =
     co_try (repo (get_conversation conversation_id)) (\<lambda>row. case row of
       None \<Rightarrow> Done (Inr [])
     | Some row \<Rightarrow>
         (case Option.bind (cc_json_from_str (en_codec E) (vr_extra row)) (\<lambda>v. json_get v ''skills'') of
            Some (JArray items) \<Rightarrow> Done (Inr (List.map_filter json_as_str items))
          | _ \<Rightarrow> Done (Inr [])))"

definition resolve_task_skill_names ::
    "cron_env \<Rightarrow> cron_job \<Rightarrow> string \<Rightarrow> saved_skill option \<Rightarrow> string list cron_fallible" where
  "resolve_task_skill_names E job conversation_id skill =
     (case cj_execution_mode job of
        ExistingConversation \<Rightarrow> load_conversation_skill_names E conversation_id
      | NewConversation \<Rightarrow> Done (Inr (case skill of None \<Rightarrow> [] | Some k \<Rightarrow> [sv_name k])))"

section \<open>One execution\<close>

definition schedule_description_text :: "cron_schedule \<Rightarrow> string" where
  "schedule_description_text schedule =
     (case schedule of
        AtSchedule at_ms d \<Rightarrow> given d (''At '' @ show_i64 at_ms)
      | EverySchedule every_ms d \<Rightarrow> given d (''Every '' @ show_i64 every_ms @ '' ms'')
      | CronExpr expr tz d \<Rightarrow>
          given d (case tz of Some z \<Rightarrow> expr @ '' ('' @ z @ '')'' | None \<Rightarrow> expr))"

definition build_prompt :: "cron_job \<Rightarrow> saved_skill option \<Rightarrow> string" where
  "build_prompt job skill =
     (let schedule_desc = schedule_description_text (cj_schedule job)
      in case cj_execution_mode job of
           ExistingConversation \<Rightarrow> build_existing_conversation_prompt (cj_name job) schedule_desc (cj_message job)
         | NewConversation \<Rightarrow>
             if skill \<noteq> None then build_new_conversation_with_skill_prompt (cj_name job) (cj_message job)
             else build_new_conversation_prompt_with_skill_suggest (cj_name job) schedule_desc (cj_message job))"

definition ensure_agent_session_mode :: "cron_env \<Rightarrow> cron_job \<Rightarrow> string \<Rightarrow> cron_error + unit" where
  "ensure_agent_session_mode E job conversation_id =
     (case non_blank E (map_option (str_trim (en_ws E)) (Option.bind (cj_agent_config job) ac_mode)) of
        None \<Rightarrow> Inr ()
      | Some desired_mode \<Rightarrow>
          and_then (map_err (\<lambda>e. SchedulerError (''get session mode: '' @ e)) (en_get_mode E conversation_id))
            (\<lambda>current_mode.
              if current_mode = desired_mode then Inr ()
              else case en_set_mode E conversation_id desired_mode of
                None \<Rightarrow> Inr ()
              | Some e \<Rightarrow> Inl (SchedulerError (''set session mode to '' @ desired_mode @ '': '' @ e))))"

definition upsert_cron_trigger_artifact :: "cron_env \<Rightarrow> string \<Rightarrow> cron_job \<Rightarrow> unit cron_fallible" where
  "upsert_cron_trigger_artifact E conversation_id job =
     co_bind (next_id E) (\<lambda>generated.
     co_bind (peek cs_clock) (\<lambda>created_at.
     co_try (repo (upsert_artifact
         (build_cron_trigger_artifact (en_codec E) generated conversation_id job created_at))) (\<lambda>row.
       atomic (broadcast_artifact (en_codec E) row))))"

definition mark_skill_suggest_artifacts_saved :: "cron_env \<Rightarrow> string \<Rightarrow> unit cron_fallible" where
  "mark_skill_suggest_artifacts_saved E job_id =
     co_try (repo (mark_suggestions_saved job_id)) (\<lambda>rows.
       foldr (\<lambda>row rest. co_try (atomic (broadcast_artifact (en_codec E) row)) (\<lambda>_. rest)) rows
         (Done (Inr ())))"

text \<open>
  \<open>spawn_skill_suggest_flow\<close> hands a check to a task of its own, which runs when the turn has ended:
  here it is put down in \<open>cs_checks\<close>.
\<close>

definition spawn_skill_suggest_flow :: "string \<Rightarrow> string \<Rightarrow> string \<Rightarrow> unit cron_async" where
  "spawn_skill_suggest_flow conversation_id job_id workspace =
     atomic (\<lambda>s. ((), s\<lparr>cs_checks := cs_checks s @ [(conversation_id, job_id, workspace)]\<rparr>))"

definition execute_inner_with_busy_retry ::
    "cron_env \<Rightarrow> cron_job \<Rightarrow> string \<Rightarrow> saved_skill option \<Rightarrow> bool \<Rightarrow> execution_result cron_async" where
  "execute_inner_with_busy_retry E job conversation_id skill retry_on_busy =
     or_fail (repo (get_conversation conversation_id)) (\<lambda>row. case row of
       None \<Rightarrow> Done (ExError (''conversation '' @ conversation_id @ '' not found''))
     | Some conversation_row \<Rightarrow>
     or_fail (resolve_execution_workspace E job conversation_id) (\<lambda>workspace.
     or_fail (resolve_task_skill_names E job conversation_id skill) (\<lambda>skill_names.
     let workspace_override = non_blank E (map_option (str_trim (en_ws E)) (config_workspace job)) in
     (case en_task_options E conversation_row workspace_override of
        Some e \<Rightarrow> Done (ExError (conv_error_display e))
      | None \<Rightarrow>
     (case en_build_task E conversation_id of
        Inl e \<Rightarrow> Done (ExError e)
      | Inr agent_workspace \<Rightarrow>
     or_fail (if trimmed E workspace = [] then persist_workspace_if_missing E conversation_id agent_workspace
              else Done (Inr ())) (\<lambda>_.
     or_fail (Done (ensure_agent_session_mode E job conversation_id)) (\<lambda>_.
     or_fail (resolve_target_conversation_user_id E conversation_id) (\<lambda>user_id.
     let request = \<lparr>sm_content = build_prompt job skill, sm_inject_skills = skill_names, sm_hidden = True\<rparr> in
     (case en_send E user_id conversation_id request of
        None \<Rightarrow>
          co_bind (upsert_cron_trigger_artifact E conversation_id job) (\<lambda>_.
          co_bind (if skill = None \<and> cj_execution_mode job = NewConversation
                   then spawn_skill_suggest_flow conversation_id (cj_id job) agent_workspace
                   else Done ()) (\<lambda>_.
            Done (ExSuccess conversation_id)))
      | Some (ConvBusy reason) \<Rightarrow>
          Done (if retry_on_busy then handle_busy job
                else ExError (conv_error_display (ConvBusy reason)))
      | Some e \<Rightarrow> Done (ExError (conv_error_display e)))))))))))"

definition execute_inner ::
    "cron_env \<Rightarrow> cron_job \<Rightarrow> string \<Rightarrow> saved_skill option \<Rightarrow> execution_result cron_async" where
  "execute_inner E job conversation_id skill =
     execute_inner_with_busy_retry E job conversation_id skill True"

definition execute :: "cron_env \<Rightarrow> cron_job \<Rightarrow> execution_result cron_async" where
  "execute E job =
     or_fail (prepare_saved_skill E job) (\<lambda>skill.
     or_fail (validate_runtime_job_workspace E job) (\<lambda>_.
     or_fail (resolve_conversation E job skill) (\<lambda>target.
     co_bind (is_conversation_claimed target) (\<lambda>claimed.
       if claimed then Done (handle_busy job) else execute_inner E job target skill))))"

record prepared_execution =
  px_conversation_id :: string
  px_saved_skill :: "saved_skill option"

definition prepare_run_now :: "cron_env \<Rightarrow> cron_job \<Rightarrow> prepared_execution cron_fallible" where
  "prepare_run_now E job =
     co_try (prepare_saved_skill E job) (\<lambda>skill.
     co_try (validate_runtime_job_workspace E job) (\<lambda>_.
     co_try (resolve_conversation E job skill) (\<lambda>conversation_id.
     co_bind (is_conversation_claimed conversation_id) (\<lambda>claimed.
       if claimed then
         Done (Inl (ConversationFailed
           (ConvBusy (''conversation '' @ conversation_id @ '' is already running''))))
       else Done (Inr \<lparr>px_conversation_id = conversation_id, px_saved_skill = skill\<rparr>)))))"

definition execute_prepared :: "cron_env \<Rightarrow> cron_job \<Rightarrow> prepared_execution \<Rightarrow> execution_result cron_async" where
  "execute_prepared E job prepared =
     execute_inner_with_busy_retry E job (px_conversation_id prepared) (px_saved_skill prepared) False"

section \<open>Suggestions\<close>

text \<open>
  The check of \<open>skill_suggest.rs\<close>: \<open>file\<close> is what reading \<open>SKILL_SUGGEST.md\<close> of the workspace gives, the
  outer option an error that is not the absence of the file; \<open>hash\<close> is \<open>DefaultHasher\<close>. A check that
  answers \<open>False\<close> is tried again, three times in all.
\<close>

definition content_hash :: "(string \<Rightarrow> string) \<Rightarrow> (char \<Rightarrow> bool) \<Rightarrow> string \<Rightarrow> string" where
  "content_hash hash ws content = hash (normalize_for_hash ws content)"

definition check_and_emit ::
    "cron_env \<Rightarrow> (string \<Rightarrow> string) \<Rightarrow> (string + string option) \<Rightarrow> string \<Rightarrow> string \<Rightarrow> string \<Rightarrow> bool cron_fallible" where
  "check_and_emit E hash file conversation_id job_id workspace =
     (if trimmed E workspace = [] then Done (Inr False)
      else co_try (peek (has_skill_file (en_io E) (en_data_dir E) job_id)) (\<lambda>has.
        if has then
          co_bind (atomic (\<lambda>s. ((), s\<lparr>cs_hashes := hm_remove job_id (cs_hashes s)\<rparr>))) (\<lambda>_. Done (Inr True))
        else case file of
          Inl e \<Rightarrow> Done (Inl (InvalidSkillContent e))
        | Inr None \<Rightarrow> Done (Inr False)
        | Inr (Some content) \<Rightarrow>
            if trimmed E content = [] then Done (Inr False)
            else case validate_skill_content (en_ws E) content of
              Inl _ \<Rightarrow> Done (Inr False)
            | Inr validated \<Rightarrow>
                let h = content_hash hash (en_ws E) content
                in co_bind (peek (\<lambda>s. hm_get (cs_hashes s) job_id)) (\<lambda>seen.
                  if seen = Some h then Done (Inr True)
                  else
                    co_bind (atomic (\<lambda>s. ((), s\<lparr>cs_hashes := hm_insert job_id h (cs_hashes s)\<rparr>))) (\<lambda>_.
                    co_bind (peek cs_clock) (\<lambda>now.
                    co_bind (repo (upsert_artifact (build_skill_suggest_artifact (en_codec E) conversation_id job_id
                        (sk_name validated) (sk_description validated) content now))) (\<lambda>row.
                      case row of
                        Inl _ \<Rightarrow> Done (Inr True)
                      | Inr row \<Rightarrow> co_bind (atomic (broadcast_artifact (en_codec E) row)) (\<lambda>_.
                          Done (Inr True))))))))"

fun check_with_retry ::
    "cron_env \<Rightarrow> (string \<Rightarrow> string) \<Rightarrow> (string + string option) list \<Rightarrow> string \<Rightarrow> string \<Rightarrow> string
      \<Rightarrow> unit cron_async" where
  "check_with_retry E hash [] conversation_id job_id workspace = Done ()"
| "check_with_retry E hash (file # files) conversation_id job_id workspace =
     co_bind (check_and_emit E hash file conversation_id job_id workspace) (\<lambda>r.
       case r of
         Inr True \<Rightarrow> Done ()
       | _ \<Rightarrow> check_with_retry E hash files conversation_id job_id workspace)"

end
