(* ===== verification/CronService.thy ===== *)
theory CronService
  imports CronExec
begin

text \<open>
  The service of scheduled jobs (\<open>veryagent-cron/src/service.rs\<close>): creating, changing and removing jobs,
  start, resume, the tick of a timer, running at once, and what is recorded of every execution. A
  method is a coroutine; each statement, each call of the timer table and each event is a section.
\<close>

section \<open>Assistants and agents\<close>

text \<open>\<open>min_by_key\<close>: the first of the elements with the least key.\<close>

fun min_by :: "('k \<Rightarrow> 'k \<Rightarrow> bool) \<Rightarrow> ('a \<Rightarrow> 'k) \<Rightarrow> 'a list \<Rightarrow> 'a option" where
  "min_by lt key [] = None"
| "min_by lt key (x # xs) =
     (case min_by lt key xs of
        None \<Rightarrow> Some x
      | Some y \<Rightarrow> if lt (key y) (key x) then Some y else Some x)"

definition agent_match_rank :: "agent_metadata_row \<Rightarrow> int \<times> int \<times> string" where
  "agent_match_rank row =
     (if am_agent_source row = ''builtin'' then 0 else if am_agent_source row = ''internal'' then 1 else 2,
      am_sort_order row, am_name row)"

fun rank_less :: "int \<times> int \<times> string \<Rightarrow> int \<times> int \<times> string \<Rightarrow> bool" where
  "rank_less (a, b, c) (a', b', c') \<longleftrightarrow> a < a' \<or> a = a' \<and> (b < b' \<or> b = b' \<and> c < c')"

definition runtime_backend_for_agent :: "(char \<Rightarrow> bool) \<Rightarrow> agent_metadata_row \<Rightarrow> string" where
  "runtime_backend_for_agent ws row =
     (case am_backend row of
        None \<Rightarrow> am_agent_type row
      | Some b \<Rightarrow> if str_trim ws b = [] then am_agent_type row else str_trim ws b)"

definition resolve_agent_binding_from_rows ::
    "(char \<Rightarrow> bool) \<Rightarrow> agent_metadata_row list \<Rightarrow> string \<Rightarrow> agent_metadata_row option" where
  "resolve_agent_binding_from_rows ws rows val =
     (let val = str_trim ws val; best = min_by rank_less agent_match_rank
      in if val = [] then None
         else opt_else (best (filter (\<lambda>row. am_id row = val) rows))
           (opt_else (best (filter (\<lambda>row. am_backend row = Some val) rows))
             (best (filter (\<lambda>row. am_agent_type row = val) rows))))"

text \<open>The catalogue of assistants and agents is read only; it can fail as a whole.\<close>

definition catalog :: "cron_env \<Rightarrow> 'r \<Rightarrow> cron_error + 'r" where
  "catalog E r = (case en_catalog_error E of Some e \<Rightarrow> Inl (CronDatabase e) | None \<Rightarrow> Inr r)"

definition runtime_backend_for_agent_id :: "cron_env \<Rightarrow> string \<Rightarrow> cron_error + string" where
  "runtime_backend_for_agent_id E agent_id =
     and_then (catalog E (en_agents E)) (\<lambda>rows.
       Inr (case resolve_agent_binding_from_rows (en_ws E) rows agent_id of
              Some row \<Rightarrow> runtime_backend_for_agent (en_ws E) row
            | None \<Rightarrow> agent_id))"

definition get_by_assistant_id :: "cron_env \<Rightarrow> string \<Rightarrow> cron_error + assistant_definition_row option" where
  "get_by_assistant_id E assistant_id =
     catalog E (find (\<lambda>d. ad_assistant_id d = assistant_id \<and> \<not> ad_deleted d) (en_definitions E))"

definition effective_agent_id :: "cron_env \<Rightarrow> assistant_definition_row \<Rightarrow> cron_error + string" where
  "effective_agent_id E d =
     and_then (catalog E (hm_get (en_overlays E) (ad_id d))) (\<lambda>overlay.
       Inr (given (Option.bind overlay id) (ad_agent_id d)))"

definition runtime_agent_type_for_backend :: "string \<Rightarrow> string" where
  "runtime_agent_type_for_backend backend = (if backend = ''aionrs'' then ''aionrs'' else ''acp'')"

definition resolve_agent_type_for_assistant_id :: "cron_env \<Rightarrow> string \<Rightarrow> cron_error + string" where
  "resolve_agent_type_for_assistant_id E assistant_id =
     and_then (get_by_assistant_id E assistant_id) (\<lambda>d. case d of
       None \<Rightarrow> Inl (InvalidAgentConfig (''assistant '' @ quoted assistant_id @ '' not found''))
     | Some d \<Rightarrow>
         and_then (effective_agent_id E d) (\<lambda>agent_id.
         and_then (runtime_backend_for_agent_id E agent_id) (\<lambda>backend.
           Inr (runtime_agent_type_for_backend backend))))"

definition resolve_assistant_backend :: "cron_env \<Rightarrow> string option \<Rightarrow> cron_error + string option" where
  "resolve_assistant_backend E assistant_id =
     (case assistant_id of
        None \<Rightarrow> Inr None
      | Some assistant_id \<Rightarrow>
          if assistant_id = [] then Inr None
          else and_then (get_by_assistant_id E assistant_id) (\<lambda>d. case d of
            None \<Rightarrow> Inr None
          | Some d \<Rightarrow>
              and_then (effective_agent_id E d) (\<lambda>agent_id.
              and_then (runtime_backend_for_agent_id E agent_id) (\<lambda>backend. Inr (Some backend)))))"

definition resolve_new_job_agent_type :: "cron_env \<Rightarrow> cron_agent_config_write option \<Rightarrow> cron_error + string" where
  "resolve_new_job_agent_type E config =
     (case Option.bind config wd_assistant_id of
        None \<Rightarrow> Inl (InvalidAgentConfig ''assistant_id is required for new cron jobs'')
      | Some assistant_id \<Rightarrow> resolve_agent_type_for_assistant_id E assistant_id)"

definition resolve_job_agent_type :: "cron_env \<Rightarrow> cron_job \<Rightarrow> cron_error + string" where
  "resolve_job_agent_type E job =
     (if trimmed E (cj_agent_type job) \<noteq> [] then Inr (cj_agent_type job)
      else case non_blank E (Option.bind (cj_agent_config job) ac_assistant_id) of
        None \<Rightarrow> Inl (InvalidAgentConfig ''assistant_id is required for cron jobs'')
      | Some assistant_id \<Rightarrow> resolve_agent_type_for_assistant_id E assistant_id)"

section \<open>Validating a request\<close>

definition normalize_model ::
    "(char \<Rightarrow> bool) \<Rightarrow> provider_with_model option \<Rightarrow> string \<Rightarrow> cron_error + provider_with_model option" where
  "normalize_model ws model runtime_agent_type =
     (case model of
        None \<Rightarrow> Inr None
      | Some m \<Rightarrow>
          let m = \<lparr>pm_provider_id = str_trim ws (pm_provider_id m), pm_model = str_trim ws (pm_model m),
                   pm_use_model = (case pm_use_model m of None \<Rightarrow> None
                     | Some u \<Rightarrow> let u = str_trim ws u in if u = [] then None else Some u)\<rparr>;
              incomplete = (pm_provider_id m = [] \<or> pm_model m = [])
          in if runtime_agent_type = ''aionrs'' \<and> incomplete then
               Inl (InvalidAgentConfig
                 ''aionrs cron jobs require agent_config.model.provider_id and agent_config.model.model'')
             else if incomplete then Inr None
             else Inr (Some m))"

definition validate_aionrs_agent_config ::
    "(char \<Rightarrow> bool) \<Rightarrow> string \<Rightarrow> cron_agent_config_write option \<Rightarrow> cron_error + unit" where
  "validate_aionrs_agent_config ws t config =
     (if t \<noteq> ''aionrs'' then Inr ()
      else case Option.bind config wd_model of
        Some m \<Rightarrow>
          if str_trim ws (pm_provider_id m) \<noteq> [] \<and> str_trim ws (pm_model m) \<noteq> [] then Inr ()
          else Inl (InvalidAgentConfig
            ''aionrs cron jobs require agent_config.model.provider_id and agent_config.model.model'')
      | None \<Rightarrow> Inl (InvalidAgentConfig
            ''aionrs cron jobs require agent_config.model.provider_id and agent_config.model.model''))"

definition parse_execution_mode :: "string option \<Rightarrow> cron_error + execution_mode" where
  "parse_execution_mode mode =
     (case mode of
        None \<Rightarrow> Inr ExistingConversation
      | Some s \<Rightarrow> if s = ''existing'' then Inr ExistingConversation else execution_mode_from_str s)"

definition sanitize_agent_config_dto ::
    "(char \<Rightarrow> bool) \<Rightarrow> cron_agent_config_write \<Rightarrow> cron_agent_config_write" where
  "sanitize_agent_config_dto ws config =
     (case wd_assistant_id config of
        None \<Rightarrow> config
      | Some v \<Rightarrow>
          let t = str_trim ws v
          in if t = [] then config\<lparr>wd_assistant_id := None\<rparr> else config\<lparr>wd_assistant_id := Some t\<rparr>)"

definition build_cron_agent_config ::
    "cron_env \<Rightarrow> string \<Rightarrow> cron_agent_config_write \<Rightarrow> cron_error + cron_agent_config" where
  "build_cron_agent_config E runtime_agent_type config =
     (case non_blank E (wd_assistant_id config) of
        None \<Rightarrow> Inl (InvalidAgentConfig ''assistant_id is required for cron jobs'')
      | Some assistant_id \<Rightarrow>
          and_then (resolve_assistant_backend E (Some assistant_id)) (\<lambda>backend. case backend of
            None \<Rightarrow> Inl (InvalidAgentConfig
              (''assistant '' @ quoted assistant_id @ '' could not resolve a runtime backend''))
          | Some _ \<Rightarrow>
              and_then (normalize_model (en_ws E) (wd_model config) runtime_agent_type) (\<lambda>model.
                Inr \<lparr>ac_name = wd_name config, ac_cli_path = wd_cli_path config, ac_is_preset = None,
                     ac_assistant_id = wd_assistant_id config, ac_custom_agent_id = None,
                     ac_mode = wd_mode config, ac_model_id = wd_model_id config, ac_model = model,
                     ac_config_options = wd_config_options config, ac_workspace = wd_workspace config\<rparr>)))"

definition skill_placeholder_patterns :: "string list" where
  "skill_placeholder_patterns =
     [''todo:'', ''todo '', ''fill in'', ''placeholder'', ''replace this'', ''your '', ''insert '',
      ''add your'', ''write your'', ''put your'']"

definition validate_skill_body_content :: "cron_env \<Rightarrow> string \<Rightarrow> cron_error + unit" where
  "validate_skill_body_content E content =
     (let trimmed = trimmed E content
      in if trimmed = [] then Inl (InvalidSkillContent ''content must not be empty'')
         else if list_ex (\<lambda>p. prefix p (en_lowercase E trimmed)) skill_placeholder_patterns then
           Inl (InvalidSkillContent ''content appears to be placeholder text'')
         else Inr ())"

definition build_update_params :: "cron_env \<Rightarrow> cron_job \<Rightarrow> update_cron_job_request \<Rightarrow> update_cron_job_params" where
  "build_update_params E job req =
     (case schedule_to_row_fields (cj_schedule job) of (k, v, tz, d) \<Rightarrow>
      let scheduled = (uq_schedule req \<noteq> None)
      in \<lparr>pp_name = uq_name req, pp_enabled = uq_enabled req,
          pp_schedule_kind = (if scheduled then Some k else None),
          pp_schedule_value = (if scheduled then Some v else None),
          pp_schedule_tz = (if scheduled then Some tz else None),
          pp_schedule_description = (if scheduled then Some d else None),
          pp_payload_message = uq_message req, pp_execution_mode = uq_execution_mode req,
          pp_agent_config =
            (if uq_agent_config req = None then None
             else map_option (\<lambda>config. Some (case cc_config_to_string (en_codec E) config of
                    Inl _ \<Rightarrow> [] | Inr s \<Rightarrow> s)) (cj_agent_config job)),
          pp_conversation_id = None,
          pp_conversation_title = map_option Some (uq_conversation_title req),
          pp_skill_content = None, pp_description = map_option Some (uq_description req),
          pp_next_run_at =
            (if scheduled \<or> uq_enabled req \<noteq> None then Some (cj_next_run_at job) else None),
          pp_last_run_at = None, pp_last_status = None, pp_last_error = None, pp_run_count = None,
          pp_retry_count = None\<rparr>)"

section \<open>Sections of the service\<close>

definition on_timers :: "(timer_table \<Rightarrow> timer_table) \<Rightarrow> unit cron_async" where
  "on_timers f = atomic (\<lambda>s. ((), s\<lparr>cs_timers := f (cs_timers s)\<rparr>))"

text \<open>A statement whose failure is only logged.\<close>

definition quietly :: "'r cron_fallible \<Rightarrow> unit cron_async" where
  "quietly c = co_bind c (\<lambda>_. Done ())"

definition load_row :: "string \<Rightarrow> cron_job_row cron_fallible" where
  "load_row job_id =
     co_try (repo (get_job_row job_id)) (\<lambda>row. case row of
       None \<Rightarrow> Done (Inl (JobNotFound job_id)) | Some row \<Rightarrow> Done (Inr row))"

definition load_job :: "cron_env \<Rightarrow> string \<Rightarrow> cron_job cron_fallible" where
  "load_job E job_id =
     co_try (load_row job_id) (\<lambda>row.
     co_try (Done (cron_job_from_row (en_codec E) row)) (\<lambda>job.
     co_try (Done (resolve_job_agent_type E job)) (\<lambda>t.
       Done (Inr (job\<lparr>cj_agent_type := t\<rparr>)))))"

definition validate_job_workspace :: "cron_env \<Rightarrow> cron_job \<Rightarrow> unit cron_fallible" where
  "validate_job_workspace E job =
     co_try (resolve_job_workspace_raw E job) (\<lambda>workspace.
       Done (workspace_verdict WorkspacePathUnavailable
               (validate_workspace_path_availability E workspace)))"

definition bind_existing_conversation_if_needed :: "cron_env \<Rightarrow> cron_job \<Rightarrow> unit cron_async" where
  "bind_existing_conversation_if_needed E job =
     (if cj_execution_mode job \<noteq> ExistingConversation \<or> trimmed E (cj_conversation_id job) = [] then Done ()
      else quietly (bind_cron_job_to_conversation E (cj_conversation_id job) (cj_id job)))"

section \<open>Creating, changing and removing\<close>

text \<open>The end of \<open>add_job_internal\<close>, once the job is built.\<close>

definition store_new_job :: "cron_env \<Rightarrow> cron_job \<Rightarrow> cron_job cron_fallible" where
  "store_new_job E job =
     co_try (validate_job_workspace E job) (\<lambda>_.
     co_try (Done (cron_job_to_row (en_codec E) job)) (\<lambda>row.
     co_try (repo (insert_job_row row)) (\<lambda>_.
     co_bind (bind_existing_conversation_if_needed E job) (\<lambda>_.
     co_bind (on_timers (schedule_job job)) (\<lambda>_.
     co_bind (tell (JobCreated (cron_job_to_response job))) (\<lambda>_.
       Done (Inr job)))))))"

definition add_job_internal ::
    "cron_env \<Rightarrow> create_cron_job_request \<Rightarrow> string option \<Rightarrow> cron_job cron_fallible" where
  "add_job_internal E req runtime_agent_type =
     (let schedule = schedule_from_dto (cq_schedule req) in
     co_try (Done (validate_schedule (en_crate E) schedule)) (\<lambda>_.
     co_try (Done (case runtime_agent_type of
         Some t \<Rightarrow> Inr t | None \<Rightarrow> resolve_new_job_agent_type E (cq_agent_config req))) (\<lambda>t.
     co_try (Done (validate_aionrs_agent_config (en_ws E) t (cq_agent_config req))) (\<lambda>_.
     co_try (Done (parse_execution_mode (cq_execution_mode req))) (\<lambda>execution_mode.
     co_try (Done (created_by_from_str (cq_created_by req))) (\<lambda>created_by.
     co_try (Done (transposed (\<lambda>config. build_cron_agent_config E t (sanitize_agent_config_dto (en_ws E) config))
         (cq_agent_config req))) (\<lambda>agent_config.
     co_bind (peek cs_clock) (\<lambda>now.
     co_bind (next_id E) (\<lambda>job_id.
     let job = \<lparr>cj_id = job_id, cj_name = cq_name req, cj_enabled = True, cj_schedule = schedule,
           cj_message = given (opt_else (cq_message req) (cq_prompt req)) [],
           cj_execution_mode = execution_mode, cj_agent_config = agent_config,
           cj_conversation_id = cq_conversation_id req, cj_conversation_title = cq_conversation_title req,
           cj_agent_type = t, cj_created_by = created_by, cj_skill_content = None,
           cj_description = cq_description req, cj_created_at = now, cj_updated_at = now,
           cj_next_run_at = compute_next_run (en_crate E) schedule now, cj_last_run_at = None,
           cj_last_status = None, cj_last_error = None, cj_run_count = 0, cj_retry_count = 0,
           cj_max_retries = 3\<rparr> in
       store_new_job E job)))))))))"

definition add_job :: "cron_env \<Rightarrow> create_cron_job_request \<Rightarrow> cron_job cron_fallible" where
  "add_job E req = add_job_internal E req None"

text \<open>The part of \<open>update_job\<close> that works on the job alone; \<open>now\<close> is read where the code reads it.\<close>

definition with_agent_config ::
    "cron_env \<Rightarrow> update_cron_job_request \<Rightarrow> cron_job \<Rightarrow> cron_error + cron_job" where
  "with_agent_config E req job =
     (case uq_agent_config req of
        None \<Rightarrow> Inr job
      | Some config_dto \<Rightarrow>
          let config_dto = sanitize_agent_config_dto (en_ws E) config_dto in
          and_then (resolve_new_job_agent_type E (Some config_dto)) (\<lambda>t.
          and_then (validate_aionrs_agent_config (en_ws E) t (Some config_dto)) (\<lambda>_.
          and_then (build_cron_agent_config E t config_dto) (\<lambda>config.
            Inr (job\<lparr>cj_agent_type := t, cj_agent_config := Some config\<rparr>)))))"

definition with_names :: "update_cron_job_request \<Rightarrow> cron_job \<Rightarrow> cron_job" where
  "with_names req job =
     job\<lparr>cj_name := given (uq_name req) (cj_name job),
         cj_description := opt_else (uq_description req) (cj_description job),
         cj_enabled := given (uq_enabled req) (cj_enabled job)\<rparr>"

definition with_schedule ::
    "cron_env \<Rightarrow> update_cron_job_request \<Rightarrow> cron_job \<Rightarrow> cron_error + cron_job" where
  "with_schedule E req job =
     (case uq_schedule req of
        None \<Rightarrow> Inr job
      | Some dto \<Rightarrow>
          let schedule = schedule_from_dto_with_existing_timezone dto (cj_schedule job) in
          and_then (validate_schedule (en_crate E) schedule) (\<lambda>_. Inr (job\<lparr>cj_schedule := schedule\<rparr>)))"

definition with_mode :: "update_cron_job_request \<Rightarrow> cron_job \<Rightarrow> cron_error + cron_job" where
  "with_mode req job =
     (let job = job\<lparr>cj_message := given (uq_message req) (cj_message job)\<rparr> in
      case uq_execution_mode req of
        None \<Rightarrow> Inr job
      | Some mode \<Rightarrow> and_then (parse_execution_mode (Some mode)) (\<lambda>m. Inr (job\<lparr>cj_execution_mode := m\<rparr>)))"

definition with_dates ::
    "cron_env \<Rightarrow> update_cron_job_request \<Rightarrow> timestamp_ms \<Rightarrow> cron_job \<Rightarrow> cron_job" where
  "with_dates E req now job =
     (let job = job\<lparr>cj_conversation_title := opt_else (uq_conversation_title req) (cj_conversation_title job),
                    cj_max_retries := given (uq_max_retries req) (cj_max_retries job)\<rparr>;
          job = (if uq_schedule req \<noteq> None \<or> uq_enabled req \<noteq> None
                 then job\<lparr>cj_next_run_at := compute_next_run (en_crate E) (cj_schedule job) now\<rparr> else job)
      in job\<lparr>cj_updated_at := now\<rparr>)"

definition changed_job ::
    "cron_env \<Rightarrow> update_cron_job_request \<Rightarrow> timestamp_ms \<Rightarrow> cron_job \<Rightarrow> cron_error + cron_job" where
  "changed_job E req now job =
     and_then (with_schedule E req (with_names req job)) (\<lambda>job.
     and_then (with_mode req job) (\<lambda>job.
     and_then (with_agent_config E req job) (\<lambda>job. Inr (with_dates E req now job))))"

text \<open>The end of \<open>update_job\<close>, once the job is changed.\<close>

definition store_changed_job ::
    "cron_env \<Rightarrow> string \<Rightarrow> update_cron_job_request \<Rightarrow> cron_job \<Rightarrow> cron_job cron_fallible" where
  "store_changed_job E job_id req job =
     co_try (validate_job_workspace E job) (\<lambda>_.
     co_try (repo (update_job_row job_id (build_update_params E job req))) (\<lambda>_.
     co_bind (bind_existing_conversation_if_needed E job) (\<lambda>_.
     co_bind (on_timers (reschedule_job job)) (\<lambda>_.
     co_bind (tell (JobUpdated (cron_job_to_response job))) (\<lambda>_.
       Done (Inr job))))))"

definition update_job :: "cron_env \<Rightarrow> string \<Rightarrow> update_cron_job_request \<Rightarrow> cron_job cron_fallible" where
  "update_job E job_id req =
     co_try (load_job E job_id) (\<lambda>job.
     co_bind (peek cs_clock) (\<lambda>now.
     co_try (Done (changed_job E req now job)) (\<lambda>job.
       store_changed_job E job_id req job)))"

definition remove_job :: "cron_env \<Rightarrow> string \<Rightarrow> unit cron_fallible" where
  "remove_job E job_id =
     co_bind (on_timers (cancel_job job_id)) (\<lambda>_.
     co_bind (quietly (atomic (delete_skill_file (en_io E) (en_data_dir E) job_id))) (\<lambda>_.
     co_try (repo (delete_job_row job_id)) (\<lambda>_.
     co_bind (tell (JobRemoved job_id)) (\<lambda>_. Done (Inr ())))))"

definition get_job :: "cron_env \<Rightarrow> string \<Rightarrow> cron_job cron_fallible" where
  "get_job E job_id = load_job E job_id"

fun jobs_from_rows :: "cron_env \<Rightarrow> cron_job_row list \<Rightarrow> cron_error + cron_job list" where
  "jobs_from_rows E [] = Inr []"
| "jobs_from_rows E (row # rows) =
     and_then (cron_job_from_row (en_codec E) row) (\<lambda>job.
     and_then (resolve_job_agent_type E job) (\<lambda>t.
     and_then (jobs_from_rows E rows) (\<lambda>jobs. Inr (job\<lparr>cj_agent_type := t\<rparr> # jobs))))"

definition list_jobs :: "cron_env \<Rightarrow> string option \<Rightarrow> cron_job list cron_fallible" where
  "list_jobs E conversation_id =
     co_try (repo (case conversation_id of
         Some c \<Rightarrow> list_rows_by_conversation c | None \<Rightarrow> list_all_rows)) (\<lambda>rows.
       Done (jobs_from_rows E rows))"

definition delete_jobs_by_conversation :: "string \<Rightarrow> unit cron_async" where
  "delete_jobs_by_conversation conversation_id =
     co_bind (repo (list_rows_by_conversation conversation_id)) (\<lambda>r. case r of
       Inl _ \<Rightarrow> Done ()
     | Inr rows \<Rightarrow>
         co_bind (co_for rows (\<lambda>row.
           co_bind (on_timers (cancel_job (jr_id row))) (\<lambda>_. tell (JobRemoved (jr_id row))))) (\<lambda>_.
           quietly (repo (delete_rows_by_conversation conversation_id))))"

section \<open>What is recorded of an execution\<close>

definition update_job_after_success :: "cron_env \<Rightarrow> string \<Rightarrow> string \<Rightarrow> unit cron_async" where
  "update_job_after_success E job_id conversation_id =
     co_bind (repo (get_job_row job_id)) (\<lambda>r. case r of
       Inl _ \<Rightarrow> Done ()
     | Inr None \<Rightarrow> Done ()
     | Inr (Some row) \<Rightarrow>
         co_bind (peek cs_clock) (\<lambda>now.
         let needs_conversation_bind =
               (trimmed E (jr_conversation_id row) = [] \<and> trimmed E conversation_id \<noteq> []) in
         co_bind (repo (update_job_row job_id (keep_all
             \<lparr>pp_last_run_at := Some (Some now), pp_last_status := Some (Some ''ok''),
              pp_last_error := Some None, pp_retry_count := Some 0,
              pp_run_count := Some (wrap_i64 (jr_run_count row + 1)),
              pp_conversation_id := (if needs_conversation_bind then Some conversation_id else None)\<rparr>))) (\<lambda>r.
           case r of
             Inl _ \<Rightarrow> Done ()
           | Inr _ \<Rightarrow>
               if needs_conversation_bind
               then quietly (bind_cron_job_to_conversation E conversation_id job_id) else Done ())))"

definition update_job_after_error :: "string \<Rightarrow> string \<Rightarrow> unit cron_async" where
  "update_job_after_error job_id message =
     co_bind (repo (get_job_row job_id)) (\<lambda>r. case r of
       Inl _ \<Rightarrow> Done ()
     | Inr None \<Rightarrow> Done ()
     | Inr (Some row) \<Rightarrow>
         co_bind (peek cs_clock) (\<lambda>now.
         quietly (repo (update_job_row job_id (keep_all
             \<lparr>pp_last_run_at := Some (Some now), pp_last_status := Some (Some ''error''),
              pp_last_error := Some (Some message), pp_retry_count := Some 0,
              pp_run_count := Some (wrap_i64 (jr_run_count row + 1))\<rparr>)))))"

definition disabling :: update_cron_job_params where
  "disabling = keep_all\<lparr>pp_enabled := Some False, pp_next_run_at := Some None\<rparr>"

fun is_at :: "cron_schedule \<Rightarrow> bool" where
  "is_at (AtSchedule _ _) = True"
| "is_at _ = False"

definition reschedule_after_execution :: "cron_env \<Rightarrow> cron_job \<Rightarrow> unit cron_async" where
  "reschedule_after_execution E job =
     (if is_at (cj_schedule job) then
        co_bind (quietly (repo (update_job_row (cj_id job) disabling))) (\<lambda>_.
        co_bind (on_timers (cancel_job (cj_id job))) (\<lambda>_.
          tell (JobUpdated (cron_job_to_response (job\<lparr>cj_enabled := False, cj_next_run_at := None\<rparr>)))))
      else
        co_bind (peek cs_clock) (\<lambda>now.
        let next = compute_next_run (en_crate E) (cj_schedule job) now in
        co_bind (quietly (repo (update_job_row (cj_id job) (keep_all\<lparr>pp_next_run_at := Some next\<rparr>)))) (\<lambda>_.
          on_timers (reschedule_job (job\<lparr>cj_next_run_at := next\<rparr>)))))"

definition record_missed_execution :: "cron_job \<Rightarrow> unit cron_async" where
  "record_missed_execution job =
     quietly (repo (update_job_row (cj_id job) (keep_all
       \<lparr>pp_last_status := Some (Some ''missed''), pp_last_error := Some None, pp_retry_count := Some 0\<rparr>)))"

definition missed_text :: "cron_job \<Rightarrow> string" where
  "missed_text job =
     ''Scheduled task '' @ CHR 0x22 # cj_name job @ CHR 0x22 #
     '' was missed while the system was unavailable. It was not run automatically.''"

definition insert_missed_job_tips :: "cron_env \<Rightarrow> cron_job \<Rightarrow> unit cron_async" where
  "insert_missed_job_tips E job =
     (if trimmed E (cj_conversation_id job) = [] then Done ()
      else co_bind (insert_tips_message E (cj_conversation_id job) (missed_text job) ''warning'') (\<lambda>r.
        case r of
          Inl _ \<Rightarrow> Done ()
        | Inr _ \<Rightarrow> tell (ConversationTips (cj_conversation_id job) (missed_text job) ''warning'')))"

definition reschedule_after_missed :: "cron_env \<Rightarrow> cron_job \<Rightarrow> unit cron_async" where
  "reschedule_after_missed E job =
     (if is_at (cj_schedule job) then
        co_bind (quietly (repo (update_job_row (cj_id job) disabling))) (\<lambda>_.
          on_timers (cancel_job (cj_id job)))
      else
        co_bind (peek cs_clock) (\<lambda>now.
        let next = compute_next_run (en_crate E) (cj_schedule job) now in
        co_bind (repo (update_job_row (cj_id job) (keep_all\<lparr>pp_next_run_at := Some next\<rparr>))) (\<lambda>r.
          case r of
            Inl _ \<Rightarrow> Done ()
          | Inr _ \<Rightarrow> on_timers (reschedule_job (job\<lparr>cj_next_run_at := next\<rparr>)))))"

text \<open>
  A retry takes the place of the timer of the job: a job made up for it, with a single date. The
  arithmetic of the date wraps.
\<close>

definition retry_job :: "string \<Rightarrow> timestamp_ms \<Rightarrow> cron_job" where
  "retry_job job_id next_run =
     \<lparr>cj_id = job_id, cj_name = [], cj_enabled = True, cj_schedule = AtSchedule next_run None,
      cj_message = [], cj_execution_mode = ExistingConversation, cj_agent_config = None,
      cj_conversation_id = [], cj_conversation_title = None, cj_agent_type = [],
      cj_created_by = CreatedByUser, cj_skill_content = None, cj_description = None, cj_created_at = 0,
      cj_updated_at = 0, cj_next_run_at = Some next_run, cj_last_run_at = None, cj_last_status = None,
      cj_last_error = None, cj_run_count = 0, cj_retry_count = 0, cj_max_retries = 0\<rparr>"

definition schedule_retry :: "string \<Rightarrow> unit cron_async" where
  "schedule_retry job_id =
     co_bind (peek cs_clock) (\<lambda>now.
       on_timers (schedule_job (retry_job job_id (wrap_i64 (now + RETRY_INTERVAL_MS)))))"

definition record_retry :: "string \<Rightarrow> int \<Rightarrow> unit cron_async" where
  "record_retry job_id attempt =
     quietly (repo (update_job_row job_id (keep_all\<lparr>pp_retry_count := Some attempt\<rparr>)))"

definition record_skipped :: "string \<Rightarrow> unit cron_async" where
  "record_skipped job_id =
     quietly (repo (update_job_row job_id (keep_all
       \<lparr>pp_last_status := Some (Some ''skipped''), pp_retry_count := Some 0\<rparr>)))"

definition handle_execution_result :: "cron_env \<Rightarrow> cron_job \<Rightarrow> execution_result \<Rightarrow> unit cron_async" where
  "handle_execution_result E job result =
     (let job_id = cj_id job in
      case result of
        ExSuccess conversation_id \<Rightarrow>
          co_bind (update_job_after_success E job_id conversation_id) (\<lambda>_.
          co_bind (reschedule_after_execution E job) (\<lambda>_.
            tell (JobExecuted job_id ''ok'' None)))
      | ExRetrying attempt \<Rightarrow>
          co_bind (record_retry job_id attempt) (\<lambda>_. schedule_retry job_id)
      | ExSkipped \<Rightarrow>
          co_bind (record_skipped job_id) (\<lambda>_.
          co_bind (reschedule_after_execution E job) (\<lambda>_.
            tell (JobExecuted job_id ''skipped'' None)))
      | ExError message \<Rightarrow>
          co_bind (update_job_after_error job_id message) (\<lambda>_.
          co_bind (reschedule_after_execution E job) (\<lambda>_.
            tell (JobExecuted job_id ''error'' (Some message)))))"

definition handle_run_now_result :: "cron_env \<Rightarrow> string \<Rightarrow> execution_result \<Rightarrow> unit cron_async" where
  "handle_run_now_result E job_id result =
     (case result of
        ExSuccess conversation_id \<Rightarrow>
          co_bind (update_job_after_success E job_id conversation_id) (\<lambda>_.
            tell (JobExecuted job_id ''ok'' None))
      | ExError message \<Rightarrow>
          co_bind (update_job_after_error job_id message) (\<lambda>_.
            tell (JobExecuted job_id ''error'' (Some message)))
      | ExRetrying attempt \<Rightarrow> record_retry job_id attempt
      | ExSkipped \<Rightarrow>
          co_bind (record_skipped job_id) (\<lambda>_. tell (JobExecuted job_id ''skipped'' None)))"

section \<open>Start, tick, resume and running at once\<close>

definition is_orphan :: "cron_env \<Rightarrow> cron_job \<Rightarrow> bool cron_async" where
  "is_orphan E job =
     (if cj_execution_mode job = NewConversation \<or> trimmed E (cj_conversation_id job) = [] then Done False
      else co_bind (is_conversation_claimed (cj_conversation_id job)) (\<lambda>claimed.
        if claimed then Done False
        else co_bind (conversation_exists (cj_conversation_id job)) (\<lambda>r.
          Done (case r of Inr there \<Rightarrow> \<not> there | Inl _ \<Rightarrow> False))))"

definition init_row :: "cron_env \<Rightarrow> cron_job_row \<Rightarrow> unit cron_async" where
  "init_row E row =
     (case cron_job_from_row (en_codec E) row of
        Inl _ \<Rightarrow> Done ()
      | Inr job \<Rightarrow>
          co_bind (is_orphan E job) (\<lambda>orphan.
            if orphan then quietly (repo (delete_job_row (cj_id job)))
            else on_timers (schedule_job job)))"

definition init :: "cron_env \<Rightarrow> unit cron_async" where
  "init E =
     co_bind (repo list_enabled_rows) (\<lambda>r. case r of
       Inl _ \<Rightarrow> Done ()
     | Inr rows \<Rightarrow> co_for rows (init_row E))"

definition tick :: "cron_env \<Rightarrow> string \<Rightarrow> unit cron_async" where
  "tick E job_id =
     co_bind (repo (get_job_row job_id)) (\<lambda>r. case r of
       Inl _ \<Rightarrow> Done ()
     | Inr None \<Rightarrow> on_timers (cancel_job job_id)
     | Inr (Some row) \<Rightarrow>
         (case cron_job_from_row (en_codec E) row of
            Inl _ \<Rightarrow> Done ()
          | Inr job \<Rightarrow>
              (case resolve_job_agent_type E job of
                 Inl _ \<Rightarrow> Done ()
               | Inr t \<Rightarrow>
                   let job = job\<lparr>cj_agent_type := t\<rparr> in
                   if \<not> cj_enabled job then Done ()
                   else co_bind (execute E job) (handle_execution_result E job))))"

definition resume_row :: "cron_env \<Rightarrow> timestamp_ms \<Rightarrow> cron_job_row \<Rightarrow> unit cron_async" where
  "resume_row E now row =
     (case cron_job_from_row (en_codec E) row of
        Inl _ \<Rightarrow> Done ()
      | Inr job \<Rightarrow>
          if (case cj_next_run_at job of Some next_run \<Rightarrow> next_run < now | None \<Rightarrow> False) then
            co_bind (record_missed_execution job) (\<lambda>_.
            co_bind (insert_missed_job_tips E job) (\<lambda>_.
            co_bind (reschedule_after_missed E job) (\<lambda>_.
              tell (JobExecuted (cj_id job) ''missed'' None))))
          else on_timers (reschedule_job job))"

definition handle_system_resume :: "cron_env \<Rightarrow> unit cron_async" where
  "handle_system_resume E =
     co_bind (repo list_enabled_rows) (\<lambda>r. case r of
       Inl _ \<Rightarrow> Done ()
     | Inr rows \<Rightarrow>
         co_bind (peek cs_clock) (\<lambda>now. co_for rows (resume_row E now)))"

text \<open>
  \<open>run_now\<close> answers when the conversation is known; the task it spawns executes and records. Here the
  task follows at once, which every schedule may delay.
\<close>

definition run_now_task :: "cron_env \<Rightarrow> cron_job \<Rightarrow> prepared_execution \<Rightarrow> unit cron_async" where
  "run_now_task E job prepared =
     co_bind (execute_prepared E job prepared) (handle_run_now_result E (cj_id job))"

definition run_now :: "cron_env \<Rightarrow> string \<Rightarrow> string cron_fallible" where
  "run_now E job_id =
     co_try (load_job E job_id) (\<lambda>job.
     co_try (prepare_run_now E job) (\<lambda>prepared.
     co_bind (run_now_task E job prepared) (\<lambda>_.
       Done (Inr (px_conversation_id prepared)))))"

text \<open>The task of a timer: it wakes when it is due, calls back, and the callback ticks the job.\<close>

definition fire_timer :: "cron_env \<Rightarrow> string \<Rightarrow> unit cron_async" where
  "fire_timer E job_id =
     co_bind (atomic (\<lambda>s. case hm_get (cs_timers s) job_id of
         Some t \<Rightarrow>
           if fires (cs_clock s) t
           then (True, s\<lparr>cs_timers := hm_insert job_id (after_call (en_crate E) (cs_clock s) t) (cs_timers s)\<rparr>)
           else (False, s)
       | None \<Rightarrow> (False, s))) (\<lambda>due.
       if due then tick E job_id else Done ())"

section \<open>Skills of jobs\<close>

definition save_skill :: "cron_env \<Rightarrow> string \<Rightarrow> string \<Rightarrow> unit cron_fallible" where
  "save_skill E job_id content =
     co_try (load_row job_id) (\<lambda>row.
     co_try (Done (validate_skill_body_content E content)) (\<lambda>_.
     co_try (Done (cron_job_from_row (en_codec E) row)) (\<lambda>job.
     co_try (persist_skill_file E job content) (\<lambda>_.
     co_try (repo (update_job_row job_id (keep_all\<lparr>pp_skill_content := Some (Some content)\<rparr>))) (\<lambda>_.
     co_try (mark_skill_suggest_artifacts_saved E job_id) (\<lambda>_. Done (Inr ())))))))"

definition has_skill :: "cron_env \<Rightarrow> string \<Rightarrow> bool cron_fallible" where
  "has_skill E job_id =
     co_try (load_row job_id) (\<lambda>row.
     co_try (peek (has_skill_file (en_io E) (en_data_dir E) job_id)) (\<lambda>has.
       Done (Inr (has \<or> (case jr_skill_content row of None \<Rightarrow> False | Some c \<Rightarrow> trimmed E c \<noteq> [])))))"

definition delete_skill :: "cron_env \<Rightarrow> string \<Rightarrow> unit cron_fallible" where
  "delete_skill E job_id =
     co_try (load_row job_id) (\<lambda>_.
     co_try (atomic (delete_skill_file (en_io E) (en_data_dir E) job_id)) (\<lambda>_.
     co_try (repo (update_job_row job_id (keep_all\<lparr>pp_skill_content := Some None\<rparr>))) (\<lambda>_.
       Done (Inr ()))))"

end
