(* ===== verification/CronInv.thy ===== *)
theory CronInv
  imports CronService
begin

text \<open>
  The invariant of scheduled jobs, kept by every section of every method: each stored row parses to a
  job with a valid schedule, its retries stay within bounds, and no timer has an interval of zero. It
  is an instance of \<open>rely_guarantee\<close> where nothing is asked of the others but the invariant itself.
\<close>

section \<open>The invariant\<close>

definition job_ok :: "cron_crate \<Rightarrow> cron_job \<Rightarrow> bool" where
  "job_ok X job \<longleftrightarrow> validate_schedule X (cj_schedule job) = Inr () \<and> schedule_in_range (cj_schedule job) \<and>
     cj_max_retries job = 3 \<and> 0 \<le> cj_retry_count job \<and> cj_retry_count job \<le> 3"

definition row_ok :: "cron_codec \<Rightarrow> cron_crate \<Rightarrow> cron_job_row \<Rightarrow> bool" where
  "row_ok C X row \<longleftrightarrow> (\<exists>job. cron_job_from_row C row = Inr job \<and> job_ok X job)"

definition timers_ok :: "timer_table \<Rightarrow> bool" where
  "timers_ok ts \<longleftrightarrow> (\<forall>t \<in> snd ` set ts. timer_ok t)"

definition cron_inv :: "cron_codec \<Rightarrow> cron_crate \<Rightarrow> cron_state \<Rightarrow> bool" where
  "cron_inv C X s \<longleftrightarrow> (\<forall>row \<in> set (cs_jobs s). row_ok C X row) \<and> distinct (map jr_id (cs_jobs s)) \<and>
     timers_ok (cs_timers s)"

interpretation cron: rely_guarantee "cron_inv C X" "\<lambda>_ _. True"
  for C X
  by unfold_locales simp_all

text \<open>The columns that the invariant looks at.\<close>

definition schedule_columns :: "cron_job_row \<Rightarrow> cron_error + cron_schedule" where
  "schedule_columns row = parse_schedule (jr_schedule_kind row) (jr_schedule_value row)
     (jr_schedule_tz row) (jr_schedule_description row)"

lemma row_ok_iff:
  "row_ok C X row \<longleftrightarrow>
    (\<exists>schedule. schedule_columns row = Inr schedule \<and> validate_schedule X schedule = Inr ()) \<and>
    ok_of (execution_mode_from_str (jr_execution_mode row)) \<noteq> None \<and>
    ok_of (created_by_from_str (jr_created_by row)) \<noteq> None \<and>
    ok_of (transposed (\<lambda>s. map_err CronJson (cc_config_from_str C s)) (jr_agent_config row)) \<noteq> None \<and>
    ok_of (transposed job_status_from_str (jr_last_status row)) \<noteq> None \<and>
    jr_max_retries row = 3 \<and> 0 \<le> jr_retry_count row \<and> jr_retry_count row \<le> 3"
  by (auto simp: row_ok_def job_ok_def cron_job_from_row_def schedule_columns_def parse_schedule_range)

lemma row_ok_job: "row_ok C X row \<Longrightarrow> cron_job_from_row C row = Inr job \<Longrightarrow> job_ok X job"
  by (auto simp: row_ok_def)

lemma job_ok_agent_type [simp]: "job_ok X (job\<lparr>cj_agent_type := t\<rparr>) = job_ok X job"
  by (simp add: job_ok_def)

section \<open>Changes of a row\<close>

text \<open>Changes that keep it valid: a schedule as a whole, texts that parse, retries within bounds.\<close>

definition params_ok :: "cron_codec \<Rightarrow> cron_crate \<Rightarrow> update_cron_job_params \<Rightarrow> bool" where
  "params_ok C X p \<longleftrightarrow>
     (pp_schedule_kind p = None \<and> pp_schedule_value p = None \<and> pp_schedule_tz p = None \<and>
        pp_schedule_description p = None \<or>
      (\<exists>k v tz d schedule. pp_schedule_kind p = Some k \<and> pp_schedule_value p = Some v \<and>
        pp_schedule_tz p = Some tz \<and> pp_schedule_description p = Some d \<and>
        parse_schedule k v tz d = Inr schedule \<and> validate_schedule X schedule = Inr ())) \<and>
     (\<forall>m. pp_execution_mode p = Some m \<longrightarrow> ok_of (execution_mode_from_str m) \<noteq> None) \<and>
     (\<forall>c. pp_agent_config p = Some c \<longrightarrow>
        ok_of (transposed (\<lambda>s. map_err CronJson (cc_config_from_str C s)) c) \<noteq> None) \<and>
     (\<forall>st. pp_last_status p = Some st \<longrightarrow> ok_of (transposed job_status_from_str st) \<noteq> None) \<and>
     (\<forall>r. pp_retry_count p = Some r \<longrightarrow> 0 \<le> r \<and> r \<le> 3)"

lemma given_cases: "given new old = old \<and> new = None \<or> new = Some (given new old)"
  by (cases new) (simp_all add: given_def)

lemma row_ok_update:
  assumes "row_ok C X row" and "params_ok C X p"
  shows "row_ok C X (apply_update now p row)"
  using assms unfolding row_ok_iff params_ok_def
  by (auto simp: apply_update_def given_def schedule_columns_def split: option.splits)

lemma apply_update_id [simp]: "jr_id (apply_update now p row) = jr_id row"
  by (simp add: apply_update_def)

lemma params_ok_fields:
  "params_ok C X keep_all"
  "params_ok C X disabling"
  "params_ok C X (keep_all\<lparr>pp_next_run_at := n\<rparr>)"
  "params_ok C X (keep_all\<lparr>pp_skill_content := k\<rparr>)"
  "0 \<le> r \<Longrightarrow> r \<le> 3 \<Longrightarrow> params_ok C X (keep_all\<lparr>pp_retry_count := Some r\<rparr>)"
  "params_ok C X (keep_all\<lparr>pp_last_status := Some (Some ''skipped''), pp_retry_count := Some 0\<rparr>)"
  "params_ok C X (keep_all\<lparr>pp_last_status := Some (Some ''missed''), pp_last_error := e,
     pp_retry_count := Some 0\<rparr>)"
  "params_ok C X (keep_all\<lparr>pp_last_run_at := l, pp_last_status := Some (Some ''error''), pp_last_error := e,
     pp_retry_count := Some 0, pp_run_count := n'\<rparr>)"
  "params_ok C X (keep_all\<lparr>pp_last_run_at := l, pp_last_status := Some (Some ''ok''), pp_last_error := e,
     pp_retry_count := Some 0, pp_run_count := n', pp_conversation_id := c\<rparr>)"
  by (simp_all add: params_ok_def keep_all_def disabling_def job_status_from_str_def)

section \<open>Methods that keep the invariant\<close>

definition keeps_valid :: "cron_codec \<Rightarrow> cron_crate \<Rightarrow> ('r \<Rightarrow> bool) \<Rightarrow> 'r cron_async \<Rightarrow> bool" where
  "keeps_valid C X Q c \<longleftrightarrow> (\<forall>s. holds (cron_inv C X) (\<lambda>_ _. True) (\<lambda>r _. Q r) c s)"

abbreviation any :: "'r \<Rightarrow> bool" where
  "any \<equiv> \<lambda>_. True"

text \<open>A postcondition of a result that may be an error.\<close>

definition on_ok :: "('r \<Rightarrow> bool) \<Rightarrow> 'e + 'r \<Rightarrow> bool" where
  "on_ok Q r = (case r of Inl _ \<Rightarrow> True | Inr x \<Rightarrow> Q x)"

lemma on_ok_simps [simp]: "on_ok Q (Inl e)" "on_ok Q (Inr x) = Q x"
  by (simp_all add: on_ok_def)

lemma on_ok_any [simp]: "on_ok any r"
  by (cases r) simp_all

lemma on_ok_map_err [simp]: "on_ok Q (map_err g r) = on_ok Q r"
  by (cases r) simp_all

named_theorems keeping_valid \<open>methods that keep the invariant of scheduled jobs\<close>

lemma keeps_Done: "Q x \<Longrightarrow> keeps_valid C X Q (Done x)"
  by (simp add: keeps_valid_def)

lemma keeps_weaken: "keeps_valid C X P c \<Longrightarrow> (\<And>x. P x \<Longrightarrow> Q x) \<Longrightarrow> keeps_valid C X Q c"
  unfolding keeps_valid_def by (blast intro: cron.holds_mono)

lemma keeps_bind:
  assumes "keeps_valid C X P c" and "\<And>x. P x \<Longrightarrow> keeps_valid C X Q (f x)"
  shows "keeps_valid C X Q (co_bind c f)"
proof (unfold keeps_valid_def, intro allI cron.holds_bind)
  fix s
  show "holds (cron_inv C X) (\<lambda>_ _. True)
      (\<lambda>x t. holds (cron_inv C X) (\<lambda>_ _. True) (\<lambda>r _. Q r) (f x) t) c s"
  proof (rule cron.holds_mono)
    show "holds (cron_inv C X) (\<lambda>_ _. True) (\<lambda>r _. P r) c s"
      using assms(1) by (simp add: keeps_valid_def)
  qed (use assms(2) in \<open>simp add: keeps_valid_def\<close>)
qed

lemma keeps_try:
  "keeps_valid C X (on_ok P) c \<Longrightarrow> (\<And>x. P x \<Longrightarrow> keeps_valid C X (on_ok Q) (f x)) \<Longrightarrow>
    keeps_valid C X (on_ok Q) (co_try c f)"
  unfolding co_try_def by (erule keeps_bind) (auto simp: keeps_Done split: sum.split)

lemma keeps_atomic:
  "(\<And>s. cron_inv C X s \<Longrightarrow> cron_inv C X (snd (f s)) \<and> Q (fst (f s))) \<Longrightarrow> keeps_valid C X Q (atomic f)"
  unfolding keeps_valid_def by (auto intro!: cron.holds_atomic) (metis prod.sel)+

lemma keeps_for: "(\<And>x. x \<in> set xs \<Longrightarrow> keeps_valid C X any (f x)) \<Longrightarrow> keeps_valid C X any (co_for xs f)"
  by (induction xs) (auto intro: keeps_Done keeps_bind)

lemma keeps_quietly: "keeps_valid C X any c \<Longrightarrow> keeps_valid C X any (quietly c)"
  unfolding quietly_def by (erule keeps_bind) (simp add: keeps_Done)

lemma keeps_peek: "(\<And>s. cron_inv C X s \<Longrightarrow> Q (f s)) \<Longrightarrow> keeps_valid C X Q (peek f)"
  unfolding peek_def by (rule keeps_atomic) simp

text \<open>Sections that touch neither the jobs nor the timers.\<close>

lemma keeps_apart:
  assumes "\<And>s. cs_jobs (snd (f s)) = cs_jobs s" and "\<And>s. cs_timers (snd (f s)) = cs_timers s"
  shows "keeps_valid C X any (atomic f)"
  by (rule keeps_atomic) (simp add: cron_inv_def assms)

lemma keeps_repo:
  assumes "\<And>s. cron_inv C X s \<Longrightarrow> cs_fault s = None \<Longrightarrow> cron_inv C X (snd (f s)) \<and> on_ok Q (fst (f s))"
  shows "keeps_valid C X (on_ok Q) (repo (guarded f))"
proof -
  have "cron_inv C X (snd (guarded f s)) \<and> on_ok Q (fst (guarded f s))" if "cron_inv C X s" for s
    using that assms by (simp add: guarded_def split: option.split)
  then show ?thesis
    unfolding repo_def by (intro keeps_atomic) (simp add: case_prod_beta)
qed

lemma keeps_repo_apart:
  assumes "\<And>s. cs_jobs (snd (f s)) = cs_jobs s" and "\<And>s. cs_timers (snd (f s)) = cs_timers s"
  shows "keeps_valid C X any (repo (guarded f))"
proof -
  have "keeps_valid C X (on_ok any) (repo (guarded f))"
    by (rule keeps_repo) (simp add: cron_inv_def assms)
  then show ?thesis
    by (rule keeps_weaken) simp
qed

lemma keeps_tell [keeping_valid]: "keeps_valid C X any (tell e)"
  unfolding tell_def by (rule keeps_apart) (simp_all add: emit_def)

lemma keeps_next_id [keeping_valid]: "keeps_valid C X any (next_id E)"
  unfolding next_id_def by (rule keeps_apart) simp_all

lemma find_Some_mem: "find P xs = Some x \<Longrightarrow> x \<in> set xs"
  by (auto simp: find_Some_iff)

lemma keeps_get_job_row [keeping_valid]:
  "keeps_valid C X (on_ok (\<lambda>r. \<forall>row. r = Some row \<longrightarrow> row_ok C X row)) (repo (get_job_row i))"
  unfolding get_job_row_def by (rule keeps_repo) (auto simp: cron_inv_def dest!: find_Some_mem)

lemma keeps_lists [keeping_valid]:
  "keeps_valid C X (on_ok (list_all (row_ok C X))) (repo list_all_rows)"
  "keeps_valid C X (on_ok (list_all (row_ok C X))) (repo list_enabled_rows)"
  "keeps_valid C X (on_ok (list_all (row_ok C X))) (repo (list_rows_by_conversation c))"
  unfolding list_all_rows_def list_enabled_rows_def list_rows_by_conversation_def
  by (rule keeps_repo; auto simp: cron_inv_def list_all_iff)+

lemma keeps_insert_job_row [keeping_valid]:
  "row_ok C X row \<Longrightarrow> keeps_valid C X any (repo (insert_job_row row))"
  unfolding insert_job_row_def
  by (rule keeps_weaken [OF keeps_repo [where Q = any]]) (auto simp: cron_inv_def)

lemma map_jr_id: "map jr_id (map (\<lambda>row. if jr_id row = i then apply_update now p row else row) rows) = map jr_id rows"
  by simp

lemma keeps_update_job_row [keeping_valid]:
  assumes "params_ok C X p"
  shows "keeps_valid C X any (repo (update_job_row i p))"
proof (cases "p = keep_all")
  case True
  then have "update_job_row i p = (\<lambda>s. (Inr (), s))"
    by (simp add: update_job_row_def fun_eq_iff)
  then show ?thesis
    unfolding repo_def by (simp add: keeps_apart)
next
  case False
  then have *: "update_job_row i p = guarded (\<lambda>s.
        let change = (\<lambda>row. if jr_id row = i then apply_update (cs_clock s) p row else row)
        in if i \<notin> set (map jr_id (cs_jobs s)) then
             (Inl (DbNotFound (''cron job '' @ quoted i)), s)
           else if \<not> list_all (\<lambda>row. jr_id row = i \<longrightarrow> row_checks (change row)) (cs_jobs s) then
             (Inl (DbQuery ''CHECK constraint failed''), s)
           else (Inr (), s\<lparr>cs_jobs := map change (cs_jobs s)\<rparr>))"
    by (simp add: update_job_row_def fun_eq_iff)
  show ?thesis
    unfolding *
    by (rule keeps_weaken [OF keeps_repo [where Q = any]])
      (auto simp: cron_inv_def Let_def map_jr_id row_ok_update [OF _ assms] simp del: map_map)
qed

lemma keeps_delete_job_row [keeping_valid]: "keeps_valid C X any (repo (delete_job_row i))"
  unfolding delete_job_row_def
  by (rule keeps_weaken [OF keeps_repo [where Q = any]]) (auto simp: cron_inv_def distinct_map_filter)

lemma keeps_delete_rows [keeping_valid]: "keeps_valid C X any (repo (delete_rows_by_conversation c))"
  unfolding delete_rows_by_conversation_def
  by (rule keeps_weaken [OF keeps_repo [where Q = any]]) (auto simp: cron_inv_def distinct_map_filter)

lemma keeps_conversations [keeping_valid]:
  "keeps_valid C X any (repo (get_conversation c))"
  "keeps_valid C X any (repo (update_conversation c extra))"
  "keeps_valid C X any (repo (insert_message m))"
  "keeps_valid C X any (repo (upsert_artifact a))"
  "keeps_valid C X any (repo (mark_suggestions_saved j))"
  unfolding get_conversation_def update_conversation_def insert_message_def upsert_artifact_def
    mark_suggestions_saved_def Let_def
  by (rule keeps_repo_apart; simp split: option.split)+

lemma write_raw_apart:
  "cs_jobs (snd (write_raw_skill_file ws io dir i raw s)) = cs_jobs s"
  "cs_timers (snd (write_raw_skill_file ws io dir i raw s)) = cs_timers s"
  by (simp_all add: write_raw_skill_file_def split: sum.split option.split)

lemma delete_skill_apart:
  "cs_jobs (snd (delete_skill_file io dir i s)) = cs_jobs s"
  "cs_timers (snd (delete_skill_file io dir i s)) = cs_timers s"
  by (simp_all add: delete_skill_file_def split: sum.split option.split)

lemma broadcast_apart:
  "cs_jobs (snd (broadcast_artifact C' a s)) = cs_jobs s"
  "cs_timers (snd (broadcast_artifact C' a s)) = cs_timers s"
  by (simp_all add: broadcast_artifact_def emit_def split: sum.split)

lemma keeps_files [keeping_valid]:
  "keeps_valid C X any (atomic (write_raw_skill_file ws io dir i raw))"
  "keeps_valid C X any (atomic (write_skill_file ws io dir i name d prompt sd))"
  "keeps_valid C X any (atomic (delete_skill_file io dir i))"
  "keeps_valid C X any (atomic (broadcast_artifact C' a))"
  unfolding write_skill_file_def
  by (intro keeps_apart write_raw_apart delete_skill_apart broadcast_apart)+

lemma keeps_on_timers:
  assumes "\<And>ts. timers_ok ts \<Longrightarrow> timers_ok (f ts)"
  shows "keeps_valid C X any (on_timers f)"
  unfolding on_timers_def by (rule keeps_atomic) (simp add: cron_inv_def assms)

lemma timers_ok_cancel: "timers_ok ts \<Longrightarrow> timers_ok (cancel_job i ts)"
  by (auto simp: timers_ok_def cancel_job_def hm_set_remove)

lemma timers_ok_insert: "timer_ok t \<Longrightarrow> timers_ok ts \<Longrightarrow> timers_ok (hm_insert i t ts)"
proof -
  have "set (hm_insert i t ts) \<subseteq> insert (i, t) (set ts)"
    by (induction ts) auto
  then show "timer_ok t \<Longrightarrow> timers_ok ts \<Longrightarrow> timers_ok (hm_insert i t ts)"
    by (fastforce simp: timers_ok_def)
qed

lemma timers_ok_schedule:
  assumes "validate_schedule X (cj_schedule job) = Inr ()" and "timers_ok ts"
  shows "timers_ok (schedule_job job ts)"
proof -
  have "timer_ok \<lparr>ct_plan = plan_of (cj_schedule job), ct_due = d, ct_started = b\<rparr>" for d b
    using assms(1) by (cases "cj_schedule job") (auto simp: timer_ok_def split: if_splits)
  with assms(2) show ?thesis
    by (simp add: schedule_job_def Let_def timers_ok_cancel timers_ok_insert split: option.split)
qed

lemma keeps_cancel_job [keeping_valid]: "keeps_valid C X any (on_timers (cancel_job i))"
  by (intro keeps_on_timers timers_ok_cancel)

lemma keeps_schedule [keeping_valid]:
  "validate_schedule X (cj_schedule job) = Inr () \<Longrightarrow> keeps_valid C X any (on_timers (schedule_job job))"
  by (intro keeps_on_timers timers_ok_schedule)

lemma keeps_reschedule [keeping_valid]:
  "validate_schedule X (cj_schedule job) = Inr () \<Longrightarrow> keeps_valid C X any (on_timers (reschedule_job job))"
  unfolding reschedule_job_def by (rule keeps_schedule)

section \<open>The executor\<close>

text \<open>Methods of which only the invariant matters compose without postconditions.\<close>

lemma any_Done [simp]: "keeps_valid C X any (Done x)"
  by (simp add: keeps_Done)

lemma any_peek [simp]: "keeps_valid C X any (peek f)"
  by (simp add: keeps_peek)

lemma any_of: "keeps_valid C X Q c \<Longrightarrow> keeps_valid C X any c"
  by (erule keeps_weaken) simp

lemma any_bind: "keeps_valid C X any c \<Longrightarrow> (\<And>x. keeps_valid C X Q (f x)) \<Longrightarrow> keeps_valid C X Q (co_bind c f)"
  by (erule keeps_bind) simp

lemma any_try:
  "keeps_valid C X any c \<Longrightarrow> (\<And>x. keeps_valid C X any (f x)) \<Longrightarrow> keeps_valid C X any (co_try c f)"
  unfolding co_try_def by (erule any_bind) (simp split: sum.split)

lemmas composing = any_bind any_try keeps_quietly keeps_for

lemma keeps_conversation_reads [keeping_valid]:
  "keeps_valid C X any (resolve_execution_workspace_raw E job c)"
  "keeps_valid C X any (conversation_exists c)"
  "keeps_valid C X any (is_conversation_claimed c)"
  "keeps_valid C X any (resolve_conversation_owner_user_id E job)"
  "keeps_valid C X any (resolve_target_conversation_user_id E c)"
  "keeps_valid C X any (load_conversation_skill_names E c)"
  by (auto simp: resolve_execution_workspace_raw_def conversation_exists_def is_conversation_claimed_def
      resolve_conversation_owner_user_id_def resolve_target_conversation_user_id_def
      load_conversation_skill_names_def intro!: composing keeping_valid split: option.split json.split)

lemma keeps_conversation_writes [keeping_valid]:
  "keeps_valid C X any (insert_tips_message E c content ty)"
  "keeps_valid C X any (bind_cron_job_to_conversation E c j)"
  "keeps_valid C X any (persist_workspace_if_missing E c w)"
  by (auto simp: insert_tips_message_def bind_cron_job_to_conversation_def persist_workspace_if_missing_def
      Let_def intro!: composing keeping_valid split: option.split)

lemma keeps_create_conversation [keeping_valid]: "keeps_valid C X any (create_conversation E u q)"
  unfolding create_conversation_def by (rule keeps_apart) (simp_all split: sum.split)

lemma keeps_workspaces [keeping_valid]:
  "keeps_valid C X any (resolve_execution_workspace E job c)"
  "keeps_valid C X any (resolve_job_workspace_raw E job)"
  "keeps_valid C X any (validate_runtime_job_workspace E job)"
  "keeps_valid C X any (verify_conversation_exists c)"
  by (auto simp: resolve_execution_workspace_def resolve_job_workspace_raw_def
      validate_runtime_job_workspace_def verify_conversation_exists_def intro!: composing keeping_valid)

lemma keeps_new_conversation [keeping_valid]:
  "keeps_valid C X any (create_new_conversation E job skill)"
  by (auto simp: create_new_conversation_def Let_def intro!: composing keeping_valid split: option.split)

lemma keeps_resolve_conversation [keeping_valid]:
  "keeps_valid C X any (resolve_conversation E job skill)"
  by (auto simp: resolve_conversation_def intro!: composing keeping_valid split: execution_mode.split)

lemma keeps_persist_skill [keeping_valid]: "keeps_valid C X any (persist_skill_file E job raw)"
  by (auto simp: persist_skill_file_def Let_def intro!: composing keeping_valid split: sum.split cron_error.split)

lemma keeps_prepare_skill [keeping_valid]: "keeps_valid C X any (prepare_saved_skill E job)"
  by (auto simp: prepare_saved_skill_def read_skill_def intro!: composing keeping_valid split: option.split)

lemma keeps_task_skills [keeping_valid]: "keeps_valid C X any (resolve_task_skill_names E job c skill)"
  by (auto simp: resolve_task_skill_names_def intro!: composing keeping_valid split: execution_mode.split)

lemma keeps_spawn_flow [keeping_valid]: "keeps_valid C X any (spawn_skill_suggest_flow c j w)"
  unfolding spawn_skill_suggest_flow_def by (rule keeps_apart) simp_all

lemma keeps_trigger [keeping_valid]: "keeps_valid C X any (upsert_cron_trigger_artifact E c job)"
  by (auto simp: upsert_cron_trigger_artifact_def intro!: composing keeping_valid)

lemma keeps_foldr_try:
  "(\<And>x. keeps_valid C X any (f x)) \<Longrightarrow>
    keeps_valid C X any (foldr (\<lambda>x rest. co_try (f x) (\<lambda>_. rest)) xs (Done (Inr ())))"
  by (induction xs) (auto intro!: any_try)

lemma keeps_mark_saved [keeping_valid]: "keeps_valid C X any (mark_skill_suggest_artifacts_saved E j)"
  by (auto simp: mark_skill_suggest_artifacts_saved_def intro!: composing keeping_valid keeps_foldr_try)

text \<open>Whatever the execution comes to, an attempt it asks for is one of three.\<close>

definition result_ok :: "execution_result \<Rightarrow> bool" where
  "result_ok r = (case r of ExRetrying attempt \<Rightarrow> 0 \<le> attempt \<and> attempt \<le> 3 | _ \<Rightarrow> True)"

lemma result_ok_simps [simp]:
  "result_ok (ExSuccess c)" "result_ok ExSkipped" "result_ok (ExError m)"
  "result_ok (ExRetrying a) \<longleftrightarrow> 0 \<le> a \<and> a \<le> 3"
  by (simp_all add: result_ok_def)

lemma handle_busy_ok: "job_ok X job \<Longrightarrow> result_ok (handle_busy job)"
  by (simp add: handle_busy_def job_ok_def)

lemma keeps_or_fail:
  "keeps_valid C X any c \<Longrightarrow> (\<And>x. keeps_valid C X result_ok (f x)) \<Longrightarrow> keeps_valid C X result_ok (or_fail c f)"
  unfolding or_fail_def by (erule any_bind) (auto intro: keeps_Done split: sum.split)

lemma keeps_execute_inner:
  assumes "job_ok X job"
  shows "keeps_valid C X result_ok (execute_inner_with_busy_retry E job c skill b)"
  using handle_busy_ok [OF assms]
  by (auto simp: execute_inner_with_busy_retry_def Let_def intro!: keeps_or_fail composing keeping_valid keeps_Done
      split: option.split sum.split conv_error.split)

lemma keeps_execute: "job_ok X job \<Longrightarrow> keeps_valid C X result_ok (execute E job)"
  by (auto simp: execute_def execute_inner_def
      intro!: keeps_or_fail composing keeping_valid keeps_Done keeps_execute_inner handle_busy_ok)

lemma keeps_prepare_run_now [keeping_valid]: "keeps_valid C X any (prepare_run_now E job)"
  by (auto simp: prepare_run_now_def intro!: composing keeping_valid)

lemma keeps_check [keeping_valid]: "keeps_valid C X any (check_and_emit E hash file c j w)"
  by (auto simp: check_and_emit_def Let_def intro!: composing keeping_valid keeps_apart split: sum.split option.split)

lemma keeps_check_with_retry: "keeps_valid C X any (check_with_retry E hash files c j w)"
  by (induction files) (auto intro!: composing keeping_valid split: sum.split bool.split)

end
