(* ===== verification/ResponseMiddleware.thy ===== *)
theory ResponseMiddleware
  imports CronSkill Coroutine
begin

text \<open>
  What is done to a finished message of an agent (\<open>veryagent-conversation/src/response_middleware.rs\<close>):
  thoughts are cut out, commands for scheduled jobs and requests for skills are found, the commands are
  run and cut out. The regular expressions of the code are written out as matchers: a matcher looks
  whether a match begins at the start of a text, and gives its captures and what follows it.
\<close>

section \<open>Matches\<close>

type_synonym 'c matcher = "string \<Rightarrow> ('c \<times> string) option"

text \<open>
  All matches from left to right, none overlapping, with the characters outside of them. The
  expressions match no empty text, so a match shortens what is left.
\<close>

function scan :: "'c matcher \<Rightarrow> string \<Rightarrow> ('c + char) list" where
  "scan m [] = []"
| "scan m (c # cs) =
     (case m (c # cs) of
        Some (x, rest) \<Rightarrow> Inl x # (if length rest \<le> length cs then scan m rest else [])
      | None \<Rightarrow> Inr c # scan m cs)"
  by pat_completeness auto
termination
  by (relation "measure (\<lambda>(m, s). length s)") auto

definition captures_iter :: "'c matcher \<Rightarrow> string \<Rightarrow> 'c list" where
  "captures_iter m text = concat (map (case_sum (\<lambda>x. [x]) (\<lambda>_. [])) (scan m text))"

definition is_match :: "'c matcher \<Rightarrow> string \<Rightarrow> bool" where
  "is_match m text \<longleftrightarrow> captures_iter m text \<noteq> []"

text \<open>\<open>replace_all\<close> with the empty text.\<close>

definition cut_all :: "'c matcher \<Rightarrow> string \<Rightarrow> string" where
  "cut_all m text = concat (map (case_sum (\<lambda>_. []) (\<lambda>c. [c])) (scan m text))"

section \<open>The expressions\<close>

text \<open>\<open>(?s)<think(?:ing)?>.*?</think(?:ing)?>\<close>\<close>

fun after_think :: "string \<Rightarrow> string option" where
  "after_think [] = None"
| "after_think (c # cs) =
     (case strip_prefix ''</think>'' (c # cs) of
        Some rest \<Rightarrow> Some rest
      | None \<Rightarrow>
          (case strip_prefix ''</thinking>'' (c # cs) of
             Some rest \<Rightarrow> Some rest
           | None \<Rightarrow> after_think cs))"

definition think_tag :: "unit matcher" where
  "think_tag text =
     map_option (Pair ())
       (case strip_prefix ''<think>'' text of
          Some rest \<Rightarrow> after_think rest
        | None \<Rightarrow> Option.bind (strip_prefix ''<thinking>'' text) after_think)"

text \<open>
  \<open>(?s)\[CRON_CREATE\]\s*(.*?)\s*\[/CRON_CREATE\]\<close>: the body ends at the first closing tag, and the white
  space around it is not captured.
\<close>

definition until_close :: "(char \<Rightarrow> bool) \<Rightarrow> string \<Rightarrow> string matcher" where
  "until_close ws close text =
     map_option (\<lambda>(body, rest). (str_trim ws body, drop (length close) rest)) (find_text close text)"

definition cron_create_tag :: "(char \<Rightarrow> bool) \<Rightarrow> string matcher" where
  "cron_create_tag ws text = Option.bind (strip_prefix ''[CRON_CREATE]'' text) (until_close ws ''[/CRON_CREATE]'')"

text \<open>
  \<open>:\s*([^\]]+)\]\<close> after the name of a tag: everything up to the first bracket, which must be something.
  The capture is trimmed wherever it is used, so it is trimmed here.
\<close>

definition tag_argument :: "(char \<Rightarrow> bool) \<Rightarrow> string matcher" where
  "tag_argument ws text =
     (let argument = takeWhile (\<lambda>c. c \<noteq> CHR '']'') text
      in if argument = [] \<or> length argument = length text then None
         else Some (str_trim ws argument, drop (length argument + 1) text))"

definition cron_update_tag :: "(char \<Rightarrow> bool) \<Rightarrow> (string \<times> string) matcher" where
  "cron_update_tag ws text =
     Option.bind (Option.bind (strip_prefix ''[CRON_UPDATE:'' text) (tag_argument ws)) (\<lambda>(job_id, rest).
       map_option (\<lambda>(body, rest). ((job_id, body), rest)) (until_close ws ''[/CRON_UPDATE]'' rest))"

definition cron_list_tag :: "unit matcher" where
  "cron_list_tag text = map_option (Pair ()) (strip_prefix ''[CRON_LIST]'' text)"

definition cron_delete_tag :: "(char \<Rightarrow> bool) \<Rightarrow> string matcher" where
  "cron_delete_tag ws text = Option.bind (strip_prefix ''[CRON_DELETE:'' text) (tag_argument ws)"

text \<open>\<open>(?i)\[LOAD_SKILL:\s*([^\]]+)\]\<close>, where \<open>ci\<close> is the case folding of the crate.\<close>

definition load_skill_tag :: "(char \<Rightarrow> bool) \<Rightarrow> (char \<Rightarrow> char) \<Rightarrow> string matcher" where
  "load_skill_tag ws ci text =
     (let open_tag = ''[LOAD_SKILL:''
      in if map ci (take (length open_tag) text) = map ci open_tag
         then tag_argument ws (drop (length open_tag) text) else None)"

section \<open>Commands\<close>

definition strip_think_tags :: "string \<Rightarrow> string" where
  "strip_think_tags text = cut_all think_tag text"

record cron_create_params =
  nc_name :: string
  nc_schedule :: string
  nc_schedule_description :: string
  nc_message :: string

record cron_update_params =
  cu_job_id :: string
  cu_name :: string
  cu_schedule :: string
  cu_schedule_description :: string
  cu_message :: string

datatype cron_command =
    is_create: CommandCreate cron_create_params
  | is_update: CommandUpdate cron_update_params
  | is_list: CommandList
  | is_delete: CommandDelete string

record cron_command_fields =
  cf_name :: "string option"
  cf_schedule :: "string option"
  cf_schedule_description :: "string option"
  cf_message :: "string option"

definition command_line :: "(char \<Rightarrow> bool) \<Rightarrow> string \<Rightarrow> cron_command_fields \<Rightarrow> cron_command_fields" where
  "command_line ws line fs =
     (let line = str_trim ws line
      in case strip_prefix ''name:'' line of
           Some val \<Rightarrow> fs\<lparr>cf_name := Some (str_trim ws val)\<rparr>
         | None \<Rightarrow>
        (case strip_prefix ''schedule_description:'' line of
           Some val \<Rightarrow> fs\<lparr>cf_schedule_description := Some (str_trim ws val)\<rparr>
         | None \<Rightarrow>
        (case strip_prefix ''schedule:'' line of
           Some val \<Rightarrow> fs\<lparr>cf_schedule := Some (str_trim ws val)\<rparr>
         | None \<Rightarrow>
        (case strip_prefix ''message:'' line of
           Some val \<Rightarrow> fs\<lparr>cf_message := Some (str_trim ws val)\<rparr>
         | None \<Rightarrow> fs))))"

definition parse_cron_command_body :: "(char \<Rightarrow> bool) \<Rightarrow> string \<Rightarrow> cron_command_fields" where
  "parse_cron_command_body ws body =
     fold (command_line ws) (str_lines body)
       \<lparr>cf_name = None, cf_schedule = None, cf_schedule_description = None, cf_message = None\<rparr>"

definition or_empty :: "string option \<Rightarrow> string" where
  "or_empty v = (case v of None \<Rightarrow> [] | Some s \<Rightarrow> s)"

definition parse_cron_create_body :: "(char \<Rightarrow> bool) \<Rightarrow> string \<Rightarrow> cron_create_params option" where
  "parse_cron_create_body ws body =
     (let fs = parse_cron_command_body ws body
      in map_option (\<lambda>schedule. \<lparr>nc_name = or_empty (cf_name fs), nc_schedule = schedule,
           nc_schedule_description = or_empty (cf_schedule_description fs),
           nc_message = or_empty (cf_message fs)\<rparr>) (cf_schedule fs))"

definition parse_cron_update_body :: "(char \<Rightarrow> bool) \<Rightarrow> string \<Rightarrow> string \<Rightarrow> cron_update_params option" where
  "parse_cron_update_body ws job_id body =
     (if job_id = [] then None
      else
        let fs = parse_cron_command_body ws body
        in case (cf_name fs, cf_schedule fs, cf_schedule_description fs, cf_message fs) of
             (Some name, Some schedule, Some description, Some message) \<Rightarrow>
               Some \<lparr>cu_job_id = job_id, cu_name = name, cu_schedule = schedule,
                     cu_schedule_description = description, cu_message = message\<rparr>
           | _ \<Rightarrow> None)"

definition detect_cron_commands :: "(char \<Rightarrow> bool) \<Rightarrow> string \<Rightarrow> cron_command list" where
  "detect_cron_commands ws text =
     map CommandCreate (List.map_filter (parse_cron_create_body ws) (captures_iter (cron_create_tag ws) text)) @
     map CommandUpdate (List.map_filter (\<lambda>(job_id, body). parse_cron_update_body ws job_id body)
       (captures_iter (cron_update_tag ws) text)) @
     (if is_match cron_list_tag text then [CommandList] else []) @
     map CommandDelete (filter (\<lambda>i. i \<noteq> []) (captures_iter (cron_delete_tag ws) text))"

definition has_cron_commands :: "(char \<Rightarrow> bool) \<Rightarrow> string \<Rightarrow> bool" where
  "has_cron_commands ws text \<longleftrightarrow>
     is_match (cron_create_tag ws) text \<or> is_match (cron_update_tag ws) text \<or>
     is_match cron_list_tag text \<or> is_match (cron_delete_tag ws) text"

definition strip_cron_commands :: "(char \<Rightarrow> bool) \<Rightarrow> string \<Rightarrow> string" where
  "strip_cron_commands ws text =
     cut_all (cron_delete_tag ws) (cut_all cron_list_tag (cut_all (cron_update_tag ws) (cut_all (cron_create_tag ws) text)))"

definition add_skill_name :: "string \<Rightarrow> string list \<Rightarrow> string list" where
  "add_skill_name name names = (if name = [] \<or> name \<in> set names then names else names @ [name])"

definition detect_skill_load_requests :: "(char \<Rightarrow> bool) \<Rightarrow> (char \<Rightarrow> char) \<Rightarrow> string \<Rightarrow> string list" where
  "detect_skill_load_requests ws ci text = fold add_skill_name (captures_iter (load_skill_tag ws ci) text) []"

definition has_skill_load_requests :: "(char \<Rightarrow> bool) \<Rightarrow> (char \<Rightarrow> char) \<Rightarrow> string \<Rightarrow> bool" where
  "has_skill_load_requests ws ci text \<longleftrightarrow> is_match (load_skill_tag ws ci) text"

section \<open>The pipeline\<close>

record cron_command_result =
  cr_success :: bool
  cr_message :: string

text \<open>\<open>ICronService\<close>, and \<open>ISkillLoadService\<close> as what it answers: names and bodies.\<close>

record 's cron_commands =
  op_create :: "string \<Rightarrow> string \<Rightarrow> cron_create_params \<Rightarrow> ('s, cron_command_result) coroutine"
  op_update :: "string \<Rightarrow> string \<Rightarrow> cron_update_params \<Rightarrow> ('s, cron_command_result) coroutine"
  op_list :: "string \<Rightarrow> string \<Rightarrow> ('s, cron_command_result) coroutine"
  op_delete :: "string \<Rightarrow> string \<Rightarrow> ('s, cron_command_result) coroutine"

type_synonym skill_loader = "string list \<Rightarrow> (string \<times> string) list"

record middleware_result =
  mr_message :: string
  mr_display_message :: "string option"
  mr_system_responses :: "string list"

definition load_requested_skills :: "skill_loader option \<Rightarrow> string list \<Rightarrow> string list" where
  "load_requested_skills loader names =
     (if names = [] then []
      else case loader of
        None \<Rightarrow> []
      | Some load_bodies \<Rightarrow>
          map (\<lambda>(name, body). ''[Skill: '' @ name @ '']'' @ newline # body) (load_bodies names))"

definition response_text :: "cron_command_result \<Rightarrow> string" where
  "response_text r =
     (if cr_success r then ''[System: '' @ cr_message r @ '']'' else ''[System Error: '' @ cr_message r @ '']'')"

fun run_command ::
    "'s cron_commands \<Rightarrow> string \<Rightarrow> string \<Rightarrow> cron_command \<Rightarrow> ('s, cron_command_result) coroutine" where
  "run_command S user_id conversation_id (CommandCreate params) = op_create S user_id conversation_id params"
| "run_command S user_id conversation_id (CommandUpdate params) = op_update S user_id conversation_id params"
| "run_command S user_id conversation_id CommandList = op_list S user_id conversation_id"
| "run_command S user_id conversation_id (CommandDelete i) = op_delete S user_id i"

fun run_commands ::
    "'s cron_commands \<Rightarrow> string \<Rightarrow> string \<Rightarrow> cron_command list \<Rightarrow> ('s, string list) coroutine" where
  "run_commands S user_id conversation_id [] = Done []"
| "run_commands S user_id conversation_id (command # commands) =
     co_bind (run_command S user_id conversation_id command) (\<lambda>r.
     co_bind (run_commands S user_id conversation_id commands) (\<lambda>responses.
       Done (response_text r # responses)))"

definition execute_cron_commands ::
    "'s cron_commands option \<Rightarrow> string \<Rightarrow> string \<Rightarrow> cron_command list \<Rightarrow> ('s, string list) coroutine" where
  "execute_cron_commands cron_service user_id conversation_id commands =
     (case cron_service of
        None \<Rightarrow> Done [''[System: Cron service is not available]'']
      | Some S \<Rightarrow> run_commands S user_id conversation_id commands)"

definition process ::
    "(char \<Rightarrow> bool) \<Rightarrow> (char \<Rightarrow> char) \<Rightarrow> 's cron_commands option \<Rightarrow> skill_loader option \<Rightarrow> string
      \<Rightarrow> string \<Rightarrow> string \<Rightarrow> ('s, middleware_result) coroutine" where
  "process ws ci cron_service loader message user_id conversation_id =
     (let cleaned = strip_think_tags message;
          has_cron = has_cron_commands ws cleaned;
          has_skill_load = has_skill_load_requests ws ci cleaned
      in if \<not> has_cron \<and> \<not> has_skill_load then
           Done \<lparr>mr_message = cleaned, mr_display_message = None, mr_system_responses = []\<rparr>
         else
           let commands = detect_cron_commands ws cleaned;
               skill_names = detect_skill_load_requests ws ci cleaned;
               display = (if has_cron then strip_cron_commands ws cleaned else cleaned)
           in co_bind (if commands = [] then Done []
                       else execute_cron_commands cron_service user_id conversation_id commands) (\<lambda>responses.
              Done \<lparr>mr_message = display, mr_display_message = (if has_cron then Some display else None),
                    mr_system_responses = responses @ load_requested_skills loader skill_names\<rparr>))"

text \<open>What is left when a command inside of a tag was cut out can be a tag, which is shown.\<close>

lemma stripping_leaves_a_command:
  "strip_cron_commands ws ''[CRON_[CRON_LIST]LIST]'' = ''[CRON_LIST]'' \<and>
    detect_cron_commands ws ''[CRON_[CRON_LIST]LIST]'' = [CommandList]"
  by (simp add: strip_cron_commands_def detect_cron_commands_def cut_all_def captures_iter_def is_match_def
      cron_create_tag_def cron_update_tag_def cron_list_tag_def cron_delete_tag_def strip_prefix_def map_filter_simps)

section \<open>Where matches begin\<close>

definition begins_with :: "char \<Rightarrow> 'c matcher \<Rightarrow> bool" where
  "begins_with c m \<longleftrightarrow> (\<forall>text. m text \<noteq> None \<longrightarrow> (\<exists>rest. text = c # rest))"

lemma strip_prefix_Some [simp]: "strip_prefix p s = Some r \<longleftrightarrow> s = p @ r"
  by (auto simp: strip_prefix_def prefix_def)

lemma begins_with_tags:
  "begins_with (CHR ''<'') think_tag" "begins_with (CHR ''['') (cron_create_tag ws)"
  "begins_with (CHR ''['') (cron_update_tag ws)" "begins_with (CHR ''['') cron_list_tag"
  "begins_with (CHR ''['') (cron_delete_tag ws)"
  by (auto simp: begins_with_def think_tag_def cron_create_tag_def cron_update_tag_def cron_list_tag_def
      cron_delete_tag_def bind_eq_Some_conv split: option.splits)

lemma scan_None: "m (c # cs) = None \<Longrightarrow> scan m (c # cs) = Inr c # scan m cs"
  by simp

lemma scan_match: "m s = Some (x, rest) \<Longrightarrow> length rest < length s \<Longrightarrow> scan m s = Inl x # scan m rest"
  by (cases s) auto

declare scan.simps(2) [simp del]

lemma scan_plain: "begins_with c m \<Longrightarrow> c \<notin> set xs \<Longrightarrow> scan m (xs @ ys) = map Inr xs @ scan m ys"
proof (induction xs)
  case (Cons x xs)
  then have "m (x # xs @ ys) = None"
    by (auto simp: begins_with_def simp del: not_None_eq)
  with Cons show ?case
    by (simp add: scan_None)
qed simp

lemma cut_Inr [simp]: "concat (map (case_sum (\<lambda>_. []) (\<lambda>c. [c])) (map Inr xs)) = xs"
  by (induction xs) simp_all

lemma capture_Inr [simp]: "concat (map (case_sum (\<lambda>x. [x]) (\<lambda>_. [])) (map Inr xs)) = []"
  by (induction xs) simp_all

lemma matches_plain:
  assumes "begins_with c m" and "c \<notin> set xs"
  shows "captures_iter m (xs @ ys) = captures_iter m ys" and "cut_all m (xs @ ys) = xs @ cut_all m ys"
  using scan_plain [OF assms, of ys] by (simp_all add: captures_iter_def cut_all_def del: map_map)

lemma matches_none:
  "begins_with c m \<Longrightarrow> c \<notin> set xs \<Longrightarrow> captures_iter m xs = [] \<and> cut_all m xs = xs"
  using matches_plain [of c m xs "[]"] by (simp add: captures_iter_def cut_all_def)

lemma matches_here:
  assumes "m text = Some (x, rest)" and "length rest < length text"
  shows "captures_iter m text = x # captures_iter m rest" and "cut_all m text = cut_all m rest"
  using scan_match [where m = m, OF assms] by (simp_all add: captures_iter_def cut_all_def)

lemma matches_not_here:
  assumes "m (c # cs) = None"
  shows "captures_iter m (c # cs) = captures_iter m cs" and "cut_all m (c # cs) = c # cut_all m cs"
  using scan_None [where m = m, OF assms] by (simp_all add: captures_iter_def cut_all_def)

section \<open>Thoughts\<close>

text \<open>A message in pieces: what the user sees, and thoughts, short or long in their tags.\<close>

datatype piece = Plain string | Thought bool bool string

fun piece_text :: "piece \<Rightarrow> string" where
  "piece_text (Plain s) = s"
| "piece_text (Thought short_open short_close s) =
     (if short_open then ''<think>'' else ''<thinking>'') @ s @ (if short_close then ''</think>'' else ''</thinking>'')"

fun visible_text :: "piece \<Rightarrow> string" where
  "visible_text (Plain s) = s"
| "visible_text (Thought _ _ _) = []"

fun piece_ok :: "piece \<Rightarrow> bool" where
  "piece_ok (Plain s) \<longleftrightarrow> CHR ''<'' \<notin> set s"
| "piece_ok (Thought _ _ s) \<longleftrightarrow> \<not> sublist ''</think>'' s \<and> \<not> sublist ''</thinking>'' s"

lemma no_early_prefix:
  assumes "\<not> prefix p x" and "c \<notin> set (tl p)" and "x \<noteq> []"
  shows "strip_prefix p (x @ c # y) = None"
proof -
  have "\<not> prefix p (x @ c # y)"
  proof
    assume "prefix p (x @ c # y)"
    with assms(1) obtain q where q: "p = x @ q" "prefix q (c # y)"
      by (auto simp: prefix_append)
    with assms(1) obtain q' where "q = c # q'"
      by (cases q) auto
    with q(1) assms(2,3) show False
      by (cases x) auto
  qed
  then show ?thesis
    by (simp add: strip_prefix_def)
qed

lemma after_think_end:
  assumes "\<not> sublist ''</think>'' s" and "\<not> sublist ''</thinking>'' s"
  shows "after_think (s @ (if short then ''</think>'' else ''</thinking>'') @ rest) = Some rest"
  using assms
proof (induction s)
  case Nil
  show ?case
    by (auto simp: strip_prefix_def)
next
  case (Cons c s)
  let ?tail = "(if short then ''/think>'' else ''/thinking>'') @ rest"
  have tag: "(if short then ''</think>'' else ''</thinking>'') @ rest = CHR ''<'' # ?tail"
    by simp
  have "\<not> sublist ''</think>'' s" "\<not> sublist ''</thinking>'' s"
    using Cons.prems by (meson sublist_Cons_right)+
  note later = Cons.IH [OF this, unfolded tag]
  have "\<not> prefix ''</think>'' (c # s)" "\<not> prefix ''</thinking>'' (c # s)"
    using Cons.prems by (blast intro: prefix_imp_sublist)+
  then have "strip_prefix ''</think>'' ((c # s) @ CHR ''<'' # ?tail) = None"
      "strip_prefix ''</thinking>'' ((c # s) @ CHR ''<'' # ?tail) = None"
    by (intro no_early_prefix; simp)+
  then show ?case
    unfolding tag using later by simp
qed

lemma thought_is_cut:
  assumes "piece_ok (Thought so sc s)"
  shows "cut_all think_tag (piece_text (Thought so sc s) @ rest) = cut_all think_tag rest"
proof -
  have "think_tag (piece_text (Thought so sc s) @ rest) = Some ((), rest)"
    using after_think_end [of s sc rest] assms by (cases so) (auto simp: think_tag_def strip_prefix_def)
  then show ?thesis
    by (rule matches_here) (cases so; cases sc; simp)
qed

lemma thoughts_are_cut:
  assumes "list_all piece_ok ps"
  shows "strip_think_tags (concat (map piece_text ps)) = concat (map visible_text ps)"
  using assms
proof (induction ps)
  case Nil
  then show ?case
    by (simp add: strip_think_tags_def cut_all_def)
next
  case (Cons p ps)
  then show ?case
    using matches_plain(2) [OF begins_with_tags(1)] thought_is_cut
    by (cases p) (simp_all add: strip_think_tags_def del: piece_text.simps(2))
qed

lemma nothing_to_cut: "CHR ''<'' \<notin> set text \<Longrightarrow> strip_think_tags text = text"
  using matches_none [OF begins_with_tags(1)] by (simp add: strip_think_tags_def)

text \<open>What the middleware does with a message, it does with the message without its thoughts.\<close>

lemma thoughts_have_no_effect:
  assumes "list_all piece_ok ps"
  shows "process ws ci cron_service loader (concat (map piece_text ps)) user_id conversation_id =
    process ws ci cron_service loader (concat (map visible_text ps)) user_id conversation_id"
proof -
  have "CHR ''<'' \<notin> set (concat (map visible_text ps))"
    using assms by (induction ps) (auto elim: piece_ok.elims)
  then have "strip_think_tags (concat (map visible_text ps)) = concat (map visible_text ps)"
    by (rule nothing_to_cut)
  then show ?thesis
    by (simp add: process_def thoughts_are_cut [OF assms])
qed

section \<open>Commands in a message\<close>

text \<open>The text an agent is told to write for a command, and the fields that fit into it.\<close>

definition command_body :: "string \<Rightarrow> string \<Rightarrow> string \<Rightarrow> string \<Rightarrow> string" where
  "command_body name schedule description message =
     join_with [newline] [''name: '' @ name, ''schedule: '' @ schedule,
       ''schedule_description: '' @ description, ''message: '' @ message]"

definition create_body :: "cron_create_params \<Rightarrow> string" where
  "create_body p = command_body (nc_name p) (nc_schedule p) (nc_schedule_description p) (nc_message p)"

definition update_body :: "cron_update_params \<Rightarrow> string" where
  "update_body p = command_body (cu_name p) (cu_schedule p) (cu_schedule_description p) (cu_message p)"

definition field_ok :: "(char \<Rightarrow> bool) \<Rightarrow> string \<Rightarrow> bool" where
  "field_ok ws v \<longleftrightarrow> v \<noteq> [] \<and> str_trim ws v = v \<and> plain_line v \<and>
     CHR ''['' \<notin> set v \<and> CHR '']'' \<notin> set v \<and> CHR ''<'' \<notin> set v"

text \<open>A message in parts: what is said, and commands.\<close>

datatype part = Said string | Command cron_command

fun command_text :: "cron_command \<Rightarrow> string" where
  "command_text (CommandCreate p) =
     ''[CRON_CREATE]'' @ newline # create_body p @ newline # ''[/CRON_CREATE]''"
| "command_text (CommandUpdate p) =
     ''[CRON_UPDATE: '' @ cu_job_id p @ '']'' @ newline # update_body p @ newline # ''[/CRON_UPDATE]''"
| "command_text CommandList = ''[CRON_LIST]''"
| "command_text (CommandDelete i) = ''[CRON_DELETE: '' @ i @ '']''"

fun part_text :: "part \<Rightarrow> string" where
  "part_text (Said s) = s"
| "part_text (Command c) = command_text c"

fun command_ok :: "(char \<Rightarrow> bool) \<Rightarrow> cron_command \<Rightarrow> bool" where
  "command_ok ws (CommandCreate p) \<longleftrightarrow>
     list_all (field_ok ws) [nc_name p, nc_schedule p, nc_schedule_description p, nc_message p]"
| "command_ok ws (CommandUpdate p) \<longleftrightarrow>
     list_all (field_ok ws) [cu_job_id p, cu_name p, cu_schedule p, cu_schedule_description p, cu_message p]"
| "command_ok ws CommandList \<longleftrightarrow> True"
| "command_ok ws (CommandDelete i) \<longleftrightarrow> field_ok ws i"

fun part_ok :: "(char \<Rightarrow> bool) \<Rightarrow> part \<Rightarrow> bool" where
  "part_ok ws (Said s) \<longleftrightarrow> CHR ''['' \<notin> set s \<and> CHR ''<'' \<notin> set s"
| "part_ok ws (Command c) \<longleftrightarrow> command_ok ws c"

lemma field_last: "field_ok ws v \<Longrightarrow> v \<noteq> [] \<and> \<not> ws (last v)"
  using trimmed_ends(2) [of ws v] by (simp add: field_ok_def)

lemma field_no_bracket: "field_ok ws v \<Longrightarrow> CHR ''['' \<notin> set v"
  by (simp add: field_ok_def)

lemma field_line:
  assumes "field_ok ws v" and "\<not> ws c"
  shows "str_trim ws ((c # key) @ v) = (c # key) @ v" and "ws (CHR '' '') \<Longrightarrow> str_trim ws (CHR '' '' # v) = v"
  using assms field_last [OF assms(1)] by (simp_all add: str_trim_id str_trim_space field_ok_def)

lemma ascii_ws_chars:
  assumes "ascii_ws ws"
  shows "ws newline" "ws (CHR '' '')" "\<not> ws (CHR ''n'')" "\<not> ws (CHR ''s'')" "\<not> ws (CHR ''m'')"
  using assms by (simp_all add: ascii_ws_def newline_def)

lemma one_line: "plain_line l \<Longrightarrow> l \<noteq> [] \<Longrightarrow> str_lines l = [l]"
  by (simp add: str_lines_plain split_on_plain plain_line_def)

lemma command_line_of:
  assumes "ascii_ws ws" and "field_ok ws v"
  shows "command_line ws (''name: '' @ v) fs = fs\<lparr>cf_name := Some v\<rparr>"
    and "command_line ws (''schedule: '' @ v) fs = fs\<lparr>cf_schedule := Some v\<rparr>"
    and "command_line ws (''schedule_description: '' @ v) fs = fs\<lparr>cf_schedule_description := Some v\<rparr>"
    and "command_line ws (''message: '' @ v) fs = fs\<lparr>cf_message := Some v\<rparr>"
proof -
  note chars = ascii_ws_chars [OF assms(1)]
  note line = field_line(1) [OF assms(2), simplified]
  note val = field_line(2) [OF assms(2) chars(3,2)]
  show "command_line ws (''name: '' @ v) fs = fs\<lparr>cf_name := Some v\<rparr>"
    "command_line ws (''schedule: '' @ v) fs = fs\<lparr>cf_schedule := Some v\<rparr>"
    "command_line ws (''schedule_description: '' @ v) fs = fs\<lparr>cf_schedule_description := Some v\<rparr>"
    "command_line ws (''message: '' @ v) fs = fs\<lparr>cf_message := Some v\<rparr>"
    using line [OF chars(3), of "''ame: ''"] line [OF chars(4), of "''chedule: ''"]
      line [OF chars(4), of "''chedule_description: ''"] line [OF chars(5), of "''essage: ''"]
    by (simp_all add: command_line_def strip_prefix_def val)
qed

lemma command_lines:
  assumes "ascii_ws ws" and "list_all (field_ok ws) [name, schedule, description, message]"
  shows "parse_cron_command_body ws (command_body name schedule description message) =
    \<lparr>cf_name = Some name, cf_schedule = Some schedule, cf_schedule_description = Some description,
     cf_message = Some message\<rparr>"
proof -
  let ?fields = "[''name: '' @ name, ''schedule: '' @ schedule, ''schedule_description: '' @ description,
    ''message: '' @ message]"
  have plain: "\<forall>x \<in> set ?fields. newline \<notin> set x \<and> carriage_return \<notin> set x"
    using assms(2) by (auto simp: field_ok_def plain_line_def newline_def carriage_return_def)
  then have "plain_line (''message: '' @ message)"
    by (simp add: plain_line_def)
  then have last: "str_lines (''message: '' @ message) = [''message: '' @ message]"
    by (rule one_line) simp
  have lines: "str_lines (join_with [newline] ?fields) = ?fields"
    using str_lines_join [of "butlast ?fields" "''message: '' @ message"] plain last by simp
  have step: "command_line ws (''name: '' @ name) fs = fs\<lparr>cf_name := Some name\<rparr>"
      "command_line ws (''schedule: '' @ schedule) fs = fs\<lparr>cf_schedule := Some schedule\<rparr>"
      "command_line ws (''schedule_description: '' @ description) fs =
         fs\<lparr>cf_schedule_description := Some description\<rparr>"
      "command_line ws (''message: '' @ message) fs = fs\<lparr>cf_message := Some message\<rparr>" for fs
    using assms(2) by (simp_all add: command_line_of [OF assms(1), simplified])
  show ?thesis
    unfolding parse_cron_command_body_def command_body_def lines by (simp add: step [simplified])
qed

lemma find_text_here:
  assumes "p \<noteq> []" and "hd p \<notin> set x"
  shows "find_text p (x @ p @ y) = Some (x, p @ y)"
  using assms(2)
proof (induction x)
  case Nil
  from assms(1) show ?case
    by (cases p) simp_all
next
  case (Cons c x)
  then have "\<not> prefix p (c # x @ p @ y)"
    using assms(1) by (cases p) auto
  with Cons show ?case
    by simp
qed

lemma command_body_chars:
  assumes "list_all (field_ok ws) [name, schedule, description, message]"
  shows "CHR ''['' \<notin> set (command_body name schedule description message)"
    and "CHR ''<'' \<notin> set (command_body name schedule description message)"
  using assms by (auto simp: field_ok_def command_body_def newline_def dest!: subsetD [OF set_join])

lemma command_body_trim:
  assumes "ascii_ws ws" and "list_all (field_ok ws) [name, schedule, description, message]"
  shows "str_trim ws (newline # command_body name schedule description message @ [newline]) =
    command_body name schedule description message"
proof -
  let ?body = "command_body name schedule description message"
  have ends: "hd ?body = CHR ''n''" "last ?body = last message" "?body \<noteq> []"
    using field_last [of ws message] assms(2) by (simp_all add: command_body_def)
  then have "str_trim ws ?body = ?body"
    using field_last [of ws message] assms(2) ascii_ws_chars [OF assms(1)]
    by (intro str_trim_id) simp_all
  moreover have "str_trim ws (s @ [newline]) = str_trim ws s" if "s \<noteq> []" "\<not> ws (hd s)" for s
    using that ascii_ws_chars(1) [OF assms(1)] by (cases s) (simp_all add: str_trim_def trim_start_def)
  ultimately show ?thesis
    using ends ascii_ws_chars [OF assms(1)] by (simp add: str_trim_space)
qed

lemma until_close_here:
  assumes "ascii_ws ws" and "list_all (field_ok ws) [name, schedule, description, message]"
    and "close = CHR ''['' # close'"
  shows "until_close ws close (newline # command_body name schedule description message @ newline # close @ post) =
    Some (command_body name schedule description message, post)"
proof -
  let ?body = "command_body name schedule description message"
  have "find_text close ((newline # ?body @ [newline]) @ close @ post) = Some (newline # ?body @ [newline], close @ post)"
    using command_body_chars(1) [OF assms(2)] by (intro find_text_here) (simp_all add: newline_def assms(3))
  then show ?thesis
    by (simp add: until_close_def command_body_trim [OF assms(1,2)])
qed

lemma argument_here:
  assumes "ascii_ws ws" and "field_ok ws i"
  shows "tag_argument ws (CHR '' '' # i @ CHR '']'' # rest) = Some (i, rest)"
proof -
  have "takeWhile (\<lambda>c. c \<noteq> CHR '']'') (CHR '' '' # i @ CHR '']'' # rest) = CHR '' '' # i"
    using assms(2) by (auto simp: field_ok_def takeWhile_append)
  then show ?thesis
    using field_line(2) [OF assms(2) ascii_ws_chars(3,2) [OF assms(1)]] by (simp add: tag_argument_def)
qed

text \<open>What a matcher finds in a message of parts: a command it reads, and nothing that is said.\<close>

definition tag_reads :: "(char \<Rightarrow> bool) \<Rightarrow> 'c matcher \<Rightarrow> (cron_command \<Rightarrow> 'c option) \<Rightarrow> bool" where
  "tag_reads ws m f \<longleftrightarrow> begins_with (CHR ''['') m \<and>
     (\<forall>c rest. command_ok ws c \<longrightarrow>
        scan m (command_text c @ rest) =
          (case f c of Some x \<Rightarrow> [Inl x] | None \<Rightarrow> map Inr (command_text c)) @ scan m rest)"

fun said :: "part \<Rightarrow> string" where
  "said (Said s) = s"
| "said (Command c) = []"

fun commands_in :: "part list \<Rightarrow> cron_command list" where
  "commands_in [] = []"
| "commands_in (Said s # ps) = commands_in ps"
| "commands_in (Command c # ps) = c # commands_in ps"

fun left_by :: "(cron_command \<Rightarrow> 'c option) \<Rightarrow> part \<Rightarrow> bool" where
  "left_by f (Said s) \<longleftrightarrow> True"
| "left_by f (Command c) \<longleftrightarrow> f c = None"

lemma tag_reads_parts:
  assumes "tag_reads ws m f" and "list_all (part_ok ws) ps"
  shows "captures_iter m (concat (map part_text ps)) = List.map_filter f (commands_in ps)"
    and "cut_all m (concat (map part_text ps)) = concat (map part_text (filter (left_by f) ps))"
proof -
  have "captures_iter m (concat (map part_text ps)) = List.map_filter f (commands_in ps) \<and>
    cut_all m (concat (map part_text ps)) = concat (map part_text (filter (left_by f) ps))"
    using assms(2)
  proof (induction ps)
    case Nil
    then show ?case
      by (simp add: captures_iter_def cut_all_def map_filter_simps)
  next
    case (Cons p ps)
    show ?case
    proof (cases p)
      case (Said s)
      with Cons assms(1) show ?thesis
        by (simp add: tag_reads_def matches_plain [where c = "CHR ''[''"])
    next
      case (Command c)
      with Cons.prems assms(1) have "scan m (command_text c @ concat (map part_text ps)) =
          (case f c of Some x \<Rightarrow> [Inl x] | None \<Rightarrow> map Inr (command_text c)) @ scan m (concat (map part_text ps))"
        by (simp add: tag_reads_def)
      with Cons Command show ?thesis
        by (cases "f c") (simp_all add: captures_iter_def cut_all_def map_filter_simps del: map_map)
    qed
  qed
  then show "captures_iter m (concat (map part_text ps)) = List.map_filter f (commands_in ps)"
    and "cut_all m (concat (map part_text ps)) = concat (map part_text (filter (left_by f) ps))"
    by auto
qed

lemma scan_bracket:
  assumes "begins_with (CHR ''['') m" and "m (CHR ''['' # x @ rest) = None" and "CHR ''['' \<notin> set x"
  shows "scan m (CHR ''['' # x @ rest) = map Inr (CHR ''['' # x) @ scan m rest"
  using scan_None [of m _ "x @ rest", OF assms(2)] scan_plain [OF assms(1,3), of rest] by simp

text \<open>The beginnings of the tags of a command.\<close>

fun tag_starts :: "cron_command \<Rightarrow> string list" where
  "tag_starts (CommandCreate p) = [''[CRON_CREATE]'', ''[/CRON_CREATE]'']"
| "tag_starts (CommandUpdate p) = [''[CRON_UPDATE: '', ''[/CRON_UPDATE]'']"
| "tag_starts CommandList = [''[CRON_LIST]'']"
| "tag_starts (CommandDelete i) = [''[CRON_DELETE: '']"

lemma scan_two_brackets:
  assumes "begins_with (CHR ''['') m" and "\<And>r. m (CHR ''['' # x @ r) = None" and "CHR ''['' \<notin> set x"
    and "\<And>r. m (CHR ''['' # y @ r) = None" and "CHR ''['' \<notin> set y"
  shows "scan m (CHR ''['' # x @ CHR ''['' # y @ rest) =
    map Inr (CHR ''['' # x @ CHR ''['' # y) @ scan m rest"
  by (simp add: scan_bracket [OF assms(1,2,3), simplified] scan_bracket [OF assms(1,4,5), simplified])

lemma scan_skips:
  assumes m: "begins_with (CHR ''['') m" and none: "\<And>t r. t \<in> set (tag_starts c) \<Longrightarrow> m (t @ r) = None"
    and ok: "command_ok ws c"
  shows "scan m (command_text c @ rest) = map Inr (command_text c) @ scan m rest"
proof (cases c)
  case (CommandCreate p)
  let ?x = "''CRON_CREATE]'' @ newline # create_body p @ [newline]"
  have "CHR ''['' \<notin> set ?x"
    using ok CommandCreate by (simp add: create_body_def command_body_chars [of ws] newline_def)
  moreover have "m (CHR ''['' # ?x @ r) = None"
      "m (CHR ''['' # ''/CRON_CREATE]'' @ r) = None" for r
    using none [of "''[CRON_CREATE]''"] none [of "''[/CRON_CREATE]''"] CommandCreate by simp_all
  ultimately show ?thesis
    using scan_two_brackets [OF m, of ?x "''/CRON_CREATE]''" rest] CommandCreate by simp
next
  case (CommandUpdate p)
  let ?x = "''CRON_UPDATE: '' @ cu_job_id p @ '']'' @ newline # update_body p @ [newline]"
  have "CHR ''['' \<notin> set ?x"
    using ok CommandUpdate by (simp add: update_body_def command_body_chars [of ws] newline_def field_no_bracket [of ws])
  moreover have "m (CHR ''['' # ?x @ r) = None"
      "m (CHR ''['' # ''/CRON_UPDATE]'' @ r) = None" for r
    using none [of "''[CRON_UPDATE: ''"] none [of "''[/CRON_UPDATE]''"] CommandUpdate by simp_all
  ultimately show ?thesis
    using scan_two_brackets [OF m, of ?x "''/CRON_UPDATE]''" rest] CommandUpdate by simp
next
  case CommandList
  with none [of "''[CRON_LIST]''"] scan_bracket [OF m, of "''CRON_LIST]''" rest] show ?thesis
    by simp
next
  case (CommandDelete i)
  have "CHR ''['' \<notin> set (''CRON_DELETE: '' @ i @ '']'')"
    using ok CommandDelete by (simp add: field_ok_def)
  moreover have "m (CHR ''['' # (''CRON_DELETE: '' @ i @ '']'') @ rest) = None"
    using none [of "''[CRON_DELETE: ''"] CommandDelete by simp
  ultimately show ?thesis
    using scan_bracket [OF m, of "''CRON_DELETE: '' @ i @ '']''" rest] CommandDelete by simp
qed

text \<open>What each expression reads.\<close>

fun created :: "cron_command \<Rightarrow> string option" where
  "created (CommandCreate p) = Some (create_body p)"
| "created _ = None"

fun updated :: "cron_command \<Rightarrow> (string \<times> string) option" where
  "updated (CommandUpdate p) = Some (cu_job_id p, update_body p)"
| "updated _ = None"

fun listed :: "cron_command \<Rightarrow> unit option" where
  "listed CommandList = Some ()"
| "listed _ = None"

fun deleted :: "cron_command \<Rightarrow> string option" where
  "deleted (CommandDelete i) = Some i"
| "deleted _ = None"

lemma readsI:
  assumes "begins_with (CHR ''['') m"
    and "\<And>c rest x. command_ok ws c \<Longrightarrow> f c = Some x \<Longrightarrow> m (command_text c @ rest) = Some (x, rest)"
    and "\<And>c t r. f c = None \<Longrightarrow> t \<in> set (tag_starts c) \<Longrightarrow> m (t @ r) = None"
  shows "tag_reads ws m f"
  unfolding tag_reads_def
proof (intro conjI allI impI assms(1))
  fix c rest assume ok: "command_ok ws c"
  show "scan m (command_text c @ rest) =
      (case f c of Some x \<Rightarrow> [Inl x] | None \<Rightarrow> map Inr (command_text c)) @ scan m rest"
  proof (cases "f c")
    case None
    with assms(1,3) ok show ?thesis
      by (simp add: scan_skips)
  next
    case (Some x)
    have "length rest < length (command_text c @ rest)"
      by (cases c) simp_all
    with scan_match [of m, OF assms(2) [OF ok Some, of rest]] Some show ?thesis
      by simp
  qed
qed

lemma tags_read:
  assumes "ascii_ws ws"
  shows "tag_reads ws (cron_create_tag ws) created" and "tag_reads ws (cron_update_tag ws) updated"
    and "tag_reads ws cron_list_tag listed" and "tag_reads ws (cron_delete_tag ws) deleted"
proof -
  show "tag_reads ws (cron_create_tag ws) created"
  proof (rule readsI [OF begins_with_tags(2)])
    fix c rest x assume "command_ok ws c" "created c = Some x"
    then obtain p where p: "c = CommandCreate p" "x = create_body p"
      and fields: "list_all (field_ok ws) [nc_name p, nc_schedule p, nc_schedule_description p, nc_message p]"
      by (cases c) auto
    show "cron_create_tag ws (command_text c @ rest) = Some (x, rest)"
      using until_close_here [OF assms fields, of "''[/CRON_CREATE]''" _ rest]
      by (simp add: p cron_create_tag_def strip_prefix_def create_body_def)
  next
    fix c t r assume "created c = None" "t \<in> set (tag_starts c)"
    then show "cron_create_tag ws (t @ r) = None"
      by (cases c) (auto simp: cron_create_tag_def strip_prefix_def)
  qed
  show "tag_reads ws (cron_update_tag ws) updated"
  proof (rule readsI [OF begins_with_tags(3)])
    fix c rest x assume "command_ok ws c" "updated c = Some x"
    then obtain p where p: "c = CommandUpdate p" "x = (cu_job_id p, update_body p)"
      and i: "field_ok ws (cu_job_id p)"
      and fields: "list_all (field_ok ws) [cu_name p, cu_schedule p, cu_schedule_description p, cu_message p]"
      by (cases c) auto
    show "cron_update_tag ws (command_text c @ rest) = Some (x, rest)"
      using until_close_here [OF assms fields, of "''[/CRON_UPDATE]''" _ rest]
      by (simp add: p cron_update_tag_def strip_prefix_def update_body_def argument_here [OF assms i])
  next
    fix c t r assume "updated c = None" "t \<in> set (tag_starts c)"
    then show "cron_update_tag ws (t @ r) = None"
      by (cases c) (auto simp: cron_update_tag_def strip_prefix_def)
  qed
  show "tag_reads ws cron_list_tag listed"
  proof (rule readsI [OF begins_with_tags(4)])
    fix c rest x assume "listed c = Some x"
    then show "cron_list_tag (command_text c @ rest) = Some (x, rest)"
      by (cases c) (simp_all add: cron_list_tag_def strip_prefix_def)
  next
    fix c t r assume "listed c = None" "t \<in> set (tag_starts c)"
    then show "cron_list_tag (t @ r) = None"
      by (cases c) (auto simp: cron_list_tag_def strip_prefix_def)
  qed
  show "tag_reads ws (cron_delete_tag ws) deleted"
  proof (rule readsI [OF begins_with_tags(5)])
    fix c rest x assume "command_ok ws c" "deleted c = Some x"
    then show "cron_delete_tag ws (command_text c @ rest) = Some (x, rest)"
      using argument_here [OF assms]
      by (cases c) (simp_all add: cron_delete_tag_def strip_prefix_def)
  next
    fix c t r assume "deleted c = None" "t \<in> set (tag_starts c)"
    then show "cron_delete_tag ws (t @ r) = None"
      by (cases c) (auto simp: cron_delete_tag_def strip_prefix_def)
  qed
qed

text \<open>Case folding joins the opening bracket with nothing, and keeps the letters below apart.\<close>

definition keeps_tags :: "(char \<Rightarrow> char) \<Rightarrow> bool" where
  "keeps_tags ci \<longleftrightarrow> (\<forall>c. ci c = ci (CHR ''['') \<longrightarrow> c = CHR ''['') \<and>
     ci (CHR ''C'') \<noteq> ci (CHR ''L'') \<and> ci (CHR ''/'') \<noteq> ci (CHR ''L'')"

lemma load_skill_reads:
  assumes "keeps_tags ci"
  shows "tag_reads ws (load_skill_tag ws ci) (\<lambda>_. None)"
proof (rule readsI)
  show "begins_with (CHR ''['') (load_skill_tag ws ci)"
    unfolding begins_with_def
  proof (intro allI impI)
    fix s assume "load_skill_tag ws ci s \<noteq> None"
    then have "map ci (take 12 s) = map ci ''[LOAD_SKILL:''"
      by (simp add: load_skill_tag_def numeral_eq_Suc split: if_splits)
    with assms show "\<exists>rest. s = CHR ''['' # rest"
      by (cases s) (auto simp: keeps_tags_def)
  qed
next
  fix c :: cron_command and t r assume "t \<in> set (tag_starts c)"
  then show "load_skill_tag ws ci (t @ r) = None"
    using assms by (cases c) (auto simp: load_skill_tag_def keeps_tags_def)
qed simp

text \<open>The order in which the commands of a message are run.\<close>

definition in_order :: "cron_command list \<Rightarrow> cron_command list" where
  "in_order cs = filter is_create cs @ filter is_update cs @
     (if CommandList \<in> set cs then [CommandList] else []) @ filter is_delete cs"

lemma set_in_order [simp]: "set (in_order cs) = set cs"
proof -
  have "c \<in> set (in_order cs) \<longleftrightarrow> c \<in> set cs" for c
    by (cases c) (auto simp: in_order_def)
  then show ?thesis
    by blast
qed

lemma commands_in_ok: "list_all (part_ok ws) ps \<Longrightarrow> list_all (command_ok ws) (commands_in ps)"
  by (induction ps rule: commands_in.induct) simp_all

lemma create_body_parsed:
  assumes "ascii_ws ws" and "command_ok ws (CommandCreate p)"
  shows "parse_cron_create_body ws (create_body p) = Some p"
  using command_lines [OF assms(1), of "nc_name p" "nc_schedule p" "nc_schedule_description p" "nc_message p"] assms(2)
  by (simp add: parse_cron_create_body_def create_body_def or_empty_def)

lemma update_body_parsed:
  assumes "ascii_ws ws" and "command_ok ws (CommandUpdate p)"
  shows "parse_cron_update_body ws (cu_job_id p) (update_body p) = Some p"
  using command_lines [OF assms(1), of "cu_name p" "cu_schedule p" "cu_schedule_description p" "cu_message p"] assms(2)
  by (simp add: parse_cron_update_body_def update_body_def field_ok_def)

lemma creates_read:
  assumes "ascii_ws ws" and "list_all (command_ok ws) cs"
  shows "map CommandCreate (List.map_filter (parse_cron_create_body ws) (List.map_filter created cs)) =
    filter is_create cs"
  using assms(2)
proof (induction cs)
  case (Cons c cs)
  then show ?case
    using create_body_parsed [OF assms(1)] by (cases c) (simp_all add: map_filter_simps del: command_ok.simps(1))
qed (simp add: map_filter_simps)

lemma updates_read:
  assumes "ascii_ws ws" and "list_all (command_ok ws) cs"
  shows "map CommandUpdate (List.map_filter (\<lambda>(job_id, body). parse_cron_update_body ws job_id body)
      (List.map_filter updated cs)) = filter is_update cs"
  using assms(2)
proof (induction cs)
  case (Cons c cs)
  then show ?case
    using update_body_parsed [OF assms(1)] by (cases c) (simp_all add: map_filter_simps del: command_ok.simps(2))
qed (simp add: map_filter_simps)

lemma deletes_read:
  assumes "list_all (command_ok ws) cs"
  shows "map CommandDelete (filter (\<lambda>i. i \<noteq> []) (List.map_filter deleted cs)) = filter is_delete cs"
  using assms
proof (induction cs)
  case (Cons c cs)
  then show ?case
    by (cases c) (simp_all add: map_filter_simps field_ok_def)
qed (simp add: map_filter_simps)

lemma lists_read: "List.map_filter listed cs \<noteq> [] \<longleftrightarrow> CommandList \<in> set cs"
proof (induction cs)
  case (Cons c cs)
  then show ?case
    by (cases c) (simp_all add: map_filter_simps)
qed (simp add: map_filter_simps)

lemma commands_detected:
  assumes "ascii_ws ws" and "list_all (part_ok ws) ps"
  shows "detect_cron_commands ws (concat (map part_text ps)) = in_order (commands_in ps)"
  using tags_read [OF assms(1), THEN tag_reads_parts(1), OF assms(2)] commands_in_ok [OF assms(2)]
  by (simp add: detect_cron_commands_def in_order_def is_match_def creates_read [OF assms(1)]
      updates_read [OF assms(1)] deletes_read lists_read)

lemma has_commands:
  assumes "ascii_ws ws" and "list_all (part_ok ws) ps"
  shows "has_cron_commands ws (concat (map part_text ps)) \<longleftrightarrow> commands_in ps \<noteq> []"
proof -
  have "(List.map_filter created cs \<noteq> [] \<or> List.map_filter updated cs \<noteq> [] \<or>
      List.map_filter listed cs \<noteq> [] \<or> List.map_filter deleted cs \<noteq> []) \<longleftrightarrow> cs \<noteq> []" for cs
  proof (cases cs)
    case (Cons c cs')
    then show ?thesis
      by (cases c) (simp_all add: map_filter_simps)
  qed (simp add: map_filter_simps)
  then show ?thesis
    using tags_read [OF assms(1), THEN tag_reads_parts(1), OF assms(2)]
    by (simp add: has_cron_commands_def is_match_def)
qed

lemma parts_left: "list_all (part_ok ws) ps \<Longrightarrow> list_all (part_ok ws) (filter Q ps)"
  by (induction ps) simp_all

lemma commands_stripped:
  assumes "ascii_ws ws" and "list_all (part_ok ws) ps"
  shows "strip_cron_commands ws (concat (map part_text ps)) = concat (map said ps)"
proof -
  note cut = tags_read [OF assms(1), THEN tag_reads_parts(2)]
  have "concat (map part_text (filter (left_by deleted) (filter (left_by listed) (filter (left_by updated)
      (filter (left_by created) ps))))) = concat (map said ps)"
  proof (induction ps)
    case (Cons p ps)
    show ?case
    proof (cases p)
      case (Command c)
      with Cons show ?thesis
        by (cases c) simp_all
    qed (use Cons in simp)
  qed simp
  then show ?thesis
    by (simp add: strip_cron_commands_def cut parts_left assms(2) del: filter_filter)
qed

lemma parts_without_thoughts:
  "list_all (part_ok ws) ps \<Longrightarrow> CHR ''<'' \<notin> set (concat (map part_text ps))"
proof (induction ps)
  case (Cons p ps)
  have "CHR ''<'' \<notin> set (command_text c)" if "command_ok ws c" for c
    using that command_body_chars(2) [of ws]
    by (cases c) (simp_all add: create_body_def update_body_def newline_def, simp_all add: field_ok_def)
  with Cons show ?case
    by (cases p) auto
qed simp

lemma process_parts:
  assumes "ascii_ws ws" and "keeps_tags ci" and "list_all (part_ok ws) ps"
  shows "process ws ci cron_service loader (concat (map part_text ps)) user_id conversation_id =
    (let shown = concat (map said ps)
     in if commands_in ps = [] then
          Done \<lparr>mr_message = shown, mr_display_message = None, mr_system_responses = []\<rparr>
        else co_bind (execute_cron_commands cron_service user_id conversation_id (in_order (commands_in ps)))
          (\<lambda>responses. Done \<lparr>mr_message = shown, mr_display_message = Some shown,
             mr_system_responses = responses\<rparr>))"
proof -
  let ?text = "concat (map part_text ps)"
  have clean: "strip_think_tags ?text = ?text"
    by (rule nothing_to_cut [OF parts_without_thoughts [OF assms(3)]])
  have "captures_iter (load_skill_tag ws ci) ?text = []"
    using tag_reads_parts(1) [OF load_skill_reads [OF assms(2)] assms(3)]
    by (simp add: List.map_filter_def)
  then have skills: "\<not> has_skill_load_requests ws ci ?text" "detect_skill_load_requests ws ci ?text = []"
    by (simp_all add: has_skill_load_requests_def detect_skill_load_requests_def is_match_def)
  have some: "in_order (commands_in ps) \<noteq> []" if "commands_in ps \<noteq> []"
    using that set_in_order [of "commands_in ps"] by (metis set_empty)
  have none: "?text = concat (map said ps)" if "commands_in ps = []"
    using that by (induction ps rule: commands_in.induct) simp_all
  show ?thesis
    using none some
    by (auto simp: process_def clean skills Let_def has_commands [OF assms(1,3)] commands_detected [OF assms(1,3)]
        commands_stripped [OF assms(1,3)] load_requested_skills_def)
qed


text \<open>
  A message that deletes one job, then creates another, and thinks in between, for a service that
  writes down its calls: the creation comes first.
\<close>

definition recording_service :: "string list cron_commands" where
  "recording_service =
     \<lparr>op_create = (\<lambda>user conversation p. atomic (\<lambda>log. (\<lparr>cr_success = True, cr_message = ''created''\<rparr>,
        log @ [''create '' @ nc_name p]))),
      op_update = (\<lambda>user conversation p. atomic (\<lambda>log. (\<lparr>cr_success = True, cr_message = ''updated''\<rparr>,
        log @ [''update '' @ cu_job_id p]))),
      op_list = (\<lambda>user conversation. atomic (\<lambda>log. (\<lparr>cr_success = True, cr_message = ''none''\<rparr>, log @ [''list'']))),
      op_delete = (\<lambda>user i. atomic (\<lambda>log. (\<lparr>cr_success = False, cr_message = ''no such job''\<rparr>,
        log @ [''delete '' @ i])))\<rparr>"

definition sample_create :: cron_create_params where
  "sample_create = \<lparr>nc_name = ''report'', nc_schedule = ''0 9 * * *'', nc_schedule_description = ''at nine'',
     nc_message = ''Write it.''\<rparr>"

definition sample_parts :: "part list" where
  "sample_parts = [Said ''Of course. '', Command (CommandDelete ''cron_1''), Command (CommandCreate sample_create),
     Said '' Bye.'']"

definition sample_pieces :: "piece list" where
  "sample_pieces = [Plain (concat (map part_text (take 2 sample_parts))), Thought False True ''at [CRON_LIST]?'',
     Plain (concat (map part_text (drop 2 sample_parts)))]"

lemma keeps_tags_ascii: "keeps_tags ascii_lower"
proof -
  have "c = CHR ''[''" if "ascii_lower c = ascii_lower (CHR ''['')" for c
  proof (cases "65 \<le> (of_char c :: nat) \<and> (of_char c :: nat) \<le> 90")
    case True
    then have "(of_char (ascii_lower c) :: nat) = of_char c + 32"
      by (simp add: ascii_lower_def)
    with True that show ?thesis
      by (simp add: ascii_lower_def)
  qed (use that in \<open>auto simp: ascii_lower_def\<close>)
  moreover have "ascii_lower (CHR ''C'') \<noteq> ascii_lower (CHR ''L'')" "ascii_lower (CHR ''/'') \<noteq> ascii_lower (CHR ''L'')"
    by code_simp+
  ultimately show ?thesis
    by (simp add: keeps_tags_def)
qed


end
