(* ===== verification/CronCommands.thy ===== *)
theory CronCommands
  imports CronService ResponseMiddleware
begin

text \<open>
  What a command in a message of an agent does to the scheduled jobs: the service as the middleware of
  finished messages calls it (\<open>ICronService for CronService\<close> in \<open>veryagent-cron/src/service.rs\<close>), with
  the configuration it derives from the conversation the message is of.
\<close>

section \<open>The model of a conversation\<close>

text \<open>
  \<open>veryagent-conversation/src/task_options.rs\<close>. The strict reading of the column is serde's for
  \<open>ProviderWithModel\<close>; the loose one looks into the value.
\<close>

definition empty_provider_model :: provider_with_model where
  "empty_provider_model = \<lparr>pm_provider_id = [], pm_model = [], pm_use_model = None\<rparr>"

definition parse_provider_with_model_loose ::
    "(string \<Rightarrow> provider_with_model option) \<Rightarrow> cron_codec \<Rightarrow> string \<Rightarrow> provider_with_model option" where
  "parse_provider_with_model_loose strict C raw =
     (case strict raw of
        Some model \<Rightarrow> Some model
      | None \<Rightarrow>
          Option.bind (cc_json_from_str C raw) (\<lambda>v.
          let provider_id = or_empty (Option.bind (opt_else (json_get v ''provider_id'')
                (opt_else (json_get v ''providerId'') (json_get v ''id''))) json_as_str)
          in if provider_id = [] then None
             else Some \<lparr>pm_provider_id = provider_id, pm_model = or_empty (json_str v ''model''),
               pm_use_model = Option.bind (opt_else (json_get v ''use_model'') (json_get v ''useModel'')) json_as_str\<rparr>))"

definition provider_model_from_conversation_row ::
    "(string \<Rightarrow> provider_with_model option) \<Rightarrow> cron_codec \<Rightarrow> conversation_row \<Rightarrow> provider_with_model" where
  "provider_model_from_conversation_row strict C row =
     given (Option.bind (vr_model row) (parse_provider_with_model_loose strict C)) empty_provider_model"

section \<open>The configuration of a conversation\<close>

record assistant_snapshot =
  sn_assistant_id :: string
  sn_assistant_name :: string
  sn_agent_id :: string
  sn_resolved_model_id :: "string option"

text \<open>
  What the commands use beside the environment of the service: the strict reading of a model, and the
  snapshot of the assistant a conversation was started with.
\<close>

record command_env =
  ce_model_from_str :: "string \<Rightarrow> provider_with_model option"
  ce_snapshot :: "string \<Rightarrow> db_error + assistant_snapshot option"

definition non_empty :: "string option \<Rightarrow> string option" where
  "non_empty v = (case v of None \<Rightarrow> None | Some s \<Rightarrow> if s = [] then None else Some s)"

fun get_string :: "json \<Rightarrow> string list \<Rightarrow> string option" where
  "get_string extra [] = None"
| "get_string extra (key # keys) = opt_else (non_empty (json_str extra key)) (get_string extra keys)"

text \<open>\<open>.ok()\<close>.\<close>

fun to_option :: "'e + 'a \<Rightarrow> 'a option" where
  "to_option (Inl e) = None"
| "to_option (Inr x) = Some x"

definition definition_rank :: "assistant_definition_row \<Rightarrow> int \<times> int \<times> string" where
  "definition_rank d =
     (if ad_source d = ''builtin'' then 0 else if ad_source d = ''generated'' then 1
      else if ad_source d = ''user'' then 2 else 3, 0, ad_name d)"

definition list_definitions :: "cron_env \<Rightarrow> cron_error + assistant_definition_row list" where
  "list_definitions E = catalog E (filter (\<lambda>d. \<not> ad_deleted d) (en_definitions E))"

definition resolve_assistant_id_for_agent_label :: "cron_env \<Rightarrow> string \<Rightarrow> string option" where
  "resolve_assistant_id_for_agent_label E label =
     Option.bind (to_option (catalog E (en_agents E))) (\<lambda>rows.
     Option.bind (resolve_agent_binding_from_rows (en_ws E) rows label) (\<lambda>binding.
     Option.bind (to_option (list_definitions E)) (\<lambda>definitions.
       map_option ad_assistant_id (min_by rank_less definition_rank
         (filter (\<lambda>d. \<not> ad_deleted d \<and> ad_agent_id d = am_id binding) definitions)))))"

definition resolve_default_assistant_id :: "cron_env \<Rightarrow> string option" where
  "resolve_default_assistant_id E =
     Option.bind (to_option (list_definitions E)) (\<lambda>definitions.
       map_option ad_assistant_id (min_by rank_less definition_rank
         (filter (\<lambda>d. \<not> ad_deleted d) definitions)))"

definition build_agent_config_from_conversation ::
    "cron_env \<Rightarrow> command_env \<Rightarrow> conversation_row \<Rightarrow> string \<times> cron_agent_config_write option \<times> string option" where
  "build_agent_config_from_conversation E K row =
     (let extra = extra_or (JObject []) (en_codec E) (vr_extra row);
          snapshot = Option.bind (to_option (ce_snapshot K (vr_id row))) id;
          resolved = provider_model_from_conversation_row (ce_model_from_str K) (en_codec E) row;
          model = (if pm_provider_id resolved = [] then None else Some resolved);
          provider = non_empty (map_option pm_provider_id model);
          aionrs = (vr_type row = ''aionrs'');
          preset_id = get_string extra [''preset_assistant_id'', ''presetAssistantId''];
          extra_id = opt_else (get_string extra [''assistant_id'', ''assistantId'']) preset_id;
          snapshot_id = non_empty (map_option (\<lambda>sn. trimmed E (sn_assistant_id sn)) snapshot);
          label = (if aionrs then ''aionrs''
                   else given (opt_else provider (get_string extra [''backend''])) (vr_type row));
          legacy_id = (if snapshot_id = None \<and> extra_id = None
                       then resolve_assistant_id_for_agent_label E label else None);
          fallback_id = (if snapshot_id = None \<and> extra_id = None \<and> legacy_id = None
                         then resolve_default_assistant_id E else None);
          assistant_id = opt_else snapshot_id (opt_else extra_id (opt_else legacy_id fallback_id));
          snapshot_backend = Option.bind snapshot (\<lambda>sn.
            non_empty (to_option (runtime_backend_for_agent_id E (trimmed E (sn_agent_id sn)))));
          assistant_backend = (if fallback_id \<noteq> None then None
            else opt_else snapshot_backend (Option.bind (to_option (resolve_assistant_backend E assistant_id)) id));
          backend = (if aionrs
            then given (opt_else provider (opt_else (get_string extra [''backend'']) assistant_backend)) ''aionrs''
            else given (opt_else assistant_backend (opt_else provider (get_string extra [''backend'']))) (vr_type row));
          agent_type = given (agent_type_from_str (vr_type row)) Acp
      in (vr_type row,
          Some \<lparr>wd_name = given (opt_else (non_empty (map_option (\<lambda>sn. trimmed E (sn_assistant_name sn)) snapshot))
                  (get_string extra [''agent_name'', ''agentName''])) (vr_name row),
                wd_cli_path = opt_else (get_string extra [''cli_path'', ''cliPath''])
                  (Option.bind (Option.bind (json_get extra ''gateway'') (\<lambda>gateway.
                     opt_else (json_get gateway ''cli_path'') (json_get gateway ''cliPath''))) json_as_str),
                wd_assistant_id = assistant_id,
                wd_mode = Some (full_auto_mode_id agent_type backend),
                wd_model_id = opt_else (get_string extra [''current_model_id'', ''currentModelId''])
                  (opt_else (Option.bind model (\<lambda>m. opt_else (pm_use_model m) (non_empty (Some (pm_model m)))))
                    (Option.bind snapshot sn_resolved_model_id)),
                wd_model = (if aionrs then model else None),
                wd_config_options = None,
                wd_workspace = get_string extra [''workspace'']\<rparr>,
          snapshot_backend))"

section \<open>The commands\<close>

definition succeeded :: "string \<Rightarrow> cron_command_result" where
  "succeeded message = \<lparr>cr_success = True, cr_message = message\<rparr>"

definition failed :: "cron_error \<Rightarrow> cron_command_result" where
  "failed e = \<lparr>cr_success = False, cr_message = cron_error_display e\<rparr>"

definition command_schedule :: "string \<Rightarrow> string \<Rightarrow> cron_schedule_dto" where
  "command_schedule schedule description = CronDto schedule None (Some description)"

definition create_request ::
    "string \<Rightarrow> cron_create_params \<Rightarrow> string option \<Rightarrow> cron_agent_config_write option \<Rightarrow> create_cron_job_request" where
  "create_request conversation_id params title config =
     \<lparr>cq_name = nc_name params, cq_description = None,
      cq_schedule = command_schedule (nc_schedule params) (nc_schedule_description params),
      cq_prompt = None, cq_message = Some (nc_message params), cq_conversation_id = conversation_id,
      cq_conversation_title = title, cq_created_by = ''agent'', cq_execution_mode = Some ''existing'',
      cq_agent_config = config\<rparr>"

definition command_create_job ::
    "cron_env \<Rightarrow> command_env \<Rightarrow> string \<Rightarrow> string \<Rightarrow> cron_create_params \<Rightarrow> cron_command_result cron_async" where
  "command_create_job E K user_id conversation_id params =
     co_bind (repo (get_conversation conversation_id)) (\<lambda>r.
     let (agent_type, title, config) = (case r of
           Inr (Some row) \<Rightarrow>
             (case build_agent_config_from_conversation E K row of (t, config, _) \<Rightarrow> (t, Some (vr_name row), config))
         | Inr None \<Rightarrow> (''acp'', None, None)
         | Inl _ \<Rightarrow> (''acp'', None, None)) in
     co_bind (add_job_internal E (create_request conversation_id params title config) (Some agent_type)) (\<lambda>r. case r of
       Inr job \<Rightarrow>
         co_bind (quietly (bind_cron_job_to_conversation E conversation_id (cj_id job))) (\<lambda>_.
           Done (succeeded (''Created cron job '' @ quoted (cj_name job) @ '' ('' @ cj_id job @ '')'')))
     | Inl e \<Rightarrow> Done (failed e)))"

definition update_request :: "cron_update_params \<Rightarrow> update_cron_job_request" where
  "update_request params =
     \<lparr>uq_name = Some (cu_name params), uq_description = None, uq_enabled = None,
      uq_schedule = Some (command_schedule (cu_schedule params) (cu_schedule_description params)),
      uq_message = Some (cu_message params), uq_execution_mode = None, uq_agent_config = None,
      uq_conversation_title = None, uq_max_retries = None\<rparr>"

definition command_update_job ::
    "cron_env \<Rightarrow> string \<Rightarrow> string \<Rightarrow> cron_update_params \<Rightarrow> cron_command_result cron_async" where
  "command_update_job E user_id conversation_id params =
     co_bind (update_job E (cu_job_id params) (update_request params)) (\<lambda>r. case r of
       Inr job \<Rightarrow>
         co_bind (quietly (bind_cron_job_to_conversation E conversation_id (cj_id job))) (\<lambda>_.
           Done (succeeded (''Updated cron job '' @ quoted (cj_name job) @ '' ('' @ cj_id job @ '')'')))
     | Inl e \<Rightarrow> Done (failed e))"

definition job_line :: "cron_job \<Rightarrow> string" where
  "job_line j = ''- '' @ cj_name j @ '' ('' @ cj_id j @ '') ['' @
     (if cj_enabled j then ''enabled'' else ''disabled'') @ '']''"

definition command_list_jobs :: "cron_env \<Rightarrow> string \<Rightarrow> string \<Rightarrow> cron_command_result cron_async" where
  "command_list_jobs E user_id conversation_id =
     co_bind (list_jobs E (Some conversation_id)) (\<lambda>r. case r of
       Inr [] \<Rightarrow> Done (succeeded (''No cron jobs found for conversation '' @ quoted conversation_id @ ''.''))
     | Inr jobs \<Rightarrow>
         Done (succeeded (''Found '' @ show_nat (length jobs) @ '' cron job(s) for conversation '' @
           quoted conversation_id @ '':'' @ newline # join_with [newline] (map job_line jobs)))
     | Inl e \<Rightarrow> Done (failed e))"

definition command_delete_job :: "cron_env \<Rightarrow> string \<Rightarrow> string \<Rightarrow> cron_command_result cron_async" where
  "command_delete_job E user_id job_id =
     co_bind (remove_job E job_id) (\<lambda>r. case r of
       Inr _ \<Rightarrow> Done (succeeded (''Deleted cron job '' @ quoted job_id))
     | Inl e \<Rightarrow> Done (failed e))"

text \<open>The service as the middleware sees it.\<close>

definition command_service :: "cron_env \<Rightarrow> command_env \<Rightarrow> cron_state cron_commands" where
  "command_service E K =
     \<lparr>op_create = command_create_job E K, op_update = command_update_job E,
      op_list = command_list_jobs E, op_delete = command_delete_job E\<rparr>"

text \<open>A finished message of an agent, with the commands in it run.\<close>

definition finish_message ::
    "cron_env \<Rightarrow> command_env \<Rightarrow> (char \<Rightarrow> char) \<Rightarrow> skill_loader option \<Rightarrow> string \<Rightarrow> string \<Rightarrow> string
      \<Rightarrow> middleware_result cron_async" where
  "finish_message E K ci loader user_id conversation_id message =
     process (en_ws E) ci (Some (command_service E K)) loader message user_id conversation_id"

end
