(* ===== verification/CronPool.thy ===== *)
theory CronPool
  imports CronInv CronCommands
begin

text \<open>
  Every method of the service keeps the invariant of \<open>CronInv\<close>, so it holds in every interleaving of
  any calls, with the environment moving the clock, failing the database and claiming conversations in
  between. The property at the end is what that means for the table and the timers.
\<close>

section \<open>The service\<close>

abbreviation valid :: "cron_env \<Rightarrow> ('r \<Rightarrow> bool) \<Rightarrow> 'r cron_async \<Rightarrow> bool" where
  "valid E \<equiv> keeps_valid (en_codec E) (en_crate E)"

text \<open>A computation that reads no state and may fail.\<close>

lemma valid_pure: "(\<And>x. r = Inr x \<Longrightarrow> Q x) \<Longrightarrow> valid E (on_ok Q) (Done r)"
  by (intro keeps_Done) (auto simp: on_ok_def split: sum.split)

lemma any_get_job_row [keeping_valid]: "keeps_valid C X any (repo (get_job_row i))"
  by (rule any_of [OF keeps_get_job_row])

lemma valid_load_row: "valid E (on_ok (row_ok (en_codec E) (en_crate E))) (load_row i)"
  unfolding load_row_def
  by (rule keeps_try [OF keeps_get_job_row]) (auto intro!: keeps_Done split: option.split)

lemma any_load_row [keeping_valid]: "valid E any (load_row i)"
  by (rule any_of [OF valid_load_row])

lemma valid_load_job: "valid E (on_ok (job_ok (en_crate E))) (load_job E i)"
  unfolding load_job_def
  by (rule keeps_try [OF valid_load_row],
      rule keeps_try [where P = "job_ok (en_crate E)", OF valid_pure], blast intro: row_ok_job,
      rule keeps_try [where P = any, OF valid_pure]) (auto intro!: keeps_Done)

lemma keeps_bind_existing [keeping_valid]: "keeps_valid C X any (bind_existing_conversation_if_needed E job)"
  by (auto simp: bind_existing_conversation_if_needed_def intro!: composing keeping_valid)

lemma keeps_validate_workspace [keeping_valid]: "keeps_valid C X any (validate_job_workspace E job)"
  by (auto simp: validate_job_workspace_def intro!: composing keeping_valid)

lemma new_row_ok:
  assumes "codec_ok C" and "cron_job_to_row C job = Inr row" and "job_ok X job"
  shows "row_ok C X row"
proof -
  have "schedule_in_range (cj_schedule job)"
    using assms(3) by (simp add: job_ok_def)
  from job_row_round_trip [OF assms(1) this] assms(2)
  have "cron_job_from_row C row = Inr (job\<lparr>cj_agent_type := []\<rparr>)"
    by auto
  with assms(3) show ?thesis
    by (simp add: row_ok_def)
qed

lemma any_on_ok: "keeps_valid C X any c \<Longrightarrow> keeps_valid C X (on_ok any) c"
  by (erule keeps_weaken) simp

lemma keeps_store_new_job:
  assumes "codec_ok (en_codec E)" and "job_ok (en_crate E) job"
  shows "valid E any (store_new_job E job)"
proof -
  have "validate_schedule (en_crate E) (cj_schedule job) = Inr ()"
    using assms(2) by (simp add: job_ok_def)
  then have rest: "valid E (on_ok any) (co_try (repo (insert_job_row row)) (\<lambda>_.
      co_bind (bind_existing_conversation_if_needed E job) (\<lambda>_.
      co_bind (on_timers (schedule_job job)) (\<lambda>_.
      co_bind (tell (JobCreated (cron_job_to_response job))) (\<lambda>_. Done (Inr job))))))"
    if "row_ok (en_codec E) (en_crate E) row" for row
    using that by (intro any_on_ok any_try any_bind keeping_valid any_Done)
  show ?thesis
    unfolding store_new_job_def
    by (rule any_try [OF keeps_validate_workspace], rule any_of,
        rule keeps_try [OF valid_pure, OF new_row_ok [OF assms(1) _ assms(2)] rest])
qed

lemma keeps_add_job:
  assumes "codec_ok (en_codec E)" and "schedule_in_range (schedule_from_dto (cq_schedule req))"
  shows "valid E any (add_job_internal E req t)"
  unfolding add_job_internal_def Let_def
  apply (rule any_of)
  apply (rule keeps_try [OF valid_pure
        [where Q = "\<lambda>_. validate_schedule (en_crate E) (schedule_from_dto (cq_schedule req)) = Inr ()"]])
   apply simp
  apply (rule any_on_ok)
  apply (rule any_try, rule any_Done)+
  apply (rule any_bind, rule any_peek)
  apply (rule any_bind, rule keeps_next_id)
  apply (rule keeps_store_new_job, rule assms(1))
  apply (simp add: job_ok_def assms(2))
  done

text \<open>
  What \<open>update_job\<close> makes of a valid job may have another number of retries, but what it stores is
  within bounds: a schedule that is checked, and texts that parse.
\<close>

definition update_in_range :: "update_cron_job_request \<Rightarrow> bool" where
  "update_in_range req \<longleftrightarrow> (\<forall>dto. uq_schedule req = Some dto \<longrightarrow> schedule_in_range (schedule_from_dto dto))"

lemma existing_timezone_range [simp]:
  "schedule_in_range (schedule_from_dto_with_existing_timezone dto old) = schedule_in_range (schedule_from_dto dto)"
  by (cases "(dto, old)" rule: schedule_from_dto_with_existing_timezone.cases) simp_all

lemma with_agent_config_kept:
  "with_agent_config E req job = Inr job' \<Longrightarrow> cj_schedule job' = cj_schedule job"
  by (auto simp: with_agent_config_def Let_def split: option.splits)

lemma changed_job_valid:
  assumes "changed_job E req now job = Inr job'" and "job_ok (en_crate E) job" and "update_in_range req"
  shows "validate_schedule (en_crate E) (cj_schedule job') = Inr ()"
    and "schedule_in_range (cj_schedule job')"
    and "uq_execution_mode req = Some m \<Longrightarrow> \<exists>mode. parse_execution_mode (Some m) = Inr mode"
proof -
  obtain j1 j2 j3 where j: "with_schedule E req (with_names req job) = Inr j1" "with_mode req j1 = Inr j2"
      "with_agent_config E req j2 = Inr j3" "job' = with_dates E req now j3"
    using assms(1) by (auto simp: changed_job_def)
  have "validate_schedule (en_crate E) (cj_schedule j1) = Inr () \<and> schedule_in_range (cj_schedule j1)"
    using j(1) assms(2,3)
    by (auto simp: with_schedule_def with_names_def Let_def job_ok_def update_in_range_def split: option.splits)
  moreover have "cj_schedule j2 = cj_schedule j1"
    using j(2) by (auto simp: with_mode_def Let_def split: option.splits)
  moreover have "cj_schedule job' = cj_schedule j3"
    using j(4) by (simp add: with_dates_def Let_def)
  ultimately show "validate_schedule (en_crate E) (cj_schedule job') = Inr ()"
      and "schedule_in_range (cj_schedule job')"
    using with_agent_config_kept [OF j(3)] by simp_all
  show "uq_execution_mode req = Some m \<Longrightarrow> \<exists>mode. parse_execution_mode (Some m) = Inr mode"
    using j(2) by (auto simp: with_mode_def)
qed

lemma parsed_mode: "parse_execution_mode (Some m) = Inr mode \<Longrightarrow> execution_mode_from_str m = Inr mode"
  by (auto simp: parse_execution_mode_def execution_mode_from_str_def split: if_splits)

lemma config_text_parses:
  "codec_ok C \<Longrightarrow> \<exists>config. cc_config_from_str C
    (case cc_config_to_string C c of Inl _ \<Rightarrow> [] | Inr s \<Rightarrow> s) = Inr config"
  by (metis codec_ok_def old.sum.simps(6))

lemma update_params_ok:
  assumes "codec_ok (en_codec E)" and "schedule_in_range (cj_schedule job)"
    and "validate_schedule (en_crate E) (cj_schedule job) = Inr ()"
    and "\<And>m. uq_execution_mode req = Some m \<Longrightarrow> \<exists>mode. parse_execution_mode (Some m) = Inr mode"
  shows "params_ok (en_codec E) (en_crate E) (build_update_params E job req)"
proof -
  obtain kind val tz description
    where fields: "schedule_to_row_fields (cj_schedule job) = (kind, val, tz, description)"
    by (metis prod_cases4)
  from parse_schedule_fields [OF assms(2) fields] show ?thesis
    using assms(3,4) config_text_parses [OF assms(1)]
    by (auto simp: params_ok_def build_update_params_def fields Let_def) (blast dest: parsed_mode)+
qed

lemma keeps_update_job:
  assumes "codec_ok (en_codec E)" and "update_in_range req"
  shows "valid E any (update_job E i req)"
proof -
  have stored: "valid E any (store_changed_job E i req job)"
    if "validate_schedule (en_crate E) (cj_schedule job) = Inr ()"
      and "params_ok (en_codec E) (en_crate E) (build_update_params E job req)" for job
    unfolding store_changed_job_def using that by (intro any_try any_bind keeping_valid any_Done)
  have changed: "valid E (on_ok any) (co_try (Done (changed_job E req now job)) (store_changed_job E i req))"
    if "job_ok (en_crate E) job" for now job
  proof (rule keeps_try [OF valid_pure])
    fix job'
    assume "changed_job E req now job = Inr job'"
    note valid = changed_job_valid [OF this that assms(2)]
    then show "valid E (on_ok any) (store_changed_job E i req job')"
      by (intro any_on_ok stored update_params_ok assms(1))
  qed simp
  show ?thesis
    unfolding update_job_def
    by (rule any_of, rule keeps_try [OF valid_load_job], rule any_bind [OF any_peek], rule changed)
qed

lemma keeps_removals [keeping_valid]:
  "valid E any (remove_job E i)"
  "keeps_valid C X any (delete_jobs_by_conversation c)"
  "valid E any (list_jobs E c')"
  "valid E any (get_job E i)"
  by (auto simp: remove_job_def delete_jobs_by_conversation_def list_jobs_def get_job_def
      intro!: composing keeping_valid any_of [OF keeps_lists(1)] any_of [OF keeps_lists(3)]
        any_of [OF valid_load_job] split: sum.split option.split)

lemma keeps_skills [keeping_valid]:
  "valid E any (save_skill E i content)"
  "valid E any (has_skill E i)"
  "valid E any (delete_skill E i)"
  by (auto simp: save_skill_def has_skill_def delete_skill_def
      intro!: composing keeping_valid params_ok_fields)

section \<open>Executions\<close>

lemmas keeps_update [keeping_valid] = keeps_update_job_row [OF params_ok_fields(2)]
  keeps_update_job_row [OF params_ok_fields(3)] keeps_update_job_row [OF params_ok_fields(6)]
  keeps_update_job_row [OF params_ok_fields(7)] keeps_update_job_row [OF params_ok_fields(8)]
  keeps_update_job_row [OF params_ok_fields(9)]

lemma keeps_records [keeping_valid]:
  "keeps_valid C X any (update_job_after_success E i c)"
  "keeps_valid C X any (update_job_after_error i m)"
  "keeps_valid C X any (record_missed_execution job)"
  "keeps_valid C X any (record_skipped i)"
  "keeps_valid C X any (insert_missed_job_tips E job)"
  by (auto simp: update_job_after_success_def update_job_after_error_def record_missed_execution_def
      record_skipped_def insert_missed_job_tips_def Let_def
      intro!: composing keeping_valid split: sum.split option.split)

lemma keeps_record_retry: "0 \<le> n \<Longrightarrow> n \<le> 3 \<Longrightarrow> keeps_valid C X any (record_retry i n)"
  unfolding record_retry_def by (intro keeps_quietly keeps_update_job_row params_ok_fields)

lemma keeps_schedule_retry [keeping_valid]: "keeps_valid C X any (schedule_retry i)"
  unfolding schedule_retry_def
  by (intro any_bind any_peek keeps_schedule [where X = X]) (simp add: retry_job_def)

lemma keeps_rescheduling:
  assumes "validate_schedule X (cj_schedule job) = Inr ()"
  shows "keeps_valid C X any (reschedule_after_execution E job)"
    and "keeps_valid C X any (reschedule_after_missed E job)"
  using assms by (auto simp: reschedule_after_execution_def reschedule_after_missed_def Let_def
      intro!: composing keeping_valid split: sum.split)

lemma keeps_handle_result:
  "result_ok r \<Longrightarrow> validate_schedule X (cj_schedule job) = Inr () \<Longrightarrow>
    keeps_valid C X any (handle_execution_result E job r)"
  by (auto simp: handle_execution_result_def Let_def
      intro!: composing keeping_valid keeps_rescheduling keeps_record_retry split: execution_result.split)

lemma keeps_run_now_result: "result_ok r \<Longrightarrow> keeps_valid C X any (handle_run_now_result E i r)"
  by (auto simp: handle_run_now_result_def
      intro!: composing keeping_valid keeps_record_retry split: execution_result.split)

lemma job_ok_schedule: "job_ok X job \<Longrightarrow> validate_schedule X (cj_schedule job) = Inr ()"
  by (simp add: job_ok_def)

text \<open>A statement that answers rows answers valid ones.\<close>

lemma keeps_rows:
  assumes "valid E (on_ok P) c" and "\<And>x. P x \<Longrightarrow> valid E any (f (Inr x))"
    and "\<And>e. f (Inl e) = Done ()"
  shows "valid E any (co_bind c f)"
proof (rule keeps_bind [OF assms(1)])
  show "on_ok P r \<Longrightarrow> valid E any (f r)" for r
    using assms(2,3) by (cases r) simp_all
qed

lemma keeps_tick: "valid E any (tick E i)"
proof -
  have run: "valid E any (co_bind (execute E job) (handle_execution_result E job))"
    if "job_ok (en_crate E) job" for job
    using that by (auto intro: keeps_bind [OF keeps_execute] keeps_handle_result job_ok_schedule)
  show ?thesis
    unfolding tick_def Let_def
    by (intro keeps_rows [OF keeps_get_job_row])
      (auto intro!: keeping_valid run dest: row_ok_job split: option.split sum.split)
qed

lemma keeps_is_orphan [keeping_valid]: "keeps_valid C X any (is_orphan E job)"
  by (auto simp: is_orphan_def intro!: composing keeping_valid)

lemma keeps_init_row: "row_ok (en_codec E) (en_crate E) row \<Longrightarrow> valid E any (init_row E row)"
  by (auto simp: init_row_def dest!: row_ok_job [THEN job_ok_schedule]
      intro!: composing keeping_valid split: sum.split)

lemma keeps_init: "valid E any (init E)"
  unfolding init_def
  by (rule keeps_rows [OF keeps_lists(2)]) (auto simp: list_all_iff intro: keeps_for keeps_init_row)

lemma keeps_resume_row: "row_ok (en_codec E) (en_crate E) row \<Longrightarrow> valid E any (resume_row E now row)"
  by (auto simp: resume_row_def dest!: row_ok_job [THEN job_ok_schedule]
      intro!: composing keeping_valid keeps_rescheduling split: sum.split)

lemma keeps_resume: "valid E any (handle_system_resume E)"
  unfolding handle_system_resume_def
  by (rule keeps_rows [OF keeps_lists(2)])
    (auto simp: list_all_iff intro!: any_bind keeps_for keeps_resume_row)

lemma keeps_run_now: "valid E any (run_now E i)"
proof -
  have run: "valid E any (run_now_task E job p)" if "job_ok (en_crate E) job" for job p
    unfolding run_now_task_def execute_prepared_def
    by (rule keeps_bind [OF keeps_execute_inner [OF that] keeps_run_now_result])
  show ?thesis
    unfolding run_now_def
    by (rule any_of [where Q = "on_ok any"], rule keeps_try [OF valid_load_job], rule any_on_ok)
      (intro any_try any_bind keeping_valid run any_Done)
qed

lemma keeps_fire_timer: "valid E any (fire_timer E i)"
  unfolding fire_timer_def
proof (rule any_bind [OF keeps_atomic])
  fix s
  assume "cron_inv (en_codec E) (en_crate E) s"
  then show "cron_inv (en_codec E) (en_crate E) (snd (case hm_get (cs_timers s) i of
      Some t \<Rightarrow> if fires (cs_clock s) t
        then (True, s\<lparr>cs_timers := hm_insert i (after_call (en_crate E) (cs_clock s) t) (cs_timers s)\<rparr>)
        else (False, s)
    | None \<Rightarrow> (False, s))) \<and> True"
    by (auto simp: cron_inv_def intro!: timers_ok_insert split: option.split)
      (metis timers_ok_def hm_get_Some_mem image_eqI snd_conv)
qed (simp add: keeps_tick)

section \<open>Commands\<close>

lemma command_schedule_in_range [simp]: "schedule_in_range (schedule_from_dto (command_schedule schedule description))"
  by (simp add: command_schedule_def)

lemma keeps_command:
  assumes "codec_ok (en_codec E)"
  shows "valid E any (run_command (command_service E K) user_id conversation_id command)"
proof -
  have add: "valid E any (add_job_internal E (create_request c p title config) t)" for c p title config t
    by (intro keeps_add_job assms) (simp add: create_request_def)
  have update: "valid E any (update_job E i (update_request p))" for i p
    by (intro keeps_update_job assms) (simp add: update_in_range_def update_request_def)
  show ?thesis
    by (cases command)
      (auto simp: command_service_def command_create_job_def command_update_job_def command_list_jobs_def
        command_delete_job_def intro!: add update composing keeping_valid split: sum.split option.split list.split prod.split)
qed

lemma keeps_commands:
  assumes "codec_ok (en_codec E)"
  shows "valid E any (run_commands (command_service E K) user_id conversation_id commands)"
  by (induction commands) (auto intro!: any_bind keeps_command assms any_Done)

lemma keeps_finish_message:
  assumes "codec_ok (en_codec E)"
  shows "valid E any (finish_message E K ci loader user_id conversation_id message)"
  by (auto simp: finish_message_def process_def execute_cron_commands_def Let_def
      intro!: any_bind any_Done keeps_commands assms)

section \<open>Every interleaving\<close>

text \<open>
  The calls that reach the service: from the routes, the timers, a finished message of an agent with
  commands in it, the conversation service that deletes a conversation, the task that looks for a suggested skill, and the moves of what is outside:
  the clock, the database, and who holds or owns conversations.
\<close>

datatype cron_call =
    CallAdd create_cron_job_request "string option"
  | CallUpdate string update_cron_job_request
  | CallRemove string
  | CallGet string
  | CallList "string option"
  | CallConversationDeleted string
  | CallInit
  | CallTimer string
  | CallResume
  | CallRunNow string
  | CallSaveSkill string string
  | CallHasSkill string
  | CallDeleteSkill string
  | CallMessage command_env "char \<Rightarrow> char" "skill_loader option" string string string
  | CallCheckSuggestion "string \<Rightarrow> string" "(string + string option) list" string string string
  | MoveClock timestamp_ms
  | MoveFault "string option"
  | MoveClaims "string list"
  | MoveConversations "conversation_row list"

fun cron_method :: "cron_env \<Rightarrow> cron_call \<Rightarrow> unit cron_async" where
  "cron_method E (CallAdd req t) = quietly (add_job_internal E req t)"
| "cron_method E (CallUpdate i req) = quietly (update_job E i req)"
| "cron_method E (CallRemove i) = quietly (remove_job E i)"
| "cron_method E (CallGet i) = quietly (get_job E i)"
| "cron_method E (CallList c) = quietly (list_jobs E c)"
| "cron_method E (CallConversationDeleted c) = delete_jobs_by_conversation c"
| "cron_method E CallInit = init E"
| "cron_method E (CallTimer i) = fire_timer E i"
| "cron_method E CallResume = handle_system_resume E"
| "cron_method E (CallRunNow i) = quietly (run_now E i)"
| "cron_method E (CallSaveSkill i content) = quietly (save_skill E i content)"
| "cron_method E (CallHasSkill i) = quietly (has_skill E i)"
| "cron_method E (CallDeleteSkill i) = quietly (delete_skill E i)"
| "cron_method E (CallMessage K ci loader u c message) =
     co_bind (finish_message E K ci loader u c message) (\<lambda>_. Done ())"
| "cron_method E (CallCheckSuggestion hash files c j w) = check_with_retry E hash files c j w"
| "cron_method E (MoveClock t) = atomic (\<lambda>s. ((), s\<lparr>cs_clock := t\<rparr>))"
| "cron_method E (MoveFault f) = atomic (\<lambda>s. ((), s\<lparr>cs_fault := f\<rparr>))"
| "cron_method E (MoveClaims cs) = atomic (\<lambda>s. ((), s\<lparr>cs_claims := cs\<rparr>))"
| "cron_method E (MoveConversations rows) = atomic (\<lambda>s. ((), s\<lparr>cs_convs := rows\<rparr>))"

text \<open>The numbers of a request are of their type.\<close>

fun call_in_range :: "cron_call \<Rightarrow> bool" where
  "call_in_range (CallAdd req t) = schedule_in_range (schedule_from_dto (cq_schedule req))"
| "call_in_range (CallUpdate i req) = update_in_range req"
| "call_in_range _ = True"

lemma keeps_method:
  assumes "codec_ok (en_codec E)" and "call_in_range call"
  shows "valid E any (cron_method E call)"
  using assms
  by (cases call)
    (auto intro!: keeps_quietly keeping_valid any_bind any_Done keeps_finish_message keeps_add_job keeps_update_job keeps_init keeps_fire_timer
      keeps_resume keeps_run_now keeps_check_with_retry keeps_apart)

text \<open>Each call has an environment of its own, but they share the codec and the cron crate.\<close>

definition served_by :: "cron_codec \<Rightarrow> cron_crate \<Rightarrow> cron_env \<times> cron_call \<Rightarrow> bool" where
  "served_by C X served \<longleftrightarrow> en_codec (fst served) = C \<and> en_crate (fst served) = X \<and> call_in_range (snd served)"

lemma cron_inv_pool:
  assumes "codec_ok C" and "list_all (served_by C X) calls" and "cron_inv C X s"
  shows "cron_inv C X (snd (pool_run schedule (map (case_prod cron_method) calls) s))"
proof -
  have "holds (cron_inv C X) (\<lambda>_ _. True) (\<lambda>_ _. True) c s"
    if "c \<in> set (map (case_prod cron_method) calls)" for c
  proof -
    from that obtain E call where "(E, call) \<in> set calls" and c: "c = cron_method E call"
      by auto
    with assms(2) have "served_by C X (E, call)"
      by (auto simp: list_all_iff)
    then show ?thesis
      using keeps_method [of E call] assms(1) by (auto simp: c served_by_def keeps_valid_def)
  qed
  then show ?thesis
    by (rule cron.pool_run_holds [OF _ assms(3), THEN conjunct1])
qed

end
