(* ===== verification/CronRun.thy ===== *)
theory CronRun
  imports CronPool
begin

text \<open>
  A method of the service that runs alone, in a state where the database works: what its sections
  come to on the rows and the timers, as equations for \<open>simp\<close>.
\<close>

section \<open>Rows by id\<close>

definition row_of :: "cron_state \<Rightarrow> string \<Rightarrow> cron_job_row option" where
  "row_of s i = find (\<lambda>row. jr_id row = i) (cs_jobs s)"

definition set_row :: "string \<Rightarrow> (cron_job_row \<Rightarrow> cron_job_row) \<Rightarrow> cron_job_row list \<Rightarrow> cron_job_row list" where
  "set_row i f rows = map (\<lambda>row. if jr_id row = i then f row else row) rows"

text \<open>The constraints of the table.\<close>

definition table_ok :: "cron_state \<Rightarrow> bool" where
  "table_ok s \<longleftrightarrow> distinct (map jr_id (cs_jobs s)) \<and> list_all row_checks (cs_jobs s)"

lemma row_of_Some: "row_of s i = Some row \<Longrightarrow> jr_id row = i \<and> row \<in> set (cs_jobs s)"
  by (auto simp: row_of_def find_Some_iff)

lemma find_set_row:
  assumes "\<And>row. jr_id (f row) = jr_id row"
  shows "find (\<lambda>row. jr_id row = j) (set_row i f rows) =
    (if j = i then map_option f (find (\<lambda>row. jr_id row = j) rows) else find (\<lambda>row. jr_id row = j) rows)"
  using assms by (induction rows) (auto simp: set_row_def)

lemma set_row_ids: "(\<And>row. jr_id (f row) = jr_id row) \<Longrightarrow> map jr_id (set_row i f rows) = map jr_id rows"
  by (simp add: set_row_def)

lemma set_row_twice:
  "(\<And>row. jr_id (f row) = jr_id row) \<Longrightarrow> set_row i g (set_row i f rows) = set_row i (g \<circ> f) rows"
  by (simp add: set_row_def)

lemma set_row_absent: "i \<notin> jr_id ` set rows \<Longrightarrow> set_row i f rows = rows"
  unfolding set_row_def by (rule map_idI) auto

lemma only_row: "table_ok s \<Longrightarrow> row_of s i = Some row \<Longrightarrow> r \<in> set (cs_jobs s) \<Longrightarrow> jr_id r = i \<Longrightarrow> r = row"
  using row_of_Some [of s i row] by (auto simp: table_ok_def dest: inj_onD distinct_map [THEN iffD1])

lemma set_row_checks:
  assumes "table_ok s" and "row_of s i = Some row" and "row_checks (f row)"
    and "\<And>row. jr_id (f row) = jr_id row"
  shows "table_ok (s\<lparr>cs_jobs := set_row i f (cs_jobs s)\<rparr>)"
proof -
  have "row_checks r" if "r \<in> set (set_row i f (cs_jobs s))" for r
    using that assms(1,3) only_row [OF assms(1,2)] by (auto simp: set_row_def table_ok_def list_all_iff)
  moreover have "map jr_id (set_row i f (cs_jobs s)) = map jr_id (cs_jobs s)"
    by (rule set_row_ids [OF assms(4)])
  ultimately show ?thesis
    using assms(1) by (simp only: table_ok_def list_all_iff) (simp add: list_all_iff)
qed

section \<open>Statements\<close>

named_theorems running \<open>what the sections of a method come to when it runs alone\<close>

lemmas [running] = co_run_bind co_run_try

lemma run_repo [running]: "co_run (repo f) s = (case f s of (r, s') \<Rightarrow> (map_err CronDatabase r, s'))"
  by (simp add: repo_def)

lemma run_peek [running]: "co_run (peek f) s = (f s, s)"
  by (simp add: peek_def)

lemma run_timers [running]: "co_run (on_timers f) s = ((), s\<lparr>cs_timers := f (cs_timers s)\<rparr>)"
  by (simp add: on_timers_def)

lemma run_tell [running]: "co_run (tell e) s = ((), emit e s)"
  by (simp add: tell_def)

lemma run_quietly [running]: "co_run (quietly c) s = ((), snd (co_run c s))"
  by (simp add: quietly_def co_run_bind split: prod.split)

lemma run_get_job [running]: "cs_fault s = None \<Longrightarrow> get_job_row i s = (Inr (row_of s i), s)"
  by (simp add: get_job_row_def guarded_def row_of_def)

lemma run_get_conversation [running]:
  "cs_fault s = None \<Longrightarrow> get_conversation c s = (Inr (find (\<lambda>row. vr_id row = c) (cs_convs s)), s)"
  by (simp add: get_conversation_def guarded_def)

lemma run_update:
  assumes "cs_fault s = None" and "table_ok s" and "row_of s i = Some row"
    and "row_checks (apply_update (cs_clock s) p row)" and "p \<noteq> keep_all"
  shows "update_job_row i p s =
    (Inr (), s\<lparr>cs_jobs := set_row i (apply_update (cs_clock s) p) (cs_jobs s)\<rparr>)"
  using assms(1,4,5) row_of_Some [OF assms(3)] only_row [OF assms(2,3)]
  by (auto simp: update_job_row_def guarded_def Let_def set_row_def list_all_iff)

lemma emit_fields [simp]:
  "cs_jobs (emit e s) = cs_jobs s" "cs_timers (emit e s) = cs_timers s" "cs_fault (emit e s) = cs_fault s"
  "cs_clock (emit e s) = cs_clock s" "cs_events (emit e s) = cs_events s @ [e]"
  "cs_convs (emit e s) = cs_convs s" "cs_claims (emit e s) = cs_claims s"
  by (simp_all add: emit_def)

section \<open>A job whose conversation is busy\<close>

text \<open>
  A job that is stored, enabled and complete, in an existing conversation that is there and that a
  turn has claimed.
\<close>

definition busy_job :: "cron_env \<Rightarrow> cron_job_row \<Rightarrow> cron_job \<Rightarrow> string \<Rightarrow> cron_state \<Rightarrow> bool" where
  "busy_job E row job t s \<longleftrightarrow>
     cs_fault s = None \<and> table_ok s \<and> row_of s (jr_id row) = Some row \<and>
     cron_job_from_row (en_codec E) row = Inr job \<and> resolve_job_agent_type E job = Inr t \<and>
     cj_enabled job \<and> cj_execution_mode job = ExistingConversation \<and>
     trimmed E (cj_conversation_id job) \<noteq> [] \<and> cj_conversation_id job \<in> set (map vr_id (cs_convs s)) \<and>
     cj_conversation_id job \<in> set (cs_claims s) \<and>
     en_io E = None \<and> validate_job_id (cj_id job) = Inr () \<and> cj_skill_content job = None \<and>
     (\<exists>w. config_workspace job = Some w \<and> (trimmed E w = [] \<or> en_path E w = PathDirectory))"

lemma from_row_id: "cron_job_from_row C row = Inr job \<Longrightarrow> cj_id job = jr_id row"
  by (auto simp: cron_job_from_row_def)

lemma agent_type_irrelevant [simp]:
  "cj_id (job\<lparr>cj_agent_type := t\<rparr>) = cj_id job"
  by simp

lemma busyD:
  assumes "busy_job E row job t s"
  shows "cs_fault s = None" "table_ok s" "row_of s (jr_id row) = Some row" "cj_id job = jr_id row"
    and "row_checks row"
proof -
  show "cs_fault s = None" "table_ok s" "row_of s (jr_id row) = Some row"
    using assms by (simp_all add: busy_job_def)
  show "cj_id job = jr_id row"
    using assms unfolding busy_job_def by (blast intro: from_row_id)
  show "row_checks row"
    using \<open>table_ok s\<close> row_of_Some [OF \<open>row_of s (jr_id row) = Some row\<close>]
    by (simp add: table_ok_def list_all_iff)
qed

lemma run_prepare_skill:
  assumes "en_io E = None" and "validate_job_id (cj_id job) = Inr ()" and "cj_skill_content job = None"
  shows "\<exists>skill. co_run (prepare_saved_skill E job) s = (Inr skill, s)"
  using assms
  by (auto simp: prepare_saved_skill_def read_skill_def running read_skill_content_def cron_skill_dir_def
      cron_skill_name_def non_blank_def skill_context_def split: option.split)

lemma execute_busy:
  assumes "busy_job E row job t s"
  shows "co_run (execute E (job\<lparr>cj_agent_type := t\<rparr>)) s = (handle_busy job, s)"
proof -
  let ?job = "job\<lparr>cj_agent_type := t\<rparr>"
  note busy = assms [unfolded busy_job_def]
  obtain skill where skill: "co_run (prepare_saved_skill E ?job) s = (Inr skill, s)"
    using run_prepare_skill [of E ?job] busy by auto
  obtain w where w: "config_workspace job = Some w" "trimmed E w = [] \<or> en_path E w = PathDirectory"
    using busy by blast
  have workspace: "co_run (validate_runtime_job_workspace E ?job) s = (Inr (), s)"
    using w by (auto simp: validate_runtime_job_workspace_def resolve_job_workspace_raw_def
        resolve_execution_workspace_raw_def config_workspace_def running workspace_verdict_def
        validate_workspace_path_availability_def)
  have "find (\<lambda>row. vr_id row = cj_conversation_id job) (cs_convs s) \<noteq> None"
    using busy by (auto simp: find_None_iff)
  then have conversation: "co_run (resolve_conversation E ?job skill) s = (Inr (cj_conversation_id job), s)"
    using busy by (simp add: resolve_conversation_def verify_conversation_exists_def conversation_exists_def running)
  show ?thesis
    using busy
    by (simp add: execute_def or_fail_def running skill workspace conversation
        is_conversation_claimed_def handle_busy_def)
qed

lemma tick_busy:
  assumes "busy_job E row job t s"
  shows "co_run (tick E (jr_id row)) s =
    co_run (handle_execution_result E (job\<lparr>cj_agent_type := t\<rparr>) (handle_busy job)) s"
  using assms execute_busy [OF assms] by (simp add: busy_job_def tick_def Let_def running)

text \<open>The row of a job after a retry is recorded, and after it is given up.\<close>

definition retried :: "timestamp_ms \<Rightarrow> int \<Rightarrow> cron_job_row \<Rightarrow> cron_job_row" where
  "retried now n row = row\<lparr>jr_retry_count := n, jr_updated_at := now\<rparr>"

definition skipped :: "timestamp_ms \<Rightarrow> timestamp_ms option \<Rightarrow> cron_job_row \<Rightarrow> cron_job_row" where
  "skipped now next_run row =
     row\<lparr>jr_last_status := Some ''skipped'', jr_retry_count := 0, jr_next_run_at := next_run, jr_updated_at := now\<rparr>"

lemma updates_eq:
  "apply_update now (keep_all\<lparr>pp_retry_count := Some n\<rparr>) row = retried now n row"
  "apply_update now (keep_all\<lparr>pp_next_run_at := Some next_run\<rparr>)
     (apply_update now (keep_all\<lparr>pp_last_status := Some (Some ''skipped''), pp_retry_count := Some 0\<rparr>) row) =
   skipped now next_run row"
  by (simp_all add: apply_update_def keep_all_def given_def retried_def skipped_def)

lemma update_checks:
  "row_checks (retried now n row) = row_checks row"
  "row_checks row \<Longrightarrow>
     row_checks (apply_update now (keep_all\<lparr>pp_last_status := Some (Some ''skipped''), pp_retry_count := Some 0\<rparr>) row)"
  "row_checks row \<Longrightarrow> row_checks (skipped now next_run row)"
  by (simp_all add: row_checks_def apply_update_def keep_all_def given_def retried_def skipped_def)

lemma not_keep_all [simp]:
  "keep_all\<lparr>pp_retry_count := Some n\<rparr> \<noteq> keep_all"
  "keep_all\<lparr>pp_next_run_at := Some m\<rparr> \<noteq> keep_all"
  "keep_all\<lparr>pp_last_status := Some st, pp_retry_count := Some n\<rparr> \<noteq> keep_all"
  by (simp_all add: keep_all_def)

lemma update_ids [simp]: "jr_id (retried now n row) = jr_id row" "jr_id (skipped now next_run row) = jr_id row"
  by (simp_all add: retried_def skipped_def)

lemma row_of_moved [simp]:
  "row_of (s\<lparr>cs_timers := ts\<rparr>) = row_of s" "row_of (s\<lparr>cs_clock := c\<rparr>) = row_of s" "row_of (emit e s) = row_of s"
  by (simp_all add: row_of_def fun_eq_iff)

lemma row_of_set_row:
  "(\<And>row. jr_id (f row) = jr_id row) \<Longrightarrow> row_of (s\<lparr>cs_jobs := set_row i f (cs_jobs s)\<rparr>) j =
    (if j = i then map_option f (row_of s i) else row_of s j)"
  by (simp add: row_of_def find_set_row)

lemma table_ok_update [simp]:
  "table_ok (s\<lparr>cs_timers := ts\<rparr>) = table_ok s" "table_ok (s\<lparr>cs_clock := c\<rparr>) = table_ok s"
  by (simp_all add: table_ok_def)

lemma run_record_retry:
  assumes "cs_fault s = None" and "table_ok s" and "row_of s i = Some row"
  shows "co_run (record_retry i n) s = ((), s\<lparr>cs_jobs := set_row i (retried (cs_clock s) n) (cs_jobs s)\<rparr>)"
proof -
  have "apply_update now (keep_all\<lparr>pp_retry_count := Some n\<rparr>) = retried now n" for now
    by (simp add: fun_eq_iff updates_eq)
  moreover have "row_checks row"
    using assms(2) row_of_Some [OF assms(3)] by (simp add: table_ok_def list_all_iff)
  ultimately show ?thesis
    by (simp add: record_retry_def running run_update [OF assms] update_checks)
qed

lemma retry_state:
  assumes "busy_job E row job t s" and "cj_retry_count job < cj_max_retries job"
    and "in_i64 (cs_clock s + RETRY_INTERVAL_MS)"
  shows "snd (co_run (tick E (jr_id row)) s) =
    s\<lparr>cs_jobs := set_row (jr_id row) (retried (cs_clock s) (cj_retry_count job + 1)) (cs_jobs s),
      cs_timers := schedule_job (retry_job (jr_id row) (cs_clock s + RETRY_INTERVAL_MS)) (cs_timers s)\<rparr>"
proof -
  note busy = busyD [OF assms(1)]
  then show ?thesis
    using assms(2,3)
    by (simp add: tick_busy [OF assms(1)] handle_busy_def handle_execution_result_def Let_def running
        run_record_retry [OF busy(1-3)] schedule_retry_def wrap_i64_exact)
qed

lemma skip_state:
  assumes "busy_job E row job t s" and "cj_max_retries job \<le> cj_retry_count job"
    and "\<not> is_at (cj_schedule job)"
  shows "snd (co_run (tick E (jr_id row)) s) = emit (JobExecuted (jr_id row) ''skipped'' None)
    (let next_run = compute_next_run (en_crate E) (cj_schedule job) (cs_clock s) in
     s\<lparr>cs_jobs := set_row (jr_id row) (skipped (cs_clock s) next_run) (cs_jobs s),
       cs_timers := schedule_job (job\<lparr>cj_agent_type := t, cj_next_run_at := next_run\<rparr>) (cs_timers s)\<rparr>)"
proof -
  let ?i = "jr_id row" and ?now = "cs_clock s"
  let ?next = "compute_next_run (en_crate E) (cj_schedule job) ?now"
  let ?skip = "keep_all\<lparr>pp_last_status := Some (Some ''skipped''), pp_retry_count := Some 0\<rparr>"
  let ?go = "keep_all\<lparr>pp_next_run_at := Some ?next\<rparr>"
  note busy = busyD [OF assms(1)] and checks = busyD(5) [OF assms(1)]
  let ?u = "s\<lparr>cs_jobs := set_row ?i (apply_update ?now ?skip) (cs_jobs s)\<rparr>"
  have first: "update_job_row ?i ?skip s = (Inr (), ?u)"
    by (rule run_update [OF busy(1-3)]) (simp_all add: update_checks checks)
  have u: "table_ok ?u" "row_of ?u ?i = Some (apply_update ?now ?skip row)"
    using busy by (simp_all add: set_row_checks [OF busy(2,3)] update_checks checks row_of_set_row)
  have "update_job_row ?i ?go ?u = (Inr (), ?u\<lparr>cs_jobs := set_row ?i (apply_update ?now ?go) (cs_jobs ?u)\<rparr>)"
    using run_update [OF _ u, of ?go] by (simp add: busy(1) updates_eq update_checks checks)
  moreover have "apply_update ?now ?go \<circ> apply_update ?now ?skip = skipped ?now ?next"
    by (simp add: fun_eq_iff updates_eq)
  ultimately have "update_job_row ?i ?go ?u = (Inr (), s\<lparr>cs_jobs := set_row ?i (skipped ?now ?next) (cs_jobs s)\<rparr>)"
    by (simp add: set_row_twice)
  with first show ?thesis
    using assms(2,3) busy
    by (simp add: tick_busy [OF assms(1)] handle_busy_def handle_execution_result_def running
        record_skipped_def reschedule_after_execution_def Let_def reschedule_job_def)
qed

section \<open>Firings of a timer\<close>

text \<open>The state after the timer of a job wakes at a time, and the states after several.\<close>

definition fire_at :: "cron_env \<Rightarrow> string \<Rightarrow> timestamp_ms \<Rightarrow> cron_state \<Rightarrow> cron_state" where
  "fire_at E i now s = snd (co_run (fire_timer E i) (s\<lparr>cs_clock := now\<rparr>))"

fun fire_trace :: "cron_env \<Rightarrow> string \<Rightarrow> timestamp_ms list \<Rightarrow> cron_state \<Rightarrow> cron_state list" where
  "fire_trace E i [] s = []"
| "fire_trace E i (now # later) s = fire_at E i now s # fire_trace E i later (fire_at E i now s)"

definition due_of :: "cron_state \<Rightarrow> string \<Rightarrow> timestamp_ms option" where
  "due_of s i = Option.bind (hm_get (cs_timers s) i) ct_due"

lemma fire_due:
  assumes "due_of s i = Some due" and "due \<le> now"
  obtains ts where "fire_at E i now s = snd (co_run (tick E i) (s\<lparr>cs_clock := now, cs_timers := ts\<rparr>))"
    and "hm_get ts = (hm_get (cs_timers s))(i := hm_get ts i)"
proof -
  obtain t where t: "hm_get (cs_timers s) i = Some t" "ct_due t = Some due"
    using assms(1) by (auto simp: due_of_def Option.bind_eq_Some_conv)
  let ?ts = "hm_insert i (after_call (en_crate E) now t) (cs_timers s)"
  have "fire_at E i now s = snd (co_run (tick E i) (s\<lparr>cs_clock := now, cs_timers := ?ts\<rparr>))"
    using t assms(2) by (simp add: fire_at_def fire_timer_def running fires_def delay_until_def)
  then show thesis
    by (rule that) (simp add: hm_simps fun_upd_def fun_eq_iff)
qed

lemma fire_early: "due_of s i = Some due \<Longrightarrow> now < due \<Longrightarrow> fire_at E i now s = s\<lparr>cs_clock := now\<rparr>"
  by (auto simp: due_of_def Option.bind_eq_Some_conv fire_at_def fire_timer_def running fires_def delay_until_def)

text \<open>Two states that differ in one job and its timer, the clock and the events.\<close>

definition only_job :: "string \<Rightarrow> cron_state \<Rightarrow> cron_state \<Rightarrow> bool" where
  "only_job i s t \<longleftrightarrow>
     (\<forall>j. j \<noteq> i \<longrightarrow> row_of t j = row_of s j \<and> hm_get (cs_timers t) j = hm_get (cs_timers s) j) \<and>
     cs_convs t = cs_convs s \<and> cs_messages t = cs_messages s \<and> cs_artifacts t = cs_artifacts s \<and>
     cs_files t = cs_files s \<and> cs_checks t = cs_checks s"

lemma only_job_trans: "only_job i s t \<Longrightarrow> only_job i t u \<Longrightarrow> only_job i s u"
  by (simp add: only_job_def)

lemma same_agent_type:
  "resolve_job_agent_type E (job\<lparr>cj_retry_count := n, cj_updated_at := now\<rparr>) = resolve_job_agent_type E job"
  by (simp add: resolve_job_agent_type_def)

lemma busy_after_retry:
  assumes "busy_job E row job t s"
  shows "busy_job E (retried now n row) (job\<lparr>cj_retry_count := n, cj_updated_at := now\<rparr>) t
    (s\<lparr>cs_jobs := set_row (jr_id row) (retried now n) (cs_jobs s), cs_timers := ts\<rparr>)"
proof -
  note busy = busyD [OF assms]
  let ?s = "s\<lparr>cs_jobs := set_row (jr_id row) (retried now n) (cs_jobs s)\<rparr>"
  have "table_ok ?s" "row_of ?s (jr_id row) = Some (retried now n row)"
    using busy by (simp_all add: set_row_checks update_checks row_of_set_row)
  moreover have "cron_job_from_row (en_codec E) (retried now n row) =
      Inr (job\<lparr>cj_retry_count := n, cj_updated_at := now\<rparr>)"
    using assms by (auto simp: busy_job_def cron_job_from_row_def retried_def)
  ultimately show ?thesis
    using assms by (simp add: busy_job_def same_agent_type config_workspace_def row_of_def table_ok_def)
qed

lemma busy_clock: "busy_job E row job t s \<Longrightarrow> busy_job E row job t (s\<lparr>cs_clock := now, cs_timers := ts\<rparr>)"
  by (simp add: busy_job_def row_of_def table_ok_def)

lemma fire_retry:
  assumes "busy_job E row job t s" and "due_of s (jr_id row) = Some due" and "due \<le> now"
    and "cj_retry_count job < cj_max_retries job" and "in_i64 (now + RETRY_INTERVAL_MS)"
  defines "n \<equiv> cj_retry_count job + 1"
  shows "busy_job E (retried now n row) (job\<lparr>cj_retry_count := n, cj_updated_at := now\<rparr>) t
      (fire_at E (jr_id row) now s)"
    and "due_of (fire_at E (jr_id row) now s) (jr_id row) = Some (now + RETRY_INTERVAL_MS)"
    and "only_job (jr_id row) s (fire_at E (jr_id row) now s)"
    and "cs_events (fire_at E (jr_id row) now s) = cs_events s"
proof -
  let ?i = "jr_id row"
  obtain ts where ts: "fire_at E ?i now s = snd (co_run (tick E ?i) (s\<lparr>cs_clock := now, cs_timers := ts\<rparr>))"
      "hm_get ts = (hm_get (cs_timers s))(?i := hm_get ts ?i)"
    using assms(2,3) by (rule fire_due)
  note busy = busy_clock [OF assms(1), where now = now and ts = ts]
  from retry_state [OF busy assms(4)] assms(5)
  have s': "fire_at E ?i now s =
    s\<lparr>cs_clock := now, cs_jobs := set_row ?i (retried now n) (cs_jobs s),
      cs_timers := schedule_job (retry_job ?i (now + RETRY_INTERVAL_MS)) ts\<rparr>"
    by (simp add: ts(1) n_def)
  show "busy_job E (retried now n row) (job\<lparr>cj_retry_count := n, cj_updated_at := now\<rparr>) t (fire_at E ?i now s)"
    using busy_after_retry [OF busy, where now = now and n = n] by (simp add: s' busy_job_def row_of_def table_ok_def)
  show "due_of (fire_at E ?i now s) ?i = Some (now + RETRY_INTERVAL_MS)"
    by (simp add: s' due_of_def timers.timer_of_arm planned_def retry_job_def)
  have "hm_get ts j = hm_get (cs_timers s) j" if "j \<noteq> ?i" for j
    using ts(2) that by (metis fun_upd_other)
  then show "only_job ?i s (fire_at E ?i now s)"
    by (simp add: s' only_job_def timers.timer_of_arm retry_job_def row_of_def find_set_row)
  show "cs_events (fire_at E ?i now s) = cs_events s"
    by (simp add: s')
qed

lemma fire_skip:
  assumes "busy_job E row job t s" and "due_of s (jr_id row) = Some due" and "due \<le> now"
    and "cj_max_retries job \<le> cj_retry_count job" and "\<not> is_at (cj_schedule job)"
  defines "next_run \<equiv> compute_next_run (en_crate E) (cj_schedule job) now"
  shows "row_of (fire_at E (jr_id row) now s) (jr_id row) = Some (skipped now next_run row)"
    and "due_of (fire_at E (jr_id row) now s) (jr_id row) = next_run"
    and "only_job (jr_id row) s (fire_at E (jr_id row) now s)"
    and "cs_events (fire_at E (jr_id row) now s) = cs_events s @ [JobExecuted (jr_id row) ''skipped'' None]"
proof -
  let ?i = "jr_id row" and ?job = "job\<lparr>cj_agent_type := t, cj_next_run_at := next_run\<rparr>"
  obtain ts where ts: "fire_at E ?i now s = snd (co_run (tick E ?i) (s\<lparr>cs_clock := now, cs_timers := ts\<rparr>))"
      "hm_get ts = (hm_get (cs_timers s))(?i := hm_get ts ?i)"
    using assms(2,3) by (rule fire_due)
  note busy = busy_clock [OF assms(1), where now = now and ts = ts]
  from skip_state [OF busy assms(4,5)]
  have s': "fire_at E ?i now s = emit (JobExecuted ?i ''skipped'' None)
    (s\<lparr>cs_clock := now, cs_jobs := set_row ?i (skipped now next_run) (cs_jobs s),
       cs_timers := schedule_job ?job ts\<rparr>)"
    by (simp add: ts(1) next_run_def Let_def)
  have enabled: "cj_enabled job"
    using assms(1) by (simp add: busy_job_def)
  note found = busyD [OF assms(1)]
  show "row_of (fire_at E ?i now s) ?i = Some (skipped now next_run row)"
    using found(3) by (simp add: s' row_of_def find_set_row)
  show "due_of (fire_at E ?i now s) ?i = next_run"
    by (simp add: s' due_of_def timers.timer_of_arm found(4) planned_def enabled)
      (cases next_run; simp)
  have "hm_get ts j = hm_get (cs_timers s) j" if "j \<noteq> ?i" for j
    using ts(2) that by (metis fun_upd_other)
  then show "only_job ?i s (fire_at E ?i now s)"
    by (simp add: s' only_job_def timers.timer_of_arm found(4) row_of_def find_set_row emit_def)
  show "cs_events (fire_at E ?i now s) = cs_events s @ [JobExecuted ?i ''skipped'' None]"
    by (simp add: s')
qed

text \<open>Three retries, each thirty seconds after the one before, and then the end.\<close>

lemma busy_trace:
  assumes "busy_job E row job t s" and "cj_retry_count job = 0" and "cj_max_retries job = 3"
    and "\<not> is_at (cj_schedule job)" and "due_of s (jr_id row) = Some due" and "due \<le> t0"
    and "t0 + RETRY_INTERVAL_MS \<le> t1" and "t1 + RETRY_INTERVAL_MS \<le> t2" and "t2 + RETRY_INTERVAL_MS \<le> t3"
    and "0 \<le> t0" and "in_i64 t3"
  defines "i \<equiv> jr_id row" and "next_run \<equiv> compute_next_run (en_crate E) (cj_schedule job) t3"
    and "trace \<equiv> fire_trace E (jr_id row) [t0, t1, t2, t3] s"
  shows "map (\<lambda>u. map_option jr_retry_count (row_of u i)) trace = [Some 1, Some 2, Some 3, Some 0]"
    and "map (\<lambda>u. due_of u i) trace = [Some (t0 + 30000), Some (t1 + 30000), Some (t2 + 30000), next_run]"
    and "map cs_events trace =
      [cs_events s, cs_events s, cs_events s, cs_events s @ [JobExecuted i ''skipped'' None]]"
    and "row_of (last trace) i = Some (row\<lparr>jr_last_status := Some ''skipped'', jr_retry_count := 0,
      jr_next_run_at := next_run, jr_updated_at := t3\<rparr>)"
    and "only_job i s (last trace)"
proof -
  let ?s1 = "fire_at E i t0 s" let ?s2 = "fire_at E i t1 ?s1" let ?s3 = "fire_at E i t2 ?s2"
  let ?s4 = "fire_at E i t3 ?s3"
  have range: "in_i64 (t0 + RETRY_INTERVAL_MS)" "in_i64 (t1 + RETRY_INTERVAL_MS)" "in_i64 (t2 + RETRY_INTERVAL_MS)"
    using assms(7-11) by (simp_all add: in_i64_def i64_min_def RETRY_INTERVAL_MS_def)
  note one = fire_retry [OF assms(1,5,6) _ range(1), folded i_def, simplified assms(2,3), simplified]
  note two = fire_retry [OF one(1), simplified, folded i_def, OF one(2) assms(7) _ range(2), simplified assms(3), simplified]
  note three = fire_retry [OF two(1), simplified, folded i_def, OF two(2) assms(8) _ range(3), simplified assms(3), simplified]
  note four = fire_skip [OF three(1), simplified, folded i_def, OF three(2) assms(9), simplified assms(3,4), simplified,
      folded next_run_def]
  have trace: "trace = [?s1, ?s2, ?s3, ?s4]"
    by (simp add: trace_def i_def)
  note rows = busyD(3) [OF one(1), simplified, folded i_def] busyD(3) [OF two(1), simplified, folded i_def]
    busyD(3) [OF three(1), simplified, folded i_def]
  show "map (\<lambda>u. map_option jr_retry_count (row_of u i)) trace = [Some 1, Some 2, Some 3, Some 0]"
    by (simp add: trace rows four) (simp add: retried_def skipped_def)
  show "map (\<lambda>u. due_of u i) trace = [Some (t0 + 30000), Some (t1 + 30000), Some (t2 + 30000), next_run]"
    by (simp add: trace one two three four) (simp add: RETRY_INTERVAL_MS_def)
  show "map cs_events trace =
      [cs_events s, cs_events s, cs_events s, cs_events s @ [JobExecuted i ''skipped'' None]]"
    by (simp add: trace one two three four)
  show "row_of (last trace) i = Some (row\<lparr>jr_last_status := Some ''skipped'', jr_retry_count := 0,
      jr_next_run_at := next_run, jr_updated_at := t3\<rparr>)"
    by (simp add: trace four) (simp add: retried_def skipped_def)
  show "only_job i s (last trace)"
    using one(3) two(3) three(3) four(3) by (simp add: trace) (blast intro: only_job_trans)
qed

end
