(* ===== verification/CronResume.thy ===== *)
theory CronResume
  imports CronRun
begin

text \<open>
  What the end of a system suspend does, next to a specification that says it of every row and every
  timer on its own, without an order: \<open>resumed_row\<close> and \<open>resumed_timer\<close>. The code walks over the rows and
  works through statements, messages and events.
\<close>

section \<open>The specification\<close>

definition overdue :: "timestamp_ms \<Rightarrow> timestamp_ms option \<Rightarrow> bool" where
  "overdue now next_run_at = (case next_run_at of Some next_run \<Rightarrow> next_run < now | None \<Rightarrow> False)"

text \<open>A job that missed its run: a single date is disabled, any other gets its next run.\<close>

definition resumed_job :: "cron_env \<Rightarrow> timestamp_ms \<Rightarrow> cron_job \<Rightarrow> cron_job" where
  "resumed_job E now job =
     (if \<not> overdue now (cj_next_run_at job) then job
      else if is_at (cj_schedule job) then job\<lparr>cj_enabled := False, cj_next_run_at := None\<rparr>
      else job\<lparr>cj_next_run_at := compute_next_run (en_crate E) (cj_schedule job) now\<rparr>)"

definition resumed_row :: "cron_env \<Rightarrow> timestamp_ms \<Rightarrow> cron_job_row \<Rightarrow> cron_job_row" where
  "resumed_row E now row =
     (case cron_job_from_row (en_codec E) row of
        Inl _ \<Rightarrow> row
      | Inr job \<Rightarrow>
          if \<not> overdue now (jr_next_run_at row) then row
          else row\<lparr>jr_enabled := cj_enabled (resumed_job E now job),
                   jr_next_run_at := cj_next_run_at (resumed_job E now job),
                   jr_last_status := Some ''missed'', jr_last_error := None, jr_retry_count := 0,
                   jr_updated_at := now\<rparr>)"

definition resumed_timer :: "cron_env \<Rightarrow> timestamp_ms \<Rightarrow> cron_job_row \<Rightarrow> cron_timer option" where
  "resumed_timer E now row =
     (case cron_job_from_row (en_codec E) row of
        Inl _ \<Rightarrow> None | Inr job \<Rightarrow> planned (resumed_job E now job))"

fun is_executed :: "cron_event \<Rightarrow> bool" where
  "is_executed (JobExecuted _ _ _) = True"
| "is_executed _ = False"

definition missed_events :: "timestamp_ms \<Rightarrow> cron_job_row list \<Rightarrow> cron_event list" where
  "missed_events now rows =
     map (\<lambda>row. JobExecuted (jr_id row) ''missed'' None) (filter (\<lambda>row. overdue now (jr_next_run_at row)) rows)"

section \<open>One row\<close>

lemma from_row_fields:
  "cron_job_from_row C row = Inr job \<Longrightarrow> cj_id job = jr_id row \<and> cj_next_run_at job = jr_next_run_at row \<and>
     cj_enabled job = jr_enabled row"
  by (auto simp: cron_job_from_row_def)

lemma resumed_row_id [simp]: "jr_id (resumed_row E now row) = jr_id row"
  by (simp add: resumed_row_def split: sum.split)

lemma resumed_row_checks: "row_checks row \<Longrightarrow> row_checks (resumed_row E now row)"
  by (simp add: resumed_row_def row_checks_def split: sum.split)

text \<open>A message to the user touches nothing but the messages, the identifiers and the events.\<close>

lemma run_tips:
  assumes "cs_fault s = None"
  shows "\<exists>d ms es. co_run (insert_missed_job_tips E job) s =
      ((), s\<lparr>cs_drawn := d, cs_messages := cs_messages s @ ms, cs_events := cs_events s @ es\<rparr>) \<and>
      filter is_executed es = []"
proof (cases "trimmed E (cj_conversation_id job) = []")
  case True
  then show ?thesis
    by (intro exI [of _ "cs_drawn s"] exI [of _ "[]"]) (simp add: insert_missed_job_tips_def)
next
  case False
  let ?m = "\<lparr>tp_id = en_generate_id E (cs_drawn s), tp_conversation_id = cj_conversation_id job,
      tp_content = missed_text job, tp_type = ''warning'', tp_created_at = cs_clock s\<rparr>"
  let ?ok = "tp_id ?m \<notin> set (map tp_id (cs_messages s)) \<and> cj_conversation_id job \<in> set (map vr_id (cs_convs s))"
  show ?thesis
  proof (cases ?ok)
    case True
    with False show ?thesis
      by (intro exI [of _ "cs_drawn s + 1"] exI [of _ "[?m]"]
          exI [of _ "[ConversationTips (cj_conversation_id job) (missed_text job) ''warning'']"])
        (simp add: insert_missed_job_tips_def insert_tips_message_def next_id_def insert_message_def
          guarded_def running assms emit_def)
  next
    case no: False
    with False show ?thesis
      by (intro exI [of _ "cs_drawn s + 1"] exI [of _ "[]"])
        (auto simp: insert_missed_job_tips_def insert_tips_message_def next_id_def insert_message_def
          guarded_def running assms)
  qed
qed

text \<open>Two statements on a row one after the other.\<close>

lemma run_updates:
  assumes "cs_fault s = None" and "table_ok s" and "row_of s i = Some row" and "p \<noteq> keep_all" and "q \<noteq> keep_all"
    and "row_checks (apply_update (cs_clock s) p row)"
    and "row_checks (apply_update (cs_clock s) q (apply_update (cs_clock s) p row))"
  defines "u \<equiv> s\<lparr>cs_jobs := set_row i (apply_update (cs_clock s) p) (cs_jobs s)\<rparr>"
  shows "update_job_row i p s = (Inr (), u)"
    and "cs_clock v = cs_clock s \<Longrightarrow> cs_fault v = None \<Longrightarrow> cs_jobs v = cs_jobs u \<Longrightarrow> update_job_row i q v = (Inr (), v\<lparr>cs_jobs :=
      set_row i (apply_update (cs_clock s) q \<circ> apply_update (cs_clock s) p) (cs_jobs s)\<rparr>)"
proof -
  show "update_job_row i p s = (Inr (), u)"
    unfolding u_def by (rule run_update [OF assms(1-3) assms(6,4)])
  assume v: "cs_clock v = cs_clock s" "cs_fault v = None" "cs_jobs v = cs_jobs u"
  have "table_ok u" "row_of u i = Some (apply_update (cs_clock s) p row)"
    using assms(2,3,6) by (simp_all add: u_def set_row_checks row_of_set_row)
  then have "table_ok v" "row_of v i = Some (apply_update (cs_clock s) p row)"
    by (simp_all add: table_ok_def row_of_def v(3))
  from run_update [OF v(2) this _ assms(5)] assms(7)
  show "update_job_row i q v = (Inr (), v\<lparr>cs_jobs :=
      set_row i (apply_update (cs_clock s) q \<circ> apply_update (cs_clock s) p) (cs_jobs s)\<rparr>)"
    by (simp add: v u_def set_row_twice)
qed

abbreviation (input) missing :: update_cron_job_params where
  "missing \<equiv> keep_all\<lparr>pp_last_status := Some (Some ''missed''), pp_last_error := Some None, pp_retry_count := Some 0\<rparr>"

definition after_missing :: "cron_env \<Rightarrow> timestamp_ms \<Rightarrow> cron_job \<Rightarrow> update_cron_job_params" where
  "after_missing E now job =
     (if is_at (cj_schedule job) then disabling
      else keep_all\<lparr>pp_next_run_at := Some (compute_next_run (en_crate E) (cj_schedule job) now)\<rparr>)"

lemma missed_row:
  assumes "cron_job_from_row (en_codec E) row = Inr job" and "overdue now (jr_next_run_at row)"
  shows "apply_update now (after_missing E now job) (apply_update now missing row) = resumed_row E now row"
  using assms from_row_fields [OF assms(1)]
  by (simp add: resumed_row_def resumed_job_def after_missing_def apply_update_def keep_all_def given_def disabling_def)

lemma missed_changes: "missing \<noteq> keep_all" "after_missing E now job \<noteq> keep_all" "row_checks row \<Longrightarrow> row_checks (apply_update now missing row)"
  by (simp_all add: after_missing_def keep_all_def disabling_def apply_update_def given_def row_checks_def)

lemma run_after_missed:
  assumes "update_job_row (cj_id job) (after_missing E (cs_clock v) job) v = (Inr (), w)"
    and "cs_timers w = cs_timers v" and "cj_enabled job" and "overdue (cs_clock v) (cj_next_run_at job)"
  shows "\<exists>ts. co_run (reschedule_after_missed E job) v = ((), w\<lparr>cs_timers := ts\<rparr>) \<and>
    hm_get ts = (hm_get (cs_timers v))(cj_id job := planned (resumed_job E (cs_clock v) job))"
proof (cases "is_at (cj_schedule job)")
  case True
  with assms have "co_run (reschedule_after_missed E job) v = ((), w\<lparr>cs_timers := cancel_job (cj_id job) (cs_timers v)\<rparr>)"
    by (simp add: reschedule_after_missed_def after_missing_def running)
  moreover have "planned (resumed_job E (cs_clock v) job) = None"
    using True assms(4) by (simp add: resumed_job_def planned_def)
  ultimately show ?thesis
    by (metis timers.timer_of_disarm)
next
  case False
  let ?job = "job\<lparr>cj_next_run_at := compute_next_run (en_crate E) (cj_schedule job) (cs_clock v)\<rparr>"
  from False assms(1,2)
  have "co_run (reschedule_after_missed E job) v = ((), w\<lparr>cs_timers := schedule_job ?job (cs_timers v)\<rparr>)"
    by (simp add: reschedule_after_missed_def after_missing_def running Let_def reschedule_job_def)
  moreover have "resumed_job E (cs_clock v) job = ?job"
    using False assms(4) by (simp add: resumed_job_def)
  ultimately show ?thesis
    using timers.timer_of_arm [of ?job "cs_timers v"] by auto
qed

lemma run_resume_row:
  assumes "cs_fault s = None" and "table_ok s" and "row_of s i = Some row"
    and "cron_job_from_row (en_codec E) row = Inr job" and "jr_enabled row"
  obtains ts d ms es where "co_run (resume_row E (cs_clock s) row) s =
      ((), s\<lparr>cs_jobs := set_row i (resumed_row E (cs_clock s)) (cs_jobs s), cs_timers := ts,
             cs_drawn := d, cs_messages := cs_messages s @ ms, cs_events := cs_events s @ es\<rparr>)"
    and "hm_get ts = (hm_get (cs_timers s))(i := resumed_timer E (cs_clock s) row)"
    and "filter is_executed es = missed_events (cs_clock s) [row]"
proof -
  let ?now = "cs_clock s"
  have i: "cj_id job = i" "jr_id row = i" "cj_next_run_at job = jr_next_run_at row" "cj_enabled job"
    using from_row_fields [OF assms(4)] row_of_Some [OF assms(3)] assms(5) by auto
  show thesis
  proof (cases "overdue ?now (jr_next_run_at row)")
    case False
    have "set_row i (resumed_row E ?now) (cs_jobs s) = cs_jobs s"
      unfolding set_row_def using False only_row [OF assms(2,3)]
      by (intro map_idI) (auto simp: resumed_row_def split: sum.split)
    moreover have "co_run (resume_row E ?now row) s = ((), s\<lparr>cs_timers := schedule_job job (cs_timers s)\<rparr>)"
      using False i(3) by (simp add: resume_row_def assms(4) overdue_def running reschedule_job_def)
    moreover have "resumed_timer E ?now row = planned job"
      using False i(3) by (simp add: resumed_timer_def assms(4) resumed_job_def)
    ultimately show thesis
      using that [where ts = "schedule_job job (cs_timers s)" and d = "cs_drawn s" and ms = "[]" and es = "[]"] False
      by (simp add: timers.timer_of_arm i(1) missed_events_def fun_upd_def)
  next
    case True
    let ?u = "s\<lparr>cs_jobs := set_row i (apply_update ?now missing) (cs_jobs s)\<rparr>"
    have checks: "row_checks row"
      using assms(2) row_of_Some [OF assms(3)] by (simp add: table_ok_def list_all_iff)
    note row' = missed_row [OF assms(4) True]
    note updates = run_updates [OF assms(1-3) missed_changes(1,2) missed_changes(3) [OF checks],
        of E ?now job, unfolded row', OF resumed_row_checks [OF checks]]
    obtain d ms es where tips: "co_run (insert_missed_job_tips E job) ?u =
        ((), ?u\<lparr>cs_drawn := d, cs_messages := cs_messages s @ ms, cs_events := cs_events s @ es\<rparr>)"
        "filter is_executed es = []"
      using run_tips [of ?u E job] assms(1) by auto
    let ?v = "?u\<lparr>cs_drawn := d, cs_messages := cs_messages s @ ms, cs_events := cs_events s @ es\<rparr>"
    let ?w = "?v\<lparr>cs_jobs := set_row i (resumed_row E ?now) (cs_jobs s)\<rparr>"
    have same: "set_row i (apply_update ?now (after_missing E ?now job) \<circ> apply_update ?now missing) (cs_jobs s) =
        set_row i (resumed_row E ?now) (cs_jobs s)"
      unfolding set_row_def using only_row [OF assms(2,3)] row' by (intro map_cong) auto
    have "update_job_row (cj_id job) (after_missing E (cs_clock ?v) job) ?v = (Inr (), ?w)"
      using updates(2) [of ?v] assms(1) by (simp add: i(1) same)
    from run_after_missed [OF this] True i obtain ts where ts:
        "co_run (reschedule_after_missed E job) ?v = ((), ?w\<lparr>cs_timers := ts\<rparr>)"
        "hm_get ts = (hm_get (cs_timers s))(i := planned (resumed_job E ?now job))"
      by auto
    have "co_run (resume_row E ?now row) s = ((), emit (JobExecuted i ''missed'' None) (?w\<lparr>cs_timers := ts\<rparr>))"
      using True updates(1) tips(1) ts(1)
      by (simp add: resume_row_def assms(4) overdue_def i record_missed_execution_def running)
    then show thesis
      using that [where ts = ts and d = d and ms = ms and es = "es @ [JobExecuted i ''missed'' None]"] ts(2) tips(2) True
      by (simp add: emit_def missed_events_def i resumed_timer_def assms(4) fun_upd_def)
  qed
qed

section \<open>All rows\<close>

lemma run_resume_rows:
  assumes "cs_fault s = None" and "table_ok s" and "distinct (map jr_id rows)"
    and "\<And>row. row \<in> set rows \<Longrightarrow> row_of s (jr_id row) = Some row \<and> jr_enabled row \<and>
      ok_of (cron_job_from_row (en_codec E) row) \<noteq> None"
  shows "\<exists>ts d ms es. co_run (co_for rows (resume_row E (cs_clock s))) s =
      ((), s\<lparr>cs_jobs := map (\<lambda>row. if jr_id row \<in> jr_id ` set rows then resumed_row E (cs_clock s) row else row)
                (cs_jobs s),
             cs_timers := ts, cs_drawn := d, cs_messages := cs_messages s @ ms, cs_events := cs_events s @ es\<rparr>) \<and>
    hm_get ts = (\<lambda>i. case find (\<lambda>row. jr_id row = i) rows of
      Some row \<Rightarrow> resumed_timer E (cs_clock s) row | None \<Rightarrow> hm_get (cs_timers s) i) \<and>
    filter is_executed es = missed_events (cs_clock s) rows"
  using assms
proof (induction rows arbitrary: s)
  case Nil
  show ?case
    by (intro exI [of _ "cs_timers s"] exI [of _ "cs_drawn s"] exI [of _ "[]"]) (simp add: missed_events_def)
next
  case (Cons row rows)
  let ?i = "jr_id row" and ?now = "cs_clock s"
  let ?set = "\<lambda>ids row. if jr_id row \<in> ids then resumed_row E ?now row else row"
  from Cons.prems(4) [of row] obtain job where row: "row_of s ?i = Some row" "jr_enabled row"
      "cron_job_from_row (en_codec E) row = Inr job"
    by auto
  obtain ts d ms es where first: "co_run (resume_row E ?now row) s =
      ((), s\<lparr>cs_jobs := set_row ?i (resumed_row E ?now) (cs_jobs s), cs_timers := ts,
             cs_drawn := d, cs_messages := cs_messages s @ ms, cs_events := cs_events s @ es\<rparr>)"
      "hm_get ts = (hm_get (cs_timers s))(?i := resumed_timer E ?now row)"
      "filter is_executed es = missed_events ?now [row]"
    by (rule run_resume_row [OF Cons.prems(1,2) row(1,3,2)])
  let ?s = "s\<lparr>cs_jobs := set_row ?i (resumed_row E ?now) (cs_jobs s), cs_timers := ts,
             cs_drawn := d, cs_messages := cs_messages s @ ms, cs_events := cs_events s @ es\<rparr>"
  have same: "cs_clock ?s = ?now" "cs_jobs ?s = set_row ?i (resumed_row E ?now) (cs_jobs s)" "cs_timers ?s = ts"
      "cs_messages ?s = cs_messages s @ ms" "cs_events ?s = cs_events s @ es"
    by simp_all
  have checks: "row_checks (resumed_row E ?now row)"
    using Cons.prems(2) row_of_Some [OF row(1)] by (simp add: table_ok_def list_all_iff resumed_row_checks)
  have "table_ok ?s"
    using set_row_checks [where f = "resumed_row E ?now", OF Cons.prems(2) row(1) checks]
    by (simp add: table_ok_def)
  moreover have "row_of ?s (jr_id r) = Some r \<and> jr_enabled r \<and> ok_of (cron_job_from_row (en_codec E) r) \<noteq> None"
    if "r \<in> set rows" for r
  proof -
    have "jr_id r \<noteq> ?i"
      using Cons.prems(3) that by (auto simp: image_iff)
    then show ?thesis
      using Cons.prems(4) [of r] that by (simp add: row_of_def find_set_row)
  qed
  ultimately obtain ts' d' ms' es' where rest: "co_run (co_for rows (resume_row E ?now)) ?s =
      ((), ?s\<lparr>cs_jobs := map (?set (jr_id ` set rows)) (set_row ?i (resumed_row E ?now) (cs_jobs s)),
              cs_timers := ts', cs_drawn := d', cs_messages := (cs_messages s @ ms) @ ms',
              cs_events := (cs_events s @ es) @ es'\<rparr>)"
      "hm_get ts' = (\<lambda>i. case find (\<lambda>row. jr_id row = i) rows of
        Some row \<Rightarrow> resumed_timer E ?now row | None \<Rightarrow> hm_get ts i)"
      "filter is_executed es' = missed_events ?now rows"
    using Cons.IH [of ?s, unfolded same] Cons.prems(1,3) by auto
  have "map (?set (jr_id ` set rows)) (set_row ?i (resumed_row E ?now) (cs_jobs s)) =
      map (?set (jr_id ` set (row # rows))) (cs_jobs s)"
    using Cons.prems(3) by (auto simp: set_row_def)
  moreover have "find (\<lambda>row. jr_id row = ?i) rows = None"
    using Cons.prems(3) by (auto simp: find_None_iff image_iff)
  then have "hm_get ts' = (\<lambda>i. case find (\<lambda>row. jr_id row = i) (row # rows) of
      Some row \<Rightarrow> resumed_timer E ?now row | None \<Rightarrow> hm_get (cs_timers s) i)"
    unfolding rest(2) first(2) by (auto simp: fun_eq_iff split: option.split)
  moreover have "filter is_executed (es @ es') = missed_events ?now (row # rows)"
    using rest(3) first(3) by (simp add: missed_events_def)
  ultimately show ?case
    using rest(1)
    by (intro exI [of _ ts'] exI [of _ d'] exI [of _ "ms @ ms'"] exI [of _ "es @ es'"])
      (simp add: running first(1))
qed

lemma run_list_enabled:
  "cs_fault s = None \<Longrightarrow> list_enabled_rows s = (Inr (sort_key jr_created_at (filter jr_enabled (cs_jobs s))), s)"
  by (simp add: list_enabled_rows_def guarded_def)

text \<open>The row of an id among those that are enabled, in whatever order.\<close>

lemma find_distinct:
  assumes "distinct (map jr_id rows)" and "row \<in> set rows"
  shows "find (\<lambda>r. jr_id r = jr_id row) rows = Some row"
  using assms by (induction rows) (auto simp: image_iff)

lemma enabled_distinct:
  "table_ok s \<Longrightarrow> distinct (map jr_id (sort_key jr_created_at (filter jr_enabled (cs_jobs s))))"
  by (auto simp: table_ok_def distinct_map intro: inj_on_subset)

lemma find_enabled:
  assumes "table_ok s"
  shows "find (\<lambda>row. jr_id row = i) (sort_key jr_created_at (filter jr_enabled (cs_jobs s))) =
    (case row_of s i of Some row \<Rightarrow> if jr_enabled row then Some row else None | None \<Rightarrow> None)"
proof -
  let ?rows = "sort_key jr_created_at (filter jr_enabled (cs_jobs s))"
  have distinct: "distinct (map jr_id ?rows)"
    by (rule enabled_distinct [OF assms])
  show ?thesis
  proof (cases "find (\<lambda>row. jr_id row = i) ?rows")
    case None
    then show ?thesis
      using row_of_Some [of s i] by (auto simp: find_None_iff split: option.split)
  next
    case (Some row)
    then have "row \<in> set (cs_jobs s)" "jr_enabled row" "jr_id row = i"
      using find_Some_mem [OF Some] by (auto simp: find_Some_iff)
    then show ?thesis
      using Some find_distinct [of "cs_jobs s" row] assms by (auto simp: row_of_def table_ok_def)
  qed
qed

lemma run_resume:
  assumes "cs_fault s = None" and "table_ok s"
    and "list_all (\<lambda>row. jr_enabled row \<longrightarrow> ok_of (cron_job_from_row (en_codec E) row) \<noteq> None) (cs_jobs s)"
  shows "\<exists>ts d ms es. co_run (handle_system_resume E) s =
      ((), s\<lparr>cs_jobs := map (\<lambda>row. if jr_enabled row then resumed_row E (cs_clock s) row else row) (cs_jobs s),
             cs_timers := ts, cs_drawn := d, cs_messages := cs_messages s @ ms, cs_events := cs_events s @ es\<rparr>) \<and>
    hm_get ts = (\<lambda>i. case row_of s i of
        Some row \<Rightarrow> if jr_enabled row then resumed_timer E (cs_clock s) row else hm_get (cs_timers s) i
      | None \<Rightarrow> hm_get (cs_timers s) i) \<and>
    filter is_executed es =
      missed_events (cs_clock s) (sort_key jr_created_at (filter jr_enabled (cs_jobs s)))"
proof -
  let ?rows = "sort_key jr_created_at (filter jr_enabled (cs_jobs s))"
  have distinct: "distinct (map jr_id ?rows)"
    by (rule enabled_distinct [OF assms(2)])
  have row: "row_of s (jr_id row) = Some row \<and> jr_enabled row \<and> ok_of (cron_job_from_row (en_codec E) row) \<noteq> None"
    if "row \<in> set ?rows" for row
    using that find_distinct [of "cs_jobs s" row] assms(2,3) by (auto simp: row_of_def table_ok_def list_all_iff)
  have jobs: "map (\<lambda>row. if jr_id row \<in> jr_id ` set ?rows then resumed_row E (cs_clock s) row else row) (cs_jobs s) =
      map (\<lambda>row. if jr_enabled row then resumed_row E (cs_clock s) row else row) (cs_jobs s)"
    using assms(2) by (auto simp: table_ok_def distinct_map dest: inj_onD)
  have timers: "(case find (\<lambda>row. jr_id row = i) ?rows of
      Some row \<Rightarrow> resumed_timer E (cs_clock s) row | None \<Rightarrow> hm_get (cs_timers s) i) =
    (case row_of s i of Some row \<Rightarrow> if jr_enabled row then resumed_timer E (cs_clock s) row else hm_get (cs_timers s) i
      | None \<Rightarrow> hm_get (cs_timers s) i)" for i
    by (simp add: find_enabled [OF assms(2)] split: option.split)
  have "co_run (handle_system_resume E) s = co_run (co_for ?rows (resume_row E (cs_clock s))) s"
    by (simp add: handle_system_resume_def running run_list_enabled [OF assms(1)])
  with run_resume_rows [OF assms(1,2) distinct row] show ?thesis
    by (simp only: jobs timers)
qed

end
