(* ===== verification/CronLife.thy ===== *)
theory CronLife
  imports CronRun
begin

text \<open>
  A job from its creation to the deletion of its conversation, and what an update or an execution that
  overlaps with another call leaves behind.
\<close>

section \<open>Creation\<close>

text \<open>A computation without state.\<close>

lemma run_try_Done:
  "co_run (co_try (Done r) f) s = (Inr x, t) \<longleftrightarrow> (\<exists>y. r = Inr y \<and> co_run (f y) s = (Inr x, t))"
  by (cases r) (simp_all add: co_try_def)

lemma run_Done_ok: "co_run (co_try (Done (Inr x)) f) s = co_run (f x) s"
  by (simp add: co_try_def)

lemma run_workspace_raw:
  "cs_fault s = None \<Longrightarrow> \<exists>r. co_run (resolve_job_workspace_raw E job) s = (Inr r, s)"
  by (auto simp: resolve_job_workspace_raw_def resolve_execution_workspace_raw_def running split: option.split)

lemma run_validate_workspace:
  "cs_fault s = None \<Longrightarrow> snd (co_run (validate_job_workspace E job) s) = s"
  using run_workspace_raw [of s E job] by (auto simp: validate_job_workspace_def running)

text \<open>Binding the conversation to the job writes conversations only.\<close>

lemma run_bind_existing:
  "\<exists>convs. co_run (bind_existing_conversation_if_needed E job) s = ((), s\<lparr>cs_convs := convs\<rparr>)"
proof -
  have s: "s\<lparr>cs_convs := cs_convs s\<rparr> = s"
    by simp
  have "\<exists>convs. snd (co_run (bind_cron_job_to_conversation E c i) s) = s\<lparr>cs_convs := convs\<rparr>" for c i
  proof (cases "cs_fault s")
    case None
    then show ?thesis
      using s by (auto simp: bind_cron_job_to_conversation_def running Let_def update_conversation_def guarded_def
          split: option.split intro: sym exI [of _ "cs_convs s"])
  next
    case (Some m)
    then show ?thesis
      using s by (auto simp: bind_cron_job_to_conversation_def running get_conversation_def guarded_def
          intro: sym exI [of _ "cs_convs s"])
  qed
  then show ?thesis
    using s by (auto simp: bind_existing_conversation_if_needed_def running intro: sym exI [of _ "cs_convs s"])
qed

lemma run_store_new_job:
  assumes "cs_fault s = None" and "co_run (store_new_job E job0) s = (Inr job, t)"
  obtains row convs where "job = job0" and "cron_job_to_row (en_codec E) job0 = Inr row"
    and "jr_id row \<notin> set (map jr_id (cs_jobs s))"
    and "t = emit (JobCreated (cron_job_to_response job0)) (s\<lparr>cs_jobs := cs_jobs s @ [row], cs_convs := convs,
      cs_timers := schedule_job job0 (cs_timers s)\<rparr>)"
proof -
  from assms(2) obtain s1 where s1: "co_run (validate_job_workspace E job0) s = (Inr (), s1)"
    by (auto simp: store_new_job_def running split: prod.splits sum.splits)
  with run_validate_workspace [OF assms(1), of E job0] have [simp]: "s1 = s"
    by simp
  from assms(2) s1 obtain row where row: "cron_job_to_row (en_codec E) job0 = Inr row"
      "jr_id row \<notin> set (map jr_id (cs_jobs s))"
    by (auto simp: store_new_job_def running insert_job_row_def guarded_def assms(1)
        split: prod.splits sum.splits if_splits)
  let ?s = "s\<lparr>cs_jobs := cs_jobs s @ [row]\<rparr>"
  obtain convs where bind: "co_run (bind_existing_conversation_if_needed E job0) ?s = ((), ?s\<lparr>cs_convs := convs\<rparr>)"
    using run_bind_existing by blast
  from assms(2) s1 row bind show thesis
    by (intro that [of row convs])
      (auto simp: store_new_job_def running insert_job_row_def guarded_def assms(1) split: if_splits)
qed

text \<open>The row of a job meets the constraints of the table, so storing can only fail for its id.\<close>

lemma row_of_job_checks:
  assumes "cron_job_to_row C job = Inr row"
  shows "row_checks row" and "jr_id row = cj_id job"
proof -
  have "schedule_to_row_fields (cj_schedule job) = (k, v, tz, d) \<Longrightarrow> k \<in> {''at'', ''every'', ''cron''}" for k v tz d
    by (cases "cj_schedule job") auto
  moreover have "execution_mode_as_str m \<in> {''existing'', ''new_conversation''}" for m
    by (cases m) simp_all
  moreover have "created_by_as_str b \<in> {''user'', ''agent''}" for b
    by (cases b) simp_all
  moreover have "job_status_as_str st \<in> {''ok'', ''error'', ''skipped'', ''missed''}" for st
    by (cases st) simp_all
  ultimately show "row_checks row"
    using assms by (fastforce simp: cron_job_to_row_def row_checks_def split: prod.splits option.split)
  show "jr_id row = cj_id job"
    using assms by (auto simp: cron_job_to_row_def split: prod.splits)
qed

lemma run_store_ok:
  assumes "codec_ok (en_codec E)" and "schedule_in_range (cj_schedule job)" and "cs_fault s = None"
    and "config_workspace job = Some w" and "trimmed E w = [] \<or> en_path E w = PathDirectory"
    and "cj_id job \<notin> set (map jr_id (cs_jobs s))"
  shows "fst (co_run (store_new_job E job) s) = Inr job"
proof -
  obtain row where row: "cron_job_to_row (en_codec E) job = Inr row"
    using job_row_round_trip [OF assms(1,2)] by blast
  have "co_run (validate_job_workspace E job) s = (Inr (), s)"
    using assms(4,5) by (auto simp: validate_job_workspace_def resolve_job_workspace_raw_def running
        resolve_execution_workspace_raw_def workspace_verdict_def validate_workspace_path_availability_def)
  moreover obtain convs where "co_run (bind_existing_conversation_if_needed E job) (s\<lparr>cs_jobs := cs_jobs s @ [row]\<rparr>) =
      ((), s\<lparr>cs_jobs := cs_jobs s @ [row]\<rparr>\<lparr>cs_convs := convs\<rparr>)"
    using run_bind_existing by blast
  ultimately show ?thesis
    using row_of_job_checks [OF row] assms(3,6)
    by (simp add: store_new_job_def running row insert_job_row_def guarded_def)
qed

lemma run_add_job:
  assumes "cs_fault s = None" and "co_run (add_job E req) s = (Inr job, t)"
  obtains t0 config where
      "validate_schedule (en_crate E) (schedule_from_dto (cq_schedule req)) = Inr ()"
    and "resolve_new_job_agent_type E (cq_agent_config req) = Inr t0"
    and "transposed (\<lambda>config. build_cron_agent_config E t0 (sanitize_agent_config_dto (en_ws E) config))
       (cq_agent_config req) = Inr config"
    and "cj_agent_config job = config" and "cj_agent_type job = t0"
    and "cj_schedule job = schedule_from_dto (cq_schedule req)"
    and "cj_id job = en_generate_id E (cs_drawn s)" and "cj_enabled job"
    and "cj_next_run_at job = compute_next_run (en_crate E) (cj_schedule job) (cs_clock s)"
    and "co_run (store_new_job E job) (s\<lparr>cs_drawn := cs_drawn s + 1\<rparr>) = (Inr job, t)"
proof -
  from assms(2) obtain t0 mode by_whom config where
    parts: "validate_schedule (en_crate E) (schedule_from_dto (cq_schedule req)) = Inr ()"
      "resolve_new_job_agent_type E (cq_agent_config req) = Inr t0"
      "parse_execution_mode (cq_execution_mode req) = Inr mode"
      "created_by_from_str (cq_created_by req) = Inr by_whom"
      "transposed (\<lambda>config. build_cron_agent_config E t0 (sanitize_agent_config_dto (en_ws E) config))
         (cq_agent_config req) = Inr config"
    and rest: "co_run (co_bind (peek cs_clock) (\<lambda>now.
     co_bind (next_id E) (\<lambda>job_id. store_new_job E \<lparr>cj_id = job_id, cj_name = cq_name req, cj_enabled = True,
           cj_schedule = schedule_from_dto (cq_schedule req),
           cj_message = given (opt_else (cq_message req) (cq_prompt req)) [],
           cj_execution_mode = mode, cj_agent_config = config,
           cj_conversation_id = cq_conversation_id req, cj_conversation_title = cq_conversation_title req,
           cj_agent_type = t0, cj_created_by = by_whom, cj_skill_content = None,
           cj_description = cq_description req, cj_created_at = now, cj_updated_at = now,
           cj_next_run_at = compute_next_run (en_crate E) (schedule_from_dto (cq_schedule req)) now,
           cj_last_run_at = None, cj_last_status = None, cj_last_error = None, cj_run_count = 0,
           cj_retry_count = 0, cj_max_retries = 3\<rparr>))) s = (Inr job, t)"
    unfolding add_job_def add_job_internal_def Let_def run_try_Done option.case
    by (elim exE conjE) (rule that; (assumption | simp))
  from rest obtain job0 where job0: "co_run (store_new_job E job0) (s\<lparr>cs_drawn := cs_drawn s + 1\<rparr>) = (Inr job, t)"
    and fields: "cj_agent_config job0 = config" "cj_agent_type job0 = t0"
      "cj_schedule job0 = schedule_from_dto (cq_schedule req)" "cj_id job0 = en_generate_id E (cs_drawn s)"
      "cj_enabled job0" "cj_next_run_at job0 = compute_next_run (en_crate E) (cj_schedule job0) (cs_clock s)"
    by (auto simp: running next_id_def)
  moreover have "job = job0"
    by (rule run_store_new_job [OF _ job0]) (simp_all add: assms(1))
  ultimately show thesis
    using parts by (intro that) simp_all
qed

text \<open>
  The agent type is not stored: it is found again from the assistant in the configuration, if the
  request named it without white space around it.
\<close>

lemma new_job_agent_type:
  assumes "resolve_new_job_agent_type E dto = Inr t0"
    and "transposed (\<lambda>config. build_cron_agent_config E t0 (sanitize_agent_config_dto (en_ws E) config)) dto =
      Inr config"
    and "\<And>a. Option.bind dto wd_assistant_id = Some a \<Longrightarrow> trimmed E a = a"
    and "cj_agent_config job = config" and "cj_agent_type job = []"
  shows "resolve_job_agent_type E job = Inr t0"
proof -
  obtain d a where d: "dto = Some d" "wd_assistant_id d = Some a" "resolve_agent_type_for_assistant_id E a = Inr t0"
    using assms(1) by (auto simp: resolve_new_job_agent_type_def bind_eq_Some_conv split: option.splits)
  have a: "trimmed E a = a"
    using assms(3) d by simp
  obtain c where c: "config = Some c"
      "build_cron_agent_config E t0 (sanitize_agent_config_dto (en_ws E) d) = Inr c"
    using assms(2) d(1) by auto
  have "a \<noteq> [] \<and> ac_assistant_id c = Some a"
    using c(2) by (auto simp: build_cron_agent_config_def sanitize_agent_config_dto_def d(2) a Let_def non_blank_def
      split: if_splits option.splits)
  then show ?thesis
    using a d(3) by (simp add: resolve_job_agent_type_def assms(4,5) c(1) non_blank_def str_trim_def trim_start_def)
qed

lemma find_append_new:
  "i \<notin> jr_id ` set rows \<Longrightarrow> find (\<lambda>row. jr_id row = i) (rows @ [row]) = (if jr_id row = i then Some row else None)"
  by (induction rows) auto

section \<open>Deletion of a conversation\<close>

lemma run_cancel_rows:
  "co_run (co_for rows (\<lambda>row. co_bind (on_timers (cancel_job (jr_id row))) (\<lambda>_. tell (JobRemoved (jr_id row))))) s =
    ((), s\<lparr>cs_timers := fold (\<lambda>row. cancel_job (jr_id row)) rows (cs_timers s),
           cs_events := cs_events s @ map (\<lambda>row. JobRemoved (jr_id row)) rows\<rparr>)"
  by (induction rows arbitrary: s) (simp_all add: running emit_def)

lemma timers_of_cancelled:
  "hm_get (fold (\<lambda>row. cancel_job (jr_id row)) rows ts) i = (if i \<in> jr_id ` set rows then None else hm_get ts i)"
  by (induction rows arbitrary: ts) (auto simp: timers.timer_of_disarm)

section \<open>Overlaps and failures\<close>

text \<open>A request that only sets the number of retries stores nothing.\<close>

lemma max_retries_is_not_stored:
  assumes "cs_fault s = None" and "uq_schedule req = None" and "uq_enabled req = None" and "uq_name req = None"
    and "uq_message req = None" and "uq_execution_mode req = None" and "uq_agent_config req = None"
    and "uq_conversation_title req = None" and "uq_description req = None"
  shows "update_job_row i (build_update_params E job req) s = (Inr (), s)"
proof -
  have "build_update_params E job req = keep_all"
    using assms(2-9)
    by (cases "schedule_to_row_fields (cj_schedule job)") (simp add: build_update_params_def keep_all_def)
  then show ?thesis
    by (simp add: update_job_row_def)
qed

text \<open>
  What an execution records at its end is decided by the job as it was at its start: a job that was
  disabled in between is armed again.
\<close>

lemma stale_job_is_armed_again:
  assumes "cj_enabled job" and "\<not> is_at (cj_schedule job)"
    and "compute_next_run (en_crate E) (cj_schedule job) (cs_clock s) = Some next_run"
  shows "hm_get (cs_timers (snd (co_run (reschedule_after_execution E job) s))) (cj_id job) =
    Some \<lparr>ct_plan = plan_of (cj_schedule job), ct_due = Some next_run, ct_started = False\<rparr>"
proof -
  have "cs_timers (snd (update_job_row i p s)) = cs_timers s" for i p
    by (simp add: update_job_row_def guarded_def Let_def split: option.split)
  then show ?thesis
    using assms by (simp add: reschedule_after_execution_def running Let_def reschedule_job_def
        timers.timer_of_arm planned_def split: prod.split)
qed

text \<open>
  A suggestion whose artifact cannot be stored is remembered all the same, so the next check with the
  same content finds nothing to do.
\<close>

lemma suggestion_is_lost:
  assumes "trimmed E w \<noteq> []" and "en_io E = None" and "validate_job_id job_id = Inr ()"
    and "hm_get (cs_files s) (path_join (path_join (en_data_dir E) ''cron/skills'') (''cron-'' @ job_id)) = None"
    and "trimmed E content \<noteq> []" and "validate_skill_content (en_ws E) content = Inr validated"
    and "hm_get (cs_hashes s) job_id = None" and "cs_fault s = Some m"
    and "u = snd (co_run (check_and_emit E hash (Inr (Some content)) c job_id w) s)\<lparr>cs_fault := None\<rparr>"
  shows "co_run (check_and_emit E hash (Inr (Some content)) c job_id w) u = (Inr True, u)"
    and "cs_artifacts u = cs_artifacts s"
proof -
  have has: "has_skill_file (en_io E) (en_data_dir E) job_id v = Inr False" if "cs_files v = cs_files s" for v
    using assms(2-4) that by (simp add: has_skill_file_def cron_skill_dir_def cron_skill_name_def hm_has_def)
  have u: "u = s\<lparr>cs_hashes := hm_insert job_id (content_hash hash (en_ws E) content) (cs_hashes s), cs_fault := None\<rparr>"
    using assms(1,5-8) has [OF refl]
    by (simp add: assms(9) check_and_emit_def running Let_def upsert_artifact_def guarded_def)
  show "co_run (check_and_emit E hash (Inr (Some content)) c job_id w) u = (Inr True, u)"
    using assms(1,5,6) by (simp add: u check_and_emit_def running has Let_def hm_simps)
  show "cs_artifacts u = cs_artifacts s"
    by (simp add: u)
qed

end
