(* ===== verification/CronSample.thy ===== *)
theory CronSample
  imports CronLife
begin

text \<open>
  A concrete environment of the service, for the witnesses: a codec that writes a text as its
  characters, each after a mark, an option as a mark that says whether something follows, and a cron
  crate that knows one expression, which fires every minute.
\<close>

section \<open>A codec\<close>

text \<open>A reader takes what its writer wrote off the front of a text.\<close>

definition reads :: "('a \<Rightarrow> string) \<Rightarrow> (string \<Rightarrow> 'a \<times> string) \<Rightarrow> bool" where
  "reads put get \<longleftrightarrow> (\<forall>x r. get (put x @ r) = (x, r))"

definition put_text :: "string \<Rightarrow> string" where
  "put_text s = concat (map (\<lambda>c. [CHR ''+'', c]) s) @ ''.''"

fun get_text :: "string \<Rightarrow> string \<times> string" where
  "get_text (c # d # r) =
     (if c = CHR ''+'' then map_prod ((#) d) id (get_text r) else ([], d # r))"
| "get_text _ = ([], [])"

fun put_option :: "('a \<Rightarrow> string) \<Rightarrow> 'a option \<Rightarrow> string" where
  "put_option put None = ''.''"
| "put_option put (Some x) = CHR ''+'' # put x"

fun get_option :: "(string \<Rightarrow> 'a \<times> string) \<Rightarrow> string \<Rightarrow> 'a option \<times> string" where
  "get_option get [] = (None, [])"
| "get_option get (c # r) = (if c = CHR ''+'' then map_prod Some id (get r) else (None, r))"

definition put_pair :: "('a \<Rightarrow> string) \<Rightarrow> ('b \<Rightarrow> string) \<Rightarrow> 'a \<times> 'b \<Rightarrow> string" where
  "put_pair f g p = f (fst p) @ g (snd p)"

definition get_pair ::
    "(string \<Rightarrow> 'a \<times> string) \<Rightarrow> (string \<Rightarrow> 'b \<times> string) \<Rightarrow> string \<Rightarrow> ('a \<times> 'b) \<times> string" where
  "get_pair f g r = (case f r of (x, r) \<Rightarrow> map_prod (Pair x) id (g r))"

definition put_list :: "('a \<Rightarrow> string) \<Rightarrow> 'a list \<Rightarrow> string" where
  "put_list put xs = concat (map (\<lambda>x. CHR ''+'' # put x) xs) @ ''.''"

fun get_list :: "nat \<Rightarrow> (string \<Rightarrow> 'a \<times> string) \<Rightarrow> string \<Rightarrow> 'a list \<times> string" where
  "get_list (Suc n) get (c # r) =
     (if c = CHR ''+'' then case get r of (x, r) \<Rightarrow> map_prod ((#) x) id (get_list n get r) else ([], r))"
| "get_list _ get r = ([], r)"

fun put_bool :: "bool \<Rightarrow> string" where
  "put_bool b = (if b then ''+'' else ''.'')"

fun get_bool :: "string \<Rightarrow> bool \<times> string" where
  "get_bool [] = (False, [])"
| "get_bool (c # r) = (c = CHR ''+'', r)"

named_theorems reading \<open>readers that take back what was written\<close>

lemma reads_text [reading]: "reads put_text get_text"
proof -
  have "get_text (put_text s @ r) = (s, r)" for s r
    by (induction s) (cases r; simp add: put_text_def)+
  then show ?thesis
    by (simp add: reads_def)
qed

lemma reads_bool [reading]: "reads put_bool get_bool"
  by (simp add: reads_def)

lemma reads_option [reading]: "reads put get \<Longrightarrow> reads (put_option put) (get_option get)"
  unfolding reads_def by (intro allI, case_tac x) simp_all

lemma reads_pair [reading]: "reads f f' \<Longrightarrow> reads g g' \<Longrightarrow> reads (put_pair f g) (get_pair f' g')"
  by (simp add: reads_def put_pair_def get_pair_def)

lemma reads_list [reading]:
  assumes "reads put get"
  shows "reads (put_list put) (\<lambda>r. get_list (length r) get r)"
proof -
  have "get_list n get (put_list put xs @ r) = (xs, r)" if "length xs < n" for n xs r
    using that
  proof (induction xs arbitrary: n)
    case Nil
    then show ?case by (cases n) (simp_all add: put_list_def)
  next
    case (Cons x xs)
    then obtain m where "n = Suc m" "length xs < m"
      by (cases n) auto
    with Cons.IH [of m] assms show ?case
      by (simp add: put_list_def reads_def)
  qed
  moreover have "length xs < length (put_list put xs @ r)" for xs r
    by (induction xs) (simp_all add: put_list_def)
  ultimately show ?thesis
    by (simp add: reads_def)
qed

type_synonym config_fields =
  "string \<times> string option \<times> bool option \<times> string option \<times> string option \<times> string option \<times> string option \<times>
       (string \<times> string \<times> string option) option \<times> (string \<times> string) list option \<times> string option"

definition put_fields :: "config_fields \<Rightarrow> string" where
  "put_fields = put_pair put_text (put_pair (put_option put_text) (put_pair (put_option put_bool)
     (put_pair (put_option put_text) (put_pair (put_option put_text) (put_pair (put_option put_text)
     (put_pair (put_option put_text) (put_pair (put_option (put_pair put_text (put_pair put_text (put_option put_text))))
     (put_pair (put_option (put_list (put_pair put_text put_text))) (put_option put_text)))))))))"

definition get_fields :: "string \<Rightarrow> config_fields \<times> string" where
  "get_fields = get_pair get_text (get_pair (get_option get_text) (get_pair (get_option get_bool)
     (get_pair (get_option get_text) (get_pair (get_option get_text) (get_pair (get_option get_text)
     (get_pair (get_option get_text) (get_pair (get_option (get_pair get_text (get_pair get_text (get_option get_text))))
     (get_pair (get_option (\<lambda>r. get_list (length r) (get_pair get_text get_text) r)) (get_option get_text)))))))))"

lemma reads_fields: "reads put_fields get_fields"
  unfolding put_fields_def get_fields_def by (intro reading)

definition config_fields :: "cron_agent_config \<Rightarrow> config_fields" where
  "config_fields config =
     (ac_name config, ac_cli_path config, ac_is_preset config, ac_assistant_id config,
      ac_custom_agent_id config, ac_mode config, ac_model_id config,
      map_option (\<lambda>m. (pm_provider_id m, pm_model m, pm_use_model m)) (ac_model config),
      ac_config_options config, ac_workspace config)"

fun fields_config :: "config_fields \<Rightarrow> cron_agent_config" where
  "fields_config (name, cli_path, is_preset, assistant, custom, mode, model_id, model, options, workspace) =
     \<lparr>ac_name = name, ac_cli_path = cli_path, ac_is_preset = is_preset, ac_assistant_id = assistant,
      ac_custom_agent_id = custom, ac_mode = mode, ac_model_id = model_id,
      ac_model = map_option (\<lambda>(p, m, u). \<lparr>pm_provider_id = p, pm_model = m, pm_use_model = u\<rparr>) model,
      ac_config_options = options, ac_workspace = workspace\<rparr>"

lemma fields_of_config: "fields_config (config_fields config) = config"
  by (cases "ac_model config") (simp_all add: config_fields_def)

definition sample_codec :: cron_codec where
  "sample_codec = \<lparr>cc_config_to_string = (\<lambda>c. Inr (put_fields (config_fields c))),
     cc_config_from_str = (\<lambda>s. Inr (fields_config (fst (get_fields s)))),
     cc_json_from_str = (\<lambda>s. Some (JObject [])), cc_json_to_string = (\<lambda>j. ''{}''),
     cc_error_text = (\<lambda>s. ''not a value'')\<rparr>"

lemma sample_codec_ok: "codec_ok sample_codec"
proof -
  have "fst (get_fields (put_fields f)) = f" for f
    using reads_fields by (metis append_Nil2 fst_conv reads_def)
  then show ?thesis
    by (simp add: codec_ok_def sample_codec_def fields_of_config)
qed

section \<open>A cron crate and an environment\<close>

definition sample_crate :: cron_crate where
  "sample_crate = \<lparr>xc_whitespace = (\<lambda>c. c = CHR '' ''),
     xc_parse_error = (\<lambda>e. if e = ''0 * * * * *'' then None else Some ''not an expression''),
     xc_zone = (\<lambda>z. z = ''UTC''),
     xc_next = (\<lambda>e z now. let t = (now div 60000 + 1) * 60000 in if in_i64 t then Some t else None)\<rparr>"

lemma sample_crate_ok: "crate_ok sample_crate"
proof -
  have "now < (now div 60000 + 1) * 60000" for now :: int
    by presburger
  then show ?thesis
    by (simp add: crate_ok_def sample_crate_def Let_def)
qed

definition sample_env :: cron_env where
  "sample_env = \<lparr>en_crate = sample_crate, en_codec = sample_codec, en_lowercase = id, en_data_dir = ''/data'',
     en_work_dir = ''/work'', en_io = None, en_generate_id = (\<lambda>n. ''cron_'' @ show_nat n),
     en_path = (\<lambda>p. PathDirectory), en_mkdir = (\<lambda>p. None),
     en_definitions = [\<lparr>ad_id = ''d1'', ad_assistant_id = ''helper'', ad_source = ''builtin'', ad_name = ''Helper'',
       ad_agent_id = ''a1'', ad_deleted = False\<rparr>],
     en_overlays = [],
     en_agents = [\<lparr>am_id = ''a1'', am_name = ''Claude'', am_backend = Some ''claude'', am_agent_type = ''acp'',
       am_agent_source = ''builtin'', am_sort_order = 0\<rparr>],
     en_catalog_error = None, en_builtin = (\<lambda>l. None),
     en_create = (\<lambda>u q. Inr \<lparr>vr_id = ''new'', vr_user_id = u, vr_name = rq_name q, vr_type = ''acp'',
       vr_extra = ''{}'', vr_model = None, vr_updated_at = 0\<rparr>),
     en_task_options = (\<lambda>row w. None), en_build_task = (\<lambda>c. Inr ''/work/c''),
     en_get_mode = (\<lambda>c. Inr ''default''), en_set_mode = (\<lambda>c m. None), en_send = (\<lambda>u c m. None)\<rparr>"

definition sample_conversation :: conversation_row where
  "sample_conversation = \<lparr>vr_id = ''c1'', vr_user_id = ''u1'', vr_name = ''Chat'', vr_type = ''acp'',
     vr_extra = ''{}'', vr_model = None, vr_updated_at = 0\<rparr>"

text \<open>A job every minute in an existing conversation, due at 60000, as its row.\<close>

definition sample_job :: cron_job where
  "sample_job = \<lparr>cj_id = ''j1'', cj_name = ''Ping'', cj_enabled = True, cj_schedule = EverySchedule 60000 None,
     cj_message = ''ping'', cj_execution_mode = ExistingConversation, cj_agent_config = Some
       \<lparr>ac_name = ''Helper'', ac_cli_path = None, ac_is_preset = None, ac_assistant_id = Some ''helper'',
        ac_custom_agent_id = None, ac_mode = None, ac_model_id = None, ac_model = None,
        ac_config_options = None, ac_workspace = Some ''/work/c''\<rparr>,
     cj_conversation_id = ''c1'', cj_conversation_title = None, cj_agent_type = [],
     cj_created_by = CreatedByUser, cj_skill_content = None, cj_description = None, cj_created_at = 0,
     cj_updated_at = 0, cj_next_run_at = Some 60000, cj_last_run_at = None, cj_last_status = None,
     cj_last_error = None, cj_run_count = 0, cj_retry_count = 0, cj_max_retries = 3\<rparr>"

definition sample_row :: cron_job_row where
  "sample_row = (case cron_job_to_row sample_codec sample_job of Inr row \<Rightarrow> row)"

definition sample_state :: cron_state where
  "sample_state = empty_cron_state\<lparr>cs_jobs := [sample_row], cs_timers := schedule_job sample_job [],
     cs_convs := [sample_conversation]\<rparr>"

text \<open>The same in a state where a turn has claimed the conversation.\<close>

lemma sample_row_parses: "cron_job_from_row sample_codec sample_row = Inr sample_job"
proof -
  have "schedule_in_range (cj_schedule sample_job)"
    by (simp add: sample_job_def in_i64_def i64_min_def i64_max_def)
  from job_row_round_trip [OF sample_codec_ok this] obtain row
    where "cron_job_to_row sample_codec sample_job = Inr row"
      and "cron_job_from_row sample_codec row = Inr (sample_job\<lparr>cj_agent_type := []\<rparr>)"
    by blast
  then show ?thesis
    by (simp add: sample_row_def) (simp add: sample_job_def)
qed

lemma sample_row_fields:
  "jr_id sample_row = ''j1''" "jr_enabled sample_row = True" "jr_conversation_id sample_row = ''c1''"
  "jr_retry_count sample_row = 0" "row_checks sample_row"
  by (simp_all add: sample_row_def cron_job_to_row_def sample_job_def sample_codec_def row_checks_def)

lemma sample_inv: "cron_inv sample_codec sample_crate sample_state"
proof -
  have "row_ok sample_codec sample_crate sample_row"
    by (simp add: row_ok_def sample_row_parses) (simp add: job_ok_def sample_job_def in_i64_def i64_min_def i64_max_def)
  moreover have "timers_ok (schedule_job sample_job [])"
    by (simp add: timers_ok_def schedule_job_def cancel_job_def sample_job_def timer_ok_def Let_def)
  ultimately show ?thesis
    by (simp add: cron_inv_def sample_state_def empty_cron_state_def)
qed

definition busy_state :: cron_state where
  "busy_state = sample_state\<lparr>cs_claims := [''c1'']\<rparr>"

lemma sample_backend: "resolve_assistant_backend sample_env (Some ''helper'') = Inr (Some ''claude'')"
  by (simp add: resolve_assistant_backend_def get_by_assistant_id_def catalog_def effective_agent_id_def given_def
      runtime_backend_for_agent_id_def resolve_agent_binding_from_rows_def runtime_backend_for_agent_def
      opt_else_def Let_def sample_env_def sample_crate_def str_trim_def trim_start_def cong: if_cong)

lemma sample_agent_type: "resolve_agent_type_for_assistant_id sample_env ''helper'' = Inr ''acp''"
  by (simp add: resolve_agent_type_for_assistant_id_def get_by_assistant_id_def catalog_def effective_agent_id_def
      given_def runtime_backend_for_agent_id_def resolve_agent_binding_from_rows_def runtime_backend_for_agent_def
      runtime_agent_type_for_backend_def opt_else_def Let_def sample_env_def sample_crate_def str_trim_def
      trim_start_def cong: if_cong)

lemma sample_trims:
  "trimmed sample_env ''helper'' = ''helper''" "trimmed sample_env ''c1'' = ''c1''"
  by (simp_all add: sample_env_def sample_crate_def str_trim_def trim_start_def)

lemma sample_workspace: "en_path sample_env w = PathDirectory" "en_io sample_env = None"
  by (simp_all add: sample_env_def)

lemma sample_busy: "busy_job sample_env sample_row sample_job ''acp'' busy_state"
proof -
  have "resolve_job_agent_type sample_env sample_job = Inr ''acp''"
    by (simp add: resolve_job_agent_type_def sample_job_def non_blank_def sample_trims sample_agent_type)
  moreover have "cron_job_from_row (en_codec sample_env) sample_row = Inr sample_job"
    using sample_row_parses by (simp add: sample_env_def)
  ultimately show ?thesis
    by (simp add: busy_job_def busy_state_def sample_state_def empty_cron_state_def table_ok_def row_of_def
        sample_row_fields)
      (simp add: sample_job_def sample_trims sample_conversation_def config_workspace_def validate_job_id_def
        sublist_code sample_workspace)
qed

lemma sample_first_retry: "row_of (fire_at sample_env ''j1'' 60000 busy_state) ''j1'' = Some (retried 60000 1 sample_row)"
  and sample_due: "due_of busy_state ''j1'' = Some 60000"
proof -
  show due: "due_of busy_state ''j1'' = Some 60000"
    by (simp add: due_of_def busy_state_def sample_state_def empty_cron_state_def timers.timer_of_arm)
     (simp add: sample_job_def planned_def)
  have "busy_job sample_env (retried 60000 1 sample_row) (sample_job\<lparr>cj_retry_count := 1, cj_updated_at := 60000\<rparr>) ''acp''
      (fire_at sample_env ''j1'' 60000 busy_state)"
    using fire_retry(1) [OF sample_busy, of 60000 60000] due by (simp add: sample_row_fields RETRY_INTERVAL_MS_def in_i64_def i64_min_def i64_max_def)
     (simp add: sample_job_def)
  from busyD(3) [OF this] show "row_of (fire_at sample_env ''j1'' 60000 busy_state) ''j1'' = Some (retried 60000 1 sample_row)"
    by (simp add: sample_row_fields)
qed

text \<open>A request for a job every hour, for the same assistant and conversation.\<close>

definition sample_request :: create_cron_job_request where
  "sample_request = \<lparr>cq_name = ''Hourly'', cq_description = None, cq_schedule = EveryDto 3600000 None,
     cq_prompt = None, cq_message = Some ''report'', cq_conversation_id = ''c1'', cq_conversation_title = None,
     cq_created_by = ''user'', cq_execution_mode = Some ''existing'', cq_agent_config = Some
       \<lparr>wd_name = ''Helper'', wd_cli_path = None, wd_assistant_id = Some ''helper'', wd_mode = None,
        wd_model_id = None, wd_model = None, wd_config_options = None, wd_workspace = Some ''/work/c''\<rparr>\<rparr>"

lemma sample_add:
  obtains job t where "co_run (add_job sample_env sample_request) sample_state = (Inr job, t)"
    and "cj_id job = ''cron_0''" and "cj_enabled job" and "cj_next_run_at job = Some 3600000"
proof -
  have type: "resolve_new_job_agent_type sample_env (cq_agent_config sample_request) = Inr ''acp''"
    by (simp add: sample_request_def resolve_new_job_agent_type_def sample_agent_type)
  let ?config = "\<lambda>d. build_cron_agent_config sample_env ''acp'' (sanitize_agent_config_dto (en_ws sample_env) d)"
  obtain config where config: "transposed ?config (cq_agent_config sample_request) = Inr (Some config)"
      "ac_workspace config = Some ''/work/c''"
    by (simp add: sample_request_def build_cron_agent_config_def sanitize_agent_config_dto_def sample_trims
        non_blank_def sample_backend normalize_model_def Let_def)
  let ?job = "\<lparr>cj_id = ''cron_0'', cj_name = ''Hourly'', cj_enabled = True, cj_schedule = EverySchedule 3600000 None,
     cj_message = ''report'', cj_execution_mode = ExistingConversation, cj_agent_config = Some config,
     cj_conversation_id = ''c1'', cj_conversation_title = None, cj_agent_type = ''acp'',
     cj_created_by = CreatedByUser, cj_skill_content = None, cj_description = None, cj_created_at = 0,
     cj_updated_at = 0, cj_next_run_at = Some 3600000, cj_last_run_at = None, cj_last_status = None,
     cj_last_error = None, cj_run_count = 0, cj_retry_count = 0, cj_max_retries = 3\<rparr>"
  have s: "cs_clock sample_state = 0" "cs_drawn sample_state = 0" "en_generate_id sample_env 0 = ''cron_0''"
    by (simp_all add: sample_state_def empty_cron_state_def sample_env_def show_nat.simps char_of_def bit_0)
  have "co_run (add_job sample_env sample_request) sample_state =
    co_run (store_new_job sample_env ?job) (sample_state\<lparr>cs_drawn := 1\<rparr>)"
    using type config(1)
    by (simp add: add_job_def add_job_internal_def run_Done_ok sample_request_def validate_aionrs_agent_config_def
        parse_execution_mode_def created_by_from_str_def running next_id_def s Let_def given_def opt_else_def
        wrap_i64_exact in_i64_def i64_min_def i64_max_def)
  moreover have "fst (co_run (store_new_job sample_env ?job) (sample_state\<lparr>cs_drawn := 1\<rparr>)) = Inr ?job"
    by (rule run_store_ok [where w = "''/work/c''"])
      (simp_all add: sample_env_def sample_codec_ok in_i64_def i64_min_def i64_max_def config_workspace_def config(2)
        sample_state_def empty_cron_state_def sample_row_fields)
  ultimately show thesis
    using that [of ?job] by (metis prod.collapse cron_job.select_convs(1,3,16))
qed

end
