(* ===== verification/CronProps.thy ===== *)
theory CronProps
  imports CronResume CronLife CronSample
begin

text \<open>
  Properties of scheduled jobs: what every interleaving leaves valid, and what a busy conversation, a
  resume and the deletion of a conversation do to the jobs.
\<close>

section \<open>The table stays well typed\<close>

text \<open>
  C3. In every interleaving of any calls of the service, of its timers, of deletions of conversations
  and of moves of the environment (the clock, a failing database, claimed and edited conversations),
  every row of the table is well typed: it parses to a job whose schedule is valid, with the default
  number of retries and a retry count within it. Job ids are distinct, and no timer has an interval
  of zero, on which its task would panic. The database, the codec and the cron crate may answer
  anything; of serde only that a configuration it writes is read back as the same is assumed.
\<close>

theorem stored_jobs_stay_valid:
  assumes "codec_ok C" and "list_all (served_by C X) calls" and "cron_inv C X s"
    and "t = snd (pool_run schedule (map (case_prod cron_method) calls) s)"
  shows "list_all (\<lambda>row. \<exists>job. cron_job_from_row C row = Inr job \<and>
      validate_schedule X (cj_schedule job) = Inr () \<and> schedule_in_range (cj_schedule job) \<and>
      cj_max_retries job = 3 \<and> 0 \<le> cj_retry_count job \<and> cj_retry_count job \<le> 3) (cs_jobs t) \<and>
    distinct (map jr_id (cs_jobs t)) \<and> list_all timer_ok (map snd (cs_timers t))"
  using cron_inv_pool [OF assms(1-3), of schedule]
  by (auto simp: assms(4) [symmetric] cron_inv_def row_ok_def job_ok_def timers_ok_def list_all_iff)

text \<open>A job is due and its conversation busy: the timer calls, and the retry is recorded.\<close>

theorem stored_jobs_stay_valid_witness:
  "\<exists>schedule. let t = snd (pool_run schedule (map (case_prod cron_method)
       [(sample_env, CallTimer ''j1''), (sample_env, MoveClock 60000)]) busy_state) in
     row_of t ''j1'' = Some (retried 60000 1 sample_row) \<and>
     list_all (\<lambda>row. ok_of (cron_job_from_row sample_codec row) \<noteq> None) (cs_jobs t) \<and>
     list_all timer_ok (map snd (cs_timers t))"
proof -
  let ?calls = "[(sample_env, CallTimer ''j1''), (sample_env, MoveClock 60000)]"
  let ?pool = "[fire_timer sample_env ''j1'', Done ()]"
  have "co_next (atomic (\<lambda>s. ((), s\<lparr>cs_clock := 60000\<rparr>))) busy_state = (Done (), busy_state\<lparr>cs_clock := 60000\<rparr>)"
    by (simp add: co_next_eval)
  then have clock: "pool_run (1 # schedule) (map (case_prod cron_method) ?calls) busy_state =
      pool_run schedule ?pool (busy_state\<lparr>cs_clock := 60000\<rparr>)" for schedule
    by (simp add: pool_run_eval)
  obtain n where "pool_run (replicate n 0) ?pool (busy_state\<lparr>cs_clock := 60000\<rparr>) =
      (?pool[0 := Done (fst (co_run (?pool ! 0) (busy_state\<lparr>cs_clock := 60000\<rparr>)))],
       snd (co_run (?pool ! 0) (busy_state\<lparr>cs_clock := 60000\<rparr>)))"
    using pool_alone [of 0 ?pool "busy_state\<lparr>cs_clock := 60000\<rparr>"] by auto
  then have n: "snd (pool_run (replicate n 0) ?pool (busy_state\<lparr>cs_clock := 60000\<rparr>)) =
      fire_at sample_env ''j1'' 60000 busy_state"
    by (simp add: fire_at_def)
  let ?t = "snd (pool_run (1 # replicate n 0) (map (case_prod cron_method) ?calls) busy_state)"
  have "list_all (served_by sample_codec sample_crate) ?calls"
    by (simp add: served_by_def) (simp add: sample_env_def)
  moreover have "cron_inv sample_codec sample_crate busy_state"
    using sample_inv by (simp add: cron_inv_def busy_state_def)
  ultimately have "list_all (\<lambda>row. \<exists>job. cron_job_from_row sample_codec row = Inr job \<and>
      validate_schedule sample_crate (cj_schedule job) = Inr () \<and> schedule_in_range (cj_schedule job) \<and>
      cj_max_retries job = 3 \<and> 0 \<le> cj_retry_count job \<and> cj_retry_count job \<le> 3) (cs_jobs ?t)"
    and "list_all timer_ok (map snd (cs_timers ?t))"
    using stored_jobs_stay_valid [OF sample_codec_ok _ _ refl] by blast+
  moreover have "row_of ?t ''j1'' = Some (retried 60000 1 sample_row)"
    by (simp only: clock n sample_first_retry)
  ultimately show ?thesis
    by (intro exI [of _ "1 # replicate n 0"]) (auto simp: Let_def list_all_iff)
qed

section \<open>A busy conversation\<close>

text \<open>
  C4. A recurring job is due and a turn holds its conversation. The timer's first call records a
  retry and arms a timer thirty seconds later; so do the second and the third, whenever they come.
  The fourth gives up: the job is recorded as skipped, its retries are back at zero, an event says so,
  and it is armed for the next run of its schedule, counted from then. No other job or timer, no
  conversation, message, artifact or file changes.
\<close>

theorem busy_job_is_retried_then_skipped:
  assumes "busy_job E row job t s" and "cj_retry_count job = 0" and "cj_max_retries job = 3"
    and "\<not> is_at (cj_schedule job)" and "due_of s (jr_id row) = Some due" and "due \<le> t0"
    and "t0 + 30000 \<le> t1" and "t1 + 30000 \<le> t2" and "t2 + 30000 \<le> t3" and "0 \<le> t0" and "in_i64 t3"
  shows "let i = jr_id row; trace = fire_trace E i [t0, t1, t2, t3] s;
      next_run = compute_next_run (en_crate E) (cj_schedule job) t3 in
    map (\<lambda>u. map_option jr_retry_count (row_of u i)) trace = [Some 1, Some 2, Some 3, Some 0] \<and>
    map (\<lambda>u. due_of u i) trace = [Some (t0 + 30000), Some (t1 + 30000), Some (t2 + 30000), next_run] \<and>
    map cs_events trace = [cs_events s, cs_events s, cs_events s, cs_events s @ [JobExecuted i ''skipped'' None]] \<and>
    row_of (last trace) i = Some (row\<lparr>jr_last_status := Some ''skipped'', jr_retry_count := 0,
      jr_next_run_at := next_run, jr_updated_at := t3\<rparr>) \<and>
    only_job i s (last trace)"
  using busy_trace [OF assms(1-6) _ _ _ assms(10,11), of t1 t2] assms(7-9)
  by (simp add: Let_def RETRY_INTERVAL_MS_def)

theorem busy_job_is_retried_then_skipped_witness:
  "let trace = fire_trace sample_env ''j1'' [60000, 90000, 121000, 151000] busy_state in
    map (\<lambda>u. map_option jr_retry_count (row_of u ''j1'')) trace = [Some 1, Some 2, Some 3, Some 0] \<and>
    map (\<lambda>u. due_of u ''j1'') trace = [Some 90000, Some 120000, Some 151000, Some 211000] \<and>
    only_job ''j1'' busy_state (last trace)"
proof -
  have "\<not> is_at (cj_schedule sample_job)" "cj_retry_count sample_job = 0" "cj_max_retries sample_job = 3"
      "compute_next_run (en_crate sample_env) (cj_schedule sample_job) 151000 = Some 211000"
    by (simp_all add: sample_job_def wrap_i64_exact in_i64_def i64_min_def i64_max_def)
  with busy_job_is_retried_then_skipped [OF sample_busy this(2,3,1), of 60000 60000 90000 121000 151000]
  show ?thesis
    by (simp add: sample_row_fields sample_due in_i64_def i64_min_def i64_max_def Let_def)
qed

section \<open>Resume\<close>

text \<open>
  C5. After the system was suspended, every enabled job is settled on its own, as the specification
  says without an order: a job whose run has passed is recorded as missed and gets its next run (or is
  disabled, when it had a single date), every other job keeps its row, and both are armed for the run
  they then have. Disabled jobs and their timers stay as they are. Each missed job is announced, in the
  order of creation, and nothing is executed: no conversation, artifact, file or check is touched.
\<close>

theorem resume_settles_every_job:
  assumes "cs_fault s = None" and "table_ok s"
    and "list_all (\<lambda>row. jr_enabled row \<longrightarrow> ok_of (cron_job_from_row (en_codec E) row) \<noteq> None) (cs_jobs s)"
  shows "let now = cs_clock s; t = snd (co_run (handle_system_resume E) s) in
    cs_jobs t = map (\<lambda>row. if jr_enabled row then resumed_row E now row else row) (cs_jobs s) \<and>
    hm_get (cs_timers t) = (\<lambda>i. case row_of s i of
        Some row \<Rightarrow> if jr_enabled row then resumed_timer E now row else hm_get (cs_timers s) i
      | None \<Rightarrow> hm_get (cs_timers s) i) \<and>
    filter is_executed (cs_events t) = filter is_executed (cs_events s) @
      missed_events now (sort_key jr_created_at (filter jr_enabled (cs_jobs s))) \<and>
    cs_convs t = cs_convs s \<and> cs_artifacts t = cs_artifacts s \<and> cs_checks t = cs_checks s \<and>
    cs_files t = cs_files s"
  using run_resume [OF assms] by (auto simp: Let_def)

text \<open>The job of the sample, a minute late: it is missed, not run, and due again in a minute.\<close>

theorem resume_settles_every_job_witness:
  "let t = snd (co_run (handle_system_resume sample_env) (sample_state\<lparr>cs_clock := 120000\<rparr>)) in
    map (\<lambda>row. (jr_last_status row, jr_next_run_at row)) (cs_jobs t) = [(Some ''missed'', Some 180000)] \<and>
    due_of t ''j1'' = Some 180000 \<and>
    filter is_executed (cs_events t) = [JobExecuted ''j1'' ''missed'' None]"
proof -
  let ?s = "sample_state\<lparr>cs_clock := 120000\<rparr>"
  have parses: "cron_job_from_row (en_codec sample_env) sample_row = Inr sample_job"
    using sample_row_parses by (simp add: sample_env_def)
  have s: "cs_fault ?s = None" "cs_jobs ?s = [sample_row]" "cs_events ?s = []" "row_of sample_state ''j1'' = Some sample_row"
    by (simp_all add: sample_state_def empty_cron_state_def row_of_def sample_row_fields)
  have job: "jr_next_run_at sample_row = Some 60000" "cj_next_run_at sample_job = Some 60000"
      "\<not> is_at (cj_schedule sample_job)" "cj_enabled sample_job"
      "compute_next_run (en_crate sample_env) (cj_schedule sample_job) 120000 = Some 180000"
    using from_row_fields [OF parses]
    by (simp_all add: sample_job_def wrap_i64_exact in_i64_def i64_min_def i64_max_def)
  have "table_ok ?s" "list_all (\<lambda>row. jr_enabled row \<longrightarrow> ok_of (cron_job_from_row (en_codec sample_env) row) \<noteq> None) (cs_jobs ?s)"
    by (simp_all add: table_ok_def s sample_row_fields parses)
  from resume_settles_every_job [OF s(1) this] show ?thesis
    by (simp add: s sample_row_fields due_of_def resumed_row_def resumed_timer_def resumed_job_def parses
        overdue_def job planned_def missed_events_def Let_def)
qed

section \<open>Creation and deletion\<close>

text \<open>
  C6. A job that \<open>add_job\<close> answers is found by its id as it was answered, after its way through the
  columns of the table, and with the agent type that is not stored but found again. Its schedule has
  been validated, its next run is the one of its schedule, it is armed for it, no other timer is
  touched, and the one event carries the job. The assistant must be named without white space around
  it.
\<close>

theorem created_job_is_found:
  assumes "codec_ok (en_codec E)" and "cs_fault s = None"
    and "schedule_in_range (schedule_from_dto (cq_schedule req))"
    and "\<And>a. Option.bind (cq_agent_config req) wd_assistant_id = Some a \<Longrightarrow> trimmed E a = a"
    and "co_run (add_job E req) s = (Inr job, t)"
  shows "co_run (get_job E (cj_id job)) t = (Inr job, t) \<and>
    hm_get (cs_timers t) = (hm_get (cs_timers s))(cj_id job := planned job) \<and>
    cs_events t = cs_events s @ [JobCreated (cron_job_to_response job)] \<and>
    validate_schedule (en_crate E) (cj_schedule job) = Inr () \<and>
    cj_next_run_at job = compute_next_run (en_crate E) (cj_schedule job) (cs_clock s)"
proof -
  obtain t0 config where job:
      "validate_schedule (en_crate E) (schedule_from_dto (cq_schedule req)) = Inr ()"
      "resolve_new_job_agent_type E (cq_agent_config req) = Inr t0"
      "transposed (\<lambda>config. build_cron_agent_config E t0 (sanitize_agent_config_dto (en_ws E) config))
         (cq_agent_config req) = Inr config"
      "cj_agent_config job = config" "cj_agent_type job = t0"
      "cj_schedule job = schedule_from_dto (cq_schedule req)"
      "cj_next_run_at job = compute_next_run (en_crate E) (cj_schedule job) (cs_clock s)"
    and stored: "co_run (store_new_job E job) (s\<lparr>cs_drawn := cs_drawn s + 1\<rparr>) = (Inr job, t)"
    by (rule run_add_job [OF assms(2,5)])
  obtain row convs where row: "cron_job_to_row (en_codec E) job = Inr row" "jr_id row \<notin> set (map jr_id (cs_jobs s))"
    and t: "t = emit (JobCreated (cron_job_to_response job)) (s\<lparr>cs_drawn := cs_drawn s + 1,
      cs_jobs := cs_jobs s @ [row], cs_convs := convs, cs_timers := schedule_job job (cs_timers s)\<rparr>)"
    by (rule run_store_new_job [OF _ stored]) (simp_all add: assms(2))
  have read: "cron_job_from_row (en_codec E) row = Inr (job\<lparr>cj_agent_type := []\<rparr>)"
    using job_row_round_trip [OF assms(1), of job] assms(3) row(1) job(6) by auto
  have "resolve_job_agent_type E (job\<lparr>cj_agent_type := []\<rparr>) = Inr t0"
    by (rule new_job_agent_type [OF job(2,3) assms(4)]) (simp_all add: job(4))
  moreover have "row_of t (cj_id job) = Some row"
    using row(2) from_row_fields [OF read] by (simp add: t row_of_def find_append_new)
  ultimately have "co_run (get_job E (cj_id job)) t = (Inr job, t)"
    using read job(5) assms(2) by (simp add: get_job_def load_job_def load_row_def running t)
  then show ?thesis
    using job by (simp add: t timers.timer_of_arm fun_upd_def)
qed

theorem created_job_is_found_witness:
  "\<exists>job t. co_run (add_job sample_env sample_request) sample_state = (Inr job, t) \<and>
    co_run (get_job sample_env ''cron_0'') t = (Inr job, t) \<and>
    due_of t ''cron_0'' = Some 3600000 \<and> cs_events t = [JobCreated (cron_job_to_response job)]"
proof -
  obtain job t where run: "co_run (add_job sample_env sample_request) sample_state = (Inr job, t)"
    and job: "cj_id job = ''cron_0''" "cj_enabled job" "cj_next_run_at job = Some 3600000"
    by (rule sample_add)
  have "codec_ok (en_codec sample_env)" "cs_fault sample_state = None" "cs_events sample_state = []"
    by (simp_all add: sample_env_def sample_codec_ok sample_state_def empty_cron_state_def)
  moreover have "schedule_in_range (schedule_from_dto (cq_schedule sample_request))"
      "Option.bind (cq_agent_config sample_request) wd_assistant_id = Some a \<Longrightarrow> trimmed sample_env a = a" for a
    by (auto simp: sample_request_def in_i64_def i64_min_def i64_max_def sample_env_def sample_crate_def
        str_trim_def trim_start_def)
  ultimately show ?thesis
    using created_job_is_found [OF _ _ _ _ run] job run
    by (intro exI [of _ job] exI [of _ t]) (simp add: due_of_def planned_def)
qed

text \<open>
  C8. When a conversation is deleted its jobs go with it: their rows and their timers are gone, each is
  announced once, in the order of creation, and everything else is as before.
\<close>

theorem deleted_conversation_takes_its_jobs:
  assumes "cs_fault s = None"
  shows "let t = snd (co_run (delete_jobs_by_conversation c) s);
      theirs = sort_key jr_created_at (filter (\<lambda>row. jr_conversation_id row = c) (cs_jobs s)) in
    t = s\<lparr>cs_jobs := filter (\<lambda>row. jr_conversation_id row \<noteq> c) (cs_jobs s), cs_timers := cs_timers t,
          cs_events := cs_events s @ map (\<lambda>row. JobRemoved (jr_id row)) theirs\<rparr> \<and>
    hm_get (cs_timers t) = (\<lambda>i. if i \<in> jr_id ` set theirs then None else hm_get (cs_timers s) i)"
  using assms
  by (simp add: delete_jobs_by_conversation_def running list_rows_by_conversation_def delete_rows_by_conversation_def
      guarded_def run_cancel_rows timers_of_cancelled Let_def fun_eq_iff)

theorem deleted_conversation_takes_its_jobs_witness:
  "let t = snd (co_run (delete_jobs_by_conversation ''c1'') sample_state) in
    cs_jobs t = [] \<and> hm_get (cs_timers t) ''j1'' = None \<and> cs_events t = [JobRemoved ''j1'']"
proof -
  let ?t = "snd (co_run (delete_jobs_by_conversation ''c1'') sample_state)"
  have s: "cs_fault sample_state = None" "cs_jobs sample_state = [sample_row]" "cs_events sample_state = []"
    by (simp_all add: sample_state_def empty_cron_state_def)
  from deleted_conversation_takes_its_jobs [OF s(1), of "''c1''"]
  have t: "?t = sample_state\<lparr>cs_jobs := [], cs_timers := cs_timers ?t, cs_events := [JobRemoved ''j1'']\<rparr>"
      "hm_get (cs_timers ?t) ''j1'' = None"
    by (simp_all only: s Let_def) (simp_all add: sample_row_fields)
  have "cs_jobs ?t = []" "cs_events ?t = [JobRemoved ''j1'']"
    by (subst t(1), simp)+
  with t(2) show ?thesis
    by (simp add: Let_def)
qed

end
