(* ===== verification/Spec2Isabelle.thy ===== *)
theory Spec2Isabelle
  imports TeamRunLifecycle TeamRunReport TeamRunCancel ConvRuntime SchedulerTurns
    TeamSessionTurn TeamRunWire RateLimit ExtPermission ExtRegistryPool CronProps
begin

text \<open>
  A verification development for VeryAgentCore, the backend of an agent desktop: conversations
  with coding agents, teams of agents that work on a task together, extensions, and the HTTP
  server around them. The development models the parts that decide something: who runs when in
  a team, who owns a conversation, what a user is allowed to do how often, and what an extension
  may contribute. Paths below are relative to \<open>src/crates\<close>.

  \<^bold>\<open>Teams\<close> (\<open>veryagent-team\<close>). A team has a leader and teammates, each in a slot. A message to a
  team opens a \<^emph>\<open>run\<close>; work reaches a slot as a \<^emph>\<open>wake\<close>, a wake becomes a child turn of the agent
  of the slot, and the run ends when nothing is left.
    \<^item> \<open>TeamWake\<close>: the sources of a wake and their classes (\<open>wake.rs\<close>). \<open>TeamError\<close>: the errors
      (\<open>error.rs\<close>).
    \<^item> \<open>SlotWakeGate\<close>: the gate of paused slots (\<open>slot_wake_gate.rs\<close>), with the protocol of a pause.
    \<^item> \<open>TeamRunState\<close>, \<open>TeamRun\<close>: the record of a run and every operation of \<open>TeamRunManager\<close>
      (\<open>team_run.rs\<close>). Each method is a function from the time, its arguments and the manager to its
      result, the events it broadcasts and the new manager: this is its section under the mutex of the
      manager. Most methods release the mutex before they broadcast; which events are sent under it is
      the \<open>held\<close> of a method, and what is sent later is sent one event at a time, with anything in
      between, in \<open>TeamRunWire\<close> and in the session. \<open>TeamRunInv\<close> keeps the invariant, as an instance of the
      locale \<open>guarded_machine\<close>; \<open>TeamRunLifecycle\<close> states the abstract life of a run and proves that
      every operation simulates it; \<open>TeamRunProps\<close>, \<open>TeamRunReport\<close> and \<open>TeamRunCancel\<close> hold the
      properties of the sections, in whatever order they take the mutex, and the traces that show
      what goes wrong; \<open>TeamRunWire\<close> says what listeners hear when calls overlap.
    \<^item> \<open>TeamTypes\<close>, \<open>TeamStore\<close>: messages, tasks, their rows (\<open>types.rs\<close>) and the SQL statements on the
      tables \<open>mailbox\<close> and \<open>team_tasks\<close> (\<open>veryagent-db/src/repository/sqlite_team.rs\<close>). \<open>Mailbox\<close> and
      \<open>TaskBoard\<close> are the operations over them (\<open>mailbox.rs\<close>, \<open>task_board.rs\<close>), with delivery in order
      and the links between tasks. The order of rows with the same time is the database's, and any.
    \<^item> \<open>Scheduler\<close>, \<open>SchedulerActions\<close>: \<open>TeammateManager\<close> (\<open>scheduler/\<close>), the slots of a team with their
      status, the actions at the end of a turn, crashes and the finalize window, written in a
      state and error monad. \<open>SchedulerProps\<close> holds what they promise, \<open>SchedulerTurns\<close> the ends of
      turns: a finish is dropped while the window of an earlier one is open, and how the window closes early.

    \<^item> \<open>Coroutine\<close>: asynchronous methods. A method is a \<open>coroutine\<close>, a sequence of critical sections
      where each decides the next; \<open>co_run\<close> runs one alone, \<open>pool_run\<close> interleaves many by a schedule,
      and the locale \<open>rely_guarantee\<close> proves an invariant for every schedule from what each section
      does to it.
    \<^item> \<open>TeamSession\<close>, \<open>TeamLoop\<close>, \<open>TeamSpawn\<close>: the methods of a live session (\<open>session.rs\<close>), the event loop
      of an agent (\<open>event_loop.rs\<close>), the projection of messages into conversations
      (\<open>message_projection.rs\<close>, \<open>visibility.rs\<close>) and the agents that join. They call the manager, the
      mailbox and the scheduler above, one section per call and one per event that is sent after the
      manager was released. \<open>TeamSessionInv\<close> shows what every
      operation of the manager keeps of the wakes of the user, \<open>TeamSessionProps\<close> interprets
      \<open>rely_guarantee\<close>, \<open>TeamSessionPool\<close> concludes for every interleaving of any calls, and
      \<open>TeamSessionTurn\<close> composes a message of the user with the loop that works it off.

  \<^bold>\<open>Conversations\<close> (\<open>veryagent-conversation/src/runtime_state.rs\<close>). \<open>ConvRuntime\<close> models the claim of a
  turn, its release and the waiters, with every interleaving of their critical sections as a
  sequence of steps. \<open>ResponseMiddleware\<close> is what is done to a finished message of an agent
  (\<open>response_middleware.rs\<close>): thoughts are cut out, commands for scheduled jobs are found, run and cut
  out. The regular expressions are matchers that say whether a match begins at the start of a text.

  \<^bold>\<open>Rate limits\<close> (\<open>veryagent-auth/src/rate_limit.rs\<close>). \<open>RateLimit\<close> models the limiter with its counts
  and times as machine words, and its three middlewares.

  \<^bold>\<open>Scheduled jobs\<close> (\<open>veryagent-cron\<close>, with the table \<open>cron_jobs\<close> of \<open>veryagent-db\<close>).
    \<^item> \<open>CronTypes\<close>: jobs, their rows, requests and responses, the errors, and the way of a job through
      its row and back (\<open>types.rs\<close>, \<open>error.rs\<close>, \<open>veryagent-api-types/src/cron.rs\<close>).
    \<^item> \<open>CronSchedule\<close>: when a job runs next, and the table of timers (\<open>scheduler.rs\<close>), with the locale
      \<open>timer_service\<close> for what the service relies on. \<open>CronSkill\<close>: the texts of skill files
      (\<open>skill_file.rs\<close>). \<open>CronPrompt\<close>: the prompts (\<open>prompt.rs\<close>).
    \<^item> \<open>CronStore\<close>: the state the jobs work on and each access to it: statements, files, artifacts and
      events. \<open>CronExec\<close>: the execution of a job (\<open>executor.rs\<close>, \<open>skill_suggest.rs\<close>). \<open>CronService\<close>: every
      method of the service (\<open>service.rs\<close>). \<open>CronCommands\<close>: the commands in the messages of agents
      (\<open>ICronService for CronService\<close>, \<open>task_options.rs\<close>). All are coroutines, with one section for each access.
    \<^item> \<open>CronInv\<close>, \<open>CronPool\<close>: the invariant of the table and the timers as an interpretation of
      \<open>rely_guarantee\<close>, kept by every method in every interleaving. \<open>CronRun\<close>, \<open>CronResume\<close>, \<open>CronLife\<close>:
      what a method comes to when it runs alone, a resume next to its specification, and what
      overlaps leave behind. \<open>CronProps\<close> holds the properties, \<open>CronSample\<close> a concrete environment
      for their witnesses.

  \<^bold>\<open>Extensions\<close> (\<open>veryagent-extension\<close>). \<open>ExtTypes\<close> is the data (\<open>types.rs\<close>), \<open>ExtPermission\<close> the risk
  analysis (\<open>permission.rs\<close>), \<open>ExtDependency\<close> and \<open>ExtDependencyProps\<close> the dependency check and the
  load order (\<open>dependency.rs\<close>), \<open>ExtAssets\<close> the paths and templates (\<open>asset_paths.rs\<close>, \<open>template.rs\<close>, the
  asset handler of \<open>routes.rs\<close>), \<open>ExtResolvers\<close> the contributions (\<open>resolvers/\<close>), \<open>ExtRegistry\<close> and
  \<open>ExtRegistryProps\<close> loading, states, reload and switches (\<open>loader.rs\<close>, \<open>state.rs\<close>, \<open>lifecycle.rs\<close>,
  \<open>registry_helpers.rs\<close>, \<open>registry.rs\<close>). There an operation is one step, which is what it comes to
  when nothing interrupts it; \<open>ExtRegistryPool\<close> has the methods as their critical sections, on the
  registry and on the store, which are locked apart.

  \<^bold>\<open>Conventions\<close>. A struct is a record, an enum a datatype. A hash map is an association list
  (\<open>Prelude\<close>) whose order is the iteration order of the map, which the theorems leave arbitrary;
  where the code sorts, the model sorts. Time and fresh identifiers are arguments. Time stamps
  of the database are 64-bit and use saturating arithmetic where the code does; the limiter
  wraps. Errors are the left of a sum, a loop that could fail to return is option valued, and the
  theorems that it returns are among the properties (the dependency check). No fuel is used but for
  the event loop, which waits for ever by intention: \<open>drain_loop\<close> makes as many passes as its list
  has behaviours of the port, and the theorem on it says that two are enough.
  Histories are lists of operations: a theorem about all histories of a component with one lock that
  is held throughout (the gate, the limiter, the sections of the run manager) is about every order in
  which callers can get hold of the lock; for the mailbox, the task board, the scheduler and the registry of
  \<open>ExtRegistryProps\<close> it is about calls made one after the other. Overlapping calls are pools of
  coroutines. Text is a list of bytes; trimming takes off the white space of one byte that a predicate
  names, not the white space of several bytes that the code also knows. Code that is not in the repository is a parameter:
  \<open>json_codec\<close> and \<open>states_codec\<close> for serde_json, \<open>semver\<close> for version requirements, \<open>filesystem\<close>
  for the disk, \<open>cron_codec\<close> and \<open>cron_crate\<close> for what scheduled jobs use of serde_json and the cron
  crates, \<open>cron_env\<close> for what their executions call outside of the crate, a function for the
  environment; what is relied on is a hypothesis (\<open>json_ok\<close>, \<open>states_codec_ok\<close>, \<open>codec_ok\<close>, \<open>works\<close>,
  identifiers that are not drawn twice), and a witness instantiates it.

  \<^bold>\<open>What the lemmas show\<close>. Of teams: every reachable run is well formed, in every interleaving of calls each accepted run
  is announced once and closed once (though not always before the next one is announced), it completes exactly when no work is left, and work is conserved when it moves between
  the queues; a cancelled run ends unless an operation holds a lease; messages are delivered once
  and in the order of their times; links between tasks are two-way until the blocking task completes; the leader is woken exactly when all have
  settled; in every interleaving of the methods of a session a wake of the user names a message
  that is in the mailbox, and a message of the user is worked off. Of conversations: at most one open claim, no lost wake-up. Of messages of agents: commands are each run once, in a fixed order,
  and not shown. Of the limiter: the capacity of every window, and that cleaning up is invisible. Of scheduled jobs: every stored row
  stays valid in every interleaving, a busy job is retried three times and skipped, a resume does to
  each job what its specification says, a job that is created is found, a skill file is read back as
  it was written. Of extensions: the load order,
  the verdict of the dependency check against a reference definition, confinement of paths and
  routes, the contributions of exactly the enabled extensions, the round trip of the state file, that
  the contributions follow the extensions in every interleaving, and that the store follows them when
  calls are made one after the other.

  \<^bold>\<open>Not modelled\<close>. Everything that is input and output: agent processes, streams, HTTP, WebSockets,
  the file system beyond the calls above, SQL beyond the tables named. Of scheduled jobs the HTTP
  routes are left out, and the wait for the end of a turn before a suggested skill is looked for. The service that keeps teams and
  their sessions (\<open>service.rs\<close>, \<open>provisioning.rs\<close>), the TCP server of a session and the prompts are not;
  what a session needs of them is an argument of its methods. The conversation service awaits
  foreign code between the calls of the runtime state and is not modelled either. Log output is left out throughout.
\<close>

end
